(* ===== verification/Prelude.thy ===== *)
theory Prelude
  imports Main "HOL-Library.Word" "HOL-Library.Signed_Division"
begin

text \<open>
  Shared foundation of the Creditra development: the names of the model's basic types, Rust's
  fixed-width integer arithmetic (checked, saturating and casting operations on
  \<^typ>\<open>int\<close> with the range written out), the \<open>Result\<close> combinators in which every
  entrypoint is written, a loop combinator for fallible state transformers, and generic lemmas on
  sums over the domain of a finite map.

  The workspace is built with \<^verbatim>\<open>overflow-checks = true\<close> (\<^verbatim>\<open>Cargo.toml\<close>), so a bare
  arithmetic operator that leaves its range panics; the model has that panic wherever the source
  uses a bare operator whose result can leave the range.
\<close>

section \<open>Names of the basic types\<close>

type_synonym address = nat
type_synonym symbol = string
type_synonym i128 = int
type_synonym u128 = int
type_synonym u64 = int
type_synonym u32 = int
type_synonym u8 = "8 word"
type_synonym bytes = "u8 list"

named_theorems int_defs "unfoldings of the fixed-width integer operations"
named_theorems res_elims "what a successful result of a fallible step says"

section \<open>Fixed-width integers\<close>

definition i128_max :: int where [int_defs]: "i128_max = 170141183460469231731687303715884105727"
definition i128_min :: int where [int_defs]: "i128_min = - 170141183460469231731687303715884105728"
definition u128_max :: int where [int_defs]: "u128_max = 340282366920938463463374607431768211455"
definition u64_max :: int where [int_defs]: "u64_max = 18446744073709551615"
definition u32_max :: int where [int_defs]: "u32_max = 4294967295"

definition in_i128 :: "int \<Rightarrow> bool" where
  [int_defs]: "in_i128 x \<longleftrightarrow> i128_min \<le> x \<and> x \<le> i128_max"
definition in_u128 :: "int \<Rightarrow> bool" where
  [int_defs]: "in_u128 x \<longleftrightarrow> 0 \<le> x \<and> x \<le> u128_max"
definition in_u64 :: "int \<Rightarrow> bool" where
  [int_defs]: "in_u64 x \<longleftrightarrow> 0 \<le> x \<and> x \<le> u64_max"
definition in_u32 :: "int \<Rightarrow> bool" where
  [int_defs]: "in_u32 x \<longleftrightarrow> 0 \<le> x \<and> x \<le> u32_max"

definition checked :: "(int \<Rightarrow> bool) \<Rightarrow> int \<Rightarrow> int option" where
  [int_defs]: "checked R x = (if R x then Some x else None)"

definition checked_add_i128 :: "i128 \<Rightarrow> i128 \<Rightarrow> i128 option" where
  [int_defs]: "checked_add_i128 a b = checked in_i128 (a + b)"
definition checked_sub_i128 :: "i128 \<Rightarrow> i128 \<Rightarrow> i128 option" where
  [int_defs]: "checked_sub_i128 a b = checked in_i128 (a - b)"
definition checked_mul_i128 :: "i128 \<Rightarrow> i128 \<Rightarrow> i128 option" where
  [int_defs]: "checked_mul_i128 a b = checked in_i128 (a * b)"
definition checked_add_u128 :: "u128 \<Rightarrow> u128 \<Rightarrow> u128 option" where
  [int_defs]: "checked_add_u128 a b = checked in_u128 (a + b)"
definition checked_sub_u128 :: "u128 \<Rightarrow> u128 \<Rightarrow> u128 option" where
  [int_defs]: "checked_sub_u128 a b = checked in_u128 (a - b)"
definition checked_mul_u128 :: "u128 \<Rightarrow> u128 \<Rightarrow> u128 option" where
  [int_defs]: "checked_mul_u128 a b = checked in_u128 (a * b)"

definition clamp_int :: "int \<Rightarrow> int \<Rightarrow> int \<Rightarrow> int" where
  [int_defs]: "clamp_int lo hi x = max lo (min hi x)"

definition saturating_sub_i128 :: "i128 \<Rightarrow> i128 \<Rightarrow> i128" where
  [int_defs]: "saturating_sub_i128 a b = clamp_int i128_min i128_max (a - b)"
definition saturating_add_u64 :: "u64 \<Rightarrow> u64 \<Rightarrow> u64" where
  [int_defs]: "saturating_add_u64 a b = min u64_max (a + b)"
definition saturating_sub_u64 :: "u64 \<Rightarrow> u64 \<Rightarrow> u64" where
  [int_defs]: "saturating_sub_u64 a b = max 0 (a - b)"
definition saturating_mul_u64 :: "u64 \<Rightarrow> u64 \<Rightarrow> u64" where
  [int_defs]: "saturating_mul_u64 a b = min u64_max (a * b)"
definition saturating_add_u32 :: "u32 \<Rightarrow> u32 \<Rightarrow> u32" where
  [int_defs]: "saturating_add_u32 a b = min u32_max (a + b)"
definition saturating_sub_u32 :: "u32 \<Rightarrow> u32 \<Rightarrow> u32" where
  [int_defs]: "saturating_sub_u32 a b = max 0 (a - b)"
definition saturating_mul_u32 :: "u32 \<Rightarrow> u32 \<Rightarrow> u32" where
  [int_defs]: "saturating_mul_u32 a b = min u32_max (a * b)"

text \<open>The \<open>as\<close> casts between widths wrap; they agree with the two's-complement readings of
  a machine word.\<close>

definition i128_as_u128 :: "i128 \<Rightarrow> u128" where
  [int_defs]: "i128_as_u128 x = x mod 340282366920938463463374607431768211456"
definition u128_as_i128 :: "u128 \<Rightarrow> i128" where
  [int_defs]: "u128_as_i128 x = (if x \<le> i128_max then x else x - 340282366920938463463374607431768211456)"
definition i128_as_u64 :: "i128 \<Rightarrow> u64" where
  [int_defs]: "i128_as_u64 x = x mod 18446744073709551616"

lemma i128_as_u128_word: "i128_as_u128 x = uint (word_of_int x :: 128 word)"
  by (simp add: i128_as_u128_def uint_word_of_int)

lemma i128_as_u64_word: "i128_as_u64 x = uint (word_of_int x :: 64 word)"
  by (simp add: i128_as_u64_def uint_word_of_int)

lemma i128_as_u128_nonneg [simp]: "0 \<le> i128_as_u128 x"
  by (simp add: i128_as_u128_def)

lemma i128_as_u128_bound [simp]: "i128_as_u128 x \<le> u128_max"
  by (simp add: i128_as_u128_def u128_max_def)

lemma i128_as_u128_id: "0 \<le> x \<Longrightarrow> x \<le> u128_max \<Longrightarrow> i128_as_u128 x = x"
  by (simp add: i128_as_u128_def u128_max_def)

lemma u128_as_i128_id [simp]: "x \<le> i128_max \<Longrightarrow> u128_as_i128 x = x"
  by (simp add: u128_as_i128_def)

lemma i128_as_u64_id: "0 \<le> x \<Longrightarrow> x \<le> u64_max \<Longrightarrow> i128_as_u64 x = x"
  by (simp add: i128_as_u64_def u64_max_def)

lemma i128_as_u64_nonneg [simp]: "0 \<le> i128_as_u64 x"
  by (simp add: i128_as_u64_def)

lemma checked_Some [simp]: "checked R x = Some y \<longleftrightarrow> R x \<and> y = x"
  by (auto simp: checked_def)

lemma checked_None [simp]: "checked R x = None \<longleftrightarrow> \<not> R x"
  by (simp add: checked_def)

lemmas checked_arith =
  checked_add_i128_def checked_sub_i128_def checked_mul_i128_def checked_add_u128_def
  checked_sub_u128_def checked_mul_u128_def

section \<open>Results\<close>

text \<open>
  A fallible step returns \<open>Inl\<close> of the reason for which the host discards the invocation, or
  \<open>Inr\<close> of its value.  \<open>and_then\<close>, \<open>ok_or\<close> and \<open>ensure\<close> are the
  \<open>Result\<close> idioms of the source.
\<close>

definition and_then :: "'e + 'a \<Rightarrow> ('a \<Rightarrow> 'e + 'b) \<Rightarrow> 'e + 'b" where
  "and_then r f = (case r of Inl e \<Rightarrow> Inl e | Inr x \<Rightarrow> f x)"

definition ensure :: "bool \<Rightarrow> 'e \<Rightarrow> 'e + unit" where
  "ensure c e = (if c then Inr () else Inl e)"

definition ok_or :: "'e \<Rightarrow> 'a option \<Rightarrow> 'e + 'a" where
  "ok_or e x = (case x of None \<Rightarrow> Inl e | Some y \<Rightarrow> Inr y)"

lemma and_then_simps [simp]:
  "and_then (Inl e) f = Inl e"
  "and_then (Inr x) f = f x"
  by (simp_all add: and_then_def)

lemma ensure_simps [simp]:
  "ensure True e = Inr ()"
  "ensure False e = Inl e"
  by (simp_all add: ensure_def)

lemma ok_or_simps [simp]:
  "ok_or e (Some x) = Inr x"
  "ok_or e None = Inl e"
  by (simp_all add: ok_or_def)

lemma and_then_Inr [simp]:
  "and_then r f = Inr y \<longleftrightarrow> (\<exists>x. r = Inr x \<and> f x = Inr y)"
  by (cases r) simp_all

lemma and_then_Inl:
  "and_then r f = Inl e \<longleftrightarrow> r = Inl e \<or> (\<exists>x. r = Inr x \<and> f x = Inl e)"
  by (cases r) simp_all

lemma ensure_Inr [simp]: "ensure c e = Inr u \<longleftrightarrow> c"
  by (simp add: ensure_def)

lemma ensure_Inl [simp]: "ensure c e = Inl e' \<longleftrightarrow> \<not> c \<and> e' = e"
  by (auto simp: ensure_def)

lemma ok_or_Inr [simp]: "ok_or e x = Inr y \<longleftrightarrow> x = Some y"
  by (cases x) simp_all

lemma ok_or_Inl [simp]: "ok_or e x = Inl e' \<longleftrightarrow> x = None \<and> e' = e"
  by (cases x) auto

lemma and_then_cong [fundef_cong]:
  "r = r' \<Longrightarrow> (\<And>x. r' = Inr x \<Longrightarrow> f x = f' x) \<Longrightarrow> and_then r f = and_then r' f'"
  by (cases r') simp_all

lemma and_then_assoc: "and_then (and_then r f) g = and_then r (\<lambda>x. and_then (f x) g)"
  by (cases r) simp_all

text \<open>A \<open>for\<close> loop whose body may abort the invocation.\<close>

primrec for_each :: "('a \<Rightarrow> 's \<Rightarrow> 'e + 's) \<Rightarrow> 'a list \<Rightarrow> 's \<Rightarrow> 'e + 's" where
  "for_each f [] s = Inr s"
| "for_each f (x # xs) s = and_then (f x s) (for_each f xs)"

lemma for_each_append:
  "for_each f (xs @ ys) s = and_then (for_each f xs s) (for_each f ys)"
proof (induction xs arbitrary: s)
  case Nil
  then show ?case by simp
next
  case (Cons x xs)
  then show ?case by (cases "f x s") simp_all
qed

lemma for_each_inv:
  assumes "for_each f xs s = Inr s'" and "P s"
    and "\<And>x s s'. x \<in> set xs \<Longrightarrow> P s \<Longrightarrow> f x s = Inr s' \<Longrightarrow> P s'"
  shows "P s'"
  using assms
proof (induction xs arbitrary: s)
  case Nil
  then show ?case by simp
next
  case (Cons x xs)
  then obtain t where t: "f x s = Inr t" "for_each f xs t = Inr s'" by auto
  have "P t" using Cons.prems(3)[of x s t] Cons.prems(2) t(1) by simp
  then show ?case by (rule Cons.IH[OF t(2)]) (use Cons.prems(3) in auto)
qed

text \<open>Reading a stored integer with \<open>unwrap_or(0)\<close>.\<close>

definition or_zero :: "int option \<Rightarrow> int" where
  "or_zero x = (case x of None \<Rightarrow> 0 | Some v \<Rightarrow> v)"

lemma or_zero_simps [simp]: "or_zero None = 0" "or_zero (Some v) = v"
  by (simp_all add: or_zero_def)

section \<open>Sums over the entries of a finite map\<close>

definition map_sum :: "('v \<Rightarrow> int) \<Rightarrow> ('k \<rightharpoonup> 'v) \<Rightarrow> int" where
  "map_sum f m = (\<Sum>k\<in>dom m. f (the (m k)))"

definition opt_val :: "('v \<Rightarrow> int) \<Rightarrow> 'v option \<Rightarrow> int" where
  "opt_val f x = (case x of None \<Rightarrow> 0 | Some v \<Rightarrow> f v)"

lemma opt_val_simps [simp]: "opt_val f None = 0" "opt_val f (Some v) = f v"
  by (simp_all add: opt_val_def)

lemma map_sum_empty [simp]: "map_sum f Map.empty = 0"
  by (simp add: map_sum_def)

lemma map_sum_upd:
  assumes "finite (dom m)"
  shows "map_sum f (m(k \<mapsto> v)) = map_sum f m - opt_val f (m k) + f v"
proof -
  have rest: "(\<Sum>j\<in>dom m - {k}. f (the ((m(k \<mapsto> v)) j))) = (\<Sum>j\<in>dom m - {k}. f (the (m j)))"
    by (rule sum.cong) auto
  have new: "map_sum f (m(k \<mapsto> v)) = f v + (\<Sum>j\<in>dom m - {k}. f (the (m j)))"
    unfolding map_sum_def using assms rest by (simp add: sum.insert_remove)
  show ?thesis
  proof (cases "k \<in> dom m")
    case True
    then have "map_sum f m = f (the (m k)) + (\<Sum>j\<in>dom m - {k}. f (the (m j)))"
      unfolding map_sum_def using assms by (simp add: sum.remove)
    then show ?thesis using new True by (auto simp: opt_val_def)
  next
    case False
    then have "m k = None" by blast
    then show ?thesis using new False by (simp add: map_sum_def)
  qed
qed

lemma map_sum_nonneg: "(\<And>k v. m k = Some v \<Longrightarrow> 0 \<le> f v) \<Longrightarrow> 0 \<le> map_sum f m"
  unfolding map_sum_def by (rule sum_nonneg) auto

lemma map_sum_le_card:
  assumes "finite (dom m)" and "\<And>k v. m k = Some v \<Longrightarrow> f v \<le> 1"
  shows "map_sum f m \<le> int (card (dom m))"
proof -
  have "(\<Sum>k\<in>dom m. f (the (m k))) \<le> (\<Sum>k\<in>dom m. 1)"
    by (rule sum_mono) (use assms(2) in auto)
  then show ?thesis by (simp add: map_sum_def)
qed

lemma map_sum_ge_member:
  assumes "finite (dom m)" and "m k = Some v" and "\<And>k v. m k = Some v \<Longrightarrow> 0 \<le> f v"
  shows "f v \<le> map_sum f m"
proof -
  have "0 \<le> (\<Sum>j\<in>dom m - {k}. f (the (m j)))"
    by (rule sum_nonneg) (use assms(3) in auto)
  moreover have "map_sum f m = f v + (\<Sum>j\<in>dom m - {k}. f (the (m j)))"
    unfolding map_sum_def using assms(1,2) by (subst sum.remove[of _ k]) auto
  ultimately show ?thesis by simp
qed

end
