(* ===== verification/Types.thy ===== *)
theory Types
  imports Prelude
begin

text \<open>
  The externalised vocabulary of the credit contract (\<^verbatim>\<open>contracts/credit/src/types.rs\<close>,
  \<^verbatim>\<open>penalties.rs\<close>, \<^verbatim>\<open>scoring.rs\<close>, \<^verbatim>\<open>handshake.rs\<close>,
  \<^verbatim>\<open>events.rs\<close>): statuses, errors with their pinned codes and categories, the credit-line
  record, the configuration records and the event payloads.  Then the reasons for which the host
  discards an invocation, and the stability properties of the error table.
\<close>

section \<open>Statuses and errors\<close>

datatype credit_status = Active | Suspended | Defaulted | Closed | Restricted | SelfSuspended

primrec status_code :: "credit_status \<Rightarrow> nat" where
  "status_code Active = 0"
| "status_code Suspended = 1"
| "status_code Defaulted = 2"
| "status_code Closed = 3"
| "status_code Restricted = 4"
| "status_code SelfSuspended = 5"

datatype (plugins only: code) contract_error =
    Unauthorized | NotAdmin | CreditLineNotFound | CreditLineClosed | InvalidAmount | OverLimit
  | NegativeLimit | RateTooHigh | ScoreTooHigh | UtilizationNotZero | Reentrancy | Overflow
  | AlreadyInitialized | AdminAcceptTooEarly | BorrowerBlocked | DrawExceedsMaxAmount | Paused
  | DrawsFrozen | CreditLineSuspended | CreditLineDefaulted | MissingLiquidityToken
  | MissingLiquiditySource | InsufficientLiquidityReserve | LiquidityTokenCallFailed
  | InsufficientRepaymentAllowance | InsufficientRepaymentBalance | RepayExceedsMaxAmount
  | DrawCooldownActive | TreasuryNotSet | ExposureCapExceeded | AdminNotInitialized
  | TimestampRegression | LimitOutOfBounds | CollateralRatioBelowMinimum | OraclePriceInvalid
  | OraclePriceStale | OraclePriceDeviation | InsufficientCollateralBalance | BorrowerFrozen
  | BountyNotSet | NoPendingTreasuryWithdrawal | TreasuryTimelockActive | TreasuryProposalExists
  | CloseFactorAboveMax | CreditLineFrozen | DrawReversalWindowExpired | OriginalDrawNotFound
  | AttestationBatchNotFound | OracleQuorumNotMet | AlreadySettled | InvalidRiskWeight
  | InvalidAttestation | RiskAdminCooldownActive | OracleNotFound | FreezeCooldownActive
  | AdminCollateralCooldownActive | LiquidationGraceActive | StaleStateTransition
  | IncompatibleVersion | AuctionCallFailed | AuctionActive | MissingVrfCommitment
  | InsufficientTreasuryBalance | BorrowerExposureCapExceeded

primrec error_code :: "contract_error \<Rightarrow> nat" where
  "error_code Unauthorized = 1"
| "error_code NotAdmin = 2"
| "error_code CreditLineNotFound = 3"
| "error_code CreditLineClosed = 4"
| "error_code InvalidAmount = 5"
| "error_code OverLimit = 6"
| "error_code NegativeLimit = 7"
| "error_code RateTooHigh = 8"
| "error_code ScoreTooHigh = 9"
| "error_code UtilizationNotZero = 10"
| "error_code Reentrancy = 11"
| "error_code Overflow = 12"
| "error_code AlreadyInitialized = 14"
| "error_code AdminAcceptTooEarly = 15"
| "error_code BorrowerBlocked = 16"
| "error_code DrawExceedsMaxAmount = 17"
| "error_code Paused = 18"
| "error_code DrawsFrozen = 19"
| "error_code CreditLineSuspended = 20"
| "error_code CreditLineDefaulted = 21"
| "error_code MissingLiquidityToken = 22"
| "error_code MissingLiquiditySource = 23"
| "error_code InsufficientLiquidityReserve = 24"
| "error_code LiquidityTokenCallFailed = 25"
| "error_code InsufficientRepaymentAllowance = 26"
| "error_code InsufficientRepaymentBalance = 27"
| "error_code RepayExceedsMaxAmount = 28"
| "error_code DrawCooldownActive = 29"
| "error_code TreasuryNotSet = 30"
| "error_code ExposureCapExceeded = 31"
| "error_code AdminNotInitialized = 32"
| "error_code TimestampRegression = 33"
| "error_code LimitOutOfBounds = 34"
| "error_code CollateralRatioBelowMinimum = 35"
| "error_code OraclePriceInvalid = 36"
| "error_code OraclePriceStale = 37"
| "error_code OraclePriceDeviation = 38"
| "error_code InsufficientCollateralBalance = 39"
| "error_code BorrowerFrozen = 40"
| "error_code BountyNotSet = 41"
| "error_code NoPendingTreasuryWithdrawal = 42"
| "error_code TreasuryTimelockActive = 43"
| "error_code TreasuryProposalExists = 44"
| "error_code CloseFactorAboveMax = 45"
| "error_code CreditLineFrozen = 46"
| "error_code DrawReversalWindowExpired = 47"
| "error_code OriginalDrawNotFound = 48"
| "error_code AttestationBatchNotFound = 49"
| "error_code OracleQuorumNotMet = 50"
| "error_code AlreadySettled = 51"
| "error_code InvalidRiskWeight = 52"
| "error_code InvalidAttestation = 53"
| "error_code RiskAdminCooldownActive = 54"
| "error_code OracleNotFound = 55"
| "error_code FreezeCooldownActive = 57"
| "error_code AdminCollateralCooldownActive = 58"
| "error_code LiquidationGraceActive = 59"
| "error_code StaleStateTransition = 60"
| "error_code IncompatibleVersion = 61"
| "error_code AuctionCallFailed = 62"
| "error_code AuctionActive = 63"
| "error_code MissingVrfCommitment = 64"
| "error_code InsufficientTreasuryBalance = 65"
| "error_code BorrowerExposureCapExceeded = 66"

datatype error_category =
    Auth | Lifecycle | Numeric | Limit | Liquidity | Risk | Oracle | Collateral | Block
  | ReentrancyCat | Misc | Handshake

primrec category :: "contract_error \<Rightarrow> error_category" where
  "category Unauthorized = Auth"
| "category NotAdmin = Auth"
| "category AdminNotInitialized = Auth"
| "category CreditLineClosed = Lifecycle"
| "category AlreadyInitialized = Lifecycle"
| "category CreditLineSuspended = Lifecycle"
| "category CreditLineDefaulted = Lifecycle"
| "category AlreadySettled = Lifecycle"
| "category LiquidationGraceActive = Lifecycle"
| "category StaleStateTransition = Lifecycle"
| "category AuctionActive = Lifecycle"
| "category InvalidAmount = Numeric"
| "category NegativeLimit = Numeric"
| "category Overflow = Numeric"
| "category TimestampRegression = Numeric"
| "category LimitOutOfBounds = Numeric"
| "category InvalidRiskWeight = Numeric"
| "category OverLimit = Limit"
| "category UtilizationNotZero = Limit"
| "category DrawExceedsMaxAmount = Limit"
| "category RepayExceedsMaxAmount = Limit"
| "category DrawReversalWindowExpired = Limit"
| "category CloseFactorAboveMax = Limit"
| "category BorrowerExposureCapExceeded = Limit"
| "category MissingLiquidityToken = Liquidity"
| "category MissingLiquiditySource = Liquidity"
| "category InsufficientLiquidityReserve = Liquidity"
| "category LiquidityTokenCallFailed = Liquidity"
| "category InsufficientRepaymentAllowance = Liquidity"
| "category InsufficientRepaymentBalance = Liquidity"
| "category TreasuryNotSet = Liquidity"
| "category InsufficientTreasuryBalance = Liquidity"
| "category ExposureCapExceeded = Liquidity"
| "category BountyNotSet = Liquidity"
| "category RateTooHigh = Risk"
| "category ScoreTooHigh = Risk"
| "category Paused = Risk"
| "category DrawCooldownActive = Risk"
| "category RiskAdminCooldownActive = Risk"
| "category OraclePriceInvalid = Oracle"
| "category OraclePriceStale = Oracle"
| "category OraclePriceDeviation = Oracle"
| "category OracleQuorumNotMet = Oracle"
| "category OracleNotFound = Oracle"
| "category CollateralRatioBelowMinimum = Collateral"
| "category InsufficientCollateralBalance = Collateral"
| "category AdminCollateralCooldownActive = Collateral"
| "category DrawsFrozen = Block"
| "category BorrowerFrozen = Block"
| "category BorrowerBlocked = Block"
| "category CreditLineFrozen = Block"
| "category FreezeCooldownActive = Block"
| "category Reentrancy = ReentrancyCat"
| "category CreditLineNotFound = Misc"
| "category AdminAcceptTooEarly = Misc"
| "category NoPendingTreasuryWithdrawal = Misc"
| "category TreasuryTimelockActive = Misc"
| "category TreasuryProposalExists = Misc"
| "category OriginalDrawNotFound = Misc"
| "category AttestationBatchNotFound = Misc"
| "category InvalidAttestation = Misc"
| "category MissingVrfCommitment = Misc"
| "category IncompatibleVersion = Handshake"
| "category AuctionCallFailed = Handshake"

text \<open>
  Why the host discards an invocation: a typed contract error (\<^verbatim>\<open>panic_with_error\<close>), a Rust
  panic (\<open>assert!\<close>, \<open>expect\<close>, an arithmetic overflow), an authorisation that was not
  given or was asked for a second time in the same frame (\<^verbatim>\<open>Error(Auth, ExistingValue)\<close>),
  \<^verbatim>\<open>extend_ttl\<close> on a missing entry (\<^verbatim>\<open>Storage(MissingValue)\<close>), or a call to another
  contract that trapped.
\<close>

datatype host_error =
    Contract contract_error
  | RustPanic
  | AuthMissing
  | AuthExistingValue
  | StorageMissingValue
  | CalleeTrapped

type_synonym 'a res = "host_error + 'a"

section \<open>Records of the contract\<close>

record credit_line_data =
  borrower :: address
  credit_limit :: i128
  utilized_amount :: i128
  interest_rate_bps :: u32
  risk_score :: u32
  status :: credit_status
  last_rate_update_ts :: u64
  accrued_interest :: i128
  last_accrual_ts :: u64
  suspension_ts :: u64

record repayment_schedule =
  amount_per_period :: i128
  period_seconds :: u64
  next_due_ts :: u64

record rate_change_config =
  max_rate_change_bps :: u32
  rate_change_min_interval :: u64

record rate_formula_config =
  base_rate_bps :: u32
  slope_bps_per_score :: u32
  min_rate_bps :: u32
  max_rate_bps :: u32

datatype grace_waiver_mode = FullWaiver | ReducedRate

record grace_period_config =
  grace_period_seconds :: u64
  waiver_mode :: grace_waiver_mode
  reduced_rate_bps :: u32

datatype freeze_reason =
    LiquidityReserve | Compliance | RiskInvestigation | OperationalMaintenance
  | BorrowerRequest | AdminAction

record draws_freeze_state =
  frozen :: bool
  freeze_state_reason :: freeze_reason

record oracle_config =
  oc_max_deviation_bps :: u32
  oc_max_age_seconds :: u64

record oracle_quorum_config =
  min_quorum_k :: u32
  oq_max_deviation_bps :: u32
  oq_max_age_seconds :: u64

datatype late_fee_config = Flat i128 | AprBased u32

record treasury_withdrawal_proposal =
  recipient :: address
  proposal_amount :: i128
  proposer :: address
  proposed_at :: u64
  execute_after :: u64

record pause_reason =
  pause_symbol :: symbol
  pause_timestamp :: u64
  pause_actor :: address

record vrf_commitment =
  commitment_hash :: bytes
  committed_at :: u64

record attestation_batch =
  ab_merkle_root :: bytes
  ab_count :: u32
  ab_committed_at :: u64

record protocol_version =
  pv_major :: u32
  pv_minor :: u32

datatype collateral_event_kind = Deposited | Withdrawn | PartiallyReleased | Released

datatype borrow_lifecycle_phase =
    Opened | Drawn | Repaid | PhaseSuspended | PhaseReinstated | PhaseDefaulted | PhaseClosed | DebtForgiven

text \<open>
  The payloads of the published events, one constructor per payload of \<^verbatim>\<open>events.rs\<close>, arguments in
  the order of the struct's fields; the publishers and the topics are in \<open>Events\<close>.
\<close>

datatype (plugins only: code) event =
    CreditLineEvent address credit_status i128 u32 u32
  | RepaymentEvent address i128 i128
  | DrawnEvent address i128 i128 u64
  | InterestAccruedEvent address i128 i128
  | DefaultLiquidationRequested address i128
  | DefaultLiquidationSettledEvent address symbol i128 i128 i128 i128 credit_status u32
  | AdminRotationProposedEvent address u64
  | AdminRotationAcceptedEvent address
  | RiskParametersUpdatedEvent address i128 u32 u32
  | RiskAdminCooldownConfiguredEvent u64
  | DrawReversedEvent address i128 u64 u32 i128 u64 address bool
  | DrawsFrozenEvent bool freeze_reason
  | CreditLineFreezeEvent address bool freeze_reason u32
  | BorrowerBlockedEvent address bool u32
  | BorrowerFrozenEvent address u64 u32
  | GraceWaiverAppliedEvent address i128 grace_waiver_mode
  | PenaltyRateEnteredEvent address u32 u32 u32
  | PenaltyRateExitedEvent address u32 u32
  | FeeAccruedEvent address i128 i128 i128 i128 i128
  | LateFeeChargedEvent address i128 u64
  | DebtForgivenEvent address i128 i128 i128
  | BorrowLifecycleEvent address borrow_lifecycle_phase credit_status i128 i128 u32 u64
  | CollateralDepositedEvent address i128 i128
  | CollateralWithdrawnEvent address i128 i128
  | CollateralPartialReleasedEvent address i128 i128 u32
  | CollateralLifecycleEvent address collateral_event_kind "address option" i128 i128 u32 u64
  | TreasuryWithdrawalProposedEvent address i128 address u64 u64
  | TreasuryWithdrawalExecutedEvent address i128 address u64 i128
  | PausedEvent bool
  | RateFormulaConfigEvent bool
  | CloseFactorBpsSetEvent u32
  | OracleConfigSetEvent u32 u64
  | OracleQuorumConfigSetEvent u32 u32 u64
  | OracleQuorumPriceSetEvent i128 u32 u64
  | OraclePriceAcceptedEvent i128 u64
  | OracleAddedEvent address u32 u64
  | OracleRemovedEvent address u64
  | OracleQuorumThresholdSetEvent u32 u64
  | OracleReportingWindowSetEvent u64 u64
  | OracleValueReportedEvent address u128 u64
  | AttestationBatchCommittedEvent address bytes u32
  | ContractUpgradedEvent bytes bytes
  | CreditLineOpenedEvent address i128 u32 u32 u64
  | CreditLineSuspendedEvent address symbol u64
  | CreditLineClosedEvent address address i128 u64
  | CreditLineDefaultedEvent address i128 u64
  | CreditLineReinstatedEvent address credit_status u64
  | DrawnEventV2 address address address i128 i128 u64
  | TokenRescuedEvent address address i128
  | ProtocolFeeBoundsSetEvent u32 u32
  | ProtocolFeeBpsSetEvent u32

section \<open>Stability of the published codes\<close>

lemma error_code_range: "1 \<le> error_code e \<and> error_code e \<le> 66"
  by (cases e) simp_all

lemma error_code_reserved: "error_code e \<noteq> 13 \<and> error_code e \<noteq> 56"
  by (cases e) simp_all

lemma inj_status_code: "inj status_code"
proof (rule injI)
  fix s t assume "status_code s = status_code t"
  then show "s = t" by (cases s; cases t) simp_all
qed

end
