(* ===== verification/Storage.thy ===== *)
theory Storage
  imports Types
begin

text \<open>
  The state of a deployment and its storage layer (\<^verbatim>\<open>contracts/credit/src/storage.rs\<close>,
  \<^verbatim>\<open>auth.rs\<close>).  The record \<open>env\<close> has one field per storage key: an optional
  value for a key of instance storage, a map for a key of persistent storage that carries a
  payload.  The fields of the host are the ledger time and sequence number, the contract's own
  address, the addresses that signed the current invocation, the addresses this invocation frame
  has already authorised, the event log, and the opaque state \<open>'t\<close> of the token contracts,
  which are code outside the repository and enter as a record of operations (\<open>token_client\<close>).

  TTL bookkeeping is modelled where it is observable: \<^verbatim>\<open>extend_ttl\<close> on a missing
  persistent entry aborts the invocation.
\<close>

named_theorems store_defs "unfoldings of the storage getters and setters"

section \<open>State\<close>

record 't env =
  ledger_ts :: u64
  ledger_seq :: u32
  self_addr :: address
  signers :: "address list"
  frame_auth :: "address list"
  events :: "(symbol list \<times> event) list"
  tokens :: 't
  st_admin :: "address option"
  st_proposed_admin :: "address option"
  st_proposed_at :: "u64 option"
  st_paused :: "bool option"
  st_reentrancy :: "bool option"
  st_rate_cfg :: "rate_change_config option"
  st_rate_form :: "rate_formula_config option"
  st_grace_cfg :: "grace_period_config option"
  st_liquidity_token :: "address option"
  st_liquidity_source :: "address option"
  st_draws_frozen :: "draws_freeze_state option"
  st_schema_version :: "u32 option"
  st_credit_line_count :: "u32 option"
  st_active_line_count :: "u32 option"
  st_pending_auction_count :: "u32 option"
  st_total_utilized :: "i128 option"
  st_max_draw_amount :: "i128 option"
  st_max_repay_amount :: "i128 option"
  st_draw_min_interval_seconds :: "u64 option"
  st_borrow_admin_cooldown_seconds :: "u64 option"
  st_accrual_admin_cooldown_seconds :: "u64 option"
  st_min_credit_limit :: "i128 option"
  st_max_credit_limit :: "i128 option"
  st_close_factor_bps :: "u32 option"
  st_penalty_surcharge_bps :: "u32 option"
  st_late_fee_flat :: "i128 option"
  st_late_fee_config :: "late_fee_config option"
  st_auction_contract :: "address option"
  st_max_total_exposure :: "i128 option"
  st_protocol_fee_bps :: "u32 option"
  st_treasury_fee_share_bps :: "u32 option"
  st_treasury_address :: "address option"
  st_treasury_balance :: "i128 option"
  st_bounty_address :: "address option"
  st_bounty_balance :: "i128 option"
  st_min_collateral_ratio_bps :: "u32 option"
  st_admin_collateral_cooldown_seconds :: "u64 option"
  st_last_col_admin_action_ts :: "u64 option"
  st_collateral_risk_weight_bps :: "address \<rightharpoonup> u32"
  st_oracle_config :: "oracle_config option"
  st_oracle_last_price :: "i128 option"
  st_oracle_last_price_ts :: "u64 option"
  st_oracle_quorum_config :: "oracle_quorum_config option"
  st_oracle_quorum_price :: "i128 option"
  st_oracle_quorum_price_ts :: "u64 option"
  st_oracle_list :: "address list option"
  st_oracle_weight :: "address \<rightharpoonup> u32"
  st_oracle_report :: "address \<rightharpoonup> (u128 \<times> u64)"
  st_quorum_threshold :: "u32 option"
  st_reporting_window :: "u64 option"
  st_total_collateral :: "i128 option"
  st_pending_treasury_withdrawal :: "treasury_withdrawal_proposal option"
  st_pause_reason :: "pause_reason option"
  st_freeze_cooldown_seconds :: "u64 option"
  st_last_freeze_timestamp :: "u64 option"
  st_collateral_token_allowlist :: "address list option"
  st_rad_cool :: "u64 option"
  st_lines :: "address \<rightharpoonup> credit_line_data"
  st_credit_line_id :: "address \<rightharpoonup> u32"
  st_borrower_by_id :: "u32 \<rightharpoonup> address"
  st_last_draw_ts :: "address \<rightharpoonup> u64"
  st_blocked_borrower :: "address \<rightharpoonup> bool"
  st_frozen_borrower :: "address \<rightharpoonup> u64"
  st_credit_line_freeze :: "address \<rightharpoonup> freeze_reason"
  st_utilization_cap_bps :: "address \<rightharpoonup> u32"
  st_last_borrow_admin_action_ts :: "address \<rightharpoonup> u64"
  st_last_accrual_admin_action_ts :: "address \<rightharpoonup> u64"
  st_rate_floor_bps :: "address \<rightharpoonup> u32"
  st_rate_ceiling_bps :: "address \<rightharpoonup> u32"
  st_repayment_schedule :: "address \<rightharpoonup> repayment_schedule"
  st_vrf_commitment :: "address \<rightharpoonup> vrf_commitment"
  st_collateral_balance :: "address \<rightharpoonup> i128"
  st_collateral_balance_v2 :: "address \<times> address \<rightharpoonup> i128"
  st_draw_audit :: "address \<times> u64 \<rightharpoonup> i128"
  st_draw_reversed_amount :: "address \<times> u64 \<rightharpoonup> i128"
  st_max_borrower_exposure :: "address \<rightharpoonup> i128"
  st_liquidation_grace_period :: "address \<rightharpoonup> u64"
  st_attestation_batch :: "address \<rightharpoonup> attestation_batch"
  st_rad_last :: "address \<rightharpoonup> u64"
  st_liq_seen :: "address \<times> symbol \<rightharpoonup> bool"

text \<open>
  The token contracts (Stellar Asset Contracts or compatible) are not part of the repository.  The
  model takes their client operations as a parameter: \<open>tk_balance s tok who\<close>,
  \<open>tk_transfer s tok from to amount\<close>, \<open>tk_transfer_from s tok spender from to amount\<close>
  and \<open>tk_decimals s tok\<close>, where \<^const>\<open>None\<close> is a trap of the callee.
\<close>

record 't token_client =
  tk_balance :: "'t \<Rightarrow> address \<Rightarrow> address \<Rightarrow> i128"
  tk_transfer :: "'t \<Rightarrow> address \<Rightarrow> address \<Rightarrow> address \<Rightarrow> i128 \<Rightarrow> 't option"
  tk_transfer_from :: "'t \<Rightarrow> address \<Rightarrow> address \<Rightarrow> address \<Rightarrow> address \<Rightarrow> i128 \<Rightarrow> 't option"
  tk_decimals :: "'t \<Rightarrow> address \<Rightarrow> u32 option"

section \<open>Deployment\<close>

text \<open>The state of a freshly deployed contract: no key has been written.\<close>

definition genesis :: "u64 \<Rightarrow> address \<Rightarrow> 't \<Rightarrow> 't env" where
  "genesis ts self tk =
     \<lparr>ledger_ts = ts, ledger_seq = 1, self_addr = self, signers = [], frame_auth = [],
      events = [], tokens = tk, st_admin = None, st_proposed_admin = None,
      st_proposed_at = None, st_paused = None, st_reentrancy = None, st_rate_cfg = None,
      st_rate_form = None, st_grace_cfg = None, st_liquidity_token = None,
      st_liquidity_source = None, st_draws_frozen = None, st_schema_version = None,
      st_credit_line_count = None, st_active_line_count = None,
      st_pending_auction_count = None, st_total_utilized = None, st_max_draw_amount = None,
      st_max_repay_amount = None, st_draw_min_interval_seconds = None,
      st_borrow_admin_cooldown_seconds = None, st_accrual_admin_cooldown_seconds = None,
      st_min_credit_limit = None, st_max_credit_limit = None, st_close_factor_bps = None,
      st_penalty_surcharge_bps = None, st_late_fee_flat = None, st_late_fee_config = None,
      st_auction_contract = None, st_max_total_exposure = None, st_protocol_fee_bps = None,
      st_treasury_fee_share_bps = None, st_treasury_address = None, st_treasury_balance = None,
      st_bounty_address = None, st_bounty_balance = None, st_min_collateral_ratio_bps = None,
      st_admin_collateral_cooldown_seconds = None, st_last_col_admin_action_ts = None,
      st_collateral_risk_weight_bps = Map.empty, st_oracle_config = None,
      st_oracle_last_price = None, st_oracle_last_price_ts = None,
      st_oracle_quorum_config = None, st_oracle_quorum_price = None,
      st_oracle_quorum_price_ts = None, st_oracle_list = None, st_oracle_weight = Map.empty,
      st_oracle_report = Map.empty, st_quorum_threshold = None, st_reporting_window = None,
      st_total_collateral = None, st_pending_treasury_withdrawal = None,
      st_pause_reason = None, st_freeze_cooldown_seconds = None,
      st_last_freeze_timestamp = None, st_collateral_token_allowlist = None,
      st_rad_cool = None, st_lines = Map.empty, st_credit_line_id = Map.empty,
      st_borrower_by_id = Map.empty, st_last_draw_ts = Map.empty,
      st_blocked_borrower = Map.empty, st_frozen_borrower = Map.empty,
      st_credit_line_freeze = Map.empty, st_utilization_cap_bps = Map.empty,
      st_last_borrow_admin_action_ts = Map.empty, st_last_accrual_admin_action_ts = Map.empty,
      st_rate_floor_bps = Map.empty, st_rate_ceiling_bps = Map.empty,
      st_repayment_schedule = Map.empty, st_vrf_commitment = Map.empty,
      st_collateral_balance = Map.empty, st_collateral_balance_v2 = Map.empty,
      st_draw_audit = Map.empty, st_draw_reversed_amount = Map.empty,
      st_max_borrower_exposure = Map.empty, st_liquidation_grace_period = Map.empty,
      st_attestation_batch = Map.empty, st_rad_last = Map.empty, st_liq_seen = Map.empty\<rparr>"

text \<open>A concrete token for evaluating the model: balances per token and holder, transfers that
  fail on a negative amount or an insufficient balance, unlimited allowances.\<close>

definition move_balance ::
  "(address \<times> address \<Rightarrow> int) \<Rightarrow> address \<Rightarrow> address \<Rightarrow> address \<Rightarrow> int \<Rightarrow> (address \<times> address \<Rightarrow> int) option" where
  "move_balance s t src dst amount =
     (if amount < 0 \<or> s (t, src) < amount then None
      else let s1 = s((t, src) := s (t, src) - amount) in Some (s1((t, dst) := s1 (t, dst) + amount)))"

definition book_token :: "(address \<times> address \<Rightarrow> int) token_client" where
  "book_token = \<lparr>tk_balance = (\<lambda>s t who. s (t, who)),
     tk_transfer = (\<lambda>s t src dst amount. move_balance s t src dst amount),
     tk_transfer_from = (\<lambda>s t _ src dst amount. move_balance s t src dst amount),
     tk_decimals = (\<lambda>_ _. Some 7)\<rparr>"

definition emit :: "symbol list \<times> event \<Rightarrow> 't env \<Rightarrow> 't env" where
  [store_defs]: "emit e w = w\<lparr>events := events w @ [e]\<rparr>"

definition token_balance :: "'t token_client \<Rightarrow> address \<Rightarrow> address \<Rightarrow> 't env \<Rightarrow> i128" where
  "token_balance tok t who w = tk_balance tok (tokens w) t who"

definition token_transfer ::
  "'t token_client \<Rightarrow> address \<Rightarrow> address \<Rightarrow> address \<Rightarrow> i128 \<Rightarrow> 't env \<Rightarrow> 't env res" where
  "token_transfer tok t src dst amount w =
     (case tk_transfer tok (tokens w) t src dst amount of
        None \<Rightarrow> Inl CalleeTrapped
      | Some s \<Rightarrow> Inr (w\<lparr>tokens := s\<rparr>))"

definition token_transfer_from ::
  "'t token_client \<Rightarrow> address \<Rightarrow> address \<Rightarrow> address \<Rightarrow> address \<Rightarrow> i128 \<Rightarrow> 't env \<Rightarrow> 't env res"
  where
  "token_transfer_from tok t spender src dst amount w =
     (case tk_transfer_from tok (tokens w) t spender src dst amount of
        None \<Rightarrow> Inl CalleeTrapped
      | Some s \<Rightarrow> Inr (w\<lparr>tokens := s\<rparr>))"

section \<open>Authorisation\<close>

text \<open>
  \<^verbatim>\<open>Address::require_auth\<close>: the address must have signed the invocation, and asking for
  the same address twice in one frame is rejected by the host as
  \<^verbatim>\<open>Error(Auth, ExistingValue)\<close>, the behaviour that \<^verbatim>\<open>risk.rs\<close>,
  \<^verbatim>\<open>freeze.rs\<close> and \<^verbatim>\<open>lifecycle.rs\<close> document and work around.
\<close>

definition require_auth :: "address \<Rightarrow> 't env \<Rightarrow> 't env res" where
  "require_auth a w =
     (if a \<notin> set (signers w) then Inl AuthMissing
      else if a \<in> set (frame_auth w) then Inl AuthExistingValue
      else Inr (w\<lparr>frame_auth := a # frame_auth w\<rparr>))"

definition require_admin :: "'t env \<Rightarrow> address res" where
  "require_admin w = ok_or (Contract AdminNotInitialized) (st_admin w)"

definition require_admin_auth :: "'t env \<Rightarrow> (address \<times> 't env) res" where
  "require_admin_auth w =
     and_then (require_admin w) (\<lambda>admin.
     and_then (require_auth admin w) (\<lambda>w. Inr (admin, w)))"

definition require_admin_auth_with_argument ::
  "address \<Rightarrow> 't env \<Rightarrow> (address \<times> 't env) res" where
  "require_admin_auth_with_argument provided w =
     and_then (require_admin w) (\<lambda>admin.
     and_then (ensure (provided = admin) (Contract Unauthorized)) (\<lambda>_.
     and_then (require_auth admin w) (\<lambda>w. Inr (admin, w))))"

section \<open>Getters, setters and guards\<close>

definition bump_persistent_ttl :: "bool \<Rightarrow> unit res" where
  "bump_persistent_ttl present = ensure present StorageMissingValue"

definition get_credit_line :: "address \<Rightarrow> 't env \<Rightarrow> credit_line_data option" where
  [store_defs]: "get_credit_line b w = st_lines w b"

definition get_total_utilized :: "'t env \<Rightarrow> i128" where
  [store_defs]: "get_total_utilized w = (case st_total_utilized w of None \<Rightarrow> 0 | Some v \<Rightarrow> v)"

definition get_total_collateral :: "'t env \<Rightarrow> i128" where
  [store_defs]: "get_total_collateral w = (case st_total_collateral w of None \<Rightarrow> 0 | Some v \<Rightarrow> v)"

definition get_credit_line_count :: "'t env \<Rightarrow> u32" where
  [store_defs]: "get_credit_line_count w = (case st_credit_line_count w of None \<Rightarrow> 0 | Some v \<Rightarrow> v)"

definition get_active_line_count :: "'t env \<Rightarrow> u32" where
  [store_defs]: "get_active_line_count w = (case st_active_line_count w of None \<Rightarrow> 0 | Some v \<Rightarrow> v)"

definition increment_active_line_count :: "'t env \<Rightarrow> 't env" where
  [store_defs]: "increment_active_line_count w =
     w\<lparr>st_active_line_count := Some (saturating_add_u32 (get_active_line_count w) 1)\<rparr>"

definition decrement_active_line_count :: "'t env \<Rightarrow> 't env" where
  [store_defs]: "decrement_active_line_count w =
     w\<lparr>st_active_line_count := Some (saturating_sub_u32 (get_active_line_count w) 1)\<rparr>"

definition get_pending_auction_count :: "'t env \<Rightarrow> u32" where
  [store_defs]: "get_pending_auction_count w =
     (case st_pending_auction_count w of None \<Rightarrow> 0 | Some v \<Rightarrow> v)"

definition increment_pending_auction_count :: "'t env \<Rightarrow> 't env" where
  [store_defs]: "increment_pending_auction_count w =
     w\<lparr>st_pending_auction_count := Some (saturating_add_u32 (get_pending_auction_count w) 1)\<rparr>"

definition decrement_pending_auction_count :: "'t env \<Rightarrow> 't env" where
  [store_defs]: "decrement_pending_auction_count w =
     w\<lparr>st_pending_auction_count := Some (saturating_sub_u32 (get_pending_auction_count w) 1)\<rparr>"

definition assert_no_active_auctions :: "'t env \<Rightarrow> unit res" where
  "assert_no_active_auctions w = ensure (\<not> 0 < get_pending_auction_count w) (Contract AuctionActive)"

definition set_max_total_exposure_store :: "i128 \<Rightarrow> 't env \<Rightarrow> 't env" where
  [store_defs]: "set_max_total_exposure_store cap w =
     w\<lparr>st_max_total_exposure := (if cap = 0 then None else Some cap)\<rparr>"

definition get_credit_line_id :: "address \<Rightarrow> 't env \<Rightarrow> u32 option" where
  [store_defs]: "get_credit_line_id b w = st_credit_line_id w b"

definition get_borrower_by_credit_line_id :: "u32 \<Rightarrow> 't env \<Rightarrow> address option" where
  [store_defs]: "get_borrower_by_credit_line_id i w = st_borrower_by_id w i"

definition ensure_credit_line_id :: "address \<Rightarrow> 't env \<Rightarrow> 't env" where
  "ensure_credit_line_id b w =
     (case get_credit_line_id b w of
        Some _ \<Rightarrow> w
      | None \<Rightarrow>
          let next_id = get_credit_line_count w in
          w\<lparr>st_credit_line_id := (st_credit_line_id w)(b \<mapsto> next_id),
            st_borrower_by_id := (st_borrower_by_id w)(next_id \<mapsto> b),
            st_credit_line_count := Some (saturating_add_u32 next_id 1)\<rparr>)"

definition line_ids :: "'t env \<Rightarrow> u32 list" where
  "line_ids w = map int [0..<nat (get_credit_line_count w)]"

text \<open>The two conservation checks recompute an aggregate over the id index, with overflow-checked
  additions, and panic when the stored aggregate differs.\<close>

definition recompute :: "(address \<Rightarrow> 't env \<Rightarrow> i128 option) \<Rightarrow> 't env \<Rightarrow> i128 res" where
  "recompute val w =
     for_each (\<lambda>i acc.
       case get_borrower_by_credit_line_id i w of
         None \<Rightarrow> Inr acc
       | Some b \<Rightarrow> (case val b w of
           None \<Rightarrow> Inr acc
         | Some v \<Rightarrow> ok_or RustPanic (checked_add_i128 acc v)))
     (line_ids w) 0"

definition assert_total_utilized_conserved :: "'t env \<Rightarrow> unit res" where
  "assert_total_utilized_conserved w =
     and_then (recompute (\<lambda>b w. map_option utilized_amount (get_credit_line b w)) w) (\<lambda>total.
     ensure (get_total_utilized w = total) RustPanic)"

definition get_collateral_balance :: "address \<Rightarrow> 't env \<Rightarrow> i128" where
  [store_defs]: "get_collateral_balance b w =
     (case st_collateral_balance w b of None \<Rightarrow> 0 | Some v \<Rightarrow> v)"

definition assert_total_collateral_conserved :: "'t env \<Rightarrow> unit res" where
  "assert_total_collateral_conserved w =
     and_then (recompute (\<lambda>b w. Some (get_collateral_balance b w)) w) (\<lambda>total.
     ensure (get_total_collateral w = total) RustPanic)"

definition adjust_total_utilized :: "i128 \<Rightarrow> i128 \<Rightarrow> 't env \<Rightarrow> 't env res" where
  "adjust_total_utilized previous_utilized new_utilized w =
     and_then (ok_or (Contract Overflow) (checked_sub_i128 new_utilized previous_utilized)) (\<lambda>delta.
     if delta = 0 then Inr w
     else
       and_then (ok_or (Contract Overflow) (checked_add_i128 (get_total_utilized w) delta)) (\<lambda>total.
       let w = w\<lparr>st_total_utilized := Some total\<rparr> in
       and_then (assert_total_utilized_conserved w) (\<lambda>_. Inr w)))"

definition adjust_total_collateral :: "i128 \<Rightarrow> i128 \<Rightarrow> 't env \<Rightarrow> 't env res" where
  "adjust_total_collateral previous_balance new_balance w =
     and_then (ok_or (Contract Overflow) (checked_sub_i128 new_balance previous_balance)) (\<lambda>delta.
     if delta = 0 then Inr w
     else
       and_then (ok_or (Contract Overflow) (checked_add_i128 (get_total_collateral w) delta)) (\<lambda>total.
       let w = w\<lparr>st_total_collateral := Some total\<rparr> in
       and_then (assert_total_collateral_conserved w) (\<lambda>_. Inr w)))"

definition update_active_line_count ::
  "credit_status \<Rightarrow> credit_status option \<Rightarrow> 't env \<Rightarrow> 't env" where
  "update_active_line_count new_status previous_status w =
     (let is_now_active = (new_status = Active); was_active = (previous_status = Some Active) in
      if is_now_active \<and> \<not> was_active then increment_active_line_count w
      else if \<not> is_now_active \<and> was_active then decrement_active_line_count w
      else w)"

definition persist_credit_line ::
  "address \<Rightarrow> credit_line_data \<Rightarrow> i128 \<Rightarrow> credit_status option \<Rightarrow> 't env \<Rightarrow> 't env res" where
  "persist_credit_line b line previous_utilized previous_status w =
     (let w = ensure_credit_line_id b w;
          w = w\<lparr>st_lines := (st_lines w)(b \<mapsto> line)\<rparr> in
      and_then (adjust_total_utilized previous_utilized (utilized_amount line) w) (\<lambda>w.
      Inr (update_active_line_count (status line) previous_status w)))"

definition set_collateral_balance :: "address \<Rightarrow> i128 \<Rightarrow> 't env \<Rightarrow> 't env res" where
  "set_collateral_balance b balance w =
     adjust_total_collateral (get_collateral_balance b w) balance
       (w\<lparr>st_collateral_balance := (st_collateral_balance w)(b \<mapsto> balance)\<rparr>)"

definition get_min_collateral_ratio_bps :: "'t env \<Rightarrow> u32 option" where
  [store_defs]: "get_min_collateral_ratio_bps w = st_min_collateral_ratio_bps w"

definition get_collateral_token :: "'t env \<Rightarrow> address option" where
  [store_defs]: "get_collateral_token w = st_liquidity_token w"

definition get_collateral_risk_weight_bps :: "address \<Rightarrow> 't env \<Rightarrow> u32 option" where
  [store_defs]: "get_collateral_risk_weight_bps a w = st_collateral_risk_weight_bps w a"

definition get_treasury_balance :: "'t env \<Rightarrow> i128" where
  [store_defs]: "get_treasury_balance w = (case st_treasury_balance w of None \<Rightarrow> 0 | Some v \<Rightarrow> v)"

definition add_treasury_balance :: "i128 \<Rightarrow> 't env \<Rightarrow> 't env res" where
  "add_treasury_balance amount w =
     (if amount = 0 then Inr w
      else and_then (ok_or (Contract Overflow) (checked_add_i128 (get_treasury_balance w) amount))
        (\<lambda>v. Inr (w\<lparr>st_treasury_balance := Some v\<rparr>)))"

definition subtract_treasury_balance :: "i128 \<Rightarrow> 't env \<Rightarrow> (i128 \<times> 't env) res" where
  "subtract_treasury_balance amount w =
     and_then (ok_or (Contract InsufficientTreasuryBalance)
       (case checked_sub_i128 (get_treasury_balance w) amount of
          None \<Rightarrow> None
        | Some v \<Rightarrow> if 0 \<le> amount \<and> 0 \<le> v then Some v else None))
       (\<lambda>remaining. Inr (remaining, w\<lparr>st_treasury_balance := Some remaining\<rparr>))"

definition get_bounty_balance :: "'t env \<Rightarrow> i128" where
  [store_defs]: "get_bounty_balance w = (case st_bounty_balance w of None \<Rightarrow> 0 | Some v \<Rightarrow> v)"

definition add_bounty_balance :: "i128 \<Rightarrow> 't env \<Rightarrow> 't env res" where
  "add_bounty_balance amount w =
     (if amount = 0 then Inr w
      else and_then (ok_or (Contract Overflow) (checked_add_i128 (get_bounty_balance w) amount))
        (\<lambda>v. Inr (w\<lparr>st_bounty_balance := Some v\<rparr>)))"

definition clear_bounty_balance :: "'t env \<Rightarrow> 't env" where
  [store_defs]: "clear_bounty_balance w = w\<lparr>st_bounty_balance := Some 0\<rparr>"

definition set_reentrancy_guard :: "'t env \<Rightarrow> 't env res" where
  "set_reentrancy_guard w =
     and_then (ensure (st_reentrancy w \<noteq> Some True) (Contract Reentrancy)) (\<lambda>_.
     Inr (w\<lparr>st_reentrancy := Some True\<rparr>))"

definition clear_reentrancy_guard :: "'t env \<Rightarrow> 't env" where
  [store_defs]: "clear_reentrancy_guard w = w\<lparr>st_reentrancy := Some False\<rparr>"

definition enter_reentrancy_guard :: "'t env \<Rightarrow> 't env res" where
  "enter_reentrancy_guard w = set_reentrancy_guard w"

text \<open>Clearing a per-borrower rate floor, rate ceiling or utilization cap removes the entry and
  then extends its TTL.\<close>

definition set_borrower_rate_floor_store :: "address \<Rightarrow> u32 option \<Rightarrow> 't env \<Rightarrow> 't env res" where
  "set_borrower_rate_floor_store b floor_bps w =
     and_then (ensure (case floor_bps of None \<Rightarrow> True | Some f \<Rightarrow> f \<le> 10000) RustPanic) (\<lambda>_.
     let w = w\<lparr>st_rate_floor_bps := (st_rate_floor_bps w)(b := floor_bps)\<rparr> in
     and_then (bump_persistent_ttl (st_rate_floor_bps w b \<noteq> None)) (\<lambda>_. Inr w))"

definition get_borrower_rate_floor :: "address \<Rightarrow> 't env \<Rightarrow> u32 option" where
  [store_defs]: "get_borrower_rate_floor b w = st_rate_floor_bps w b"

definition set_borrower_rate_ceiling_store :: "address \<Rightarrow> u32 option \<Rightarrow> 't env \<Rightarrow> 't env res" where
  "set_borrower_rate_ceiling_store b ceiling_bps w =
     and_then (ensure (case ceiling_bps of None \<Rightarrow> True | Some c \<Rightarrow> c \<le> 10000) RustPanic) (\<lambda>_.
     let w = w\<lparr>st_rate_ceiling_bps := (st_rate_ceiling_bps w)(b := ceiling_bps)\<rparr> in
     and_then (bump_persistent_ttl (st_rate_ceiling_bps w b \<noteq> None)) (\<lambda>_. Inr w))"

definition get_borrower_rate_ceiling :: "address \<Rightarrow> 't env \<Rightarrow> u32 option" where
  [store_defs]: "get_borrower_rate_ceiling b w = st_rate_ceiling_bps w b"

definition set_utilization_cap_bps_store :: "address \<Rightarrow> u32 option \<Rightarrow> 't env \<Rightarrow> 't env res" where
  "set_utilization_cap_bps_store b cap_bps w =
     (let w = w\<lparr>st_utilization_cap_bps := (st_utilization_cap_bps w)(b := cap_bps)\<rparr> in
      and_then (bump_persistent_ttl (st_utilization_cap_bps w b \<noteq> None)) (\<lambda>_. Inr w))"

definition get_utilization_cap_bps :: "address \<Rightarrow> 't env \<Rightarrow> u32 option" where
  [store_defs]: "get_utilization_cap_bps b w = st_utilization_cap_bps w b"

definition clear_repayment_schedule :: "address \<Rightarrow> 't env \<Rightarrow> 't env" where
  [store_defs]: "clear_repayment_schedule b w =
     w\<lparr>st_repayment_schedule := (st_repayment_schedule w)(b := None)\<rparr>"

definition set_borrower_blocked :: "address \<Rightarrow> bool \<Rightarrow> 't env \<Rightarrow> 't env" where
  [store_defs]: "set_borrower_blocked b blocked w =
     w\<lparr>st_blocked_borrower := (st_blocked_borrower w)(b := if blocked then Some True else None)\<rparr>"

definition is_borrower_blocked :: "address \<Rightarrow> 't env \<Rightarrow> bool" where
  [store_defs]: "is_borrower_blocked b w = (st_blocked_borrower w b = Some True)"

definition get_close_factor_bps :: "'t env \<Rightarrow> u32" where
  [store_defs]: "get_close_factor_bps w = (case st_close_factor_bps w of None \<Rightarrow> 10000 | Some v \<Rightarrow> v)"

definition get_repayment_schedule :: "address \<Rightarrow> 't env \<Rightarrow> repayment_schedule option" where
  [store_defs]: "get_repayment_schedule b w = st_repayment_schedule w b"

definition set_repayment_schedule_store :: "address \<Rightarrow> repayment_schedule \<Rightarrow> 't env \<Rightarrow> 't env" where
  [store_defs]: "set_repayment_schedule_store b s w =
     w\<lparr>st_repayment_schedule := (st_repayment_schedule w)(b \<mapsto> s)\<rparr>"

definition get_last_draw_ts :: "address \<Rightarrow> 't env \<Rightarrow> u64 option" where
  [store_defs]: "get_last_draw_ts b w = st_last_draw_ts w b"

definition set_last_draw_ts :: "address \<Rightarrow> u64 \<Rightarrow> 't env \<Rightarrow> 't env" where
  [store_defs]: "set_last_draw_ts b ts w = w\<lparr>st_last_draw_ts := (st_last_draw_ts w)(b \<mapsto> ts)\<rparr>"

definition get_draw_audit :: "address \<Rightarrow> u64 \<Rightarrow> 't env \<Rightarrow> i128 option" where
  [store_defs]: "get_draw_audit b ts w = st_draw_audit w (b, ts)"

definition get_draw_reversed_amount :: "address \<Rightarrow> u64 \<Rightarrow> 't env \<Rightarrow> i128" where
  [store_defs]: "get_draw_reversed_amount b ts w =
     (case st_draw_reversed_amount w (b, ts) of None \<Rightarrow> 0 | Some v \<Rightarrow> v)"

definition set_draw_reversed_amount :: "address \<Rightarrow> u64 \<Rightarrow> i128 \<Rightarrow> 't env \<Rightarrow> 't env" where
  [store_defs]: "set_draw_reversed_amount b ts amount w =
     w\<lparr>st_draw_reversed_amount := (st_draw_reversed_amount w)((b, ts) \<mapsto> amount)\<rparr>"

definition is_paused :: "'t env \<Rightarrow> bool" where
  [store_defs]: "is_paused w = (st_paused w = Some True)"

definition assert_not_paused :: "'t env \<Rightarrow> unit res" where
  "assert_not_paused w = ensure (\<not> is_paused w) (Contract Paused)"

definition assert_ts_monotonic :: "u64 \<Rightarrow> u64 \<Rightarrow> unit res" where
  "assert_ts_monotonic stored_ts new_ts =
     ensure (\<not> (stored_ts \<noteq> 0 \<and> new_ts \<le> stored_ts)) (Contract TimestampRegression)"

definition get_penalty_surcharge_bps :: "'t env \<Rightarrow> u32" where
  [store_defs]: "get_penalty_surcharge_bps w =
     (case st_penalty_surcharge_bps w of None \<Rightarrow> 0 | Some v \<Rightarrow> v)"

definition get_late_fee_flat :: "'t env \<Rightarrow> i128" where
  [store_defs]: "get_late_fee_flat w = (case st_late_fee_flat w of None \<Rightarrow> 0 | Some v \<Rightarrow> v)"

definition is_borrower_frozen :: "address \<Rightarrow> 't env \<Rightarrow> bool" where
  [store_defs]: "is_borrower_frozen b w =
     (case st_frozen_borrower w b of None \<Rightarrow> False | Some expiry \<Rightarrow> ledger_ts w < expiry)"

definition get_collateral_balance_for_token :: "address \<Rightarrow> address \<Rightarrow> 't env \<Rightarrow> i128" where
  [store_defs]: "get_collateral_balance_for_token b t w =
     (case st_collateral_balance_v2 w (b, t) of None \<Rightarrow> 0 | Some v \<Rightarrow> v)"

definition set_collateral_balance_for_token ::
  "address \<Rightarrow> address \<Rightarrow> i128 \<Rightarrow> 't env \<Rightarrow> 't env res" where
  "set_collateral_balance_for_token b t balance w =
     adjust_total_collateral (get_collateral_balance_for_token b t w) balance
       (w\<lparr>st_collateral_balance_v2 := (st_collateral_balance_v2 w)((b, t) \<mapsto> balance)\<rparr>)"

definition get_collateral_token_allowlist :: "'t env \<Rightarrow> address list" where
  [store_defs]: "get_collateral_token_allowlist w =
     (case st_collateral_token_allowlist w of None \<Rightarrow> [] | Some ts \<Rightarrow> ts)"

definition is_collateral_token_allowed :: "address \<Rightarrow> 't env \<Rightarrow> bool" where
  [store_defs]: "is_collateral_token_allowed t w = (t \<in> set (get_collateral_token_allowlist w))"

definition get_risk_admin_cooldown_seconds :: "'t env \<Rightarrow> u64" where
  [store_defs]: "get_risk_admin_cooldown_seconds w = (case st_rad_cool w of None \<Rightarrow> 0 | Some v \<Rightarrow> v)"

definition get_last_risk_admin_action_ts_for :: "address \<Rightarrow> 't env \<Rightarrow> u64" where
  [store_defs]: "get_last_risk_admin_action_ts_for b w =
     (case st_rad_last w b of None \<Rightarrow> 0 | Some v \<Rightarrow> v)"

definition set_last_risk_admin_action_ts_for :: "address \<Rightarrow> u64 \<Rightarrow> 't env \<Rightarrow> 't env" where
  [store_defs]: "set_last_risk_admin_action_ts_for b ts w = w\<lparr>st_rad_last := (st_rad_last w)(b \<mapsto> ts)\<rparr>"

definition assert_risk_admin_cooldown_elapsed_for :: "address \<Rightarrow> 't env \<Rightarrow> unit res" where
  "assert_risk_admin_cooldown_elapsed_for b w =
     (let cooldown = get_risk_admin_cooldown_seconds w;
          last_ts = get_last_risk_admin_action_ts_for b w in
      if cooldown = 0 \<or> last_ts = 0 then Inr ()
      else ensure (\<not> ledger_ts w < saturating_add_u64 last_ts cooldown)
             (Contract RiskAdminCooldownActive))"

definition get_freeze_cooldown_seconds :: "'t env \<Rightarrow> u64 option" where
  [store_defs]: "get_freeze_cooldown_seconds w =
     (case st_freeze_cooldown_seconds w of None \<Rightarrow> None | Some s \<Rightarrow> if 0 < s then Some s else None)"

definition record_freeze_timestamp_if_cooldown :: "'t env \<Rightarrow> 't env" where
  [store_defs]: "record_freeze_timestamp_if_cooldown w =
     (if get_freeze_cooldown_seconds w \<noteq> None
      then w\<lparr>st_last_freeze_timestamp := Some (ledger_ts w)\<rparr> else w)"

definition enforce_freeze_cooldown :: "'t env \<Rightarrow> unit res" where
  "enforce_freeze_cooldown w =
     (case get_freeze_cooldown_seconds w of
        None \<Rightarrow> Inr ()
      | Some cooldown \<Rightarrow> (case st_last_freeze_timestamp w of
            None \<Rightarrow> Inr ()
          | Some last_ts \<Rightarrow>
              ensure (\<not> ledger_ts w < saturating_add_u64 last_ts cooldown)
                (Contract FreezeCooldownActive)))"

definition get_per_borrower_liquidation_grace :: "address \<Rightarrow> 't env \<Rightarrow> u64" where
  [store_defs]: "get_per_borrower_liquidation_grace b w =
     (case st_liquidation_grace_period w b of None \<Rightarrow> 0 | Some v \<Rightarrow> v)"

definition set_per_borrower_liquidation_grace_store :: "address \<Rightarrow> u64 \<Rightarrow> 't env \<Rightarrow> 't env" where
  [store_defs]: "set_per_borrower_liquidation_grace_store b secs w =
     w\<lparr>st_liquidation_grace_period :=
         (st_liquidation_grace_period w)(b := if secs = 0 then None else Some secs)\<rparr>"

definition get_max_borrower_exposure :: "address \<Rightarrow> 't env \<Rightarrow> i128 option" where
  [store_defs]: "get_max_borrower_exposure b w = st_max_borrower_exposure w b"

definition set_max_borrower_exposure :: "address \<Rightarrow> i128 \<Rightarrow> 't env \<Rightarrow> 't env" where
  [store_defs]: "set_max_borrower_exposure b cap w =
     w\<lparr>st_max_borrower_exposure := (st_max_borrower_exposure w)(b := if cap = 0 then None else Some cap)\<rparr>"

end
