(* ===== verification/Cells.thy ===== *)
theory Cells
  imports Storage
begin

text \<open>
  The single-entry accessors of \<^verbatim>\<open>storage.rs\<close>, which the entrypoints call to read and write one
  setting or one borrower's record; each is named after its function with the module's name first.  The
  simplifier unfolds them to the field of the state.  The locale \<open>storage_cell\<close> states what an entrypoint
  relies on of a pair of accessors - a write is read back, a later write replaces an earlier one - and is
  interpreted on every pair.  Extending an entry's time to live has no effect on the state; where it can abort is
  stated by the \<open>bump\<close> definitions.
\<close>

section \<open>Accessors\<close>

definition storage_get_schema_version :: "'t env \<Rightarrow> u32 option" where
  [simp]: "storage_get_schema_version w = st_schema_version w"

definition storage_set_schema_version :: "u32 \<Rightarrow> 't env \<Rightarrow> 't env" where
  [simp]: "storage_set_schema_version v w = w\<lparr>st_schema_version := Some v\<rparr>"

definition storage_get_max_total_exposure :: "'t env \<Rightarrow> i128 option" where
  [simp]: "storage_get_max_total_exposure w = st_max_total_exposure w"

definition storage_set_min_collateral_ratio_bps :: "u32 \<Rightarrow> 't env \<Rightarrow> 't env" where
  [simp]: "storage_set_min_collateral_ratio_bps v w = w\<lparr>st_min_collateral_ratio_bps := Some v\<rparr>"

definition storage_get_admin_collateral_cooldown_seconds :: "'t env \<Rightarrow> u64 option" where
  [simp]: "storage_get_admin_collateral_cooldown_seconds w = st_admin_collateral_cooldown_seconds w"

definition storage_set_admin_collateral_cooldown_seconds :: "u64 \<Rightarrow> 't env \<Rightarrow> 't env" where
  [simp]: "storage_set_admin_collateral_cooldown_seconds v w = w\<lparr>st_admin_collateral_cooldown_seconds := Some v\<rparr>"

definition storage_get_last_admin_collateral_critical_action_ts :: "'t env \<Rightarrow> u64 option" where
  [simp]: "storage_get_last_admin_collateral_critical_action_ts w = st_last_col_admin_action_ts w"

definition storage_set_last_admin_collateral_critical_action_ts :: "u64 \<Rightarrow> 't env \<Rightarrow> 't env" where
  [simp]: "storage_set_last_admin_collateral_critical_action_ts v w = w\<lparr>st_last_col_admin_action_ts := Some v\<rparr>"

definition storage_set_collateral_risk_weight_bps :: "address \<Rightarrow> u32 \<Rightarrow> 't env \<Rightarrow> 't env" where
  [simp]: "storage_set_collateral_risk_weight_bps a v w = w\<lparr>st_collateral_risk_weight_bps := (st_collateral_risk_weight_bps w)(a \<mapsto> v)\<rparr>"

definition storage_get_protocol_fee_bps :: "'t env \<Rightarrow> u32 option" where
  [simp]: "storage_get_protocol_fee_bps w = st_protocol_fee_bps w"

definition storage_set_protocol_fee_bps :: "u32 \<Rightarrow> 't env \<Rightarrow> 't env" where
  [simp]: "storage_set_protocol_fee_bps v w = w\<lparr>st_protocol_fee_bps := Some v\<rparr>"

definition storage_get_treasury_address :: "'t env \<Rightarrow> address option" where
  [simp]: "storage_get_treasury_address w = st_treasury_address w"

definition storage_set_treasury_address :: "address \<Rightarrow> 't env \<Rightarrow> 't env" where
  [simp]: "storage_set_treasury_address v w = w\<lparr>st_treasury_address := Some v\<rparr>"

definition storage_clear_treasury_balance :: "'t env \<Rightarrow> 't env" where
  [simp]: "storage_clear_treasury_balance w = w\<lparr>st_treasury_balance := Some 0\<rparr>"

definition storage_get_treasury_fee_share_bps :: "'t env \<Rightarrow> u32 option" where
  [simp]: "storage_get_treasury_fee_share_bps w = st_treasury_fee_share_bps w"

definition storage_set_treasury_fee_share_bps :: "u32 \<Rightarrow> 't env \<Rightarrow> 't env" where
  [simp]: "storage_set_treasury_fee_share_bps v w = w\<lparr>st_treasury_fee_share_bps := Some v\<rparr>"

definition storage_get_bounty_address :: "'t env \<Rightarrow> address option" where
  [simp]: "storage_get_bounty_address w = st_bounty_address w"

definition storage_set_bounty_address :: "address \<Rightarrow> 't env \<Rightarrow> 't env" where
  [simp]: "storage_set_bounty_address v w = w\<lparr>st_bounty_address := Some v\<rparr>"

definition storage_get_min_credit_limit :: "'t env \<Rightarrow> i128 option" where
  [simp]: "storage_get_min_credit_limit w = st_min_credit_limit w"

definition storage_set_min_credit_limit :: "i128 \<Rightarrow> 't env \<Rightarrow> 't env" where
  [simp]: "storage_set_min_credit_limit v w = w\<lparr>st_min_credit_limit := Some v\<rparr>"

definition storage_get_max_credit_limit :: "'t env \<Rightarrow> i128 option" where
  [simp]: "storage_get_max_credit_limit w = st_max_credit_limit w"

definition storage_set_max_credit_limit :: "i128 \<Rightarrow> 't env \<Rightarrow> 't env" where
  [simp]: "storage_set_max_credit_limit v w = w\<lparr>st_max_credit_limit := Some v\<rparr>"

definition storage_get_auction_contract :: "'t env \<Rightarrow> address option" where
  [simp]: "storage_get_auction_contract w = st_auction_contract w"

definition storage_set_auction_contract :: "address \<Rightarrow> 't env \<Rightarrow> 't env" where
  [simp]: "storage_set_auction_contract v w = w\<lparr>st_auction_contract := Some v\<rparr>"

definition storage_set_close_factor_bps :: "u32 \<Rightarrow> 't env \<Rightarrow> 't env" where
  [simp]: "storage_set_close_factor_bps v w = w\<lparr>st_close_factor_bps := Some v\<rparr>"

definition storage_get_draw_min_interval :: "'t env \<Rightarrow> u64 option" where
  [simp]: "storage_get_draw_min_interval w = st_draw_min_interval_seconds w"

definition storage_set_draw_min_interval :: "u64 \<Rightarrow> 't env \<Rightarrow> 't env" where
  [simp]: "storage_set_draw_min_interval v w = w\<lparr>st_draw_min_interval_seconds := Some v\<rparr>"

definition storage_get_borrow_admin_cooldown :: "'t env \<Rightarrow> u64 option" where
  [simp]: "storage_get_borrow_admin_cooldown w = st_borrow_admin_cooldown_seconds w"

definition storage_set_borrow_admin_cooldown :: "u64 \<Rightarrow> 't env \<Rightarrow> 't env" where
  [simp]: "storage_set_borrow_admin_cooldown v w = w\<lparr>st_borrow_admin_cooldown_seconds := Some v\<rparr>"

definition storage_get_last_borrow_admin_action_ts :: "address \<Rightarrow> 't env \<Rightarrow> u64 option" where
  [simp]: "storage_get_last_borrow_admin_action_ts a w = st_last_borrow_admin_action_ts w a"

definition storage_set_last_borrow_admin_action_ts :: "address \<Rightarrow> u64 \<Rightarrow> 't env \<Rightarrow> 't env" where
  [simp]: "storage_set_last_borrow_admin_action_ts a v w = w\<lparr>st_last_borrow_admin_action_ts := (st_last_borrow_admin_action_ts w)(a \<mapsto> v)\<rparr>"

definition storage_get_accrual_admin_cooldown :: "'t env \<Rightarrow> u64 option" where
  [simp]: "storage_get_accrual_admin_cooldown w = st_accrual_admin_cooldown_seconds w"

definition storage_set_accrual_admin_cooldown :: "u64 \<Rightarrow> 't env \<Rightarrow> 't env" where
  [simp]: "storage_set_accrual_admin_cooldown v w = w\<lparr>st_accrual_admin_cooldown_seconds := Some v\<rparr>"

definition storage_get_last_accrual_admin_action_ts :: "address \<Rightarrow> 't env \<Rightarrow> u64 option" where
  [simp]: "storage_get_last_accrual_admin_action_ts a w = st_last_accrual_admin_action_ts w a"

definition storage_set_last_accrual_admin_action_ts :: "address \<Rightarrow> u64 \<Rightarrow> 't env \<Rightarrow> 't env" where
  [simp]: "storage_set_last_accrual_admin_action_ts a v w = w\<lparr>st_last_accrual_admin_action_ts := (st_last_accrual_admin_action_ts w)(a \<mapsto> v)\<rparr>"

definition storage_set_paused :: "bool \<Rightarrow> 't env \<Rightarrow> 't env" where
  [simp]: "storage_set_paused v w = w\<lparr>st_paused := Some v\<rparr>"

definition storage_clear_pause_reason :: "'t env \<Rightarrow> 't env" where
  [simp]: "storage_clear_pause_reason w = w\<lparr>st_pause_reason := None\<rparr>"

definition storage_get_pause_reason :: "'t env \<Rightarrow> pause_reason option" where
  [simp]: "storage_get_pause_reason w = st_pause_reason w"

definition storage_set_pause_reason :: "pause_reason \<Rightarrow> 't env \<Rightarrow> 't env" where
  [simp]: "storage_set_pause_reason v w = w\<lparr>st_pause_reason := Some v\<rparr>"

definition storage_get_oracle_config :: "'t env \<Rightarrow> oracle_config option" where
  [simp]: "storage_get_oracle_config w = st_oracle_config w"

definition storage_set_oracle_config :: "oracle_config \<Rightarrow> 't env \<Rightarrow> 't env" where
  [simp]: "storage_set_oracle_config v w = w\<lparr>st_oracle_config := Some v\<rparr>"

definition storage_get_oracle_last_price :: "'t env \<Rightarrow> i128 option" where
  [simp]: "storage_get_oracle_last_price w = st_oracle_last_price w"

definition storage_get_oracle_last_price_ts :: "'t env \<Rightarrow> u64 option" where
  [simp]: "storage_get_oracle_last_price_ts w = st_oracle_last_price_ts w"

definition storage_get_oracle_quorum_price :: "'t env \<Rightarrow> i128 option" where
  [simp]: "storage_get_oracle_quorum_price w = st_oracle_quorum_price w"

definition storage_get_oracle_quorum_price_ts :: "'t env \<Rightarrow> u64 option" where
  [simp]: "storage_get_oracle_quorum_price_ts w = st_oracle_quorum_price_ts w"

definition storage_set_penalty_surcharge_bps :: "u32 \<Rightarrow> 't env \<Rightarrow> 't env" where
  [simp]: "storage_set_penalty_surcharge_bps v w = w\<lparr>st_penalty_surcharge_bps := Some v\<rparr>"

definition storage_set_late_fee_flat :: "i128 \<Rightarrow> 't env \<Rightarrow> 't env" where
  [simp]: "storage_set_late_fee_flat v w = w\<lparr>st_late_fee_flat := Some v\<rparr>"

definition storage_get_late_fee_config :: "'t env \<Rightarrow> late_fee_config option" where
  [simp]: "storage_get_late_fee_config w = st_late_fee_config w"

definition storage_set_late_fee_config :: "late_fee_config option \<Rightarrow> 't env \<Rightarrow> 't env" where
  "storage_set_late_fee_config config w =
     (case config of Some c \<Rightarrow> w\<lparr>st_late_fee_config := Some c\<rparr> | None \<Rightarrow> w\<lparr>st_late_fee_config := None\<rparr>)"

definition storage_set_borrower_frozen_until :: "address \<Rightarrow> u64 \<Rightarrow> 't env \<Rightarrow> 't env" where
  [simp]: "storage_set_borrower_frozen_until a v w = w\<lparr>st_frozen_borrower := (st_frozen_borrower w)(a \<mapsto> v)\<rparr>"

definition storage_get_borrower_frozen_until :: "address \<Rightarrow> 't env \<Rightarrow> u64 option" where
  [simp]: "storage_get_borrower_frozen_until a w = st_frozen_borrower w a"

definition storage_clear_borrower_frozen :: "address \<Rightarrow> 't env \<Rightarrow> 't env" where
  [simp]: "storage_clear_borrower_frozen a w = w\<lparr>st_frozen_borrower := (st_frozen_borrower w)(a := None)\<rparr>"

definition storage_set_collateral_token_allowlist :: "(address list) \<Rightarrow> 't env \<Rightarrow> 't env" where
  [simp]: "storage_set_collateral_token_allowlist v w = w\<lparr>st_collateral_token_allowlist := Some v\<rparr>"

definition storage_set_risk_admin_cooldown_seconds :: "u64 \<Rightarrow> 't env \<Rightarrow> 't env" where
  [simp]: "storage_set_risk_admin_cooldown_seconds v w = w\<lparr>st_rad_cool := Some v\<rparr>"

definition storage_set_freeze_cooldown_seconds :: "u64 \<Rightarrow> 't env \<Rightarrow> 't env" where
  [simp]: "storage_set_freeze_cooldown_seconds v w = (if v = 0 then w\<lparr>st_freeze_cooldown_seconds := None\<rparr> else w\<lparr>st_freeze_cooldown_seconds := Some v\<rparr>)"

definition storage_get_last_freeze_timestamp :: "'t env \<Rightarrow> u64 option" where
  [simp]: "storage_get_last_freeze_timestamp w = st_last_freeze_timestamp w"

definition storage_set_last_freeze_timestamp :: "u64 \<Rightarrow> 't env \<Rightarrow> 't env" where
  [simp]: "storage_set_last_freeze_timestamp v w = w\<lparr>st_last_freeze_timestamp := Some v\<rparr>"

definition storage_get_grace_period_config :: "'t env \<Rightarrow> grace_period_config option" where
  [simp]: "storage_get_grace_period_config w = st_grace_cfg w"

definition storage_get_oracle_quorum_config :: "'t env \<Rightarrow> oracle_quorum_config option" where
  [simp]: "storage_get_oracle_quorum_config w = st_oracle_quorum_config w"

definition storage_set_oracle_quorum_config :: "oracle_quorum_config \<Rightarrow> 't env \<Rightarrow> 't env" where
  [simp]: "storage_set_oracle_quorum_config v w = w\<lparr>st_oracle_quorum_config := Some v\<rparr>"

definition storage_get_pending_treasury_withdrawal :: "'t env \<Rightarrow> treasury_withdrawal_proposal option" where
  [simp]: "storage_get_pending_treasury_withdrawal w = st_pending_treasury_withdrawal w"

definition storage_set_pending_treasury_withdrawal :: "treasury_withdrawal_proposal \<Rightarrow> 't env \<Rightarrow> 't env" where
  [simp]: "storage_set_pending_treasury_withdrawal v w = w\<lparr>st_pending_treasury_withdrawal := Some v\<rparr>"

definition storage_clear_pending_treasury_withdrawal :: "'t env \<Rightarrow> 't env" where
  [simp]: "storage_clear_pending_treasury_withdrawal w = w\<lparr>st_pending_treasury_withdrawal := None\<rparr>"

lemma storage_set_late_fee_config_field [simp]: "storage_set_late_fee_config c w = w\<lparr>st_late_fee_config := c\<rparr>"
  by (cases c) (simp_all add: storage_set_late_fee_config_def)

definition storage_set_borrower_unblocked :: "address \<Rightarrow> 't env \<Rightarrow> 't env" where
  [simp]: "storage_set_borrower_unblocked b w = set_borrower_blocked b False w"

definition validate_storage_key_encoding :: "bytes \<Rightarrow> unit res" where
  "validate_storage_key_encoding key =
     ensure (\<not> (0 < length key \<and> key ! (length key - 1) = 0)) (Contract InvalidAmount)"

text \<open>The key check accepts exactly the keys that no padding with zero bytes produces, so two accepted keys that differ
  only by padding are equal.\<close>

lemma validate_storage_key_encoding_Inr:
  "validate_storage_key_encoding key = Inr () \<longleftrightarrow> (\<forall>k n. key = k @ replicate n 0 \<longrightarrow> n = 0)"
proof (cases key rule: rev_cases)
  case Nil
  then show ?thesis by (simp add: validate_storage_key_encoding_def)
next
  case (snoc ys y)
  have "(\<exists>k n. key = k @ replicate n 0 \<and> n \<noteq> 0) \<longleftrightarrow> y = 0"
  proof
    assume "\<exists>k n. key = k @ replicate n 0 \<and> n \<noteq> 0"
    then obtain k n where "key = k @ replicate (Suc n) 0" by (metis not0_implies_Suc)
    then have "key = (k @ replicate n 0) @ [0]" by (simp add: replicate_append_same)
    then show "y = 0" using snoc by simp
  next
    assume "y = 0"
    then have "key = ys @ replicate 1 0" using snoc by simp
    then show "\<exists>k n. key = k @ replicate n 0 \<and> n \<noteq> 0" by blast
  qed
  then show ?thesis using snoc by (auto simp: validate_storage_key_encoding_def nth_append)
qed

subsection \<open>Extending the life of a record\<close>

text \<open>Extending the life of an entry aborts the invocation when the entry is missing.\<close>

definition bump_credit_line_ttl :: "address \<Rightarrow> 't env \<Rightarrow> unit res" where
  "bump_credit_line_ttl b w = ensure (st_lines w b \<noteq> None) StorageMissingValue"

definition bump_settlement_marker_ttl :: "address \<times> symbol \<Rightarrow> 't env \<Rightarrow> unit res" where
  "bump_settlement_marker_ttl key w =
     (if st_liq_seen w key \<noteq> None then bump_persistent_ttl (st_liq_seen w key \<noteq> None) else Inr ())"

definition bump_vrf_commitment_ttl :: "address \<Rightarrow> 't env \<Rightarrow> unit res" where
  "bump_vrf_commitment_ttl b w = bump_persistent_ttl (st_vrf_commitment w b \<noteq> None)"

definition bump_credit_line_freeze_ttl :: "address \<Rightarrow> 't env \<Rightarrow> unit res" where
  "bump_credit_line_freeze_ttl b w = bump_persistent_ttl (st_credit_line_freeze w b \<noteq> None)"

definition bump_borrower_frozen_ttl :: "address \<Rightarrow> 't env \<Rightarrow> unit res" where
  "bump_borrower_frozen_ttl b w = bump_persistent_ttl (st_frozen_borrower w b \<noteq> None)"

text \<open>The operations call them behind a presence check or right after the write, where they pass; this is why the
  definitions of these operations leave them out.\<close>

lemma bumps_pass:
  "get_credit_line b w = Some l \<Longrightarrow> bump_credit_line_ttl b w = Inr ()"
  "bump_settlement_marker_ttl key w = Inr ()"
  "bump_vrf_commitment_ttl b (w\<lparr>st_vrf_commitment := (st_vrf_commitment w)(b \<mapsto> c)\<rparr>) = Inr ()"
  "bump_credit_line_freeze_ttl b (w\<lparr>st_credit_line_freeze := (st_credit_line_freeze w)(b \<mapsto> r)\<rparr>) = Inr ()"
  "bump_borrower_frozen_ttl b (storage_set_borrower_frozen_until b e w) = Inr ()"
  "storage_get_borrower_frozen_until b w = Some e \<Longrightarrow> bump_borrower_frozen_ttl b w = Inr ()"
  by (simp_all add: bump_credit_line_ttl_def bump_settlement_marker_ttl_def bump_vrf_commitment_ttl_def
      bump_credit_line_freeze_ttl_def bump_borrower_frozen_ttl_def bump_persistent_ttl_def get_credit_line_def)

section \<open>What the entrypoints rely on\<close>

locale storage_cell =
  fixes get :: "'s \<Rightarrow> 'v option" and put :: "'v \<Rightarrow> 's \<Rightarrow> 's"
  assumes get_put: "get (put v w) = Some v"
    and put_put: "put v (put u w) = put v w"
begin

text \<open>A run of writes leaves the state as its last write alone would.\<close>

lemma puts_collapse: "fold put (vs @ [v]) w = put v w"
  by (induction vs arbitrary: w) (simp_all add: put_put[of v])

lemma get_puts: "get (fold put vs w) = (if vs = [] then get w else Some (List.last vs))"
  by (cases vs rule: rev_cases) (simp_all add: puts_collapse get_put)

end

interpretation schema_version_cell: storage_cell storage_get_schema_version storage_set_schema_version
  by unfold_locales simp_all

interpretation admin_collateral_cooldown_seconds_cell: storage_cell storage_get_admin_collateral_cooldown_seconds storage_set_admin_collateral_cooldown_seconds
  by unfold_locales simp_all

interpretation last_col_admin_action_ts_cell: storage_cell storage_get_last_admin_collateral_critical_action_ts storage_set_last_admin_collateral_critical_action_ts
  by unfold_locales simp_all

interpretation protocol_fee_bps_cell: storage_cell storage_get_protocol_fee_bps storage_set_protocol_fee_bps
  by unfold_locales simp_all

interpretation treasury_address_cell: storage_cell storage_get_treasury_address storage_set_treasury_address
  by unfold_locales simp_all

interpretation treasury_fee_share_bps_cell: storage_cell storage_get_treasury_fee_share_bps storage_set_treasury_fee_share_bps
  by unfold_locales simp_all

interpretation bounty_address_cell: storage_cell storage_get_bounty_address storage_set_bounty_address
  by unfold_locales simp_all

interpretation min_credit_limit_cell: storage_cell storage_get_min_credit_limit storage_set_min_credit_limit
  by unfold_locales simp_all

interpretation max_credit_limit_cell: storage_cell storage_get_max_credit_limit storage_set_max_credit_limit
  by unfold_locales simp_all

interpretation auction_contract_cell: storage_cell storage_get_auction_contract storage_set_auction_contract
  by unfold_locales simp_all

interpretation draw_min_interval_seconds_cell: storage_cell storage_get_draw_min_interval storage_set_draw_min_interval
  by unfold_locales simp_all

interpretation borrow_admin_cooldown_seconds_cell: storage_cell storage_get_borrow_admin_cooldown storage_set_borrow_admin_cooldown
  by unfold_locales simp_all

interpretation accrual_admin_cooldown_seconds_cell: storage_cell storage_get_accrual_admin_cooldown storage_set_accrual_admin_cooldown
  by unfold_locales simp_all

interpretation pause_reason_cell: storage_cell storage_get_pause_reason storage_set_pause_reason
  by unfold_locales simp_all

interpretation oracle_config_cell: storage_cell storage_get_oracle_config storage_set_oracle_config
  by unfold_locales simp_all

interpretation last_freeze_timestamp_cell: storage_cell storage_get_last_freeze_timestamp storage_set_last_freeze_timestamp
  by unfold_locales simp_all

interpretation oracle_quorum_config_cell: storage_cell storage_get_oracle_quorum_config storage_set_oracle_quorum_config
  by unfold_locales simp_all

interpretation pending_treasury_withdrawal_cell: storage_cell storage_get_pending_treasury_withdrawal storage_set_pending_treasury_withdrawal
  by unfold_locales simp_all

interpretation last_borrow_admin_action_ts_cell: storage_cell "storage_get_last_borrow_admin_action_ts b" "storage_set_last_borrow_admin_action_ts b" for b
  by unfold_locales simp_all

interpretation last_accrual_admin_action_ts_cell: storage_cell "storage_get_last_accrual_admin_action_ts b" "storage_set_last_accrual_admin_action_ts b" for b
  by unfold_locales simp_all

interpretation frozen_borrower_cell: storage_cell "storage_get_borrower_frozen_until b" "storage_set_borrower_frozen_until b" for b
  by unfold_locales simp_all

end
