(* ===== verification/Events.thy ===== *)
theory Events
  imports Cells
begin

text \<open>
  The publishers of \<^verbatim>\<open>events.rs\<close>: each appends its payload with its topics to the event log.  A
  publisher reads the ledger's time or sequence number where its source does.  Three publishers that take
  a credit line stand beside the operations that call them: \<open>publish_line\<close> and
  \<open>publish_borrow_lifecycle_event\<close> in \<open>Lifecycle\<close>, \<open>publish_collateral_lifecycle_event\<close> in \<open>Collateral\<close>.
  The simplifier unfolds a publisher to the entry it appends.
\<close>

definition publish_credit_line_opened_event :: "address \<Rightarrow> i128 \<Rightarrow> u32 \<Rightarrow> u32 \<Rightarrow> u64 \<Rightarrow> 't env \<Rightarrow> 't env" where
  [simp]: "publish_credit_line_opened_event b limit rate score ts w =
     emit ([''credit'', ''opened_v2''], CreditLineOpenedEvent b limit rate score ts) w"

definition publish_credit_line_suspended_event :: "address \<Rightarrow> symbol \<Rightarrow> u64 \<Rightarrow> 't env \<Rightarrow> 't env" where
  [simp]: "publish_credit_line_suspended_event b reason ts w =
     emit ([''credit'', ''susp_v2''], CreditLineSuspendedEvent b reason ts) w"

definition publish_credit_line_closed_event :: "address \<Rightarrow> address \<Rightarrow> i128 \<Rightarrow> u64 \<Rightarrow> 't env \<Rightarrow> 't env" where
  [simp]: "publish_credit_line_closed_event b closer remaining ts w =
     emit ([''credit'', ''closed_v2''], CreditLineClosedEvent b closer remaining ts) w"

definition publish_repayment_event :: "address \<Rightarrow> i128 \<Rightarrow> i128 \<Rightarrow> 't env \<Rightarrow> 't env" where
  [simp]: "publish_repayment_event b amount new_utilized w =
     emit ([''credit'', ''repay''], RepaymentEvent b amount new_utilized) w"

definition publish_drawn_event :: "address \<Rightarrow> i128 \<Rightarrow> i128 \<Rightarrow> u64 \<Rightarrow> 't env \<Rightarrow> 't env" where
  [simp]: "publish_drawn_event b amount new_utilized ts w =
     emit ([''credit'', ''drawn''], DrawnEvent b amount new_utilized ts) w"

definition publish_draw_reversed_event :: "address \<Rightarrow> i128 \<Rightarrow> u64 \<Rightarrow> u32 \<Rightarrow> i128 \<Rightarrow> u64 \<Rightarrow> address \<Rightarrow> bool \<Rightarrow> 't env \<Rightarrow> 't env" where
  [simp]: "publish_draw_reversed_event b amount original_ts reason_code new_utilized ts admin accounting_only w =
     emit ([''credit'', ''draw_rev''], DrawReversedEvent b amount original_ts reason_code new_utilized ts admin accounting_only) w"

definition publish_drawn_event_v2 :: "address \<Rightarrow> address \<Rightarrow> address \<Rightarrow> i128 \<Rightarrow> i128 \<Rightarrow> u64 \<Rightarrow> 't env \<Rightarrow> 't env" where
  [simp]: "publish_drawn_event_v2 b rcpt source amount new_utilized ts w =
     emit ([''credit'', ''drawn_v2''], DrawnEventV2 b rcpt source amount new_utilized ts) w"

definition publish_fee_accrued_event :: "address \<Rightarrow> i128 \<Rightarrow> i128 \<Rightarrow> i128 \<Rightarrow> i128 \<Rightarrow> i128 \<Rightarrow> 't env \<Rightarrow> 't env" where
  [simp]: "publish_fee_accrued_event b fee treasury_amt bounty_amt new_treasury new_bounty w =
     emit ([''credit'', ''fee_accrd''], FeeAccruedEvent b fee treasury_amt bounty_amt new_treasury new_bounty) w"

definition publish_admin_rotation_proposed :: "address \<Rightarrow> u64 \<Rightarrow> 't env \<Rightarrow> 't env" where
  [simp]: "publish_admin_rotation_proposed proposed accept_after w =
     emit ([''credit'', ''admin_prop''], AdminRotationProposedEvent proposed accept_after) w"

definition publish_admin_rotation_accepted :: "address \<Rightarrow> 't env \<Rightarrow> 't env" where
  [simp]: "publish_admin_rotation_accepted new_admin w =
     emit ([''credit'', ''admin_acc''], AdminRotationAcceptedEvent new_admin) w"

definition publish_risk_parameters_updated :: "address \<Rightarrow> i128 \<Rightarrow> u32 \<Rightarrow> u32 \<Rightarrow> 't env \<Rightarrow> 't env" where
  [simp]: "publish_risk_parameters_updated b limit rate score w =
     emit ([''credit'', ''risk_upd''], RiskParametersUpdatedEvent b limit rate score) w"

definition publish_interest_accrued_event :: "address \<Rightarrow> i128 \<Rightarrow> i128 \<Rightarrow> 't env \<Rightarrow> 't env" where
  [simp]: "publish_interest_accrued_event b accrued new_utilized w =
     emit ([''credit'', ''accrue''], InterestAccruedEvent b accrued new_utilized) w"

definition publish_draws_frozen_event :: "bool \<Rightarrow> freeze_reason \<Rightarrow> 't env \<Rightarrow> 't env" where
  [simp]: "publish_draws_frozen_event is_frozen reason w =
     emit ([''credit'', ''drw_freeze''], DrawsFrozenEvent is_frozen reason) w"

definition publish_rate_formula_config_event :: "bool \<Rightarrow> 't env \<Rightarrow> 't env" where
  [simp]: "publish_rate_formula_config_event enabled w =
     emit ([''credit'', ''rate_form''], RateFormulaConfigEvent enabled) w"

definition publish_default_liquidation_requested_event :: "address \<Rightarrow> i128 \<Rightarrow> 't env \<Rightarrow> 't env" where
  [simp]: "publish_default_liquidation_requested_event b utilized w =
     emit ([''credit'', ''liq_req''], DefaultLiquidationRequested b utilized) w"

definition publish_default_liquidation_settled_event :: "address \<Rightarrow> symbol \<Rightarrow> i128 \<Rightarrow> i128 \<Rightarrow> i128 \<Rightarrow> i128 \<Rightarrow> credit_status \<Rightarrow> u32 \<Rightarrow> 't env \<Rightarrow> 't env" where
  [simp]: "publish_default_liquidation_settled_event b settlement_id recovered interest_part principal_part remaining s close_factor w =
     emit ([''credit'', ''liq_setl''], DefaultLiquidationSettledEvent b settlement_id recovered interest_part principal_part remaining s close_factor) w"

definition publish_paused_event :: "bool \<Rightarrow> 't env \<Rightarrow> 't env" where
  [simp]: "publish_paused_event paused w =
     emit ([''credit'', if paused then ''paused'' else ''unpaused''], PausedEvent paused) w"

definition publish_borrower_blocked_event :: "address \<Rightarrow> bool \<Rightarrow> 't env \<Rightarrow> 't env" where
  [simp]: "publish_borrower_blocked_event b blocked w =
     emit ([''blk_chg''], BorrowerBlockedEvent b blocked (ledger_seq w)) w"

definition publish_borrower_frozen_event :: "address \<Rightarrow> u64 \<Rightarrow> 't env \<Rightarrow> 't env" where
  [simp]: "publish_borrower_frozen_event b frozen_until w =
     emit ([''br_freeze''], BorrowerFrozenEvent b frozen_until (ledger_seq w)) w"

definition publish_penalty_rate_entered_event :: "address \<Rightarrow> u32 \<Rightarrow> u32 \<Rightarrow> u32 \<Rightarrow> 't env \<Rightarrow> 't env" where
  [simp]: "publish_penalty_rate_entered_event b base surcharge effective w =
     emit ([''credit'', ''pen_enter''], PenaltyRateEnteredEvent b base surcharge effective) w"

definition publish_penalty_rate_exited_event :: "address \<Rightarrow> u32 \<Rightarrow> u32 \<Rightarrow> 't env \<Rightarrow> 't env" where
  [simp]: "publish_penalty_rate_exited_event b previous new_rate w =
     emit ([''credit'', ''pen_exit''], PenaltyRateExitedEvent b previous new_rate) w"

definition publish_collateral_deposited_event :: "address \<Rightarrow> i128 \<Rightarrow> i128 \<Rightarrow> 't env \<Rightarrow> 't env" where
  [simp]: "publish_collateral_deposited_event b amount new_balance w =
     emit ([''credit'', ''col_dep''], CollateralDepositedEvent b amount new_balance) w"

definition publish_collateral_withdrawn_event :: "address \<Rightarrow> i128 \<Rightarrow> i128 \<Rightarrow> 't env \<Rightarrow> 't env" where
  [simp]: "publish_collateral_withdrawn_event b amount new_balance w =
     emit ([''credit'', ''col_wit''], CollateralWithdrawnEvent b amount new_balance) w"

definition publish_token_rescued_event :: "address \<Rightarrow> address \<Rightarrow> i128 \<Rightarrow> 't env \<Rightarrow> 't env" where
  [simp]: "publish_token_rescued_event token rcpt amount w =
     emit ([''credit'', ''tok_resc''], TokenRescuedEvent token rcpt amount) w"

definition publish_contract_upgraded_event :: "bytes \<Rightarrow> bytes \<Rightarrow> 't env \<Rightarrow> 't env" where
  [simp]: "publish_contract_upgraded_event old_hash new_hash w =
     emit ([''credit'', ''upgraded''], ContractUpgradedEvent old_hash new_hash) w"

definition publish_close_factor_bps_set_event :: "u32 \<Rightarrow> 't env \<Rightarrow> 't env" where
  [simp]: "publish_close_factor_bps_set_event bps w =
     emit ([''credit'', ''clsfctr''], CloseFactorBpsSetEvent bps) w"

definition publish_oracle_config_set_event :: "u32 \<Rightarrow> u64 \<Rightarrow> 't env \<Rightarrow> 't env" where
  [simp]: "publish_oracle_config_set_event max_deviation max_age w =
     emit ([''credit'', ''orc_cfg''], OracleConfigSetEvent max_deviation max_age) w"

definition publish_oracle_price_accepted_event :: "i128 \<Rightarrow> u64 \<Rightarrow> 't env \<Rightarrow> 't env" where
  [simp]: "publish_oracle_price_accepted_event price ts w =
     emit ([''credit'', ''orc_price''], OraclePriceAcceptedEvent price ts) w"

definition publish_late_fee_charged_event :: "address \<Rightarrow> i128 \<Rightarrow> u64 \<Rightarrow> 't env \<Rightarrow> 't env" where
  [simp]: "publish_late_fee_charged_event b fee installment w =
     emit ([''credit'', ''late_fee''], LateFeeChargedEvent b fee installment) w"

definition publish_grace_waiver_applied_event :: "address \<Rightarrow> i128 \<Rightarrow> grace_waiver_mode \<Rightarrow> 't env \<Rightarrow> 't env" where
  [simp]: "publish_grace_waiver_applied_event b waived mode w =
     emit ([''credit'', ''grace_wv''], GraceWaiverAppliedEvent b waived mode) w"

definition publish_treasury_withdrawal_proposed :: "address \<Rightarrow> i128 \<Rightarrow> address \<Rightarrow> u64 \<Rightarrow> u64 \<Rightarrow> 't env \<Rightarrow> 't env" where
  [simp]: "publish_treasury_withdrawal_proposed rcpt amount by_admin at_ts after_ts w =
     emit ([''credit'', ''tre_prop''], TreasuryWithdrawalProposedEvent rcpt amount by_admin at_ts after_ts) w"

definition publish_treasury_withdrawal_executed :: "address \<Rightarrow> i128 \<Rightarrow> address \<Rightarrow> u64 \<Rightarrow> i128 \<Rightarrow> 't env \<Rightarrow> 't env" where
  [simp]: "publish_treasury_withdrawal_executed rcpt amount by_admin at_ts remaining w =
     emit ([''credit'', ''tre_exec''], TreasuryWithdrawalExecutedEvent rcpt amount by_admin at_ts remaining) w"

definition publish_attestation_batch_committed :: "address \<Rightarrow> bytes \<Rightarrow> u32 \<Rightarrow> 't env \<Rightarrow> 't env" where
  [simp]: "publish_attestation_batch_committed b root count w =
     emit ([''credit'', ''atst_bat''], AttestationBatchCommittedEvent b root count) w"

definition publish_risk_admin_cooldown_configured :: "u64 \<Rightarrow> 't env \<Rightarrow> 't env" where
  [simp]: "publish_risk_admin_cooldown_configured seconds w =
     emit ([''credit'', ''rad_cooldown''], RiskAdminCooldownConfiguredEvent seconds) w"

definition publish_debt_forgiven_event :: "address \<Rightarrow> i128 \<Rightarrow> i128 \<Rightarrow> i128 \<Rightarrow> 't env \<Rightarrow> 't env" where
  [simp]: "publish_debt_forgiven_event b forgiven remaining new_utilized w =
     emit ([''credit'', ''debt_frgv''], DebtForgivenEvent b forgiven remaining new_utilized) w"

definition publish_collateral_partial_released_event :: "address \<Rightarrow> i128 \<Rightarrow> i128 \<Rightarrow> u32 \<Rightarrow> 't env \<Rightarrow> 't env" where
  [simp]: "publish_collateral_partial_released_event b released new_balance health w =
     emit ([''credit'', ''col_prel''], CollateralPartialReleasedEvent b released new_balance health) w"

definition publish_credit_line_freeze_event :: "address \<Rightarrow> freeze_reason \<Rightarrow> bool \<Rightarrow> 't env \<Rightarrow> 't env" where
  [simp]: "publish_credit_line_freeze_event b reason is_frozen w =
     emit ([''credit'', ''line_frz''], CreditLineFreezeEvent b is_frozen reason (ledger_seq w)) w"

definition publish_protocol_fee_bounds_set_event :: "u32 \<Rightarrow> u32 \<Rightarrow> 't env \<Rightarrow> 't env" where
  [simp]: "publish_protocol_fee_bounds_set_event min_bps max_bps w =
     emit ([''credit'', ''fee_bnds''], ProtocolFeeBoundsSetEvent min_bps max_bps) w"

definition publish_protocol_fee_bps_set_event :: "u32 \<Rightarrow> 't env \<Rightarrow> 't env" where
  [simp]: "publish_protocol_fee_bps_set_event bps w =
     emit ([''credit'', ''fee_bps''], ProtocolFeeBpsSetEvent bps) w"

definition publish_oracle_quorum_config_set_event :: "u32 \<Rightarrow> u32 \<Rightarrow> u64 \<Rightarrow> 't env \<Rightarrow> 't env" where
  [simp]: "publish_oracle_quorum_config_set_event k max_deviation max_age w =
     emit ([''credit'', ''orc_qcfg''], OracleQuorumConfigSetEvent k max_deviation max_age) w"

definition publish_oracle_quorum_price_set_event :: "i128 \<Rightarrow> u32 \<Rightarrow> u64 \<Rightarrow> 't env \<Rightarrow> 't env" where
  [simp]: "publish_oracle_quorum_price_set_event price k ts w =
     emit ([''credit'', ''orc_qprc''], OracleQuorumPriceSetEvent price k ts) w"

definition publish_oracle_added_event :: "address \<Rightarrow> u32 \<Rightarrow> 't env \<Rightarrow> 't env" where
  [simp]: "publish_oracle_added_event oracle weight w =
     emit ([''credit'', ''orc_add''], OracleAddedEvent oracle weight (ledger_ts w)) w"

definition publish_oracle_removed_event :: "address \<Rightarrow> 't env \<Rightarrow> 't env" where
  [simp]: "publish_oracle_removed_event oracle w =
     emit ([''credit'', ''orc_rmv''], OracleRemovedEvent oracle (ledger_ts w)) w"

definition publish_oracle_quorum_threshold_set_event :: "u32 \<Rightarrow> 't env \<Rightarrow> 't env" where
  [simp]: "publish_oracle_quorum_threshold_set_event threshold w =
     emit ([''credit'', ''orc_qthrs''], OracleQuorumThresholdSetEvent threshold (ledger_ts w)) w"

definition publish_oracle_reporting_window_set_event :: "u64 \<Rightarrow> 't env \<Rightarrow> 't env" where
  [simp]: "publish_oracle_reporting_window_set_event seconds w =
     emit ([''credit'', ''orc_win''], OracleReportingWindowSetEvent seconds (ledger_ts w)) w"

definition publish_oracle_value_reported_event :: "address \<Rightarrow> u128 \<Rightarrow> 't env \<Rightarrow> 't env" where
  [simp]: "publish_oracle_value_reported_event oracle v w =
     emit ([''credit'', ''orc_rpt''], OracleValueReportedEvent oracle v (ledger_ts w)) w"

end
