(* ===== verification/Accounting.thy ===== *)
theory Accounting
  imports Events
begin

text \<open>
  The accounting contract of the storage layer.  \<open>index_ok\<close> states that the id index
  (\<^verbatim>\<open>CreditLineIdByBorrower\<close> / \<^verbatim>\<open>CreditLineBorrowerById\<close>) is a bijection between the
  borrowers that have a credit line and the ids below \<^verbatim>\<open>CreditLineCount\<close>;
  \<open>books_ok\<close> adds that \<^verbatim>\<open>TotalUtilized\<close>, \<^verbatim>\<open>ActiveLineCount\<close>,
  \<^verbatim>\<open>PendingAuctionCount\<close> and \<^verbatim>\<open>TotalCollateral\<close> are the sums they stand for.  The
  lemmas say what the recomputation loops return, what \<^const>\<open>persist_credit_line\<close> writes, and
  how each aggregate moves.
\<close>

section \<open>The borrower index\<close>

definition index_ok ::
  "(address \<rightharpoonup> 'a) \<Rightarrow> (address \<rightharpoonup> u32) \<Rightarrow> (u32 \<rightharpoonup> address) \<Rightarrow> int \<Rightarrow> bool" where
  "index_ok lines ids bs n \<longleftrightarrow>
     0 \<le> n \<and> n \<le> u32_max \<and> dom lines = dom ids \<and>
     (\<forall>i. bs i \<noteq> None \<longleftrightarrow> 0 \<le> i \<and> i < n) \<and>
     (\<forall>b i. ids b = Some i \<longleftrightarrow> bs i = Some b)"

lemma index_ok_dom:
  assumes "index_ok lines ids bs n"
  shows "dom lines = (\<lambda>i. the (bs i)) ` {0..<n}"
proof (intro set_eqI iffI)
  fix b assume "b \<in> dom lines"
  then obtain i where "ids b = Some i" using assms unfolding index_ok_def by blast
  then have "bs i = Some b" using assms unfolding index_ok_def by blast
  moreover from this have "i \<in> {0..<n}"
    using assms unfolding index_ok_def by (metis atLeastLessThan_iff option.distinct(1))
  ultimately show "b \<in> (\<lambda>i. the (bs i)) ` {0..<n}" by force
next
  fix b assume "b \<in> (\<lambda>i. the (bs i)) ` {0..<n}"
  then obtain i where i: "0 \<le> i" "i < n" "b = the (bs i)" by auto
  then have "bs i = Some b" using assms unfolding index_ok_def by (metis option.collapse)
  then have "ids b = Some i" using assms unfolding index_ok_def by blast
  then show "b \<in> dom lines" using assms unfolding index_ok_def by blast
qed

lemma index_ok_inj:
  assumes "index_ok lines ids bs n"
  shows "inj_on (\<lambda>i. the (bs i)) {0..<n}"
proof (rule inj_onI)
  fix i j assume ij: "i \<in> {0..<n}" "j \<in> {0..<n}" "the (bs i) = the (bs j)"
  then have "bs i \<noteq> None" "bs j \<noteq> None" using assms unfolding index_ok_def by simp_all
  then have "bs i = Some (the (bs i))" "bs j = Some (the (bs i))" using ij(3) by auto
  then have "ids (the (bs i)) = Some i" "ids (the (bs i)) = Some j"
    using assms unfolding index_ok_def by blast+
  then show "i = j" by simp
qed

lemma index_ok_finite: "index_ok lines ids bs n \<Longrightarrow> finite (dom lines)"
  by (simp add: index_ok_dom)

lemma index_ok_card: "index_ok lines ids bs n \<Longrightarrow> int (card (dom lines)) = n"
  by (simp add: index_ok_dom card_image[OF index_ok_inj]) (simp add: index_ok_def)

lemma index_ok_new:
  assumes "index_ok lines ids bs n" and "ids b = None" and "n < u32_max"
  shows "index_ok (lines(b \<mapsto> v)) (ids(b \<mapsto> n)) (bs(n \<mapsto> b)) (n + 1)"
proof -
  have out: "bs n = None" using assms(1) unfolding index_ok_def by (metis less_irrefl)
  have ids_in: "\<And>c i. ids c = Some i \<longleftrightarrow> bs i = Some c" using assms(1) by (simp add: index_ok_def)
  show ?thesis
    unfolding index_ok_def
  proof (intro conjI allI)
    show "0 \<le> n + 1" "n + 1 \<le> u32_max" using assms(1,3) by (auto simp: index_ok_def)
    show "dom (lines(b \<mapsto> v)) = dom (ids(b \<mapsto> n))" using assms(1) by (simp add: index_ok_def)
    show "((bs(n \<mapsto> b)) i \<noteq> None) = (0 \<le> i \<and> i < n + 1)" for i
      using assms(1) unfolding index_ok_def by (cases "i = n") auto
    show "((ids(b \<mapsto> n)) c = Some i) = ((bs(n \<mapsto> b)) i = Some c)" for c i
      using out ids_in assms(2) by (cases "i = n"; cases "c = b") (auto, metis option.distinct(1))
  qed
qed

lemma index_ok_upd:
  "index_ok lines ids bs n \<Longrightarrow> ids b \<noteq> None \<Longrightarrow> index_ok (lines(b \<mapsto> v)) ids bs n"
  unfolding index_ok_def by auto

section \<open>The recomputation loops\<close>

definition indexed_sum :: "(address \<Rightarrow> 't env \<Rightarrow> i128 option) \<Rightarrow> 't env \<Rightarrow> i128 list" where
  "indexed_sum val w =
     map (\<lambda>i. case get_borrower_by_credit_line_id i w of
               None \<Rightarrow> 0 | Some b \<Rightarrow> (case val b w of None \<Rightarrow> 0 | Some v \<Rightarrow> v)) (line_ids w)"

lemma for_each_checked_sum:
  assumes "for_each (\<lambda>i acc. case f i of None \<Rightarrow> Inr acc
             | Some v \<Rightarrow> ok_or RustPanic (checked_add_i128 acc v)) xs a = Inr t"
  shows "t = a + sum_list (map (\<lambda>i. case f i of None \<Rightarrow> 0 | Some v \<Rightarrow> v) xs)"
  using assms
proof (induction xs arbitrary: a)
  case Nil
  then show ?case by simp
next
  case (Cons i xs)
  show ?case
  proof (cases "f i")
    case None
    then show ?thesis using Cons by simp
  next
    case (Some v)
    then show ?thesis using Cons.prems Cons.IH[of "a + v"] by (auto simp: checked_add_i128_def)
  qed
qed

lemma for_each_checked_sum_total:
  assumes "\<forall>i\<in>set xs. \<forall>v. f i = Some v \<longrightarrow> 0 \<le> v" and "0 \<le> a"
    and "a + sum_list (map (\<lambda>i. case f i of None \<Rightarrow> 0 | Some v \<Rightarrow> v) xs) \<le> i128_max"
  shows "for_each (\<lambda>i acc. case f i of None \<Rightarrow> Inr acc
             | Some v \<Rightarrow> ok_or RustPanic (checked_add_i128 acc v)) xs a
         = Inr (a + sum_list (map (\<lambda>i. case f i of None \<Rightarrow> 0 | Some v \<Rightarrow> v) xs))"
  using assms
proof (induction xs arbitrary: a)
  case Nil
  then show ?case by simp
next
  case (Cons i xs)
  have rest: "0 \<le> sum_list (map (\<lambda>i. case f i of None \<Rightarrow> 0 | Some v \<Rightarrow> v) xs)"
  proof (rule sum_list_nonneg)
    fix x assume "x \<in> set (map (\<lambda>i. case f i of None \<Rightarrow> 0 | Some v \<Rightarrow> v) xs)"
    then obtain j where j: "j \<in> set xs" "x = (case f j of None \<Rightarrow> 0 | Some v \<Rightarrow> v)" by auto
    then show "0 \<le> x" using Cons.prems(1) by (cases "f j") simp_all
  qed
  show ?case
  proof (cases "f i")
    case None
    then show ?thesis using Cons by simp
  next
    case (Some v)
    then have "0 \<le> v" using Cons.prems(1) by simp
    then have v: "0 \<le> a + v" "a + v \<le> i128_max" using Cons.prems(2,3) Some rest by simp_all
    then have "checked_add_i128 a v = Some (a + v)"
      by (simp add: checked_add_i128_def in_i128_def i128_min_def)
    then show ?thesis using Some Cons.IH[of "a + v"] Cons.prems v by (simp add: add.assoc)
  qed
qed

lemma recompute_eq:
  "recompute val w = for_each (\<lambda>i acc. case (case get_borrower_by_credit_line_id i w of None \<Rightarrow> None
       | Some b \<Rightarrow> val b w) of None \<Rightarrow> Inr acc | Some v \<Rightarrow> ok_or RustPanic (checked_add_i128 acc v))
     (line_ids w) 0"
  unfolding recompute_def
  by (rule arg_cong[where f = "\<lambda>g. for_each g (line_ids w) 0"]) (auto split: option.splits)

lemma indexed_sum_alt:
  "indexed_sum val w = map (\<lambda>i. case (case get_borrower_by_credit_line_id i w of None \<Rightarrow> None
       | Some b \<Rightarrow> val b w) of None \<Rightarrow> 0 | Some v \<Rightarrow> v) (line_ids w)"
  unfolding indexed_sum_def by (auto split: option.splits)

lemma recompute_Inr: "recompute val w = Inr t \<Longrightarrow> t = sum_list (indexed_sum val w)"
  using for_each_checked_sum[where a = 0] unfolding recompute_eq indexed_sum_alt by fastforce

lemma recompute_total:
  assumes "\<And>b v. val b w = Some v \<Longrightarrow> 0 \<le> v" and "sum_list (indexed_sum val w) \<le> i128_max"
  shows "recompute val w = Inr (sum_list (indexed_sum val w))"
proof -
  let ?f = "\<lambda>i. case get_borrower_by_credit_line_id i w of None \<Rightarrow> None | Some b \<Rightarrow> val b w"
  have "0 \<le> v" if "?f i = Some v" for i v
    using that assms(1) by (auto split: option.splits)
  then show ?thesis
    using for_each_checked_sum_total[where a = 0 and xs = "line_ids w" and f = ?f] assms(2)
    unfolding recompute_eq indexed_sum_alt by simp
qed

lemma sum_list_ids: "0 \<le> n \<Longrightarrow> sum_list (map f (map int [0..<nat n])) = sum f {0..<n}"
proof -
  assume "0 \<le> n"
  have "sum_list (map f (map int [0..<nat n])) = sum (\<lambda>k. f (int k)) {0..<nat n}"
    by (simp add: comp_def sum_list_distinct_conv_sum_set)
  also have "\<dots> = sum f (int ` {0..<nat n})" by (simp add: sum.reindex)
  also have "int ` {0..<nat n} = {0..<n}" using \<open>0 \<le> n\<close> image_int_atLeastLessThan by force
  finally show ?thesis .
qed

lemma indexed_sum_total:
  assumes "index_ok lines (st_credit_line_id w) (st_borrower_by_id w) (get_credit_line_count w)"
  shows "sum_list (indexed_sum val w) = (\<Sum>b\<in>dom lines. case val b w of None \<Rightarrow> 0 | Some v \<Rightarrow> v)"
proof -
  let ?n = "get_credit_line_count w" and ?bs = "st_borrower_by_id w"
  have "sum_list (indexed_sum val w) = (\<Sum>i\<in>{0..<?n}. case val (the (?bs i)) w of None \<Rightarrow> 0 | Some v \<Rightarrow> v)"
  proof -
    have "sum_list (indexed_sum val w) = (\<Sum>i\<in>{0..<?n}. case get_borrower_by_credit_line_id i w of
        None \<Rightarrow> 0 | Some b \<Rightarrow> (case val b w of None \<Rightarrow> 0 | Some v \<Rightarrow> v))"
      unfolding indexed_sum_def line_ids_def using assms by (subst sum_list_ids) (auto simp: index_ok_def)
    also have "\<dots> = (\<Sum>i\<in>{0..<?n}. case val (the (?bs i)) w of None \<Rightarrow> 0 | Some v \<Rightarrow> v)"
    proof (rule sum.cong[OF refl])
      fix i assume "i \<in> {0..<?n}"
      then have "?bs i \<noteq> None" using assms by (simp add: index_ok_def)
      then show "(case get_borrower_by_credit_line_id i w of None \<Rightarrow> 0
           | Some b \<Rightarrow> (case val b w of None \<Rightarrow> 0 | Some v \<Rightarrow> v))
         = (case val (the (?bs i)) w of None \<Rightarrow> 0 | Some v \<Rightarrow> v)"
        by (auto simp: get_borrower_by_credit_line_id_def)
    qed
    finally show ?thesis .
  qed
  also have "\<dots> = (\<Sum>b\<in>dom lines. case val b w of None \<Rightarrow> 0 | Some v \<Rightarrow> v)"
    unfolding index_ok_dom[OF assms] by (subst sum.reindex[OF index_ok_inj[OF assms]]) simp
  finally show ?thesis .
qed

section \<open>The books\<close>

text \<open>\<open>books_gap d w\<close>: every aggregate is the sum it stands for, except that the auction
  counter is ahead of the lines by \<open>d\<close> (the lifecycle operations move the counter just
  before they write the line).\<close>

definition has_status :: "credit_status \<Rightarrow> credit_line_data \<Rightarrow> int" where
  "has_status s l = of_bool (status l = s)"

definition count_status :: "credit_status \<Rightarrow> (address \<rightharpoonup> credit_line_data) \<Rightarrow> int" where
  "count_status s lines = map_sum (has_status s) lines"

definition collateral_ok :: "(address \<rightharpoonup> 'a) \<Rightarrow> (address \<rightharpoonup> i128) \<Rightarrow> i128 \<Rightarrow> bool" where
  "collateral_ok lines cols tot \<longleftrightarrow>
     tot = (\<Sum>b\<in>dom lines. case cols b of None \<Rightarrow> 0 | Some v \<Rightarrow> v) \<and>
     (\<forall>b. b \<notin> dom lines \<longrightarrow> (case cols b of None \<Rightarrow> 0 | Some v \<Rightarrow> v) = 0)"

definition books_gap :: "int \<Rightarrow> 't env \<Rightarrow> bool" where
  "books_gap d w \<longleftrightarrow>
     index_ok (st_lines w) (st_credit_line_id w) (st_borrower_by_id w) (get_credit_line_count w) \<and>
     get_total_utilized w = map_sum utilized_amount (st_lines w) \<and>
     get_active_line_count w = count_status Active (st_lines w) \<and>
     get_pending_auction_count w = count_status Defaulted (st_lines w) + d \<and>
     collateral_ok (st_lines w) (st_collateral_balance w) (get_total_collateral w)"

abbreviation books_ok :: "'t env \<Rightarrow> bool" where
  "books_ok \<equiv> books_gap 0"

definition room_for :: "address \<Rightarrow> 't env \<Rightarrow> bool" where
  "room_for b w \<longleftrightarrow> b \<in> dom (st_lines w) \<or> get_credit_line_count w < u32_max"

lemma has_status_bounds [simp]: "0 \<le> has_status s l" "has_status s l \<le> 1"
  by (simp_all add: has_status_def)

lemma count_status_nonneg [simp]: "0 \<le> count_status s lines"
  unfolding count_status_def by (rule map_sum_nonneg) simp

lemma count_status_upd:
  "finite (dom lines) \<Longrightarrow> count_status s (lines(b \<mapsto> l))
     = count_status s lines - opt_val (has_status s) (lines b) + has_status s l"
  unfolding count_status_def by (rule map_sum_upd)

lemma count_status_bound:
  assumes "index_ok lines ids bs n"
  shows "count_status s lines \<le> n"
  using map_sum_le_card[OF index_ok_finite[OF assms], of "has_status s"] index_ok_card[OF assms]
  by (simp add: count_status_def)

lemma count_status_bound_upd:
  assumes "index_ok lines ids bs n" and "lines b = Some l" and "status l \<noteq> s"
  shows "count_status s lines \<le> n - 1"
proof -
  obtain l' where l': "has_status s l' = 1" using has_status_def
    by (metis (full_types) credit_line_data.select_convs(6) of_bool_eq(2))
  have fin: "finite (dom lines)" using assms(1) by (rule index_ok_finite)
  have "ids b \<noteq> None" using assms(1,2) unfolding index_ok_def by (metis domI domIff)
  then have "index_ok (lines(b \<mapsto> l')) ids bs n" using assms(1) by (simp add: index_ok_upd)
  from count_status_bound[OF this, of s] show ?thesis
    using count_status_upd[OF fin, of s b l'] l' assms(2,3) by (simp add: has_status_def)
qed

lemma count_status_ge_1:
  assumes "index_ok lines ids bs n" and "lines b = Some l" and "status l = s"
  shows "1 \<le> count_status s lines"
  using map_sum_ge_member[OF index_ok_finite[OF assms(1)] assms(2), of "has_status s"] assms(3)
  by (simp add: count_status_def has_status_def)

section \<open>What persisting a line does\<close>

lemma adjust_total_utilized_Inr:
  assumes "adjust_total_utilized p n w = Inr w'"
  shows "w' = w\<lparr>st_total_utilized := st_total_utilized w'\<rparr>"
    and "get_total_utilized w' = get_total_utilized w + (n - p)"
  using assms by (auto simp: adjust_total_utilized_def checked_arith get_total_utilized_def Let_def
      split: if_splits)

definition line_write ::
  "address \<Rightarrow> credit_line_data \<Rightarrow> 't env \<Rightarrow> 't env \<Rightarrow> bool" where
  "line_write b l w w' \<longleftrightarrow>
     (\<exists>ids bs c t a. w' = w\<lparr>st_lines := (st_lines w)(b \<mapsto> l), st_credit_line_id := ids,
        st_borrower_by_id := bs, st_credit_line_count := c, st_total_utilized := t,
        st_active_line_count := a\<rparr>)"

lemma update_active_line_count_shape:
  "update_active_line_count s p w =
     w\<lparr>st_active_line_count := st_active_line_count (update_active_line_count s p w)\<rparr>"
  by (simp add: update_active_line_count_def increment_active_line_count_def
      decrement_active_line_count_def Let_def)

lemma ensure_credit_line_id_shape:
  "ensure_credit_line_id b w =
     w\<lparr>st_credit_line_id := st_credit_line_id (ensure_credit_line_id b w),
       st_borrower_by_id := st_borrower_by_id (ensure_credit_line_id b w),
       st_credit_line_count := st_credit_line_count (ensure_credit_line_id b w)\<rparr>"
  by (simp add: ensure_credit_line_id_def Let_def split: option.split)

lemma persist_line_write:
  assumes "persist_credit_line b l pu ps w = Inr w'"
  shows "line_write b l w w'"
proof -
  define w0 where "w0 = ensure_credit_line_id b w"
  have w0: "w0 = w\<lparr>st_credit_line_id := st_credit_line_id w0,
      st_borrower_by_id := st_borrower_by_id w0, st_credit_line_count := st_credit_line_count w0\<rparr>"
    unfolding w0_def by (rule ensure_credit_line_id_shape)
  define w1 where "w1 = w0\<lparr>st_lines := (st_lines w0)(b \<mapsto> l)\<rparr>"
  from assms obtain w2 where w2: "adjust_total_utilized pu (utilized_amount l) w1 = Inr w2"
    and w': "w' = update_active_line_count (status l) ps w2"
    by (auto simp: persist_credit_line_def Let_def w0_def w1_def)
  have "st_lines w0 = st_lines w" by (subst w0) simp
  then have "w1 = w\<lparr>st_lines := (st_lines w)(b \<mapsto> l), st_credit_line_id := st_credit_line_id w0,
      st_borrower_by_id := st_borrower_by_id w0, st_credit_line_count := st_credit_line_count w0\<rparr>"
    unfolding w1_def by (subst w0) simp
  moreover obtain t where "w2 = w1\<lparr>st_total_utilized := t\<rparr>"
    using adjust_total_utilized_Inr(1)[OF w2] by blast
  moreover obtain a where "w' = w2\<lparr>st_active_line_count := a\<rparr>"
    using w' update_active_line_count_shape by blast
  ultimately have "w' = w\<lparr>st_lines := (st_lines w)(b \<mapsto> l),
      st_credit_line_id := st_credit_line_id w0, st_borrower_by_id := st_borrower_by_id w0,
      st_credit_line_count := st_credit_line_count w0, st_total_utilized := t,
      st_active_line_count := a\<rparr>" by simp
  then show ?thesis unfolding line_write_def by (intro exI)
qed

lemma ensure_credit_line_id_index:
  assumes "index_ok (st_lines w) (st_credit_line_id w) (st_borrower_by_id w) (get_credit_line_count w)"
    and "room_for b w" and "w0 = ensure_credit_line_id b w"
  shows "index_ok ((st_lines w)(b \<mapsto> l)) (st_credit_line_id w0) (st_borrower_by_id w0)
           (get_credit_line_count w0)"
proof (cases "st_credit_line_id w b")
  case None
  then have lt: "get_credit_line_count w < u32_max"
    using assms(1,2) unfolding room_for_def index_ok_def by blast
  then have "saturating_add_u32 (get_credit_line_count w) 1 = get_credit_line_count w + 1"
    by (simp add: saturating_add_u32_def)
  then show ?thesis
    using index_ok_new[OF assms(1) None lt, of l] None assms(3)
    by (simp add: ensure_credit_line_id_def store_defs Let_def)
next
  case (Some i)
  then show ?thesis
    using index_ok_upd[OF assms(1), of b l] assms(3)
    by (simp add: ensure_credit_line_id_def get_credit_line_id_def)
qed

lemma persist_fields:
  assumes "persist_credit_line b l pu ps w = Inr w'"
  defines "w0 \<equiv> ensure_credit_line_id b w"
  shows "st_lines w' = (st_lines w)(b \<mapsto> l)"
    and "st_credit_line_id w' = st_credit_line_id w0"
    and "st_borrower_by_id w' = st_borrower_by_id w0"
    and "get_credit_line_count w' = get_credit_line_count w0"
    and "get_total_utilized w' = get_total_utilized w + (utilized_amount l - pu)"
    and "get_active_line_count w' = get_active_line_count (update_active_line_count (status l) ps w)"
    and "get_pending_auction_count w' = get_pending_auction_count w"
    and "get_total_collateral w' = get_total_collateral w"
    and "st_collateral_balance w' = st_collateral_balance w"
proof -
  define w1 where "w1 = w0\<lparr>st_lines := (st_lines w0)(b \<mapsto> l)\<rparr>"
  from assms obtain w2 where w2: "adjust_total_utilized pu (utilized_amount l) w1 = Inr w2"
    and w': "w' = update_active_line_count (status l) ps w2"
    by (auto simp: persist_credit_line_def Let_def w0_def w1_def)
  have a: "w2 = w1\<lparr>st_total_utilized := st_total_utilized w2\<rparr>" by (rule adjust_total_utilized_Inr(1)[OF w2])
  have u: "get_total_utilized w2 = get_total_utilized w1 + (utilized_amount l - pu)"
    by (rule adjust_total_utilized_Inr(2)[OF w2])
  have w0: "w0 = w\<lparr>st_credit_line_id := st_credit_line_id w0,
      st_borrower_by_id := st_borrower_by_id w0, st_credit_line_count := st_credit_line_count w0\<rparr>"
    unfolding w0_def by (rule ensure_credit_line_id_shape)
  have s1: "w1 = w0\<lparr>st_lines := (st_lines w)(b \<mapsto> l)\<rparr>" 
  proof -
    have "st_lines w0 = st_lines w" by (subst w0) simp
    then show ?thesis by (simp only: w1_def)
  qed
  have s2: "w' = w2\<lparr>st_active_line_count := st_active_line_count w'\<rparr>"
    using update_active_line_count_shape w' by metis
  have act: "st_active_line_count w2 = st_active_line_count w"
    by (subst a, simp, subst s1, simp, subst w0, simp)
  have tu: "st_total_utilized w1 = st_total_utilized w" by (subst s1, simp, subst w0, simp)
  show "st_lines w' = (st_lines w)(b \<mapsto> l)" by (subst s2, simp, subst a, simp, subst s1, simp)
  show "st_credit_line_id w' = st_credit_line_id w0"
    by (subst s2, simp, subst a, simp, subst s1, simp)
  show "st_borrower_by_id w' = st_borrower_by_id w0"
    by (subst s2, simp, subst a, simp, subst s1, simp)
  show "get_credit_line_count w' = get_credit_line_count w0"
    unfolding get_credit_line_count_def by (subst s2, simp, subst a, simp, subst s1, simp)
  show "get_total_utilized w' = get_total_utilized w + (utilized_amount l - pu)"
    using u tu unfolding get_total_utilized_def by (subst s2, simp)
  show "get_active_line_count w' = get_active_line_count (update_active_line_count (status l) ps w)"
    using act w' by (simp add: update_active_line_count_def store_defs Let_def)
  show "get_pending_auction_count w' = get_pending_auction_count w"
    unfolding get_pending_auction_count_def
    by (subst s2, simp, subst a, simp, subst s1, simp, subst w0, simp)
  show "get_total_collateral w' = get_total_collateral w"
    unfolding get_total_collateral_def
    by (subst s2, simp, subst a, simp, subst s1, simp, subst w0, simp)
  show "st_collateral_balance w' = st_collateral_balance w"
    by (subst s2, simp, subst a, simp, subst s1, simp, subst w0, simp)
qed

lemma update_active_line_count_value:
  assumes "get_active_line_count w = k" and "0 \<le> k"
    and "ps = Some Active \<Longrightarrow> 1 \<le> k" and "s = Active \<Longrightarrow> ps \<noteq> Some Active \<Longrightarrow> k < u32_max"
  shows "get_active_line_count (update_active_line_count s ps w)
       = k - of_bool (ps = Some Active) + of_bool (s = Active)"
  using assms by (auto simp: update_active_line_count_def increment_active_line_count_def
      decrement_active_line_count_def Let_def get_active_line_count_def
      saturating_add_u32_def saturating_sub_u32_def)

lemma collateral_ok_line:
  assumes "collateral_ok lines cols t" and "finite (dom lines)"
  shows "collateral_ok (lines(b \<mapsto> l)) cols t"
proof (cases "b \<in> dom lines")
  case True
  then have "dom (lines(b \<mapsto> l)) = dom lines" by auto
  then show ?thesis using assms(1) by (simp add: collateral_ok_def)
next
  case False
  then have "(case cols b of None \<Rightarrow> 0 | Some v \<Rightarrow> v) = 0" using assms(1) by (simp add: collateral_ok_def)
  then show ?thesis using assms False by (simp add: collateral_ok_def)
qed

lemma persist_books:
  assumes p: "persist_credit_line b l pu ps w = Inr w'" and g: "books_gap d w"
    and pu: "pu = opt_val utilized_amount (st_lines w b)" and ps: "ps = map_option status (st_lines w b)"
    and room: "room_for b w"
  shows "books_gap (d - (has_status Defaulted l - opt_val (has_status Defaulted) (st_lines w b))) w'"
proof -
  note f = persist_fields[OF p]
  have ix: "index_ok (st_lines w) (st_credit_line_id w) (st_borrower_by_id w) (get_credit_line_count w)"
    using g by (simp add: books_gap_def)
  note fin = index_ok_finite[OF ix]
  have ix': "index_ok (st_lines w') (st_credit_line_id w') (st_borrower_by_id w') (get_credit_line_count w')"
    using ensure_credit_line_id_index[OF ix room refl, of l] f(1-4) by simp
  have act: "get_active_line_count w = count_status Active (st_lines w)" using g by (simp add: books_gap_def)
  have "get_active_line_count w' = count_status Active (st_lines w) - of_bool (ps = Some Active)
         + of_bool (status l = Active)"
    unfolding f(6)
  proof (rule update_active_line_count_value[OF act])
    show "0 \<le> count_status Active (st_lines w)" by simp
    show "1 \<le> count_status Active (st_lines w)" if "ps = Some Active"
      using that ps count_status_ge_1[OF ix] by auto
    show "count_status Active (st_lines w) < u32_max" if "status l = Active" "ps \<noteq> Some Active"
    proof (cases "st_lines w b")
      case None
      then have "get_credit_line_count w < u32_max" using room by (auto simp: room_for_def)
      then show ?thesis using count_status_bound[OF ix, of Active] by linarith
    next
      case (Some k)
      then have "count_status Active (st_lines w) \<le> get_credit_line_count w - 1"
        using that ps by (intro count_status_bound_upd[OF ix Some]) auto
      then show ?thesis using ix by (simp add: index_ok_def)
    qed
  qed
  moreover have "of_bool (ps = Some Active) = opt_val (has_status Active) (st_lines w b)"
    using ps by (cases "st_lines w b") (simp_all add: has_status_def)
  ultimately have "get_active_line_count w' = count_status Active (st_lines w')"
    using f(1) count_status_upd[OF fin, of Active b l] by (simp add: has_status_def)
  moreover have "collateral_ok (st_lines w') (st_collateral_balance w') (get_total_collateral w')"
    using g collateral_ok_line[OF _ fin] f(1,8,9) by (simp add: books_gap_def)
  moreover have "get_total_utilized w' = map_sum utilized_amount (st_lines w')"
    using g f(1,5) map_sum_upd[OF fin, of utilized_amount b l] pu by (simp add: books_gap_def)
  ultimately show ?thesis
    using g ix' f(1,7) count_status_upd[OF fin, of Defaulted b l] by (simp add: books_gap_def)
qed

section \<open>Counters and collateral\<close>

lemma increment_pending_books:
  assumes "books_gap 0 w" and "st_lines w b = Some l" and "status l \<noteq> Defaulted"
  shows "books_gap 1 (increment_pending_auction_count w)"
proof -
  have ix: "index_ok (st_lines w) (st_credit_line_id w) (st_borrower_by_id w) (get_credit_line_count w)"
    using assms(1) by (simp add: books_gap_def)
  have "get_pending_auction_count w < u32_max"
    using count_status_bound_upd[OF ix assms(2,3)] assms(1) ix by (simp add: books_gap_def index_ok_def)
  then have "saturating_add_u32 (get_pending_auction_count w) 1 = get_pending_auction_count w + 1"
    by (simp add: saturating_add_u32_def)
  then show ?thesis using assms(1)
    by (simp add: books_gap_def increment_pending_auction_count_def get_pending_auction_count_def
        get_total_utilized_def get_active_line_count_def get_credit_line_count_def get_total_collateral_def)
qed

lemma decrement_pending_books:
  assumes "books_gap 0 w" and "st_lines w b = Some l" and "status l = Defaulted"
  shows "books_gap (- 1) (decrement_pending_auction_count w)"
proof -
  have ix: "index_ok (st_lines w) (st_credit_line_id w) (st_borrower_by_id w) (get_credit_line_count w)"
    using assms(1) by (simp add: books_gap_def)
  have "1 \<le> get_pending_auction_count w"
    using count_status_ge_1[OF ix assms(2,3)] assms(1) by (simp add: books_gap_def)
  then have "saturating_sub_u32 (get_pending_auction_count w) 1 = get_pending_auction_count w - 1"
    by (simp add: saturating_sub_u32_def)
  then show ?thesis using assms(1)
    by (simp add: books_gap_def decrement_pending_auction_count_def get_pending_auction_count_def
        get_total_utilized_def get_active_line_count_def get_credit_line_count_def get_total_collateral_def)
qed

lemma adjust_total_collateral_Inr:
  assumes "adjust_total_collateral p n w = Inr w'"
  shows "w' = w\<lparr>st_total_collateral := st_total_collateral w'\<rparr>"
    and "get_total_collateral w' = get_total_collateral w + (n - p)"
    and "n \<noteq> p \<Longrightarrow> assert_total_collateral_conserved w' = Inr ()"
  using assms by (auto simp: adjust_total_collateral_def checked_arith get_total_collateral_def Let_def
      split: if_splits)

lemma total_collateral_conserved_sum:
  assumes "assert_total_collateral_conserved w = Inr ()"
    and "index_ok lines (st_credit_line_id w) (st_borrower_by_id w) (get_credit_line_count w)"
  shows "get_total_collateral w = (\<Sum>b\<in>dom lines. get_collateral_balance b w)"
  using assms(1) recompute_Inr[of "\<lambda>b w. Some (get_collateral_balance b w)" w]
    indexed_sum_total[OF assms(2), of "\<lambda>b w. Some (get_collateral_balance b w)"]
  by (auto simp: assert_total_collateral_conserved_def)

lemma set_collateral_balance_shape:
  assumes "set_collateral_balance b v w = Inr w'"
  shows "w' = w\<lparr>st_collateral_balance := (st_collateral_balance w)(b \<mapsto> v),
      st_total_collateral := st_total_collateral w'\<rparr>"
    and "get_total_collateral w' = get_total_collateral w + (v - get_collateral_balance b w)"
proof -
  let ?w = "w\<lparr>st_collateral_balance := (st_collateral_balance w)(b \<mapsto> v)\<rparr>"
  have a: "adjust_total_collateral (get_collateral_balance b w) v ?w = Inr w'"
    using assms by (simp add: set_collateral_balance_def)
  show "w' = w\<lparr>st_collateral_balance := (st_collateral_balance w)(b \<mapsto> v),
      st_total_collateral := st_total_collateral w'\<rparr>"
    using adjust_total_collateral_Inr(1)[OF a] by simp
  show "get_total_collateral w' = get_total_collateral w + (v - get_collateral_balance b w)"
    using adjust_total_collateral_Inr(2)[OF a] by (simp add: get_total_collateral_def)
qed

text \<open>A borrower without a credit line cannot hold collateral: the conservation check sums over
  the index, so a write that would give it a balance panics.\<close>

lemma set_collateral_balance_member:
  assumes "set_collateral_balance b v w = Inr w'" and "books_gap d w"
  shows "b \<in> dom (st_lines w) \<or> v = 0"
proof (rule ccontr)
  assume "\<not> ?thesis"
  then have out: "b \<notin> dom (st_lines w)" and v: "v \<noteq> 0" by auto
  have g: "index_ok (st_lines w) (st_credit_line_id w) (st_borrower_by_id w) (get_credit_line_count w)"
    "collateral_ok (st_lines w) (st_collateral_balance w) (get_total_collateral w)"
    using assms(2) by (simp_all add: books_gap_def)
  have b0: "get_collateral_balance b w = 0"
    using g(2) out by (simp add: collateral_ok_def get_collateral_balance_def)
  note sh = set_collateral_balance_shape[OF assms(1)]
  have "assert_total_collateral_conserved w' = Inr ()"
    using adjust_total_collateral_Inr(3) v b0 assms(1)[unfolded set_collateral_balance_def] by metis
  moreover have "index_ok (st_lines w) (st_credit_line_id w') (st_borrower_by_id w') (get_credit_line_count w')"
    using g(1) unfolding get_credit_line_count_def by (subst sh(1), subst sh(1), subst sh(1)) simp
  ultimately have "get_total_collateral w' = (\<Sum>c\<in>dom (st_lines w). get_collateral_balance c w')"
    by (rule total_collateral_conserved_sum)
  also have "\<dots> = (\<Sum>c\<in>dom (st_lines w). get_collateral_balance c w)"
  proof (rule sum.cong[OF refl])
    fix c assume "c \<in> dom (st_lines w)"
    then have "c \<noteq> b" using out by auto
    then show "get_collateral_balance c w' = get_collateral_balance c w"
      unfolding get_collateral_balance_def by (subst sh(1)) simp
  qed
  also have "\<dots> = get_total_collateral w" using g(2) by (simp add: collateral_ok_def get_collateral_balance_def)
  finally show False using sh(2) b0 v by simp
qed

lemma collateral_ok_upd:
  assumes "collateral_ok lines cols t" and "finite (dom lines)" and "b \<in> dom lines \<or> v = 0"
    and "t' = t + (v - (case cols b of None \<Rightarrow> 0 | Some x \<Rightarrow> x))"
  shows "collateral_ok lines (cols(b \<mapsto> v)) t'"
proof (cases "b \<in> dom lines")
  case True
  let ?g = "\<lambda>c. case cols c of None \<Rightarrow> 0 | Some x \<Rightarrow> x"
  have "(\<Sum>c\<in>dom lines. case (cols(b \<mapsto> v)) c of None \<Rightarrow> 0 | Some x \<Rightarrow> x)
      = v + (\<Sum>c\<in>dom lines - {b}. ?g c)"
    using assms(2) True by (subst sum.remove[of _ b]) (auto intro!: sum.cong)
  moreover have "(\<Sum>c\<in>dom lines. ?g c) = ?g b + (\<Sum>c\<in>dom lines - {b}. ?g c)"
    using assms(2) True by (rule sum.remove)
  ultimately show ?thesis using assms(1,4) True by (auto simp: collateral_ok_def)
next
  case False
  then have "v = 0" "(case cols b of None \<Rightarrow> 0 | Some x \<Rightarrow> x) = 0" using assms(1,3) by (auto simp: collateral_ok_def)
  moreover have "(\<Sum>c\<in>dom lines. case (cols(b \<mapsto> v)) c of None \<Rightarrow> 0 | Some x \<Rightarrow> x)
      = (\<Sum>c\<in>dom lines. case cols c of None \<Rightarrow> 0 | Some x \<Rightarrow> x)"
    using False by (intro sum.cong[OF refl]) (auto simp: fun_upd_def)
  ultimately show ?thesis using assms(1,4) by (auto simp: collateral_ok_def)
qed

lemma set_collateral_balance_books:
  assumes "set_collateral_balance b v w = Inr w'" and "books_gap d w"
  shows "books_gap d w'"
proof -
  note sh = set_collateral_balance_shape[OF assms(1)]
  obtain t where w': "w' = w\<lparr>st_collateral_balance := (st_collateral_balance w)(b \<mapsto> v),
      st_total_collateral := t\<rparr>" using sh(1) by blast
  have fin: "finite (dom (st_lines w))"
    using assms(2) index_ok_finite unfolding books_gap_def by blast
  have "collateral_ok (st_lines w) ((st_collateral_balance w)(b \<mapsto> v)) (get_total_collateral w')"
    using assms(2) sh(2) set_collateral_balance_member[OF assms]
    by (intro collateral_ok_upd[OF _ fin]) (auto simp: books_gap_def get_collateral_balance_def)
  then show ?thesis using assms(2) unfolding w'
    by (simp add: books_gap_def get_pending_auction_count_def
        get_total_utilized_def get_active_line_count_def get_credit_line_count_def get_total_collateral_def)
qed

text \<open>The books only read nine fields; every other update keeps them.\<close>

lemmas books_simps = books_gap_def get_pending_auction_count_def get_total_utilized_def
  get_active_line_count_def get_credit_line_count_def get_total_collateral_def

definition same_books :: "'t env \<Rightarrow> 't env \<Rightarrow> bool" where
  "same_books w w' \<longleftrightarrow> st_lines w' = st_lines w \<and> st_credit_line_id w' = st_credit_line_id w \<and>
     st_borrower_by_id w' = st_borrower_by_id w \<and> st_credit_line_count w' = st_credit_line_count w \<and>
     st_total_utilized w' = st_total_utilized w \<and> st_active_line_count w' = st_active_line_count w \<and>
     st_pending_auction_count w' = st_pending_auction_count w \<and>
     st_total_collateral w' = st_total_collateral w \<and> st_collateral_balance w' = st_collateral_balance w \<and>
     st_admin w' = st_admin w \<and> st_liq_seen w' = st_liq_seen w"

lemma same_books_refl [simp]: "same_books w w"
  by (simp add: same_books_def)

text \<open>\<open>same_books\<close> also fixes the admin and the settlement markers.  Every other field, for the simplifier:\<close>

lemma same_books_upd [simp]:
  "same_books w (v\<lparr>ledger_ts := x0\<rparr>) = same_books w v"
  "same_books w (v\<lparr>ledger_seq := x1\<rparr>) = same_books w v"
  "same_books w (v\<lparr>self_addr := x2\<rparr>) = same_books w v"
  "same_books w (v\<lparr>signers := x3\<rparr>) = same_books w v"
  "same_books w (v\<lparr>frame_auth := x4\<rparr>) = same_books w v"
  "same_books w (v\<lparr>events := x5\<rparr>) = same_books w v"
  "same_books w (v\<lparr>tokens := x6\<rparr>) = same_books w v"
  "same_books w (v\<lparr>st_proposed_admin := x8\<rparr>) = same_books w v"
  "same_books w (v\<lparr>st_proposed_at := x9\<rparr>) = same_books w v"
  "same_books w (v\<lparr>st_paused := x10\<rparr>) = same_books w v"
  "same_books w (v\<lparr>st_reentrancy := x11\<rparr>) = same_books w v"
  "same_books w (v\<lparr>st_rate_cfg := x12\<rparr>) = same_books w v"
  "same_books w (v\<lparr>st_rate_form := x13\<rparr>) = same_books w v"
  "same_books w (v\<lparr>st_grace_cfg := x14\<rparr>) = same_books w v"
  "same_books w (v\<lparr>st_liquidity_token := x15\<rparr>) = same_books w v"
  "same_books w (v\<lparr>st_liquidity_source := x16\<rparr>) = same_books w v"
  "same_books w (v\<lparr>st_draws_frozen := x17\<rparr>) = same_books w v"
  "same_books w (v\<lparr>st_schema_version := x18\<rparr>) = same_books w v"
  "same_books w (v\<lparr>st_max_draw_amount := x19\<rparr>) = same_books w v"
  "same_books w (v\<lparr>st_max_repay_amount := x20\<rparr>) = same_books w v"
  "same_books w (v\<lparr>st_draw_min_interval_seconds := x21\<rparr>) = same_books w v"
  "same_books w (v\<lparr>st_borrow_admin_cooldown_seconds := x22\<rparr>) = same_books w v"
  "same_books w (v\<lparr>st_accrual_admin_cooldown_seconds := x23\<rparr>) = same_books w v"
  "same_books w (v\<lparr>st_min_credit_limit := x24\<rparr>) = same_books w v"
  "same_books w (v\<lparr>st_max_credit_limit := x25\<rparr>) = same_books w v"
  "same_books w (v\<lparr>st_close_factor_bps := x26\<rparr>) = same_books w v"
  "same_books w (v\<lparr>st_penalty_surcharge_bps := x27\<rparr>) = same_books w v"
  "same_books w (v\<lparr>st_late_fee_flat := x28\<rparr>) = same_books w v"
  "same_books w (v\<lparr>st_late_fee_config := x29\<rparr>) = same_books w v"
  "same_books w (v\<lparr>st_auction_contract := x30\<rparr>) = same_books w v"
  "same_books w (v\<lparr>st_max_total_exposure := x31\<rparr>) = same_books w v"
  "same_books w (v\<lparr>st_protocol_fee_bps := x32\<rparr>) = same_books w v"
  "same_books w (v\<lparr>st_treasury_fee_share_bps := x33\<rparr>) = same_books w v"
  "same_books w (v\<lparr>st_treasury_address := x34\<rparr>) = same_books w v"
  "same_books w (v\<lparr>st_treasury_balance := x35\<rparr>) = same_books w v"
  "same_books w (v\<lparr>st_bounty_address := x36\<rparr>) = same_books w v"
  "same_books w (v\<lparr>st_bounty_balance := x37\<rparr>) = same_books w v"
  "same_books w (v\<lparr>st_min_collateral_ratio_bps := x38\<rparr>) = same_books w v"
  "same_books w (v\<lparr>st_admin_collateral_cooldown_seconds := x39\<rparr>) = same_books w v"
  "same_books w (v\<lparr>st_last_col_admin_action_ts := x40\<rparr>) = same_books w v"
  "same_books w (v\<lparr>st_collateral_risk_weight_bps := x41\<rparr>) = same_books w v"
  "same_books w (v\<lparr>st_oracle_config := x42\<rparr>) = same_books w v"
  "same_books w (v\<lparr>st_oracle_last_price := x43\<rparr>) = same_books w v"
  "same_books w (v\<lparr>st_oracle_last_price_ts := x44\<rparr>) = same_books w v"
  "same_books w (v\<lparr>st_oracle_quorum_config := x45\<rparr>) = same_books w v"
  "same_books w (v\<lparr>st_oracle_quorum_price := x46\<rparr>) = same_books w v"
  "same_books w (v\<lparr>st_oracle_quorum_price_ts := x47\<rparr>) = same_books w v"
  "same_books w (v\<lparr>st_oracle_list := x48\<rparr>) = same_books w v"
  "same_books w (v\<lparr>st_oracle_weight := x49\<rparr>) = same_books w v"
  "same_books w (v\<lparr>st_oracle_report := x50\<rparr>) = same_books w v"
  "same_books w (v\<lparr>st_quorum_threshold := x51\<rparr>) = same_books w v"
  "same_books w (v\<lparr>st_reporting_window := x52\<rparr>) = same_books w v"
  "same_books w (v\<lparr>st_pending_treasury_withdrawal := x53\<rparr>) = same_books w v"
  "same_books w (v\<lparr>st_pause_reason := x54\<rparr>) = same_books w v"
  "same_books w (v\<lparr>st_freeze_cooldown_seconds := x55\<rparr>) = same_books w v"
  "same_books w (v\<lparr>st_last_freeze_timestamp := x56\<rparr>) = same_books w v"
  "same_books w (v\<lparr>st_collateral_token_allowlist := x57\<rparr>) = same_books w v"
  "same_books w (v\<lparr>st_rad_cool := x58\<rparr>) = same_books w v"
  "same_books w (v\<lparr>st_last_draw_ts := x59\<rparr>) = same_books w v"
  "same_books w (v\<lparr>st_blocked_borrower := x60\<rparr>) = same_books w v"
  "same_books w (v\<lparr>st_frozen_borrower := x61\<rparr>) = same_books w v"
  "same_books w (v\<lparr>st_credit_line_freeze := x62\<rparr>) = same_books w v"
  "same_books w (v\<lparr>st_utilization_cap_bps := x63\<rparr>) = same_books w v"
  "same_books w (v\<lparr>st_last_borrow_admin_action_ts := x64\<rparr>) = same_books w v"
  "same_books w (v\<lparr>st_last_accrual_admin_action_ts := x65\<rparr>) = same_books w v"
  "same_books w (v\<lparr>st_rate_floor_bps := x66\<rparr>) = same_books w v"
  "same_books w (v\<lparr>st_rate_ceiling_bps := x67\<rparr>) = same_books w v"
  "same_books w (v\<lparr>st_repayment_schedule := x68\<rparr>) = same_books w v"
  "same_books w (v\<lparr>st_vrf_commitment := x69\<rparr>) = same_books w v"
  "same_books w (v\<lparr>st_collateral_balance_v2 := x70\<rparr>) = same_books w v"
  "same_books w (v\<lparr>st_draw_audit := x71\<rparr>) = same_books w v"
  "same_books w (v\<lparr>st_draw_reversed_amount := x72\<rparr>) = same_books w v"
  "same_books w (v\<lparr>st_max_borrower_exposure := x73\<rparr>) = same_books w v"
  "same_books w (v\<lparr>st_liquidation_grace_period := x74\<rparr>) = same_books w v"
  "same_books w (v\<lparr>st_attestation_batch := x75\<rparr>) = same_books w v"
  "same_books w (v\<lparr>st_rad_last := x76\<rparr>) = same_books w v"
  by (simp_all add: same_books_def)

lemma same_books_emit [simp]: "same_books w (emit e v) = same_books w v"
  by (simp add: emit_def)

lemma same_books_trans: "same_books w w' \<Longrightarrow> same_books w' w'' \<Longrightarrow> same_books w w''"
  by (simp add: same_books_def)

lemma same_books_gap: "same_books w w' \<Longrightarrow> books_gap d w' = books_gap d w"
  by (simp add: same_books_def books_simps)

section \<open>The ledger invariant\<close>

text \<open>
  \<open>line_ok strict b l\<close>: the record stored under \<open>b\<close> is \<open>b\<close>'s, and, when
  \<open>strict\<close>, its interest bucket is part of its debt and the debt fits its type:
  \<open>0 \<le> accrued_interest \<le> utilized_amount \<le> i128::MAX\<close>.
  The strict form is kept by every entrypoint except the reversal of a draw; the books and the
  relaxed form by all of them.
\<close>

definition line_ok :: "bool \<Rightarrow> address \<Rightarrow> credit_line_data \<Rightarrow> bool" where
  "line_ok strict b l \<longleftrightarrow> borrower l = b \<and>
     (strict \<longrightarrow> 0 \<le> accrued_interest l \<and> accrued_interest l \<le> utilized_amount l \<and> utilized_amount l \<le> i128_max)"

definition lines_ok :: "bool \<Rightarrow> 't env \<Rightarrow> bool" where
  "lines_ok strict w \<longleftrightarrow> (\<forall>b l. st_lines w b = Some l \<longrightarrow> line_ok strict b l)"

definition ledger_gap :: "bool \<Rightarrow> int \<Rightarrow> 't env \<Rightarrow> bool" where
  "ledger_gap strict d w \<longleftrightarrow> books_gap d w \<and> lines_ok strict w"

abbreviation ledger_ok :: "bool \<Rightarrow> 't env \<Rightarrow> bool" where
  "ledger_ok strict \<equiv> ledger_gap strict 0"

lemmas ledger_simps = ledger_gap_def lines_ok_def books_simps

lemma ledger_line: "ledger_gap s d w \<Longrightarrow> st_lines w b = Some l \<Longrightarrow> line_ok s b l"
  by (simp add: ledger_gap_def lines_ok_def)

lemma same_books_ledger: "same_books w w' \<Longrightarrow> ledger_gap s d w' = ledger_gap s d w"
  by (simp add: ledger_gap_def lines_ok_def same_books_gap) (simp add: same_books_def)

lemma line_write_frame:
  assumes "line_write b l w w'"
  shows "st_lines w' = (st_lines w)(b \<mapsto> l)" and "ledger_ts w' = ledger_ts w"
  using assms by (auto simp: line_write_def)

lemma persist_ledger:
  assumes "persist_credit_line b l pu ps w = Inr w'" and "ledger_gap s d w"
    and "pu = opt_val utilized_amount (st_lines w b)" and "ps = map_option status (st_lines w b)"
    and "room_for b w" and "line_ok s b l"
  shows "ledger_gap s (d - (has_status Defaulted l - opt_val (has_status Defaulted) (st_lines w b))) w'"
  using persist_books[OF assms(1) _ assms(3,4,5)] persist_fields(1)[OF assms(1)] assms(2,6)
  by (auto simp: ledger_gap_def lines_ok_def)

text \<open>The common case: an existing line is rewritten and is in default after the write exactly
  when it was before.\<close>

lemma persist_existing:
  assumes "persist_credit_line b l (utilized_amount k) (Some (status k)) w = Inr w'"
    and "ledger_gap s d w" and "st_lines w b = Some k" and "line_ok s b l"
    and "status l = Defaulted \<longleftrightarrow> status k = Defaulted"
  shows "ledger_gap s d w'"
  using persist_ledger[OF assms(1,2) _ _ _ assms(4)] assms(3,5)
  by (auto simp: room_for_def has_status_def)

lemma genesis_ledger: "ledger_ok s (genesis ts self tk)"
  by (simp add: ledger_gap_def lines_ok_def books_simps genesis_def index_ok_def collateral_ok_def count_status_def
      u32_max_def)

end
