(* ===== verification/MathUtils.thy ===== *)
theory MathUtils
  imports Prelude Types
begin

text \<open>
  Fixed-point helpers (\<^verbatim>\<open>contracts/credit/src/math_utils.rs\<close>): rounding multiplication and
  division in \<^verbatim>\<open>u128\<close> with checked intermediate products, time-prorated interest, price
  deviation, and the largest-remainder apportionment.  A function that panics returns
  \<^const>\<open>RustPanic\<close>; a checked one returns \<^const>\<open>None\<close>.  The lemmas give the exact value
  (floor or ceiling of the rational result), monotonicity and near-additivity of prorated
  interest, and exact conservation and the quota bound of the apportionment.
\<close>

named_theorems math_defs "unfoldings of the fixed-point helpers"

datatype rounding = Floor | Ceil

definition SCALE :: u128 where "SCALE = 1000000000000000000"
definition BPS_DENOMINATOR :: u128 where [math_defs]: "BPS_DENOMINATOR = 10000"
definition SECONDS_PER_YEAR :: u128 where [math_defs]: "SECONDS_PER_YEAR = 31557600"
definition BPS_YEAR_DENOM :: u128 where [math_defs]: "BPS_YEAR_DENOM = BPS_DENOMINATOR * SECONDS_PER_YEAR"

section \<open>Operations\<close>

definition mul_div :: "u128 \<Rightarrow> u128 \<Rightarrow> u128 \<Rightarrow> rounding \<Rightarrow> u128 res" where
  "mul_div a numerator denominator rnd =
     and_then (ensure (denominator \<noteq> 0) RustPanic) (\<lambda>_.
     and_then (ok_or RustPanic (checked_mul_u128 a numerator)) (\<lambda>product.
     let quotient = product div denominator in
     case rnd of
       Floor \<Rightarrow> Inr quotient
     | Ceil \<Rightarrow> if product mod denominator \<noteq> 0 then ok_or RustPanic (checked_add_u128 quotient 1)
               else Inr quotient))"

definition safe_mul_div :: "u128 \<Rightarrow> u128 \<Rightarrow> u128 \<Rightarrow> rounding \<Rightarrow> u128 option" where
  "safe_mul_div a numerator denominator rnd =
     (if denominator = 0 then None
      else case checked_mul_u128 a numerator of
        None \<Rightarrow> None
      | Some product \<Rightarrow>
          (let quotient = product div denominator in
           case rnd of
             Floor \<Rightarrow> Some quotient
           | Ceil \<Rightarrow> if product mod denominator \<noteq> 0 then checked_add_u128 quotient 1
                     else Some quotient))"

definition scale_up :: "u128 \<Rightarrow> u128 res" where
  "scale_up amount = ok_or RustPanic (checked_mul_u128 amount SCALE)"

definition scale_down :: "u128 \<Rightarrow> rounding \<Rightarrow> u128 res" where
  "scale_down amount rnd =
     (let quotient = amount div SCALE in
      case rnd of
        Floor \<Rightarrow> Inr quotient
      | Ceil \<Rightarrow> if amount mod SCALE \<noteq> 0 then ok_or RustPanic (checked_add_u128 quotient 1)
                else Inr quotient)"

definition apply_bps :: "u128 \<Rightarrow> u32 \<Rightarrow> rounding \<Rightarrow> u128 res" where
  "apply_bps amount rate_bps rnd = mul_div amount rate_bps BPS_DENOMINATOR rnd"

definition checked_prorate_interest :: "u128 \<Rightarrow> u32 \<Rightarrow> u64 \<Rightarrow> rounding \<Rightarrow> u128 option" where
  "checked_prorate_interest prin rate_bps time_delta rnd =
     (if prin = 0 \<or> rate_bps = 0 \<or> time_delta = 0 then Some 0
      else case checked_mul_u128 prin rate_bps of
        None \<Rightarrow> None
      | Some step1 \<Rightarrow> (case checked_mul_u128 step1 time_delta of
          None \<Rightarrow> None
        | Some step2 \<Rightarrow>
            (let quotient = step2 div BPS_YEAR_DENOM in
             case rnd of
               Floor \<Rightarrow> Some quotient
             | Ceil \<Rightarrow> if step2 mod BPS_YEAR_DENOM \<noteq> 0 then checked_add_u128 quotient 1
                       else Some quotient)))"

definition prorate_interest :: "u128 \<Rightarrow> u32 \<Rightarrow> u64 \<Rightarrow> rounding \<Rightarrow> u128 res" where
  "prorate_interest prin rate_bps time_delta rnd =
     ok_or RustPanic (checked_prorate_interest prin rate_bps time_delta rnd)"

definition compute_deviation_bps :: "i128 \<Rightarrow> i128 \<Rightarrow> u32 option res" where
  "compute_deviation_bps new_price last_price =
     (if last_price \<le> 0 then Inr None
      else
        and_then (ok_or RustPanic (checked_sub_i128 new_price last_price)) (\<lambda>d.
        case checked_mul_u128 \<bar>d\<bar> BPS_DENOMINATOR of
          None \<Rightarrow> Inr None
        | Some numerator \<Rightarrow> Inr (Some (min (numerator div last_price) u32_max))))"

text \<open>
  The apportionment.  The stable sort by descending remainder is the source's comparator
  (descending remainder, then ascending index); \<open>hand_out\<close> is its \<^verbatim>\<open>while leftover > 0\<close>
  loop.
\<close>

fun hand_out :: "nat list \<Rightarrow> nat \<Rightarrow> nat \<Rightarrow> u128 list \<Rightarrow> u128 list" where
  "hand_out order 0 cursor floors = floors"
| "hand_out order (Suc leftover) cursor floors =
     (let i = order ! (cursor mod length order) in
      hand_out order leftover (cursor + 1) (floors[i := floors ! i + 1]))"

definition split_floors :: "u128 \<Rightarrow> u32 list \<Rightarrow> u128 list" where
  "split_floors total_amt weights =
     (let total_weight = sum_list weights; q = total_amt div total_weight; r = total_amt mod total_weight in
      map (\<lambda>wi. q * wi + (r * wi) div total_weight) weights)"

definition split_remainders :: "u128 \<Rightarrow> u32 list \<Rightarrow> u128 list" where
  "split_remainders total_amt weights =
     (let total_weight = sum_list weights; r = total_amt mod total_weight in
      map (\<lambda>wi. (r * wi) mod total_weight) weights)"

definition split_order :: "u128 list \<Rightarrow> nat list" where
  "split_order remainders = sort_key (\<lambda>i. - (remainders ! i)) [0..<length remainders]"

definition split_conserving :: "u128 \<Rightarrow> u32 list \<Rightarrow> u128 list res" where
  "split_conserving total_amt weights =
     (let n = length weights in
      and_then (ensure (0 < n) RustPanic) (\<lambda>_.
      if total_amt = 0 then Inr (replicate n 0)
      else if sum_list weights = 0 then Inr ((replicate n 0)[0 := total_amt])
      else
        let floors = split_floors total_amt weights;
            leftover = total_amt - sum_list floors;
            order = split_order (split_remainders total_amt weights) in
        Inr (hand_out order (nat leftover) 0 floors)))"

definition prorate_interest_conserving :: "u128 \<Rightarrow> u32 \<Rightarrow> u64 \<Rightarrow> u32 list \<Rightarrow> u128 list res" where
  "prorate_interest_conserving prin rate_bps time_delta weights =
     and_then (prorate_interest prin rate_bps time_delta Floor) (\<lambda>interest.
     split_conserving interest weights)"

section \<open>Rounded division\<close>

lemma safe_mul_div_mul_div:
  "mul_div a n d rnd = (case safe_mul_div a n d rnd of None \<Rightarrow> Inl RustPanic | Some q \<Rightarrow> Inr q)"
  by (auto simp: mul_div_def safe_mul_div_def Let_def ok_or_def ensure_def and_then_def
      split: rounding.splits option.splits)

lemma safe_mul_div_floor:
  "safe_mul_div a n d Floor = Some q \<longleftrightarrow> d \<noteq> 0 \<and> in_u128 (a * n) \<and> q = a * n div d"
  by (auto simp: safe_mul_div_def checked_mul_u128_def Let_def split: option.splits)

lemma ceil_div_bounds:
  assumes "0 < (d :: int)" and "q = (if p mod d \<noteq> 0 then p div d + 1 else p div d)"
  shows "p \<le> q * d \<and> q * d < p + d"
proof -
  define k where "k = p div d"
  define m where "m = p mod d"
  have "p = d * k + m" unfolding k_def m_def by simp
  moreover have "0 \<le> m" "m < d" using assms(1) unfolding m_def by simp_all
  moreover have "q = (if m \<noteq> 0 then k + 1 else k)" using assms(2) unfolding k_def m_def by simp
  ultimately show ?thesis by (auto simp: algebra_simps)
qed

lemma safe_mul_div_ceil:
  assumes "0 < d" and "safe_mul_div a n d Ceil = Some q"
  shows "a * n \<le> q * d \<and> q * d < a * n + d"
  using assms by (intro ceil_div_bounds)
    (auto simp: safe_mul_div_def checked_arith Let_def split: option.splits if_splits)

section \<open>Prorated interest\<close>

lemma bps_year_denom [simp]: "BPS_YEAR_DENOM = 315576000000"
  by (simp add: math_defs)

lemma prorate_floor_value:
  "checked_prorate_interest p r t Floor = Some i \<Longrightarrow> i = p * r * t div BPS_YEAR_DENOM"
  by (auto simp: checked_prorate_interest_def checked_mul_u128_def Let_def
      split: if_splits option.splits)

lemma prorate_floor_total:
  assumes "0 \<le> p" and "0 \<le> r" and "0 \<le> t" and "p * r * t \<le> u128_max"
  shows "checked_prorate_interest p r t Floor = Some (p * r * t div BPS_YEAR_DENOM)"
proof (cases "p = 0 \<or> r = 0 \<or> t = 0")
  case True
  then show ?thesis by (auto simp: checked_prorate_interest_def)
next
  case False
  then have pos: "1 \<le> t" "0 \<le> p * r" using assms by auto
  have "p * r * 1 \<le> p * r * t" by (rule mult_left_mono) (use pos in auto)
  then have "p * r \<le> u128_max" using assms(4) by linarith
  then have "checked_mul_u128 p r = Some (p * r)" "checked_mul_u128 (p * r) t = Some (p * r * t)"
    using pos assms by (simp_all add: checked_mul_u128_def in_u128_def)
  then show ?thesis using False by (simp add: checked_prorate_interest_def)
qed

lemma prorate_floor_overflow:
  assumes "0 < p" and "0 < r" and "0 < t" and "u128_max < p * r * t"
  shows "checked_prorate_interest p r t rnd = None"
  using assms by (auto simp: checked_prorate_interest_def checked_mul_u128_def checked_def in_u128_def
      split: option.splits)

lemma prorate_floor_nonneg:
  assumes "checked_prorate_interest p r t Floor = Some i" and "0 \<le> p" and "0 \<le> r" and "0 \<le> t"
  shows "0 \<le> i"
  using prorate_floor_value[OF assms(1)] assms(2-4) by (simp add: pos_imp_zdiv_nonneg_iff)

lemma div_add_bounds:
  assumes "0 < (d :: int)"
  shows "x div d + y div d \<le> (x + y) div d" and "(x + y) div d \<le> x div d + y div d + 1"
proof -
  have r: "0 \<le> x mod d" "x mod d < d" "0 \<le> y mod d" "y mod d < d" using assms by simp_all
  have "(x + y) div d = x div d + y div d + (x mod d + y mod d) div d" by (rule div_add1_eq)
  moreover have "0 \<le> (x mod d + y mod d) div d" using r assms by (simp add: pos_imp_zdiv_nonneg_iff)
  moreover have "(x mod d + y mod d) div d < 2" 
  proof -
    let ?z = "x mod d + y mod d"
    have "?z div d * d + ?z mod d = ?z" by (rule div_mult_mod_eq)
    moreover have "0 \<le> ?z mod d" using assms by simp
    ultimately have "?z div d * d < 2 * d" using r by linarith
    then show ?thesis using assms by simp
  qed
  ultimately show "x div d + y div d \<le> (x + y) div d" "(x + y) div d \<le> x div d + y div d + 1"
    by linarith+
qed

lemma prorate_floor_additive:
  assumes "checked_prorate_interest p r s Floor = Some i" and "checked_prorate_interest p r t Floor = Some j"
    and "checked_prorate_interest p r (s + t) Floor = Some k"
  shows "i + j \<le> k \<and> k \<le> i + j + 1"
  using div_add_bounds[of BPS_YEAR_DENOM "p * r * s" "p * r * t"]
    prorate_floor_value[OF assms(1)] prorate_floor_value[OF assms(2)] prorate_floor_value[OF assms(3)]
  by (simp add: algebra_simps)

lemma prorate_floor_mono:
  assumes "checked_prorate_interest p r t Floor = Some i" and "checked_prorate_interest p' r' t' Floor = Some i'"
    and "0 \<le> p" "p \<le> p'" "0 \<le> r" "r \<le> r'" "0 \<le> t" "t \<le> t'"
  shows "i \<le> i'"
proof -
  have "p * r * t \<le> p' * r' * t'" using assms(3-8) by (intro mult_mono) auto
  then show ?thesis
    using prorate_floor_value[OF assms(1)] prorate_floor_value[OF assms(2)] zdiv_mono1 by simp
qed

section \<open>Apportionment\<close>

lemma split_floor_eq:
  fixes t w s :: int
  assumes "0 < s"
  shows "t div s * w + (t mod s * w) div s = t * w div s" and "(t mod s * w) mod s = t * w mod s"
proof -
  have "t * w = (t div s * w) * s + t mod s * w"
    by (metis (no_types, opaque_lifting) distrib_right div_mult_mod_eq mult.assoc mult.commute)
  then have "t * w div s = ((t div s * w) * s + t mod s * w) div s" by simp
  also have "\<dots> = t div s * w + (t mod s * w) div s" using assms by simp
  finally show "t div s * w + (t mod s * w) div s = t * w div s" by simp
  show "(t mod s * w) mod s = t * w mod s" by (simp add: mod_mult_left_eq)
qed

lemma split_floors_ref:
  "0 < sum_list ws \<Longrightarrow> split_floors t ws = map (\<lambda>w. t * w div sum_list ws) ws"
  by (simp add: split_floors_def Let_def split_floor_eq(1))

lemma split_remainders_ref:
  "0 < sum_list ws \<Longrightarrow> split_remainders t ws = map (\<lambda>w. t * w mod sum_list ws) ws"
  by (simp add: split_remainders_def Let_def split_floor_eq(2))

lemma sum_floor_remainder:
  fixes s t :: int
  shows "s * sum_list (map (\<lambda>w. t * w div s) ws) + sum_list (map (\<lambda>w. t * w mod s) ws) = t * sum_list ws"
proof (induction ws)
  case Nil
  then show ?case by simp
next
  case (Cons w ws)
  have "s * (t * w div s) + t * w mod s = t * w" by (rule mult_div_mod_eq)
  then show ?case using Cons by (simp add: distrib_left)
qed

lemma sum_remainders_bound:
  fixes s t :: int
  assumes "0 < s" and "ws \<noteq> []"
  shows "0 \<le> sum_list (map (\<lambda>w. t * w mod s) ws) \<and> sum_list (map (\<lambda>w. t * w mod s) ws) < s * int (length ws)"
  using assms(2)
proof (induction ws rule: list_nonempty_induct)
  case (single w)
  then show ?case using assms(1) by simp
next
  case (cons w ws)
  have "0 \<le> t * w mod s" "t * w mod s < s" using assms(1) by simp_all
  then show ?case using cons by (simp add: algebra_simps)
qed

lemma split_leftover_bounds:
  assumes "0 < sum_list ws"
  shows "0 \<le> t - sum_list (split_floors t ws) \<and> t - sum_list (split_floors t ws) < int (length ws)"
proof -
  let ?s = "sum_list ws" and ?l = "t - sum_list (split_floors t ws)"
  have ne: "ws \<noteq> []" using assms by auto
  have "?s * ?l = sum_list (map (\<lambda>w. t * w mod ?s) ws)"
    using sum_floor_remainder[of ?s t ws] by (simp add: split_floors_ref[OF assms] algebra_simps)
  then have "0 \<le> ?s * ?l" "?s * ?l < ?s * int (length ws)"
    using sum_remainders_bound[OF assms ne, of t] by simp_all
  then show ?thesis using assms by (simp add: zero_le_mult_iff)
qed

lemma split_order_perm: "distinct (split_order rs) \<and> set (split_order rs) = {0..<length rs}"
  by (simp add: split_order_def)

lemma length_split_order [simp]: "length (split_order rs) = length rs"
  by (simp add: split_order_def)

lemma hand_out_value:
  assumes "distinct order" and "set order \<subseteq> {0..<length fl}" and "c + k \<le> length order"
  shows "hand_out order k c fl
       = map (\<lambda>i. fl ! i + of_bool (i \<in> set (take k (drop c order)))) [0..<length fl]"
  using assms
proof (induction k arbitrary: c fl)
  case 0
  then show ?case by (simp add: map_nth)
next
  case (Suc k)
  let ?i = "order ! c" and ?fl = "fl[order ! c := fl ! (order ! c) + 1]"
  have c: "c < length order" "c mod length order = c" using Suc.prems(3) by simp_all
  have dr: "take (Suc k) (drop c order) = ?i # take k (drop (Suc c) order)"
    using c by (metis Cons_nth_drop_Suc take_Suc_Cons)
  have "distinct (drop c order)" using Suc.prems(1) by simp
  then have "?i \<notin> set (drop (Suc c) order)" using c(1) by (metis Cons_nth_drop_Suc distinct.simps(2))
  then have notin: "?i \<notin> set (take k (drop (Suc c) order))" using in_set_takeD by fast
  have i: "?i < length fl" using Suc.prems(2) c(1) nth_mem by fastforce
  have "hand_out order (Suc k) c fl = hand_out order k (Suc c) ?fl" using c(2) by (simp add: Let_def)
  also have "\<dots> = map (\<lambda>i. ?fl ! i + of_bool (i \<in> set (take k (drop (Suc c) order)))) [0..<length fl]"
    using Suc.IH[of ?fl "Suc c"] Suc.prems by simp
  also have "\<dots> = map (\<lambda>i. fl ! i + of_bool (i \<in> set (take (Suc k) (drop c order)))) [0..<length fl]"
    unfolding dr using i notin by (auto simp: nth_list_update)
  finally show ?case .
qed

lemma sum_list_hand_out:
  assumes "distinct order" and "set order \<subseteq> {0..<length fl}" and "k \<le> length order"
  shows "sum_list (hand_out order k 0 fl) = sum_list fl + int k"
proof -
  let ?A = "set (take k order)"
  have "?A \<subseteq> {0..<length fl}" using assms(2) by (meson set_take_subset subset_trans)
  then have A: "{0..<length fl} \<inter> ?A = ?A" by blast
  have "card ?A = k" using assms(1,3) by (simp add: distinct_card)
  then have "(\<Sum>i\<in>{0..<length fl}. of_bool (i \<in> ?A)) = int k" using A by (simp add: of_bool_def sum.If_cases)
  moreover have "sum_list fl = (\<Sum>i\<in>{0..<length fl}. fl ! i)" by (simp add: sum_list_sum_nth)
  ultimately show ?thesis
    using hand_out_value[OF assms(1,2), of 0 k] assms(3)
    by (simp add: sum_list_distinct_conv_sum_set sum.distrib)
qed

lemma split_conserving_main:
  assumes "0 < sum_list ws" and "t \<noteq> 0"
  defines "order \<equiv> split_order (split_remainders t ws)" and "k \<equiv> nat (t - sum_list (split_floors t ws))"
  shows "split_conserving t ws = Inr (map (\<lambda>i. t * (ws ! i) div sum_list ws + of_bool (i \<in> set (take k order)))
           [0..<length ws])"
    and "int k = t - sum_list (split_floors t ws)" and "k < length ws"
proof -
  have ws: "ws \<noteq> []" using assms(1) by auto
  show k: "int k = t - sum_list (split_floors t ws)" "k < length ws"
    using split_leftover_bounds[OF assms(1), of t] by (simp_all add: k_def nat_less_iff)
  have len: "length (split_remainders t ws) = length ws" "length (split_floors t ws) = length ws"
    by (simp_all add: split_remainders_def split_floors_def Let_def)
  have "hand_out order k 0 (split_floors t ws)
      = map (\<lambda>i. split_floors t ws ! i + of_bool (i \<in> set (take k (drop 0 order)))) [0..<length (split_floors t ws)]"
    by (rule hand_out_value) (use split_order_perm[of "split_remainders t ws"] len k(2) in \<open>auto simp: order_def\<close>)
  also have "\<dots> = map (\<lambda>i. t * (ws ! i) div sum_list ws + of_bool (i \<in> set (take k order))) [0..<length ws]"
    by (simp add: len split_floors_ref[OF assms(1)])
  finally have h: "hand_out order k 0 (split_floors t ws)
      = map (\<lambda>i. t * (ws ! i) div sum_list ws + of_bool (i \<in> set (take k order))) [0..<length ws]" .
  have "split_conserving t ws = Inr (hand_out order k 0 (split_floors t ws))"
    using assms ws by (simp add: split_conserving_def Let_def)
  then show "split_conserving t ws = Inr (map (\<lambda>i. t * (ws ! i) div sum_list ws + of_bool (i \<in> set (take k order)))
           [0..<length ws])" using h by simp
qed

section \<open>Properties\<close>

text \<open>C19 (\<open>split_conserving\<close>): for non-negative weights, not all absent, the apportionment returns
  one share per weight, the shares are non-negative and sum exactly to the amount, and when some
  weight is positive every share is the floor of its exact quota or one more.\<close>

theorem split_conserving_exact:
  assumes "ws \<noteq> []" and "\<And>v. v \<in> set ws \<Longrightarrow> 0 \<le> v" and "0 \<le> t"
  shows "\<exists>ps. split_conserving t ws = Inr ps \<and> length ps = length ws \<and> sum_list ps = t \<and>
           (\<forall>i < length ws. 0 \<le> ps ! i) \<and>
           (0 < sum_list ws \<longrightarrow> (\<forall>i < length ws. t * ws ! i div sum_list ws \<le> ps ! i \<and>
              ps ! i \<le> t * ws ! i div sum_list ws + 1))"
proof (cases "t = 0 \<or> sum_list ws = 0")
  case True
  have n: "0 < length ws" using assms(1) by simp
  have "(replicate (length ws) (0::int))[0 := t] = t # replicate (length ws - 1) 0"
    using n by (cases "length ws") simp_all
  then have "sum_list ((replicate (length ws) (0::int))[0 := t]) = t" by (simp add: sum_list_replicate)
  moreover have "0 \<le> (replicate (length ws) (0::int))[0 := t] ! i" if "i < length ws" for i
    using that assms(3) by (cases "i = 0") simp_all
  ultimately show ?thesis using True n by (auto simp: split_conserving_def Let_def sum_list_replicate)
next
  case False
  have pos: "0 < sum_list ws" using sum_list_nonneg[of ws] assms(2) False by fastforce
  let ?ro = "split_order (split_remainders t ws)" and ?k = "nat (t - sum_list (split_floors t ws))"
  note m = split_conserving_main[OF pos, of t]
  have fl: "0 \<le> t * ws ! i div sum_list ws" if "i < length ws" for i
    using that assms(2,3) pos by (simp add: pos_imp_zdiv_nonneg_iff)
  have len: "length (split_remainders t ws) = length ws" "length (split_floors t ws) = length ws"
    by (simp_all add: split_remainders_def split_floors_def Let_def)
  have "split_conserving t ws = Inr (hand_out ?ro ?k 0 (split_floors t ws))"
    using assms(1) False by (simp add: split_conserving_def Let_def)
  moreover have "sum_list (hand_out ?ro ?k 0 (split_floors t ws)) = sum_list (split_floors t ws) + int ?k"
    by (rule sum_list_hand_out) (use split_order_perm[of "split_remainders t ws"] len m(3) False in auto)
  ultimately show ?thesis using m False fl by (auto simp: nth_append)
qed

theorem split_conserving_exact_witness:
  "\<exists>ps. split_conserving 10 [3333, 6667] = Inr ps \<and> length ps = 2 \<and> sum_list ps = 10"
  using split_conserving_exact[of "[3333, 6667]" 10] by force

text \<open>(\<open>checked_prorate_interest\<close>): with the floor rounding used by accrual the helper
  returns a value exactly when the triple product fits in \<^verbatim>\<open>u128\<close>, and the value is the
  integer part of the exact interest.\<close>

theorem prorate_interest_exact:
  assumes "0 < p" and "0 < r" and "0 < t"
  shows "(checked_prorate_interest p r t Floor \<noteq> None \<longleftrightarrow> p * r * t \<le> u128_max) \<and>
         (\<forall>i. checked_prorate_interest p r t Floor = Some i \<longrightarrow>
            0 \<le> i \<and> i * BPS_YEAR_DENOM \<le> p * r * t \<and> p * r * t < (i + 1) * BPS_YEAR_DENOM)"
proof (intro conjI allI impI)
  show "checked_prorate_interest p r t Floor \<noteq> None \<longleftrightarrow> p * r * t \<le> u128_max"
    using prorate_floor_total[of p r t] prorate_floor_overflow[of p r t Floor] assms
    by (metis less_imp_le not_le option.distinct(1))
  fix i assume i: "checked_prorate_interest p r t Floor = Some i"
  show "0 \<le> i" using prorate_floor_nonneg[OF i] assms by simp
  have "p * r * t div 315576000000 * 315576000000 + p * r * t mod 315576000000 = p * r * t"
    by (rule div_mult_mod_eq)
  moreover have "0 \<le> p * r * t mod 315576000000" "p * r * t mod 315576000000 < 315576000000" by simp_all
  ultimately show "i * BPS_YEAR_DENOM \<le> p * r * t" "p * r * t < (i + 1) * BPS_YEAR_DENOM"
    using prorate_floor_value[OF i] by (simp_all add: algebra_simps)
qed

theorem prorate_interest_exact_witness:
  "checked_prorate_interest 10000 300 31557600 Floor = Some 300 \<and>
   (300::int) * BPS_YEAR_DENOM \<le> 10000 * 300 * 31557600"
  using prorate_interest_exact[of 10000 300 31557600]
  by (simp add: checked_prorate_interest_def checked_mul_u128_def checked_def in_u128_def u128_max_def)

text \<open>(\<open>prorate_interest\<close>, documentation): the doc comment says that a principal of up to
  \<open>10 ^ 28\<close> at up to 10\,000 bps never overflows for any realistic time; one Julian year at
  those values already exceeds \<^verbatim>\<open>u128\<close>, so the helper panics.\<close>

theorem prorate_interest_documented_bound_overflows:
  "prorate_interest (10 ^ 28) 10000 31557600 Floor = Inl RustPanic"
  by (simp add: prorate_interest_def checked_prorate_interest_def checked_mul_u128_def checked_def
      in_u128_def u128_max_def)

end
