(* ===== verification/Accrual.thy ===== *)
theory Accrual
  imports Accounting MathUtils
begin

text \<open>
  Lazy interest accrual (\<^verbatim>\<open>contracts/credit/src/accrual.rs\<close>) with the delinquency query it
  calls (\<^verbatim>\<open>query.rs\<close>).  \<open>apply_accrual\<close> is split as the source's body is: the
  surcharge in force, the effective rate, the interest of the period (with the grace window of a
  suspended line), and the capitalisation.  The lemmas show that accrual adds one non-negative
  amount to both \<open>utilized_amount\<close> and \<open>accrued_interest\<close>, that it writes nothing but
  events, and bound the amount by the exact interest at the effective rate.
\<close>

section \<open>Delinquency\<close>

definition is_delinquent :: "address \<Rightarrow> 't env \<Rightarrow> bool" where
  "is_delinquent b w =
     (case get_credit_line b w of
        None \<Rightarrow> False
      | Some line \<Rightarrow>
          if status line = Closed \<or> utilized_amount line \<le> 0 then False
          else (case get_repayment_schedule b w of
              None \<Rightarrow> False
            | Some schedule \<Rightarrow>
                let grace_seconds = (case st_grace_cfg w of None \<Rightarrow> 0 | Some cfg \<Rightarrow> grace_period_seconds cfg);
                    delinquent_after = saturating_add_u64 (next_due_ts schedule) grace_seconds in
                delinquent_after < ledger_ts w))"

section \<open>Accrual of one line\<close>

definition MAX_INTEREST_RATE_BPS :: u32 where "MAX_INTEREST_RATE_BPS = 10000"

definition prorate :: "i128 \<Rightarrow> u32 \<Rightarrow> u64 \<Rightarrow> u128 res" where
  "prorate utilized rate_bps secs =
     ok_or (Contract Overflow) (checked_prorate_interest (i128_as_u128 utilized) rate_bps secs Floor)"

definition accrual_surcharge :: "'t env \<Rightarrow> u32" where
  "accrual_surcharge w =
     (case storage_get_late_fee_config w of
        Some (AprBased surcharge_bps) \<Rightarrow> surcharge_bps
      | Some (Flat _) \<Rightarrow> 0
      | None \<Rightarrow> get_penalty_surcharge_bps w)"

definition effective_rate :: "credit_line_data \<Rightarrow> 't env \<Rightarrow> u32" where
  "effective_rate line w =
     (if is_delinquent (borrower line) w \<and> 0 < accrual_surcharge w
      then min (saturating_add_u32 (interest_rate_bps line) (accrual_surcharge w)) MAX_INTEREST_RATE_BPS
      else interest_rate_bps line)"

definition publish_penalty_transitions :: "credit_line_data \<Rightarrow> 't env \<Rightarrow> 't env" where
  "publish_penalty_transitions line w =
     (let delinquent = is_delinquent (borrower line) w;
          surcharge = accrual_surcharge w;
          previous_effective_rate = interest_rate_bps line;
          rate = effective_rate line w;
          w = (if delinquent \<and> 0 < surcharge \<and> previous_effective_rate \<noteq> rate
               then publish_penalty_rate_entered_event (borrower line) previous_effective_rate surcharge rate w
               else w) in
      if \<not> delinquent \<and> interest_rate_bps line < previous_effective_rate
      then publish_penalty_rate_exited_event (borrower line) previous_effective_rate (interest_rate_bps line) w
      else w)"

definition in_window_interest :: "grace_period_config \<Rightarrow> i128 \<Rightarrow> u64 \<Rightarrow> u128 res" where
  "in_window_interest cfg utilized secs =
     (case waiver_mode cfg of
        FullWaiver \<Rightarrow> Inr 0
      | ReducedRate \<Rightarrow> prorate utilized (reduced_rate_bps cfg) secs)"

definition grace_interest ::
  "credit_line_data \<Rightarrow> grace_period_config \<Rightarrow> u32 \<Rightarrow> 't env \<Rightarrow> (u128 \<times> 't env) res" where
  "grace_interest line cfg rate w =
     (let now = ledger_ts w; accrual_start = last_accrual_ts line; u = utilized_amount line;
          grace_end = saturating_add_u64 (suspension_ts line) (grace_period_seconds cfg) in
      if now \<le> grace_end then
        and_then (in_window_interest cfg u (now - accrual_start)) (\<lambda>v. Inr (v, w))
      else if grace_end \<le> accrual_start then
        and_then (prorate u rate (now - accrual_start)) (\<lambda>v. Inr (v, w))
      else
        let in_window_secs = grace_end - accrual_start; post_window_secs = now - grace_end in
        and_then (in_window_interest cfg u in_window_secs) (\<lambda>in_window.
        and_then (prorate u rate in_window_secs) (\<lambda>full.
        let waived_amount = saturating_sub_i128 (u128_as_i128 full) (u128_as_i128 in_window);
            w = (if 0 < waived_amount
                 then publish_grace_waiver_applied_event (borrower line) waived_amount (waiver_mode cfg) w
                 else w) in
        and_then (prorate u rate post_window_secs) (\<lambda>post_window.
        and_then (ok_or (Contract Overflow) (checked_add_u128 in_window post_window)) (\<lambda>v. Inr (v, w))))))"

definition accrual_interest ::
  "credit_line_data \<Rightarrow> u32 \<Rightarrow> 't env \<Rightarrow> (u128 \<times> 't env) res" where
  "accrual_interest line rate w =
     (let elapsed = ledger_ts w - last_accrual_ts line;
          standard = and_then (prorate (utilized_amount line) rate elapsed) (\<lambda>v. Inr (v, w)) in
      if status line = Suspended \<or> status line = SelfSuspended then
        (case st_grace_cfg w of
           Some cfg \<Rightarrow> if 0 < grace_period_seconds cfg then grace_interest line cfg rate w else standard
         | None \<Rightarrow> standard)
      else standard)"

definition capitalize_interest ::
  "credit_line_data \<Rightarrow> i128 \<Rightarrow> 't env \<Rightarrow> (credit_line_data \<times> 't env) res" where
  "capitalize_interest line accrued_i w =
     (if 0 < accrued_i then
        and_then (ok_or (Contract Overflow) (checked_add_i128 (utilized_amount line) accrued_i)) (\<lambda>u.
        and_then (ok_or (Contract Overflow) (checked_add_i128 (accrued_interest line) accrued_i)) (\<lambda>a.
        Inr (line\<lparr>utilized_amount := u, accrued_interest := a, last_accrual_ts := ledger_ts w\<rparr>,
             publish_interest_accrued_event (borrower line) accrued_i u w)))
      else Inr (line, w))"

definition apply_accrual :: "credit_line_data \<Rightarrow> 't env \<Rightarrow> (credit_line_data \<times> 't env) res" where
  "apply_accrual line w =
     (let now = ledger_ts w in
      if now \<le> last_accrual_ts line then Inr (line, w)
      else if utilized_amount line = 0 then Inr (line\<lparr>last_accrual_ts := now\<rparr>, w)
      else
        let rate = effective_rate line w;
            w = publish_penalty_transitions line w in
        and_then (accrual_interest line rate w) (\<lambda>(accrued_u, w).
        and_then (ensure (accrued_u \<le> i128_max) (Contract Overflow)) (\<lambda>_.
        capitalize_interest line accrued_u w)))"

section \<open>Accrual of many lines\<close>

definition accrue_stored_line :: "address \<Rightarrow> credit_line_data \<Rightarrow> 't env \<Rightarrow> 't env res" where
  "accrue_stored_line b stored_line w =
     and_then (apply_accrual stored_line w) (\<lambda>(updated, w).
     if utilized_amount updated \<noteq> utilized_amount stored_line \<or>
        last_accrual_ts updated \<noteq> last_accrual_ts stored_line
     then persist_credit_line b updated (utilized_amount stored_line) (Some (status stored_line)) w
     else Inr w)"

definition accrue_all_except :: "address \<Rightarrow> 't env \<Rightarrow> 't env res" where
  "accrue_all_except excluded w =
     for_each (\<lambda>i w.
       case get_borrower_by_credit_line_id i w of
         None \<Rightarrow> Inr w
       | Some b \<Rightarrow>
           if b = excluded then Inr w
           else (case get_credit_line b w of
               None \<Rightarrow> Inr w
             | Some stored_line \<Rightarrow> accrue_stored_line b stored_line w))
     (line_ids w) w"

definition accrue_batch :: "address list \<Rightarrow> 't env \<Rightarrow> 't env res" where
  "accrue_batch borrowers w =
     for_each (\<lambda>b w.
       case get_credit_line b w of
         None \<Rightarrow> Inr w
       | Some stored_line \<Rightarrow>
           if status stored_line = Active \<and> 0 < utilized_amount stored_line
           then accrue_stored_line b stored_line w
           else Inr w)
     borrowers w"

section \<open>What accrual does to a line\<close>

definition accrues :: "credit_line_data \<Rightarrow> i128 \<Rightarrow> u64 \<Rightarrow> credit_line_data" where
  "accrues line i ts = line\<lparr>utilized_amount := utilized_amount line + i,
     accrued_interest := accrued_interest line + i, last_accrual_ts := ts\<rparr>"

definition adds_events :: "'t env \<Rightarrow> 't env \<Rightarrow> bool" where
  "adds_events w w' \<longleftrightarrow> (\<exists>evs. w' = w\<lparr>events := events w @ evs\<rparr>)"

lemma adds_events_refl [simp]: "adds_events w w"
  unfolding adds_events_def by (rule exI[of _ "[]"]) simp

lemma adds_events_emit [simp]: "adds_events w (emit e w)"
  unfolding adds_events_def emit_def by blast

lemma adds_events_trans: "adds_events w w' \<Longrightarrow> adds_events w' w'' \<Longrightarrow> adds_events w w''"
  unfolding adds_events_def by (auto simp: append_assoc)

lemma prorate_nonneg: "prorate u r s = Inr v \<Longrightarrow> 0 \<le> r \<Longrightarrow> 0 \<le> s \<Longrightarrow> 0 \<le> v"
  unfolding prorate_def using prorate_floor_nonneg[of "i128_as_u128 u" r s v] by simp

lemma publish_penalty_adds_events: "adds_events w (publish_penalty_transitions line w)"
  by (simp add: publish_penalty_transitions_def Let_def)

lemma grace_interest_adds_events:
  "grace_interest line cfg rate w = Inr (v, w') \<Longrightarrow> adds_events w w'"
  by (auto simp: grace_interest_def Let_def split: if_splits)

lemma accrual_interest_adds_events:
  "accrual_interest line rate w = Inr (v, w') \<Longrightarrow> adds_events w w'"
  by (auto simp: accrual_interest_def Let_def split: if_splits option.splits
      dest: grace_interest_adds_events)

lemma capitalize_interest_shape:
  assumes "capitalize_interest line v w = Inr (line', w')"
  shows "adds_events w w' \<and>
     line' = accrues line (max 0 v) (if 0 < v then ledger_ts w else last_accrual_ts line) \<and>
     (0 < v \<longrightarrow> utilized_amount line + v \<le> i128_max \<and> accrued_interest line + v \<le> i128_max)"
  using assms by (auto simp: capitalize_interest_def accrues_def checked_arith in_i128_def
      split: if_splits)

text \<open>The contract of accrual every caller relies on.\<close>

lemma apply_accrual_shape:
  assumes "apply_accrual line w = Inr (line', w')"
  shows "\<exists>i ts. line' = accrues line i ts \<and> 0 \<le> i \<and> adds_events w w' \<and>
     (0 < i \<longrightarrow> last_accrual_ts line < ledger_ts w \<and> ts = ledger_ts w \<and> utilized_amount line \<noteq> 0 \<and>
        utilized_amount line + i \<le> i128_max \<and> accrued_interest line + i \<le> i128_max) \<and>
     (ts = last_accrual_ts line \<or> ts = ledger_ts w \<and> last_accrual_ts line < ts)"
proof (cases "ledger_ts w \<le> last_accrual_ts line \<or> utilized_amount line = 0")
  case True
  then have "line' = accrues line 0 (if ledger_ts w \<le> last_accrual_ts line then last_accrual_ts line
      else ledger_ts w) \<and> w' = w"
    using assms by (auto simp: apply_accrual_def accrues_def Let_def split: if_splits)
  moreover define ts where
    "ts = (if ledger_ts w \<le> last_accrual_ts line then last_accrual_ts line else ledger_ts w)"
  ultimately have "line' = accrues line 0 ts" "w' = w" by simp_all
  moreover have "ts = last_accrual_ts line \<or> ts = ledger_ts w \<and> last_accrual_ts line < ts"
    by (simp add: ts_def)
  ultimately show ?thesis by fastforce
next
  case False
  let ?w = "publish_penalty_transitions line w"
  from False assms obtain v w1 where v: "accrual_interest line (effective_rate line w) ?w = Inr (v, w1)"
    and c: "capitalize_interest line v w1 = Inr (line', w')"
    by (auto simp: apply_accrual_def Let_def split: if_splits)
  have "adds_events w w1"
    using publish_penalty_adds_events accrual_interest_adds_events[OF v] by (rule adds_events_trans)
  moreover from this have "ledger_ts w1 = ledger_ts w" by (auto simp: adds_events_def)
  ultimately show ?thesis
    using capitalize_interest_shape[OF c] adds_events_trans False
    by (intro exI[of _ "max 0 v"] exI[of _ "if 0 < v then ledger_ts w else last_accrual_ts line"]) auto
qed

section \<open>The accrual interface\<close>

text \<open>
  What the lifecycle, borrow and risk entrypoints rely on when they materialise interest before
  they act on a line.
\<close>

locale line_accruer =
  fixes accrue :: "credit_line_data \<Rightarrow> 't env \<Rightarrow> (credit_line_data \<times> 't env) res"
  assumes accrue_shape: "accrue line w = Inr (line', w') \<Longrightarrow>
     \<exists>i ts. line' = accrues line i ts \<and> 0 \<le> i \<and> adds_events w w' \<and>
     (0 < i \<longrightarrow> last_accrual_ts line < ledger_ts w \<and> ts = ledger_ts w \<and> utilized_amount line \<noteq> 0 \<and>
        utilized_amount line + i \<le> i128_max \<and> accrued_interest line + i \<le> i128_max) \<and>
     (ts = last_accrual_ts line \<or> ts = ledger_ts w \<and> last_accrual_ts line < ts)"
begin

lemma accrue_env:
  assumes "accrue line w = Inr (line', w')"
  shows "\<exists>evs. w' = w\<lparr>events := events w @ evs\<rparr>"
  using accrue_shape[OF assms] by (auto simp: adds_events_def)

lemma accrue_same_books: "accrue line w = Inr (line', w') \<Longrightarrow> same_books w w'"
  using accrue_env by (fastforce simp: same_books_def)

lemma accrue_line:
  assumes "accrue line w = Inr (line', w')"
  shows "borrower line' = borrower line" "status line' = status line"
    "credit_limit line' = credit_limit line" "interest_rate_bps line' = interest_rate_bps line"
    "risk_score line' = risk_score line" "suspension_ts line' = suspension_ts line"
    "last_rate_update_ts line' = last_rate_update_ts line"
    "utilized_amount line \<le> utilized_amount line'"
    "utilized_amount line' - accrued_interest line' = utilized_amount line - accrued_interest line"
  using accrue_shape[OF assms] by (auto simp: accrues_def)

lemma accrue_line_ok:
  assumes "accrue line w = Inr (line', w')" and "line_ok s b line"
  shows "line_ok s b line'"
  using accrue_shape[OF assms(1)] assms(2) by (auto simp: accrues_def line_ok_def)

lemma accrue_ledger:
  assumes "accrue line w = Inr (line', w')" and "ledger_gap s d w"
  shows "ledger_gap s d w'"
  using same_books_ledger[OF accrue_same_books[OF assms(1)]] assms(2) by simp

lemma accrue_frame:
  assumes "accrue line w = Inr (line', w')"
  shows "st_lines w' = st_lines w" and "ledger_ts w' = ledger_ts w"
  using accrue_env[OF assms] by auto

text \<open>Load, accrue, change the line, write it back.\<close>

lemma accrue_then_persist:
  assumes "accrue k w = Inr (line', w1)" and "ledger_gap s d w" and "st_lines w b = Some k"
    and "persist_credit_line b l (utilized_amount k) (Some (status k)) w1 = Inr w'"
    and "line_ok s b l" and "status l = Defaulted \<longleftrightarrow> status k = Defaulted"
  shows "ledger_gap s d w'"
proof (rule persist_existing[OF assms(4) accrue_ledger[OF assms(1,2)] _ assms(5,6)])
  show "st_lines w1 b = Some k" using accrue_frame(1)[OF assms(1)] assms(3) by simp
qed

end

interpretation acc: line_accruer apply_accrual
  by unfold_locales (rule apply_accrual_shape)

lemma accrue_stored_line_ledger:
  assumes "accrue_stored_line b k w = Inr w'" and "ledger_gap s d w" and "st_lines w b = Some k"
  shows "ledger_gap s d w'"
proof -
  from assms(1) obtain l w1 where a: "apply_accrual k w = Inr (l, w1)"
    and p: "persist_credit_line b l (utilized_amount k) (Some (status k)) w1 = Inr w' \<or> w' = w1"
    by (auto simp: accrue_stored_line_def split: if_splits)
  have l: "line_ok s b l" by (rule acc.accrue_line_ok[OF a ledger_line[OF assms(2,3)]])
  show ?thesis
    using p acc.accrue_then_persist[OF a assms(2,3) _ l] acc.accrue_line(2)[OF a]
      acc.accrue_ledger[OF a assms(2)] by auto
qed

lemma accrue_all_except_ledger:
  assumes "accrue_all_except b w = Inr w'" and "ledger_gap s d w"
  shows "ledger_gap s d w'"
  using assms(1)[unfolded accrue_all_except_def] assms(2)
  by (rule for_each_inv)
    (auto simp: get_credit_line_def split: option.splits if_splits intro: accrue_stored_line_ledger)

lemma accrue_batch_ledger:
  assumes "accrue_batch bs w = Inr w'" and "ledger_gap s d w"
  shows "ledger_gap s d w'"
  using assms(1)[unfolded accrue_batch_def] assms(2)
  by (rule for_each_inv)
    (auto simp: get_credit_line_def split: option.splits if_splits intro: accrue_stored_line_ledger)

text \<open>Accruing other lines leaves a given borrower's record alone.\<close>

lemma accrue_stored_line_other:
  assumes "accrue_stored_line c k w = Inr w'" and "c \<noteq> b"
  shows "st_lines w' b = st_lines w b"
proof -
  from assms(1) obtain l w1 where a: "apply_accrual k w = Inr (l, w1)"
    and p: "persist_credit_line c l (utilized_amount k) (Some (status k)) w1 = Inr w' \<or> w' = w1"
    by (auto simp: accrue_stored_line_def split: if_splits)
  have "st_lines w1 = st_lines w" using acc.accrue_same_books[OF a] by (simp add: same_books_def)
  moreover have "st_lines w' = (st_lines w1)(c \<mapsto> l) \<or> w' = w1"
    using p persist_fields(1)[of c l "utilized_amount k" "Some (status k)" w1 w'] by blast
  ultimately show ?thesis using assms(2) by auto
qed

lemma accrue_all_except_excluded:
  assumes "accrue_all_except b w = Inr w'"
  shows "st_lines w' b = st_lines w b"
  by (rule for_each_inv[OF assms[unfolded accrue_all_except_def], where P = "\<lambda>v. st_lines v b = st_lines w b"])
    (auto split: option.splits if_splits dest: accrue_stored_line_other)

section \<open>The line as accrual at the current time would leave it\<close>

definition accrued_line :: "address \<Rightarrow> 't env \<Rightarrow> credit_line_data option" where
  "accrued_line b w =
     (case st_lines w b of
        None \<Rightarrow> None
      | Some k \<Rightarrow> (case apply_accrual k w of Inl _ \<Rightarrow> None | Inr (l, _) \<Rightarrow> Some l))"

text \<open>Accrual does not look at the fields an entrypoint's guards have written before it runs.\<close>

definition on_env :: "('t env \<Rightarrow> 't env) \<Rightarrow> ('a \<times> 't env) res \<Rightarrow> ('a \<times> 't env) res" where
  "on_env f r = (case r of Inl e \<Rightarrow> Inl e | Inr (x, w) \<Rightarrow> Inr (x, f w))"

lemma on_env_simps [simp]: "on_env f (Inl e) = Inl e" "on_env f (Inr (x, w)) = Inr (x, f w)"
  by (simp_all add: on_env_def)

lemma on_env_and_then: "on_env f (and_then r g) = and_then r (\<lambda>x. on_env f (g x))"
  by (cases r) simp_all

definition relabel :: "bool option \<Rightarrow> address list \<Rightarrow> (address \<rightharpoonup> u64) \<Rightarrow> 't \<Rightarrow> 't env \<Rightarrow> 't env" where
  "relabel re fa la tk w =
     w\<lparr>st_reentrancy := re, frame_auth := fa, st_last_accrual_admin_action_ts := la, tokens := tk\<rparr>"

lemma relabel_reads [simp]:
  "ledger_ts (relabel re fa la tk w) = ledger_ts w" "st_grace_cfg (relabel re fa la tk w) = st_grace_cfg w"
  "is_delinquent b (relabel re fa la tk w) = is_delinquent b w"
  "accrual_surcharge (relabel re fa la tk w) = accrual_surcharge w"
  "emit e (relabel re fa la tk w) = relabel re fa la tk (emit e w)" "st_lines (relabel re fa la tk w) = st_lines w"
  by (simp_all add: relabel_def is_delinquent_def accrual_surcharge_def store_defs cong: option.case_cong)

lemma relabel_accrual:
  "apply_accrual l (relabel re fa la tk w) = on_env (relabel re fa la tk) (apply_accrual l w)"
proof -
  let ?f = "relabel re fa la tk :: 'a env \<Rightarrow> 'a env"
  have r: "effective_rate l (?f w) = effective_rate l w" for w by (simp add: effective_rate_def)
  have p: "publish_penalty_transitions l (?f w) = ?f (publish_penalty_transitions l w)" for w
    by (simp add: publish_penalty_transitions_def r Let_def)
  have g: "grace_interest l cfg rate (?f w) = on_env ?f (grace_interest l cfg rate w)" for cfg rate w
    by (simp add: grace_interest_def Let_def on_env_and_then if_distrib[of ?f] cong: if_cong)
  have i: "accrual_interest l rate (?f w) = on_env ?f (accrual_interest l rate w)" for rate w
    by (simp add: accrual_interest_def Let_def on_env_and_then g split: option.split)
  have c: "capitalize_interest l v (?f w) = on_env ?f (capitalize_interest l v w)" for v w
    by (simp add: capitalize_interest_def on_env_and_then)
  let ?w = "publish_penalty_transitions l w"
  show ?thesis
    by (cases "accrual_interest l (effective_rate l w) ?w")
      (auto simp: apply_accrual_def Let_def r p i c on_env_and_then)
qed

lemma accrued_line_relabel: "accrued_line b (relabel re fa la tk w) = accrued_line b w"
  by (auto simp: accrued_line_def relabel_accrual on_env_def split: option.split sum.split prod.split)

lemma accrued_line_intro:
  "st_lines w b = Some k \<Longrightarrow> apply_accrual k (relabel re fa la tk w) = Inr (l, w') \<Longrightarrow> accrued_line b w = Some l"
  by (auto simp: accrued_line_def relabel_accrual on_env_def split: sum.splits prod.splits)

lemma accrued_line_ok: "accrued_line b w = Some l \<Longrightarrow> ledger_gap s d w \<Longrightarrow> line_ok s b l"
  by (auto simp: accrued_line_def split: option.splits sum.splits prod.splits intro: acc.accrue_line_ok ledger_line)

lemma accrued_line_shape:
  "accrued_line b w = Some l \<Longrightarrow> \<exists>k w'. st_lines w b = Some k \<and> apply_accrual k w = Inr (l, w')"
  by (auto simp: accrued_line_def split: option.splits sum.splits prod.splits)

section \<open>Properties\<close>


definition accrual_sample :: credit_line_data where
  "accrual_sample = \<lparr>borrower = 5, credit_limit = 5000, utilized_amount = 1000, interest_rate_bps = 1000, risk_score = 0,
     status = Active, last_rate_update_ts = 0, accrued_interest = 0, last_accrual_ts = 0, suspension_ts = 0\<rparr>"

lemmas accrual_eval = accrual_sample_def genesis_def apply_accrual_def effective_rate_def publish_penalty_transitions_def
  is_delinquent_def accrual_surcharge_def accrual_interest_def grace_interest_def in_window_interest_def prorate_def
  checked_prorate_interest_def capitalize_interest_def store_defs BPS_YEAR_DENOM_def BPS_DENOMINATOR_def
  SECONDS_PER_YEAR_def checked_arith checked_def in_u128_def in_i128_def u128_max_def i128_max_def i128_min_def
  i128_as_u128_def saturating_add_u64_def u64_max_def Let_def


definition grace_env :: "u64 \<Rightarrow> unit env" where
  "grace_env ts = (genesis ts 9 ())\<lparr>st_grace_cfg :=
     Some \<lparr>grace_period_seconds = 31557600, waiver_mode = FullWaiver, reduced_rate_bps = 0\<rparr>\<rparr>"

text \<open>(grace waiver): a full waiver does not survive the end of the suspension.  The accrual that
  runs inside the grace window charges nothing and leaves the accrual clock where it was; once the line
  is active again the next accrual charges the whole period, the waived window included, at the full
  rate.\<close>

theorem full_waiver_is_recharged:
  "\<exists>l w1 l' w2. apply_accrual (accrual_sample\<lparr>status := Suspended\<rparr>) (grace_env 31557600) = Inr (l, w1) \<and>
     accrued_interest l = 0 \<and> last_accrual_ts l = 0 \<and>
     apply_accrual (l\<lparr>status := Active\<rparr>) (grace_env 31557601) = Inr (l', w2) \<and> accrued_interest l' = 100"
  by (simp add: grace_env_def accrual_eval)

text \<open>(negative debt): a line whose debt is negative can no longer be accrued once time has
  passed, so every entrypoint that accrues first reverts on it: the debt is cast to an unsigned integer
  near the top of the range and the product overflows.\<close>

theorem negative_debt_never_accrues:
  assumes "utilized_amount line < 0" and "i128_min \<le> utilized_amount line"
    and "last_accrual_ts line < ledger_ts w" and "2 \<le> effective_rate line w"
    and "status line \<noteq> Suspended" and "status line \<noteq> SelfSuspended"
  shows "apply_accrual line w = Inl (Contract Overflow)"
proof -
  have u: "i128_as_u128 (utilized_amount line) = utilized_amount line + 340282366920938463463374607431768211456"
  proof -
    let ?M = "340282366920938463463374607431768211456 :: int"
    have "i128_as_u128 (utilized_amount line) = (utilized_amount line + ?M) mod ?M"
      by (simp only: i128_as_u128_def mod_add_self2)
    then show ?thesis using assms(1,2) by (simp add: mod_pos_pos_trivial i128_min_def del: mod_add_self2)
  qed
  then have "170141183460469231731687303715884105728 \<le> i128_as_u128 (utilized_amount line)"
    using assms(2) by (simp add: i128_min_def)
  then have "170141183460469231731687303715884105728 * 2
      \<le> i128_as_u128 (utilized_amount line) * effective_rate line w"
    using assms(4) by (intro mult_mono) simp_all
  then have "prorate (utilized_amount line) (effective_rate line w) (ledger_ts w - last_accrual_ts line)
      = Inl (Contract Overflow)"
    using assms(3,4) by (auto simp: prorate_def checked_prorate_interest_def checked_arith checked_def in_u128_def u128_max_def)
  then show ?thesis using assms
    by (simp add: apply_accrual_def accrual_interest_def publish_penalty_transitions_def emit_def Let_def)
qed

theorem negative_debt_never_accrues_witness:
  "apply_accrual (accrual_sample\<lparr>utilized_amount := - 1\<rparr>) (genesis 1 9 ()) = Inl (Contract Overflow)"
  by (rule negative_debt_never_accrues) (simp_all add: accrual_eval)

end
