(* ===== verification/Fees.thy ===== *)
theory Fees
  imports Events MathUtils
begin

text \<open>
  Protocol fees (\<^verbatim>\<open>contracts/credit/src/fees.rs\<close>) and late fees
  (\<^verbatim>\<open>penalties.rs\<close>): the split of a skimmed fee between treasury and bounty, its booking, and
  the flat late fee of overdue installments.  The lemmas show that the two shares are non-negative
  and sum exactly to the fee, and that booking moves the two accumulators by exactly those shares.
\<close>

definition MAX_FEE_SHARE_BPS :: u32 where "MAX_FEE_SHARE_BPS = 10000"
definition DEFAULT_TREASURY_FEE_SHARE_BPS :: u32 where "DEFAULT_TREASURY_FEE_SHARE_BPS = 10000"

record fee_split_amounts =
  treasury_amount :: i128
  bounty_amount :: i128

definition split_protocol_fee :: "i128 \<Rightarrow> u32 \<Rightarrow> fee_split_amounts res" where
  "split_protocol_fee total_fee treasury_share_bps =
     (if total_fee \<le> 0 then Inr \<lparr>treasury_amount = 0, bounty_amount = 0\<rparr>
      else if treasury_share_bps = 0 then Inr \<lparr>treasury_amount = 0, bounty_amount = total_fee\<rparr>
      else if MAX_FEE_SHARE_BPS \<le> treasury_share_bps then
        Inr \<lparr>treasury_amount = total_fee, bounty_amount = 0\<rparr>
      else
        and_then (split_conserving (i128_as_u128 total_fee)
                   [treasury_share_bps, MAX_FEE_SHARE_BPS - treasury_share_bps]) (\<lambda>parts.
        Inr \<lparr>treasury_amount = u128_as_i128 (parts ! 0), bounty_amount = u128_as_i128 (parts ! 1)\<rparr>))"

definition get_treasury_fee_share_bps :: "'t env \<Rightarrow> u32" where
  "get_treasury_fee_share_bps w =
     (case storage_get_treasury_fee_share_bps w of None \<Rightarrow> DEFAULT_TREASURY_FEE_SHARE_BPS | Some v \<Rightarrow> v)"

definition accrue_protocol_fee :: "address \<Rightarrow> i128 \<Rightarrow> 't env \<Rightarrow> 't env res" where
  "accrue_protocol_fee b total_fee w =
     (if total_fee \<le> 0 then Inr w
      else
        and_then (split_protocol_fee total_fee (get_treasury_fee_share_bps w)) (\<lambda>split.
        and_then (if 0 < treasury_amount split then add_treasury_balance (treasury_amount split) w
                  else Inr w) (\<lambda>w.
        and_then (if 0 < bounty_amount split then add_bounty_balance (bounty_amount split) w
                  else Inr w) (\<lambda>w.
        Inr (publish_fee_accrued_event b total_fee (treasury_amount split) (bounty_amount split)
                     (get_treasury_balance w) (get_bounty_balance w) w)))))"

definition compute_late_fee :: "late_fee_config \<Rightarrow> u64 \<Rightarrow> contract_error + i128" where
  "compute_late_fee config missed_installments =
     (if missed_installments = 0 then Inr 0
      else case config of
        Flat amount \<Rightarrow>
          if amount < 0 then Inl InvalidAmount
          else if amount = 0 then Inr 0
          else ok_or Overflow (checked_mul_i128 amount missed_installments)
      | AprBased _ \<Rightarrow> Inr 0)"

section \<open>The split conserves the fee\<close>

lemma two_way_split:
  assumes "0 < t" and "0 < a" and "a < 10000"
  shows "\<exists>p. split_conserving t [a, 10000 - a] = Inr [p, t - p] \<and> 0 \<le> p \<and> p \<le> t \<and>
           t * a div 10000 \<le> p \<and> p \<le> t * a div 10000 + 1"
proof -
  let ?ws = "[a, 10000 - a]"
  have s: "sum_list ?ws = 10000" by simp
  have pos: "0 < sum_list ?ws" by simp
  note m = split_conserving_main[OF pos, of t]
  let ?ro = "split_order (split_remainders t ?ws)" and ?k = "nat (t - sum_list (split_floors t ?ws))"
  have eq: "split_conserving t ?ws = Inr (hand_out ?ro ?k 0 (split_floors t ?ws))"
    using assms by (simp add: split_conserving_def Let_def)
  have len: "length (split_remainders t ?ws) = 2" "length (split_floors t ?ws) = 2"
    by (simp_all add: split_remainders_def split_floors_def Let_def)
  have kb: "int ?k = t - sum_list (split_floors t ?ws)" "?k < 2"
    using m(2,3) assms by simp_all
  have sum: "sum_list (hand_out ?ro ?k 0 (split_floors t ?ws)) = t"
    using sum_list_hand_out[of ?ro "split_floors t ?ws" ?k] split_order_perm[of "split_remainders t ?ws"]
      len kb by simp
  let ?p = "t * a div 10000 + of_bool (0 \<in> set (take ?k ?ro))"
  let ?q = "t * (10000 - a) div 10000 + of_bool (1 \<in> set (take ?k ?ro))"
  have pq: "split_conserving t ?ws = Inr [?p, ?q]"
    using m(1) assms s by (simp add: upt_rec)
  then have "?p + ?q = t" using eq sum by simp
  moreover have "0 \<le> ?p" "0 \<le> ?q" using assms by (simp_all add: pos_imp_zdiv_nonneg_iff)
  ultimately show ?thesis using pq by (intro exI[of _ ?p]) auto
qed

lemma split_protocol_fee_conserves:
  assumes "0 < f" and "f \<le> i128_max" and "0 \<le> s"
  shows "\<exists>r. split_protocol_fee f s = Inr r \<and> treasury_amount r + bounty_amount r = f \<and>
           0 \<le> treasury_amount r \<and> 0 \<le> bounty_amount r"
proof (cases "s = 0 \<or> 10000 \<le> s")
  case True
  then show ?thesis using assms by (auto simp: split_protocol_fee_def MAX_FEE_SHARE_BPS_def)
next
  case False
  have u: "i128_as_u128 f = f" using assms by (intro i128_as_u128_id) (simp_all add: int_defs)
  obtain p where p: "split_conserving f [s, 10000 - s] = Inr [p, f - p]" "0 \<le> p" "p \<le> f"
    using two_way_split[of f s] assms False by auto
  then show ?thesis using assms False u
    by (auto simp: split_protocol_fee_def MAX_FEE_SHARE_BPS_def)
qed

lemma accrue_protocol_fee_books:
  assumes "accrue_protocol_fee b f w = Inr w'" and "f \<le> i128_max" and "0 \<le> get_treasury_fee_share_bps w"
  shows "get_treasury_balance w' + get_bounty_balance w' = get_treasury_balance w + get_bounty_balance w + max 0 f"
    and "get_treasury_balance w \<le> get_treasury_balance w'" and "get_bounty_balance w \<le> get_bounty_balance w'"
proof -
  have "get_treasury_balance w' + get_bounty_balance w' = get_treasury_balance w + get_bounty_balance w + max 0 f \<and>
        get_treasury_balance w \<le> get_treasury_balance w' \<and> get_bounty_balance w \<le> get_bounty_balance w'"
  proof (cases "f \<le> 0")
    case True
    then show ?thesis using assms(1) by (simp add: accrue_protocol_fee_def)
  next
    case False
    then obtain r where "split_protocol_fee f (get_treasury_fee_share_bps w) = Inr r"
      "treasury_amount r + bounty_amount r = f" "0 \<le> treasury_amount r" "0 \<le> bounty_amount r"
      using split_protocol_fee_conserves[of f "get_treasury_fee_share_bps w"] assms(2,3) by auto
    then show ?thesis using assms(1) False
      by (auto simp: accrue_protocol_fee_def add_treasury_balance_def add_bounty_balance_def store_defs
          checked_arith split: if_splits)
  qed
  then show "get_treasury_balance w' + get_bounty_balance w' = get_treasury_balance w + get_bounty_balance w + max 0 f"
    "get_treasury_balance w \<le> get_treasury_balance w'" "get_bounty_balance w \<le> get_bounty_balance w'"
    by simp_all
qed

lemma accrue_protocol_fee_shape:
  assumes "accrue_protocol_fee b f w = Inr w'"
  shows "\<exists>t y evs. w' = w\<lparr>st_treasury_balance := t, st_bounty_balance := y, events := evs\<rparr>"
proof -
  have "w' = w\<lparr>st_treasury_balance := st_treasury_balance w', st_bounty_balance := st_bounty_balance w',
      events := events w'\<rparr>"
    using assms by (auto simp: accrue_protocol_fee_def add_treasury_balance_def add_bounty_balance_def
        emit_def split: if_splits)
  then show ?thesis by blast
qed

end
