(* ===== verification/Cooldown.thy ===== *)
theory Cooldown
  imports Storage
begin

text \<open>
  The interface shared by the admin cool-offs of the credit contract and of the standalone risk
  contract: a clock, a guard that is checked before an action and a stamp that records it.  The client lemma says that two actions that both pass the guard,
  with nothing but time between the stamp of the first and the check of the second, are at least
  the configured period apart.  The components that own a cool-off interpret the locale.
\<close>

locale cooldown_gate =
  fixes clock :: "'s \<Rightarrow> u64"
    and guard :: "'s \<Rightarrow> 'e + unit"
    and stamp :: "'s \<Rightarrow> 's"
    and period :: "'s \<Rightarrow> u64"
    and last :: "'s \<Rightarrow> u64 option"
    and err :: 'e
  assumes stamp_last: "0 < clock w \<Longrightarrow> last (stamp w) = Some (clock w)"
    and stamp_period: "period (stamp w) = period w"
    and guard_off: "period w = 0 \<or> last w = None \<Longrightarrow> guard w = Inr ()"
    and guard_on: "0 < period w \<Longrightarrow> last w = Some t \<Longrightarrow>
       guard w = (if clock w < saturating_add_u64 t (period w) then Inl err else Inr ())"
begin

lemma spaced:
  assumes "0 < clock w" and "last w' = last (stamp w)" and "period w' = period w"
    and "0 < period w" and "guard w' = Inr ()"
  shows "min u64_max (clock w + period w) \<le> clock w'"
  using guard_on[of w' "clock w"] stamp_last[OF assms(1)] assms(2-5)
  by (auto simp: saturating_add_u64_def split: if_splits)

lemma early_rejected:
  assumes "0 < clock w" and "last w' = last (stamp w)" and "period w' = period w"
    and "0 < period w" and "clock w' < clock w + period w" and "clock w' < u64_max"
  shows "guard w' = Inl err"
  using guard_on[of w' "clock w"] stamp_last[OF assms(1)] assms(2-6)
  by (simp add: saturating_add_u64_def)

lemma passes_after:
  assumes "last w = Some t" and "t + period w \<le> clock w" and "0 \<le> period w"
  shows "guard w = Inr ()"
  using guard_on[OF _ assms(1)] guard_off[of w] assms(2,3)
  by (cases "period w = 0") (auto simp: saturating_add_u64_def)

end

end
