(* ===== verification/Collateral.thy ===== *)
theory Collateral
  imports Accounting MathUtils Cooldown
begin

text \<open>
  Collateral (\<^verbatim>\<open>contracts/credit/src/collateral.rs\<close>, the admin settings of
  \<^verbatim>\<open>contracts/collateral/src/admin.rs\<close>, and the health factor of \<^verbatim>\<open>query.rs\<close>): risk-weighted
  valuation, deposits, withdrawals and releases in the liquidity token and in allowlisted tokens,
  and the settings with their cool-off.  The lemmas bound the valuation, show that the health
  factor agrees with the ratio check, that a successful withdrawal moves exactly the amount and
  keeps the floor, and that per-token deposits can never succeed.
\<close>

section \<open>Valuation\<close>

definition required_collateral :: "i128 \<Rightarrow> u32 \<Rightarrow> i128 res" where
  "required_collateral utilized ratio_bps =
     and_then (ok_or (Contract Overflow) (checked_mul_i128 utilized ratio_bps)) (\<lambda>numerator.
     Inr (numerator sdiv 10000 + (if numerator smod 10000 = 0 then 0 else 1)))"

definition asset_weight_bps :: "address \<Rightarrow> 't env \<Rightarrow> u32" where
  "asset_weight_bps asset w =
     (case get_collateral_risk_weight_bps asset w of None \<Rightarrow> 10000 | Some v \<Rightarrow> v)"

definition legacy_collateral_weight_bps :: "'t env \<Rightarrow> u32" where
  "legacy_collateral_weight_bps w =
     (case get_collateral_token w of None \<Rightarrow> 10000 | Some token \<Rightarrow> asset_weight_bps token w)"

definition weighted_collateral_value :: "i128 \<Rightarrow> u32 \<Rightarrow> i128 res" where
  "weighted_collateral_value amount weight_bps =
     (if amount \<le> 0 then Inr 0
      else if 10000 \<le> weight_bps then Inr amount
      else
        and_then (mul_div (i128_as_u128 amount) weight_bps 10000 Floor) (\<lambda>weighted.
        and_then (ensure (weighted \<le> i128_max) (Contract Overflow)) (\<lambda>_. Inr weighted)))"

definition add_weighted :: "i128 \<Rightarrow> u32 \<Rightarrow> i128 \<Rightarrow> i128 res" where
  "add_weighted balance weight_bps total_value =
     and_then (weighted_collateral_value balance weight_bps) (\<lambda>v.
     ok_or (Contract Overflow) (checked_add_i128 total_value v))"

definition effective_collateral_value :: "address \<Rightarrow> 't env \<Rightarrow> i128 res" where
  "effective_collateral_value b w =
     (let legacy_balance = get_collateral_balance b w in
      and_then (if 0 < legacy_balance
                then add_weighted legacy_balance (legacy_collateral_weight_bps w) 0 else Inr 0) (\<lambda>total_value.
      for_each (\<lambda>token total_value.
          let balance = get_collateral_balance_for_token b token w in
          if balance \<le> 0 then Inr total_value
          else add_weighted balance (asset_weight_bps token w) total_value)
        (get_collateral_token_allowlist w) total_value))"

definition min_ratio_or_default :: "'t env \<Rightarrow> u32" where
  "min_ratio_or_default w = (case get_min_collateral_ratio_bps w of None \<Rightarrow> 15000 | Some r \<Rightarrow> r)"

definition required_collateral_for :: "i128 \<Rightarrow> 't env \<Rightarrow> i128 res" where
  "required_collateral_for utilized w =
     (if utilized \<le> 0 then Inr 0 else required_collateral utilized (min_ratio_or_default w))"

definition u32_try_from_or_max :: "int \<Rightarrow> u32" where
  "u32_try_from_or_max v = (if in_u32 v then v else u32_max)"

definition get_health_factor :: "address \<Rightarrow> 't env \<Rightarrow> u32 res" where
  "get_health_factor b w =
     (case get_credit_line b w of
        None \<Rightarrow> Inr u32_max
      | Some line \<Rightarrow>
          if utilized_amount line \<le> 0 then Inr u32_max
          else
            and_then (effective_collateral_value b w) (\<lambda>collateral.
            let min_ratio_bps = min_ratio_or_default w in
            if min_ratio_bps = 0 then Inr u32_max
            else
              and_then (required_collateral (utilized_amount line) min_ratio_bps) (\<lambda>required.
              if required = 0 then Inr u32_max
              else
                let scaled = (case checked_mul_u128 (max collateral 0) 10000 of
                                None \<Rightarrow> u128_max | Some v \<Rightarrow> v) in
                Inr (u32_try_from_or_max (scaled div max required 0)))))"

section \<open>Deposits, withdrawals and releases\<close>

definition collateral_token_or_err :: "'t env \<Rightarrow> address res" where
  "collateral_token_or_err w = ok_or (Contract MissingLiquidityToken) (get_collateral_token w)"

definition publish_collateral_lifecycle_event ::
  "address \<Rightarrow> collateral_event_kind \<Rightarrow> address option \<Rightarrow> i128 \<Rightarrow> i128 \<Rightarrow> 't env \<Rightarrow> 't env" where
  "publish_collateral_lifecycle_event b k token amount new_balance w =
     emit ([''credit'', ''col_lca''], CollateralLifecycleEvent b k token amount new_balance (ledger_seq w) (ledger_ts w)) w"

definition deposit_collateral :: "'t token_client \<Rightarrow> address \<Rightarrow> i128 \<Rightarrow> 't env \<Rightarrow> 't env res" where
  "deposit_collateral tok b amount w =
     and_then (ensure (0 < amount) (Contract InvalidAmount)) (\<lambda>_.
     and_then (require_auth b w) (\<lambda>w.
     and_then (collateral_token_or_err w) (\<lambda>token_addr.
     and_then (token_transfer tok token_addr b (self_addr w) amount w) (\<lambda>w.
     and_then (ok_or (Contract Overflow) (checked_add_i128 (get_collateral_balance b w) amount)) (\<lambda>new_balance.
     and_then (set_collateral_balance b new_balance w) (\<lambda>w.
     Inr (publish_collateral_lifecycle_event b Deposited None amount new_balance
            (publish_collateral_deposited_event b amount new_balance w))))))))"

definition effective_after_release :: "address \<Rightarrow> i128 \<Rightarrow> u32 \<Rightarrow> 't env \<Rightarrow> i128 res" where
  "effective_after_release b amount weight_bps w =
     and_then (effective_collateral_value b w) (\<lambda>e.
     and_then (weighted_collateral_value amount weight_bps) (\<lambda>v.
     Inr (case checked_sub_i128 e v of None \<Rightarrow> 0 | Some r \<Rightarrow> r)))"

definition assert_floor_after_release :: "address \<Rightarrow> i128 \<Rightarrow> u32 \<Rightarrow> 't env \<Rightarrow> unit res" where
  "assert_floor_after_release b amount weight_bps w =
     (case get_credit_line b w of
        None \<Rightarrow> Inr ()
      | Some line \<Rightarrow>
          if 0 < utilized_amount line then
            and_then (effective_after_release b amount weight_bps w) (\<lambda>effective_after.
            and_then (required_collateral_for (utilized_amount line) w) (\<lambda>required.
            ensure (\<not> effective_after < required) (Contract CollateralRatioBelowMinimum)))
          else Inr ())"

definition pay_out_collateral ::
  "'t token_client \<Rightarrow> address \<Rightarrow> i128 \<Rightarrow> i128 \<Rightarrow> 't env \<Rightarrow> 't env res" where
  "pay_out_collateral tok b amount post_balance w =
     and_then (collateral_token_or_err w) (\<lambda>token_addr.
     and_then (token_transfer tok token_addr (self_addr w) b amount w) (\<lambda>w.
     set_collateral_balance b post_balance w))"

definition withdraw_collateral :: "'t token_client \<Rightarrow> address \<Rightarrow> i128 \<Rightarrow> 't env \<Rightarrow> 't env res" where
  "withdraw_collateral tok b amount w =
     and_then (ensure (0 < amount) (Contract InvalidAmount)) (\<lambda>_.
     and_then (require_auth b w) (\<lambda>w.
     let cur_balance = get_collateral_balance b w in
     and_then (ensure (amount \<le> cur_balance) (Contract InsufficientCollateralBalance)) (\<lambda>_.
     let post_balance = cur_balance - amount in
     and_then (assert_floor_after_release b amount (legacy_collateral_weight_bps w) w) (\<lambda>_.
     and_then (pay_out_collateral tok b amount post_balance w) (\<lambda>w.
     Inr (publish_collateral_lifecycle_event b Withdrawn None amount post_balance
            (publish_collateral_withdrawn_event b amount post_balance w)))))))"

definition release_health_factor :: "i128 \<Rightarrow> i128 \<Rightarrow> u32" where
  "release_health_factor effective_after utilized =
     (if utilized = 0 then u32_max
      else u32_try_from_or_max
        ((case checked_mul_i128 effective_after 10000 of None \<Rightarrow> i128_max | Some v \<Rightarrow> v) sdiv utilized))"

definition partial_release_collateral :: "'t token_client \<Rightarrow> address \<Rightarrow> i128 \<Rightarrow> 't env \<Rightarrow> 't env res" where
  "partial_release_collateral tok b amount w =
     and_then (ensure (0 < amount) (Contract InvalidAmount)) (\<lambda>_.
     and_then (require_auth b w) (\<lambda>w.
     let cur_balance = get_collateral_balance b w in
     and_then (ensure (amount \<le> cur_balance) (Contract InsufficientCollateralBalance)) (\<lambda>_.
     and_then (ok_or (Contract Overflow) (checked_sub_i128 cur_balance amount)) (\<lambda>post_balance.
     let utilized = (case get_credit_line b w of None \<Rightarrow> 0 | Some line \<Rightarrow> utilized_amount line) in
     and_then (effective_after_release b amount (legacy_collateral_weight_bps w) w) (\<lambda>effective_after.
     and_then (if 0 < utilized
               then and_then (required_collateral_for utilized w) (\<lambda>required.
                      ensure (\<not> effective_after < required) (Contract CollateralRatioBelowMinimum))
               else Inr ()) (\<lambda>_.
     and_then (pay_out_collateral tok b amount post_balance w) (\<lambda>w.
     Inr (publish_collateral_lifecycle_event b PartiallyReleased None amount post_balance
            (publish_collateral_partial_released_event b amount post_balance
                     (release_health_factor effective_after utilized) w)))))))))"

definition release_collateral :: "'t token_client \<Rightarrow> address \<Rightarrow> i128 \<Rightarrow> 't env \<Rightarrow> 't env res" where
  "release_collateral tok b amount w =
     and_then (ensure (0 \<le> amount) (Contract InvalidAmount)) (\<lambda>_.
     if amount = 0 then Inr w
     else
       let cur_balance = get_collateral_balance b w in
       and_then (ensure (amount \<le> cur_balance) (Contract InsufficientCollateralBalance)) (\<lambda>_.
       let post_balance = cur_balance - amount in
       and_then (pay_out_collateral tok b amount post_balance w) (\<lambda>w.
       Inr (publish_collateral_lifecycle_event b Released None amount post_balance
              (publish_collateral_withdrawn_event b amount post_balance w)))))"

definition deposit_collateral_token ::
  "'t token_client \<Rightarrow> address \<Rightarrow> address \<Rightarrow> i128 \<Rightarrow> 't env \<Rightarrow> 't env res" where
  "deposit_collateral_token tok b token_addr amount w =
     and_then (ensure (0 < amount) (Contract InvalidAmount)) (\<lambda>_.
     and_then (ensure (is_collateral_token_allowed token_addr w) (Contract MissingLiquidityToken)) (\<lambda>_.
     and_then (require_auth b w) (\<lambda>w.
     and_then (token_transfer tok token_addr b (self_addr w) amount w) (\<lambda>w.
     and_then (ok_or (Contract Overflow)
                 (checked_add_i128 (get_collateral_balance_for_token b token_addr w) amount)) (\<lambda>new_balance.
     and_then (set_collateral_balance_for_token b token_addr new_balance w) (\<lambda>w.
     Inr (publish_collateral_lifecycle_event b Deposited (Some token_addr) amount new_balance
            (publish_collateral_deposited_event b amount new_balance w))))))))"

definition withdraw_collateral_token ::
  "'t token_client \<Rightarrow> address \<Rightarrow> address \<Rightarrow> i128 \<Rightarrow> 't env \<Rightarrow> 't env res" where
  "withdraw_collateral_token tok b token_addr amount w =
     and_then (ensure (0 < amount) (Contract InvalidAmount)) (\<lambda>_.
     and_then (ensure (is_collateral_token_allowed token_addr w) (Contract MissingLiquidityToken)) (\<lambda>_.
     and_then (require_auth b w) (\<lambda>w.
     let cur_balance = get_collateral_balance_for_token b token_addr w in
     and_then (ensure (amount \<le> cur_balance) (Contract InsufficientCollateralBalance)) (\<lambda>_.
     let post_balance = cur_balance - amount in
     and_then (assert_floor_after_release b amount (asset_weight_bps token_addr w) w) (\<lambda>_.
     and_then (token_transfer tok token_addr (self_addr w) b amount w) (\<lambda>w.
     and_then (set_collateral_balance_for_token b token_addr post_balance w) (\<lambda>w.
     Inr (publish_collateral_lifecycle_event b Withdrawn (Some token_addr) amount post_balance
            (publish_collateral_withdrawn_event b amount post_balance w)))))))))"

record collateral_state =
  cs_borrower :: address
  cs_balance :: i128
  cs_min_ratio_bps :: u32
  cs_collateral_token :: "address option"
  cs_health_factor_bps :: u32

definition get_collateral_state :: "address \<Rightarrow> 't env \<Rightarrow> collateral_state" where
  "get_collateral_state b w =
     (let balance = get_collateral_balance b w;
          utilized = (case get_credit_line b w of None \<Rightarrow> 0 | Some l \<Rightarrow> utilized_amount l) in
      \<lparr>cs_borrower = b, cs_balance = balance, cs_min_ratio_bps = min_ratio_or_default w,
       cs_collateral_token = get_collateral_token w,
       cs_health_factor_bps =
         (if utilized \<le> 0 then u32_max
          else u32_try_from_or_max
            ((case checked_mul_i128 balance 10000 of None \<Rightarrow> i128_max | Some v \<Rightarrow> v) sdiv utilized))\<rparr>)"

section \<open>Admin settings\<close>

definition enforce_admin_collateral_cooldown :: "'t env \<Rightarrow> unit res" where
  "enforce_admin_collateral_cooldown w =
     (case storage_get_admin_collateral_cooldown_seconds w of
        None \<Rightarrow> Inr ()
      | Some cooldown_secs \<Rightarrow>
          if cooldown_secs = 0 then Inr ()
          else (case storage_get_last_admin_collateral_critical_action_ts w of
              None \<Rightarrow> Inr ()
            | Some last_ts \<Rightarrow>
                ensure (\<not> ledger_ts w < saturating_add_u64 last_ts cooldown_secs)
                  (Contract AdminCollateralCooldownActive)))"

definition touch_admin_collateral_critical_action_ts :: "'t env \<Rightarrow> 't env" where
  "touch_admin_collateral_critical_action_ts w = storage_set_last_admin_collateral_critical_action_ts (ledger_ts w) w"

definition collateral_admin_action :: "('t env \<Rightarrow> 't env res) \<Rightarrow> 't env \<Rightarrow> 't env res" where
  "collateral_admin_action write w =
     and_then (enforce_admin_collateral_cooldown w) (\<lambda>_.
     and_then (write w) (\<lambda>w. Inr (touch_admin_collateral_critical_action_ts w)))"

definition set_admin_collateral_cooldown_seconds :: "u64 \<Rightarrow> 't env \<Rightarrow> 't env res" where
  "set_admin_collateral_cooldown_seconds seconds w =
     and_then (assert_not_paused w) (\<lambda>_.
     and_then (require_admin_auth w) (\<lambda>(_, w).
     collateral_admin_action (\<lambda>w. Inr (storage_set_admin_collateral_cooldown_seconds seconds w)) w))"

definition set_min_collateral_ratio_bps :: "u32 \<Rightarrow> 't env \<Rightarrow> 't env res" where
  "set_min_collateral_ratio_bps ratio_bps w =
     and_then (assert_not_paused w) (\<lambda>_.
     and_then (require_admin_auth w) (\<lambda>(_, w).
     collateral_admin_action (\<lambda>w. Inr (storage_set_min_collateral_ratio_bps ratio_bps w)) w))"

definition set_collateral_risk_weight :: "address \<Rightarrow> u32 \<Rightarrow> 't env \<Rightarrow> 't env res" where
  "set_collateral_risk_weight asset weight_bps w =
     and_then (assert_not_paused w) (\<lambda>_.
     and_then (require_admin_auth w) (\<lambda>(_, w).
     and_then (ensure (weight_bps \<le> 10000) (Contract InvalidRiskWeight)) (\<lambda>_.
     collateral_admin_action
       (\<lambda>w. Inr (storage_set_collateral_risk_weight_bps asset weight_bps w)) w)))"

definition set_collateral_token_allowlist :: "'t token_client \<Rightarrow> address list \<Rightarrow> 't env \<Rightarrow> 't env res" where
  "set_collateral_token_allowlist tok ts w =
     and_then (assert_not_paused w) (\<lambda>_.
     and_then (require_admin_auth w) (\<lambda>(_, w).
     collateral_admin_action (\<lambda>w.
       and_then (for_each (\<lambda>token _.
           case tk_decimals tok (tokens w) token of None \<Rightarrow> Inl CalleeTrapped | Some _ \<Rightarrow> Inr ()) ts ()) (\<lambda>_.
       Inr (storage_set_collateral_token_allowlist ts w))) w))"

section \<open>Valuation lemmas\<close>

lemma required_collateral_ceil:
  assumes "required_collateral u r = Inr q" and "0 \<le> u * r"
  shows "u * r \<le> q * 10000 \<and> q * 10000 < u * r + 10000"
proof -
  have "q = u * r div 10000 + (if u * r mod 10000 = 0 then 0 else 1)"
    using assms by (auto simp: required_collateral_def checked_arith signed_divide_int_def
        signed_modulo_int_def sgn_if split: if_splits)
  then show ?thesis using ceil_div_bounds[of 10000 q "u * r"] by (simp split: if_splits)
qed

definition weighted_val :: "i128 \<Rightarrow> u32 \<Rightarrow> i128" where
  "weighted_val amount weight =
     (if amount \<le> 0 then 0 else if 10000 \<le> weight then amount else amount * weight div 10000)"

lemma weighted_val_bounds: "0 \<le> weight \<Longrightarrow> 0 \<le> weighted_val a weight \<and> weighted_val a weight \<le> max 0 a"
proof -
  assume w: "0 \<le> weight"
  have "a * weight div 10000 \<le> a" if "0 < a" "weight < 10000"
  proof -
    have "a * weight \<le> a * 10000" using that by (intro mult_left_mono) simp_all
    then have "a * weight div 10000 \<le> a * 10000 div 10000" by (intro zdiv_mono1) simp_all
    then show ?thesis by simp
  qed
  then show ?thesis using w by (auto simp: weighted_val_def pos_imp_zdiv_nonneg_iff)
qed

lemma weighted_val_split:
  assumes "0 \<le> x" and "x \<le> y" and "0 \<le> weight"
  shows "weighted_val y weight \<le> weighted_val x weight + weighted_val (y - x) weight + of_bool (weight < 10000)"
    and "weighted_val x weight + weighted_val (y - x) weight \<le> weighted_val y weight"
proof -
  have e: "weighted_val a weight = (if 10000 \<le> weight then a else a * weight div 10000)" if "0 \<le> a" for a
    using that by (auto simp: weighted_val_def)
  have s: "x * weight + (y - x) * weight = y * weight" by (simp add: algebra_simps)
  have b: "x * weight div 10000 + (y - x) * weight div 10000 \<le> y * weight div 10000"
    "y * weight div 10000 \<le> x * weight div 10000 + (y - x) * weight div 10000 + 1"
    using div_add_bounds[of 10000 "x * weight" "(y - x) * weight"] unfolding s by simp_all
  have "0 \<le> y" using assms by simp
  then show "weighted_val y weight \<le> weighted_val x weight + weighted_val (y - x) weight + of_bool (weight < 10000)"
    "weighted_val x weight + weighted_val (y - x) weight \<le> weighted_val y weight"
    using b e[OF assms(1)] e[of y] e[of "y - x"] assms by auto
qed

lemma weighted_collateral_value_Inr:
  assumes "weighted_collateral_value a weight = Inr v" and "a \<le> i128_max" and "0 \<le> weight"
  shows "v = weighted_val a weight"
proof (cases "a \<le> 0")
  case True
  then show ?thesis using assms(1) by (simp add: weighted_collateral_value_def weighted_val_def)
next
  case False
  then have "i128_as_u128 a = a" using assms(2) by (intro i128_as_u128_id) (simp_all add: int_defs)
  then show ?thesis using assms(1) False
    by (auto simp: weighted_collateral_value_def weighted_val_def mul_div_def checked_arith split: if_splits)
qed

lemma weighted_collateral_value_mono:
  assumes "weighted_collateral_value a weight = Inr v" and "a' \<le> a" and "a \<le> i128_max" and "0 \<le> weight"
  shows "\<exists>v'. weighted_collateral_value a' weight = Inr v'"
proof (cases "a' \<le> 0 \<or> 10000 \<le> weight")
  case True
  then show ?thesis by (auto simp: weighted_collateral_value_def)
next
  case False
  then have a: "0 < a'" "0 < a" "weight < 10000" using assms(2) by auto
  have id: "i128_as_u128 a = a" "i128_as_u128 a' = a'"
    using assms(2,3) a by (auto intro!: i128_as_u128_id simp: int_defs)
  have fit: "a * weight \<le> u128_max" "a * weight div 10000 \<le> i128_max"
    using assms(1) a by (auto simp: weighted_collateral_value_def mul_div_def checked_arith in_u128_def id
        split: if_splits)
  have "a' * weight \<le> a * weight" using assms(2,4) by (rule mult_right_mono)
  then have "in_u128 (a' * weight)" "a' * weight div 10000 \<le> i128_max"
    using fit zdiv_mono1[of "a' * weight" "a * weight" 10000] a assms(4) by (simp_all add: in_u128_def)
  then show ?thesis using a
    by (simp add: weighted_collateral_value_def mul_div_def checked_arith checked_def id)
qed

definition weights_typed :: "'t env \<Rightarrow> bool" where
  "weights_typed w \<longleftrightarrow> (\<forall>a r. st_collateral_risk_weight_bps w a = Some r \<longrightarrow> in_u32 r)"

definition balances_typed :: "address \<Rightarrow> 't env \<Rightarrow> bool" where
  "balances_typed b w \<longleftrightarrow> get_collateral_balance b w \<le> i128_max \<and>
     (\<forall>t. get_collateral_balance_for_token b t w \<le> i128_max)"

lemma weights_nonneg:
  assumes "weights_typed w"
  shows "0 \<le> asset_weight_bps a w" and "0 \<le> legacy_collateral_weight_bps w"
proof -
  show a: "0 \<le> asset_weight_bps a w" for a
    using assms by (auto simp: asset_weight_bps_def weights_typed_def in_u32_def store_defs split: option.splits)
  show "0 \<le> legacy_collateral_weight_bps w"
    using a by (auto simp: legacy_collateral_weight_bps_def split: option.splits)
qed

definition token_part :: "address \<Rightarrow> 't env \<Rightarrow> i128" where
  "token_part b w = sum_list (map (\<lambda>t. weighted_val (get_collateral_balance_for_token b t w)
     (asset_weight_bps t w)) (get_collateral_token_allowlist w))"

lemma token_loop_value:
  assumes "for_each (\<lambda>t acc. let balance = bal t in
             if balance \<le> 0 then Inr acc else add_weighted balance (wt t) acc) ts a = Inr r"
    and "\<And>t. bal t \<le> i128_max" and "\<And>t. 0 \<le> wt t"
  shows "r = a + sum_list (map (\<lambda>t. weighted_val (bal t) (wt t)) ts)"
  using assms(1)
proof (induction ts arbitrary: a)
  case Nil
  then show ?case by simp
next
  case (Cons t ts)
  show ?case
  proof (cases "bal t \<le> 0")
    case True
    then show ?thesis using Cons by (simp add: weighted_val_def)
  next
    case False
    then obtain v where "weighted_collateral_value (bal t) (wt t) = Inr v"
      "for_each (\<lambda>t acc. let balance = bal t in
             if balance \<le> 0 then Inr acc else add_weighted balance (wt t) acc) ts (a + v) = Inr r"
      using Cons.prems by (auto simp: add_weighted_def checked_arith)
    then show ?thesis
      using Cons.IH[of "a + v"] weighted_collateral_value_Inr[of "bal t" "wt t" v] assms(2,3) by simp
  qed
qed

lemma token_loop_mono:
  assumes "for_each (\<lambda>t acc. let balance = bal t in
             if balance \<le> 0 then Inr acc else add_weighted balance (wt t) acc) ts a = Inr r"
    and "0 \<le> a'" and "a' \<le> a" and "\<And>t. bal t \<le> i128_max" and "\<And>t. 0 \<le> wt t"
  shows "\<exists>r'. for_each (\<lambda>t acc. let balance = bal t in
             if balance \<le> 0 then Inr acc else add_weighted balance (wt t) acc) ts a' = Inr r'"
  using assms(1-3)
proof (induction ts arbitrary: a a')
  case Nil
  then show ?case by simp
next
  case (Cons t ts)
  show ?case
  proof (cases "bal t \<le> 0")
    case True
    then show ?thesis using Cons by simp
  next
    case False
    then obtain v where v: "weighted_collateral_value (bal t) (wt t) = Inr v" "in_i128 (a + v)"
      "for_each (\<lambda>t acc. let balance = bal t in
             if balance \<le> 0 then Inr acc else add_weighted balance (wt t) acc) ts (a + v) = Inr r"
      using Cons.prems(1) by (auto simp: add_weighted_def checked_arith)
    have "0 \<le> v"
      using weighted_collateral_value_Inr[OF v(1)] weighted_val_bounds assms(4,5) by simp
    then have "0 \<le> a' + v" "a' + v \<le> a + v" "in_i128 (a' + v)"
      using Cons.prems v(2) by (auto simp: in_i128_def i128_min_def)
    then show ?thesis using Cons.IH[OF v(3)] False v(1) by (simp add: add_weighted_def checked_arith checked_def)
  qed
qed

lemma effective_value_formula:
  assumes "effective_collateral_value b w = Inr e" and "weights_typed w" and "balances_typed b w"
  shows "e = weighted_val (get_collateral_balance b w) (legacy_collateral_weight_bps w) + token_part b w"
proof -
  obtain a where a: "(if 0 < get_collateral_balance b w
      then add_weighted (get_collateral_balance b w) (legacy_collateral_weight_bps w) 0 else Inr 0) = Inr a"
    and loop: "for_each (\<lambda>token acc. let balance = get_collateral_balance_for_token b token w in
        if balance \<le> 0 then Inr acc else add_weighted balance (asset_weight_bps token w) acc)
        (get_collateral_token_allowlist w) a = Inr e"
    using assms(1) unfolding effective_collateral_value_def Let_def and_then_Inr by blast
  have "a = weighted_val (get_collateral_balance b w) (legacy_collateral_weight_bps w)"
    using a weighted_collateral_value_Inr[of "get_collateral_balance b w" "legacy_collateral_weight_bps w"]
      assms(3) weights_nonneg(2)[OF assms(2)]
    by (auto simp: add_weighted_def checked_arith balances_typed_def weighted_val_def split: if_splits)
  moreover have "e = a + token_part b w"
    unfolding token_part_def
    by (rule token_loop_value[OF loop]) (use assms(2,3) weights_nonneg in \<open>auto simp: balances_typed_def\<close>)
  ultimately show ?thesis by simp
qed

lemma effective_value_smaller:
  assumes "effective_collateral_value b w = Inr e" and "weights_typed w" and "balances_typed b w"
    and "0 \<le> v" and "v \<le> get_collateral_balance b w"
    and "w' = w\<lparr>st_collateral_balance := (st_collateral_balance w)(b \<mapsto> v), st_total_collateral := t,
       tokens := tk, events := evs\<rparr>"
  shows "effective_collateral_value b w' = Inr (weighted_val v (legacy_collateral_weight_bps w) + token_part b w)"
proof -
  let ?lw = "legacy_collateral_weight_bps w" and ?x = "get_collateral_balance b w"
  obtain a where a: "(if 0 < ?x then add_weighted ?x ?lw 0 else Inr 0) = Inr a"
    and loop: "for_each (\<lambda>token acc. let balance = get_collateral_balance_for_token b token w in
        if balance \<le> 0 then Inr acc else add_weighted balance (asset_weight_bps token w) acc)
        (get_collateral_token_allowlist w) a = Inr e"
    using assms(1) unfolding effective_collateral_value_def Let_def and_then_Inr by blast
  have x: "?x \<le> i128_max" "0 \<le> ?lw" using assms(2,3) weights_nonneg(2) by (auto simp: balances_typed_def)
  have aval: "a = weighted_val ?x ?lw"
    using a weighted_collateral_value_Inr[OF _ x] by (auto simp: add_weighted_def checked_arith weighted_val_def split: if_splits)
  define a' where "a' = weighted_val v ?lw"
  have a'_le: "0 \<le> a'" "a' \<le> a"
    using weighted_val_split(2)[OF assms(4,5) x(2)] weighted_val_bounds[OF x(2), of v]
      weighted_val_bounds[OF x(2), of "?x - v"] by (simp_all add: a'_def aval)
  have first: "(if 0 < v then add_weighted v ?lw 0 else Inr 0) = Inr a'"
  proof (cases "0 < v")
    case True
    then obtain y where y: "weighted_collateral_value v ?lw = Inr y"
      using a weighted_collateral_value_mono[OF _ assms(5) x] assms(5) by (auto simp: add_weighted_def)
    then have "y = a'" using weighted_collateral_value_Inr[OF y _ x(2)] x(1) assms(5) by (simp add: a'_def)
    moreover have "a' \<le> i128_max"
      using a'_le(2) aval weighted_val_bounds[OF x(2), of ?x] x(1) True assms(5) by linarith
    ultimately show ?thesis
      using True y a'_le(1) by (simp add: add_weighted_def checked_arith checked_def in_i128_def i128_min_def)
  next
    case False
    then show ?thesis using assms(4) by (simp add: a'_def weighted_val_def)
  qed
  obtain r where r: "for_each (\<lambda>token acc. let balance = get_collateral_balance_for_token b token w in
        if balance \<le> 0 then Inr acc else add_weighted balance (asset_weight_bps token w) acc)
        (get_collateral_token_allowlist w) a' = Inr r"
    using token_loop_mono[OF loop a'_le] assms(2,3) weights_nonneg(1) by (auto simp: balances_typed_def)
  have "r = a' + token_part b w"
    unfolding token_part_def
    by (rule token_loop_value[OF r]) (use assms(2,3) weights_nonneg in \<open>auto simp: balances_typed_def\<close>)
  then have e: "r = weighted_val v ?lw + token_part b w" by (simp add: a'_def)
  have aw: "asset_weight_bps c w' = asset_weight_bps c w" for c
    by (simp add: assms(6) asset_weight_bps_def get_collateral_risk_weight_bps_def)
  have fr: "get_collateral_balance b w' = v" "get_collateral_token_allowlist w' = get_collateral_token_allowlist w"
    "get_collateral_balance_for_token b c w' = get_collateral_balance_for_token b c w" for c
    by (simp_all add: assms(6) store_defs)
  have "get_collateral_token w' = get_collateral_token w" by (simp add: assms(6) store_defs)
  then have lw: "legacy_collateral_weight_bps w' = ?lw"
    by (simp add: legacy_collateral_weight_bps_def aw split: option.split)
  show ?thesis
    using r[unfolded Let_def] unfolding effective_collateral_value_def Let_def fr lw aw first and_then_simps e .
qed

lemma effective_collateral_value_cong:
  assumes "st_collateral_balance w' b = st_collateral_balance w b"
    and "st_collateral_balance_v2 w' = st_collateral_balance_v2 w"
    and "st_collateral_risk_weight_bps w' = st_collateral_risk_weight_bps w"
    and "st_liquidity_token w' = st_liquidity_token w"
    and "st_collateral_token_allowlist w' = st_collateral_token_allowlist w"
  shows "effective_collateral_value b w' = effective_collateral_value b w"
  unfolding effective_collateral_value_def legacy_collateral_weight_bps_def asset_weight_bps_def store_defs
    assms ..

section \<open>What the operations do\<close>

definition collateral_write :: "address \<Rightarrow> i128 \<Rightarrow> 't env \<Rightarrow> 't env \<Rightarrow> bool" where
  "collateral_write b v w w' \<longleftrightarrow>
     (\<exists>t tk evs fa. w' = w\<lparr>st_collateral_balance := (st_collateral_balance w)(b \<mapsto> v),
        st_total_collateral := t, tokens := tk, events := evs, frame_auth := fa\<rparr>)"

lemma require_auth_Inr:
  "require_auth a w = Inr w' \<Longrightarrow> a \<in> set (signers w) \<and> w' = w\<lparr>frame_auth := a # frame_auth w\<rparr>"
  by (auto simp: require_auth_def split: if_splits)

lemma token_transfer_Inr:
  "token_transfer tok t a b x w = Inr w' \<Longrightarrow> \<exists>s. tk_transfer tok (tokens w) t a b x = Some s \<and> w' = w\<lparr>tokens := s\<rparr>"
  by (auto simp: token_transfer_def split: option.splits)

lemma frame_same_books [simp]:
  "same_books w (w\<lparr>frame_auth := fa\<rparr>)" "same_books w (w\<lparr>tokens := tk\<rparr>)" "same_books w (emit e w)"
  by (simp_all add: same_books_def emit_def)

lemma frame_ledger [simp]:
  "ledger_gap s d (w\<lparr>frame_auth := fa\<rparr>) = ledger_gap s d w" "ledger_gap s d (w\<lparr>tokens := tk\<rparr>) = ledger_gap s d w"
  "ledger_gap s d (emit e w) = ledger_gap s d w"
  by (simp_all add: same_books_ledger)

lemma publish_collateral_ledger [simp]:
  "ledger_gap s d (publish_collateral_lifecycle_event b k t a n w) = ledger_gap s d w"
  by (simp add: publish_collateral_lifecycle_event_def)

lemma set_collateral_balance_ledger:
  assumes "set_collateral_balance b v w = Inr w'" and "ledger_gap s d w"
  shows "ledger_gap s d w'"
proof -
  have "st_lines w' = st_lines w" by (subst set_collateral_balance_shape(1)[OF assms(1)]) simp
  then show ?thesis
    using set_collateral_balance_books[OF assms(1)] assms(2) by (simp add: ledger_gap_def lines_ok_def)
qed

lemma pay_out_collateral_ledger:
  assumes "pay_out_collateral tok b amount post w = Inr w'" and "ledger_gap s d w"
  shows "ledger_gap s d w'"
  using assms by (auto simp: pay_out_collateral_def dest!: token_transfer_Inr dest: set_collateral_balance_ledger)

lemma pay_out_collateral_shape:
  assumes "pay_out_collateral tok b amount post w = Inr w'"
  shows "\<exists>tk t token. get_collateral_token w = Some token \<and>
     tk_transfer tok (tokens w) token (self_addr w) b amount = Some tk \<and>
     w' = w\<lparr>st_collateral_balance := (st_collateral_balance w)(b \<mapsto> post), st_total_collateral := t, tokens := tk\<rparr>"
proof -
  from assms obtain token w1 where t: "get_collateral_token w = Some token"
    and x: "token_transfer tok token (self_addr w) b amount w = Inr w1" and c: "set_collateral_balance b post w1 = Inr w'"
    by (auto simp: pay_out_collateral_def collateral_token_or_err_def)
  from token_transfer_Inr[OF x] obtain tk where tk: "tk_transfer tok (tokens w) token (self_addr w) b amount = Some tk"
    "w1 = w\<lparr>tokens := tk\<rparr>" by blast
  obtain u where "w' = w1\<lparr>st_collateral_balance := (st_collateral_balance w1)(b \<mapsto> post), st_total_collateral := u\<rparr>"
    using set_collateral_balance_shape(1)[OF c] by blast
  then have "w' = w\<lparr>st_collateral_balance := (st_collateral_balance w)(b \<mapsto> post), st_total_collateral := u, tokens := tk\<rparr>"
    using tk(2) by simp
  then show ?thesis using t tk(1) by blast
qed

lemma deposit_collateral_ledger:
  "deposit_collateral tok b amount w = Inr w' \<Longrightarrow> ledger_gap s d w \<Longrightarrow> ledger_gap s d w'"
  by (auto simp: deposit_collateral_def Let_def dest!: require_auth_Inr token_transfer_Inr
      dest: set_collateral_balance_ledger)

lemma withdraw_collateral_ledger:
  "withdraw_collateral tok b amount w = Inr w' \<Longrightarrow> ledger_gap s d w \<Longrightarrow> ledger_gap s d w'"
  by (auto simp: withdraw_collateral_def Let_def dest!: require_auth_Inr dest: pay_out_collateral_ledger)

lemma partial_release_collateral_ledger:
  "partial_release_collateral tok b amount w = Inr w' \<Longrightarrow> ledger_gap s d w \<Longrightarrow> ledger_gap s d w'"
  by (auto simp: partial_release_collateral_def Let_def dest!: require_auth_Inr dest: pay_out_collateral_ledger)

lemma release_collateral_ledger:
  "release_collateral tok b amount w = Inr w' \<Longrightarrow> ledger_gap s d w \<Longrightarrow> ledger_gap s d w'"
  by (auto simp: release_collateral_def Let_def split: if_splits dest: pay_out_collateral_ledger)

text \<open>A per-token balance can never change: the conservation check of the global accumulator sums
  the legacy balances only.\<close>

lemma set_collateral_balance_for_token_stuck:
  assumes "set_collateral_balance_for_token b t v w = Inr w'" and "books_gap d w"
  shows "v = get_collateral_balance_for_token b t w"
proof (rule ccontr)
  assume ne: "v \<noteq> get_collateral_balance_for_token b t w"
  let ?w = "w\<lparr>st_collateral_balance_v2 := (st_collateral_balance_v2 w)((b, t) \<mapsto> v)\<rparr>"
  have a: "adjust_total_collateral (get_collateral_balance_for_token b t w) v ?w = Inr w'"
    using assms(1) by (simp add: set_collateral_balance_for_token_def)
  note f = adjust_total_collateral_Inr[OF a]
  have g: "index_ok (st_lines w) (st_credit_line_id w) (st_borrower_by_id w) (get_credit_line_count w)"
    "collateral_ok (st_lines w) (st_collateral_balance w) (get_total_collateral w)"
    using assms(2) by (simp_all add: books_gap_def)
  have fr: "st_credit_line_id w' = st_credit_line_id w" "st_borrower_by_id w' = st_borrower_by_id w"
    "get_credit_line_count w' = get_credit_line_count w" "st_collateral_balance w' = st_collateral_balance w"
    unfolding get_credit_line_count_def by (subst f(1), simp)+
  have "get_total_collateral w' = (\<Sum>c\<in>dom (st_lines w). get_collateral_balance c w')"
    by (rule total_collateral_conserved_sum[OF f(3)[OF ne]]) (use g(1) fr in simp)
  also have "\<dots> = get_total_collateral w"
    using g(2) fr(4) by (simp add: collateral_ok_def get_collateral_balance_def)
  finally show False using f(2) ne by (simp add: get_total_collateral_def)
qed

lemma withdraw_collateral_token_stuck:
  assumes "books_gap d w"
  shows "withdraw_collateral_token tok b t amount w \<noteq> Inr w'"
proof
  assume "withdraw_collateral_token tok b t amount w = Inr w'"
  then obtain w1 w2 w3 where "0 < amount" "require_auth b w = Inr w1"
    and t: "token_transfer tok t (self_addr w1) b amount w1 = Inr w2"
    and s: "set_collateral_balance_for_token b t (get_collateral_balance_for_token b t w1 - amount) w2 = Inr w3"
    by (auto simp: withdraw_collateral_token_def Let_def)
  moreover have "books_gap d w2"
    using \<open>require_auth b w = Inr w1\<close> t assms by (auto dest!: require_auth_Inr token_transfer_Inr simp: books_simps)
  ultimately show False
    using set_collateral_balance_for_token_stuck[OF s] t
    by (auto dest!: token_transfer_Inr simp: get_collateral_balance_for_token_def)
qed

lemma deposit_collateral_token_stuck:
  assumes "books_gap d w"
  shows "deposit_collateral_token tok b t amount w \<noteq> Inr w'"
proof
  assume "deposit_collateral_token tok b t amount w = Inr w'"
  then obtain w1 w2 w3 where a: "0 < amount" "require_auth b w = Inr w1"
    and t: "token_transfer tok t b (self_addr w1) amount w1 = Inr w2"
    and s: "set_collateral_balance_for_token b t (get_collateral_balance_for_token b t w2 + amount) w2 = Inr w3"
    by (auto simp: deposit_collateral_token_def checked_arith)
  have "books_gap d w2" using a t assms by (auto dest!: require_auth_Inr token_transfer_Inr simp: books_simps)
  then show False using set_collateral_balance_for_token_stuck[OF s] a(1) by simp
qed

section \<open>The cool-off of the settings\<close>

interpretation col_cd: cooldown_gate ledger_ts enforce_admin_collateral_cooldown touch_admin_collateral_critical_action_ts
  "\<lambda>w. case st_admin_collateral_cooldown_seconds w of None \<Rightarrow> 0 | Some s \<Rightarrow> s" st_last_col_admin_action_ts
  "Contract AdminCollateralCooldownActive"
  by unfold_locales
    (auto simp: enforce_admin_collateral_cooldown_def touch_admin_collateral_critical_action_ts_def ensure_def
      split: option.splits)

lemma require_admin_auth_Inr:
  "require_admin_auth w = Inr (a, w') \<Longrightarrow>
     st_admin w = Some a \<and> a \<in> set (signers w) \<and> w' = w\<lparr>frame_auth := a # frame_auth w\<rparr>"
  by (auto simp: require_admin_auth_def require_admin_def dest!: require_auth_Inr)

section \<open>Properties\<close>

lemma withdraw_collateral_Inr:
  assumes "withdraw_collateral tok b amount w = Inr w'"
  shows "0 < amount" and "b \<in> set (signers w)" and "amount \<le> get_collateral_balance b w"
    and "assert_floor_after_release b amount (legacy_collateral_weight_bps w) w = Inr ()"
    and "\<exists>tk t token evs. get_collateral_token w = Some token \<and>
       tk_transfer tok (tokens w) token (self_addr w) b amount = Some tk \<and>
       w' = w\<lparr>st_collateral_balance := (st_collateral_balance w)(b \<mapsto> get_collateral_balance b w - amount),
          st_total_collateral := t, tokens := tk, events := evs, frame_auth := b # frame_auth w\<rparr>"
proof -
  let ?w = "w\<lparr>frame_auth := b # frame_auth w\<rparr>" and ?post = "get_collateral_balance b w - amount"
  from assms obtain w2 where a: "0 < amount" "b \<in> set (signers w)" "amount \<le> get_collateral_balance b ?w"
    "assert_floor_after_release b amount (legacy_collateral_weight_bps ?w) ?w = Inr ()"
    and p: "pay_out_collateral tok b amount (get_collateral_balance b ?w - amount) ?w = Inr w2"
    and w': "w' = publish_collateral_lifecycle_event b Withdrawn None amount (get_collateral_balance b ?w - amount)
            (emit ([''credit'', ''col_wit''], CollateralWithdrawnEvent b amount (get_collateral_balance b ?w - amount)) w2)"
    by (auto simp: withdraw_collateral_def Let_def dest!: require_auth_Inr)
  have aw: "asset_weight_bps c ?w = asset_weight_bps c w" for c
    by (simp add: asset_weight_bps_def get_collateral_risk_weight_bps_def)
  have fr: "get_collateral_balance c ?w = get_collateral_balance c w" "get_collateral_token ?w = get_collateral_token w"
    "get_collateral_token_allowlist ?w = get_collateral_token_allowlist w" "get_credit_line c ?w = get_credit_line c w"
    "get_collateral_balance_for_token c x ?w = get_collateral_balance_for_token c x w"
    "get_min_collateral_ratio_bps ?w = get_min_collateral_ratio_bps w" for c x
    by (simp_all add: store_defs)
  have lw: "legacy_collateral_weight_bps ?w = legacy_collateral_weight_bps w"
    unfolding legacy_collateral_weight_bps_def fr aw ..
  show "0 < amount" "b \<in> set (signers w)" "amount \<le> get_collateral_balance b w" using a fr by simp_all
  show "assert_floor_after_release b amount (legacy_collateral_weight_bps w) w = Inr ()"
    using a(4) unfolding assert_floor_after_release_def effective_after_release_def effective_collateral_value_def
      required_collateral_for_def min_ratio_or_default_def fr lw aw .
  from pay_out_collateral_shape[OF p] obtain tk t token where
    x: "get_collateral_token w = Some token" "tk_transfer tok (tokens w) token (self_addr w) b amount = Some tk"
    "w2 = ?w\<lparr>st_collateral_balance := (st_collateral_balance w)(b \<mapsto> ?post), st_total_collateral := t, tokens := tk\<rparr>"
    unfolding fr by auto
  have "w' = w\<lparr>st_collateral_balance := (st_collateral_balance w)(b \<mapsto> ?post), st_total_collateral := t,
      tokens := tk, events := events w', frame_auth := b # frame_auth w\<rparr>"
    unfolding w' publish_collateral_lifecycle_event_def emit_def x(3) by simp
  then show "\<exists>tk t token evs. get_collateral_token w = Some token \<and>
       tk_transfer tok (tokens w) token (self_addr w) b amount = Some tk \<and>
       w' = w\<lparr>st_collateral_balance := (st_collateral_balance w)(b \<mapsto> ?post),
          st_total_collateral := t, tokens := tk, events := evs, frame_auth := b # frame_auth w\<rparr>"
    using x(1,2) by blast
qed

text \<open>C15 (\<open>withdraw_collateral\<close>): a successful withdrawal is signed by the borrower, takes
  exactly the amount out of its balance, and if the line carries debt the risk-weighted value left
  afterwards still covers the required collateral, up to one unit of rounding, and fully when the
  collateral token has no haircut.\<close>

theorem withdraw_collateral_keeps_floor:
  assumes "withdraw_collateral tok b amount w = Inr w'" and "weights_typed w" and "balances_typed b w"
    and "get_credit_line b w = Some line" and "0 < utilized_amount line"
    and "effective_collateral_value b w = Inr e" and "e \<le> i128_max"
    and "required_collateral (utilized_amount line) (min_ratio_or_default w) = Inr q"
  shows "b \<in> set (signers w) \<and> get_collateral_balance b w' = get_collateral_balance b w - amount \<and>
     0 \<le> get_collateral_balance b w' \<and>
     (\<exists>e'. effective_collateral_value b w' = Inr e' \<and>
        q \<le> e' + of_bool (legacy_collateral_weight_bps w < 10000))"
proof -
  let ?x = "get_collateral_balance b w" and ?lw = "legacy_collateral_weight_bps w"
  note f = withdraw_collateral_Inr[OF assms(1)]
  from f(5) obtain tk t evs where w': "w' = w\<lparr>st_collateral_balance := (st_collateral_balance w)(b \<mapsto> ?x - amount),
          st_total_collateral := t, tokens := tk, events := evs, frame_auth := b # frame_auth w\<rparr>" by blast
  let ?v = "w\<lparr>frame_auth := b # frame_auth w\<rparr>"
  have lw: "0 \<le> ?lw" using weights_nonneg(2)[OF assms(2)] .
  have ax: "amount \<le> i128_max" using f(3) assms(3) by (simp add: balances_typed_def)
  have formula: "e = weighted_val ?x ?lw + token_part b w" by (rule effective_value_formula[OF assms(6,2,3)])
  obtain v r where v: "weighted_collateral_value amount ?lw = Inr v"
    and le: "\<not> (case checked_sub_i128 e v of None \<Rightarrow> 0 | Some r \<Rightarrow> r) < q"
    using f(4) assms(4,5,6,8) by (auto simp: assert_floor_after_release_def effective_after_release_def
        required_collateral_for_def)
  have vv: "v = weighted_val amount ?lw" by (rule weighted_collateral_value_Inr[OF v ax lw])
  have tp: "0 \<le> token_part b w"
    unfolding token_part_def
    by (rule sum_list_nonneg) (use weighted_val_bounds weights_nonneg(1)[OF assms(2)] in auto)
  have split: "weighted_val ?x ?lw \<le> weighted_val (?x - amount) ?lw + weighted_val amount ?lw + of_bool (?lw < 10000)"
    "weighted_val (?x - amount) ?lw + weighted_val amount ?lw \<le> weighted_val ?x ?lw"
    using weighted_val_split[of "?x - amount" ?x ?lw] f(1,3) lw by simp_all
  have "0 \<le> e - v" "e - v \<le> i128_max"
    using split(2) weighted_val_bounds[OF lw, of "?x - amount"] weighted_val_bounds[OF lw, of amount]
      tp formula vv assms(7) by linarith+
  then have "q \<le> e - v" using le by (simp add: checked_arith checked_def in_i128_def i128_min_def)
  moreover have "effective_collateral_value b (w\<lparr>st_collateral_balance := (st_collateral_balance w)(b \<mapsto> ?x - amount),
          st_total_collateral := t, tokens := tk, events := evs\<rparr>)
      = Inr (weighted_val (?x - amount) ?lw + token_part b w)"
    by (rule effective_value_smaller[OF assms(6,2,3) _ _ refl]) (use f(1,3) in simp_all)
  then have "effective_collateral_value b w' = Inr (weighted_val (?x - amount) ?lw + token_part b w)"
    by (subst effective_collateral_value_cong) (simp_all add: w')
  ultimately show ?thesis
    using split(1) formula vv f(2,3) w' by (auto simp: get_collateral_balance_def)
qed

definition pledge_env :: "(address \<times> address \<Rightarrow> int) env" where
  "pledge_env = (genesis 100 9 (\<lambda>_. 1000))\<lparr>signers := [5], st_liquidity_token := Some 3,
     st_lines := [5 \<mapsto> \<lparr>borrower = 5, credit_limit = 10, utilized_amount = 1, interest_rate_bps = 0, risk_score = 0,
        status = Active, last_rate_update_ts = 0, accrued_interest = 0, last_accrual_ts = 100, suspension_ts = 0\<rparr>],
     st_credit_line_id := [5 \<mapsto> 0], st_borrower_by_id := [0 \<mapsto> 5], st_credit_line_count := Some 1,
     st_active_line_count := Some 1, st_total_utilized := Some 1, st_collateral_balance := [5 \<mapsto> 2],
     st_total_collateral := Some 2, st_min_collateral_ratio_bps := Some 10000\<rparr>"

definition pledge_weight :: "(address \<times> address \<Rightarrow> int) env" where
  "pledge_weight = pledge_env\<lparr>st_collateral_risk_weight_bps := [3 \<mapsto> 5000]\<rparr>"

lemmas pledge_eval = pledge_env_def pledge_weight_def genesis_def withdraw_collateral_def require_auth_def
  store_defs assert_floor_after_release_def effective_after_release_def effective_collateral_value_def
  add_weighted_def weighted_collateral_value_def legacy_collateral_weight_bps_def asset_weight_bps_def
  required_collateral_for_def required_collateral_def min_ratio_or_default_def pay_out_collateral_def
  collateral_token_or_err_def token_transfer_def book_token_def move_balance_def set_collateral_balance_def
  adjust_total_collateral_def assert_total_collateral_conserved_def recompute_def line_ids_def
  publish_collateral_lifecycle_event_def mul_div_def checked_arith checked_def in_i128_def in_u128_def
  i128_min_def i128_max_def u128_max_def i128_as_u128_def ensure_def signed_divide_int_def
  signed_modulo_int_def Let_def

theorem withdraw_collateral_keeps_floor_witness:
  "\<exists>w'. withdraw_collateral book_token 5 1 pledge_env = Inr w' \<and> 5 \<in> set (signers pledge_env) \<and>
     get_collateral_balance 5 w' = 1 \<and> (\<exists>e'. effective_collateral_value 5 w' = Inr e' \<and> 1 \<le> e')"
proof -
  obtain w' where w': "withdraw_collateral book_token 5 1 pledge_env = Inr w'"
    by (simp add: pledge_eval)
  have e: "effective_collateral_value 5 pledge_env = Inr 2" by (simp add: pledge_eval)
  have r: "required_collateral 1 (min_ratio_or_default pledge_env) = Inr 1" by (simp add: pledge_eval)
  have "weights_typed pledge_env" "balances_typed 5 pledge_env" "legacy_collateral_weight_bps pledge_env = 10000"
    by (simp_all add: weights_typed_def balances_typed_def pledge_eval)
  then show ?thesis
    using withdraw_collateral_keeps_floor[OF w', of "the (st_lines pledge_env 5)" 2 1] e r w'
    by (simp add: pledge_env_def genesis_def get_credit_line_def get_collateral_balance_def i128_max_def)
qed

text \<open>(\<open>withdraw_collateral\<close>, rounding): with a haircut the one unit of slack is real.  A
  balance of 2 at a 50\,\% weight backs a debt of 1 at a 100\,\% ratio; withdrawing 1 passes the
  check because its own weighted value rounds down to 0, and what is left is worth 0.\<close>

theorem withdraw_collateral_rounding_gap:
  "\<exists>w'. books_ok pledge_weight \<and> withdraw_collateral book_token 5 1 pledge_weight = Inr w' \<and>
     effective_collateral_value 5 w' = Inr 0 \<and>
     required_collateral_for (utilized_amount (the (st_lines w' 5))) w' = Inr 1"
  by (simp add: pledge_eval books_simps index_ok_def collateral_ok_def count_status_def map_sum_def has_status_def
      u32_max_def)

text \<open>(\<open>deposit_collateral_token\<close>): while the books are in order no per-token deposit
  succeeds, whatever the token contract does: the deposit raises the global collateral accumulator
  and the conservation check that follows recomputes it from the legacy balances only.\<close>

theorem deposit_collateral_token_never_succeeds:
  assumes "books_ok w"
  shows "deposit_collateral_token tok b t amount w \<noteq> Inr w'"
  by (rule deposit_collateral_token_stuck[OF assms])

definition pledge_fresh :: "(address \<times> address \<Rightarrow> int) env" where
  "pledge_fresh = (genesis 1 9 (\<lambda>_. 1000))\<lparr>signers := [5], st_collateral_token_allowlist := Some [3]\<rparr>"

theorem deposit_collateral_token_never_succeeds_witness:
  "books_ok pledge_fresh \<and> (\<forall>w'. deposit_collateral_token book_token 5 3 10 pledge_fresh \<noteq> Inr w')"
proof -
  have b: "books_ok pledge_fresh"
    using genesis_ledger[of False 1 9 "\<lambda>_ :: address \<times> address. 1000 :: int"]
    by (simp add: pledge_fresh_def ledger_gap_def books_simps)
  show ?thesis using b deposit_collateral_token_never_succeeds[OF b, of book_token 5 3 10] by blast
qed

text \<open>C16 (\<open>get_health_factor\<close>): for a line with debt, a configured ratio and representable
  products, the reported factor is below 10\,000 exactly when the risk-weighted collateral over all tokens is below
  the required collateral that draws and withdrawals enforce.  (The comment on the query says that it ignores risk weights and every token
  but the configured one; the code evaluates \<open>effective_collateral_value\<close>, which has both.)\<close>

theorem health_factor_agrees_with_ratio_check:
  assumes "get_credit_line b w = Some line" and "0 < utilized_amount line" and "0 < min_ratio_or_default w"
    and "effective_collateral_value b w = Inr c" and "0 \<le> c" and "c * 10000 \<le> u128_max"
    and "required_collateral_for (utilized_amount line) w = Inr q"
  shows "\<exists>h. get_health_factor b w = Inr h \<and> (h < 10000 \<longleftrightarrow> c < q)"
proof -
  have r: "required_collateral (utilized_amount line) (min_ratio_or_default w) = Inr q"
    using assms(2,7) by (simp add: required_collateral_for_def)
  have "0 < utilized_amount line * min_ratio_or_default w" using assms(2,3) by simp
  then have q: "0 < q" using required_collateral_ceil[OF r] by linarith
  let ?d = "c * 10000 div q"
  have h: "get_health_factor b w = Inr (u32_try_from_or_max ?d)"
    using assms r q by (simp add: get_health_factor_def checked_mul_u128_def checked_def in_u128_def max_def)
  have "0 \<le> ?d" using assms(5) q by (simp add: pos_imp_zdiv_nonneg_iff)
  then have "u32_try_from_or_max ?d < 10000 \<longleftrightarrow> ?d < 10000"
    by (simp add: u32_try_from_or_max_def in_u32_def u32_max_def)
  also have "\<dots> \<longleftrightarrow> c < q"
  proof
    assume lt: "?d < 10000"
    show "c < q"
    proof (rule ccontr)
      assume "\<not> c < q"
      then have "10000 * q div q \<le> ?d" using q by (intro zdiv_mono1) auto
      then show False using lt q by simp
    qed
  next
    assume "c < q"
    then have "c * 10000 < q * 10000" by simp
    moreover have "?d * q \<le> c * 10000" using q by (simp add: minus_mod_eq_div_mult[symmetric] del: minus_mod_eq_div_mult)
    ultimately have "?d * q < 10000 * q" by (simp add: mult.commute)
    then show "?d < 10000" using q by simp
  qed
  finally show ?thesis using h by blast
qed

theorem health_factor_agrees_with_ratio_check_witness:
  "\<exists>h. get_health_factor 5 pledge_env = Inr h \<and> (h < 10000 \<longleftrightarrow> (2::int) < 1)"
proof (rule health_factor_agrees_with_ratio_check[of 5 pledge_env "the (st_lines pledge_env 5)" 2 1])
  show "effective_collateral_value 5 pledge_env = Inr 2" by (simp add: pledge_eval)
  show "required_collateral_for (utilized_amount (the (st_lines pledge_env 5))) pledge_env = Inr 1"
    by (simp add: pledge_eval)
qed (simp_all add: pledge_env_def genesis_def get_credit_line_def min_ratio_or_default_def store_defs u128_max_def)

end
