(* ===== verification/Oracle.thy ===== *)
theory Oracle
  imports Collateral "HOL-Library.Multiset"
begin

text \<open>
  Price oracles (\<^verbatim>\<open>contracts/credit/src/oracles.rs\<close>, \<^verbatim>\<open>oracle_validation.rs\<close>, and the
  oracle entrypoints of \<^verbatim>\<open>lib.rs\<close>): the registry with its weighted median, the quorum-of-K
  window over submitted prices, the single-oracle circuit breaker, and the precedence between
  them.  Both in-place sorts of the source are interpretations of one locale, in which the result
  is shown to be the sorted permutation of its input.  The properties say that a minority weight
  cannot move the median out of the range of the majority, that an accepted quorum price is backed
  by at least K agreeing feeds whatever the order of submission, and when a settlement price is
  accepted.
\<close>

definition MAX_ORACLE_FEEDS :: u32 where "MAX_ORACLE_FEEDS = 20"

section \<open>In-place sorting\<close>

definition swap_at :: "nat \<Rightarrow> nat \<Rightarrow> 'a list \<Rightarrow> 'a list" where
  "swap_at i j xs = xs[i := xs ! j, j := xs ! i]"

definition exchange_step :: "('a \<Rightarrow> int) \<Rightarrow> nat \<Rightarrow> nat \<Rightarrow> 'a list \<Rightarrow> 'a list" where
  "exchange_step key i j xs = (if key (xs ! j) < key (xs ! i) then swap_at i j xs else xs)"

definition exchange_pass :: "('a \<Rightarrow> int) \<Rightarrow> nat \<Rightarrow> 'a list \<Rightarrow> 'a list" where
  "exchange_pass key i xs = fold (exchange_step key i) [Suc i..<length xs] xs"

definition exchange_sort :: "('a \<Rightarrow> int) \<Rightarrow> 'a list \<Rightarrow> 'a list" where
  "exchange_sort key xs = fold (exchange_pass key) [0..<length xs] xs"

definition min_index :: "('a \<Rightarrow> int) \<Rightarrow> nat \<Rightarrow> 'a list \<Rightarrow> nat" where
  "min_index key i xs = fold (\<lambda>j m. if key (xs ! j) < key (xs ! m) then j else m) [Suc i..<length xs] i"

definition selection_pass :: "('a \<Rightarrow> int) \<Rightarrow> nat \<Rightarrow> 'a list \<Rightarrow> 'a list" where
  "selection_pass key i xs = swap_at i (min_index key i xs) xs"

definition selection_sort :: "('a \<Rightarrow> int) \<Rightarrow> 'a list \<Rightarrow> 'a list" where
  "selection_sort key xs = fold (selection_pass key) [0..<length xs] xs"

section \<open>The oracle registry\<close>

record report_weight =
  rw_value :: u128
  rw_weight :: u32

definition oracle_list :: "'t env \<Rightarrow> address list" where
  "oracle_list w = (case st_oracle_list w of None \<Rightarrow> [] | Some xs \<Rightarrow> xs)"

definition add_oracle :: "address \<Rightarrow> u32 \<Rightarrow> 't env \<Rightarrow> 't env res" where
  "add_oracle oracle weight w =
     and_then (require_admin_auth w) (\<lambda>(_, w).
     and_then (ensure (weight \<noteq> 0) (Contract InvalidAmount)) (\<lambda>_.
     and_then (if oracle \<in> set (oracle_list w) then Inr w
               else and_then (ensure (int (length (oracle_list w)) < MAX_ORACLE_FEEDS) (Contract OverLimit)) (\<lambda>_.
                    Inr (w\<lparr>st_oracle_list := Some (oracle_list w @ [oracle])\<rparr>))) (\<lambda>w.
     Inr (publish_oracle_added_event oracle weight
            (w\<lparr>st_oracle_weight := (st_oracle_weight w)(oracle \<mapsto> weight)\<rparr>)))))"

definition remove_oracle :: "address \<Rightarrow> 't env \<Rightarrow> 't env res" where
  "remove_oracle oracle w =
     and_then (require_admin_auth w) (\<lambda>(_, w).
     and_then (ensure (oracle \<in> set (oracle_list w)) (Contract OracleNotFound)) (\<lambda>_.
     Inr (publish_oracle_removed_event oracle
            (w\<lparr>st_oracle_list := Some (remove1 oracle (oracle_list w)),
               st_oracle_weight := (st_oracle_weight w)(oracle := None),
               st_oracle_report := (st_oracle_report w)(oracle := None)\<rparr>))))"

definition set_quorum_threshold :: "u32 \<Rightarrow> 't env \<Rightarrow> 't env res" where
  "set_quorum_threshold threshold w =
     and_then (require_admin_auth w) (\<lambda>(_, w).
     Inr (publish_oracle_quorum_threshold_set_event threshold (w\<lparr>st_quorum_threshold := Some threshold\<rparr>)))"

definition is_registry_configured :: "'t env \<Rightarrow> bool" where
  "is_registry_configured w = (st_quorum_threshold w \<noteq> None)"

definition set_reporting_window :: "u64 \<Rightarrow> 't env \<Rightarrow> 't env res" where
  "set_reporting_window window_seconds w =
     and_then (require_admin_auth w) (\<lambda>(_, w).
     Inr (publish_oracle_reporting_window_set_event window_seconds (w\<lparr>st_reporting_window := Some window_seconds\<rparr>)))"

definition report_value :: "address \<Rightarrow> u128 \<Rightarrow> 't env \<Rightarrow> 't env res" where
  "report_value oracle v w =
     and_then (require_auth oracle w) (\<lambda>w.
     and_then (ensure (v \<noteq> 0) (Contract OraclePriceInvalid)) (\<lambda>_.
     and_then (ensure (oracle \<in> set (oracle_list w)) (Contract Unauthorized)) (\<lambda>_.
     Inr (publish_oracle_value_reported_event oracle v
            (w\<lparr>st_oracle_report := (st_oracle_report w)(oracle \<mapsto> (v, ledger_ts w))\<rparr>)))))"

definition oracle_weight_of :: "'t env \<Rightarrow> address \<Rightarrow> u32" where
  "oracle_weight_of w oracle = (case st_oracle_weight w oracle of None \<Rightarrow> 0 | Some x \<Rightarrow> x)"

definition reporting_window :: "'t env \<Rightarrow> u64" where
  "reporting_window w = (case st_reporting_window w of None \<Rightarrow> 0 | Some x \<Rightarrow> x)"

definition fresh_report :: "'t env \<Rightarrow> address \<Rightarrow> report_weight option" where
  "fresh_report w oracle =
     (case st_oracle_report w oracle of
        None \<Rightarrow> None
      | Some (v, ts) \<Rightarrow>
          if saturating_sub_u64 (ledger_ts w) ts \<le> reporting_window w \<and> 0 < oracle_weight_of w oracle
          then Some \<lparr>rw_value = v, rw_weight = oracle_weight_of w oracle\<rparr> else None)"

definition collect_reports :: "'t env \<Rightarrow> contract_error + (report_weight list \<times> u32)" where
  "collect_reports w =
     for_each (\<lambda>oracle (reports, total_weight).
         case fresh_report w oracle of
           None \<Rightarrow> Inr (reports, total_weight)
         | Some r \<Rightarrow>
             and_then (ok_or Overflow (checked in_u32 (total_weight + rw_weight r))) (\<lambda>total_weight.
             Inr (reports @ [r], total_weight)))
       (oracle_list w) ([], 0)"

fun find_median :: "u32 \<Rightarrow> u32 \<Rightarrow> report_weight list \<Rightarrow> contract_error + u128" where
  "find_median target cumulative_weight [] = Inr 0"
| "find_median target cumulative_weight (r # rs) =
     and_then (ok_or Overflow (checked in_u32 (cumulative_weight + rw_weight r))) (\<lambda>c.
     if target \<le> c then Inr (rw_value r) else find_median target c rs)"

definition get_median_value :: "'t env \<Rightarrow> contract_error + u128" where
  "get_median_value w =
     and_then (ok_or OracleQuorumNotMet
       (case st_quorum_threshold w of None \<Rightarrow> None | Some q \<Rightarrow> if 0 < q then Some q else None)) (\<lambda>quorum.
     and_then (collect_reports w) (\<lambda>(reports, total_weight).
     and_then (ensure (\<not> total_weight < quorum) OracleQuorumNotMet) (\<lambda>_.
     and_then (ensure (reports \<noteq> []) OracleQuorumNotMet) (\<lambda>_.
     find_median ((total_weight + 1) div 2) 0 (exchange_sort rw_value reports)))))"

section \<open>Quorum of submitted prices\<close>

fun find_window :: "i128 list \<Rightarrow> nat \<Rightarrow> u32 \<Rightarrow> nat list \<Rightarrow> i128 res" where
  "find_window xs k max_dev [] = Inl (Contract OracleQuorumNotMet)"
| "find_window xs k max_dev (i # is) =
     and_then (compute_deviation_bps (xs ! (i + k - 1)) (xs ! i)) (\<lambda>dev.
     if (case dev of None \<Rightarrow> u32_max | Some d \<Rightarrow> d) \<le> max_dev then Inr (xs ! (i + (k - 1) div 2))
     else find_window xs k max_dev is)"

definition resolve_quorum_price :: "i128 list \<Rightarrow> oracle_quorum_config \<Rightarrow> i128 res" where
  "resolve_quorum_price prices cfg =
     (let n = length prices; k = min_quorum_k cfg in
      and_then (ensure (\<not> (n = 0 \<or> MAX_ORACLE_FEEDS < int n)) (Contract OraclePriceInvalid)) (\<lambda>_.
      and_then (ensure (\<not> (k < 2 \<or> int n < k)) (Contract OracleQuorumNotMet)) (\<lambda>_.
      and_then (ensure (\<forall>p\<in>set prices. 0 < p) (Contract OraclePriceInvalid)) (\<lambda>_.
      let kk = nat k in
      find_window (selection_sort (\<lambda>x. x) prices) kk (oq_max_deviation_bps cfg) [0..<Suc (n - kk)]))))"

definition set_oracle_last_price :: "i128 \<Rightarrow> u64 \<Rightarrow> 't env \<Rightarrow> 't env" where
  "set_oracle_last_price price ts w = w\<lparr>st_oracle_last_price := Some price, st_oracle_last_price_ts := Some ts\<rparr>"

definition set_oracle_quorum_price :: "i128 \<Rightarrow> u64 \<Rightarrow> 't env \<Rightarrow> 't env" where
  "set_oracle_quorum_price price ts w =
     w\<lparr>st_oracle_quorum_price := Some price, st_oracle_quorum_price_ts := Some ts\<rparr>"

definition set_oracle_config :: "u32 \<Rightarrow> u64 \<Rightarrow> 't env \<Rightarrow> 't env res" where
  "set_oracle_config max_deviation_bps max_age_seconds w =
     and_then (assert_not_paused w) (\<lambda>_.
     and_then (require_admin_auth w) (\<lambda>(_, w).
     and_then (ensure (\<not> (max_deviation_bps = 0 \<or> 10000 < max_deviation_bps)) (Contract InvalidAmount)) (\<lambda>_.
     and_then (ensure (max_age_seconds \<noteq> 0) (Contract InvalidAmount)) (\<lambda>_.
     Inr (publish_oracle_config_set_event max_deviation_bps max_age_seconds
            (storage_set_oracle_config \<lparr>oc_max_deviation_bps = max_deviation_bps,
                oc_max_age_seconds = max_age_seconds\<rparr> w))))))"

definition set_oracle_quorum_config :: "u32 \<Rightarrow> u32 \<Rightarrow> u64 \<Rightarrow> 't env \<Rightarrow> 't env res" where
  "set_oracle_quorum_config k max_deviation_bps max_age_seconds w =
     and_then (assert_not_paused w) (\<lambda>_.
     and_then (require_admin_auth w) (\<lambda>(_, w).
     and_then (ensure (\<not> k < 2) (Contract InvalidAmount)) (\<lambda>_.
     and_then (ensure (\<not> 10000 < max_deviation_bps) (Contract InvalidAmount)) (\<lambda>_.
     and_then (ensure (max_age_seconds \<noteq> 0) (Contract InvalidAmount)) (\<lambda>_.
     Inr (publish_oracle_quorum_config_set_event k max_deviation_bps max_age_seconds
            (storage_set_oracle_quorum_config \<lparr>min_quorum_k = k, oq_max_deviation_bps = max_deviation_bps,
                oq_max_age_seconds = max_age_seconds\<rparr> w)))))))"

definition submit_oracle_prices :: "i128 list \<Rightarrow> 't env \<Rightarrow> 't env res" where
  "submit_oracle_prices prices w =
     and_then (assert_not_paused w) (\<lambda>_.
     and_then (require_admin_auth w) (\<lambda>(_, w).
     and_then (ok_or (Contract OraclePriceInvalid) (storage_get_oracle_quorum_config w)) (\<lambda>qcfg.
     and_then (ensure (\<not> MAX_ORACLE_FEEDS < int (length prices)) (Contract OraclePriceInvalid)) (\<lambda>_.
     and_then (resolve_quorum_price prices qcfg) (\<lambda>canonical_price.
     let now = ledger_ts w in
     Inr (publish_oracle_quorum_price_set_event canonical_price (min_quorum_k qcfg) now
            (set_oracle_last_price canonical_price now (set_oracle_quorum_price canonical_price now w))))))))"

section \<open>The price a settlement may use\<close>

datatype resolved_oracle_price =
    NotConfigured | RegistryMedianMode i128 | QuorumMode i128 | SingleOracleMode i128

primrec resolved_price :: "resolved_oracle_price \<Rightarrow> i128 option" where
  "resolved_price NotConfigured = None"
| "resolved_price (RegistryMedianMode p) = Some p"
| "resolved_price (QuorumMode p) = Some p"
| "resolved_price (SingleOracleMode p) = Some p"

definition validate_registry_median_mode :: "'t env \<Rightarrow> resolved_oracle_price res" where
  "validate_registry_median_mode w =
     (case get_median_value w of
        Inl _ \<Rightarrow> Inl (Contract OracleQuorumNotMet)
      | Inr median \<Rightarrow>
          and_then (ensure (\<not> (median = 0 \<or> i128_max < median)) (Contract OraclePriceInvalid)) (\<lambda>_.
          Inr (RegistryMedianMode median)))"

definition validate_quorum_mode :: "oracle_quorum_config \<Rightarrow> 't env \<Rightarrow> resolved_oracle_price res" where
  "validate_quorum_mode cfg w =
     and_then (ok_or (Contract OracleQuorumNotMet) (storage_get_oracle_quorum_price w)) (\<lambda>price.
     and_then (ok_or (Contract OracleQuorumNotMet) (storage_get_oracle_quorum_price_ts w)) (\<lambda>ts.
     and_then (ensure (\<not> oq_max_age_seconds cfg < saturating_sub_u64 (ledger_ts w) ts)
                 (Contract OraclePriceStale)) (\<lambda>_.
     Inr (QuorumMode price))))"

definition validate_single_oracle_mode :: "i128 option \<Rightarrow> oracle_config \<Rightarrow> 't env \<Rightarrow> i128 res" where
  "validate_single_oracle_mode oracle_price cfg w =
     and_then (ok_or (Contract OraclePriceInvalid) oracle_price) (\<lambda>price.
     and_then (ensure (0 < price) (Contract OraclePriceInvalid)) (\<lambda>_.
     case (storage_get_oracle_last_price w, storage_get_oracle_last_price_ts w) of
       (Some last_price, Some last_ts) \<Rightarrow>
         and_then (ensure (\<not> oc_max_age_seconds cfg < saturating_sub_u64 (ledger_ts w) last_ts)
                     (Contract OraclePriceStale)) (\<lambda>_.
         and_then (compute_deviation_bps price last_price) (\<lambda>d.
         and_then (ok_or (Contract OraclePriceInvalid) d) (\<lambda>deviation_bps.
         and_then (ensure (\<not> oc_max_deviation_bps cfg < deviation_bps) (Contract OraclePriceDeviation)) (\<lambda>_.
         Inr price))))
     | _ \<Rightarrow> Inr price))"

definition validate_settlement_oracle_price :: "i128 option \<Rightarrow> 't env \<Rightarrow> resolved_oracle_price res" where
  "validate_settlement_oracle_price oracle_price w =
     (if is_registry_configured w then validate_registry_median_mode w
      else case storage_get_oracle_quorum_config w of
        Some qcfg \<Rightarrow> validate_quorum_mode qcfg w
      | None \<Rightarrow> (case storage_get_oracle_config w of
          Some cfg \<Rightarrow> and_then (validate_single_oracle_mode oracle_price cfg w) (\<lambda>p. Inr (SingleOracleMode p))
        | None \<Rightarrow> Inr NotConfigured))"

definition record_accepted_oracle_price :: "i128 \<Rightarrow> 't env \<Rightarrow> 't env" where
  "record_accepted_oracle_price price w =
     publish_oracle_price_accepted_event price (ledger_ts w) (set_oracle_last_price price (ledger_ts w) w)"

section \<open>Both sorts sort\<close>

lemma set_drop_nth: "x \<in> set (drop k ys) \<longleftrightarrow> (\<exists>j\<ge>k. j < length ys \<and> x = ys ! j)"
proof
  assume "x \<in> set (drop k ys)"
  then obtain m where "m < length ys - k" "x = ys ! (k + m)" by (auto simp: in_set_conv_nth)
  then show "\<exists>j\<ge>k. j < length ys \<and> x = ys ! j" by (intro exI[of _ "k + m"]) auto
next
  assume "\<exists>j\<ge>k. j < length ys \<and> x = ys ! j"
  then obtain j where j: "k \<le> j" "j < length ys" "x = ys ! j" by blast
  then have "drop k ys ! (j - k) = x" "j - k < length (drop k ys)" by auto
  then show "x \<in> set (drop k ys)" by (metis nth_mem)
qed

locale min_first_pass =
  fixes key :: "'a \<Rightarrow> int" and pass :: "nat \<Rightarrow> 'a list \<Rightarrow> 'a list"
  assumes pass_mset: "i < length xs \<Longrightarrow> mset (pass i xs) = mset xs"
    and pass_prefix: "i < length xs \<Longrightarrow> take i (pass i xs) = take i xs"
    and pass_min: "i \<le> j \<Longrightarrow> j < length xs \<Longrightarrow> key (pass i xs ! i) \<le> key (pass i xs ! j)"
begin

lemma pass_length: "i < length xs \<Longrightarrow> length (pass i xs) = length xs"
  using pass_mset[of i xs] by (metis size_mset)

lemma pass_suffix:
  assumes "i < length xs"
  shows "set (drop i (pass i xs)) = set (drop i xs)"
proof -
  have "mset (take i (pass i xs)) + mset (drop i (pass i xs)) = mset (take i xs) + mset (drop i xs)"
    using pass_mset[OF assms] by (metis append_take_drop_id mset_append)
  then have "mset (drop i (pass i xs)) = mset (drop i xs)" using pass_prefix[OF assms] by simp
  then show ?thesis by (rule mset_eq_setD)
qed

lemma passes_inv:
  assumes "k \<le> length xs"
  defines "ys \<equiv> fold pass [0..<k] xs"
  shows "mset ys = mset xs \<and> (\<forall>i < k. \<forall>j. i \<le> j \<longrightarrow> j < length xs \<longrightarrow> key (ys ! i) \<le> key (ys ! j))"
  using assms(1) unfolding ys_def
proof (induction k)
  case 0
  then show ?case by simp
next
  case (Suc k)
  let ?ys = "fold pass [0..<k] xs"
  have IH: "mset ?ys = mset xs" "\<And>i j. i < k \<Longrightarrow> i \<le> j \<Longrightarrow> j < length xs \<Longrightarrow> key (?ys ! i) \<le> key (?ys ! j)"
    using Suc by auto
  have len: "length ?ys = length xs" using IH(1) by (metis size_mset)
  have k: "k < length ?ys" using Suc.prems len by simp
  let ?zs = "pass k ?ys"
  have pre: "?zs ! i = ?ys ! i" if "i < k" for i
    using pass_prefix[OF k] that by (metis nth_take)
  have suf: "\<exists>j'\<ge>k. j' < length xs \<and> ?zs ! j = ?ys ! j'" if "k \<le> j" "j < length xs" for j
  proof -
    have "?zs ! j \<in> set (drop k ?zs)"
      using that pass_length[OF k] len by (auto simp: set_drop_nth)
    then have "?zs ! j \<in> set (drop k ?ys)" using pass_suffix[OF k] by simp
    then show ?thesis using len by (auto simp: set_drop_nth)
  qed
  have "key (?zs ! i) \<le> key (?zs ! j)" if ij: "i < Suc k" "i \<le> j" "j < length xs" for i j
  proof (cases "i = k")
    case True
    then show ?thesis using pass_min[of k j ?ys] ij len by simp
  next
    case False
    then have i: "i < k" using ij(1) by simp
    show ?thesis
    proof (cases "j < k")
      case True
      then show ?thesis using pre i IH(2)[OF i ij(2,3)] by simp
    next
      case False
      then obtain j' where "k \<le> j'" "j' < length xs" "?zs ! j = ?ys ! j'" using suf[of j] ij(3) by auto
      then show ?thesis using pre[OF i] IH(2)[OF i, of j'] i by simp
    qed
  qed
  then show ?case using IH(1) pass_mset[OF k] by simp
qed

lemma sorts:
  "mset (fold pass [0..<length xs] xs) = mset xs \<and> sorted (map key (fold pass [0..<length xs] xs))"
proof -
  let ?ys = "fold pass [0..<length xs] xs"
  have inv: "mset ?ys = mset xs" "\<And>i j. i \<le> j \<Longrightarrow> j < length xs \<Longrightarrow> key (?ys ! i) \<le> key (?ys ! j)"
    using passes_inv[of "length xs" xs] by auto
  have "length ?ys = length xs" using inv(1) by (metis size_mset)
  then show ?thesis using inv by (simp add: sorted_iff_nth_mono)
qed

end

lemma swap_at_mset: "i < length xs \<Longrightarrow> j < length xs \<Longrightarrow> mset (swap_at i j xs) = mset xs"
  unfolding swap_at_def by (rule mset_swap)

lemma swap_at_take: "i \<le> j \<Longrightarrow> take i (swap_at i j xs) = take i xs"
  by (simp add: swap_at_def)

lemma exchange_fold:
  fixes key :: "'a \<Rightarrow> int"
  assumes "i < m" and "m \<le> length xs"
  defines "ys \<equiv> fold (exchange_step key i) [Suc i..<m] xs"
  shows "mset ys = mset xs \<and> take i ys = take i xs \<and> (\<forall>j. i \<le> j \<longrightarrow> j < m \<longrightarrow> key (ys ! i) \<le> key (ys ! j))"
  using assms(1,2) unfolding ys_def
proof (induction m)
  case 0
  then show ?case by simp
next
  case (Suc m)
  show ?case
  proof (cases "i = m")
    case True
    then show ?thesis by (auto simp: le_less_Suc_eq)
  next
    case False
    then have im: "i < m" using Suc.prems by simp
    let ?ys = "fold (exchange_step key i) [Suc i..<m] xs"
    have IH: "mset ?ys = mset xs" "take i ?ys = take i xs" "\<And>j. i \<le> j \<Longrightarrow> j < m \<Longrightarrow> key (?ys ! i) \<le> key (?ys ! j)"
      using Suc.IH im Suc.prems by auto
    have len: "length ?ys = length xs" using IH(1) by (metis size_mset)
    have step: "fold (exchange_step key i) [Suc i..<Suc m] xs = exchange_step key i m ?ys" using im by simp
    have b: "i < length ?ys" "m < length ?ys" using im Suc.prems len by simp_all
    have "key (exchange_step key i m ?ys ! i) \<le> key (exchange_step key i m ?ys ! j)" if "i \<le> j" "j < Suc m" for j
      using IH(3)[of j] that b im by (auto simp: exchange_step_def swap_at_def nth_list_update less_Suc_eq)
    then show ?thesis unfolding step using IH(1,2) b im swap_at_mset[of i ?ys m] swap_at_take[of i m ?ys]
      by (auto simp: exchange_step_def)
  qed
qed

interpretation exch: min_first_pass key "exchange_pass key" for key :: "'a \<Rightarrow> int"
proof
  fix i :: nat and xs :: "'a list"
  assume "i < length xs"
  then show "mset (exchange_pass key i xs) = mset xs" "take i (exchange_pass key i xs) = take i xs"
    using exchange_fold[of i "length xs" xs key] by (simp_all add: exchange_pass_def)
next
  fix i j :: nat and xs :: "'a list"
  assume "i \<le> j" "j < length xs"
  then show "key (exchange_pass key i xs ! i) \<le> key (exchange_pass key i xs ! j)"
    using exchange_fold[of i "length xs" xs key] by (simp add: exchange_pass_def)
qed

lemma min_index_fold:
  fixes key :: "'a \<Rightarrow> int" and xs :: "'a list"
  assumes "i < m"
  defines "r \<equiv> fold (\<lambda>j m. if key (xs ! j) < key (xs ! m) then j else m) [Suc i..<m] i"
  shows "i \<le> r \<and> r < m \<and> (\<forall>j. i \<le> j \<longrightarrow> j < m \<longrightarrow> key (xs ! r) \<le> key (xs ! j))"
  using assms(1) unfolding r_def
proof (induction m)
  case 0
  then show ?case by simp
next
  case (Suc m)
  show ?case
  proof (cases "i = m")
    case True
    then show ?thesis by (auto simp: le_less_Suc_eq)
  next
    case False
    then have im: "i < m" using Suc.prems by simp
    then show ?thesis using Suc.IH[OF im] by (auto simp: less_Suc_eq)
  qed
qed

interpretation sel: min_first_pass key "selection_pass key" for key :: "'a \<Rightarrow> int"
proof
  fix i :: nat and xs :: "'a list"
  assume "i < length xs"
  then show "mset (selection_pass key i xs) = mset xs" "take i (selection_pass key i xs) = take i xs"
    using min_index_fold[of i "length xs" key xs] swap_at_mset[of i xs "min_index key i xs"]
      swap_at_take[of i "min_index key i xs" xs]
    by (simp_all add: selection_pass_def min_index_def)
next
  fix i j :: nat and xs :: "'a list"
  assume ij: "i \<le> j" "j < length xs"
  then have r: "i \<le> min_index key i xs" "min_index key i xs < length xs"
    "\<And>j. i \<le> j \<Longrightarrow> j < length xs \<Longrightarrow> key (xs ! min_index key i xs) \<le> key (xs ! j)"
    using min_index_fold[of i "length xs" key xs] by (auto simp: min_index_def)
  then show "key (selection_pass key i xs ! i) \<le> key (selection_pass key i xs ! j)"
    using ij by (auto simp: selection_pass_def swap_at_def nth_list_update)
qed

lemma exchange_sort_sorts: "mset (exchange_sort key xs) = mset xs" "sorted (map key (exchange_sort key xs))"
  unfolding exchange_sort_def using exch.sorts[of key xs] by simp_all

lemma selection_sort_sorts: "mset (selection_sort key xs) = mset xs" "sorted (map key (selection_sort key xs))"
  unfolding selection_sort_def using sel.sorts[of key xs] by simp_all

lemma selection_sort_sort: "selection_sort (\<lambda>x. x) xs = sort xs"
  using selection_sort_sorts[of "\<lambda>x. x" xs] by (intro properties_for_sort[symmetric]) simp_all

section \<open>The weighted median\<close>

definition weight_where :: "(u128 \<Rightarrow> bool) \<Rightarrow> report_weight list \<Rightarrow> int" where
  "weight_where P rs = sum_list (map rw_weight (filter (\<lambda>r. P (rw_value r)) rs))"

definition fresh_reports :: "'t env \<Rightarrow> report_weight list" where
  "fresh_reports w = List.map_filter (fresh_report w) (oracle_list w)"

lemma weight_where_simps [simp]:
  "weight_where P [] = 0"
  "weight_where P (r # rs) = (if P (rw_value r) then rw_weight r else 0) + weight_where P rs"
  by (simp_all add: weight_where_def)

lemma weight_where_nonneg: "\<forall>r\<in>set rs. 0 < rw_weight r \<Longrightarrow> 0 \<le> weight_where P rs"
  by (induction rs) auto

lemma weight_where_mono:
  "\<forall>r\<in>set rs. 0 < rw_weight r \<Longrightarrow> (\<And>r. r \<in> set rs \<Longrightarrow> P (rw_value r) \<Longrightarrow> Q (rw_value r)) \<Longrightarrow>
   weight_where P rs \<le> weight_where Q rs"
  by (induction rs) (auto simp: add_mono)

lemma weight_where_compl: "weight_where P rs + weight_where (\<lambda>v. \<not> P v) rs = weight_where (\<lambda>_. True) rs"
  by (induction rs) auto

lemma weight_where_none: "(\<And>r. r \<in> set rs \<Longrightarrow> \<not> P (rw_value r)) \<Longrightarrow> weight_where P rs = 0"
  by (induction rs) auto

lemma weight_where_perm: "mset xs = mset ys \<Longrightarrow> weight_where P xs = weight_where P ys"
proof -
  have "weight_where P zs = sum_mset (image_mset rw_weight (filter_mset (\<lambda>r. P (rw_value r)) (mset zs)))" for zs
    unfolding weight_where_def by (simp add: sum_mset_sum_list flip: mset_filter mset_map)
  then show "mset xs = mset ys \<Longrightarrow> ?thesis" by simp
qed

lemma fresh_report_weight: "fresh_report w o1 = Some r \<Longrightarrow> 0 < rw_weight r"
  by (auto simp: fresh_report_def split: option.splits if_splits)

lemma map_filter_simps':
  "List.map_filter f [] = []"
  "List.map_filter f (x # xs) = (case f x of None \<Rightarrow> List.map_filter f xs | Some y \<Rightarrow> y # List.map_filter f xs)"
  by (auto simp: List.map_filter_def split: option.split)

lemma fresh_reports_pos: "\<forall>r\<in>set (fresh_reports w). 0 < rw_weight r"
proof -
  have "\<forall>r\<in>set (List.map_filter (fresh_report w) os). 0 < rw_weight r" for os
    by (induction os) (auto simp: map_filter_simps' fresh_report_weight split: option.splits)
  then show ?thesis by (simp add: fresh_reports_def)
qed

lemma collect_reports_Inr:
  assumes "collect_reports w = Inr (rs, t)"
  shows "rs = fresh_reports w \<and> t = weight_where (\<lambda>_. True) rs \<and> t \<le> u32_max"
proof -
  have "rs = acc @ List.map_filter (fresh_report w) os \<and>
        t = a + weight_where (\<lambda>_. True) (List.map_filter (fresh_report w) os) \<and> (a \<le> u32_max \<longrightarrow> t \<le> u32_max)"
    if "for_each (\<lambda>oracle (reports, total_weight).
         case fresh_report w oracle of
           None \<Rightarrow> Inr (reports, total_weight)
         | Some r \<Rightarrow>
             and_then (ok_or Overflow (checked in_u32 (total_weight + rw_weight r))) (\<lambda>total_weight.
             Inr (reports @ [r], total_weight))) os (acc, a) = Inr (rs, t)" for os acc a
    using that
  proof (induction os arbitrary: acc a)
    case Nil
    then show ?case by (simp add: map_filter_simps')
  next
    case (Cons o1 os)
    then show ?case
    proof (cases "fresh_report w o1")
      case None
      then show ?thesis using Cons by (simp add: map_filter_simps')
    next
      case (Some r)
      then show ?thesis using Cons.prems Cons.IH[of "acc @ [r]" "a + rw_weight r"]
        by (auto simp: map_filter_simps' in_u32_def)
    qed
  qed
  from this[OF assms[unfolded collect_reports_def]] show ?thesis
    by (simp add: fresh_reports_def u32_max_def)
qed

lemma find_median_spec:
  assumes "sorted (map rw_value rs)" and "\<forall>r\<in>set rs. 0 < rw_weight r" and "0 \<le> cum" and "cum < target"
    and "target \<le> cum + weight_where (\<lambda>_. True) rs" and "cum + weight_where (\<lambda>_. True) rs \<le> u32_max"
  shows "\<exists>m. find_median target cum rs = Inr m \<and> m \<in> rw_value ` set rs \<and>
     target \<le> cum + weight_where (\<lambda>v. v \<le> m) rs \<and> cum + weight_where (\<lambda>v. v < m) rs < target"
  using assms
proof (induction rs arbitrary: cum)
  case Nil
  then show ?case by simp
next
  case (Cons r rs)
  let ?c = "cum + rw_weight r"
  have nn: "0 \<le> weight_where P rs" for P using Cons.prems(2) by (intro weight_where_nonneg) simp
  have pos: "0 < rw_weight r" using Cons.prems(2) by simp
  have chk: "checked in_u32 ?c = Some ?c"
    using Cons.prems(3,6) nn[of "\<lambda>_. True"] pos by (simp add: in_u32_def)
  show ?case
  proof (cases "target \<le> ?c")
    case True
    have "weight_where (\<lambda>v. v < rw_value r) rs = 0"
      using Cons.prems(1) by (intro weight_where_none) (auto simp: leD)
    then show ?thesis using True chk Cons.prems(4) nn[of "\<lambda>v. v \<le> rw_value r"]
      by (intro exI[of _ "rw_value r"]) simp
  next
    case False
    then obtain m where m: "find_median target ?c rs = Inr m" "m \<in> rw_value ` set rs"
      "target \<le> ?c + weight_where (\<lambda>v. v \<le> m) rs" "?c + weight_where (\<lambda>v. v < m) rs < target"
      using Cons.IH[of ?c] Cons.prems pos by auto
    then have "rw_value r \<le> m" using Cons.prems(1) by auto
    then show ?thesis using m False chk pos by (intro exI[of _ m]) auto
  qed
qed

lemma get_median_value_spec:
  assumes "get_median_value w = Inr m"
  defines "rs \<equiv> fresh_reports w"
  shows "m \<in> rw_value ` set rs \<and>
     (weight_where (\<lambda>_. True) rs + 1) div 2 \<le> weight_where (\<lambda>v. v \<le> m) rs \<and>
     weight_where (\<lambda>v. v < m) rs < (weight_where (\<lambda>_. True) rs + 1) div 2"
proof -
  let ?s = "exchange_sort rw_value rs" and ?t = "weight_where (\<lambda>_. True) rs"
  from assms obtain t where c: "collect_reports w = Inr (rs, t)" and ne: "rs \<noteq> []"
    and f: "find_median ((t + 1) div 2) 0 (exchange_sort rw_value rs) = Inr m"
    using collect_reports_Inr by (fastforce simp: get_median_value_def)
  have t: "t = ?t" "t \<le> u32_max" using collect_reports_Inr[OF c] by auto
  have perm: "mset ?s = mset rs" by (rule exchange_sort_sorts(1))
  note same = weight_where_perm[OF perm]
  have set: "set ?s = set rs" using perm by (rule mset_eq_setD)
  have pos: "\<forall>r\<in>set rs. 0 < rw_weight r" unfolding rs_def by (rule fresh_reports_pos)
  obtain r rest where "rs = r # rest" using ne by (cases rs) auto
  then have tp: "0 < ?t" using pos weight_where_nonneg[of rest "\<lambda>_. True"] by simp
  have "0 < (?t + 1) div 2" "(?t + 1) div 2 \<le> ?t" using tp by linarith+
  then obtain m' where "find_median ((?t + 1) div 2) 0 ?s = Inr m'" "m' \<in> rw_value ` set ?s"
    "(?t + 1) div 2 \<le> weight_where (\<lambda>v. v \<le> m') ?s" "weight_where (\<lambda>v. v < m') ?s < (?t + 1) div 2"
    using find_median_spec[of ?s 0 "(?t + 1) div 2"] exchange_sort_sorts(2) set pos same t by auto
  then show ?thesis using f t(1) same set by simp
qed

text \<open>C17 (\<open>get_median_value\<close>): if the fresh reports that lie in a range carry more than half of
  the fresh weight, the weighted median lies in that range and is one of the reported values, so
  feeds holding a minority of the weight cannot move the price out of the majority's range.\<close>

theorem median_within_majority:
  assumes "get_median_value w = Inr m"
    and "weight_where (\<lambda>_. True) (fresh_reports w) < 2 * weight_where (\<lambda>v. lo \<le> v \<and> v \<le> hi) (fresh_reports w)"
  shows "lo \<le> m \<and> m \<le> hi \<and> m \<in> rw_value ` set (fresh_reports w)"
proof -
  let ?rs = "fresh_reports w" and ?in = "\<lambda>v. lo \<le> v \<and> v \<le> hi"
  note sp = get_median_value_spec[OF assms(1)]
  have "lo \<le> m"
  proof (rule ccontr)
    assume "\<not> lo \<le> m"
    then have "weight_where (\<lambda>v. v \<le> m) ?rs \<le> weight_where (\<lambda>v. \<not> ?in v) ?rs"
      by (intro weight_where_mono fresh_reports_pos) auto
    then show False using sp assms(2) weight_where_compl[of ?in ?rs] by linarith
  qed
  moreover have "m \<le> hi"
  proof (rule ccontr)
    assume "\<not> m \<le> hi"
    then have "weight_where ?in ?rs \<le> weight_where (\<lambda>v. v < m) ?rs"
      by (intro weight_where_mono fresh_reports_pos) auto
    then show False using sp assms(2) by linarith
  qed
  ultimately show ?thesis using sp by simp
qed

definition feeds_env :: "unit env" where
  "feeds_env = (genesis 1000 9 ())\<lparr>st_oracle_list := Some [1, 2, 3], st_oracle_weight := [1 \<mapsto> 2, 2 \<mapsto> 2, 3 \<mapsto> 3],
     st_oracle_report := [1 \<mapsto> (101, 990), 2 \<mapsto> (99, 995), 3 \<mapsto> (5000, 999)], st_quorum_threshold := Some 5,
     st_reporting_window := Some 60\<rparr>"

lemmas feeds_eval = feeds_env_def genesis_def fresh_reports_def oracle_list_def fresh_report_def oracle_weight_of_def
  reporting_window_def saturating_sub_u64_def map_filter_simps'

theorem median_within_majority_witness:
  "get_median_value feeds_env = Inr 101 \<and> (99::int) \<le> 101 \<and> (101::int) \<in> rw_value ` set (fresh_reports feeds_env)"
proof -
  have "get_median_value feeds_env = Inr 101"
    by (simp add: get_median_value_def collect_reports_def feeds_eval checked_def in_u32_def u32_max_def
        exchange_sort_def exchange_pass_def exchange_step_def swap_at_def upt_rec)
  moreover have "weight_where (\<lambda>_. True) (fresh_reports feeds_env)
      < 2 * weight_where (\<lambda>v. 99 \<le> v \<and> v \<le> 101) (fresh_reports feeds_env)"
    by (simp add: feeds_eval)
  ultimately show ?thesis using median_within_majority[of feeds_env 101 99 101] by blast
qed

section \<open>The quorum window\<close>

lemma deviation_Some:
  assumes "compute_deviation_bps hi lo = Inr (Some d)" and "d < u32_max"
  shows "0 < lo" and "d = \<bar>hi - lo\<bar> * 10000 div lo"
  using assms by (auto simp: compute_deviation_bps_def checked_arith BPS_DENOMINATOR_def split: if_splits option.splits)

lemma find_window_Inr:
  assumes "find_window xs k md is = Inr p"
  shows "\<exists>i\<in>set is. p = xs ! (i + (k - 1) div 2) \<and>
     (\<exists>d. compute_deviation_bps (xs ! (i + k - 1)) (xs ! i) = Inr d \<and> (case d of None \<Rightarrow> u32_max | Some x \<Rightarrow> x) \<le> md)"
  using assms by (induction xs k md "is" rule: find_window.induct) (auto split: if_splits)

lemma filter_interval_length:
  fixes xs :: "int list"
  assumes "sorted xs" and "i + k \<le> length xs" and "0 < k"
  shows "k \<le> length (filter (\<lambda>q. xs ! i \<le> q \<and> q \<le> xs ! (i + k - 1)) xs)"
proof -
  let ?P = "\<lambda>q. xs ! i \<le> q \<and> q \<le> xs ! (i + k - 1)"
  have sub: "{i..<i + k} \<subseteq> {j. j < length xs \<and> ?P (xs ! j)}"
    using assms by (auto intro!: sorted_nth_mono)
  have "card {i..<i + k} \<le> card {j. j < length xs \<and> ?P (xs ! j)}"
    by (rule card_mono[OF _ sub]) simp
  then show ?thesis by (simp add: length_filter_conv_card)
qed

lemma filter_length_perm: "mset xs = mset ys \<Longrightarrow> length (filter P xs) = length (filter P ys)"
  by (metis mset_filter size_mset)

text \<open>C18 (\<open>resolve_quorum_price\<close>): an accepted price is one of the submitted prices and lies in an
  interval, spanned by two submitted prices, that holds at least K submissions and whose width is
  within the configured deviation of its lower end; and the outcome does not depend on the order in
  which the prices were submitted.\<close>

theorem quorum_price_backed:
  assumes "resolve_quorum_price prices cfg = Inr p" and "oq_max_deviation_bps cfg \<le> 10000"
  shows "(\<exists>lo hi. lo \<in> set prices \<and> hi \<in> set prices \<and> 0 < lo \<and> lo \<le> p \<and> p \<le> hi \<and> p \<in> set prices \<and>
            (hi - lo) * 10000 div lo \<le> oq_max_deviation_bps cfg \<and>
            min_quorum_k cfg \<le> int (length (filter (\<lambda>q. lo \<le> q \<and> q \<le> hi) prices))) \<and>
         (\<forall>others. mset others = mset prices \<longrightarrow> resolve_quorum_price others cfg = Inr p)"
proof -
  let ?k = "nat (min_quorum_k cfg)" and ?s = "sort prices" and ?n = "length prices"
  have g: "2 \<le> min_quorum_k cfg" "min_quorum_k cfg \<le> int ?n" "\<forall>q\<in>set prices. 0 < q"
    "find_window ?s ?k (oq_max_deviation_bps cfg) [0..<Suc (?n - ?k)] = Inr p"
    using assms(1) by (auto simp: resolve_quorum_price_def Let_def selection_sort_sort)
  have k: "0 < ?k" "?k \<le> ?n" using g(1,2) by linarith+
  from find_window_Inr[OF g(4)] obtain i d where i0: "i \<in> set [0..<Suc (?n - ?k)]" and pi: "p = ?s ! (i + (?k - 1) div 2)"
    and d: "compute_deviation_bps (?s ! (i + ?k - 1)) (?s ! i) = Inr d"
      "(case d of None \<Rightarrow> u32_max | Some x \<Rightarrow> x) \<le> oq_max_deviation_bps cfg" by blast
  have i: "i \<le> ?n - ?k" "p = ?s ! (i + (?k - 1) div 2)" using i0 pi by auto
  obtain x where x: "d = Some x" "x \<le> oq_max_deviation_bps cfg" "x < u32_max"
    using d(2) assms(2) by (cases d) (auto simp: u32_max_def)
  define lo where "lo = ?s ! i"
  define hi where "hi = ?s ! (i + ?k - 1)"
  have b: "i + ?k \<le> ?n" using i(1) k by simp
  have mid: "(?k - 1) div 2 \<le> ?k - 1" by simp
  have mem: "lo \<in> set prices" "hi \<in> set prices" "p \<in> set prices"
  proof -
    have at: "?s ! j \<in> set prices" if "j < ?n" for j using that by (metis length_sort nth_mem set_sort)
    show "lo \<in> set prices" "hi \<in> set prices" "p \<in> set prices"
      unfolding lo_def hi_def i(2) using b k mid by (auto intro!: at)
  qed
  have ord: "lo \<le> p" "p \<le> hi"
    unfolding lo_def hi_def i(2) using b k mid by (auto intro!: sorted_nth_mono)
  have dev: "0 < lo" "x = \<bar>hi - lo\<bar> * 10000 div lo"
    using deviation_Some[OF d(1)[unfolded x(1)] x(3)] by (simp_all add: lo_def hi_def)
  have "?k \<le> length (filter (\<lambda>q. lo \<le> q \<and> q \<le> hi) ?s)"
    unfolding lo_def hi_def by (rule filter_interval_length) (use b k in simp_all)
  then have cnt: "min_quorum_k cfg \<le> int (length (filter (\<lambda>q. lo \<le> q \<and> q \<le> hi) prices))"
    using filter_length_perm[of ?s prices "\<lambda>q. lo \<le> q \<and> q \<le> hi"] by simp
  have perm: "resolve_quorum_price others cfg = Inr p" if "mset others = mset prices" for others
  proof -
    have "length others = ?n" "set others = set prices" "sort others = ?s"
      using that by (metis size_mset, metis mset_eq_setD, metis properties_for_sort sorted_sort mset_sort)
    then show ?thesis using assms(1) by (simp add: resolve_quorum_price_def selection_sort_sort)
  qed
  have "(hi - lo) * 10000 div lo \<le> oq_max_deviation_bps cfg" using dev(2) x(2) ord by simp
  then show ?thesis using mem ord dev(1) cnt perm by blast
qed

definition three_feeds :: oracle_quorum_config where
  "three_feeds = \<lparr>min_quorum_k = 2, oq_max_deviation_bps = 500, oq_max_age_seconds = 60\<rparr>"

theorem quorum_price_backed_witness:
  "resolve_quorum_price [9000, 103, 100] three_feeds = Inr 100 \<and>
   resolve_quorum_price [100, 9000, 103] three_feeds = Inr 100"
proof -
  have a: "resolve_quorum_price [9000, 103, 100] three_feeds = Inr 100"
    by (simp add: resolve_quorum_price_def three_feeds_def MAX_ORACLE_FEEDS_def selection_sort_sort
        compute_deviation_bps_def checked_arith checked_def in_i128_def in_u128_def int_defs BPS_DENOMINATOR_def upt_rec)
  have "mset [100, 9000, 103 :: int] = mset [9000, 103, 100]" by simp
  then show ?thesis using quorum_price_backed[OF a] a by (auto simp: three_feeds_def)
qed

section \<open>Settlement prices\<close>

text \<open>(\<open>validate_single_oracle_mode\<close>, liveness): once the last accepted price is older than the
  configured age, every price is refused as stale, the current one included, because the age that
  is checked is the age of the previous acceptance and only an acceptance renews it.\<close>

theorem single_oracle_deadlock:
  assumes "st_quorum_threshold w = None" and "st_oracle_quorum_config w = None"
    and "st_oracle_config w = Some cfg" and "st_oracle_last_price w = Some prev" and "st_oracle_last_price_ts w = Some ts"
    and "ts + oc_max_age_seconds cfg < ledger_ts w"
  shows "\<forall>price > 0. validate_settlement_oracle_price (Some price) w = Inl (Contract OraclePriceStale)"
proof -
  have "oc_max_age_seconds cfg < saturating_sub_u64 (ledger_ts w) ts"
    using assms(6) by (simp add: saturating_sub_u64_def)
  then show ?thesis using assms(1-5)
    by (simp add: validate_settlement_oracle_price_def is_registry_configured_def validate_single_oracle_mode_def)
qed

definition stale_env :: "unit env" where
  "stale_env = (genesis 5000 9 ())\<lparr>st_oracle_config := Some \<lparr>oc_max_deviation_bps = 500, oc_max_age_seconds = 3600\<rparr>,
     st_oracle_last_price := Some 1000, st_oracle_last_price_ts := Some 1000\<rparr>"

theorem single_oracle_deadlock_witness:
  "validate_settlement_oracle_price (Some 1000) stale_env = Inl (Contract OraclePriceStale)"
  using single_oracle_deadlock[of stale_env "\<lparr>oc_max_deviation_bps = 500, oc_max_age_seconds = 3600\<rparr>" 1000 1000]
  by (simp add: stale_env_def genesis_def)

end
