(* ===== verification/Lifecycle.thy ===== *)
theory Lifecycle
  imports Accrual Fees Oracle Cooldown
begin

text \<open>
  The credit-line state machine (\<^verbatim>\<open>contracts/credit/src/lifecycle.rs\<close> with the entrypoint
  wrappers of \<^verbatim>\<open>lib.rs\<close>): opening, suspension by the admin or the borrower, closing,
  defaulting, debt forgiveness, settlement of a default liquidation (with the hook into the auction
  contract), reinstatement, and the repayment schedule.  An internal function keeps the source's
  name with the prefix \<open>lifecycle_\<close>; the entrypoint of \<^verbatim>\<open>lib.rs\<close> has the bare name.

  The auction contract is called through a client whose two calls are parameters
  (\<open>auction_client\<close>) acting on the opaque state of the other contracts.
\<close>

definition MAX_RISK_SCORE :: u32 where "MAX_RISK_SCORE = 100"
definition BATCH_CLOSE_MAX :: nat where "BATCH_CLOSE_MAX = 50"

section \<open>Guards\<close>

definition require_valid_transition ::
  "credit_status \<Rightarrow> credit_status \<Rightarrow> credit_status list \<Rightarrow> contract_error \<Rightarrow> unit res" where
  "require_valid_transition current_status target_status allowed_sources wrong_state_error =
     (if current_status \<in> set allowed_sources then Inr ()
      else if current_status = target_status then Inl (Contract StaleStateTransition)
      else Inl (Contract wrong_state_error))"

definition set_credit_limit_bounds :: "i128 \<Rightarrow> i128 \<Rightarrow> 't env \<Rightarrow> 't env res" where
  "set_credit_limit_bounds lo hi w =
     and_then (assert_not_paused w) (\<lambda>_.
     and_then (require_admin_auth w) (\<lambda>(_, w).
     and_then (ensure (\<not> lo < 0) (Contract InvalidAmount)) (\<lambda>_.
     and_then (ensure (\<not> hi < lo) (Contract LimitOutOfBounds)) (\<lambda>_.
     Inr (storage_set_max_credit_limit hi (storage_set_min_credit_limit lo w))))))"

definition validate_credit_limit_bounds :: "i128 \<Rightarrow> 't env \<Rightarrow> unit res" where
  "validate_credit_limit_bounds limit w =
     and_then (case storage_get_min_credit_limit w of None \<Rightarrow> Inr ()
               | Some min_limit \<Rightarrow> ensure (\<not> limit < min_limit) (Contract LimitOutOfBounds)) (\<lambda>_.
     case storage_get_max_credit_limit w of None \<Rightarrow> Inr ()
     | Some max_limit \<Rightarrow> ensure (\<not> max_limit < limit) (Contract LimitOutOfBounds))"

definition load_line :: "address \<Rightarrow> 't env \<Rightarrow> credit_line_data res" where
  "load_line b w = ok_or (Contract CreditLineNotFound) (get_credit_line b w)"

definition publish_line :: "symbol \<Rightarrow> address \<Rightarrow> credit_line_data \<Rightarrow> 't env \<Rightarrow> 't env" where
  "publish_line topic b l w =
     emit ([''credit'', topic], CreditLineEvent b (status l) (credit_limit l) (interest_rate_bps l) (risk_score l)) w"

text \<open>The two per-borrower cool-offs of the admin mutations; both record the action when they pass.\<close>

definition enforce_borrow_admin_cooldown :: "address \<Rightarrow> 't env \<Rightarrow> 't env res" where
  "enforce_borrow_admin_cooldown b w =
     (case storage_get_borrow_admin_cooldown w of
        None \<Rightarrow> Inr w
      | Some cooldown \<Rightarrow>
          if cooldown = 0 then Inr w
          else
            and_then (case storage_get_last_borrow_admin_action_ts b w of
                None \<Rightarrow> Inr ()
              | Some last_ts \<Rightarrow> ensure (\<not> ledger_ts w < saturating_add_u64 last_ts cooldown)
                                 (Contract RiskAdminCooldownActive)) (\<lambda>_.
            Inr (storage_set_last_borrow_admin_action_ts b (ledger_ts w) w)))"

definition enforce_accrual_admin_cooldown :: "address \<Rightarrow> 't env \<Rightarrow> 't env res" where
  "enforce_accrual_admin_cooldown b w =
     (case storage_get_accrual_admin_cooldown w of
        None \<Rightarrow> Inr w
      | Some cooldown \<Rightarrow>
          if cooldown = 0 then Inr w
          else
            and_then (case storage_get_last_accrual_admin_action_ts b w of
                None \<Rightarrow> Inr ()
              | Some last_ts \<Rightarrow> ensure (\<not> ledger_ts w < saturating_add_u64 last_ts cooldown)
                                 (Contract RiskAdminCooldownActive)) (\<lambda>_.
            Inr (storage_set_last_accrual_admin_action_ts b (ledger_ts w) w)))"

section \<open>Opening\<close>

definition lifecycle_open_credit_line :: "address \<Rightarrow> i128 \<Rightarrow> u32 \<Rightarrow> u32 \<Rightarrow> 't env \<Rightarrow> 't env res" where
  "lifecycle_open_credit_line b limit rate score w =
     and_then (assert_not_paused w) (\<lambda>_.
     and_then (ensure (0 < limit) (Contract InvalidAmount)) (\<lambda>_.
     and_then (ensure (rate \<le> MAX_INTEREST_RATE_BPS) (Contract RateTooHigh)) (\<lambda>_.
     and_then (ensure (score \<le> MAX_RISK_SCORE) (Contract ScoreTooHigh)) (\<lambda>_.
     and_then (validate_credit_limit_bounds limit w) (\<lambda>_.
     let existing_line = get_credit_line b w in
     and_then (case existing_line of None \<Rightarrow> Inr w
               | Some existing \<Rightarrow>
                   and_then (ensure (status existing \<noteq> Active) (Contract AlreadyInitialized)) (\<lambda>_.
                   Inr (if status existing = Defaulted then decrement_pending_auction_count w else w))) (\<lambda>w.
     let previous_status = map_option status existing_line;
         previous_utilized = (case existing_line of None \<Rightarrow> 0 | Some e \<Rightarrow> utilized_amount e);
         kept = (case existing_line of None \<Rightarrow> None | Some e \<Rightarrow> if status e \<noteq> Closed then Some e else None);
         line = \<lparr>borrower = b, credit_limit = limit,
                 utilized_amount = (case kept of None \<Rightarrow> 0 | Some e \<Rightarrow> utilized_amount e),
                 interest_rate_bps = rate, risk_score = score, status = Active, last_rate_update_ts = 0,
                 accrued_interest = (case kept of None \<Rightarrow> 0 | Some e \<Rightarrow> accrued_interest e),
                 last_accrual_ts = (case kept of None \<Rightarrow> ledger_ts w | Some e \<Rightarrow> last_accrual_ts e),
                 suspension_ts = 0\<rparr> in
     and_then (persist_credit_line b line previous_utilized previous_status w) (\<lambda>w.
     Inr (publish_line ''opened'' b line (clear_repayment_schedule b w)))))))))"

definition open_credit_line :: "address \<Rightarrow> i128 \<Rightarrow> u32 \<Rightarrow> u32 \<Rightarrow> 't env \<Rightarrow> 't env res" where
  "open_credit_line b limit rate score w =
     and_then (require_admin_auth w) (\<lambda>(_, w).
     and_then (enforce_borrow_admin_cooldown b w) (\<lambda>w.
     lifecycle_open_credit_line b limit rate score w))"

section \<open>Suspension\<close>

definition suspend_wrong_state :: "credit_status \<Rightarrow> contract_error" where
  "suspend_wrong_state s =
     (if s = Closed then CreditLineClosed else if s = Defaulted then CreditLineDefaulted
      else CreditLineSuspended)"

definition suspend_credit_line_internal :: "address \<Rightarrow> credit_status \<Rightarrow> 't env \<Rightarrow> 't env res" where
  "suspend_credit_line_internal b target w =
     and_then (load_line b w) (\<lambda>stored_line.
     and_then (apply_accrual stored_line w) (\<lambda>(line, w).
     and_then (require_valid_transition (status line) target [Active] (suspend_wrong_state (status line))) (\<lambda>_.
     let new_ts = ledger_ts w in
     and_then (assert_ts_monotonic (suspension_ts line) new_ts) (\<lambda>_.
     let line = line\<lparr>status := target, suspension_ts := new_ts\<rparr> in
     and_then (persist_credit_line b line (utilized_amount stored_line) (Some (status stored_line)) w) (\<lambda>w.
     Inr (publish_line (if target = Suspended then ''suspend'' else ''self_sus'') b line w))))))"

definition lifecycle_suspend_credit_line :: "address \<Rightarrow> 't env \<Rightarrow> 't env res" where
  [simp]: "lifecycle_suspend_credit_line b w =
     and_then (assert_not_paused w) (\<lambda>_. suspend_credit_line_internal b Suspended w)"

definition suspend_credit_line :: "address \<Rightarrow> 't env \<Rightarrow> 't env res" where
  "suspend_credit_line b w =
     and_then (require_admin_auth w) (\<lambda>(_, w).
     and_then (enforce_accrual_admin_cooldown b w) (\<lambda>w.
     lifecycle_suspend_credit_line b w))"

definition self_suspend_credit_line :: "address \<Rightarrow> 't env \<Rightarrow> 't env res" where
  "self_suspend_credit_line b w =
     and_then (assert_not_paused w) (\<lambda>_.
     and_then (require_auth b w) (\<lambda>w.
     suspend_credit_line_internal b SelfSuspended w))"

definition lifecycle_unsuspend_credit_line :: "address \<Rightarrow> 't env \<Rightarrow> 't env res" where
  "lifecycle_unsuspend_credit_line b w =
     and_then (assert_not_paused w) (\<lambda>_.
     and_then (load_line b w) (\<lambda>stored_line.
     and_then (apply_accrual stored_line w) (\<lambda>(line, w).
     and_then (if status line = Suspended \<or> status line = SelfSuspended then Inr ()
               else require_valid_transition (status line) Active [Suspended, SelfSuspended]
                      (suspend_wrong_state (status line))) (\<lambda>_.
     let line = line\<lparr>status := Active, suspension_ts := 0\<rparr> in
     and_then (persist_credit_line b line (utilized_amount stored_line) (Some (status stored_line)) w) (\<lambda>w.
     Inr (publish_line ''unsuspend'' b line w))))))"

definition unsuspend_credit_line :: "address \<Rightarrow> 't env \<Rightarrow> 't env res" where
  "unsuspend_credit_line b w =
     and_then (require_admin_auth w) (\<lambda>(_, w).
     and_then (enforce_accrual_admin_cooldown b w) (\<lambda>w.
     lifecycle_unsuspend_credit_line b w))"

definition self_unsuspend_credit_line :: "address \<Rightarrow> 't env \<Rightarrow> 't env res" where
  "self_unsuspend_credit_line b w =
     and_then (assert_not_paused w) (\<lambda>_.
     and_then (require_auth b w) (\<lambda>w.
     and_then (load_line b w) (\<lambda>stored_line.
     and_then (apply_accrual stored_line w) (\<lambda>(line, w).
     and_then (require_valid_transition (status line) Active [SelfSuspended]
                 (suspend_wrong_state (status line))) (\<lambda>_.
     let line = line\<lparr>status := Active, suspension_ts := 0\<rparr> in
     and_then (persist_credit_line b line (utilized_amount stored_line) (Some (status stored_line)) w) (\<lambda>w.
     Inr (publish_line ''self_uns'' b line w)))))))"

section \<open>Closing\<close>

definition lifecycle_close_credit_line :: "address \<Rightarrow> address \<Rightarrow> 't env \<Rightarrow> 't env res" where
  "lifecycle_close_credit_line b closer w =
     and_then (assert_not_paused w) (\<lambda>_.
     and_then (require_admin w) (\<lambda>admin.
     and_then (load_line b w) (\<lambda>line.
     and_then (ensure (status line \<noteq> Closed) (Contract StaleStateTransition)) (\<lambda>_.
     and_then (if closer = admin then Inr ()
               else if closer = b then ensure (utilized_amount line = 0) (Contract UtilizationNotZero)
               else Inl (Contract Unauthorized)) (\<lambda>_.
     let closed = line\<lparr>status := Closed\<rparr>;
         w = (if status line = Defaulted then decrement_pending_auction_count w else w) in
     and_then (persist_credit_line b closed (utilized_amount line) (Some (status line)) w) (\<lambda>w.
     Inr (publish_line ''closed'' b closed (clear_repayment_schedule b w))))))))"

definition close_credit_line :: "address \<Rightarrow> address \<Rightarrow> 't env \<Rightarrow> 't env res" where
  "close_credit_line b closer w =
     and_then (require_auth closer w) (\<lambda>w.
     and_then (require_admin w) (\<lambda>admin.
     and_then (if closer = admin then enforce_accrual_admin_cooldown b w else Inr w) (\<lambda>w.
     lifecycle_close_credit_line b closer w)))"

definition lifecycle_close_credit_lines_batch :: "address list \<Rightarrow> 't env \<Rightarrow> 't env res" where
  "lifecycle_close_credit_lines_batch bs w =
     and_then (assert_not_paused w) (\<lambda>_.
     and_then (require_admin_auth w) (\<lambda>(admin, w).
     for_each (\<lambda>b w. lifecycle_close_credit_line b admin w) bs w))"

definition close_credit_lines_batch :: "address list \<Rightarrow> 't env \<Rightarrow> 't env res" where
  "close_credit_lines_batch bs w =
     and_then (ensure (length bs \<le> BATCH_CLOSE_MAX) (Contract InvalidAmount)) (\<lambda>_.
     and_then (require_admin_auth w) (\<lambda>(_, w).
     and_then (for_each enforce_accrual_admin_cooldown bs w) (\<lambda>w.
     lifecycle_close_credit_lines_batch bs w)))"

section \<open>Default and recovery\<close>

definition liquidation_base_ts :: "address \<Rightarrow> credit_line_data \<Rightarrow> 't env \<Rightarrow> u64" where
  "liquidation_base_ts b line w =
     (if 0 < suspension_ts line then suspension_ts line
      else case get_repayment_schedule b w of
        Some schedule \<Rightarrow> next_due_ts schedule
      | None \<Rightarrow> if 0 < last_rate_update_ts line then last_rate_update_ts line else last_accrual_ts line)"

definition lifecycle_default_credit_line :: "address \<Rightarrow> 't env \<Rightarrow> 't env res" where
  "lifecycle_default_credit_line b w =
     and_then (assert_not_paused w) (\<lambda>_.
     and_then (load_line b w) (\<lambda>stored_line.
     and_then (ensure (status stored_line \<noteq> Closed) (Contract CreditLineClosed)) (\<lambda>_.
     and_then (apply_accrual stored_line w) (\<lambda>(line, w).
     and_then (ensure (status line \<noteq> Closed) (Contract CreditLineClosed)) (\<lambda>_.
     and_then (require_valid_transition (status line) Defaulted [Active, Suspended, SelfSuspended, Restricted]
                 CreditLineClosed) (\<lambda>_.
     let grace_seconds = get_per_borrower_liquidation_grace b w in
     and_then (ensure (\<not> (0 < grace_seconds \<and>
                   ledger_ts w < saturating_add_u64 (liquidation_base_ts b line w) grace_seconds))
                 (Contract LiquidationGraceActive)) (\<lambda>_.
     let defaulted = line\<lparr>status := Defaulted\<rparr>;
         w = increment_pending_auction_count w in
     and_then (persist_credit_line b defaulted (utilized_amount stored_line) (Some (status line)) w) (\<lambda>w.
     Inr (publish_default_liquidation_requested_event b (utilized_amount defaulted)
            (publish_line ''defaulted'' b defaulted w))))))))))"

definition default_credit_line :: "address \<Rightarrow> 't env \<Rightarrow> 't env res" where
  "default_credit_line b w =
     and_then (require_admin_auth w) (\<lambda>(_, w).
     and_then (enforce_accrual_admin_cooldown b w) (\<lambda>w.
     lifecycle_default_credit_line b w))"

text \<open>\<open>allocate_recovery\<close> returns the interest and principal parts and the updated line; its
  subtractions are bare operators, which cannot leave \<^verbatim>\<open>i128\<close> for amounts of that type that
  are at most the debt.\<close>

definition allocate_recovery :: "credit_line_data \<Rightarrow> i128 \<Rightarrow> (i128 \<times> i128) \<times> credit_line_data" where
  "allocate_recovery line amount =
     (let effective_repay = (if utilized_amount line < amount then utilized_amount line else amount);
          interest_repaid = min effective_repay (accrued_interest line);
          principal_repaid = effective_repay - interest_repaid in
      ((interest_repaid, principal_repaid),
       line\<lparr>accrued_interest := accrued_interest line - interest_repaid,
            utilized_amount := utilized_amount line - effective_repay\<rparr>))"

definition publish_borrow_lifecycle_event ::
  "borrow_lifecycle_phase \<Rightarrow> address \<Rightarrow> credit_line_data \<Rightarrow> 't env \<Rightarrow> 't env" where
  "publish_borrow_lifecycle_event phase b line w =
     emit ([''credit'', ''borrow_lc''], BorrowLifecycleEvent b phase (status line) (utilized_amount line) (credit_limit line)
             (interest_rate_bps line) (ledger_ts w)) w"

definition lifecycle_forgive_debt :: "address \<Rightarrow> i128 \<Rightarrow> 't env \<Rightarrow> 't env res" where
  "lifecycle_forgive_debt b amount w =
     and_then (assert_not_paused w) (\<lambda>_.
     and_then (ensure (0 < amount) (Contract InvalidAmount)) (\<lambda>_.
     and_then (load_line b w) (\<lambda>stored_line.
     and_then (apply_accrual stored_line w) (\<lambda>(line, w).
     and_then (ensure (status line \<noteq> Closed) (Contract CreditLineClosed)) (\<lambda>_.
     and_then (ensure (utilized_amount line \<noteq> 0) (Contract InvalidAmount)) (\<lambda>_.
     let forgive_amount = min amount (utilized_amount line);
         interest_forgiven = min forgive_amount (accrued_interest line) in
     and_then (ok_or (Contract Overflow) (checked_sub_i128 (accrued_interest line) interest_forgiven)) (\<lambda>a.
     and_then (ok_or (Contract Overflow) (checked_sub_i128 (utilized_amount line) forgive_amount)) (\<lambda>u.
     let line = line\<lparr>accrued_interest := a, utilized_amount := u\<rparr> in
     and_then (persist_credit_line b line (utilized_amount stored_line) (Some (status stored_line)) w) (\<lambda>w.
     Inr (publish_borrow_lifecycle_event DebtForgiven b line
            (publish_debt_forgiven_event b forgive_amount (accrued_interest line) (utilized_amount line) w)))))))))))"

definition forgive_debt :: "address \<Rightarrow> i128 \<Rightarrow> 't env \<Rightarrow> 't env res" where
  "forgive_debt b amount w =
     and_then (require_admin_auth w) (\<lambda>(_, w).
     and_then (enforce_accrual_admin_cooldown b w) (\<lambda>w.
     lifecycle_forgive_debt b amount w))"

definition settlement_status :: "credit_line_data \<Rightarrow> credit_line_data" where
  "settlement_status line = (if utilized_amount line = 0 then line\<lparr>status := Closed\<rparr> else line)"

definition record_settlement ::
  "address \<Rightarrow> symbol \<Rightarrow> i128 \<Rightarrow> i128 \<times> i128 \<Rightarrow> u32 \<Rightarrow> resolved_oracle_price \<Rightarrow> credit_line_data \<Rightarrow> 't env \<Rightarrow> 't env" where
  "record_settlement b settlement_id recovered parts close_factor_bps oracle_result line w =
     (let w = (if status line = Closed then clear_repayment_schedule b w else w);
          w = w\<lparr>st_liq_seen := (st_liq_seen w)((b, settlement_id) \<mapsto> True)\<rparr>;
          w = (case resolved_price oracle_result of None \<Rightarrow> w | Some p \<Rightarrow> record_accepted_oracle_price p w);
          w = (if status line = Closed then publish_line ''closed'' b line w else w) in
      publish_default_liquidation_settled_event b settlement_id recovered (fst parts) (snd parts)
              (utilized_amount line) (status line) close_factor_bps w)"

definition lifecycle_settle_default_liquidation ::
  "address \<Rightarrow> i128 \<Rightarrow> symbol \<Rightarrow> u32 \<Rightarrow> i128 option \<Rightarrow> 't env \<Rightarrow> 't env res" where
  "lifecycle_settle_default_liquidation b recovered settlement_id close_factor_bps oracle_price w =
     and_then (ensure (0 < recovered) (Contract InvalidAmount)) (\<lambda>_.
     and_then (ensure (\<not> (close_factor_bps = 0 \<or> 10000 < close_factor_bps)) (Contract InvalidAmount)) (\<lambda>_.
     and_then (ensure (close_factor_bps \<le> get_close_factor_bps w) (Contract OverLimit)) (\<lambda>_.
     and_then (ensure (st_liq_seen w (b, settlement_id) = None) (Contract AlreadyInitialized)) (\<lambda>_.
     and_then (validate_settlement_oracle_price oracle_price w) (\<lambda>oracle_result.
     and_then (load_line b w) (\<lambda>stored_line.
     and_then (apply_accrual stored_line w) (\<lambda>(line, w).
     and_then (ensure (status line = Defaulted) (Contract CreditLineDefaulted)) (\<lambda>_.
     and_then (ok_or (Contract Overflow) (checked_mul_i128 (utilized_amount line) close_factor_bps)) (\<lambda>product.
     let max_recoverable = product sdiv 10000 in
     and_then (ensure (recovered \<le> max_recoverable) (Contract OverLimit)) (\<lambda>_.
     let parts = fst (allocate_recovery line recovered);
         settled = settlement_status (snd (allocate_recovery line recovered));
         w = (if status settled = Closed then decrement_pending_auction_count w else w) in
     and_then (persist_credit_line b settled (utilized_amount stored_line) (Some (status line)) w) (\<lambda>w.
     Inr (record_settlement b settlement_id recovered parts close_factor_bps oracle_result settled w))))))))))))"

record 't auction_client =
  ac_get_version :: "'t \<Rightarrow> address \<Rightarrow> protocol_version option"
  ac_settle :: "'t \<Rightarrow> address \<Rightarrow> symbol \<Rightarrow> address \<Rightarrow> address \<Rightarrow> (i128 \<times> 't) option"

definition get_current_version :: protocol_version where
  "get_current_version = \<lparr>pv_major = 1, pv_minor = 0\<rparr>"

definition verify_version :: "protocol_version \<Rightarrow> bool" where
  "verify_version other = (pv_major get_current_version = pv_major other)"

definition auction_settlement_hook ::
  "'t auction_client \<Rightarrow> address \<Rightarrow> i128 \<Rightarrow> symbol \<Rightarrow> 't env \<Rightarrow> 't env res" where
  "auction_settlement_hook auc b recovered settlement_id w =
     (case storage_get_auction_contract w of
        None \<Rightarrow> Inr w
      | Some auction_addr \<Rightarrow>
          and_then (ok_or (Contract AuctionCallFailed) (ac_get_version auc (tokens w) auction_addr)) (\<lambda>remote_version.
          and_then (ensure (verify_version remote_version) (Contract IncompatibleVersion)) (\<lambda>_.
          and_then (ok_or (Contract AuctionCallFailed)
                      (ac_settle auc (tokens w) auction_addr settlement_id (self_addr w) b)) (\<lambda>(auction_recovered, s).
          and_then (ensure (auction_recovered = recovered) (Contract AuctionCallFailed)) (\<lambda>_.
          Inr (w\<lparr>tokens := s\<rparr>))))))"

definition settle_default_liquidation ::
  "'t auction_client \<Rightarrow> address \<Rightarrow> i128 \<Rightarrow> symbol \<Rightarrow> u32 \<Rightarrow> i128 option \<Rightarrow> 't env \<Rightarrow> 't env res" where
  "settle_default_liquidation auc b recovered settlement_id close_factor_bps oracle_price w =
     and_then (require_admin_auth w) (\<lambda>(_, w).
     and_then (enter_reentrancy_guard w) (\<lambda>w.
     and_then (auction_settlement_hook auc b recovered settlement_id w) (\<lambda>w.
     and_then (lifecycle_settle_default_liquidation b recovered settlement_id close_factor_bps oracle_price w) (\<lambda>w.
     Inr (clear_reentrancy_guard w)))))"

definition lifecycle_reinstate_credit_line :: "address \<Rightarrow> credit_status \<Rightarrow> 't env \<Rightarrow> 't env res" where
  "lifecycle_reinstate_credit_line b target_status w =
     and_then (assert_not_paused w) (\<lambda>_.
     and_then (ensure (target_status = Active \<or> target_status = Restricted) (Contract InvalidAmount)) (\<lambda>_.
     and_then (load_line b w) (\<lambda>stored_line.
     and_then (apply_accrual stored_line w) (\<lambda>(line, w).
     and_then (ensure (status line \<noteq> Closed) (Contract CreditLineClosed)) (\<lambda>_.
     and_then (require_valid_transition (status line) target_status [Defaulted] CreditLineDefaulted) (\<lambda>_.
     let reinstated = line\<lparr>status := target_status, suspension_ts := 0\<rparr>;
         w = (if status line = Defaulted then decrement_pending_auction_count w else w) in
     and_then (persist_credit_line b reinstated (utilized_amount stored_line) (Some (status line)) w) (\<lambda>w.
     Inr (publish_line ''reinstate'' b reinstated w))))))))"

definition reinstate_credit_line :: "address \<Rightarrow> credit_status \<Rightarrow> 't env \<Rightarrow> 't env res" where
  "reinstate_credit_line b target_status w =
     and_then (require_admin_auth w) (\<lambda>(_, w).
     and_then (enforce_accrual_admin_cooldown b w) (\<lambda>w.
     lifecycle_reinstate_credit_line b target_status w))"

section \<open>Schedules and settings\<close>

definition set_per_borrower_liquidation_grace :: "address \<Rightarrow> u64 \<Rightarrow> 't env \<Rightarrow> 't env res" where
  "set_per_borrower_liquidation_grace b secs w =
     and_then (assert_not_paused w) (\<lambda>_.
     and_then (require_admin_auth w) (\<lambda>(_, w).
     and_then (load_line b w) (\<lambda>line.
     and_then (ensure (status line \<noteq> Closed) (Contract CreditLineClosed)) (\<lambda>_.
     Inr (set_per_borrower_liquidation_grace_store b secs w)))))"

definition set_late_fee_flat :: "i128 \<Rightarrow> 't env \<Rightarrow> 't env res" where
  "set_late_fee_flat fee w =
     and_then (assert_not_paused w) (\<lambda>_.
     and_then (require_admin_auth w) (\<lambda>(_, w).
     and_then (assert_no_active_auctions w) (\<lambda>_.
     and_then (ensure (\<not> fee < 0) (Contract InvalidAmount)) (\<lambda>_.
     Inr (storage_set_late_fee_flat fee w)))))"

definition set_repayment_schedule :: "address \<Rightarrow> i128 \<Rightarrow> u64 \<Rightarrow> u64 \<Rightarrow> 't env \<Rightarrow> 't env res" where
  "set_repayment_schedule b per_period period first_due_ts w =
     and_then (assert_not_paused w) (\<lambda>_.
     and_then (require_admin_auth w) (\<lambda>(_, w).
     and_then (ensure (\<not> (per_period \<le> 0 \<or> period = 0)) (Contract InvalidAmount)) (\<lambda>_.
     and_then (ensure (get_credit_line b w \<noteq> None) (Contract CreditLineNotFound)) (\<lambda>_.
     Inr (set_repayment_schedule_store b
            \<lparr>amount_per_period = per_period, period_seconds = period, next_due_ts = first_due_ts\<rparr> w)))))"

definition allocate_repayment :: "i128 \<Rightarrow> i128 \<Rightarrow> i128 \<Rightarrow> i128 \<times> i128 \<times> i128" where
  "allocate_repayment total_debt accrued requested_amount =
     (let total_debt = max total_debt 0;
          normalized_interest = max (min accrued total_debt) 0;
          effective_repay = max (min requested_amount total_debt) 0;
          interest_repaid = max (min effective_repay normalized_interest) 0;
          principal_repaid = saturating_sub_i128 effective_repay interest_repaid in
      (effective_repay, interest_repaid, principal_repaid))"

definition overdue_installment_count :: "u64 \<Rightarrow> u64 \<Rightarrow> u64 \<Rightarrow> u64 \<Rightarrow> u64" where
  "overdue_installment_count now next_due period installments_paid =
     (if installments_paid = 0 \<or> period = 0 \<or> now \<le> next_due then 0
      else min ((now - next_due - 1) div period + 1) installments_paid)"

definition per_installment_fee :: "'t env \<Rightarrow> i128 res" where
  "per_installment_fee w =
     (case storage_get_late_fee_config w of
        Some cfg \<Rightarrow> (case compute_late_fee cfg 1 of Inl e \<Rightarrow> Inl (Contract e) | Inr v \<Rightarrow> Inr v)
      | None \<Rightarrow> Inr (get_late_fee_flat w))"

definition charge_late_fee :: "address \<Rightarrow> repayment_schedule \<Rightarrow> u64 \<Rightarrow> 't env \<Rightarrow> (i128 \<times> 't env) res" where
  "charge_late_fee b schedule installments_paid w =
     and_then (per_installment_fee w) (\<lambda>fee.
     if 0 < fee then
       let overdue = overdue_installment_count (ledger_ts w) (next_due_ts schedule) (period_seconds schedule)
                       installments_paid in
       if 0 < overdue then
         and_then (ok_or (Contract Overflow) (checked_mul_i128 fee overdue)) (\<lambda>aggregate_fee.
         Inr (aggregate_fee, publish_late_fee_charged_event b aggregate_fee overdue w))
       else Inr (0, w)
     else Inr (0, w))"

definition advance_repayment_schedule_after_repay ::
  "address \<Rightarrow> i128 \<Rightarrow> i128 \<Rightarrow> 't env \<Rightarrow> (i128 \<times> 't env) res" where
  "advance_repayment_schedule_after_repay b effective_repay interest_repaid w =
     (case checked_sub_i128 effective_repay interest_repaid of
        None \<Rightarrow> Inr (0, w)
      | Some principal_repaid \<Rightarrow>
          if \<not> 0 < principal_repaid then Inr (0, w)
          else (case get_repayment_schedule b w of
              None \<Rightarrow> Inr (0, w)
            | Some schedule \<Rightarrow>
                if amount_per_period schedule \<le> 0 \<or> period_seconds schedule = 0 then Inr (0, w)
                else
                  let installments_paid = i128_as_u64 (principal_repaid sdiv amount_per_period schedule) in
                  if installments_paid = 0 then Inr (0, w)
                  else
                    and_then (charge_late_fee b schedule installments_paid w) (\<lambda>(total_late_fee, w).
                    let advance_seconds = saturating_mul_u64 installments_paid (period_seconds schedule);
                        schedule = schedule\<lparr>next_due_ts := saturating_add_u64 (next_due_ts schedule) advance_seconds\<rparr> in
                    Inr (total_late_fee, set_repayment_schedule_store b schedule w))))"

section \<open>What the guards establish\<close>

lemma load_line_Inr [simp]: "load_line b w = Inr l \<longleftrightarrow> st_lines w b = Some l"
  by (simp add: load_line_def get_credit_line_def)

lemma require_valid_transition_Inr [simp]:
  "require_valid_transition c t srcs e = Inr u \<longleftrightarrow> c \<in> set srcs"
  by (auto simp: require_valid_transition_def)

lemma assert_not_paused_Inr [simp]: "assert_not_paused w = Inr u \<longleftrightarrow> \<not> is_paused w"
  by (simp add: assert_not_paused_def)

lemma line_ok_simps [simp]:
  "line_ok s b (l\<lparr>status := x\<rparr>) = line_ok s b l"
  "line_ok s b (l\<lparr>suspension_ts := t\<rparr>) = line_ok s b l"
  by (simp_all add: line_ok_def)

lemma publish_ledger [simp]:
  "ledger_gap s d (publish_line t b l w) = ledger_gap s d w"
  "ledger_gap s d (publish_borrow_lifecycle_event ph b l w) = ledger_gap s d w"
  "ledger_gap s d (clear_repayment_schedule b w) = ledger_gap s d w"
  "ledger_gap s d (record_accepted_oracle_price p w) = ledger_gap s d w"
  "ledger_gap s d (clear_reentrancy_guard w) = ledger_gap s d w"
  "ledger_gap s d (w\<lparr>st_liq_seen := seen\<rparr>) = ledger_gap s d w"
  "ledger_gap s d (set_repayment_schedule_store b sch w) = ledger_gap s d w"
  by (simp_all add: publish_line_def publish_borrow_lifecycle_event_def record_accepted_oracle_price_def)
    (simp_all add: ledger_simps clear_repayment_schedule_def clear_reentrancy_guard_def
      set_oracle_last_price_def set_repayment_schedule_store_def)

lemma record_settlement_ledger [simp]:
  "ledger_gap s d (record_settlement b sid r ps cf orc l w) = ledger_gap s d w"
  by (simp add: record_settlement_def Let_def split: option.split)

lemma accrual_cooldown_shape:
  assumes "enforce_accrual_admin_cooldown b w = Inr w'"
  shows "w' = w\<lparr>st_last_accrual_admin_action_ts := st_last_accrual_admin_action_ts w'\<rparr>"
  using assms by (auto simp: enforce_accrual_admin_cooldown_def split: option.splits if_splits)

lemma borrow_cooldown_shape:
  assumes "enforce_borrow_admin_cooldown b w = Inr w'"
  shows "w' = w\<lparr>st_last_borrow_admin_action_ts := st_last_borrow_admin_action_ts w'\<rparr>"
  using assms by (auto simp: enforce_borrow_admin_cooldown_def split: option.splits if_splits)

lemma cooldown_same_books:
  "enforce_accrual_admin_cooldown b w = Inr w' \<Longrightarrow> same_books w w'"
  "enforce_borrow_admin_cooldown b w = Inr w' \<Longrightarrow> same_books w w'"
  by (drule accrual_cooldown_shape, erule ssubst, simp add: same_books_def)
    (drule borrow_cooldown_shape, erule ssubst, simp add: same_books_def)

lemma admin_guard_ledger:
  assumes "require_admin_auth w = Inr (a, w')" and "ledger_gap s d w"
  shows "ledger_gap s d w'"
  using require_admin_auth_Inr[OF assms(1)] assms(2) by simp

lemma guard_ledger: "enter_reentrancy_guard w = Inr w' \<Longrightarrow> ledger_gap s d w' = ledger_gap s d w"
  by (auto simp: enter_reentrancy_guard_def set_reentrancy_guard_def ledger_simps)

text \<open>An admin mutation that passes its authorisation and its cool-off acts on the same books.\<close>

lemma admin_accrual_action:
  assumes "and_then (require_admin_auth w) (\<lambda>(_, w). and_then (enforce_accrual_admin_cooldown b w) f) = Inr w'"
    and "ledger_gap s d w" and "\<And>w w'. f w = Inr w' \<Longrightarrow> ledger_gap s d w \<Longrightarrow> ledger_gap s d w'"
  shows "ledger_gap s d w'"
proof -
  from assms(1) obtain a w1 w2 where "require_admin_auth w = Inr (a, w1)"
    and c: "enforce_accrual_admin_cooldown b w1 = Inr w2" and f: "f w2 = Inr w'" by auto
  then have "ledger_gap s d w1" using assms(2) admin_guard_ledger by blast
  then have "ledger_gap s d w2" using same_books_ledger[OF cooldown_same_books(1)[OF c]] by simp
  then show ?thesis by (rule assms(3)[OF f])
qed

section \<open>Every operation keeps the ledger\<close>

lemma pending_ledger:
  "ledger_gap s 0 w \<Longrightarrow> st_lines w b = Some l \<Longrightarrow> status l \<noteq> Defaulted \<Longrightarrow>
     ledger_gap s 1 (increment_pending_auction_count w)"
  "ledger_gap s 0 w \<Longrightarrow> st_lines w b = Some l \<Longrightarrow> status l = Defaulted \<Longrightarrow>
     ledger_gap s (- 1) (decrement_pending_auction_count w)"
  using increment_pending_books[of w b l] decrement_pending_books[of w b l]
  by (auto simp: ledger_gap_def lines_ok_def increment_pending_auction_count_def decrement_pending_auction_count_def)

lemma pending_lines [simp]:
  "st_lines (increment_pending_auction_count w) = st_lines w" "st_lines (decrement_pending_auction_count w) = st_lines w"
  "get_credit_line_count (decrement_pending_auction_count w) = get_credit_line_count w"
  by (simp_all add: increment_pending_auction_count_def decrement_pending_auction_count_def get_credit_line_count_def)

text \<open>A line that leaves or enters default is written after the auction counter moved.\<close>

lemma persist_leaving_default:
  assumes "persist_credit_line b l (utilized_amount k) (Some (status k))
             (if status k = Defaulted then decrement_pending_auction_count w else w) = Inr w'"
    and "ledger_ok s w" and "st_lines w b = Some k" and "line_ok s b l" and "status l \<noteq> Defaulted"
  shows "ledger_ok s w'"
proof (cases "status k = Defaulted")
  case True
  then have "ledger_gap s (- 1) (decrement_pending_auction_count w)" using pending_ledger(2)[OF assms(2,3)] by simp
  moreover have "persist_credit_line b l (utilized_amount k) (Some (status k)) (decrement_pending_auction_count w) = Inr w'"
    using assms(1) unfolding if_P[OF True] .
  ultimately have "ledger_gap s (- 1 - (has_status Defaulted l
      - opt_val (has_status Defaulted) (st_lines (decrement_pending_auction_count w) b))) w'"
    using assms(3) by (intro persist_ledger[OF _ _ _ _ _ assms(4)]) (auto simp: room_for_def)
  then show ?thesis using True assms(3,5) by (simp add: has_status_def)
next
  case False
  have "persist_credit_line b l (utilized_amount k) (Some (status k)) w = Inr w'"
    using assms(1) unfolding if_not_P[OF False] .
  then show ?thesis using persist_existing[OF _ assms(2,3,4)] False assms(5) by blast
qed

lemma suspend_internal_ledger:
  assumes "suspend_credit_line_internal b t w = Inr w'" and "ledger_ok s w" and "t \<noteq> Defaulted"
  shows "ledger_ok s w'"
proof -
  from assms(1) obtain k l w1 w2 where k: "st_lines w b = Some k" and a: "apply_accrual k w = Inr (l, w1)"
    and st: "status l = Active"
    and p: "persist_credit_line b (l\<lparr>status := t, suspension_ts := ledger_ts w1\<rparr>) (utilized_amount k)
              (Some (status k)) w1 = Inr w2"
    and w': "ledger_ok s w' = ledger_ok s w2"
    by (auto simp: suspend_credit_line_internal_def Let_def)
  have "line_ok s b l" by (rule acc.accrue_line_ok[OF a ledger_line[OF assms(2) k]])
  then have "ledger_ok s w2"
    using acc.accrue_then_persist[OF a assms(2) k p] assms(3) st acc.accrue_line(2)[OF a] by simp
  then show ?thesis using w' by simp
qed

lemma unsuspend_ledger:
  assumes "lifecycle_unsuspend_credit_line b w = Inr w'" and "ledger_ok s w"
  shows "ledger_ok s w'"
proof -
  from assms(1) obtain k l w1 w2 where k: "st_lines w b = Some k" and a: "apply_accrual k w = Inr (l, w1)"
    and st: "status l = Suspended \<or> status l = SelfSuspended"
    and p: "persist_credit_line b (l\<lparr>status := Active, suspension_ts := 0\<rparr>) (utilized_amount k)
              (Some (status k)) w1 = Inr w2"
    and w': "ledger_ok s w' = ledger_ok s w2"
    by (auto simp: lifecycle_unsuspend_credit_line_def Let_def split: if_splits)
  have "line_ok s b l" by (rule acc.accrue_line_ok[OF a ledger_line[OF assms(2) k]])
  then have "ledger_ok s w2"
    using acc.accrue_then_persist[OF a assms(2) k p] st acc.accrue_line(2)[OF a] by auto
  then show ?thesis using w' by simp
qed

lemma self_unsuspend_ledger:
  assumes "self_unsuspend_credit_line b w = Inr w'" and "ledger_ok s w"
  shows "ledger_ok s w'"
proof -
  from assms(1) obtain k l w0 w1 w2 where u: "require_auth b w = Inr w0"
    and k: "st_lines w0 b = Some k" and a: "apply_accrual k w0 = Inr (l, w1)" and st: "status l = SelfSuspended"
    and p: "persist_credit_line b (l\<lparr>status := Active, suspension_ts := 0\<rparr>) (utilized_amount k)
              (Some (status k)) w1 = Inr w2"
    and w': "ledger_ok s w' = ledger_ok s w2"
    by (auto simp: self_unsuspend_credit_line_def Let_def)
  have l0: "ledger_ok s w0" using require_auth_Inr[OF u] assms(2) by simp
  have "line_ok s b l" by (rule acc.accrue_line_ok[OF a ledger_line[OF l0 k]])
  then have "ledger_ok s w2"
    using acc.accrue_then_persist[OF a l0 k p] st acc.accrue_line(2)[OF a] by auto
  then show ?thesis using w' by simp
qed

lemma close_ledger:
  assumes "lifecycle_close_credit_line b c w = Inr w'" and "ledger_ok s w"
  shows "ledger_ok s w'"
proof -
  from assms(1) obtain k w2 where k: "st_lines w b = Some k"
    and p: "persist_credit_line b (k\<lparr>status := Closed\<rparr>) (utilized_amount k) (Some (status k))
              (if status k = Defaulted then decrement_pending_auction_count w else w) = Inr w2"
    and w': "ledger_ok s w' = ledger_ok s w2"
    by (auto simp: lifecycle_close_credit_line_def Let_def)
  show ?thesis using persist_leaving_default[OF p assms(2) k] ledger_line[OF assms(2) k] w' by simp
qed

lemma default_ledger:
  assumes "lifecycle_default_credit_line b w = Inr w'" and "ledger_ok s w"
  shows "ledger_ok s w'"
proof -
  from assms(1) obtain k l w1 w2 where k: "st_lines w b = Some k" and a: "apply_accrual k w = Inr (l, w1)"
    and st: "status l \<noteq> Defaulted"
    and p: "persist_credit_line b (l\<lparr>status := Defaulted\<rparr>) (utilized_amount k) (Some (status l))
              (increment_pending_auction_count w1) = Inr w2"
    and w': "ledger_ok s w' = ledger_ok s w2"
    by (auto simp: lifecycle_default_credit_line_def Let_def)
  have lo: "line_ok s b l" by (rule acc.accrue_line_ok[OF a ledger_line[OF assms(2) k]])
  have k1: "st_lines w1 b = Some k" using acc.accrue_frame(1)[OF a] k by simp
  have stk: "status k = status l" using acc.accrue_line(2)[OF a] by simp
  have "ledger_gap s 1 (increment_pending_auction_count w1)"
    using pending_ledger(1)[OF acc.accrue_ledger[OF a assms(2)] k1] st stk by simp
  from persist_ledger[OF p this]
  have "ledger_gap s (1 - (has_status Defaulted (l\<lparr>status := Defaulted\<rparr>) - has_status Defaulted k)) w2"
    using k1 lo stk by (auto simp: room_for_def)
  then have "ledger_ok s w2" using st stk by (simp add: has_status_def)
  then show ?thesis using w' by simp
qed

lemma line_ok_repaid:
  assumes "line_ok s b l" and "0 \<le> r" and "r \<le> utilized_amount l"
  shows "line_ok s b (l\<lparr>accrued_interest := accrued_interest l - min r (accrued_interest l),
     utilized_amount := utilized_amount l - r\<rparr>)"
  using assms by (auto simp: line_ok_def)

lemma forgive_ledger:
  assumes "lifecycle_forgive_debt b amount w = Inr w'" and "ledger_ok s w"
  shows "ledger_ok s w'"
proof -
  from assms(1) obtain k l w1 w2 where am: "0 < amount" and k: "st_lines w b = Some k"
    and a: "apply_accrual k w = Inr (l, w1)" and nz: "utilized_amount l \<noteq> 0"
    and p: "persist_credit_line b (l\<lparr>accrued_interest := accrued_interest l
                - min (min amount (utilized_amount l)) (accrued_interest l),
              utilized_amount := utilized_amount l - min amount (utilized_amount l)\<rparr>) (utilized_amount k)
              (Some (status k)) w1 = Inr w2"
    and w': "ledger_ok s w' = ledger_ok s w2"
    by (auto simp: lifecycle_forgive_debt_def Let_def checked_arith)
  have lo: "line_ok s b l" by (rule acc.accrue_line_ok[OF a ledger_line[OF assms(2) k]])
  let ?f = "min amount (utilized_amount l)"
  have "line_ok s b (l\<lparr>accrued_interest := accrued_interest l - min ?f (accrued_interest l),
      utilized_amount := utilized_amount l - ?f\<rparr>)"
    using lo am nz by (cases s) (auto intro!: line_ok_repaid simp: line_ok_def)
  then show ?thesis
    using acc.accrue_then_persist[OF a assms(2) k p] acc.accrue_line(2)[OF a] w' by simp
qed

lemma persist_settled:
  assumes "persist_credit_line b l (utilized_amount k) (Some (status k))
             (if status l = Closed then decrement_pending_auction_count w else w) = Inr w'"
    and "ledger_ok s w" and "st_lines w b = Some k" and "line_ok s b l" and "status k = Defaulted"
    and "status l = Closed \<or> status l = Defaulted"
  shows "ledger_ok s w'"
proof (cases "status l = Closed")
  case True
  then show ?thesis using persist_leaving_default[OF _ assms(2,3,4)] assms(1,5) by simp
next
  case False
  then show ?thesis using persist_existing[OF _ assms(2,3,4)] assms(1,5,6) by simp
qed

lemma settle_ledger:
  assumes "lifecycle_settle_default_liquidation b r sid cf op w = Inr w'" and "ledger_ok s w"
  shows "ledger_ok s w'"
proof -
  define settled where "settled l = settlement_status (snd (allocate_recovery l r))" for l
  from assms(1) obtain k l w1 w2 where r: "0 < r" and cf: "\<not> (cf = 0 \<or> 10000 < cf)"
    and k: "st_lines w b = Some k" and a: "apply_accrual k w = Inr (l, w1)" and st: "status l = Defaulted"
    and fit: "in_i128 (utilized_amount l * cf)" and le: "r \<le> utilized_amount l * cf sdiv 10000"
    and p: "persist_credit_line b (settled l) (utilized_amount k) (Some (status l))
              (if status (settled l) = Closed then decrement_pending_auction_count w1 else w1) = Inr w2"
    and w': "ledger_ok s w' = ledger_ok s w2"
    unfolding lifecycle_settle_default_liquidation_def settled_def
    by (auto simp: Let_def checked_arith)
  have lo: "line_ok s b l" by (rule acc.accrue_line_ok[OF a ledger_line[OF assms(2) k]])
  have k1: "st_lines w1 b = Some k" using acc.accrue_frame(1)[OF a] k by simp
  have stk: "status k = Defaulted" using acc.accrue_line(2)[OF a] st by simp
  have "line_ok s b (settled l) \<and> (status (settled l) = Closed \<or> status (settled l) = Defaulted)"
  proof (cases "r \<le> utilized_amount l")
    case True
    then have "settled l = settlement_status (l\<lparr>accrued_interest := accrued_interest l - min r (accrued_interest l),
        utilized_amount := utilized_amount l - r\<rparr>)"
      by (simp add: settled_def allocate_recovery_def Let_def)
    then show ?thesis using line_ok_repaid[OF lo _ True] r st by (auto simp: settlement_status_def)
  next
    case False
    have "s \<Longrightarrow> 0 \<le> utilized_amount l" using lo by (auto simp: line_ok_def)
    then have "line_ok s b (l\<lparr>accrued_interest := accrued_interest l - min (utilized_amount l) (accrued_interest l),
        utilized_amount := utilized_amount l - utilized_amount l\<rparr>)"
      using lo by (cases s) (auto intro!: line_ok_repaid simp: line_ok_def)
    then show ?thesis using False st by (simp add: settled_def allocate_recovery_def settlement_status_def Let_def)
  qed
  then have "ledger_ok s w2"
    using persist_settled[OF _ acc.accrue_ledger[OF a assms(2)] k1, of "settled l" w2] p st stk by simp
  then show ?thesis using w' by simp
qed

lemma reinstate_ledger:
  assumes "lifecycle_reinstate_credit_line b t w = Inr w'" and "ledger_ok s w"
  shows "ledger_ok s w'"
proof -
  from assms(1) obtain k l w1 w2 where t: "t = Active \<or> t = Restricted" and k: "st_lines w b = Some k"
    and a: "apply_accrual k w = Inr (l, w1)"
    and p: "persist_credit_line b (l\<lparr>status := t, suspension_ts := 0\<rparr>) (utilized_amount k) (Some (status l))
              (if status l = Defaulted then decrement_pending_auction_count w1 else w1) = Inr w2"
    and w': "ledger_ok s w' = ledger_ok s w2"
    by (auto simp: lifecycle_reinstate_credit_line_def Let_def)
  have lo: "line_ok s b l" by (rule acc.accrue_line_ok[OF a ledger_line[OF assms(2) k]])
  have k1: "st_lines w1 b = Some k" using acc.accrue_frame(1)[OF a] k by simp
  have stk: "status l = status k" by (rule acc.accrue_line(2)[OF a])
  show ?thesis
    using persist_leaving_default[OF p[unfolded stk] acc.accrue_ledger[OF a assms(2)] k1] lo t w' by auto
qed

lemma open_ledger:
  assumes "lifecycle_open_credit_line b limit rate score w = Inr w'" and "ledger_ok s w" and "room_for b w"
  shows "ledger_ok s w'"
proof (cases "st_lines w b")
  case None
  then obtain w2 l where p: "persist_credit_line b l 0 None w = Inr w2" and l: "line_ok s b l" "status l = Active"
    and w': "ledger_ok s w' = ledger_ok s w2"
    using assms(1) by (auto simp: lifecycle_open_credit_line_def Let_def get_credit_line_def line_ok_def i128_max_def)
  have "ledger_gap s (0 - (has_status Defaulted l - opt_val (has_status Defaulted) (st_lines w b))) w2"
    by (rule persist_ledger[OF p assms(2) _ _ assms(3) l(1)]) (simp_all add: None)
  then show ?thesis using None l(2) w' by (simp add: has_status_def)
next
  case (Some k)
  have lk: "line_ok s b k" by (rule ledger_line[OF assms(2) Some])
  obtain w2 l where p: "persist_credit_line b l (utilized_amount k) (Some (status k))
        (if status k = Defaulted then decrement_pending_auction_count w else w) = Inr w2"
    and l: "line_ok s b l" "status l = Active" and w': "ledger_ok s w' = ledger_ok s w2"
    using assms(1) Some lk
    by (auto simp: lifecycle_open_credit_line_def Let_def get_credit_line_def line_ok_def i128_max_def split: if_splits)
  show ?thesis using persist_leaving_default[OF p assms(2) Some l(1)] l(2) w' by simp
qed

section \<open>The entrypoints\<close>

lemma open_credit_line_ledger:
  assumes "open_credit_line b limit rate score w = Inr w'" and "ledger_ok s w" and "room_for b w"
  shows "ledger_ok s w'"
proof -
  from assms(1) obtain a w1 w2 where u: "require_admin_auth w = Inr (a, w1)"
    and c: "enforce_borrow_admin_cooldown b w1 = Inr w2"
    and o: "lifecycle_open_credit_line b limit rate score w2 = Inr w'"
    by (auto simp: open_credit_line_def)
  have "ledger_ok s w1" by (rule admin_guard_ledger[OF u assms(2)])
  then have "ledger_ok s w2" using same_books_ledger[OF cooldown_same_books(2)[OF c]] by simp
  moreover have "room_for b w2"
    using assms(3) require_admin_auth_Inr[OF u] cooldown_same_books(2)[OF c]
    by (auto simp: room_for_def same_books_def get_credit_line_count_def)
  ultimately show ?thesis by (rule open_ledger[OF o])
qed

lemma suspend_credit_line_ledger: "suspend_credit_line b w = Inr w' \<Longrightarrow> ledger_ok s w \<Longrightarrow> ledger_ok s w'"
  unfolding suspend_credit_line_def by (erule admin_accrual_action) (auto dest: suspend_internal_ledger)

lemma self_suspend_credit_line_ledger: "self_suspend_credit_line b w = Inr w' \<Longrightarrow> ledger_ok s w \<Longrightarrow> ledger_ok s w'"
  by (auto simp: self_suspend_credit_line_def dest!: require_auth_Inr dest: suspend_internal_ledger)

lemma unsuspend_credit_line_ledger: "unsuspend_credit_line b w = Inr w' \<Longrightarrow> ledger_ok s w \<Longrightarrow> ledger_ok s w'"
  unfolding unsuspend_credit_line_def by (erule admin_accrual_action) (auto dest: unsuspend_ledger)

lemma close_credit_line_ledger: "close_credit_line b c w = Inr w' \<Longrightarrow> ledger_ok s w \<Longrightarrow> ledger_ok s w'"
proof -
  assume "close_credit_line b c w = Inr w'" and i: "ledger_ok s w"
  then obtain w1 w2 where u: "require_auth c w = Inr w1"
    and c: "w2 = w1 \<or> enforce_accrual_admin_cooldown b w1 = Inr w2"
    and l: "lifecycle_close_credit_line b c w2 = Inr w'"
    by (auto simp: close_credit_line_def split: if_splits)
  have "ledger_ok s w1" using require_auth_Inr[OF u] i by simp
  then have "ledger_ok s w2" using c same_books_ledger[OF cooldown_same_books(1)] by blast
  then show ?thesis by (rule close_ledger[OF l])
qed

lemma default_credit_line_ledger: "default_credit_line b w = Inr w' \<Longrightarrow> ledger_ok s w \<Longrightarrow> ledger_ok s w'"
  unfolding default_credit_line_def by (erule admin_accrual_action) (auto dest: default_ledger)

lemma forgive_debt_ledger: "forgive_debt b amount w = Inr w' \<Longrightarrow> ledger_ok s w \<Longrightarrow> ledger_ok s w'"
  unfolding forgive_debt_def by (erule admin_accrual_action) (auto dest: forgive_ledger)

lemma reinstate_credit_line_ledger: "reinstate_credit_line b t w = Inr w' \<Longrightarrow> ledger_ok s w \<Longrightarrow> ledger_ok s w'"
  unfolding reinstate_credit_line_def by (erule admin_accrual_action) (auto dest: reinstate_ledger)

lemma auction_hook_shape:
  "auction_settlement_hook auc b r sid w = Inr w' \<Longrightarrow> \<exists>t. w' = w\<lparr>tokens := t\<rparr>"
proof -
  assume "auction_settlement_hook auc b r sid w = Inr w'"
  then have "w' = w\<lparr>tokens := tokens w'\<rparr>"
    by (auto simp: auction_settlement_hook_def split: option.splits)
  then show ?thesis by blast
qed

lemma settle_default_liquidation_ledger:
  assumes "settle_default_liquidation auc b r sid cf op w = Inr w'" and "ledger_ok s w"
  shows "ledger_ok s w'"
proof -
  from assms(1) obtain a w1 w2 w3 w4 where u: "require_admin_auth w = Inr (a, w1)"
    and g: "enter_reentrancy_guard w1 = Inr w2" and h: "auction_settlement_hook auc b r sid w2 = Inr w3"
    and l: "lifecycle_settle_default_liquidation b r sid cf op w3 = Inr w4" and w': "w' = clear_reentrancy_guard w4"
    by (auto simp: settle_default_liquidation_def)
  have "ledger_ok s w2" using admin_guard_ledger[OF u assms(2)] guard_ledger[OF g] by simp
  then have "ledger_ok s w3" using auction_hook_shape[OF h] by auto
  from settle_ledger[OF l this] show ?thesis by (simp add: w')
qed

lemma close_batch_stuck [simp]: "close_credit_lines_batch bs w \<noteq> Inr w'"
proof
  assume "close_credit_lines_batch bs w = Inr w'"
  then obtain a w1 w2 where u: "require_admin_auth w = Inr (a, w1)"
    and f: "for_each enforce_accrual_admin_cooldown bs w1 = Inr w2"
    and l: "lifecycle_close_credit_lines_batch bs w2 = Inr w'"
    by (auto simp: close_credit_lines_batch_def)
  have "st_admin w2 = st_admin w \<and> frame_auth w2 = a # frame_auth w"
    using f
  proof (rule for_each_inv)
    show "st_admin w1 = st_admin w \<and> frame_auth w1 = a # frame_auth w"
      using require_admin_auth_Inr[OF u] by simp
    fix x v v' assume "st_admin v = st_admin w \<and> frame_auth v = a # frame_auth w"
      and "enforce_accrual_admin_cooldown x v = Inr v'"
    then show "st_admin v' = st_admin w \<and> frame_auth v' = a # frame_auth w"
      by (auto simp: enforce_accrual_admin_cooldown_def split: option.splits if_splits)
  qed
  moreover have "st_admin w = Some a" using require_admin_auth_Inr[OF u] by simp
  ultimately show False using l
    by (auto simp: lifecycle_close_credit_lines_batch_def require_admin_auth_def require_admin_def require_auth_def
        split: if_splits)
qed

text \<open>(\<open>close_credit_lines_batch\<close>): the batch close never succeeds.  The wrapper authorises the
  admin and the lifecycle function authorises it again in the same frame, which the host rejects.\<close>

theorem close_batch_never_succeeds: "close_credit_lines_batch bs w \<noteq> Inr w'"
  by (rule close_batch_stuck)

section \<open>Cool-offs of the admin mutations\<close>

definition accrual_action_guard :: "address \<Rightarrow> 't env \<Rightarrow> unit res" where
  "accrual_action_guard b w = and_then (enforce_accrual_admin_cooldown b w) (\<lambda>_. Inr ())"

definition accrual_action_stamp :: "address \<Rightarrow> 't env \<Rightarrow> 't env" where
  "accrual_action_stamp b w =
     w\<lparr>st_last_accrual_admin_action_ts := (st_last_accrual_admin_action_ts w)(b \<mapsto> ledger_ts w)\<rparr>"

definition accrual_action_period :: "'t env \<Rightarrow> u64" where
  "accrual_action_period w = (case st_accrual_admin_cooldown_seconds w of None \<Rightarrow> 0 | Some s \<Rightarrow> s)"

definition borrow_action_guard :: "address \<Rightarrow> 't env \<Rightarrow> unit res" where
  "borrow_action_guard b w = and_then (enforce_borrow_admin_cooldown b w) (\<lambda>_. Inr ())"

definition borrow_action_stamp :: "address \<Rightarrow> 't env \<Rightarrow> 't env" where
  "borrow_action_stamp b w =
     w\<lparr>st_last_borrow_admin_action_ts := (st_last_borrow_admin_action_ts w)(b \<mapsto> ledger_ts w)\<rparr>"

definition borrow_action_period :: "'t env \<Rightarrow> u64" where
  "borrow_action_period w = (case st_borrow_admin_cooldown_seconds w of None \<Rightarrow> 0 | Some s \<Rightarrow> s)"

interpretation acr_cd: cooldown_gate ledger_ts "accrual_action_guard b" "accrual_action_stamp b" accrual_action_period
  "\<lambda>w. st_last_accrual_admin_action_ts w b" "Contract RiskAdminCooldownActive" for b
  by unfold_locales (auto simp: accrual_action_guard_def accrual_action_stamp_def accrual_action_period_def
      enforce_accrual_admin_cooldown_def ensure_def split: option.splits)

interpretation bor_cd: cooldown_gate ledger_ts "borrow_action_guard b" "borrow_action_stamp b" borrow_action_period
  "\<lambda>w. st_last_borrow_admin_action_ts w b" "Contract RiskAdminCooldownActive" for b
  by unfold_locales (auto simp: borrow_action_guard_def borrow_action_stamp_def borrow_action_period_def
      enforce_borrow_admin_cooldown_def ensure_def split: option.splits)

lemma enforce_accrual_cooldown_stamps:
  assumes "enforce_accrual_admin_cooldown b w = Inr w'" and "0 < accrual_action_period w"
  shows "w' = accrual_action_stamp b w" and "accrual_action_guard b w = Inr ()"
  using assms by (auto simp: enforce_accrual_admin_cooldown_def accrual_action_stamp_def accrual_action_period_def
      accrual_action_guard_def split: option.splits if_splits)

text \<open>(\<open>enforce_accrual_admin_cooldown\<close>): while a cool-off is configured, two admin mutations of one
  borrower's line that both pass the check are at least the cool-off apart; this is the check in front
  of suspend, unsuspend, close, default, forgive, reinstate and the risk update.\<close>

theorem accrual_admin_actions_spaced:
  fixes w w2 :: "'t env"
  assumes "enforce_accrual_admin_cooldown b w = Inr w1" and "enforce_accrual_admin_cooldown b w2 = Inr w3"
    and "st_last_accrual_admin_action_ts w2 b = st_last_accrual_admin_action_ts w1 b"
    and "accrual_action_period w2 = accrual_action_period w" and "0 < accrual_action_period w" and "0 < ledger_ts w"
  shows "min u64_max (ledger_ts w + accrual_action_period w) \<le> ledger_ts w2"
proof -
  have "accrual_action_guard b w2 = Inr ()"
    by (rule enforce_accrual_cooldown_stamps(2)[OF assms(2)]) (simp add: assms(4,5))
  then show ?thesis
    using acr_cd.spaced[OF assms(6), where w' = w2] assms(3-5) enforce_accrual_cooldown_stamps(1)[OF assms(1,5)] by simp
qed

theorem accrual_admin_actions_spaced_witness:
  "\<exists>w1 w3. enforce_accrual_admin_cooldown 5 ((genesis 100 9 ())\<lparr>st_accrual_admin_cooldown_seconds := Some 60\<rparr>) = Inr w1 \<and>
     enforce_accrual_admin_cooldown 5 (w1\<lparr>ledger_ts := 160\<rparr>) = Inr w3 \<and> 100 + 60 \<le> ledger_ts (w1\<lparr>ledger_ts := 160\<rparr>)"
proof -
  let ?w = "(genesis 100 9 ())\<lparr>st_accrual_admin_cooldown_seconds := Some 60\<rparr>"
  let ?w1 = "accrual_action_stamp 5 ?w"
  have e: "enforce_accrual_admin_cooldown 5 ?w = Inr ?w1"
    by (simp add: enforce_accrual_admin_cooldown_def accrual_action_stamp_def genesis_def)
  obtain w3 where w3: "enforce_accrual_admin_cooldown 5 (?w1\<lparr>ledger_ts := 160\<rparr>) = Inr w3"
    by (simp add: enforce_accrual_admin_cooldown_def accrual_action_stamp_def genesis_def saturating_add_u64_def u64_max_def ensure_def)
  have "min u64_max (ledger_ts ?w + accrual_action_period ?w) \<le> ledger_ts (?w1\<lparr>ledger_ts := 160\<rparr>)"
    by (rule accrual_admin_actions_spaced[OF e w3])
      (simp_all add: accrual_action_period_def accrual_action_stamp_def genesis_def)
  then show ?thesis using e w3 by (simp add: accrual_action_period_def genesis_def u64_max_def)
qed

section \<open>Installments\<close>

lemma le_div_iff_int: "0 < (p::int) \<Longrightarrow> k \<le> m div p \<longleftrightarrow> k * p \<le> m"
proof
  assume p: "0 < p" and "k \<le> m div p"
  then have "k * p \<le> m div p * p" by (intro mult_right_mono) simp_all
  also have "\<dots> \<le> m" using p by (metis div_mult_mod_eq le_add_same_cancel1 pos_mod_sign)
  finally show "k * p \<le> m" .
next
  assume p: "0 < p" and "k * p \<le> m"
  then show "k \<le> m div p" using zdiv_mono1[of "k * p" m p] by simp
qed

text \<open>(\<open>overdue_installment_count\<close>): the closed formula counts exactly the paid installments whose
  due date lies before the current time.\<close>

theorem overdue_installment_count_exact:
  assumes "0 < period" and "0 \<le> paid"
  shows "overdue_installment_count now next_due period paid = int (card {k :: nat. int k < paid \<and> next_due + int k * period < now})"
proof (cases "now \<le> next_due")
  case True
  have "\<not> next_due + int k * period < now" for k :: nat
    using mult_nonneg_nonneg[of "int k" period] True assms(1) by linarith
  then have "{k :: nat. int k < paid \<and> next_due + int k * period < now} = {}" by simp
  then show ?thesis unfolding \<open>{k. int k < paid \<and> next_due + int k * period < now} = {}\<close>
    using True by (simp add: overdue_installment_count_def)
next
  case False
  let ?q = "(now - next_due - 1) div period + 1"
  have q: "0 \<le> ?q" using False assms(1) by (simp add: pos_imp_zdiv_nonneg_iff)
  have "next_due + int k * period < now \<longleftrightarrow> int k < ?q" for k
  proof -
    have "next_due + int k * period < now \<longleftrightarrow> int k * period \<le> now - next_due - 1" by linarith
    also have "\<dots> \<longleftrightarrow> int k \<le> (now - next_due - 1) div period"
      using assms(1) by (simp add: le_div_iff_int)
    also have "\<dots> \<longleftrightarrow> int k < ?q" by linarith
    finally show ?thesis .
  qed
  then have "{k :: nat. int k < paid \<and> next_due + int k * period < now} = {..<nat (min ?q paid)}"
    by (simp add: set_eq_iff zless_nat_eq_int_zless conj_commute)
  then have c: "int (card {k :: nat. int k < paid \<and> next_due + int k * period < now}) = min ?q paid"
    using q assms(2) by simp
  show ?thesis unfolding c using False assms(1) q
    by (cases "paid = 0") (simp_all add: overdue_installment_count_def)
qed

theorem overdue_installment_count_exact_witness: "overdue_installment_count 250 100 50 5 = int (card {k :: nat. int k < 5 \<and> 100 + int k * 50 < 250})"
  by (rule overdue_installment_count_exact) simp_all

section \<open>Settlement of a default liquidation\<close>

text \<open>A successful settlement, phase by phase, from the entrypoint's pre-state.\<close>

lemma settle_Inr:
  assumes "settle_default_liquidation auc b r sid cf op w = Inr w'"
  obtains k a w1 w2 orc where "st_lines w b = Some k" "accrued_line b w = Some a" "status a = Defaulted"
    "0 < r" "0 < cf \<or> cf < 0" "cf \<le> 10000" "cf \<le> get_close_factor_bps w" "st_liq_seen w (b, sid) = None"
    "in_i128 (utilized_amount a * cf)" "r \<le> utilized_amount a * cf sdiv 10000"
    "st_liq_seen w1 = st_liq_seen w"
    "persist_credit_line b (settlement_status (snd (allocate_recovery a r))) (utilized_amount k) (Some Defaulted)
       (if status (settlement_status (snd (allocate_recovery a r))) = Closed
        then decrement_pending_auction_count w1 else w1) = Inr w2"
    "w' = clear_reentrancy_guard (record_settlement b sid r (fst (allocate_recovery a r)) cf orc
            (settlement_status (snd (allocate_recovery a r))) w2)"
proof -
  from assms obtain ad u1 u2 u3 u4 where u: "require_admin_auth w = Inr (ad, u1)"
    and g: "enter_reentrancy_guard u1 = Inr u2" and h: "auction_settlement_hook auc b r sid u2 = Inr u3"
    and l: "lifecycle_settle_default_liquidation b r sid cf op u3 = Inr u4" and w': "w' = clear_reentrancy_guard u4"
    by (auto simp: settle_default_liquidation_def)
  obtain tk where "u3 = u2\<lparr>tokens := tk\<rparr>" using auction_hook_shape[OF h] by blast
  then have u3: "u3 = relabel (Some True) (ad # frame_auth w) (st_last_accrual_admin_action_ts w) tk w"
    using require_admin_auth_Inr[OF u] g by (auto simp: enter_reentrancy_guard_def set_reentrancy_guard_def relabel_def)
  from l obtain k a w1 w2 orc where k: "st_lines u3 b = Some k" and a: "apply_accrual k u3 = Inr (a, w1)"
    and st: "status a = Defaulted" and c: "0 < r" "\<not> (cf = 0 \<or> 10000 < cf)" "cf \<le> get_close_factor_bps u3"
      "st_liq_seen u3 (b, sid) = None"
      "in_i128 (utilized_amount a * cf)" "r \<le> utilized_amount a * cf sdiv 10000"
    and p: "persist_credit_line b (settlement_status (snd (allocate_recovery a r))) (utilized_amount k) (Some (status a))
       (if status (settlement_status (snd (allocate_recovery a r))) = Closed
        then decrement_pending_auction_count w1 else w1) = Inr w2"
    and u4: "u4 = record_settlement b sid r (fst (allocate_recovery a r)) cf orc
            (settlement_status (snd (allocate_recovery a r))) w2"
    by (auto simp: lifecycle_settle_default_liquidation_def Let_def checked_arith)
  have k0: "st_lines w b = Some k" using k by (simp add: u3)
  have al: "accrued_line b w = Some a" by (rule accrued_line_intro[OF k0 a[unfolded u3]])
  have w1: "st_liq_seen w1 = st_liq_seen w" using acc.accrue_env[OF a] by (auto simp: u3 relabel_def)
  show ?thesis
    by (rule that[of k a w1 w2 orc])
      (use k0 al st c p u4 w' w1 in \<open>auto simp: u3 relabel_def get_close_factor_bps_def\<close>)
qed

lemma record_settlement_seen [simp]:
  "st_liq_seen (clear_reentrancy_guard (record_settlement b sid r ps cf orc l w)) = (st_liq_seen w)((b, sid) \<mapsto> True)"
  "st_lines (clear_reentrancy_guard (record_settlement b sid r ps cf orc l w)) = st_lines w"
  by (simp_all add: record_settlement_def record_accepted_oracle_price_def set_oracle_last_price_def
      publish_line_def clear_repayment_schedule_def clear_reentrancy_guard_def emit_def Let_def split: option.split)



text \<open>(settlement replay): once a settlement id is recorded for a borrower, no settlement with it
  succeeds.\<close>

theorem settlement_not_replayable:
  assumes "settle_default_liquidation auc b r sid cf op w = Inr w'" and "st_liq_seen w2 (b, sid) = st_liq_seen w' (b, sid)"
  shows "settle_default_liquidation auc2 b r2 sid cf2 op2 w2 \<noteq> Inr w3"
proof
  assume "settle_default_liquidation auc2 b r2 sid cf2 op2 w2 = Inr w3"
  then have "st_liq_seen w2 (b, sid) = None" by (rule settle_Inr)
  moreover have "st_liq_seen w' (b, sid) = Some True"
    by (rule settle_Inr[OF assms(1)]) (simp add: record_settlement_seen)
  ultimately show False using assms(2) by simp
qed

definition default_env :: "(address \<times> address \<Rightarrow> int) env" where
  "default_env = pledge_env\<lparr>signers := [1], st_admin := Some 1,
     st_lines := [5 \<mapsto> \<lparr>borrower = 5, credit_limit = 10, utilized_amount = 8, interest_rate_bps = 0, risk_score = 0,
        status = Defaulted, last_rate_update_ts = 0, accrued_interest = 3, last_accrual_ts = 100, suspension_ts = 0\<rparr>],
     st_active_line_count := Some 0, st_pending_auction_count := Some 1, st_total_utilized := Some 8\<rparr>"

definition no_auction :: "'t auction_client" where
  "no_auction = \<lparr>ac_get_version = (\<lambda>_ _. None), ac_settle = (\<lambda>_ _ _ _ _. None)\<rparr>"


lemmas settle_eval = settle_default_liquidation_def require_admin_auth_def require_admin_def require_auth_def
  enter_reentrancy_guard_def set_reentrancy_guard_def auction_settlement_hook_def lifecycle_settle_default_liquidation_def
  default_env_def pledge_env_def genesis_def store_defs load_line_def apply_accrual_def validate_settlement_oracle_price_def
  is_registry_configured_def allocate_recovery_def settlement_status_def record_settlement_def persist_credit_line_def ensure_credit_line_id_def
  adjust_total_utilized_def assert_total_utilized_conserved_def recompute_def line_ids_def update_active_line_count_def
  checked_arith checked_def in_i128_def i128_min_def i128_max_def signed_divide_int_def ensure_def Let_def

lemma settle_runs: "\<exists>w'. settle_default_liquidation auc 5 4 ''s1'' 5000 None default_env = Inr w'"
  by (simp add: settle_eval)


theorem settlement_not_replayable_witness:
  "\<exists>w'. settle_default_liquidation no_auction 5 4 ''s1'' 5000 None default_env = Inr w' \<and>
     (\<forall>w3. settle_default_liquidation no_auction 5 2 ''s1'' 5000 None (w'\<lparr>frame_auth := []\<rparr>) \<noteq> Inr w3)"
proof -
  obtain w' where w': "settle_default_liquidation no_auction 5 4 ''s1'' 5000 None default_env = Inr w'"
    using settle_runs by blast
  show ?thesis using settlement_not_replayable[OF w', of "w'\<lparr>frame_auth := []\<rparr>"] w' by auto
qed

lemma pending_auctions_room:
  assumes "ledger_ok s w" and "st_lines w b = Some k" and "status k \<noteq> Defaulted"
  shows "get_pending_auction_count w < u32_max"
proof -
  have ix: "index_ok (st_lines w) (st_credit_line_id w) (st_borrower_by_id w) (get_credit_line_count w)"
    and c: "get_pending_auction_count w = count_status Defaulted (st_lines w)"
    using assms(1) by (simp_all add: ledger_gap_def books_gap_def)
  have "get_credit_line_count w \<le> u32_max" using ix by (simp add: index_ok_def)
  then show ?thesis using count_status_bound_upd[OF ix assms(2,3)] c by linarith
qed

text \<open>(\<open>default_credit_line\<close>): a line is only put into default by the admin, out of an open status,
  and never inside the borrower's liquidation grace; the write keeps the accrued debt, raises the pending
  auction count by one and requests a liquidation for exactly that debt.\<close>

theorem default_credit_line_guarantees:
  assumes "default_credit_line b w = Inr w'" and "ledger_ok s w"
  shows "\<exists>a l. accrued_line b w = Some a \<and> status a \<noteq> Closed \<and> status a \<noteq> Defaulted \<and>
     st_lines w' b = Some l \<and> l = a\<lparr>status := Defaulted\<rparr> \<and> (\<exists>ad. st_admin w = Some ad \<and> ad \<in> set (signers w)) \<and>
     (0 < get_per_borrower_liquidation_grace b w \<longrightarrow>
        saturating_add_u64 (liquidation_base_ts b a w) (get_per_borrower_liquidation_grace b w) \<le> ledger_ts w) \<and>
     get_pending_auction_count w' = get_pending_auction_count w + 1 \<and>
     ([''credit'', ''liq_req''], DefaultLiquidationRequested b (utilized_amount a)) \<in> set (events w')"
proof -
  from assms(1) obtain ad u1 u2 where u: "require_admin_auth w = Inr (ad, u1)"
    and c: "enforce_accrual_admin_cooldown b u1 = Inr u2" and d: "lifecycle_default_credit_line b u2 = Inr w'"
    by (auto simp: default_credit_line_def)
  have adm: "st_admin w = Some ad \<and> ad \<in> set (signers w)" using require_admin_auth_Inr[OF u] by simp
  obtain la where u2: "u2 = relabel (st_reentrancy w) (ad # frame_auth w) la (tokens w) w"
    using require_admin_auth_Inr[OF u] accrual_cooldown_shape[OF c] by (auto simp: relabel_def)
  from d obtain k a w1 w2 where k: "st_lines u2 b = Some k" and a: "apply_accrual k u2 = Inr (a, w1)"
    and st: "status a \<in> {Active, Suspended, SelfSuspended, Restricted}"
    and gr: "\<not> (0 < get_per_borrower_liquidation_grace b w1 \<and>
        ledger_ts w1 < saturating_add_u64 (liquidation_base_ts b a w1) (get_per_borrower_liquidation_grace b w1))"
    and p: "persist_credit_line b (a\<lparr>status := Defaulted\<rparr>) (utilized_amount k) (Some (status a))
              (increment_pending_auction_count w1) = Inr w2"
    and w': "w' = emit ([''credit'', ''liq_req''], DefaultLiquidationRequested b (utilized_amount (a\<lparr>status := Defaulted\<rparr>)))
               (publish_line ''defaulted'' b (a\<lparr>status := Defaulted\<rparr>) w2)"
    by (auto simp: lifecycle_default_credit_line_def Let_def)
  have k0: "st_lines w b = Some k" using k by (simp add: u2)
  have al: "accrued_line b w = Some a" by (rule accrued_line_intro[OF k0 a[unfolded u2]])
  obtain evs where w1: "w1 = u2\<lparr>events := events u2 @ evs\<rparr>" using acc.accrue_env[OF a] by blast
  have same: "get_per_borrower_liquidation_grace b w1 = get_per_borrower_liquidation_grace b w"
    "ledger_ts w1 = ledger_ts w" "liquidation_base_ts b a w1 = liquidation_base_ts b a w"
    "get_pending_auction_count w1 = get_pending_auction_count w"
    by (simp_all add: w1 u2 relabel_def get_per_borrower_liquidation_grace_def liquidation_base_ts_def
        get_repayment_schedule_def get_pending_auction_count_def)
  have "status k \<noteq> Defaulted" using st acc.accrue_line(2)[OF a] by auto
  then have "get_pending_auction_count w < u32_max"
    using pending_auctions_room[OF assms(2) k0] by simp
  then have "get_pending_auction_count w' = get_pending_auction_count w + 1"
    using persist_fields(7)[OF p] same(4)
    by (simp add: w' publish_line_def emit_def get_pending_auction_count_def increment_pending_auction_count_def
        saturating_add_u32_def)
  moreover have "st_lines w' b = Some (a\<lparr>status := Defaulted\<rparr>)"
    using persist_fields(1)[OF p] by (simp add: w' publish_line_def emit_def)
  moreover have "([''credit'', ''liq_req''], DefaultLiquidationRequested b (utilized_amount a)) \<in> set (events w')" by (simp add: w' emit_def)
  ultimately show ?thesis using al st gr adm unfolding same by auto
qed

theorem default_credit_line_guarantees_witness:
  "\<exists>w'. default_credit_line 5 (pledge_env\<lparr>signers := [1], st_admin := Some 1\<rparr>) = Inr w' \<and>
     get_pending_auction_count w' = 1"
proof -
  let ?w = "pledge_env\<lparr>signers := [1], st_admin := Some 1\<rparr>"
  have l: "ledger_ok True ?w"
    by (simp add: pledge_env_def genesis_def ledger_simps index_ok_def collateral_ok_def count_status_def
      map_sum_def has_status_def line_ok_def u32_max_def i128_max_def)
  obtain w' where w': "default_credit_line 5 ?w = Inr w'"
    by (simp add: default_credit_line_def lifecycle_default_credit_line_def enforce_accrual_admin_cooldown_def
        require_valid_transition_def liquidation_base_ts_def assert_not_paused_def publish_line_def settle_eval)
  have "get_pending_auction_count ?w = 0" by (simp add: pledge_env_def genesis_def get_pending_auction_count_def)
  then show ?thesis using default_credit_line_guarantees[OF w' l] w' by auto
qed

end
