(* ===== verification/Freeze.thy ===== *)
theory Freeze
  imports Lifecycle
begin

text \<open>
  The stops on outbound funds (\<^verbatim>\<open>contracts/credit/src/freeze.rs\<close> and the entrypoints of
  \<^verbatim>\<open>lib.rs\<close>): the global draw freeze, the per-line freeze with its reason, the time-bounded
  borrower freeze, the compliance blocklist and the pause switch with its recorded reason.
\<close>

definition BULK_BLOCK_MAX :: nat where "BULK_BLOCK_MAX = 50"

section \<open>Freezes\<close>

definition is_draws_frozen :: "'t env \<Rightarrow> bool" where
  "is_draws_frozen w = (case st_draws_frozen w of None \<Rightarrow> False | Some st \<Rightarrow> frozen st)"

definition get_draws_freeze_reason :: "'t env \<Rightarrow> freeze_reason option" where
  "get_draws_freeze_reason w =
     (case st_draws_frozen w of None \<Rightarrow> None | Some st \<Rightarrow> if frozen st then Some (freeze_state_reason st) else None)"

definition freeze_draws :: "freeze_reason \<Rightarrow> 't env \<Rightarrow> 't env res" where
  "freeze_draws reason w =
     and_then (require_admin_auth w) (\<lambda>(_, w).
     and_then (enforce_freeze_cooldown w) (\<lambda>_.
     Inr (record_freeze_timestamp_if_cooldown (publish_draws_frozen_event True reason
            (w\<lparr>st_draws_frozen := Some \<lparr>frozen = True, freeze_state_reason = reason\<rparr>\<rparr>)))))"

definition unfreeze_draws :: "'t env \<Rightarrow> 't env res" where
  "unfreeze_draws w =
     and_then (require_admin_auth w) (\<lambda>(_, w).
     and_then (enforce_freeze_cooldown w) (\<lambda>_.
     let reason = (case st_draws_frozen w of None \<Rightarrow> LiquidityReserve | Some st \<Rightarrow> freeze_state_reason st) in
     Inr (record_freeze_timestamp_if_cooldown (publish_draws_frozen_event False reason
            (w\<lparr>st_draws_frozen := Some \<lparr>frozen = False, freeze_state_reason = reason\<rparr>\<rparr>)))))"

definition is_credit_line_frozen :: "address \<Rightarrow> 't env \<Rightarrow> bool" where
  "is_credit_line_frozen b w = (st_credit_line_freeze w b \<noteq> None)"

definition freeze_credit_line_inner :: "address \<Rightarrow> freeze_reason \<Rightarrow> 't env \<Rightarrow> 't env res" where
  "freeze_credit_line_inner b reason w =
     and_then (enforce_freeze_cooldown w) (\<lambda>_.
     and_then (ensure (get_credit_line b w \<noteq> None) (Contract CreditLineNotFound)) (\<lambda>_.
     Inr (record_freeze_timestamp_if_cooldown (publish_credit_line_freeze_event b reason True
            (w\<lparr>st_credit_line_freeze := (st_credit_line_freeze w)(b \<mapsto> reason)\<rparr>)))))"

definition freeze_credit_line :: "address \<Rightarrow> freeze_reason \<Rightarrow> 't env \<Rightarrow> 't env res" where
  "freeze_credit_line b reason w =
     and_then (require_admin_auth w) (\<lambda>(_, w).
     and_then (enforce_borrow_admin_cooldown b w) (\<lambda>w.
     freeze_credit_line_inner b reason w))"

definition unfreeze_credit_line_inner :: "address \<Rightarrow> 't env \<Rightarrow> 't env res" where
  "unfreeze_credit_line_inner b w =
     and_then (enforce_freeze_cooldown w) (\<lambda>_.
     case st_credit_line_freeze w b of
       None \<Rightarrow> Inr w
     | Some reason \<Rightarrow>
         Inr (record_freeze_timestamp_if_cooldown (publish_credit_line_freeze_event b reason False
                (w\<lparr>st_credit_line_freeze := (st_credit_line_freeze w)(b := None)\<rparr>))))"

definition unfreeze_credit_line :: "address \<Rightarrow> 't env \<Rightarrow> 't env res" where
  "unfreeze_credit_line b w =
     and_then (require_admin_auth w) (\<lambda>(_, w).
     and_then (enforce_borrow_admin_cooldown b w) (\<lambda>w.
     unfreeze_credit_line_inner b w))"

definition freeze_borrower_until :: "address \<Rightarrow> address \<Rightarrow> u64 \<Rightarrow> 't env \<Rightarrow> 't env res" where
  "freeze_borrower_until admin b expiry_ts w =
     and_then (require_admin_auth_with_argument admin w) (\<lambda>(_, w).
     and_then (enforce_borrow_admin_cooldown b w) (\<lambda>w.
     and_then (ensure (ledger_ts w < expiry_ts) (Contract InvalidAmount)) (\<lambda>_.
     Inr (record_freeze_timestamp_if_cooldown (publish_borrower_frozen_event b expiry_ts
            (storage_set_borrower_frozen_until b expiry_ts w))))))"

definition unfreeze_borrower :: "address \<Rightarrow> address \<Rightarrow> 't env \<Rightarrow> 't env res" where
  "unfreeze_borrower admin b w =
     and_then (require_admin_auth_with_argument admin w) (\<lambda>(_, w).
     and_then (enforce_borrow_admin_cooldown b w) (\<lambda>w.
     Inr (record_freeze_timestamp_if_cooldown (storage_clear_borrower_frozen b w))))"

section \<open>Blocklist\<close>

definition block_one :: "bool \<Rightarrow> address \<Rightarrow> 't env \<Rightarrow> 't env" where
  "block_one blocked b w = publish_borrower_blocked_event b blocked (set_borrower_blocked b blocked w)"

definition block_borrower :: "address \<Rightarrow> address \<Rightarrow> 't env \<Rightarrow> 't env res" where
  "block_borrower admin b w =
     and_then (require_admin_auth_with_argument admin w) (\<lambda>(_, w). Inr (block_one True b w))"

definition unblock_borrower :: "address \<Rightarrow> address \<Rightarrow> 't env \<Rightarrow> 't env res" where
  "unblock_borrower admin b w =
     and_then (require_admin_auth_with_argument admin w) (\<lambda>(_, w). Inr (block_one False b w))"

definition bulk_block_borrowers :: "address \<Rightarrow> address list \<Rightarrow> 't env \<Rightarrow> 't env res" where
  "bulk_block_borrowers admin bs w =
     and_then (require_admin_auth_with_argument admin w) (\<lambda>(_, w).
     and_then (ensure (length bs \<le> BULK_BLOCK_MAX) (Contract InvalidAmount)) (\<lambda>_.
     Inr (fold (block_one True) bs w)))"

section \<open>Pause\<close>

definition set_protocol_paused :: "bool \<Rightarrow> 't env \<Rightarrow> 't env res" where
  "set_protocol_paused paused w =
     and_then (require_admin_auth w) (\<lambda>(_, w).
     if paused = is_paused w then Inr (if paused then storage_clear_pause_reason w else w)
     else
       let w = (if \<not> paused then storage_clear_pause_reason w else w) in
       Inr (publish_paused_event paused (storage_set_paused paused w)))"

definition set_protocol_paused_with_reason :: "bool \<Rightarrow> symbol \<Rightarrow> 't env \<Rightarrow> 't env res" where
  "set_protocol_paused_with_reason paused reason w =
     and_then (require_admin_auth w) (\<lambda>(admin, w).
     let already = is_paused w in
     if paused then
       let w = storage_set_pause_reason \<lparr>pause_symbol = reason, pause_timestamp = ledger_ts w, pause_actor = admin\<rparr> w in
       if already then Inr w else Inr (publish_paused_event True (storage_set_paused True w))
     else if already then Inr (publish_paused_event False (storage_set_paused False (storage_clear_pause_reason w)))
     else Inr w)"

section \<open>The controls leave the ledger alone\<close>

lemma require_admin_auth_with_argument_Inr:
  "require_admin_auth_with_argument p w = Inr (a, w') \<Longrightarrow>
     st_admin w = Some a \<and> p = a \<and> a \<in> set (signers w) \<and> w' = w\<lparr>frame_auth := a # frame_auth w\<rparr>"
  by (auto simp: require_admin_auth_with_argument_def require_admin_def dest!: require_auth_Inr)

lemma record_freeze_same_books [simp]: "same_books w (record_freeze_timestamp_if_cooldown w')
    \<longleftrightarrow> same_books w w'"
  by (simp add: record_freeze_timestamp_if_cooldown_def)

lemma block_one_same_books: "same_books w (block_one x b w)"
  by (simp add: block_one_def set_borrower_blocked_def)

lemma fold_block_same_books: "same_books w (fold (block_one x) bs w)"
proof (induction bs arbitrary: w)
  case Nil
  then show ?case by simp
next
  case (Cons b bs)
  show ?case using same_books_trans[OF block_one_same_books Cons.IH] by simp
qed

lemma freeze_draws_books: "freeze_draws r w = Inr w' \<Longrightarrow> same_books w w'"
  by (auto simp: freeze_draws_def dest!: require_admin_auth_Inr)

lemma unfreeze_draws_books: "unfreeze_draws w = Inr w' \<Longrightarrow> same_books w w'"
  by (auto simp: unfreeze_draws_def Let_def dest!: require_admin_auth_Inr)

lemma freeze_credit_line_books: "freeze_credit_line b r w = Inr w' \<Longrightarrow> same_books w w'"
proof -
  assume "freeze_credit_line b r w = Inr w'"
  then obtain a w1 w2 where "require_admin_auth w = Inr (a, w1)" "enforce_borrow_admin_cooldown b w1 = Inr w2"
    and "same_books w2 w'"
    by (auto simp: freeze_credit_line_def freeze_credit_line_inner_def)
  then show ?thesis using cooldown_same_books(2) same_books_trans require_admin_auth_Inr frame_same_books(1) by metis
qed

lemma unfreeze_credit_line_books: "unfreeze_credit_line b w = Inr w' \<Longrightarrow> same_books w w'"
proof -
  assume "unfreeze_credit_line b w = Inr w'"
  then obtain a w1 w2 where "require_admin_auth w = Inr (a, w1)" "enforce_borrow_admin_cooldown b w1 = Inr w2"
    and "same_books w2 w'"
    by (auto simp: unfreeze_credit_line_def unfreeze_credit_line_inner_def split: option.splits)
  then show ?thesis using cooldown_same_books(2) same_books_trans require_admin_auth_Inr frame_same_books(1) by metis
qed

lemma freeze_borrower_until_books: "freeze_borrower_until ad b e w = Inr w' \<Longrightarrow> same_books w w'"
proof -
  assume "freeze_borrower_until ad b e w = Inr w'"
  then obtain a w1 w2 where "require_admin_auth_with_argument ad w = Inr (a, w1)"
    "enforce_borrow_admin_cooldown b w1 = Inr w2" and "same_books w2 w'"
    by (auto simp: freeze_borrower_until_def)
  then show ?thesis
    using cooldown_same_books(2) same_books_trans require_admin_auth_with_argument_Inr frame_same_books(1) by metis
qed

lemma unfreeze_borrower_books: "unfreeze_borrower ad b w = Inr w' \<Longrightarrow> same_books w w'"
proof -
  assume "unfreeze_borrower ad b w = Inr w'"
  then obtain a w1 w2 where "require_admin_auth_with_argument ad w = Inr (a, w1)"
    "enforce_borrow_admin_cooldown b w1 = Inr w2" and "same_books w2 w'"
    by (auto simp: unfreeze_borrower_def)
  then show ?thesis
    using cooldown_same_books(2) same_books_trans require_admin_auth_with_argument_Inr frame_same_books(1) by metis
qed

lemma block_borrower_books: "block_borrower ad b w = Inr w' \<Longrightarrow> same_books w w'"
  by (auto simp: block_borrower_def dest!: require_admin_auth_with_argument_Inr)
    (rule same_books_trans[OF frame_same_books(1) block_one_same_books])

lemma unblock_borrower_books: "unblock_borrower ad b w = Inr w' \<Longrightarrow> same_books w w'"
  by (auto simp: unblock_borrower_def dest!: require_admin_auth_with_argument_Inr)
    (rule same_books_trans[OF frame_same_books(1) block_one_same_books])

lemma bulk_block_borrowers_books: "bulk_block_borrowers ad bs w = Inr w' \<Longrightarrow> same_books w w'"
  by (auto simp: bulk_block_borrowers_def dest!: require_admin_auth_with_argument_Inr)
    (rule same_books_trans[OF frame_same_books(1) fold_block_same_books])

lemma set_protocol_paused_books: "set_protocol_paused p w = Inr w' \<Longrightarrow> same_books w w'"
  by (auto simp: set_protocol_paused_def Let_def dest!: require_admin_auth_Inr split: if_splits)

lemma set_protocol_paused_with_reason_books: "set_protocol_paused_with_reason p r w = Inr w' \<Longrightarrow> same_books w w'"
  by (auto simp: set_protocol_paused_with_reason_def Let_def dest!: require_admin_auth_Inr split: if_splits)

end
