(* ===== verification/Risk.thy ===== *)
theory Risk
  imports Freeze Cooldown
begin

text \<open>
  Pricing and limits (\<^verbatim>\<open>contracts/credit/src/risk.rs\<close>, \<^verbatim>\<open>scoring.rs\<close> and their
  entrypoints in \<^verbatim>\<open>lib.rs\<close>): the piecewise-linear rate formula, rate-change limits,
  per-borrower floors, ceilings and utilization caps, the penalty surcharge, the score
  pre-commitment, and the risk update that applies all of them to a line.
\<close>

section \<open>Rate formula and settings\<close>

definition compute_rate_from_score :: "rate_formula_config \<Rightarrow> u32 \<Rightarrow> u32" where
  "compute_rate_from_score cfg score =
     (let raw = saturating_add_u32 (base_rate_bps cfg) (saturating_mul_u32 score (slope_bps_per_score cfg));
          upper = min (max_rate_bps cfg) MAX_INTEREST_RATE_BPS;
          lower = min (min_rate_bps cfg) upper in
      clamp_int lower upper raw)"

definition set_rate_change_limits :: "u32 \<Rightarrow> u64 \<Rightarrow> 't env \<Rightarrow> 't env res" where
  "set_rate_change_limits max_change min_interval w =
     and_then (assert_not_paused w) (\<lambda>_.
     and_then (require_admin_auth w) (\<lambda>(_, w).
     Inr (w\<lparr>st_rate_cfg :=
            Some \<lparr>max_rate_change_bps = max_change, rate_change_min_interval = min_interval\<rparr>\<rparr>)))"

definition set_borrower_rate_floor :: "address \<Rightarrow> u32 option \<Rightarrow> 't env \<Rightarrow> 't env res" where
  "set_borrower_rate_floor b floor_bps w =
     and_then (require_admin_auth w) (\<lambda>(_, w).
     and_then (ensure (case floor_bps of None \<Rightarrow> True | Some f \<Rightarrow> f \<le> MAX_INTEREST_RATE_BPS) RustPanic) (\<lambda>_.
     set_borrower_rate_floor_store b floor_bps w))"

definition set_borrower_rate_ceiling :: "address \<Rightarrow> u32 option \<Rightarrow> 't env \<Rightarrow> 't env res" where
  "set_borrower_rate_ceiling b ceiling_bps w =
     and_then (require_admin_auth w) (\<lambda>(_, w).
     and_then (case ceiling_bps of
         None \<Rightarrow> Inr ()
       | Some c \<Rightarrow>
           and_then (ensure (c \<le> MAX_INTEREST_RATE_BPS) RustPanic) (\<lambda>_.
           case get_borrower_rate_floor b w of
             None \<Rightarrow> Inr ()
           | Some f \<Rightarrow> ensure (\<not> c < f) (Contract RateTooHigh))) (\<lambda>_.
     set_borrower_rate_ceiling_store b ceiling_bps w))"

definition set_utilization_cap :: "address \<Rightarrow> u32 \<Rightarrow> 't env \<Rightarrow> 't env res" where
  "set_utilization_cap b cap_bps w =
     and_then (require_admin_auth w) (\<lambda>(_, w).
     and_then (ensure (cap_bps \<le> 10000) RustPanic) (\<lambda>_.
     set_utilization_cap_bps_store b (if cap_bps = 0 then None else Some cap_bps) w))"

definition set_penalty_surcharge_bps :: "u32 \<Rightarrow> 't env \<Rightarrow> 't env res" where
  "set_penalty_surcharge_bps bps w =
     and_then (assert_not_paused w) (\<lambda>_.
     and_then (require_admin_auth w) (\<lambda>(_, w).
     and_then (assert_no_active_auctions w) (\<lambda>_.
     and_then (ensure (bps \<le> MAX_INTEREST_RATE_BPS) RustPanic) (\<lambda>_.
     Inr (storage_set_penalty_surcharge_bps bps w)))))"

definition set_rate_formula_config :: "u32 \<Rightarrow> u32 \<Rightarrow> u32 \<Rightarrow> u32 \<Rightarrow> 't env \<Rightarrow> 't env res" where
  "set_rate_formula_config base slope lo hi w =
     and_then (assert_not_paused w) (\<lambda>_.
     and_then (require_admin_auth w) (\<lambda>(_, w).
     and_then (ensure (lo \<le> MAX_INTEREST_RATE_BPS) (Contract RateTooHigh)) (\<lambda>_.
     and_then (ensure (lo \<le> hi) (Contract InvalidAmount)) (\<lambda>_.
     and_then (ensure (hi \<le> MAX_INTEREST_RATE_BPS) (Contract RateTooHigh)) (\<lambda>_.
     and_then (ensure (base \<le> MAX_INTEREST_RATE_BPS) (Contract RateTooHigh)) (\<lambda>_.
     Inr (publish_rate_formula_config_event True (w\<lparr>st_rate_form :=
            Some \<lparr>base_rate_bps = base, slope_bps_per_score = slope, min_rate_bps = lo,
                  max_rate_bps = hi\<rparr>\<rparr>))))))))"

definition clear_rate_formula_config :: "'t env \<Rightarrow> 't env res" where
  "clear_rate_formula_config w =
     and_then (require_admin_auth w) (\<lambda>(_, w).
     Inr (publish_rate_formula_config_event False (w\<lparr>st_rate_form := None\<rparr>)))"

definition set_risk_admin_cooldown :: "u64 \<Rightarrow> 't env \<Rightarrow> 't env res" where
  "set_risk_admin_cooldown seconds w =
     and_then (assert_not_paused w) (\<lambda>_.
     and_then (require_admin_auth w) (\<lambda>(_, w).
     Inr (publish_risk_admin_cooldown_configured seconds (storage_set_risk_admin_cooldown_seconds seconds w))))"

section \<open>Score pre-commitment\<close>

primrec sum_bytes :: "bytes \<Rightarrow> u32 \<Rightarrow> u32" where
  "sum_bytes [] acc = acc"
| "sum_bytes (b # bs) acc = sum_bytes bs (saturating_add_u32 acc (uint b))"

definition derive_score_from_hash :: "bytes \<Rightarrow> u32" where
  "derive_score_from_hash h = sum_bytes (take 32 h) 0 mod 101"

definition commit_vrf_output :: "address \<Rightarrow> bytes \<Rightarrow> 't env \<Rightarrow> 't env res" where
  "commit_vrf_output b h w =
     and_then (assert_not_paused w) (\<lambda>_.
     and_then (require_admin_auth w) (\<lambda>(_, w).
     and_then (ensure (st_vrf_commitment w b = None) (Contract InvalidAmount)) (\<lambda>_.
     Inr (w\<lparr>st_vrf_commitment := (st_vrf_commitment w)(b \<mapsto>
            \<lparr>commitment_hash = h, committed_at = ledger_ts w\<rparr>)\<rparr>))))"

definition verify_vrf_commitment :: "address \<Rightarrow> u32 \<Rightarrow> 't env \<Rightarrow> bool res" where
  "verify_vrf_commitment b score w =
     and_then (ok_or (Contract MissingVrfCommitment) (st_vrf_commitment w b)) (\<lambda>c.
     Inr (derive_score_from_hash (commitment_hash c) = score))"

definition clear_vrf_commitment :: "address \<Rightarrow> 't env \<Rightarrow> 't env res" where
  "clear_vrf_commitment b w =
     and_then (assert_not_paused w) (\<lambda>_.
     and_then (require_admin_auth w) (\<lambda>(_, w).
     Inr (w\<lparr>st_vrf_commitment := (st_vrf_commitment w)(b := None)\<rparr>)))"

definition get_vrf_commitment :: "address \<Rightarrow> 't env \<Rightarrow> vrf_commitment option" where
  "get_vrf_commitment b w = st_vrf_commitment w b"

section \<open>Risk update\<close>

text \<open>The phases of \<open>update_risk_parameters\<close>: the commitment check, the rate after formula,
  floor and ceiling, the rate-change limits, the status after a limit change.\<close>

definition check_committed_score :: "address \<Rightarrow> u32 \<Rightarrow> credit_line_data \<Rightarrow> 't env \<Rightarrow> unit res" where
  "check_committed_score b score line w =
     (if score \<noteq> risk_score line \<and> get_vrf_commitment b w \<noteq> None
      then and_then (verify_vrf_commitment b score w) (\<lambda>ok. ensure ok (Contract Unauthorized))
      else Inr ())"

definition priced_rate :: "address \<Rightarrow> u32 \<Rightarrow> u32 \<Rightarrow> 't env \<Rightarrow> u32" where
  "priced_rate b rate score w =
     (let effective = (case st_rate_form w of Some cfg \<Rightarrow> compute_rate_from_score cfg score | None \<Rightarrow> rate);
          floored = (case get_borrower_rate_floor b w of Some f \<Rightarrow> max effective f | None \<Rightarrow> effective) in
      case get_borrower_rate_ceiling b w of Some c \<Rightarrow> min floored c | None \<Rightarrow> floored)"

definition apply_rate_limits :: "u32 \<Rightarrow> credit_line_data \<Rightarrow> 't env \<Rightarrow> credit_line_data res" where
  "apply_rate_limits final_rate line w =
     (case st_rate_cfg w of
        None \<Rightarrow> Inr line
      | Some cfg \<Rightarrow>
          if final_rate = interest_rate_bps line then Inr line
          else
            and_then (ensure (\<bar>final_rate - interest_rate_bps line\<bar> \<le> max_rate_change_bps cfg) (Contract RateTooHigh)) (\<lambda>_.
            and_then (if 0 < rate_change_min_interval cfg \<and> 0 < last_rate_update_ts line
                      then ensure (\<not> saturating_sub_u64 (ledger_ts w) (last_rate_update_ts line) < rate_change_min_interval cfg)
                             (Contract TimestampRegression)
                      else Inr ()) (\<lambda>_.
            Inr (line\<lparr>last_rate_update_ts := ledger_ts w\<rparr>))))"

definition status_for_limit :: "i128 \<Rightarrow> credit_line_data \<Rightarrow> credit_status" where
  "status_for_limit limit line =
     (if limit < utilized_amount line then (if status line = Active then Restricted else status line)
      else if status line = Restricted then Active else status line)"

definition risk_update_risk_parameters :: "address \<Rightarrow> i128 \<Rightarrow> u32 \<Rightarrow> u32 \<Rightarrow> 't env \<Rightarrow> 't env res" where
  "risk_update_risk_parameters b limit rate score w =
     and_then (assert_not_paused w) (\<lambda>_.
     and_then (assert_risk_admin_cooldown_elapsed_for b w) (\<lambda>_.
     and_then (load_line b w) (\<lambda>stored_line.
     and_then (apply_accrual stored_line w) (\<lambda>(line, w).
     and_then (ensure (\<not> limit < 0) (Contract NegativeLimit)) (\<lambda>_.
     and_then (ensure (score \<le> MAX_RISK_SCORE) (Contract ScoreTooHigh)) (\<lambda>_.
     and_then (check_committed_score b score line w) (\<lambda>_.
     and_then (validate_credit_limit_bounds limit w) (\<lambda>_.
     let final_rate = priced_rate b rate score w in
     and_then (apply_rate_limits final_rate line w) (\<lambda>line.
     and_then (ensure (final_rate \<le> MAX_INTEREST_RATE_BPS) (Contract RateTooHigh)) (\<lambda>_.
     let updated = line\<lparr>interest_rate_bps := final_rate, risk_score := score,
                        status := status_for_limit limit line, credit_limit := limit\<rparr> in
     and_then (persist_credit_line b updated (utilized_amount stored_line) (Some (status line)) w) (\<lambda>w.
     Inr (set_last_risk_admin_action_ts_for b (ledger_ts w)
            (publish_risk_parameters_updated b limit final_rate score w)))))))))))))"

definition update_risk_parameters :: "address \<Rightarrow> i128 \<Rightarrow> u32 \<Rightarrow> u32 \<Rightarrow> 't env \<Rightarrow> 't env res" where
  "update_risk_parameters b limit rate score w =
     and_then (require_admin_auth w) (\<lambda>(_, w).
     and_then (enforce_accrual_admin_cooldown b w) (\<lambda>w.
     risk_update_risk_parameters b limit rate score w))"

section \<open>The ledger\<close>

lemma apply_rate_limits_line:
  assumes "apply_rate_limits r line w = Inr line'"
  shows "\<exists>ts. line' = line\<lparr>last_rate_update_ts := ts\<rparr>"
proof -
  have "line' = line\<lparr>last_rate_update_ts := last_rate_update_ts line'\<rparr>"
    using assms by (auto simp: apply_rate_limits_def split: option.splits if_splits)
  then show ?thesis by blast
qed

lemma status_for_limit_defaulted [simp]: "status_for_limit limit l = Defaulted \<longleftrightarrow> status l = Defaulted"
  by (simp add: status_for_limit_def)

lemma status_for_limit_ts [simp]:
  "status_for_limit limit (l\<lparr>last_rate_update_ts := ts\<rparr>) = status_for_limit limit l"
  by (simp add: status_for_limit_def)

text \<open>A successful risk update, phase by phase.\<close>

lemma risk_update_Inr:
  assumes "risk_update_risk_parameters b limit rate score w = Inr w'"
  obtains k l w1 ts w2 where "st_lines w b = Some k" and "apply_accrual k w = Inr (l, w1)"
    and "\<not> is_paused w" and "assert_risk_admin_cooldown_elapsed_for b w = Inr ()"
    and "0 \<le> limit" and "score \<le> MAX_RISK_SCORE" and "check_committed_score b score l w1 = Inr ()"
    and "validate_credit_limit_bounds limit w1 = Inr ()"
    and "apply_rate_limits (priced_rate b rate score w1) l w1 = Inr (l\<lparr>last_rate_update_ts := ts\<rparr>)"
    and "priced_rate b rate score w1 \<le> MAX_INTEREST_RATE_BPS"
    and "persist_credit_line b (l\<lparr>last_rate_update_ts := ts, interest_rate_bps := priced_rate b rate score w1,
           risk_score := score, status := status_for_limit limit l, credit_limit := limit\<rparr>)
           (utilized_amount k) (Some (status k)) w1 = Inr w2"
    and "w' = set_last_risk_admin_action_ts_for b (ledger_ts w2)
           (emit ([''credit'', ''risk_upd''], RiskParametersUpdatedEvent b limit (priced_rate b rate score w1) score) w2)"
proof -
  from assms obtain k l w1 l2 w2 where r: "st_lines w b = Some k" "apply_accrual k w = Inr (l, w1)"
    "\<not> is_paused w" "assert_risk_admin_cooldown_elapsed_for b w = Inr ()"
    "0 \<le> limit" "score \<le> MAX_RISK_SCORE" "check_committed_score b score l w1 = Inr ()"
    "validate_credit_limit_bounds limit w1 = Inr ()"
    "apply_rate_limits (priced_rate b rate score w1) l w1 = Inr l2"
    "priced_rate b rate score w1 \<le> MAX_INTEREST_RATE_BPS"
    and p: "persist_credit_line b (l2\<lparr>interest_rate_bps := priced_rate b rate score w1,
           risk_score := score, status := status_for_limit limit l2, credit_limit := limit\<rparr>)
           (utilized_amount k) (Some (status l2)) w1 = Inr w2"
    and w': "w' = set_last_risk_admin_action_ts_for b (ledger_ts w2)
           (emit ([''credit'', ''risk_upd''], RiskParametersUpdatedEvent b limit (priced_rate b rate score w1) score) w2)"
    by (auto simp: risk_update_risk_parameters_def Let_def)
  obtain ts where l2: "l2 = l\<lparr>last_rate_update_ts := ts\<rparr>" using apply_rate_limits_line[OF r(9)] by blast
  have "status l = status k" by (rule acc.accrue_line(2)[OF r(2)])
  then show ?thesis using that[OF r(1-8) _ r(10) _ w', of ts] p r(9)
    by (simp add: l2)
qed

lemma risk_update_ledger:
  assumes "risk_update_risk_parameters b limit rate score w = Inr w'" and "ledger_ok s w"
  shows "ledger_ok s w'"
proof (rule risk_update_Inr[OF assms(1)])
  fix k l w1 ts w2
  assume k: "st_lines w b = Some k" and a: "apply_accrual k w = Inr (l, w1)"
    and p: "persist_credit_line b (l\<lparr>last_rate_update_ts := ts, interest_rate_bps := priced_rate b rate score w1,
           risk_score := score, status := status_for_limit limit l, credit_limit := limit\<rparr>)
           (utilized_amount k) (Some (status k)) w1 = Inr w2"
    and w': "w' = set_last_risk_admin_action_ts_for b (ledger_ts w2)
           (emit ([''credit'', ''risk_upd''], RiskParametersUpdatedEvent b limit (priced_rate b rate score w1) score) w2)"
  have "line_ok s b l" by (rule acc.accrue_line_ok[OF a ledger_line[OF assms(2) k]])
  then have "ledger_ok s w2" using acc.accrue_then_persist[OF a assms(2) k p] acc.accrue_line(2)[OF a]
    by (simp add: line_ok_def)
  then show ?thesis unfolding w' set_last_risk_admin_action_ts_for_def by (simp add: emit_def ledger_simps)
qed

lemma update_risk_parameters_ledger:
  "update_risk_parameters b limit rate score w = Inr w' \<Longrightarrow> ledger_ok s w \<Longrightarrow> ledger_ok s w'"
  unfolding update_risk_parameters_def by (erule admin_accrual_action) (auto dest: risk_update_ledger)

lemma risk_setting_books:
  "set_rate_change_limits c i w = Inr w' \<Longrightarrow> same_books w w'"
  "set_borrower_rate_floor b f w = Inr w' \<Longrightarrow> same_books w w'"
  "set_borrower_rate_ceiling b f w = Inr w' \<Longrightarrow> same_books w w'"
  "set_utilization_cap b u w = Inr w' \<Longrightarrow> same_books w w'"
  "set_penalty_surcharge_bps u w = Inr w' \<Longrightarrow> same_books w w'"
  "set_rate_formula_config p q r t w = Inr w' \<Longrightarrow> same_books w w'"
  "clear_rate_formula_config w = Inr w' \<Longrightarrow> same_books w w'"
  "set_risk_admin_cooldown i w = Inr w' \<Longrightarrow> same_books w w'"
  "commit_vrf_output b h w = Inr w' \<Longrightarrow> same_books w w'"
  "clear_vrf_commitment b w = Inr w' \<Longrightarrow> same_books w w'"
  by (auto dest!: require_admin_auth_Inr simp: set_rate_change_limits_def)
    (auto dest!: require_admin_auth_Inr simp: set_borrower_rate_floor_def set_borrower_rate_floor_store_def
      set_borrower_rate_ceiling_def set_borrower_rate_ceiling_store_def set_utilization_cap_def
      set_utilization_cap_bps_store_def set_penalty_surcharge_bps_def set_rate_formula_config_def
      clear_rate_formula_config_def set_risk_admin_cooldown_def commit_vrf_output_def clear_vrf_commitment_def)

section \<open>Properties\<close>

text \<open>(\<open>compute_rate_from_score\<close>): for \<^verbatim>\<open>u32\<close> inputs the saturating
  arithmetic is invisible: the rate is the exact line \<open>base + score * slope\<close> clamped between
  the configured bounds, themselves capped at 100%.\<close>

theorem rate_formula_exact:
  assumes "0 \<le> base_rate_bps cfg" and "0 \<le> slope_bps_per_score cfg" and "0 \<le> score"
  shows "compute_rate_from_score cfg score =
     max (min (min_rate_bps cfg) (min (max_rate_bps cfg) 10000))
         (min (min (max_rate_bps cfg) 10000) (base_rate_bps cfg + score * slope_bps_per_score cfg))"
proof -
  have invisible: "min (min u 10000) (min u32_max (x + min u32_max y)) = min (min u 10000) (x + y)"
    if "0 \<le> x" "0 \<le> y" for u x y :: int
    using that by (simp add: u32_max_def min_def)
  have "0 \<le> score * slope_bps_per_score cfg" using assms by simp
  then show ?thesis using assms(1)
    by (simp add: compute_rate_from_score_def MAX_INTEREST_RATE_BPS_def Let_def clamp_int_def
        saturating_add_u32_def saturating_mul_u32_def invisible)
qed

theorem rate_formula_exact_witness:
  "compute_rate_from_score \<lparr>base_rate_bps = 300, slope_bps_per_score = 25, min_rate_bps = 500,
     max_rate_bps = 2000\<rparr> 60 = 1800"
  by (subst rate_formula_exact) simp_all

text \<open>C14 (\<open>update_risk_parameters\<close>): a successful update stores a line whose rate lies within
  the borrower's ceiling, above the borrower's floor unless the ceiling is lower, at most 100%,
  within the configured step of the old rate; whose score is at most 100 and, when it changes under
  a published pre-commitment, the one the committed hash reduces to; whose limit is the requested
  one within the configured bounds; and which is restricted rather than active when the debt exceeds
  the new limit.  A limit below the debt is thus accepted, as \<^verbatim>\<open>docs/state-machine.md\<close> has it, and not refused with
  \<open>OverLimit\<close>, as the panic list of \<^verbatim>\<open>risk.rs\<close> and the error table of \<^verbatim>\<open>docs/credit.md\<close> say.\<close>

theorem update_risk_parameters_guarantees:
  fixes w :: "'t env"
  assumes "update_risk_parameters b limit rate score w = Inr w'"
  shows "\<exists>k l. st_lines w b = Some k \<and> st_lines w' b = Some l \<and>
     credit_limit l = limit \<and> 0 \<le> limit \<and>
     (\<forall>m. st_min_credit_limit w = Some m \<longrightarrow> m \<le> limit) \<and>
     (\<forall>m. st_max_credit_limit w = Some m \<longrightarrow> limit \<le> m) \<and>
     risk_score l = score \<and> score \<le> 100 \<and> interest_rate_bps l \<le> 10000 \<and>
     (\<forall>c. st_rate_ceiling_bps w b = Some c \<longrightarrow> interest_rate_bps l \<le> c) \<and>
     (\<forall>f. st_rate_floor_bps w b = Some f \<and> (\<forall>c. st_rate_ceiling_bps w b = Some c \<longrightarrow> f \<le> c)
        \<longrightarrow> f \<le> interest_rate_bps l) \<and>
     (\<forall>cfg. st_rate_cfg w = Some cfg \<and> interest_rate_bps l \<noteq> interest_rate_bps k
        \<longrightarrow> \<bar>interest_rate_bps l - interest_rate_bps k\<bar> \<le> max_rate_change_bps cfg \<and>
            last_rate_update_ts l = ledger_ts w) \<and>
     (\<forall>c. st_vrf_commitment w b = Some c \<and> score \<noteq> risk_score k
        \<longrightarrow> score = derive_score_from_hash (commitment_hash c)) \<and>
     (status l = Active \<longrightarrow> utilized_amount l \<le> limit) \<and>
     (status k = Active \<or> status k = Restricted \<longrightarrow>
        status l = (if limit < utilized_amount l then Restricted else Active))"
proof -
  from assms obtain a w1 w2 where u: "require_admin_auth w = Inr (a, w1)"
    and c: "enforce_accrual_admin_cooldown b w1 = Inr w2"
    and r: "risk_update_risk_parameters b limit rate score w2 = Inr w'"
    by (auto simp: update_risk_parameters_def)
  obtain fa la where w2: "w2 = w\<lparr>frame_auth := fa, st_last_accrual_admin_action_ts := la\<rparr>"
    using require_admin_auth_Inr[OF u] accrual_cooldown_shape[OF c] by auto
  show ?thesis
  proof (rule risk_update_Inr[OF r])
    fix k l ts and w3 w4 :: "'t env"
    let ?r = "priced_rate b rate score w3"
    assume k: "st_lines w2 b = Some k" and ac: "apply_accrual k w2 = Inr (l, w3)"
      and lim: "0 \<le> limit" and sc: "score \<le> MAX_RISK_SCORE"
      and vrf: "check_committed_score b score l w3 = Inr ()"
      and bd: "validate_credit_limit_bounds limit w3 = Inr ()"
      and rl: "apply_rate_limits ?r l w3 = Inr (l\<lparr>last_rate_update_ts := ts\<rparr>)"
      and mx: "?r \<le> MAX_INTEREST_RATE_BPS"
      and p: "persist_credit_line b (l\<lparr>last_rate_update_ts := ts, interest_rate_bps := ?r,
           risk_score := score, status := status_for_limit limit l, credit_limit := limit\<rparr>)
           (utilized_amount k) (Some (status k)) w3 = Inr w4"
      and w': "w' = set_last_risk_admin_action_ts_for b (ledger_ts w4)
           (emit ([''credit'', ''risk_upd''], RiskParametersUpdatedEvent b limit ?r score) w4)"
    let ?l = "l\<lparr>last_rate_update_ts := ts, interest_rate_bps := ?r,
           risk_score := score, status := status_for_limit limit l, credit_limit := limit\<rparr>"
    obtain evs where w3: "w3 = w2\<lparr>events := events w2 @ evs\<rparr>" using acc.accrue_env[OF ac] by blast
    note same = acc.accrue_line[OF ac]
    have l': "st_lines w' b = Some ?l"
      using persist_fields(1)[OF p] by (simp add: w' set_last_risk_admin_action_ts_for_def emit_def)
    have k0: "st_lines w b = Some k" using k by (simp add: w2)
    have bounds: "(\<forall>m. st_min_credit_limit w = Some m \<longrightarrow> m \<le> limit) \<and>
        (\<forall>m. st_max_credit_limit w = Some m \<longrightarrow> limit \<le> m)"
      using bd by (auto simp: w3 w2 validate_credit_limit_bounds_def split: option.splits)
    have ceil: "\<forall>c. st_rate_ceiling_bps w b = Some c \<longrightarrow> ?r \<le> c"
      by (simp add: priced_rate_def Let_def w3 w2 get_borrower_rate_ceiling_def)
    have floor: "f \<le> ?r" if "st_rate_floor_bps w b = Some f"
      "\<forall>c. st_rate_ceiling_bps w b = Some c \<longrightarrow> f \<le> c" for f
      using that by (simp add: priced_rate_def Let_def w3 w2 get_borrower_rate_ceiling_def
          get_borrower_rate_floor_def split: option.split)
    have step: "\<forall>cfg. st_rate_cfg w = Some cfg \<and> ?r \<noteq> interest_rate_bps k
        \<longrightarrow> \<bar>?r - interest_rate_bps k\<bar> \<le> max_rate_change_bps cfg \<and> ts = ledger_ts w"
      using rl same(4) by (auto simp: apply_rate_limits_def w3 w2 dest!: arg_cong[of _ _ last_rate_update_ts])
    have com: "\<forall>c. st_vrf_commitment w b = Some c \<and> score \<noteq> risk_score k
        \<longrightarrow> score = derive_score_from_hash (commitment_hash c)"
      using vrf same(5) by (auto simp: check_committed_score_def get_vrf_commitment_def
          verify_vrf_commitment_def w3 w2)
    have st: "(status ?l = Active \<longrightarrow> utilized_amount ?l \<le> limit) \<and>
        (status k = Active \<or> status k = Restricted \<longrightarrow>
           status ?l = (if limit < utilized_amount ?l then Restricted else Active))"
      using same(2) by (auto simp: status_for_limit_def)
    show ?thesis
      by (intro exI[of _ k] exI[of _ ?l])
        (use k0 l' bounds ceil floor step com st lim sc mx in
          \<open>simp add: MAX_RISK_SCORE_def MAX_INTEREST_RATE_BPS_def\<close>)
  qed
qed

definition risk_env :: "(address \<times> address \<Rightarrow> int) env" where
  "risk_env = pledge_env\<lparr>signers := [1], st_admin := Some 1, st_rad_cool := Some 60,
     st_rate_ceiling_bps := [5 \<mapsto> 900], st_rate_cfg := Some \<lparr>max_rate_change_bps = 1000, rate_change_min_interval = 60\<rparr>,
     st_vrf_commitment := [5 \<mapsto> \<lparr>commitment_hash = [120, 80], committed_at = 3\<rparr>]\<rparr>"

lemmas risk_eval = risk_env_def pledge_env_def genesis_def update_risk_parameters_def require_admin_auth_def
  require_admin_def require_auth_def enforce_accrual_admin_cooldown_def risk_update_risk_parameters_def
  assert_not_paused_def store_defs assert_risk_admin_cooldown_elapsed_for_def load_line_def apply_accrual_def
  check_committed_score_def get_vrf_commitment_def verify_vrf_commitment_def derive_score_from_hash_def
  validate_credit_limit_bounds_def priced_rate_def compute_rate_from_score_def apply_rate_limits_def
  status_for_limit_def persist_credit_line_def ensure_credit_line_id_def adjust_total_utilized_def
  update_active_line_count_def MAX_RISK_SCORE_def MAX_INTEREST_RATE_BPS_def checked_arith checked_def
  in_i128_def i128_min_def i128_max_def saturating_add_u32_def saturating_add_u64_def u32_max_def u64_max_def
  ensure_def Let_def

theorem update_risk_parameters_guarantees_witness:
  "\<exists>w' l. update_risk_parameters 5 20 950 99 risk_env = Inr w' \<and> st_lines w' 5 = Some l \<and>
     credit_limit l = 20 \<and> interest_rate_bps l \<le> 900 \<and> risk_score l = derive_score_from_hash [120, 80]"
proof -
  obtain w' where w': "update_risk_parameters 5 20 950 99 risk_env = Inr w'"
    by (simp add: risk_eval)
  have "st_rate_ceiling_bps risk_env 5 = Some 900"
    "st_vrf_commitment risk_env 5 = Some \<lparr>commitment_hash = [120, 80], committed_at = 3\<rparr>"
    "\<And>k. st_lines risk_env 5 = Some k \<Longrightarrow> risk_score k = 0"
    by (simp_all add: risk_env_def pledge_env_def)
  then show ?thesis using update_risk_parameters_guarantees[OF w'] w' by fastforce
qed

text \<open>The risk cool-off is a cool-off gate, per borrower.\<close>

definition risk_action_stamp :: "address \<Rightarrow> 't env \<Rightarrow> 't env" where
  "risk_action_stamp b w = set_last_risk_admin_action_ts_for b (ledger_ts w) w"

definition risk_action_last :: "address \<Rightarrow> 't env \<Rightarrow> u64 option" where
  "risk_action_last b w =
     (if get_last_risk_admin_action_ts_for b w = 0 then None else Some (get_last_risk_admin_action_ts_for b w))"

interpretation rad_cd: cooldown_gate ledger_ts "assert_risk_admin_cooldown_elapsed_for b" "risk_action_stamp b"
  get_risk_admin_cooldown_seconds "risk_action_last b" "Contract RiskAdminCooldownActive" for b
  by unfold_locales (auto simp: risk_action_stamp_def risk_action_last_def store_defs
      assert_risk_admin_cooldown_elapsed_for_def Let_def ensure_def split: if_splits)

text \<open>(risk cool-off): two successful risk updates of one borrower, with the recorded action and
  the configured cool-off unchanged in between, are at least the cool-off apart (saturating at the end
  of time).\<close>

theorem risk_updates_spaced:
  fixes w w2 :: "'t env"
  assumes "update_risk_parameters b limit rate score w = Inr w1"
    and "update_risk_parameters b limit2 rate2 score2 w2 = Inr w3"
    and "st_rad_last w2 b = st_rad_last w1 b" and "st_rad_cool w2 = st_rad_cool w1"
    and "0 < ledger_ts w" and "0 < get_risk_admin_cooldown_seconds w"
  shows "min u64_max (ledger_ts w + get_risk_admin_cooldown_seconds w) \<le> ledger_ts w2"
proof -
  from assms(2) obtain a v1 v2 where "require_admin_auth w2 = Inr (a, v1)"
    "enforce_accrual_admin_cooldown b v1 = Inr v2" and r2: "risk_update_risk_parameters b limit2 rate2 score2 v2 = Inr w3"
    by (auto simp: update_risk_parameters_def)
  then obtain fa la where v2: "v2 = w2\<lparr>frame_auth := fa, st_last_accrual_admin_action_ts := la\<rparr>"
    using require_admin_auth_Inr accrual_cooldown_shape by fastforce
  have g: "assert_risk_admin_cooldown_elapsed_for b v2 = Inr ()"
    by (rule risk_update_Inr[OF r2])
  from assms(1) obtain a u1 u2 where "require_admin_auth w = Inr (a, u1)"
    "enforce_accrual_admin_cooldown b u1 = Inr u2" and r1: "risk_update_risk_parameters b limit rate score u2 = Inr w1"
    by (auto simp: update_risk_parameters_def)
  then obtain fa la where u2: "u2 = w\<lparr>frame_auth := fa, st_last_accrual_admin_action_ts := la\<rparr>"
    using require_admin_auth_Inr accrual_cooldown_shape by fastforce
  have "st_rad_last w1 b = Some (ledger_ts w) \<and> st_rad_cool w1 = st_rad_cool w"
  proof (rule risk_update_Inr[OF r1])
    fix k l v ts v' r e
    assume a: "apply_accrual k u2 = Inr (l, v)"
      and "persist_credit_line b r (utilized_amount k) (Some (status k)) v = Inr v'"
      and w1: "w1 = set_last_risk_admin_action_ts_for b (ledger_ts v') (emit e v')"
    then have "line_write b r v v'" using persist_line_write by blast
    moreover have "ledger_ts v = ledger_ts w" "st_rad_cool v = st_rad_cool w"
      using acc.accrue_env[OF a] u2 by auto
    ultimately show ?thesis by (auto simp: w1 set_last_risk_admin_action_ts_for_def emit_def line_write_def)
  qed
  then have "risk_action_last b v2 = risk_action_last b (risk_action_stamp b w)"
    and "get_risk_admin_cooldown_seconds v2 = get_risk_admin_cooldown_seconds w"
    using assms(3,4) by (simp_all add: v2 risk_action_last_def risk_action_stamp_def store_defs)
  from rad_cd.spaced[OF assms(5) this assms(6) g] show ?thesis by (simp add: v2)
qed

definition risk_later :: "(address \<times> address \<Rightarrow> int) env" where
  "risk_later = risk_env\<lparr>ledger_ts := 160, st_rad_last := [5 \<mapsto> 100],
     st_lines := map_option (\<lambda>l. l\<lparr>last_accrual_ts := 160\<rparr>) \<circ> st_lines risk_env\<rparr>"

theorem risk_updates_spaced_witness:
  "\<exists>w1 w3. update_risk_parameters 5 20 950 99 risk_env = Inr w1 \<and>
     update_risk_parameters 5 30 950 99 risk_later = Inr w3 \<and> 100 + (60::int) \<le> ledger_ts risk_later"
proof -
  obtain w1 where w1: "update_risk_parameters 5 20 950 99 risk_env = Inr w1"
    by (simp add: risk_eval)
  obtain w3 where w3: "update_risk_parameters 5 30 950 99 risk_later = Inr w3"
    by (simp add: risk_later_def risk_eval)
  have "st_rad_last risk_later 5 = st_rad_last w1 5" "st_rad_cool risk_later = st_rad_cool w1"
    using w1 by (simp_all add: risk_later_def risk_eval)
      (drule sym, simp)+
  then have "min u64_max (ledger_ts risk_env + get_risk_admin_cooldown_seconds risk_env) \<le> ledger_ts risk_later"
    by (rule risk_updates_spaced[OF w1 w3]) (simp_all add: risk_env_def pledge_env_def genesis_def store_defs)
  then show ?thesis using w1 w3 by (simp add: risk_env_def pledge_env_def genesis_def store_defs u64_max_def)
qed

text \<open>(\<open>set_borrower_rate_floor\<close>): clearing a floor never succeeds.  The entry is removed and
  its TTL then extended, which the host rejects for a missing entry; the floor therefore stays.\<close>

theorem clear_rate_floor_never_succeeds: "set_borrower_rate_floor b None w \<noteq> Inr w'"
  by (simp add: set_borrower_rate_floor_def set_borrower_rate_floor_store_def bump_persistent_ttl_def)

lemma clear_rate_ceiling_never_succeeds: "set_borrower_rate_ceiling b None w \<noteq> Inr w'"
  by (simp add: set_borrower_rate_ceiling_def set_borrower_rate_ceiling_store_def bump_persistent_ttl_def)

lemma clear_utilization_cap_never_succeeds: "set_utilization_cap b 0 w \<noteq> Inr w'"
  by (simp add: set_utilization_cap_def set_utilization_cap_bps_store_def bump_persistent_ttl_def)

text \<open>The reduction of a committed hash is the byte sum modulo 101: always an admissible score.\<close>

lemma sum_bytes_exact:
  "0 \<le> acc \<Longrightarrow> acc + sum_list (map uint bs) \<le> u32_max \<Longrightarrow> sum_bytes bs acc = acc + sum_list (map uint bs)"
proof (induction bs arbitrary: acc)
  case (Cons b bs)
  have "0 \<le> sum_list (map uint bs)" by (rule sum_list_nonneg) auto
  then have "saturating_add_u32 acc (uint b) = acc + uint b" using Cons.prems by (simp add: saturating_add_u32_def)
  then show ?case using Cons by (simp add: add.assoc)
qed simp

lemma derive_score_range: "0 \<le> derive_score_from_hash h \<and> derive_score_from_hash h \<le> MAX_RISK_SCORE"
  by (simp add: derive_score_from_hash_def MAX_RISK_SCORE_def)

lemma derive_score_exact:
  assumes "length h = 32"
  shows "derive_score_from_hash h = sum_list (map uint h) mod 101"
proof -
  have "sum_list (map uint h) \<le> 256 * int (length h)"
  proof (induction h)
    case (Cons x xs)
    have "uint x < 256" using uint_bounded[of x] by simp
    then show ?case using Cons by simp
  qed simp
  then show ?thesis using assms by (simp add: derive_score_from_hash_def sum_bytes_exact u32_max_def)
qed

end
