(* ===== verification/Borrow.thy ===== *)
theory Borrow
  imports Risk
begin

text \<open>
  The borrower's money path (\<^verbatim>\<open>draw_credit\<close>, \<^verbatim>\<open>repay_credit\<close>,
  \<^verbatim>\<open>accrue_batch\<close> and \<^verbatim>\<open>reverse_draw\<close> of \<^verbatim>\<open>contracts/credit/src/lib.rs\<close>,
  \<^verbatim>\<open>borrow.rs\<close>, \<^verbatim>\<open>limits.rs\<close>).  The two long entrypoints are cut into the phases of
  their bodies, in the order of the source.
\<close>

definition ACCRUE_BATCH_MAX :: nat where "ACCRUE_BATCH_MAX = 50"
definition DRAW_REVERSAL_WINDOW_SECS :: u64 where "DRAW_REVERSAL_WINDOW_SECS = 3600"

section \<open>Drawing\<close>

primrec draw_status_error :: "credit_status \<Rightarrow> contract_error option" where
  "draw_status_error Active = None"
| "draw_status_error Restricted = None"
| "draw_status_error Suspended = Some CreditLineSuspended"
| "draw_status_error SelfSuspended = Some CreditLineSuspended"
| "draw_status_error Defaulted = Some CreditLineDefaulted"
| "draw_status_error Closed = Some CreditLineClosed"

definition check_borrower_exposure_cap :: "address \<Rightarrow> i128 \<Rightarrow> 't env \<Rightarrow> contract_error + unit" where
  "check_borrower_exposure_cap b updated_utilized w =
     (case get_max_borrower_exposure b w of
        None \<Rightarrow> Inr ()
      | Some cap \<Rightarrow> ensure (\<not> cap < updated_utilized) BorrowerExposureCapExceeded)"

definition lift_contract :: "contract_error + 'a \<Rightarrow> 'a res" where
  "lift_contract r = (case r of Inl e \<Rightarrow> Inl (Contract e) | Inr x \<Rightarrow> Inr x)"

text \<open>The stops checked before the line is loaded.\<close>

definition draw_preflight :: "address \<Rightarrow> i128 \<Rightarrow> 't env \<Rightarrow> unit res" where
  "draw_preflight b amount w =
     and_then (ensure (0 < amount) (Contract InvalidAmount)) (\<lambda>_.
     and_then (ensure (\<not> is_draws_frozen w) (Contract DrawsFrozen)) (\<lambda>_.
     and_then (ensure (\<not> is_borrower_frozen b w) (Contract BorrowerFrozen)) (\<lambda>_.
     and_then (ensure (\<not> is_credit_line_frozen b w) (Contract CreditLineFrozen)) (\<lambda>_.
     and_then (ensure (\<not> is_borrower_blocked b w) (Contract BorrowerBlocked)) (\<lambda>_.
     case st_max_draw_amount w of
       None \<Rightarrow> Inr ()
     | Some max_draw \<Rightarrow> ensure (\<not> max_draw < amount) (Contract DrawExceedsMaxAmount))))))"

definition draw_interval_elapsed :: "address \<Rightarrow> 't env \<Rightarrow> unit res" where
  "draw_interval_elapsed b w =
     (case st_draw_min_interval_seconds w of
        None \<Rightarrow> Inr ()
      | Some min_interval \<Rightarrow> (case get_last_draw_ts b w of
            None \<Rightarrow> Inr ()
          | Some last_draw_ts \<Rightarrow>
              ensure (\<not> ledger_ts w < saturating_add_u64 last_draw_ts min_interval) (Contract DrawCooldownActive)))"

definition utilization_cap_amount :: "i128 \<Rightarrow> u32 \<Rightarrow> i128 res" where
  "utilization_cap_amount limit cap_bps =
     and_then (ensure (0 \<le> limit) (Contract Overflow)) (\<lambda>_.
     and_then (mul_div limit cap_bps 10000 Floor) (\<lambda>cap_amount.
     and_then (ensure (cap_amount \<le> i128_max) (Contract Overflow)) (\<lambda>_. Inr cap_amount)))"

text \<open>The limits on the utilization after the draw: credit limit, collateral ratio, utilization cap,
  the borrower's exposure cap.\<close>

definition draw_limits :: "address \<Rightarrow> credit_line_data \<Rightarrow> i128 \<Rightarrow> 't env \<Rightarrow> unit res" where
  "draw_limits b line updated_utilized w =
     and_then (ensure (\<not> credit_limit line < updated_utilized) (Contract OverLimit)) (\<lambda>_.
     and_then (effective_collateral_value b w) (\<lambda>current_collateral.
     and_then (required_collateral updated_utilized (min_ratio_or_default w)) (\<lambda>required.
     and_then (ensure (\<not> current_collateral < required) (Contract CollateralRatioBelowMinimum)) (\<lambda>_.
     and_then (case get_utilization_cap_bps b w of
         None \<Rightarrow> Inr ()
       | Some cap_bps \<Rightarrow>
           and_then (utilization_cap_amount (credit_limit line) cap_bps) (\<lambda>cap_amount.
           ensure (\<not> cap_amount < updated_utilized) (Contract OverLimit))) (\<lambda>_.
     lift_contract (check_borrower_exposure_cap b updated_utilized w))))))"

text \<open>The protocol-wide cap: every other line is accrued and stored before the projection.\<close>

definition draw_global_cap :: "address \<Rightarrow> i128 \<Rightarrow> i128 \<Rightarrow> credit_line_data \<Rightarrow> 't env \<Rightarrow> 't env res" where
  "draw_global_cap b amount previous_utilized line w =
     (case storage_get_max_total_exposure w of
        None \<Rightarrow> Inr w
      | Some max_exposure \<Rightarrow>
          and_then (accrue_all_except b w) (\<lambda>w.
          and_then (ok_or (Contract Overflow) (checked_sub_i128 (utilized_amount line) previous_utilized)) (\<lambda>pending.
          and_then (ok_or (Contract Overflow) (checked_add_i128 (get_total_utilized w) pending)) (\<lambda>t.
          and_then (ok_or (Contract Overflow) (checked_add_i128 t amount)) (\<lambda>projected.
          and_then (ensure (\<not> max_exposure < projected) (Contract ExposureCapExceeded)) (\<lambda>_.
          Inr w))))))"

definition draw_payout :: "'t token_client \<Rightarrow> address \<Rightarrow> i128 \<Rightarrow> 't env \<Rightarrow> 't env res" where
  "draw_payout tok b amount w =
     and_then (ok_or (Contract MissingLiquidityToken) (st_liquidity_token w)) (\<lambda>token_address.
     and_then (ok_or (Contract MissingLiquiditySource) (st_liquidity_source w)) (\<lambda>reserve_address.
     and_then (ensure (\<not> token_balance tok token_address reserve_address w < amount)
                 (Contract InsufficientLiquidityReserve)) (\<lambda>_.
     token_transfer tok token_address reserve_address b amount w)))"

definition record_draw :: "address \<Rightarrow> i128 \<Rightarrow> credit_line_data \<Rightarrow> 't env \<Rightarrow> 't env" where
  "record_draw b amount line w =
     (let w = set_last_draw_ts b (ledger_ts w) w;
          w = w\<lparr>st_draw_audit := (st_draw_audit w)((b, ledger_ts w) \<mapsto> amount)\<rparr>;
          w = publish_drawn_event b amount (utilized_amount line) (ledger_ts w) w in
      publish_borrow_lifecycle_event Drawn b line w)"

definition draw_credit :: "'t token_client \<Rightarrow> address \<Rightarrow> i128 \<Rightarrow> 't env \<Rightarrow> 't env res" where
  "draw_credit tok b amount w =
     and_then (assert_not_paused w) (\<lambda>_.
     and_then (enter_reentrancy_guard w) (\<lambda>w.
     and_then (require_auth b w) (\<lambda>w.
     and_then (draw_preflight b amount w) (\<lambda>_.
     and_then (load_line b w) (\<lambda>stored_line.
     and_then (apply_accrual stored_line w) (\<lambda>(line, w).
     and_then (case draw_status_error (status line) of None \<Rightarrow> Inr () | Some e \<Rightarrow> Inl (Contract e)) (\<lambda>_.
     and_then (draw_interval_elapsed b w) (\<lambda>_.
     and_then (ok_or (Contract Overflow) (checked_add_i128 (utilized_amount line) amount)) (\<lambda>updated_utilized.
     and_then (draw_limits b line updated_utilized w) (\<lambda>_.
     and_then (draw_global_cap b amount (utilized_amount stored_line) line w) (\<lambda>w.
     and_then (draw_payout tok b amount w) (\<lambda>w.
     let drawn = line\<lparr>utilized_amount := updated_utilized\<rparr> in
     and_then (persist_credit_line b drawn (utilized_amount stored_line) (Some (status line)) w) (\<lambda>w.
     Inr (clear_reentrancy_guard (record_draw b amount drawn w)))))))))))))))"

section \<open>Repaying\<close>

definition protocol_fee_on :: "i128 \<Rightarrow> i128 \<Rightarrow> 't env \<Rightarrow> i128 res" where
  "protocol_fee_on interest_repaid effective_repay w =
     (let fee_bps = (case storage_get_protocol_fee_bps w of None \<Rightarrow> 0 | Some v \<Rightarrow> v) in
      and_then (if 0 < fee_bps \<and> 0 < interest_repaid
                then and_then (apply_bps (i128_as_u128 interest_repaid) fee_bps Floor) (\<lambda>f. Inr (u128_as_i128 f))
                else Inr 0) (\<lambda>fee.
      Inr (min fee effective_repay)))"

definition collect_fee :: "'t token_client \<Rightarrow> address \<Rightarrow> address \<Rightarrow> i128 \<Rightarrow> 't env \<Rightarrow> 't env res" where
  "collect_fee tok token_address b fee w =
     (if 0 < fee then
        and_then (token_transfer_from tok token_address (self_addr w) b (self_addr w) fee w) (\<lambda>w.
        accrue_protocol_fee b fee w)
      else Inr w)"

definition repay_transfers :: "'t token_client \<Rightarrow> address \<Rightarrow> address \<Rightarrow> i128 \<Rightarrow> i128 \<Rightarrow> 't env \<Rightarrow> 't env res" where
  "repay_transfers tok token_address b effective_repay interest_repaid w =
     (if 0 < effective_repay then
        let reserve_address = (case st_liquidity_source w of None \<Rightarrow> self_addr w | Some r \<Rightarrow> r) in
        and_then (protocol_fee_on interest_repaid effective_repay w) (\<lambda>fee.
        and_then (collect_fee tok token_address b fee w) (\<lambda>w.
        let reserve_amount = saturating_sub_i128 effective_repay fee in
        if 0 < reserve_amount
        then token_transfer_from tok token_address (self_addr w) b reserve_address reserve_amount w
        else Inr w))
      else Inr w)"

definition collect_late_fee :: "'t token_client \<Rightarrow> address \<Rightarrow> i128 \<Rightarrow> 't env \<Rightarrow> 't env res" where
  "collect_late_fee tok b late_fee_total w =
     (if 0 < late_fee_total then
        (case st_liquidity_token w of
           None \<Rightarrow> Inr w
         | Some token_address \<Rightarrow>
             and_then (token_transfer_from tok token_address (self_addr w) b (self_addr w) late_fee_total w) (\<lambda>w.
             accrue_protocol_fee b late_fee_total w))
      else Inr w)"

definition normalize_interest :: "credit_line_data \<Rightarrow> credit_line_data" where
  "normalize_interest line =
     line\<lparr>accrued_interest := max (min (accrued_interest line) (max (utilized_amount line) 0)) 0\<rparr>"

definition repaid_line :: "i128 \<Rightarrow> i128 \<Rightarrow> credit_line_data \<Rightarrow> credit_line_data" where
  "repaid_line effective_repay interest_repaid line =
     line\<lparr>accrued_interest :=
            (case checked_sub_i128 (accrued_interest line) interest_repaid of None \<Rightarrow> 0 | Some v \<Rightarrow> v),
          utilized_amount := max (saturating_sub_i128 (utilized_amount line) effective_repay) 0\<rparr>"

text \<open>Allocation, transfers, the write and the late fee, on the accrued line.\<close>

definition settle_repayment ::
  "'t token_client \<Rightarrow> address \<Rightarrow> i128 \<Rightarrow> i128 \<Rightarrow> credit_line_data \<Rightarrow> 't env \<Rightarrow> 't env res" where
  "settle_repayment tok b amount previous_utilized line w =
     (let (effective_repay, interest_repaid, _) =
           allocate_repayment (max (utilized_amount line) 0) (accrued_interest line) amount in
     and_then (ok_or (Contract MissingLiquidityToken) (st_liquidity_token w)) (\<lambda>token_address.
     and_then (repay_transfers tok token_address b effective_repay interest_repaid w) (\<lambda>w.
     let repaid = repaid_line effective_repay interest_repaid line in
     and_then (persist_credit_line b repaid previous_utilized (Some (status line)) w) (\<lambda>w.
     and_then (advance_repayment_schedule_after_repay b effective_repay interest_repaid w) (\<lambda>(late_fee_total, w).
     and_then (collect_late_fee tok b late_fee_total w) (\<lambda>w.
     Inr (publish_borrow_lifecycle_event Repaid b repaid
            (publish_repayment_event b effective_repay (utilized_amount repaid) w))))))))"

definition repay_credit :: "'t token_client \<Rightarrow> address \<Rightarrow> i128 \<Rightarrow> 't env \<Rightarrow> 't env res" where
  "repay_credit tok b amount w =
     and_then (enter_reentrancy_guard w) (\<lambda>w.
     and_then (require_auth b w) (\<lambda>w.
     and_then (ensure (0 < amount) (Contract InvalidAmount)) (\<lambda>_.
     and_then (case st_max_repay_amount w of
         None \<Rightarrow> Inr ()
       | Some max_repay \<Rightarrow> ensure (\<not> max_repay < amount) (Contract RepayExceedsMaxAmount)) (\<lambda>_.
     and_then (load_line b w) (\<lambda>stored_line.
     and_then (apply_accrual stored_line w) (\<lambda>(line, w).
     and_then (ensure (status line \<noteq> Closed) (Contract CreditLineClosed)) (\<lambda>_.
     and_then (settle_repayment tok b amount (utilized_amount stored_line) (normalize_interest line) w) (\<lambda>w.
     Inr (clear_reentrancy_guard w)))))))))"

section \<open>Batch accrual and draw reversal\<close>

definition accrue_batch_entry :: "address list \<Rightarrow> 't env \<Rightarrow> 't env res" where
  "accrue_batch_entry borrowers w =
     and_then (assert_not_paused w) (\<lambda>_.
     and_then (ensure (length borrowers \<le> ACCRUE_BATCH_MAX) (Contract InvalidAmount)) (\<lambda>_.
     accrue_batch borrowers w))"

definition reverse_draw :: "address \<Rightarrow> i128 \<Rightarrow> u64 \<Rightarrow> u32 \<Rightarrow> 't env \<Rightarrow> 't env res" where
  "reverse_draw b amount original_ts reason_code w =
     and_then (assert_not_paused w) (\<lambda>_.
     and_then (require_admin_auth w) (\<lambda>(admin, w).
     and_then (ensure (0 < amount) (Contract InvalidAmount)) (\<lambda>_.
     let now = ledger_ts w in
     and_then (ensure (\<not> DRAW_REVERSAL_WINDOW_SECS < saturating_sub_u64 now original_ts)
                 (Contract DrawReversalWindowExpired)) (\<lambda>_.
     and_then (load_line b w) (\<lambda>stored_line.
     and_then (apply_accrual stored_line w) (\<lambda>(line, w).
     and_then (ok_or (Contract OriginalDrawNotFound) (get_draw_audit b original_ts w)) (\<lambda>original_draw.
     let already_reversed = get_draw_reversed_amount b original_ts w in
     and_then (ensure (\<not> saturating_sub_i128 original_draw already_reversed < amount) (Contract OverLimit)) (\<lambda>_.
     and_then (ok_or (Contract OverLimit) (checked_sub_i128 (utilized_amount line) amount)) (\<lambda>new_utilized.
     let reversed = line\<lparr>utilized_amount := new_utilized\<rparr> in
     and_then (persist_credit_line b reversed (utilized_amount stored_line) (Some (status stored_line)) w) (\<lambda>w.
     and_then (ok_or RustPanic (checked_add_i128 already_reversed amount)) (\<lambda>reversed_total.
     Inr (publish_draw_reversed_event b amount original_ts reason_code new_utilized now admin True
            (set_draw_reversed_amount b original_ts reversed_total w)))))))))))))"

section \<open>What the phases leave alone\<close>

lemma lift_contract_Inr [simp]: "lift_contract r = Inr x \<longleftrightarrow> r = Inr x"
  by (cases r) (simp_all add: lift_contract_def)

lemma draw_status_error_None: "draw_status_error st = None \<longleftrightarrow> st = Active \<or> st = Restricted"
  by (cases st) simp_all

lemma draw_payout_shape:
  assumes "draw_payout tok b amount w = Inr w'"
  shows "\<exists>t r s. st_liquidity_token w = Some t \<and> st_liquidity_source w = Some r \<and>
     amount \<le> tk_balance tok (tokens w) t r \<and> tk_transfer tok (tokens w) t r b amount = Some s \<and> w' = w\<lparr>tokens := s\<rparr>"
  using assms by (auto simp: draw_payout_def token_transfer_def token_balance_def split: option.splits)

lemma draw_global_cap_ledger:
  assumes "draw_global_cap b amount pu line w = Inr w'"
  shows "ledger_gap s d w \<Longrightarrow> ledger_gap s d w'" and "st_lines w' b = st_lines w b"
  using assms accrue_all_except_ledger[of b w] accrue_all_except_excluded[of b w]
  by (auto simp: draw_global_cap_def split: option.splits)

lemma record_draw_ledger [simp]: "ledger_gap s d (record_draw b amount line w) = ledger_gap s d w"
  by (simp add: record_draw_def Let_def) (simp add: set_last_draw_ts_def emit_def ledger_simps)

lemma token_transfer_from_Inr:
  "token_transfer_from tok t sp src dst amount w = Inr w' \<Longrightarrow>
     \<exists>s. tk_transfer_from tok (tokens w) t sp src dst amount = Some s \<and> w' = w\<lparr>tokens := s\<rparr>"
  by (auto simp: token_transfer_from_def split: option.splits)

text \<open>Fees and token movements change the token state, the two fee accumulators and the event log.\<close>

definition moves_money :: "'t env \<Rightarrow> 't env \<Rightarrow> bool" where
  "moves_money w w' \<longleftrightarrow> (\<exists>s t y evs. w' = w\<lparr>tokens := s, st_treasury_balance := t, st_bounty_balance := y, events := evs\<rparr>)"

lemma moves_money_refl [simp]: "moves_money w w"
  unfolding moves_money_def
  by (rule exI[of _ "tokens w"], rule exI[of _ "st_treasury_balance w"], rule exI[of _ "st_bounty_balance w"],
      rule exI[of _ "events w"]) simp

lemma moves_money_trans: "moves_money w w' \<Longrightarrow> moves_money w' w'' \<Longrightarrow> moves_money w w''"
proof -
  assume "moves_money w w'" and "moves_money w' w''"
  then obtain s t y evs where "w'' = w\<lparr>tokens := s, st_treasury_balance := t, st_bounty_balance := y, events := evs\<rparr>"
    unfolding moves_money_def by auto
  then show ?thesis unfolding moves_money_def by blast
qed

lemma moves_money_transfer: "token_transfer_from tok t sp src dst amount w = Inr w' \<Longrightarrow> moves_money w w'"
proof -
  assume "token_transfer_from tok t sp src dst amount w = Inr w'"
  then have "w' = w\<lparr>tokens := tokens w', st_treasury_balance := st_treasury_balance w,
      st_bounty_balance := st_bounty_balance w, events := events w\<rparr>"
    by (auto dest: token_transfer_from_Inr)
  then show ?thesis unfolding moves_money_def by blast
qed

lemma moves_money_fee: "accrue_protocol_fee b f w = Inr w' \<Longrightarrow> moves_money w w'"
proof -
  assume "accrue_protocol_fee b f w = Inr w'"
  then obtain t y evs where "w' = w\<lparr>st_treasury_balance := t, st_bounty_balance := y, events := evs\<rparr>"
    using accrue_protocol_fee_shape by blast
  then have "w' = w\<lparr>tokens := tokens w, st_treasury_balance := t, st_bounty_balance := y, events := evs\<rparr>" by simp
  then show ?thesis unfolding moves_money_def by blast
qed

lemma moves_money_books: "moves_money w w' \<Longrightarrow> same_books w w'"
  by (auto simp: moves_money_def)

lemma collect_fee_moves: "collect_fee tok t b f w = Inr w' \<Longrightarrow> moves_money w w'"
  using moves_money_trans[OF moves_money_transfer moves_money_fee] by (auto simp: collect_fee_def split: if_splits)

lemma collect_late_fee_moves: "collect_late_fee tok b f w = Inr w' \<Longrightarrow> moves_money w w'"
  using moves_money_trans[OF moves_money_transfer moves_money_fee]
  by (auto simp: collect_late_fee_def split: if_splits option.splits)

lemma repay_transfers_moves: "repay_transfers tok t b e i w = Inr w' \<Longrightarrow> moves_money w w'"
  using moves_money_trans[OF collect_fee_moves moves_money_transfer] collect_fee_moves
  by (fastforce simp: repay_transfers_def Let_def split: if_splits)

lemma advance_schedule_shape:
  assumes "advance_repayment_schedule_after_repay b e i w = Inr (f, w')"
  shows "\<exists>sch evs. w' = w\<lparr>st_repayment_schedule := sch, events := evs\<rparr>"
proof -
  have "w' = w\<lparr>st_repayment_schedule := st_repayment_schedule w', events := events w'\<rparr>"
    using assms by (auto simp: advance_repayment_schedule_after_repay_def charge_late_fee_def Let_def
        set_repayment_schedule_store_def emit_def split: option.splits if_splits)
  then show ?thesis by blast
qed

lemma advance_schedule_books: "advance_repayment_schedule_after_repay b e i w = Inr (f, w') \<Longrightarrow> same_books w w'"
  using advance_schedule_shape by fastforce

section \<open>The ledger\<close>

lemma guard_shape: "enter_reentrancy_guard w = Inr w' \<Longrightarrow> st_reentrancy w \<noteq> Some True \<and> w' = w\<lparr>st_reentrancy := Some True\<rparr>"
  by (auto simp: enter_reentrancy_guard_def set_reentrancy_guard_def)

text \<open>A successful draw, phase by phase.\<close>

lemma draw_credit_Inr:
  assumes "draw_credit tok b amount w = Inr w'"
  obtains k l w0 w1 w2 w3 w4 where "\<not> is_paused w" "b \<in> set (signers w)"
    "w0 = w\<lparr>st_reentrancy := Some True, frame_auth := b # frame_auth w\<rparr>"
    "draw_preflight b amount w0 = Inr ()" "st_lines w b = Some k" "apply_accrual k w0 = Inr (l, w1)"
    "status l = Active \<or> status l = Restricted" "draw_interval_elapsed b w1 = Inr ()"
    "in_i128 (utilized_amount l + amount)" "draw_limits b l (utilized_amount l + amount) w1 = Inr ()"
    "draw_global_cap b amount (utilized_amount k) l w1 = Inr w2" "draw_payout tok b amount w2 = Inr w3"
    "persist_credit_line b (l\<lparr>utilized_amount := utilized_amount l + amount\<rparr>) (utilized_amount k)
       (Some (status k)) w3 = Inr w4"
    "w' = clear_reentrancy_guard (record_draw b amount (l\<lparr>utilized_amount := utilized_amount l + amount\<rparr>) w4)"
proof -
  from assms obtain wg w0 k l w1 w2 w3 w4 where np: "\<not> is_paused w" and g: "enter_reentrancy_guard w = Inr wg"
    and u: "require_auth b wg = Inr w0" and pf: "draw_preflight b amount w0 = Inr ()"
    and k: "st_lines w0 b = Some k" and a: "apply_accrual k w0 = Inr (l, w1)"
    and st: "draw_status_error (status l) = None" and iv: "draw_interval_elapsed b w1 = Inr ()"
    and rest: "in_i128 (utilized_amount l + amount)" "draw_limits b l (utilized_amount l + amount) w1 = Inr ()"
      "draw_global_cap b amount (utilized_amount k) l w1 = Inr w2" "draw_payout tok b amount w2 = Inr w3"
    and p: "persist_credit_line b (l\<lparr>utilized_amount := utilized_amount l + amount\<rparr>) (utilized_amount k)
       (Some (status l)) w3 = Inr w4"
    and w': "w' = clear_reentrancy_guard (record_draw b amount (l\<lparr>utilized_amount := utilized_amount l + amount\<rparr>) w4)"
    by (auto simp: draw_credit_def Let_def checked_arith split: option.splits)
  have stk: "status l = status k" by (rule acc.accrue_line(2)[OF a])
  have w0: "w0 = w\<lparr>st_reentrancy := Some True, frame_auth := b # frame_auth w\<rparr>" and sg: "b \<in> set (signers w)"
    using guard_shape[OF g] require_auth_Inr[OF u] by auto
  then have k': "st_lines w b = Some k" using k by simp
  show ?thesis
    by (rule that[OF np sg w0 pf k' a st[unfolded draw_status_error_None] iv rest p[unfolded stk] w'])
qed

lemma draw_credit_ledger:
  assumes "draw_credit tok b amount w = Inr w'" and "ledger_ok s w"
  shows "ledger_ok s w'"
proof (rule draw_credit_Inr[OF assms(1)])
  fix k l w0 w1 w2 w3 w4
  assume w0: "w0 = w\<lparr>st_reentrancy := Some True, frame_auth := b # frame_auth w\<rparr>"
    and pf: "draw_preflight b amount w0 = Inr ()" and k: "st_lines w b = Some k"
    and a: "apply_accrual k w0 = Inr (l, w1)" and rg: "in_i128 (utilized_amount l + amount)"
    and gc: "draw_global_cap b amount (utilized_amount k) l w1 = Inr w2"
    and po: "draw_payout tok b amount w2 = Inr w3"
    and p: "persist_credit_line b (l\<lparr>utilized_amount := utilized_amount l + amount\<rparr>) (utilized_amount k)
       (Some (status k)) w3 = Inr w4"
    and w': "w' = clear_reentrancy_guard (record_draw b amount (l\<lparr>utilized_amount := utilized_amount l + amount\<rparr>) w4)"
  have pos: "0 < amount" using pf by (simp add: draw_preflight_def)
  have l0: "ledger_ok s w0" by (rule same_books_ledger[THEN iffD2, OF _ assms(2)]) (simp add: w0)
  have k0: "st_lines w0 b = Some k" using k by (simp add: w0)
  have l1: "ledger_ok s w1" by (rule acc.accrue_ledger[OF a l0])
  have l2: "ledger_ok s w2" by (rule draw_global_cap_ledger(1)[OF gc l1])
  have "st_lines w2 b = Some k" using draw_global_cap_ledger(2)[OF gc] acc.accrue_frame(1)[OF a] k0 by simp
  moreover obtain t where w3: "w3 = w2\<lparr>tokens := t\<rparr>" using draw_payout_shape[OF po] by blast
  ultimately have k3: "st_lines w3 b = Some k" and l3: "ledger_ok s w3" using l2 by simp_all
  have lo: "line_ok s b l" by (rule acc.accrue_line_ok[OF a ledger_line[OF l0 k0]])
  have "ledger_ok s w4"
    by (rule persist_existing[OF p l3 k3]) (use lo pos rg acc.accrue_line(2)[OF a] in \<open>auto simp: line_ok_def in_i128_def\<close>)
  then show ?thesis by (simp add: w')
qed

lemma line_ok_repaid_line:
  assumes "line_ok s b l"
    and "allocate_repayment (max (utilized_amount l) 0) (accrued_interest (normalize_interest l)) amount = (e, i, p)"
    and "0 < amount"
  shows "line_ok s b (repaid_line e i (normalize_interest l))"
proof (cases s)
  case False
  then show ?thesis using assms(1) by (simp add: line_ok_def repaid_line_def normalize_interest_def)
next
  case True
  then have l: "0 \<le> accrued_interest l" "accrued_interest l \<le> utilized_amount l" "borrower l = b"
    using assms(1) by (simp_all add: line_ok_def)
  then have n: "normalize_interest l = l" by (simp add: normalize_interest_def)
  have e: "e = min amount (utilized_amount l)" and i: "i = min e (accrued_interest l)"
    using assms(2,3) l n by (auto simp: allocate_repayment_def Let_def)
  have "i \<le> accrued_interest l" and "accrued_interest l - i \<le> utilized_amount l - e"
    using l e i by auto
  then show ?thesis using l n
    by (auto simp: line_ok_def repaid_line_def checked_arith checked_def in_i128_def
        saturating_sub_i128_def clamp_int_def i128_max_def i128_min_def)
qed

text \<open>A successful repayment, phase by phase.\<close>

lemma repay_credit_Inr:
  assumes "repay_credit tok b amount w = Inr w'"
  obtains k l w0 w1 e i p t w2 w3 f w4 w5 where "b \<in> set (signers w)"
    "w0 = w\<lparr>st_reentrancy := Some True, frame_auth := b # frame_auth w\<rparr>" "0 < amount"
    "st_lines w b = Some k" "apply_accrual k w0 = Inr (l, w1)" "status k \<noteq> Closed"
    "allocate_repayment (max (utilized_amount l) 0) (accrued_interest (normalize_interest l)) amount = (e, i, p)"
    "st_liquidity_token w = Some t" "repay_transfers tok t b e i w1 = Inr w2"
    "persist_credit_line b (repaid_line e i (normalize_interest l)) (utilized_amount k) (Some (status k)) w2 = Inr w3"
    "advance_repayment_schedule_after_repay b e i w3 = Inr (f, w4)" "collect_late_fee tok b f w4 = Inr w5"
    "w' = clear_reentrancy_guard (publish_borrow_lifecycle_event Repaid b (repaid_line e i (normalize_interest l))
            (emit ([''credit'', ''repay''], RepaymentEvent b e (utilized_amount (repaid_line e i (normalize_interest l)))) w5))"
proof -
  have n: "utilized_amount (normalize_interest l) = utilized_amount l" "status (normalize_interest l) = status l" for l
    by (simp_all add: normalize_interest_def)
  from assms obtain wg w0 k l w1 w6 where g: "enter_reentrancy_guard w = Inr wg"
    and u: "require_auth b wg = Inr w0" and pos: "0 < amount"
    and k: "st_lines w0 b = Some k" and a: "apply_accrual k w0 = Inr (l, w1)" and st: "status l \<noteq> Closed"
    and se: "settle_repayment tok b amount (utilized_amount k) (normalize_interest l) w1 = Inr w6"
    and w6: "w' = clear_reentrancy_guard w6"
    by (auto simp: repay_credit_def)
  obtain e i p where al: "allocate_repayment (max (utilized_amount l) 0) (accrued_interest (normalize_interest l)) amount
      = (e, i, p)" by (cases "allocate_repayment (max (utilized_amount l) 0) (accrued_interest (normalize_interest l)) amount")
  with se w6 obtain t w2 w3 f w4 w5 where t: "st_liquidity_token w1 = Some t" and tr: "repay_transfers tok t b e i w1 = Inr w2"
    and ps: "persist_credit_line b (repaid_line e i (normalize_interest l)) (utilized_amount k) (Some (status l)) w2 = Inr w3"
    and rest: "advance_repayment_schedule_after_repay b e i w3 = Inr (f, w4)" "collect_late_fee tok b f w4 = Inr w5"
      "w' = clear_reentrancy_guard (publish_borrow_lifecycle_event Repaid b (repaid_line e i (normalize_interest l))
            (emit ([''credit'', ''repay''], RepaymentEvent b e (utilized_amount (repaid_line e i (normalize_interest l)))) w5))"
    by (auto simp: settle_repayment_def Let_def n)
  have stk: "status l = status k" by (rule acc.accrue_line(2)[OF a])
  have w0: "w0 = w\<lparr>st_reentrancy := Some True, frame_auth := b # frame_auth w\<rparr>" and sg: "b \<in> set (signers w)"
    using guard_shape[OF g] require_auth_Inr[OF u] by auto
  then have k': "st_lines w b = Some k" using k by simp
  have t': "st_liquidity_token w = Some t" using t acc.accrue_env[OF a] w0 by auto
  show ?thesis
    by (rule that[OF sg w0 pos k' a st[unfolded stk] al t' tr ps[unfolded stk] rest])
qed

lemma repay_credit_ledger:
  assumes "repay_credit tok b amount w = Inr w'" and "ledger_ok s w"
  shows "ledger_ok s w'"
proof (rule repay_credit_Inr[OF assms(1)])
  fix k l w0 w1 e i p t w2 w3 f w4 w5
  let ?r = "repaid_line e i (normalize_interest l)"
  assume w0: "w0 = w\<lparr>st_reentrancy := Some True, frame_auth := b # frame_auth w\<rparr>" and pos: "0 < amount"
    and k: "st_lines w b = Some k" and a: "apply_accrual k w0 = Inr (l, w1)"
    and al: "allocate_repayment (max (utilized_amount l) 0) (accrued_interest (normalize_interest l)) amount = (e, i, p)"
    and tr: "repay_transfers tok t b e i w1 = Inr w2"
    and ps: "persist_credit_line b ?r (utilized_amount k) (Some (status k)) w2 = Inr w3"
    and ad: "advance_repayment_schedule_after_repay b e i w3 = Inr (f, w4)"
    and lf: "collect_late_fee tok b f w4 = Inr w5"
    and w': "w' = clear_reentrancy_guard (publish_borrow_lifecycle_event Repaid b ?r
            (emit ([''credit'', ''repay''], RepaymentEvent b e (utilized_amount ?r)) w5))"
  have l0: "ledger_ok s w0" by (rule same_books_ledger[THEN iffD2, OF _ assms(2)]) (simp add: w0)
  have k0: "st_lines w0 b = Some k" using k by (simp add: w0)
  have l1: "ledger_ok s w1" by (rule acc.accrue_ledger[OF a l0])
  have b2: "same_books w1 w2" by (rule moves_money_books[OF repay_transfers_moves[OF tr]])
  then have l2: "ledger_ok s w2" by (rule same_books_ledger[THEN iffD2, OF _ l1])
  have k2: "st_lines w2 b = Some k" using b2 acc.accrue_frame(1)[OF a] k0 by (simp add: same_books_def)
  have lo: "line_ok s b ?r"
    by (rule line_ok_repaid_line[OF acc.accrue_line_ok[OF a ledger_line[OF l0 k0]] al pos])
  have st: "status ?r = status k" using acc.accrue_line(2)[OF a] by (simp add: repaid_line_def normalize_interest_def)
  have l3: "ledger_ok s w3" by (rule persist_existing[OF ps l2 k2 lo]) (simp add: st)
  have "same_books w3 w5"
    by (rule same_books_trans[OF advance_schedule_books[OF ad] moves_money_books[OF collect_late_fee_moves[OF lf]]])
  then have "ledger_ok s w5" by (rule same_books_ledger[THEN iffD2, OF _ l3])
  then show ?thesis by (simp add: w')
qed

lemma accrue_batch_entry_ledger: "accrue_batch_entry bs w = Inr w' \<Longrightarrow> ledger_ok s w \<Longrightarrow> ledger_ok s w'"
  by (auto simp: accrue_batch_entry_def dest: accrue_batch_ledger)

text \<open>A reversal keeps the books; it does not keep the bounds on a line's debt.\<close>

lemma reverse_draw_ledger:
  assumes "reverse_draw b amount ts rc w = Inr w'" and "ledger_ok False w"
  shows "ledger_ok False w'"
proof -
  from assms(1) obtain ad w0 k l w1 w2 rt where u: "require_admin_auth w = Inr (ad, w0)"
    and k: "st_lines w0 b = Some k" and a: "apply_accrual k w0 = Inr (l, w1)"
    and p: "persist_credit_line b (l\<lparr>utilized_amount := utilized_amount l - amount\<rparr>) (utilized_amount k)
              (Some (status k)) w1 = Inr w2"
    and w': "w' = emit ([''credit'', ''draw_rev''], DrawReversedEvent b amount ts rc (utilized_amount l - amount) (ledger_ts w0) ad True)
              (set_draw_reversed_amount b ts rt w2)"
    by (auto simp: reverse_draw_def Let_def checked_arith)
  have l0: "ledger_ok False w0" by (rule admin_guard_ledger[OF u assms(2)])
  have lo: "line_ok False b l" by (rule acc.accrue_line_ok[OF a ledger_line[OF l0 k]])
  have "ledger_ok False w2"
    by (rule acc.accrue_then_persist[OF a l0 k p]) (use lo acc.accrue_line(2)[OF a] in \<open>simp_all add: line_ok_def\<close>)
  then show ?thesis by (simp add: w' emit_def set_draw_reversed_amount_def ledger_simps)
qed

section \<open>The token interface\<close>

text \<open>
  What the money path relies on from the token contract, as the Stellar token interface documents it:
  a transfer that does not trap moves exactly the requested amount of that token from the payer to the
  payee and touches no other balance.
\<close>

definition moved :: "('t \<Rightarrow> address \<Rightarrow> address \<Rightarrow> i128) \<Rightarrow> 't \<Rightarrow> 't \<Rightarrow> address \<Rightarrow> address \<Rightarrow> address \<Rightarrow> i128 \<Rightarrow> bool" where
  "moved bal s s' t src dst amount \<longleftrightarrow>
     (\<forall>who. bal s' t who = bal s t who - (if who = src then amount else 0) + (if who = dst then amount else 0)) \<and>
     (\<forall>u who. u \<noteq> t \<longrightarrow> bal s' u who = bal s u who)"

text \<open>The fees held for treasury and bounty.\<close>

definition fees_held :: "'t env \<Rightarrow> i128" where
  "fees_held w = get_treasury_balance w + get_bounty_balance w"

lemma fees_held_frame [simp]:
  "fees_held (w\<lparr>tokens := s\<rparr>) = fees_held w" "fees_held (emit e w) = fees_held w"
  "fees_held (clear_reentrancy_guard w) = fees_held w" "fees_held (publish_borrow_lifecycle_event ph b l w) = fees_held w"
  by (simp_all add: fees_held_def store_defs publish_borrow_lifecycle_event_def)

lemma protocol_fee_bounds:
  assumes "protocol_fee_on i e w = Inr fee" and "0 \<le> i" and "i \<le> i128_max" and "0 \<le> e"
    and "\<forall>bps. st_protocol_fee_bps w = Some bps \<longrightarrow> 0 \<le> bps \<and> bps \<le> 10000"
  shows "0 \<le> fee \<and> fee \<le> e"
proof -
  define bps where "bps = (case st_protocol_fee_bps w of None \<Rightarrow> 0 | Some v \<Rightarrow> v)"
  have b: "0 \<le> bps" "bps \<le> 10000" using assms(5) by (auto simp: bps_def split: option.split)
  have u: "i128_as_u128 i = i" using assms(2,3) by (intro i128_as_u128_id) (simp_all add: i128_max_def u128_max_def)
  have "i * bps \<le> i * 10000" using b(2) assms(2) by (rule mult_left_mono)
  then have "i * bps div 10000 \<le> i" by (simp add: zdiv_mono1[where a = "i * bps" and a' = "i * 10000", simplified])
  moreover have "0 \<le> i * bps div 10000" using assms(2) b(1) by (simp add: pos_imp_zdiv_nonneg_iff)
  ultimately show ?thesis using assms(1,3,4)
    by (auto simp: protocol_fee_on_def bps_def[symmetric] Let_def apply_bps_def mul_div_def u checked_arith
        BPS_DENOMINATOR_def split: if_splits)
qed

locale sac_token =
  fixes tok :: "'t token_client"
  assumes transfer_moves: "tk_transfer tok s t src dst amount = Some s' \<Longrightarrow> moved (tk_balance tok) s s' t src dst amount"
    and transfer_from_moves: "tk_transfer_from tok s t sp src dst amount = Some s' \<Longrightarrow>
       moved (tk_balance tok) s s' t src dst amount"
begin

lemma transfer_balance:
  "tk_transfer tok x t src dst a = Some y \<Longrightarrow>
     tk_balance tok y t who = tk_balance tok x t who - (if who = src then a else 0) + (if who = dst then a else 0)"
  using transfer_moves[of x t src dst a y] by (simp add: moved_def)

lemma payout_moves:
  assumes "draw_payout tok b amount w = Inr w'"
  shows "\<exists>t r. st_liquidity_token w = Some t \<and> st_liquidity_source w = Some r \<and>
     moved (tk_balance tok) (tokens w) (tokens w') t r b amount"
  using draw_payout_shape[OF assms] transfer_moves by fastforce

lemma transfer_from_cash:
  assumes "token_transfer_from tok t sp src dst amount w = Inr w'"
  shows "tk_balance tok (tokens w') t who = tk_balance tok (tokens w) t who
     - (if who = src then amount else 0) + (if who = dst then amount else 0)"
  using token_transfer_from_Inr[OF assms] transfer_from_moves by (fastforce simp: moved_def)

lemma fee_cash:
  assumes "token_transfer_from tok t sp b (self_addr w) fee w = Inr w1" and "accrue_protocol_fee b fee w1 = Inr w'"
    and "0 < fee" and "fee \<le> i128_max" and "0 \<le> get_treasury_fee_share_bps w"
  shows "tk_balance tok (tokens w') t who = tk_balance tok (tokens w) t who
       - (if who = b then fee else 0) + (if who = self_addr w then fee else 0)"
    and "fees_held w' = fees_held w + fee"
proof -
  obtain s where w1: "w1 = w\<lparr>tokens := s\<rparr>" using token_transfer_from_Inr[OF assms(1)] by blast
  have "tokens w' = tokens w1" using accrue_protocol_fee_shape[OF assms(2)] by auto
  then show "tk_balance tok (tokens w') t who = tk_balance tok (tokens w) t who
       - (if who = b then fee else 0) + (if who = self_addr w then fee else 0)"
    using transfer_from_cash[OF assms(1)] by simp
  have "get_treasury_fee_share_bps w1 = get_treasury_fee_share_bps w" by (simp add: w1 get_treasury_fee_share_bps_def)
  then have "fees_held w' = fees_held w1 + fee"
    using accrue_protocol_fee_books(1)[OF assms(2,4)] assms(3,5) by (simp add: fees_held_def)
  then show "fees_held w' = fees_held w + fee" by (simp add: w1)
qed

lemma repay_transfers_cash:
  assumes r: "repay_transfers tok t b e i w = Inr w'" and "0 \<le> i" "i \<le> e" "e \<le> i128_max"
    and bps: "\<forall>bps. st_protocol_fee_bps w = Some bps \<longrightarrow> 0 \<le> bps \<and> bps \<le> 10000"
    and sh: "0 \<le> get_treasury_fee_share_bps w"
    and src: "src = (case st_liquidity_source w of None \<Rightarrow> self_addr w | Some r \<Rightarrow> r)"
  shows "\<exists>fee. 0 \<le> fee \<and> fee \<le> e \<and> fees_held w' = fees_held w + fee \<and>
     (\<forall>who. tk_balance tok (tokens w') t who = tk_balance tok (tokens w) t who
       - (if who = b then e else 0) + (if who = src then e - fee else 0) + (if who = self_addr w then fee else 0))"
proof (cases "0 < e")
  case False
  then have "e = 0" using assms(2,3) by simp
  then show ?thesis using r by (auto simp: repay_transfers_def)
next
  case True
  from r True obtain fee w1 where f: "protocol_fee_on i e w = Inr fee" and c: "collect_fee tok t b fee w = Inr w1"
    and x: "(if 0 < saturating_sub_i128 e fee
        then token_transfer_from tok t (self_addr w1) b src (saturating_sub_i128 e fee) w1 else Inr w1) = Inr w'"
    unfolding repay_transfers_def Let_def src[symmetric] by auto
  have b: "0 \<le> fee" "fee \<le> e" using protocol_fee_bounds[OF f _ _ _ bps] assms(2-4) by auto
  have sat: "saturating_sub_i128 e fee = e - fee"
    using b assms(2-4) by (simp add: saturating_sub_i128_def clamp_int_def i128_min_def i128_max_def)
  have s1: "self_addr w1 = self_addr w" using collect_fee_moves[OF c] by (auto simp: moves_money_def)
  have c1: "fees_held w1 = fees_held w + fee \<and> (\<forall>who. tk_balance tok (tokens w1) t who = tk_balance tok (tokens w) t who
       - (if who = b then fee else 0) + (if who = self_addr w then fee else 0))"
  proof (cases "0 < fee")
    case True
    then obtain v where "token_transfer_from tok t (self_addr w) b (self_addr w) fee w = Inr v"
      "accrue_protocol_fee b fee v = Inr w1" using c by (auto simp: collect_fee_def)
    then show ?thesis using fee_cash[OF _ _ True _ sh] b assms(4) by fastforce
  next
    case False
    then show ?thesis using c b by (simp add: collect_fee_def)
  qed
  have "fees_held w' = fees_held w1 \<and> (\<forall>who. tk_balance tok (tokens w') t who = tk_balance tok (tokens w1) t who
       - (if who = b then e - fee else 0) + (if who = src then e - fee else 0))"
  proof (cases "0 < e - fee")
    case True
    then have tr: "token_transfer_from tok t (self_addr w1) b src (e - fee) w1 = Inr w'" using x sat by simp
    show ?thesis using token_transfer_from_Inr[OF tr] transfer_from_cash[OF tr] by auto
  next
    case False
    then show ?thesis using x sat b by simp
  qed
  then show ?thesis using c1 b by (intro exI[of _ fee]) auto
qed

lemma late_fee_cash:
  assumes "collect_late_fee tok b f w = Inr w'" and "st_liquidity_token w = Some t" and "f \<le> i128_max"
    and "0 \<le> get_treasury_fee_share_bps w"
  shows "fees_held w' = fees_held w + max 0 f \<and>
     (\<forall>who. tk_balance tok (tokens w') t who = tk_balance tok (tokens w) t who
       - (if who = b then max 0 f else 0) + (if who = self_addr w then max 0 f else 0))"
proof (cases "0 < f")
  case True
  then obtain v where "token_transfer_from tok t (self_addr w) b (self_addr w) f w = Inr v"
    "accrue_protocol_fee b f v = Inr w'" using assms(1,2) by (auto simp: collect_late_fee_def)
  then show ?thesis using fee_cash[OF _ _ True assms(3,4)] True by fastforce
next
  case False
  then show ?thesis using assms(1) by (simp add: collect_late_fee_def)
qed

end

interpretation bt: sac_token book_token
  by unfold_locales (auto simp: book_token_def move_balance_def moved_def Let_def split: if_splits)

section \<open>Properties\<close>

lemma accrue_stored_line_frame:
  assumes "accrue_stored_line c k w = Inr w'"
  shows "tokens w' = tokens w \<and> st_liquidity_token w' = st_liquidity_token w \<and>
     st_liquidity_source w' = st_liquidity_source w \<and> ledger_ts w' = ledger_ts w"
proof -
  from assms obtain l w1 where a: "apply_accrual k w = Inr (l, w1)"
    and p: "persist_credit_line c l (utilized_amount k) (Some (status k)) w1 = Inr w' \<or> w' = w1"
    by (auto simp: accrue_stored_line_def split: if_splits)
  show ?thesis using acc.accrue_env[OF a] p persist_line_write[of c l "utilized_amount k" "Some (status k)" w1 w']
    by (auto simp: line_write_def)
qed

lemma draw_global_cap_frame:
  assumes "draw_global_cap b amount pu line w = Inr w'"
  shows "tokens w' = tokens w \<and> st_liquidity_token w' = st_liquidity_token w \<and>
     st_liquidity_source w' = st_liquidity_source w \<and> ledger_ts w' = ledger_ts w"
    and "st_max_total_exposure w = Some m \<Longrightarrow> get_total_utilized w' + (utilized_amount line - pu) + amount \<le> m"
proof -
  have "tokens v = tokens w \<and> st_liquidity_token v = st_liquidity_token w \<and>
     st_liquidity_source v = st_liquidity_source w \<and> ledger_ts v = ledger_ts w" if "accrue_all_except b w = Inr v" for v
    by (rule for_each_inv[OF that[unfolded accrue_all_except_def]])
      (auto split: option.splits if_splits dest: accrue_stored_line_frame)
  then show "tokens w' = tokens w \<and> st_liquidity_token w' = st_liquidity_token w \<and>
     st_liquidity_source w' = st_liquidity_source w \<and> ledger_ts w' = ledger_ts w"
    using assms by (auto simp: draw_global_cap_def split: option.splits)
  show "st_max_total_exposure w = Some m \<Longrightarrow> get_total_utilized w' + (utilized_amount line - pu) + amount \<le> m"
    using assms by (auto simp: draw_global_cap_def checked_arith)
qed

lemma utilization_cap_amount_Inr:
  "utilization_cap_amount limit bps = Inr c \<Longrightarrow> c = limit * bps div 10000"
  by (auto simp: utilization_cap_amount_def mul_div_def checked_arith Let_def)

lemma allocate_repayment_value:
  assumes "allocate_repayment (max d 0) n amount = (e, i, p)" and "0 < amount" and "0 \<le> n" and "n \<le> max d 0"
  shows "e = min amount (max d 0)" and "i = min e n"
proof -
  have d: "max (max d 0) 0 = max d 0" and x: "max (min amount (max d 0)) 0 = min amount (max d 0)"
    and n: "max (min n (max d 0)) 0 = n" and y: "max (min (min amount (max d 0)) n) 0 = min (min amount (max d 0)) n"
    using assms(2-4) by (simp_all add: max_absorb1 min_absorb1)
  show "e = min amount (max d 0)" "i = min e n"
    using assms(1) unfolding allocate_repayment_def Let_def d x n y by auto
qed

lemma late_fee_range:
  "advance_repayment_schedule_after_repay b e i w = Inr (f, w') \<Longrightarrow> 0 \<le> f \<and> f \<le> i128_max"
  by (auto simp: advance_repayment_schedule_after_repay_def charge_late_fee_def Let_def checked_arith in_i128_def
      i128_max_def split: option.splits if_splits)

text \<open>C9 (\<open>draw_credit\<close>): a successful draw was signed by the borrower, with no pause, freeze or
  block in force, on an active or restricted line; the debt after it is the accrued debt plus exactly the
  drawn amount and respects the credit limit, the utilization cap, the borrower's exposure cap, the
  collateral requirement and, after every other line has been accrued, the protocol-wide exposure cap.\<close>

theorem draw_credit_guarantees:
  assumes "draw_credit tok b amount w = Inr w'"
  shows "\<not> is_paused w \<and> b \<in> set (signers w) \<and> 0 < amount \<and> \<not> is_draws_frozen w \<and>
     \<not> is_borrower_frozen b w \<and> \<not> is_credit_line_frozen b w \<and> \<not> is_borrower_blocked b w \<and>
     (\<exists>a l c r. accrued_line b w = Some a \<and> (status a = Active \<or> status a = Restricted) \<and>
        st_lines w' b = Some l \<and> l = a\<lparr>utilized_amount := utilized_amount a + amount\<rparr> \<and>
        utilized_amount l \<le> credit_limit l \<and>
        effective_collateral_value b w = Inr c \<and>
        required_collateral (utilized_amount l) (min_ratio_or_default w) = Inr r \<and> r \<le> c \<and>
        (\<forall>bps. st_utilization_cap_bps w b = Some bps \<longrightarrow> utilized_amount l \<le> credit_limit l * bps div 10000) \<and>
        (\<forall>cap. st_max_borrower_exposure w b = Some cap \<longrightarrow> utilized_amount l \<le> cap) \<and>
        (\<forall>cap. st_max_total_exposure w = Some cap \<longrightarrow> get_total_utilized w' \<le> cap) \<and>
        (\<forall>cap. st_max_draw_amount w = Some cap \<longrightarrow> amount \<le> cap))"
proof (rule draw_credit_Inr[OF assms])
  fix k l :: credit_line_data and w0 w1 w2 w3 w4
  let ?l = "l\<lparr>utilized_amount := utilized_amount l + amount\<rparr>"
  assume np: "\<not> is_paused w" and sg: "b \<in> set (signers w)"
    and w0: "w0 = w\<lparr>st_reentrancy := Some True, frame_auth := b # frame_auth w\<rparr>"
    and pf: "draw_preflight b amount w0 = Inr ()" and k: "st_lines w b = Some k"
    and a: "apply_accrual k w0 = Inr (l, w1)" and st: "status l = Active \<or> status l = Restricted"
    and lim: "draw_limits b l (utilized_amount l + amount) w1 = Inr ()"
    and gc: "draw_global_cap b amount (utilized_amount k) l w1 = Inr w2"
    and po: "draw_payout tok b amount w2 = Inr w3"
    and p: "persist_credit_line b ?l (utilized_amount k) (Some (status k)) w3 = Inr w4"
    and w': "w' = clear_reentrancy_guard (record_draw b amount ?l w4)"
  have pre: "0 < amount \<and> \<not> is_draws_frozen w \<and> \<not> is_borrower_frozen b w \<and> \<not> is_credit_line_frozen b w \<and>
      \<not> is_borrower_blocked b w \<and> (\<forall>cap. st_max_draw_amount w = Some cap \<longrightarrow> amount \<le> cap)"
    using pf by (auto simp: w0 draw_preflight_def is_draws_frozen_def is_borrower_frozen_def
        is_credit_line_frozen_def is_borrower_blocked_def split: option.splits)
  have al: "accrued_line b w = Some l"
    by (rule accrued_line_intro[OF k, of "Some True" "b # frame_auth w" "st_last_accrual_admin_action_ts w" "tokens w"])
      (use a in \<open>simp add: w0 relabel_def\<close>)
  obtain evs where w1: "w1 = w0\<lparr>events := events w0 @ evs\<rparr>" using acc.accrue_env[OF a] by blast
  have ecv: "effective_collateral_value b w1 = effective_collateral_value b w"
    by (rule effective_collateral_value_cong) (simp_all add: w1 w0)
  have mr: "min_ratio_or_default w1 = min_ratio_or_default w" by (simp add: w1 w0 min_ratio_or_default_def store_defs)
  obtain c r where c: "effective_collateral_value b w = Inr c"
    and r: "required_collateral (utilized_amount ?l) (min_ratio_or_default w) = Inr r" "r \<le> c"
    and cl: "utilized_amount ?l \<le> credit_limit ?l"
    and uc: "\<forall>bps. st_utilization_cap_bps w b = Some bps \<longrightarrow> utilized_amount ?l \<le> credit_limit ?l * bps div 10000"
    and ec: "\<forall>cap. st_max_borrower_exposure w b = Some cap \<longrightarrow> utilized_amount ?l \<le> cap"
    using lim unfolding draw_limits_def ecv mr
    by (auto simp: w1 w0 check_borrower_exposure_cap_def get_max_borrower_exposure_def get_utilization_cap_bps_def
        split: option.splits dest!: utilization_cap_amount_Inr)
  obtain t where w3: "w3 = w2\<lparr>tokens := t\<rparr>" using draw_payout_shape[OF po] by blast
  have fin: "st_lines w' = st_lines w4" "get_total_utilized w' = get_total_utilized w4"
    by (simp_all add: w' record_draw_def publish_borrow_lifecycle_event_def store_defs Let_def)
  have l': "st_lines w' b = Some ?l" using persist_fields(1)[OF p] fin by simp
  have tot: "get_total_utilized w' = get_total_utilized w2 + (utilized_amount ?l - utilized_amount k)"
    using persist_fields(5)[OF p] fin by (simp add: w3 get_total_utilized_def)
  have gl: "\<forall>cap. st_max_total_exposure w = Some cap \<longrightarrow> get_total_utilized w' \<le> cap"
    using draw_global_cap_frame(2)[OF gc] tot by (auto simp: w1 w0)
  show ?thesis using np sg pre al st l' c r cl uc ec gl by blast
qed

text \<open>(\<open>draw_credit\<close>, cash): with a token that follows the token interface, a draw moves
  exactly the drawn amount of the liquidity token from the reserve to the borrower and no other
  balance.\<close>

theorem draw_credit_cash:
  assumes "sac_token tok" and "draw_credit tok b amount w = Inr w'"
  shows "\<exists>t r. st_liquidity_token w = Some t \<and> st_liquidity_source w = Some r \<and>
     amount \<le> tk_balance tok (tokens w) t r \<and> moved (tk_balance tok) (tokens w) (tokens w') t r b amount"
proof (rule draw_credit_Inr[OF assms(2)])
  fix k l w0 w1 w2 w3 w4
  assume w0: "w0 = w\<lparr>st_reentrancy := Some True, frame_auth := b # frame_auth w\<rparr>"
    and a: "apply_accrual k w0 = Inr (l, w1)"
    and gc: "draw_global_cap b amount (utilized_amount k) l w1 = Inr w2"
    and po: "draw_payout tok b amount w2 = Inr w3"
    and p: "persist_credit_line b (l\<lparr>utilized_amount := utilized_amount l + amount\<rparr>) (utilized_amount k)
       (Some (status k)) w3 = Inr w4"
    and w': "w' = clear_reentrancy_guard (record_draw b amount (l\<lparr>utilized_amount := utilized_amount l + amount\<rparr>) w4)"
  have same: "tokens w2 = tokens w" "st_liquidity_token w2 = st_liquidity_token w"
    "st_liquidity_source w2 = st_liquidity_source w"
    using draw_global_cap_frame(1)[OF gc] acc.accrue_env[OF a] w0 by auto
  have t': "tokens w' = tokens w3"
    using persist_line_write[OF p]
    by (auto simp: w' line_write_def record_draw_def publish_borrow_lifecycle_event_def store_defs Let_def)
  obtain t r where tr: "st_liquidity_token w = Some t" "st_liquidity_source w = Some r"
    "moved (tk_balance tok) (tokens w) (tokens w') t r b amount"
    using sac_token.payout_moves[OF assms(1) po] unfolding same t' by blast
  moreover have "amount \<le> tk_balance tok (tokens w) t r"
    using draw_payout_shape[OF po] tr(1,2) unfolding same by auto
  ultimately show ?thesis by blast
qed


text \<open>C11 (\<open>repay_credit\<close>, cash): with a token that follows the token interface, the borrower pays
  exactly the settled amount plus the late fee; the settled amount is split without remainder between
  the protocol fee, which stays with the contract, and the reserve; and what the contract keeps is
  exactly what it books for treasury and bounty.  This is the code: \<^verbatim>\<open>docs/treasury.md\<close> 1.2 has the late fee taken out of the settled
  amount and booked for the treasury alone, and \<^verbatim>\<open>docs/credit.md\<close> has repayments without a token, while the code pulls the late fee on top,
  splits it like any fee, and refuses a repayment when no token is configured.\<close>

theorem repay_credit_cash:
  assumes "sac_token tok" and "repay_credit tok b amount w = Inr w'" and "amount \<le> i128_max"
    and "\<forall>bps. st_protocol_fee_bps w = Some bps \<longrightarrow> 0 \<le> bps \<and> bps \<le> 10000"
    and "0 \<le> get_treasury_fee_share_bps w"
    and "res = (case st_liquidity_source w of None \<Rightarrow> self_addr w | Some r \<Rightarrow> r)"
  shows "\<exists>t a e fee late. st_liquidity_token w = Some t \<and> accrued_line b w = Some a \<and>
     e = min amount (max 0 (utilized_amount a)) \<and> 0 \<le> fee \<and> fee \<le> e \<and> 0 \<le> late \<and>
     fees_held w' = fees_held w + fee + late \<and>
     (\<forall>who. tk_balance tok (tokens w') t who = tk_balance tok (tokens w) t who
        - (if who = b then e + late else 0) + (if who = res then e - fee else 0)
        + (if who = self_addr w then fee + late else 0))"
proof (rule repay_credit_Inr[OF assms(2)])
  fix k l w0 w1 e i p t w2 w3 f w4 w5
  let ?r = "repaid_line e i (normalize_interest l)"
  assume w0: "w0 = w\<lparr>st_reentrancy := Some True, frame_auth := b # frame_auth w\<rparr>" and pos: "0 < amount"
    and k: "st_lines w b = Some k" and a: "apply_accrual k w0 = Inr (l, w1)"
    and alc: "allocate_repayment (max (utilized_amount l) 0) (accrued_interest (normalize_interest l)) amount = (e, i, p)"
    and t: "st_liquidity_token w = Some t" and tr: "repay_transfers tok t b e i w1 = Inr w2"
    and ps: "persist_credit_line b ?r (utilized_amount k) (Some (status k)) w2 = Inr w3"
    and ad: "advance_repayment_schedule_after_repay b e i w3 = Inr (f, w4)"
    and lf: "collect_late_fee tok b f w4 = Inr w5"
    and w': "w' = clear_reentrancy_guard (publish_borrow_lifecycle_event Repaid b ?r
            (emit ([''credit'', ''repay''], RepaymentEvent b e (utilized_amount ?r)) w5))"
  have al: "accrued_line b w = Some l"
    by (rule accrued_line_intro[OF k, of "Some True" "b # frame_auth w" "st_last_accrual_admin_action_ts w" "tokens w"])
      (use a in \<open>simp add: w0 relabel_def\<close>)
  have e: "e = min amount (max 0 (utilized_amount l))" "0 \<le> i" "i \<le> e"
  proof -
    have n: "0 \<le> accrued_interest (normalize_interest l)" "accrued_interest (normalize_interest l) \<le> max (utilized_amount l) 0"
      by (simp_all add: normalize_interest_def)
    note v = allocate_repayment_value[OF alc pos n]
    show "e = min amount (max 0 (utilized_amount l))" unfolding v(1) max.commute[of 0] ..
    have "0 \<le> e" unfolding v(1) using pos by simp
    then show "0 \<le> i" "i \<le> e" unfolding v(2) using n(1) by simp_all
  qed
  obtain evs where w1: "w1 = w0\<lparr>events := events w0 @ evs\<rparr>" using acc.accrue_env[OF a] by blast
  obtain fee where fee: "0 \<le> fee" "fee \<le> e" "fees_held w2 = fees_held w + fee"
    and c2: "\<forall>who. tk_balance tok (tokens w2) t who = tk_balance tok (tokens w) t who
       - (if who = b then e else 0) + (if who = res then e - fee else 0) + (if who = self_addr w then fee else 0)"
  proof -
    have same: "st_protocol_fee_bps w1 = st_protocol_fee_bps w" "st_liquidity_source w1 = st_liquidity_source w"
      "get_treasury_fee_share_bps w1 = get_treasury_fee_share_bps w" "self_addr w1 = self_addr w"
      "fees_held w1 = fees_held w" "tokens w1 = tokens w"
      by (simp_all add: w1 w0 get_treasury_fee_share_bps_def fees_held_def store_defs)
    have "e \<le> i128_max" using e(1) assms(3) by simp
    from sac_token.repay_transfers_cash[OF assms(1) tr e(2,3) this, unfolded same, OF assms(4,5,6)]
    show thesis using that by blast
  qed
  have f: "0 \<le> f" "f \<le> i128_max" using late_fee_range[OF ad] by simp_all
  obtain sch evs4 where w4: "w4 = w3\<lparr>st_repayment_schedule := sch, events := evs4\<rparr>"
    using advance_schedule_shape[OF ad] by blast
  have fr: "tokens w4 = tokens w2" "fees_held w4 = fees_held w2" "self_addr w4 = self_addr w"
    "st_liquidity_token w4 = Some t" "get_treasury_fee_share_bps w4 = get_treasury_fee_share_bps w"
    using persist_line_write[OF ps] repay_transfers_moves[OF tr] t
    by (auto simp: w4 w1 w0 line_write_def moves_money_def fees_held_def store_defs get_treasury_fee_share_bps_def)
  have c5: "fees_held w5 = fees_held w4 + f" "\<forall>who. tk_balance tok (tokens w5) t who = tk_balance tok (tokens w4) t who
       - (if who = b then f else 0) + (if who = self_addr w then f else 0)"
    using sac_token.late_fee_cash[OF assms(1) lf fr(4) f(2)] f(1) assms(5) fr(3,5) by simp_all
  have t5: "tokens w' = tokens w5" "fees_held w' = fees_held w + fee + f"
    using c5(1) fr(2) fee(3) by (simp_all add: w' publish_borrow_lifecycle_event_def store_defs fees_held_def)
  have "tk_balance tok (tokens w') t who = tk_balance tok (tokens w) t who
      - (if who = b then e + f else 0) + (if who = res then e - fee else 0)
      + (if who = self_addr w then fee + f else 0)" for who
    unfolding t5(1) spec[OF c5(2), of who] fr(1) spec[OF c2, of who]
    by (cases "who = b"; cases "who = self_addr w") simp_all
  then show ?thesis using t al e(1) fee(1,2) f(1) t5(2) by blast
qed

section \<open>Concrete runs\<close>

definition borrow_env :: "(address \<times> address \<Rightarrow> int) env" where
  "borrow_env = pledge_env\<lparr>st_admin := Some 1, st_liquidity_source := Some 7\<rparr>"

lemma borrow_reads:
  "ledger_ts borrow_env = 100" "self_addr borrow_env = 9" "signers borrow_env = [5]" "frame_auth borrow_env = []"
  "tokens borrow_env = (\<lambda>_. 1000)" "st_admin borrow_env = Some 1" "st_paused borrow_env = None" "st_reentrancy borrow_env = None"
  "st_liquidity_token borrow_env = Some 3" "st_liquidity_source borrow_env = Some 7" "st_draws_frozen borrow_env = None"
  "st_credit_line_count borrow_env = Some 1" "st_total_utilized borrow_env = Some 1" "st_max_draw_amount borrow_env = None"
  "st_max_repay_amount borrow_env = None" "st_draw_min_interval_seconds borrow_env = None"
  "st_max_total_exposure borrow_env = None" "st_protocol_fee_bps borrow_env = None" "st_min_collateral_ratio_bps borrow_env = Some 10000"
  "st_collateral_risk_weight_bps borrow_env = Map.empty" "st_collateral_token_allowlist borrow_env = None"
  "st_credit_line_id borrow_env = [5 \<mapsto> 0]" "st_borrower_by_id borrow_env = [0 \<mapsto> 5]" "st_blocked_borrower borrow_env = Map.empty"
  "st_frozen_borrower borrow_env = Map.empty" "st_credit_line_freeze borrow_env = Map.empty"
  "st_utilization_cap_bps borrow_env = Map.empty" "st_max_borrower_exposure borrow_env = Map.empty"
  "st_repayment_schedule borrow_env = Map.empty" "st_collateral_balance borrow_env = [5 \<mapsto> 2]"
  "st_draw_reversed_amount borrow_env = Map.empty" "st_draw_audit borrow_env = Map.empty" "st_last_draw_ts borrow_env = Map.empty" "events borrow_env = []"
  "st_lines borrow_env = [5 \<mapsto> \<lparr>borrower = 5, credit_limit = 10, utilized_amount = 1, interest_rate_bps = 0, risk_score = 0,
        status = Active, last_rate_update_ts = 0, accrued_interest = 0, last_accrual_ts = 100, suspension_ts = 0\<rparr>]"
  by (simp_all add: borrow_env_def pledge_env_def genesis_def)

lemma allocate_runs: "allocate_repayment 1 0 4 = (1, 0, 1)" "allocate_repayment 2 0 2 = (2, 0, 2)"
  by (simp_all add: allocate_repayment_def saturating_sub_i128_def clamp_int_def i128_min_def i128_max_def)

lemmas borrow_eval = borrow_reads draw_credit_def repay_credit_def settle_repayment_def
  enter_reentrancy_guard_def set_reentrancy_guard_def require_auth_def draw_preflight_def is_draws_frozen_def
  is_credit_line_frozen_def load_line_def apply_accrual_def draw_interval_elapsed_def draw_limits_def
  effective_collateral_value_def add_weighted_def weighted_collateral_value_def legacy_collateral_weight_bps_def
  asset_weight_bps_def required_collateral_def min_ratio_or_default_def check_borrower_exposure_cap_def
  lift_contract_def draw_global_cap_def draw_payout_def token_balance_def token_transfer_def token_transfer_from_def
  book_token_def move_balance_def record_draw_def publish_borrow_lifecycle_event_def persist_credit_line_def
  ensure_credit_line_id_def adjust_total_utilized_def assert_total_utilized_conserved_def recompute_def line_ids_def
  update_active_line_count_def allocate_runs repay_transfers_def protocol_fee_on_def collect_fee_def
  repaid_line_def normalize_interest_def advance_repayment_schedule_after_repay_def collect_late_fee_def
  assert_not_paused_def store_defs saturating_sub_i128_def clamp_int_def mul_div_def checked_arith checked_def
  in_i128_def in_u128_def i128_min_def i128_max_def u128_max_def i128_as_u128_def ensure_def
  signed_divide_int_def signed_modulo_int_def Let_def

definition returns :: "'a res \<Rightarrow> ('a \<Rightarrow> bool) \<Rightarrow> bool" where
  "returns r P = (case r of Inl _ \<Rightarrow> False | Inr x \<Rightarrow> P x)"

lemma returnsE: "returns r P \<Longrightarrow> (\<And>x. r = Inr x \<Longrightarrow> P x \<Longrightarrow> thesis) \<Longrightarrow> thesis"
  by (cases r) (simp_all add: returns_def)

lemma repay_runs: "returns (repay_credit book_token 5 4 borrow_env) (\<lambda>_. True)"
  by (simp add: returns_def borrow_eval)

theorem draw_credit_guarantees_witness:
  "\<exists>w' l. draw_credit book_token 5 1 borrow_env = Inr w' \<and> st_lines w' 5 = Some l \<and>
     utilized_amount l \<le> credit_limit l \<and> \<not> is_paused borrow_env"
proof -
  obtain w' where w': "draw_credit book_token 5 1 borrow_env = Inr w'" by (simp add: borrow_eval)
  show ?thesis using draw_credit_guarantees[OF w'] w' by blast
qed

theorem draw_credit_cash_witness:
  "\<exists>w'. draw_credit book_token 5 1 borrow_env = Inr w' \<and> tk_balance book_token (tokens w') 3 7 = 999 \<and>
     tk_balance book_token (tokens w') 3 5 = 1001"
proof -
  obtain w' where w': "draw_credit book_token 5 1 borrow_env = Inr w'" by (simp add: borrow_eval)
  have "moved (tk_balance book_token) (tokens borrow_env) (tokens w') 3 7 5 1"
    using draw_credit_cash[OF bt.sac_token_axioms w'] by (simp add: borrow_env_def pledge_env_def genesis_def)
  then show ?thesis using w' by (simp add: moved_def borrow_env_def pledge_env_def genesis_def book_token_def)
qed

lemma borrow_env_ledger: "ledger_ok True borrow_env"
  by (simp add: borrow_env_def pledge_env_def genesis_def ledger_simps index_ok_def collateral_ok_def count_status_def
      map_sum_def has_status_def line_ok_def u32_max_def i128_max_def)


theorem repay_credit_cash_witness:
  "\<exists>w' e. repay_credit book_token 5 4 borrow_env = Inr w' \<and> 0 \<le> e \<and>
     tk_balance book_token (tokens w') 3 5 = 1000 - e"
proof -
  obtain w' where w': "repay_credit book_token 5 4 borrow_env = Inr w'" by (rule returnsE[OF repay_runs])
  have h: "(4::int) \<le> i128_max" "\<forall>bps. st_protocol_fee_bps borrow_env = Some bps \<longrightarrow> 0 \<le> bps \<and> bps \<le> 10000"
    "0 \<le> get_treasury_fee_share_bps borrow_env"
    "7 = (case st_liquidity_source borrow_env of None \<Rightarrow> self_addr borrow_env | Some r \<Rightarrow> r)"
    by (simp_all add: borrow_env_def pledge_env_def genesis_def i128_max_def get_treasury_fee_share_bps_def
        DEFAULT_TREASURY_FEE_SHARE_BPS_def)
  obtain t a e fee late where t: "st_liquidity_token borrow_env = Some t" and "0 \<le> fee" "fee \<le> e" "0 \<le> late"
    and c: "tk_balance book_token (tokens w') t 5 = tk_balance book_token (tokens borrow_env) t 5
        - (if (5::nat) = 5 then e + late else 0) + (if (5::nat) = 7 then e - fee else 0)
        + (if 5 = self_addr borrow_env then fee + late else 0)"
    using repay_credit_cash[OF bt.sac_token_axioms w' h] by blast
  moreover have "t = 3" using t by (simp add: borrow_env_def pledge_env_def)
  ultimately show ?thesis using w'
    by (intro exI[of _ w'] exI[of _ "e + late"]) (simp add: borrow_env_def pledge_env_def genesis_def book_token_def)
qed

definition reversal_run :: "(address \<times> address \<Rightarrow> int) env res" where
  "reversal_run =
     and_then (draw_credit book_token 5 1 borrow_env) (\<lambda>w.
     and_then (repay_credit book_token 5 2 (w\<lparr>frame_auth := []\<rparr>)) (\<lambda>w.
     reverse_draw 5 1 100 0 (w\<lparr>frame_auth := [], signers := [1]\<rparr>)))"

definition drawn_env :: "(address \<times> address \<Rightarrow> int) env" where
  "drawn_env = borrow_env\<lparr>st_reentrancy := Some False, frame_auth := [5],
     tokens := (\<lambda>_. 1000)((3, 7) := 999, (3, 5) := 1001),
     st_lines := [5 \<mapsto> \<lparr>borrower = 5, credit_limit = 10, utilized_amount = 2, interest_rate_bps = 0, risk_score = 0,
        status = Active, last_rate_update_ts = 0, accrued_interest = 0, last_accrual_ts = 100, suspension_ts = 0\<rparr>],
     st_total_utilized := Some 2, st_last_draw_ts := [5 \<mapsto> 100], st_draw_audit := [(5, 100) \<mapsto> 1],
     events := [([''credit'', ''drawn''], DrawnEvent 5 1 2 100),
       ([''credit'', ''borrow_lc''], BorrowLifecycleEvent 5 Drawn Active 2 10 0 100)]\<rparr>"

lemma draw_run: "draw_credit book_token 5 1 borrow_env = Inr drawn_env"
  by (simp add: drawn_env_def) (simp add: borrow_eval)

lemma reversal_after_draw:
  "returns (and_then (repay_credit book_token 5 2 (drawn_env\<lparr>frame_auth := []\<rparr>)) (\<lambda>w.
      reverse_draw 5 1 100 0 (w\<lparr>frame_auth := [], signers := [1]\<rparr>)))
     (\<lambda>w. (case st_lines w 5 of None \<Rightarrow> False | Some l \<Rightarrow> utilized_amount l = - 1) \<and> get_total_utilized w = - 1)"
  by (simp add: returns_def drawn_env_def reverse_draw_def require_admin_auth_def require_admin_def
      DRAW_REVERSAL_WINDOW_SECS_def saturating_sub_u64_def borrow_eval)

text \<open>(\<open>reverse_draw\<close>): a reversal of an already repaid draw drives the debt below zero.  The
  only bound on the reversed amount is the audited draw; from balanced books with well-formed lines, a
  draw, its full repayment and its reversal leave a debt of minus one.\<close>

theorem reverse_draw_negative_debt:
  "ledger_ok True borrow_env \<and>
   (\<exists>w l. reversal_run = Inr w \<and> st_lines w 5 = Some l \<and> utilized_amount l = - 1 \<and> get_total_utilized w = - 1)"
  using borrow_env_ledger reversal_after_draw unfolding reversal_run_def draw_run and_then_simps
  by (auto elim!: returnsE split: option.splits)

text \<open>(\<open>reverse_draw\<close>): within its window, a draw is never reversed by more than what was drawn,
  however many times the admin reverses it.\<close>

theorem reverse_draw_bounded:
  assumes "reverse_draw b amount ts rc w = Inr w'" and "0 \<le> get_draw_reversed_amount b ts w"
  shows "\<exists>d. st_draw_audit w (b, ts) = Some d \<and> st_draw_audit w' = st_draw_audit w \<and>
     get_draw_reversed_amount b ts w' = get_draw_reversed_amount b ts w + amount \<and> 0 < amount \<and>
     (d \<le> i128_max \<longrightarrow> get_draw_reversed_amount b ts w' \<le> d) \<and> ledger_ts w - ts \<le> 3600"
proof -
  from assms(1) obtain ad w0 k l w1 w2 d where u: "require_admin_auth w = Inr (ad, w0)" and am: "0 < amount"
    and win: "\<not> DRAW_REVERSAL_WINDOW_SECS < saturating_sub_u64 (ledger_ts w0) ts"
    and a: "apply_accrual k w0 = Inr (l, w1)" and d: "st_draw_audit w1 (b, ts) = Some d"
    and le: "amount \<le> saturating_sub_i128 d (get_draw_reversed_amount b ts w1)"
    and p: "persist_credit_line b (l\<lparr>utilized_amount := utilized_amount l - amount\<rparr>) (utilized_amount k)
              (Some (status k)) w1 = Inr w2"
    and w': "w' = emit ([''credit'', ''draw_rev''], DrawReversedEvent b amount ts rc (utilized_amount l - amount) (ledger_ts w0) ad True)
              (set_draw_reversed_amount b ts (get_draw_reversed_amount b ts w1 + amount) w2)"
    by (auto simp: reverse_draw_def Let_def checked_arith get_draw_audit_def)
  have w1: "st_draw_audit w1 = st_draw_audit w" "get_draw_reversed_amount b ts w1 = get_draw_reversed_amount b ts w"
    "ledger_ts w0 = ledger_ts w"
    using acc.accrue_env[OF a] require_admin_auth_Inr[OF u] by (auto simp: get_draw_reversed_amount_def)
  have w2: "st_draw_audit w2 = st_draw_audit w1" using persist_line_write[OF p] by (auto simp: line_write_def)
  have "get_draw_reversed_amount b ts w' = get_draw_reversed_amount b ts w + amount" "st_draw_audit w' = st_draw_audit w"
    using w1 w2 by (simp_all add: w' emit_def set_draw_reversed_amount_def get_draw_reversed_amount_def)
  moreover have "d \<le> i128_max \<Longrightarrow> amount \<le> d - get_draw_reversed_amount b ts w"
    using le am assms(2) unfolding w1 by (auto simp: saturating_sub_i128_def clamp_int_def i128_min_def)
  moreover have "ledger_ts w - ts \<le> 3600"
    using win w1(3) by (auto simp: saturating_sub_u64_def DRAW_REVERSAL_WINDOW_SECS_def)
  ultimately show ?thesis using d w1(1) am by auto
qed

theorem reverse_draw_bounded_witness:
  "\<exists>w'. reverse_draw 5 1 100 0 (borrow_env\<lparr>signers := [1], st_draw_audit := [(5, 100) \<mapsto> 1]\<rparr>) = Inr w' \<and>
     get_draw_reversed_amount 5 100 w' \<le> 1"
proof -
  let ?w = "borrow_env\<lparr>signers := [1], st_draw_audit := [(5, 100) \<mapsto> 1]\<rparr>"
  obtain w' where w': "reverse_draw 5 1 100 0 ?w = Inr w'"
    by (simp add: reverse_draw_def require_admin_auth_def require_admin_def DRAW_REVERSAL_WINDOW_SECS_def
        saturating_sub_u64_def borrow_eval)
  have g: "0 \<le> get_draw_reversed_amount 5 100 ?w" by (simp add: get_draw_reversed_amount_def borrow_env_def pledge_env_def genesis_def)
  show ?thesis using reverse_draw_bounded[OF w' g] w' by (auto simp: i128_max_def)
qed

end
