(* ===== verification/Admin.thy ===== *)
theory Admin
  imports Borrow
begin

text \<open>
  Deployment, administration and the treasury (\<^verbatim>\<open>contracts/credit/src/config.rs\<close> and the
  entrypoints of \<^verbatim>\<open>lib.rs\<close>): initialisation, the two-step admin rotation, the protocol
  settings, the accumulated fees and their timelocked withdrawal, and the upgrade marker.  The locale
  \<open>timelocked\<close> states what the rotation and the withdrawal have in common: a stored proposal
  with the time from which it may run, and a run that consumes it.
\<close>

definition SCHEMA_VERSION :: u32 where "SCHEMA_VERSION = 1"
definition MAX_PROTOCOL_FEE_BPS :: u32 where "MAX_PROTOCOL_FEE_BPS = 1000"
definition TREASURY_TIMELOCK_SECS :: u64 where "TREASURY_TIMELOCK_SECS = 86400"

section \<open>Deployment and admin rotation\<close>

definition init :: "address \<Rightarrow> 't env \<Rightarrow> 't env res" where
  "init admin w =
     and_then (ensure (st_admin w = None) (Contract AlreadyInitialized)) (\<lambda>_.
     Inr (w\<lparr>st_admin := Some admin, st_liquidity_source := Some (self_addr w), st_credit_line_count := Some 0,
            st_total_utilized := Some 0, st_schema_version := Some SCHEMA_VERSION,
            st_min_collateral_ratio_bps := Some 15000\<rparr>))"

definition propose_admin :: "address \<Rightarrow> u64 \<Rightarrow> 't env \<Rightarrow> 't env res" where
  "propose_admin new_admin delay_seconds w =
     and_then (require_admin_auth w) (\<lambda>(_, w).
     let accept_after = saturating_add_u64 (ledger_ts w) delay_seconds in
     Inr (publish_admin_rotation_proposed new_admin accept_after
            (w\<lparr>st_proposed_admin := Some new_admin, st_proposed_at := Some accept_after\<rparr>)))"

definition accept_admin :: "'t env \<Rightarrow> 't env res" where
  "accept_admin w =
     and_then (ok_or (Contract Unauthorized) (st_proposed_admin w)) (\<lambda>proposed_admin.
     let accept_after = (case st_proposed_at w of None \<Rightarrow> 0 | Some t \<Rightarrow> t) in
     and_then (require_auth proposed_admin w) (\<lambda>w.
     and_then (ensure (\<not> ledger_ts w < accept_after) (Contract AdminAcceptTooEarly)) (\<lambda>_.
     Inr (publish_admin_rotation_accepted proposed_admin
            (w\<lparr>st_admin := Some proposed_admin, st_proposed_admin := None, st_proposed_at := None\<rparr>)))))"

definition set_liquidity_token :: "address \<Rightarrow> 't env \<Rightarrow> 't env res" where
  "set_liquidity_token t w =
     and_then (require_admin_auth w) (\<lambda>(_, w). Inr (w\<lparr>st_liquidity_token := Some t\<rparr>))"

definition set_liquidity_source :: "address \<Rightarrow> 't env \<Rightarrow> 't env res" where
  "set_liquidity_source r w =
     and_then (require_admin_auth w) (\<lambda>(_, w). Inr (w\<lparr>st_liquidity_source := Some r\<rparr>))"

section \<open>Settings\<close>

definition set_grace_period_config :: "u64 \<Rightarrow> grace_waiver_mode \<Rightarrow> u32 \<Rightarrow> 't env \<Rightarrow> 't env res" where
  "set_grace_period_config secs mode rate w =
     and_then (require_admin_auth w) (\<lambda>(_, w).
     and_then (ensure (rate \<le> MAX_INTEREST_RATE_BPS) (Contract RateTooHigh)) (\<lambda>_.
     Inr (w\<lparr>st_grace_cfg := Some \<lparr>grace_period_seconds = secs, waiver_mode = mode, reduced_rate_bps = rate\<rparr>\<rparr>)))"

definition set_late_fee_config :: "late_fee_config option \<Rightarrow> 't env \<Rightarrow> 't env res" where
  "set_late_fee_config config w =
     and_then (require_admin_auth w) (\<lambda>(_, w).
     and_then (assert_no_active_auctions w) (\<lambda>_.
     and_then (case config of
         None \<Rightarrow> Inr ()
       | Some (Flat amount) \<Rightarrow> ensure (\<not> amount < 0) (Contract InvalidAmount)
       | Some (AprBased surcharge_bps) \<Rightarrow> ensure (surcharge_bps \<le> MAX_INTEREST_RATE_BPS) (Contract RateTooHigh)) (\<lambda>_.
     Inr (storage_set_late_fee_config config w))))"

definition set_max_draw_amount :: "i128 \<Rightarrow> 't env \<Rightarrow> 't env res" where
  "set_max_draw_amount amount w =
     and_then (assert_not_paused w) (\<lambda>_.
     and_then (require_admin_auth w) (\<lambda>(_, w).
     and_then (ensure (0 < amount) (Contract InvalidAmount)) (\<lambda>_.
     Inr (w\<lparr>st_max_draw_amount := Some amount\<rparr>))))"

definition set_max_repay_amount :: "i128 \<Rightarrow> 't env \<Rightarrow> 't env res" where
  "set_max_repay_amount amount w =
     and_then (assert_not_paused w) (\<lambda>_.
     and_then (require_admin_auth w) (\<lambda>(_, w).
     and_then (ensure (0 < amount) (Contract InvalidAmount)) (\<lambda>_.
     Inr (w\<lparr>st_max_repay_amount := Some amount\<rparr>))))"

definition set_draw_min_interval :: "u64 \<Rightarrow> 't env \<Rightarrow> 't env res" where
  "set_draw_min_interval seconds w =
     and_then (assert_not_paused w) (\<lambda>_.
     and_then (require_admin_auth w) (\<lambda>(_, w).
     Inr (storage_set_draw_min_interval seconds w)))"

definition set_borrow_admin_cooldown :: "u64 \<Rightarrow> 't env \<Rightarrow> 't env res" where
  "set_borrow_admin_cooldown seconds w =
     and_then (assert_not_paused w) (\<lambda>_.
     and_then (require_admin_auth w) (\<lambda>(_, w).
     Inr (storage_set_borrow_admin_cooldown seconds w)))"

definition set_accrual_admin_cooldown :: "u64 \<Rightarrow> 't env \<Rightarrow> 't env res" where
  "set_accrual_admin_cooldown seconds w =
     and_then (assert_not_paused w) (\<lambda>_.
     and_then (require_admin_auth w) (\<lambda>(_, w).
     Inr (storage_set_accrual_admin_cooldown seconds w)))"

definition set_protocol_fee_bps :: "u32 \<Rightarrow> 't env \<Rightarrow> 't env res" where
  "set_protocol_fee_bps bps w =
     and_then (require_admin_auth w) (\<lambda>(_, w).
     and_then (assert_no_active_auctions w) (\<lambda>_.
     and_then (ensure (bps \<le> MAX_PROTOCOL_FEE_BPS) (Contract Overflow)) (\<lambda>_.
     Inr (storage_set_protocol_fee_bps bps w))))"

definition set_treasury_fee_share_bps :: "u32 \<Rightarrow> 't env \<Rightarrow> 't env res" where
  "set_treasury_fee_share_bps share w =
     and_then (require_admin_auth w) (\<lambda>(_, w).
     and_then (assert_no_active_auctions w) (\<lambda>_.
     and_then (ensure (share \<le> MAX_FEE_SHARE_BPS) (Contract Overflow)) (\<lambda>_.
     Inr (storage_set_treasury_fee_share_bps share w))))"

definition set_max_total_exposure :: "i128 \<Rightarrow> 't env \<Rightarrow> 't env res" where
  "set_max_total_exposure amount w =
     and_then (require_admin_auth w) (\<lambda>(_, w).
     and_then (ensure (\<not> amount < 0) (Contract InvalidAmount)) (\<lambda>_.
     Inr (set_max_total_exposure_store amount w)))"

definition set_borrower_exposure_cap :: "address \<Rightarrow> i128 \<Rightarrow> 't env \<Rightarrow> 't env res" where
  "set_borrower_exposure_cap b cap w =
     and_then (require_admin_auth w) (\<lambda>(_, w).
     and_then (ensure (\<not> cap < 0) (Contract InvalidAmount)) (\<lambda>_.
     Inr (set_max_borrower_exposure b cap w)))"

definition set_auction_contract :: "address \<Rightarrow> 't env \<Rightarrow> 't env res" where
  "set_auction_contract a w =
     and_then (assert_not_paused w) (\<lambda>_.
     and_then (require_admin_auth w) (\<lambda>(_, w). Inr (storage_set_auction_contract a w)))"

definition set_close_factor_bps :: "u32 \<Rightarrow> 't env \<Rightarrow> 't env res" where
  "set_close_factor_bps bps w =
     and_then (require_admin_auth w) (\<lambda>(_, w).
     and_then (ensure (\<not> (bps = 0 \<or> 10000 < bps)) (Contract InvalidAmount)) (\<lambda>_.
     Inr (publish_close_factor_bps_set_event bps (storage_set_close_factor_bps bps w))))"

text \<open>The upgrade's effect on the contract's state; the code the host installs is not part of it.\<close>

definition upgrade :: "bytes \<Rightarrow> 't env \<Rightarrow> 't env res" where
  "upgrade new_wasm_hash w =
     and_then (assert_not_paused w) (\<lambda>_.
     and_then (require_admin_auth w) (\<lambda>(_, w).
     let current_version = (case storage_get_schema_version w of None \<Rightarrow> SCHEMA_VERSION | Some v \<Rightarrow> v) in
     Inr (publish_contract_upgraded_event (replicate 32 0) new_wasm_hash
            (storage_set_schema_version (saturating_add_u32 current_version 1) w))))"

section \<open>Treasury and bounty\<close>

definition set_treasury :: "address \<Rightarrow> address \<Rightarrow> 't env \<Rightarrow> 't env res" where
  "set_treasury admin treasury w =
     and_then (require_admin_auth_with_argument admin w) (\<lambda>(_, w). Inr (storage_set_treasury_address treasury w))"

definition set_bounty :: "address \<Rightarrow> address \<Rightarrow> 't env \<Rightarrow> 't env res" where
  "set_bounty admin bounty w =
     and_then (require_admin_auth_with_argument admin w) (\<lambda>(_, w). Inr (storage_set_bounty_address bounty w))"

definition propose_treasury_withdrawal :: "address \<Rightarrow> 't env \<Rightarrow> 't env res" where
  "propose_treasury_withdrawal admin w =
     and_then (require_admin_auth_with_argument admin w) (\<lambda>(_, w).
     and_then (ok_or (Contract TreasuryNotSet) (storage_get_treasury_address w)) (\<lambda>treasury.
     and_then (ensure (storage_get_pending_treasury_withdrawal w = None) (Contract TreasuryProposalExists)) (\<lambda>_.
     let amount = get_treasury_balance w; now = ledger_ts w;
         ready = saturating_add_u64 now TREASURY_TIMELOCK_SECS;
         proposal = \<lparr>recipient = treasury, proposal_amount = amount, proposer = admin, proposed_at = now,
                     execute_after = ready\<rparr> in
     Inr (publish_treasury_withdrawal_proposed treasury amount admin now ready
            (storage_set_pending_treasury_withdrawal proposal w)))))"

definition pay_treasury :: "'t token_client \<Rightarrow> address \<Rightarrow> i128 \<Rightarrow> 't env \<Rightarrow> 't env res" where
  "pay_treasury tok dst amount w =
     (if 0 < amount then
        and_then (ok_or (Contract MissingLiquidityToken) (st_liquidity_token w)) (\<lambda>token_address.
        token_transfer tok token_address (self_addr w) dst amount w)
      else Inr w)"

definition execute_treasury_withdrawal :: "'t token_client \<Rightarrow> address \<Rightarrow> 't env \<Rightarrow> 't env res" where
  "execute_treasury_withdrawal tok admin w =
     and_then (require_admin_auth_with_argument admin w) (\<lambda>(_, w).
     and_then (ok_or (Contract NoPendingTreasuryWithdrawal) (storage_get_pending_treasury_withdrawal w)) (\<lambda>proposal.
     and_then (ensure (\<not> ledger_ts w < execute_after proposal) (Contract TreasuryTimelockActive)) (\<lambda>_.
     and_then (subtract_treasury_balance (proposal_amount proposal) w) (\<lambda>(remaining, w).
     let w = storage_clear_pending_treasury_withdrawal w in
     and_then (pay_treasury tok (recipient proposal) (proposal_amount proposal) w) (\<lambda>w.
     Inr (publish_treasury_withdrawal_executed (recipient proposal) (proposal_amount proposal) admin (ledger_ts w)
                  remaining w))))))"

definition withdraw_bounty :: "'t token_client \<Rightarrow> address \<Rightarrow> 't env \<Rightarrow> 't env res" where
  "withdraw_bounty tok admin w =
     and_then (require_admin_auth w) (\<lambda>(configured_admin, w).
     and_then (ensure (admin = configured_admin) (Contract NotAdmin)) (\<lambda>_.
     and_then (ok_or (Contract BountyNotSet) (storage_get_bounty_address w)) (\<lambda>bounty_addr.
     let amount = get_bounty_balance w in
     if amount = 0 then Inr w
     else
       and_then (ok_or (Contract MissingLiquidityToken) (st_liquidity_token w)) (\<lambda>token_address.
       and_then (token_transfer tok token_address (self_addr w) bounty_addr amount w) (\<lambda>w.
       Inr (clear_bounty_balance w))))))"

definition withdraw_treasury :: "'t token_client \<Rightarrow> address \<Rightarrow> 't env \<Rightarrow> 't env res" where
  "withdraw_treasury tok admin w =
     and_then (require_admin_auth_with_argument admin w) (\<lambda>(_, w).
     and_then (ok_or (Contract NoPendingTreasuryWithdrawal) (storage_get_pending_treasury_withdrawal w)) (\<lambda>proposal.
     and_then (ensure (\<not> ledger_ts w < execute_after proposal) (Contract TreasuryTimelockActive)) (\<lambda>_.
     execute_treasury_withdrawal tok admin w)))"

section \<open>The books\<close>

lemma admin_setting_books:
  "propose_admin a d w = Inr w' \<Longrightarrow> same_books w w'"
  "set_liquidity_token a w = Inr w' \<Longrightarrow> same_books w w'"
  "set_liquidity_source a w = Inr w' \<Longrightarrow> same_books w w'"
  "set_grace_period_config d g u w = Inr w' \<Longrightarrow> same_books w w'"
  "set_late_fee_config c w = Inr w' \<Longrightarrow> same_books w w'"
  "set_max_draw_amount x w = Inr w' \<Longrightarrow> same_books w w'"
  "set_max_repay_amount x w = Inr w' \<Longrightarrow> same_books w w'"
  "set_draw_min_interval d w = Inr w' \<Longrightarrow> same_books w w'"
  "set_borrow_admin_cooldown d w = Inr w' \<Longrightarrow> same_books w w'"
  "set_accrual_admin_cooldown d w = Inr w' \<Longrightarrow> same_books w w'"
  "set_protocol_fee_bps u w = Inr w' \<Longrightarrow> same_books w w'"
  "set_treasury_fee_share_bps u w = Inr w' \<Longrightarrow> same_books w w'"
  "set_max_total_exposure x w = Inr w' \<Longrightarrow> same_books w w'"
  "set_borrower_exposure_cap a x w = Inr w' \<Longrightarrow> same_books w w'"
  "set_auction_contract a w = Inr w' \<Longrightarrow> same_books w w'"
  "set_close_factor_bps u w = Inr w' \<Longrightarrow> same_books w w'"
  "upgrade h w = Inr w' \<Longrightarrow> same_books w w'"
  by (auto dest!: require_admin_auth_Inr simp: Let_def propose_admin_def)
    (auto dest!: require_admin_auth_Inr simp: Let_def set_liquidity_token_def set_liquidity_source_def
      set_grace_period_config_def set_late_fee_config_def set_max_draw_amount_def set_max_repay_amount_def
      set_draw_min_interval_def set_borrow_admin_cooldown_def set_accrual_admin_cooldown_def
      set_protocol_fee_bps_def set_treasury_fee_share_bps_def set_max_total_exposure_def
      set_max_total_exposure_store_def set_borrower_exposure_cap_def set_max_borrower_exposure_def
      set_auction_contract_def set_close_factor_bps_def upgrade_def)

lemma accept_admin_ledger: "accept_admin w = Inr w' \<Longrightarrow> ledger_gap s d w' = ledger_gap s d w"
  by (auto simp: accept_admin_def Let_def ledger_simps emit_def dest!: require_auth_Inr)

lemma subtract_treasury_Inr:
  "subtract_treasury_balance x w = Inr (r, w') \<Longrightarrow>
     0 \<le> x \<and> 0 \<le> r \<and> r = get_treasury_balance w - x \<and> w' = w\<lparr>st_treasury_balance := Some r\<rparr>"
  by (auto simp: subtract_treasury_balance_def checked_arith split: option.splits if_splits)

lemma pay_treasury_Inr:
  "pay_treasury tok d x w = Inr w' \<Longrightarrow>
     if 0 < x then \<exists>t s. st_liquidity_token w = Some t \<and>
       tk_transfer tok (tokens w) t (self_addr w) d x = Some s \<and> w' = w\<lparr>tokens := s\<rparr>
     else w' = w"
  by (auto simp: pay_treasury_def dest!: token_transfer_Inr split: if_splits)

lemma execute_treasury_Inr:
  assumes "execute_treasury_withdrawal tok admin w = Inr w'"
  obtains p s evs where "st_admin w = Some admin" "admin \<in> set (signers w)"
    "st_pending_treasury_withdrawal w = Some p" "execute_after p \<le> ledger_ts w"
    "0 \<le> proposal_amount p" "proposal_amount p \<le> get_treasury_balance w"
    "0 < proposal_amount p \<Longrightarrow> \<exists>t. st_liquidity_token w = Some t \<and>
       tk_transfer tok (tokens w) t (self_addr w) (recipient p) (proposal_amount p) = Some s"
    "w' = w\<lparr>frame_auth := admin # frame_auth w, st_treasury_balance := Some (get_treasury_balance w - proposal_amount p),
            st_pending_treasury_withdrawal := None, tokens := (if 0 < proposal_amount p then s else tokens w), events := evs\<rparr>"
proof -
  from assms obtain a w1 p r w2 w3 where u: "require_admin_auth_with_argument admin w = Inr (a, w1)"
    and p: "st_pending_treasury_withdrawal w1 = Some p" and t: "execute_after p \<le> ledger_ts w1"
    and s: "subtract_treasury_balance (proposal_amount p) w1 = Inr (r, w2)"
    and y: "pay_treasury tok (recipient p) (proposal_amount p) (w2\<lparr>st_pending_treasury_withdrawal := None\<rparr>) = Inr w3"
    and w': "w' = emit ([''credit'', ''tre_exec''], TreasuryWithdrawalExecutedEvent (recipient p) (proposal_amount p) admin (ledger_ts w3) r) w3"
    by (auto simp: execute_treasury_withdrawal_def Let_def)
  note f = require_admin_auth_with_argument_Inr[OF u] subtract_treasury_Inr[OF s]
  show ?thesis
  proof (cases "0 < proposal_amount p")
    case True
    then obtain t s where "st_liquidity_token w2 = Some t" "w3 = w2\<lparr>st_pending_treasury_withdrawal := None, tokens := s\<rparr>"
      "tk_transfer tok (tokens w2) t (self_addr w2) (recipient p) (proposal_amount p) = Some s"
      using pay_treasury_Inr[OF y] by auto
    then show ?thesis
      by (intro that[of p s "events w'"]) (use f p t w' True in \<open>auto simp: emit_def store_defs\<close>)
  next
    case False
    then have "w3 = w2\<lparr>st_pending_treasury_withdrawal := None\<rparr>" using pay_treasury_Inr[OF y] by simp
    then show ?thesis
      by (intro that[of p "tokens w" "events w'"]) (use f p t w' False in \<open>auto simp: emit_def store_defs\<close>)
  qed
qed

lemma treasury_books:
  "set_treasury a b w = Inr w' \<Longrightarrow> same_books w w'"
  "set_bounty a b w = Inr w' \<Longrightarrow> same_books w w'"
  "propose_treasury_withdrawal a w = Inr w' \<Longrightarrow> same_books w w'"
  "execute_treasury_withdrawal tok a w = Inr w' \<Longrightarrow> same_books w w'"
  "withdraw_bounty tok a w = Inr w' \<Longrightarrow> same_books w w'"
  by (auto dest!: require_admin_auth_with_argument_Inr simp: set_treasury_def)
    (auto dest!: require_admin_auth_with_argument_Inr require_admin_auth_Inr token_transfer_Inr
      simp: set_bounty_def propose_treasury_withdrawal_def withdraw_bounty_def clear_bounty_balance_def Let_def
      elim!: execute_treasury_Inr split: if_splits)

section \<open>Timelocked actions\<close>

locale timelocked =
  fixes now :: "'e \<Rightarrow> u64" and ready :: "'e \<Rightarrow> u64 option" and run :: "'e \<Rightarrow> 'err + 'e"
  assumes run_ready: "run w = Inr w' \<Longrightarrow> \<exists>t. ready w = Some t \<and> t \<le> now w"
    and run_consumes: "run w = Inr w' \<Longrightarrow> ready w' = None"
begin

lemma not_early: "ready w = Some t \<Longrightarrow> now w < t \<Longrightarrow> run w \<noteq> Inr w'"
  using run_ready by fastforce

lemma one_run_per_proposal: "run w = Inr w' \<Longrightarrow> ready v = ready w' \<Longrightarrow> run v \<noteq> Inr v'"
  using run_ready run_consumes by fastforce

end

definition rotation_ready :: "'t env \<Rightarrow> u64 option" where
  "rotation_ready w = (case st_proposed_admin w of None \<Rightarrow> None
     | Some a \<Rightarrow> Some (case st_proposed_at w of None \<Rightarrow> 0 | Some t \<Rightarrow> t))"

definition withdrawal_ready :: "'t env \<Rightarrow> u64 option" where
  "withdrawal_ready w = map_option execute_after (st_pending_treasury_withdrawal w)"

interpretation rot: timelocked ledger_ts rotation_ready accept_admin
  by unfold_locales (auto simp: accept_admin_def rotation_ready_def Let_def emit_def dest!: require_auth_Inr)

interpretation twd: timelocked ledger_ts withdrawal_ready "execute_treasury_withdrawal tok admin" for tok admin
  by unfold_locales (auto simp: withdrawal_ready_def elim!: execute_treasury_Inr)

lemma propose_withdrawal_Inr:
  "propose_treasury_withdrawal a w = Inr w' \<Longrightarrow> \<exists>r. st_treasury_address w = Some r \<and>
     st_pending_treasury_withdrawal w = None \<and> st_admin w = Some a \<and>
     st_pending_treasury_withdrawal w' = Some \<lparr>recipient = r, proposal_amount = get_treasury_balance w, proposer = a,
       proposed_at = ledger_ts w, execute_after = saturating_add_u64 (ledger_ts w) TREASURY_TIMELOCK_SECS\<rparr>"
  by (auto simp: propose_treasury_withdrawal_def Let_def store_defs dest!: require_admin_auth_with_argument_Inr)

text \<open>C20 A treasury withdrawal pays what was proposed and when: an execution that finds the proposal of an
  earlier moment was signed by the admin, comes at least a day after the proposal (as long as the clock is a
  day away from the end of its range), debits the booked treasury by the balance of the moment of the proposal, moves exactly that
  amount of the liquidity token from the contract to the treasury address configured then, and
  consumes the proposal, so that a second execution has no effect.  Fees booked after the proposal stay booked: the code debits the
  proposed amount, where \<^verbatim>\<open>docs/treasury.md\<close> 7.2, 7.5 and 8 have the whole balance cleared; and the immediate
  path that its 7.1 and 7.4 describe does not exist, since \<open>withdraw_treasury\<close> delegates to the execution (and always reverts).\<close>

theorem treasury_withdrawal_timelocked:
  assumes "propose_treasury_withdrawal a w = Inr w1"
    and "st_pending_treasury_withdrawal w2 = st_pending_treasury_withdrawal w1"
    and "execute_treasury_withdrawal tok b w2 = Inr w3"
    and "ledger_ts w + TREASURY_TIMELOCK_SECS \<le> u64_max"
  shows "st_admin w2 = Some b \<and> b \<in> set (signers w2)
    \<and> ledger_ts w + 86400 \<le> ledger_ts w2
    \<and> get_treasury_balance w3 = get_treasury_balance w2 - get_treasury_balance w
    \<and> 0 \<le> get_treasury_balance w3
    \<and> (\<exists>r. st_treasury_address w = Some r
         \<and> (if 0 < get_treasury_balance w
            then \<exists>t. st_liquidity_token w2 = Some t
                   \<and> tk_transfer tok (tokens w2) t (self_addr w2) r (get_treasury_balance w) = Some (tokens w3)
            else tokens w3 = tokens w2))
    \<and> (\<forall>v v'. st_pending_treasury_withdrawal v = st_pending_treasury_withdrawal w3
         \<longrightarrow> execute_treasury_withdrawal tok c v \<noteq> Inr v')"
proof -
  obtain r where r: "st_treasury_address w = Some r"
    "st_pending_treasury_withdrawal w2 = Some \<lparr>recipient = r, proposal_amount = get_treasury_balance w, proposer = a,
       proposed_at = ledger_ts w, execute_after = saturating_add_u64 (ledger_ts w) TREASURY_TIMELOCK_SECS\<rparr>"
    using propose_withdrawal_Inr[OF assms(1)] assms(2) by auto
  have once: "\<forall>v v'. st_pending_treasury_withdrawal v = st_pending_treasury_withdrawal w3
         \<longrightarrow> execute_treasury_withdrawal tok c v \<noteq> Inr v'"
    using twd.run_ready twd.run_consumes[OF assms(3)] by (fastforce simp: withdrawal_ready_def)
  from assms(3) show ?thesis
  proof (rule execute_treasury_Inr)
    fix p s evs
    assume p: "st_admin w2 = Some b" "b \<in> set (signers w2)" "st_pending_treasury_withdrawal w2 = Some p"
      "execute_after p \<le> ledger_ts w2" "proposal_amount p \<le> get_treasury_balance w2"
      and t: "0 < proposal_amount p \<Longrightarrow> \<exists>t. st_liquidity_token w2 = Some t \<and>
        tk_transfer tok (tokens w2) t (self_addr w2) (recipient p) (proposal_amount p) = Some s"
      and w3: "w3 = w2\<lparr>frame_auth := b # frame_auth w2,
        st_treasury_balance := Some (get_treasury_balance w2 - proposal_amount p),
        st_pending_treasury_withdrawal := None, tokens := (if 0 < proposal_amount p then s else tokens w2), events := evs\<rparr>"
    have q: "recipient p = r" "proposal_amount p = get_treasury_balance w"
      "execute_after p = ledger_ts w + 86400"
      using p(3) r(2) assms(4) by (auto simp: saturating_add_u64_def TREASURY_TIMELOCK_SECS_def)
    have b3: "get_treasury_balance w3 = get_treasury_balance w2 - get_treasury_balance w"
      and k3: "tokens w3 = (if 0 < get_treasury_balance w then s else tokens w2)"
      using w3 q(2) by (simp_all add: get_treasury_balance_def)
    show ?thesis
      using p q r(1) t b3 k3 once by (auto split: if_splits)
  qed
qed

lemma withdraw_treasury_stuck [simp]: "withdraw_treasury tok a w \<noteq> Inr w'"
  by (auto simp: withdraw_treasury_def execute_treasury_withdrawal_def require_admin_auth_with_argument_def
      require_admin_def require_auth_def split: if_splits)

text \<open>The admin-signed withdrawal shortcut authorises the admin in its own body and again in the
  execution it delegates to, in the same invocation frame: it reverts for every state and every argument.\<close>

theorem withdraw_treasury_never_succeeds: "withdraw_treasury tok a w \<noteq> Inr w'"
  by (rule withdraw_treasury_stuck)

theorem treasury_withdrawal_timelocked_witness:
  "\<exists>w1 w3. propose_treasury_withdrawal 1
       (borrow_env\<lparr>signers := [1], st_treasury_balance := Some 4, st_treasury_address := Some 8\<rparr>) = Inr w1 \<and>
     execute_treasury_withdrawal book_token 1 (w1\<lparr>frame_auth := [], ledger_ts := 86500\<rparr>) = Inr w3 \<and>
     get_treasury_balance w3 = 0"
proof -
  let ?w = "borrow_env\<lparr>signers := [1], st_treasury_balance := Some 4, st_treasury_address := Some 8\<rparr>"
  have n: "st_pending_treasury_withdrawal borrow_env = None" by (simp add: borrow_env_def pledge_env_def genesis_def)
  obtain w1 where w1: "propose_treasury_withdrawal 1 ?w = Inr w1"
    by (simp add: propose_treasury_withdrawal_def require_admin_auth_with_argument_def require_admin_def borrow_eval n)
  obtain w3 where w3: "execute_treasury_withdrawal book_token 1 (w1\<lparr>frame_auth := [], ledger_ts := 86500\<rparr>) = Inr w3"
    using w1 by (auto simp: propose_treasury_withdrawal_def execute_treasury_withdrawal_def emit_def store_defs
        require_admin_auth_with_argument_def require_admin_def subtract_treasury_balance_def pay_treasury_def
        TREASURY_TIMELOCK_SECS_def saturating_add_u64_def borrow_eval n)
  have "get_treasury_balance w3 = 0"
    using treasury_withdrawal_timelocked[OF w1 _ w3] w1 propose_withdrawal_Inr[OF w1]
    by (auto simp: TREASURY_TIMELOCK_SECS_def u64_max_def propose_treasury_withdrawal_def emit_def store_defs
        require_admin_auth_with_argument_def require_admin_def borrow_eval n)
  then show ?thesis using w1 w3 by blast
qed

end
