(* ===== verification/Views.thy ===== *)
theory Views
  imports Admin
begin

text \<open>
  The read-only views (\<^verbatim>\<open>contracts/credit/src/views.rs\<close>, \<^verbatim>\<open>query.rs\<close>,
  \<^verbatim>\<open>contracts/lifecycle/src/views.rs\<close> and the enumeration of \<^verbatim>\<open>lib.rs\<close>): capability
  bitmaps, snapshots, summaries and the two paginated listings.  A listing is a loop over stable
  numeric ids whose counter saturates; it is a \<open>partial_function\<close> in the option monad, so that a loop that
  does not end is the value \<^const>\<open>None\<close>, and its termination is proved.
\<close>

definition MAX_ENUMERATION_LIMIT :: u32 where "MAX_ENUMERATION_LIMIT = 100"

section \<open>Capabilities\<close>

record borrow_caps =
  can_draw :: bool
  can_repay :: bool
  can_self_suspend :: bool

definition borrow_capabilities :: "address \<Rightarrow> 't env \<Rightarrow> borrow_caps" where
  "borrow_capabilities b w =
     (let credit_line = get_credit_line b w in
      \<lparr>can_draw = (case credit_line of None \<Rightarrow> False
         | Some line \<Rightarrow> draw_status_error (status line) = None \<and> \<not> is_paused w \<and> \<not> is_draws_frozen w \<and>
             \<not> is_borrower_blocked b w \<and> \<not> is_borrower_frozen b w \<and> \<not> is_credit_line_frozen b w),
       can_repay = (case credit_line of None \<Rightarrow> False | Some line \<Rightarrow> status line \<noteq> Closed),
       can_self_suspend = (case credit_line of None \<Rightarrow> False | Some line \<Rightarrow> status line = Active)\<rparr>)"

record lifecycle_caps =
  lc_can_suspend :: bool
  lc_can_self_suspend :: bool
  lc_can_close_admin :: bool
  lc_can_close_borrower :: bool
  lc_can_default :: bool
  lc_can_reinstate :: bool

definition no_lifecycle_caps :: lifecycle_caps where
  "no_lifecycle_caps = \<lparr>lc_can_suspend = False, lc_can_self_suspend = False, lc_can_close_admin = False,
     lc_can_close_borrower = False, lc_can_default = False, lc_can_reinstate = False\<rparr>"

definition lifecycle_capabilities :: "address \<Rightarrow> 't env \<Rightarrow> lifecycle_caps" where
  "lifecycle_capabilities b w =
     (case get_credit_line b w of
        None \<Rightarrow> no_lifecycle_caps
      | Some line \<Rightarrow>
          if is_paused w then no_lifecycle_caps
          else
            \<lparr>lc_can_suspend = (status line = Active),
             lc_can_self_suspend = (status line = Active),
             lc_can_close_admin = (status line \<noteq> Closed),
             lc_can_close_borrower = (status line \<noteq> Closed \<and> utilized_amount line = 0),
             lc_can_default = (status line \<in> {Active, Restricted, Suspended, SelfSuspended}),
             lc_can_reinstate = (status line = Defaulted)\<rparr>)"

record query_caps =
  has_credit_line :: bool
  has_repayment_schedule :: bool
  health_factor_applicable :: bool
  delinquency_applicable :: bool
  qc_is_delinquent :: bool

definition query_capabilities :: "address \<Rightarrow> 't env \<Rightarrow> query_caps" where
  "query_capabilities b w =
     (let credit_line = get_credit_line b w;
          schedule = get_repayment_schedule b w;
          has_schedule = (schedule \<noteq> None);
          (health_applicable, delinq_applicable) =
            (case credit_line of
               None \<Rightarrow> (False, False)
             | Some line \<Rightarrow>
                 let has_utilization = utilized_amount line > 0; open = (status line \<noteq> Closed) in
                 (has_utilization, open \<and> has_utilization \<and> has_schedule))
      in \<lparr>has_credit_line = (credit_line \<noteq> None), has_repayment_schedule = has_schedule,
          health_factor_applicable = health_applicable, delinquency_applicable = delinq_applicable,
          qc_is_delinquent = (if delinq_applicable then is_delinquent b w else False)\<rparr>)"

section \<open>Snapshots and summaries\<close>

record credit_line_snapshot =
  snap_line :: credit_line_data
  snap_collateral_balance :: i128
  snap_health_factor_bps :: u32
  snap_repayment_schedule :: "repayment_schedule list"
  snap_is_delinquent :: bool

definition get_credit_line_snapshot :: "address \<Rightarrow> 't env \<Rightarrow> credit_line_snapshot option res" where
  "get_credit_line_snapshot b w =
     (case get_credit_line b w of
        None \<Rightarrow> Inr None
      | Some line \<Rightarrow>
          and_then (get_health_factor b w) (\<lambda>health.
          Inr (Some \<lparr>snap_line = line, snap_collateral_balance = get_collateral_balance b w,
                     snap_health_factor_bps = health,
                     snap_repayment_schedule = (case get_repayment_schedule b w of None \<Rightarrow> [] | Some s \<Rightarrow> [s]),
                     snap_is_delinquent = is_delinquent b w\<rparr>)))"

record protocol_summary =
  ps_count :: u32
  ps_total_utilized :: i128
  ps_total_collateral :: i128
  ps_treasury_balance :: i128
  ps_bounty_balance :: i128

definition get_protocol_summary :: "'t env \<Rightarrow> protocol_summary" where
  "get_protocol_summary w = \<lparr>ps_count = get_credit_line_count w, ps_total_utilized = get_total_utilized w,
     ps_total_collateral = get_total_collateral w, ps_treasury_balance = get_treasury_balance w,
     ps_bounty_balance = get_bounty_balance w\<rparr>"

record protocol_summary_view =
  pv_total_utilized :: i128
  pv_total_collateral :: i128
  pv_active_line_count :: u32

definition get_protocol_summary_view :: "'t env \<Rightarrow> protocol_summary_view" where
  "get_protocol_summary_view w = \<lparr>pv_total_utilized = get_total_utilized w,
     pv_total_collateral = get_total_collateral w, pv_active_line_count = get_active_line_count w\<rparr>"

record proof_of_reserve =
  por_treasury_balance :: i128
  por_bounty_balance :: i128

definition get_proof_of_reserve :: "'t env \<Rightarrow> proof_of_reserve" where
  "get_proof_of_reserve w = \<lparr>por_treasury_balance = get_treasury_balance w, por_bounty_balance = get_bounty_balance w\<rparr>"

record borrow_state_snapshot =
  bs_credit_line :: "credit_line_data list"
  bs_collateral_balance :: i128
  bs_capabilities :: borrow_caps

definition get_borrow_state :: "address \<Rightarrow> 't env \<Rightarrow> borrow_state_snapshot" where
  "get_borrow_state b w = \<lparr>bs_credit_line = (case get_credit_line b w of None \<Rightarrow> [] | Some line \<Rightarrow> [line]),
     bs_collateral_balance = get_collateral_balance b w, bs_capabilities = borrow_capabilities b w\<rparr>"

record protocol_config =
  cfg_liquidity_token :: "address option"
  cfg_liquidity_source :: "address option"

definition get_protocol_config :: "'t env \<Rightarrow> protocol_config" where
  "get_protocol_config w = \<lparr>cfg_liquidity_token = st_liquidity_token w, cfg_liquidity_source = st_liquidity_source w\<rparr>"

definition get_liquidity_source :: "'t env \<Rightarrow> address" where
  "get_liquidity_source w = (case st_liquidity_source w of None \<Rightarrow> self_addr w | Some a \<Rightarrow> a)"

section \<open>Listings\<close>

record credit_lines_page =
  page_lines :: "credit_line_data list"
  page_next_cursor :: "u32 option"
  page_has_more :: bool

definition line_at :: "'t env \<Rightarrow> u32 \<Rightarrow> credit_line_data option" where
  "line_at w i = (case get_borrower_by_credit_line_id i w of None \<Rightarrow> None | Some b \<Rightarrow> get_credit_line b w)"

partial_function (option) page_loop ::
  "'t env \<Rightarrow> u32 \<Rightarrow> u32 \<Rightarrow> u32 \<Rightarrow> credit_line_data list \<Rightarrow> u32 option \<Rightarrow> (credit_line_data list \<times> u32 option) option"
where
  "page_loop w limit end_id current_id credit_lines next_cursor =
     (if int (length credit_lines) < limit \<and> current_id \<le> end_id then
        let credit_lines = (case line_at w current_id of None \<Rightarrow> credit_lines | Some line \<Rightarrow> credit_lines @ [line]);
            next_cursor = (if int (length credit_lines) < limit \<and> current_id < end_id
                             then Some (saturating_add_u32 current_id 1)
                           else if current_id < end_id then Some (saturating_add_u32 current_id 1)
                           else next_cursor) in
        page_loop w limit end_id (saturating_add_u32 current_id 1) credit_lines next_cursor
      else Some (credit_lines, next_cursor))"

definition get_credit_lines_paginated :: "u32 option \<Rightarrow> u32 \<Rightarrow> 't env \<Rightarrow> credit_lines_page res option" where
  "get_credit_lines_paginated cursor limit w =
     (if MAX_ENUMERATION_LIMIT < limit then Some (Inl (Contract Overflow))
      else
        let total_count = get_credit_line_count w; start_id = (case cursor of None \<Rightarrow> 0 | Some c \<Rightarrow> c) in
        if total_count \<le> start_id then Some (Inr \<lparr>page_lines = [], page_next_cursor = None, page_has_more = False\<rparr>)
        else
          map_option (\<lambda>(credit_lines, next_cursor).
            let next_cursor = (if int (length credit_lines) < limit then None else next_cursor) in
            Inr \<lparr>page_lines = credit_lines, page_next_cursor = next_cursor, page_has_more = (next_cursor \<noteq> None)\<rparr>)
          (page_loop w limit (saturating_sub_u32 total_count 1) start_id [] None))"

partial_function (option) enumerate_loop ::
  "'t env \<Rightarrow> u32 \<Rightarrow> u32 \<Rightarrow> u32 \<Rightarrow> u32 \<Rightarrow> (u32 \<times> credit_line_data) list \<Rightarrow> (u32 \<times> credit_line_data) list option"
where
  "enumerate_loop w line_count capped_limit next_id returned out =
     (if next_id < line_count \<and> returned < capped_limit then
        case line_at w next_id of
          None \<Rightarrow> enumerate_loop w line_count capped_limit (saturating_add_u32 next_id 1) returned out
        | Some line \<Rightarrow> enumerate_loop w line_count capped_limit (saturating_add_u32 next_id 1)
                         (saturating_add_u32 returned 1) (out @ [(next_id, line)])
      else Some out)"

definition enumerate_credit_lines :: "u32 option \<Rightarrow> u32 \<Rightarrow> 't env \<Rightarrow> (u32 \<times> credit_line_data) list option" where
  "enumerate_credit_lines start_after limit w =
     (let line_count = get_credit_line_count w; capped_limit = min limit MAX_ENUMERATION_LIMIT in
      if capped_limit = 0 \<or> line_count = 0 then Some []
      else enumerate_loop w line_count capped_limit
             (case start_after of None \<Rightarrow> 0 | Some i \<Rightarrow> saturating_add_u32 i 1) 0 [])"

section \<open>The listings are complete\<close>

definition live_lines :: "'t env \<Rightarrow> u32 \<Rightarrow> u32 \<Rightarrow> credit_line_data list" where
  "live_lines w lo hi = List.map_filter (line_at w) [lo..hi]"

lemma live_lines_empty [simp]: "hi < lo \<Longrightarrow> live_lines w lo hi = []"
  by (simp add: live_lines_def)

lemma live_lines_Cons:
  "lo \<le> hi \<Longrightarrow> live_lines w lo hi = (case line_at w lo of None \<Rightarrow> [] | Some l \<Rightarrow> [l]) @ live_lines w (lo + 1) hi"
  by (simp add: live_lines_def upto_rec1 map_filter_simps split: option.split)

lemma live_lines_split: "lo \<le> k \<Longrightarrow> k \<le> hi + 1 \<Longrightarrow> live_lines w lo hi = live_lines w lo (k - 1) @ live_lines w k hi"
proof (induction "nat (k - lo)" arbitrary: lo)
  case 0
  then show ?case by simp
next
  case (Suc n)
  then have "live_lines w (lo + 1) hi = live_lines w (lo + 1) (k - 1) @ live_lines w k hi" by simp
  then show ?case using Suc.hyps(2) Suc.prems live_lines_Cons[of lo hi w] live_lines_Cons[of lo "k - 1" w] by simp
qed

lemma page_loop_runs:
  assumes "end_id < u32_max" and "cur \<le> end_id + 1" and "int (length acc) \<le> limit"
  obtains stop where "cur \<le> stop" "stop \<le> end_id + 1"
    "page_loop w limit end_id cur acc nx = Some (acc @ live_lines w cur (stop - 1),
       if stop = cur then nx else if stop \<le> end_id then Some stop else if cur < end_id then Some end_id else nx)"
    "int (length (acc @ live_lines w cur (stop - 1))) \<le> limit"
    "stop \<le> end_id \<Longrightarrow> int (length (acc @ live_lines w cur (stop - 1))) = limit"
  using assms
proof (induction "nat (end_id + 1 - cur)" arbitrary: cur acc nx thesis)
  case 0
  then have "cur = end_id + 1" by simp
  then show ?case using 0 by (intro "0.prems"(1)[of cur]) (simp_all add: page_loop.simps)
next
  case (Suc n)
  show ?case
  proof (cases "int (length acc) < limit")
    case False
    then show ?thesis using Suc.prems Suc.hyps(2) by (intro Suc.prems(1)[of cur]) (simp_all add: page_loop.simps)
  next
    case True
    define acc' where "acc' = acc @ (case line_at w cur of None \<Rightarrow> [] | Some l \<Rightarrow> [l])"
    define nx' where "nx' = (if cur < end_id then Some (cur + 1) else nx)"
    have cur: "cur \<le> end_id" "saturating_add_u32 cur 1 = cur + 1"
      using Suc.hyps(2) Suc.prems(2) by (auto simp: saturating_add_u32_def)
    have step: "page_loop w limit end_id cur acc nx = page_loop w limit end_id (cur + 1) acc' nx'"
      using True cur by (subst page_loop.simps) (auto simp: acc'_def nx'_def Let_def split: option.split)
    have len: "int (length acc') \<le> limit" using True by (simp add: acc'_def split: option.split)
    have m: "n = nat (end_id + 1 - (cur + 1))" using Suc.hyps(2) by simp
    obtain stop where s: "cur + 1 \<le> stop" "stop \<le> end_id + 1"
      "page_loop w limit end_id (cur + 1) acc' nx' = Some (acc' @ live_lines w (cur + 1) (stop - 1),
         if stop = cur + 1 then nx' else if stop \<le> end_id then Some stop else if cur + 1 < end_id then Some end_id else nx')"
      "int (length (acc' @ live_lines w (cur + 1) (stop - 1))) \<le> limit"
      "stop \<le> end_id \<Longrightarrow> int (length (acc' @ live_lines w (cur + 1) (stop - 1))) = limit"
      by (rule Suc.hyps(1)[OF m]) (use Suc.prems(2) cur(1) len in auto)
    have all: "acc' @ live_lines w (cur + 1) (stop - 1) = acc @ live_lines w cur (stop - 1)"
      using live_lines_Cons[of cur "stop - 1" w] s(1) by (simp add: acc'_def)
    show ?thesis
      using s cur(1) unfolding all step[symmetric]
      by (intro Suc.prems(1)[of stop]) (auto simp: nx'_def)
  qed
qed

lemma paginated_runs:
  assumes "0 \<le> limit" "limit \<le> 100" and "0 \<le> start" "start < get_credit_line_count w" "get_credit_line_count w \<le> u32_max"
    and "start = (case cursor of None \<Rightarrow> 0 | Some c \<Rightarrow> c)"
  obtains stop p where "get_credit_lines_paginated cursor limit w = Some (Inr p)" "start \<le> stop" "stop \<le> get_credit_line_count w"
    "page_lines p = live_lines w start (stop - 1)" "int (length (page_lines p)) \<le> limit"
    "stop < get_credit_line_count w \<Longrightarrow> int (length (page_lines p)) = limit"
    "page_next_cursor p = (if int (length (page_lines p)) < limit \<or> stop = start then None
       else if stop < get_credit_line_count w then Some stop
       else if start < get_credit_line_count w - 1 then Some (get_credit_line_count w - 1) else None)"
    "page_has_more p = (page_next_cursor p \<noteq> None)"
proof -
  let ?n = "get_credit_line_count w"
  have e: "saturating_sub_u32 ?n 1 = ?n - 1" using assms(3,4) by (simp add: saturating_sub_u32_def)
  have pre: "?n - 1 < u32_max" "start \<le> ?n - 1 + 1" "int (length ([] :: credit_line_data list)) \<le> limit"
    using assms by simp_all
  obtain stop where s: "start \<le> stop" "stop \<le> ?n"
    "page_loop w limit (?n - 1) start [] None = Some (live_lines w start (stop - 1),
       if stop = start then None else if stop \<le> ?n - 1 then Some stop else if start < ?n - 1 then Some (?n - 1) else None)"
    "int (length (live_lines w start (stop - 1))) \<le> limit"
    "stop \<le> ?n - 1 \<Longrightarrow> int (length (live_lines w start (stop - 1))) = limit"
    by (rule page_loop_runs[OF pre, where w = w and nx = None]) auto
  have "get_credit_lines_paginated cursor limit w = Some (Inr \<lparr>page_lines = live_lines w start (stop - 1),
      page_next_cursor = (if int (length (live_lines w start (stop - 1))) < limit \<or> stop = start then None
        else if stop < ?n then Some stop else if start < ?n - 1 then Some (?n - 1) else None),
      page_has_more = ((if int (length (live_lines w start (stop - 1))) < limit \<or> stop = start then None
        else if stop < ?n then Some stop else if start < ?n - 1 then Some (?n - 1) else None) \<noteq> None)\<rparr>)"
    using assms(2,4) unfolding get_credit_lines_paginated_def Let_def assms(6)[symmetric] e s(3)
    by (simp add: MAX_ENUMERATION_LIMIT_def)
  then show ?thesis by (rule that) (use s in auto)
qed

text \<open>C23 Pagination ends and loses nothing: for a page size between 1 and 100 the loop returns, the page holds
  at most that many lines, in the order of their ids, and either there is no next cursor and the page is everything from the
  cursor on, or the next cursor is a later id such that no line is skipped.\<close>

theorem pagination_complete:
  fixes w :: "'t env"
  assumes "0 < limit" "limit \<le> 100" and "0 \<le> start" "start < get_credit_line_count w" "get_credit_line_count w \<le> u32_max"
  shows "\<exists>p. get_credit_lines_paginated (Some start) limit w = Some (Inr p)
    \<and> int (length (page_lines p)) \<le> limit
    \<and> (case page_next_cursor p of
         None \<Rightarrow> page_lines p = live_lines w start (get_credit_line_count w - 1)
       | Some c \<Rightarrow> start < c \<and> c < get_credit_line_count w \<and> int (length (page_lines p)) = limit
           \<and> (\<exists>xs. live_lines w start (get_credit_line_count w - 1) = page_lines p @ xs
                 \<and> (xs = live_lines w c (get_credit_line_count w - 1) \<or> xs = [])))"
proof -
  let ?n = "get_credit_line_count w"
  obtain stop p where p: "get_credit_lines_paginated (Some start) limit w = Some (Inr p)" "start \<le> stop" "stop \<le> ?n"
    "page_lines p = live_lines w start (stop - 1)" "int (length (page_lines p)) \<le> limit"
    "stop < ?n \<Longrightarrow> int (length (page_lines p)) = limit"
    "page_next_cursor p = (if int (length (page_lines p)) < limit \<or> stop = start then None
       else if stop < ?n then Some stop else if start < ?n - 1 then Some (?n - 1) else None)"
    by (rule paginated_runs[of limit start w "Some start"]) (use assms in auto)
  have all: "live_lines w start (?n - 1) = page_lines p @ live_lines w stop (?n - 1)"
    unfolding p(4) by (rule live_lines_split) (use p(2,3) in auto)
  have moved: "stop \<noteq> start" using p(4,6) assms(1,4) by auto
  have "case page_next_cursor p of
         None \<Rightarrow> page_lines p = live_lines w start (?n - 1)
       | Some c \<Rightarrow> start < c \<and> c < ?n \<and> int (length (page_lines p)) = limit
           \<and> (\<exists>xs. live_lines w start (?n - 1) = page_lines p @ xs \<and> (xs = live_lines w c (?n - 1) \<or> xs = []))"
    unfolding p(7) using all p(2,3,5,6) moved assms(4) by (auto split: if_splits)
  then show ?thesis using p(1,5) by blast
qed

lemma live_lines_length:
  "\<forall>i. lo \<le> i \<and> i \<le> hi \<longrightarrow> line_at w i \<noteq> None \<Longrightarrow> lo \<le> hi + 1 \<Longrightarrow> length (live_lines w lo hi) = nat (hi + 1 - lo)"
proof (induction "nat (hi + 1 - lo)" arbitrary: lo)
  case 0
  then show ?case by simp
next
  case (Suc n)
  then have "length (live_lines w (lo + 1) hi) = nat (hi - lo)" by simp
  then show ?case using Suc.hyps(2) Suc.prems live_lines_Cons[of lo hi w] by (force split: option.splits)
qed

lemma index_lines_live: "index_ok (st_lines w) (st_credit_line_id w) (st_borrower_by_id w) n \<Longrightarrow> 0 \<le> i \<Longrightarrow> i < n \<Longrightarrow> line_at w i \<noteq> None"
  unfolding index_ok_def line_at_def get_borrower_by_credit_line_id_def get_credit_line_def
  by (metis (no_types, lifting) domIff option.case_eq_if option.collapse option.distinct(1))

text \<open>A page that ends exactly at the last line keeps the cursor of the iteration before it: on balanced books
  with as many lines as the page holds, at least two, the first page already lists every line, yet reports more, and the page
  at its cursor lists the last line a second time.\<close>

theorem pagination_repeats_last_line:
  assumes "books_ok w" and "get_credit_line_count w = limit" and "2 \<le> limit" "limit \<le> 100"
  shows "\<exists>p q. get_credit_lines_paginated None limit w = Some (Inr p)
    \<and> page_lines p = live_lines w 0 (limit - 1) \<and> page_has_more p \<and> page_next_cursor p = Some (limit - 1)
    \<and> get_credit_lines_paginated (Some (limit - 1)) limit w = Some (Inr q)
    \<and> page_lines q = [last (page_lines p)]"
proof -
  have ix: "index_ok (st_lines w) (st_credit_line_id w) (st_borrower_by_id w) limit"
    using assms(1,2) by (simp add: books_gap_def)
  note live = index_lines_live[OF ix]
  have len: "int (length (live_lines w lo hi)) = hi + 1 - lo" if "0 \<le> lo" "lo \<le> hi + 1" "hi < limit" for lo hi
    using live_lines_length[of lo hi w] live that by auto
  have u: "limit \<le> u32_max" using assms(4) by (simp add: u32_max_def)
  obtain stop p where p: "get_credit_lines_paginated None limit w = Some (Inr p)" "0 \<le> stop" "stop \<le> limit"
    "page_lines p = live_lines w 0 (stop - 1)" "stop < limit \<Longrightarrow> int (length (page_lines p)) = limit"
    "page_next_cursor p = (if int (length (page_lines p)) < limit \<or> stop = 0 then None
       else if stop < limit then Some stop else if 0 < limit - 1 then Some (limit - 1) else None)"
    "page_has_more p = (page_next_cursor p \<noteq> None)"
    by (rule paginated_runs[of limit 0 w None]) (use assms u in auto)
  have stop: "stop = limit" using p(2,3,4,5) len[of 0 "stop - 1"] by force
  have next1: "page_next_cursor p = Some (limit - 1)" using p(6) stop assms(3) len[of 0 "limit - 1"] p(4) by simp
  obtain stop2 q where q: "get_credit_lines_paginated (Some (limit - 1)) limit w = Some (Inr q)" "limit - 1 \<le> stop2"
    "stop2 \<le> limit" "page_lines q = live_lines w (limit - 1) (stop2 - 1)" "stop2 < limit \<Longrightarrow> int (length (page_lines q)) = limit"
    by (rule paginated_runs[of limit "limit - 1" w "Some (limit - 1)"]) (use assms u in auto)
  have stop2: "stop2 = limit" using q(2,3,4,5) len[of "limit - 1" "stop2 - 1"] assms(3) by force
  obtain l where l: "line_at w (limit - 1) = Some l" using live[of "limit - 1"] assms(3) by auto
  then have one: "live_lines w (limit - 1) (limit - 1) = [l]" by (simp add: live_lines_Cons)
  have "live_lines w 0 (limit - 1) = live_lines w 0 (limit - 1 - 1) @ [l]"
    using live_lines_split[of 0 "limit - 1" "limit - 1" w] assms(3) one by simp
  then have "last (live_lines w 0 (limit - 1)) = l" by simp
  then show ?thesis using p q stop stop2 next1 one by auto
qed

section \<open>Enumeration\<close>

definition live_entries :: "'t env \<Rightarrow> u32 \<Rightarrow> u32 \<Rightarrow> (u32 \<times> credit_line_data) list" where
  "live_entries w lo hi = List.map_filter (\<lambda>i. map_option (Pair i) (line_at w i)) [lo..hi]"

lemma live_entries_empty [simp]: "hi < lo \<Longrightarrow> live_entries w lo hi = []"
  by (simp add: live_entries_def)

lemma live_entries_Cons:
  "lo \<le> hi \<Longrightarrow> live_entries w lo hi = (case line_at w lo of None \<Rightarrow> [] | Some l \<Rightarrow> [(lo, l)]) @ live_entries w (lo + 1) hi"
  by (simp add: live_entries_def upto_rec1 map_filter_simps split: option.split)

lemma enumerate_loop_runs:
  assumes "n \<le> u32_max" "lim \<le> 100" "0 \<le> r" "r \<le> lim"
  shows "enumerate_loop w n lim i r out = Some (out @ take (nat (lim - r)) (live_entries w i (n - 1)))"
  using assms
proof (induction "nat (n - i)" arbitrary: i r out)
  case 0
  then show ?case by (simp add: enumerate_loop.simps)
next
  case (Suc m)
  have i: "i < n" "saturating_add_u32 i 1 = i + 1" and m: "m = nat (n - (i + 1))"
    using Suc.hyps(2) Suc.prems(1) by (auto simp: saturating_add_u32_def)
  note ih = Suc.hyps(1)[OF m]
  have r: "r < lim \<Longrightarrow> saturating_add_u32 r 1 = r + 1" using Suc.prems(2) by (simp add: saturating_add_u32_def u32_max_def)
  show ?case
  proof (cases "r < lim")
    case False
    then show ?thesis using Suc.prems by (simp add: enumerate_loop.simps)
  next
    case True
    have k: "nat (lim - r) = Suc (nat (lim - (r + 1)))" using True by simp
    show ?thesis
    proof (cases "line_at w i")
      case None
      then show ?thesis using True i ih[of r out] Suc.prems live_entries_Cons[of i "n - 1" w]
        by (subst enumerate_loop.simps) simp
    next
      case (Some l)
      then show ?thesis using True i r ih[of "r + 1" "out @ [(i, l)]"] Suc.prems live_entries_Cons[of i "n - 1" w] k
        by (subst enumerate_loop.simps) simp
    qed
  qed
qed

text \<open>The enumeration ends and returns exactly the first \<open>min limit 100\<close> live lines after its exclusive
  cursor, with their ids, in the order of the ids.\<close>

theorem enumeration_exact:
  assumes "0 \<le> limit" "0 \<le> get_credit_line_count w" "get_credit_line_count w \<le> u32_max"
    and "case cursor of None \<Rightarrow> True | Some i \<Rightarrow> 0 \<le> i \<and> i < u32_max"
  shows "enumerate_credit_lines cursor limit w
    = Some (take (nat (min limit 100))
        (live_entries w (case cursor of None \<Rightarrow> 0 | Some i \<Rightarrow> i + 1) (get_credit_line_count w - 1)))"
proof -
  let ?i = "case cursor of None \<Rightarrow> 0 | Some i \<Rightarrow> saturating_add_u32 i 1"
  have i: "?i = (case cursor of None \<Rightarrow> 0 | Some i \<Rightarrow> i + 1)" "0 \<le> ?i"
    using assms(4) by (auto simp: saturating_add_u32_def split: option.splits)
  show ?thesis
  proof (cases "min limit 100 = 0 \<or> get_credit_line_count w = 0")
    case True
    then show ?thesis using assms(1,2) i by (auto simp: enumerate_credit_lines_def MAX_ENUMERATION_LIMIT_def)
  next
    case False
    then show ?thesis using assms i enumerate_loop_runs[of "get_credit_line_count w" "min limit 100" 0 w ?i "[]"]
      unfolding enumerate_credit_lines_def MAX_ENUMERATION_LIMIT_def Let_def by simp
  qed
qed

section \<open>The capability bitmaps\<close>

lemma cooldown_reads:
  assumes "enforce_accrual_admin_cooldown b w = Inr w'"
  shows "st_lines w' = st_lines w" "is_paused w' = is_paused w" "st_admin w' = st_admin w"
  by (subst accrual_cooldown_shape[OF assms], simp add: is_paused_def)+

lemma admin_guard_reads:
  assumes "require_admin_auth w = Inr (a, w1)" and "enforce_accrual_admin_cooldown b w1 = Inr w2"
  shows "st_lines w2 = st_lines w" "is_paused w2 = is_paused w"
  using cooldown_reads[OF assms(2)] require_admin_auth_Inr[OF assms(1)] by (auto simp: is_paused_def)

lemma suspend_internal_Active:
  assumes "suspend_credit_line_internal b t w = Inr w'"
  shows "\<exists>l. st_lines w b = Some l \<and> status l = Active"
  using assms by (auto simp: suspend_credit_line_internal_def load_line_def get_credit_line_def Let_def
      dest: acc.accrue_line(2) split: if_splits)

lemma lifecycle_close_reads:
  assumes "lifecycle_close_credit_line b c w = Inr w'"
  shows "\<exists>l. st_lines w b = Some l \<and> status l \<noteq> Closed \<and> \<not> is_paused w \<and>
    (st_admin w \<noteq> Some c \<longrightarrow> utilized_amount l = 0)"
  using assms by (auto simp: lifecycle_close_credit_line_def load_line_def get_credit_line_def assert_not_paused_def
      require_admin_def split: if_splits)

lemma close_reads:
  assumes "close_credit_line b c w = Inr w'"
  shows "\<exists>l. st_lines w b = Some l \<and> status l \<noteq> Closed \<and> \<not> is_paused w \<and>
    (st_admin w \<noteq> Some c \<longrightarrow> utilized_amount l = 0)"
proof -
  from assms obtain w1 a w2 where u: "require_auth c w = Inr w1" "require_admin w1 = Inr a"
    and g: "(if c = a then enforce_accrual_admin_cooldown b w1 else Inr w1) = Inr w2"
    and d: "lifecycle_close_credit_line b c w2 = Inr w'"
    by (auto simp: close_credit_line_def)
  have w1: "st_lines w1 = st_lines w" "is_paused w1 = is_paused w" "st_admin w1 = st_admin w"
    using require_auth_Inr[OF u(1)] by (auto simp: is_paused_def)
  have "st_lines w2 = st_lines w1" "is_paused w2 = is_paused w1" "st_admin w2 = st_admin w1"
    using g by (auto simp: cooldown_reads split: if_splits)
  then show ?thesis using lifecycle_close_reads[OF d] w1 by simp
qed

lemma default_reads:
  assumes "default_credit_line b w = Inr w'"
  shows "\<exists>l. st_lines w b = Some l \<and> status l \<in> {Active, Restricted, Suspended, SelfSuspended} \<and> \<not> is_paused w"
proof -
  from assms obtain a w1 w2 where u: "require_admin_auth w = Inr (a, w1)" "enforce_accrual_admin_cooldown b w1 = Inr w2"
    and d: "lifecycle_default_credit_line b w2 = Inr w'" by (auto simp: default_credit_line_def)
  show ?thesis using d admin_guard_reads[OF u]
    by (auto simp: lifecycle_default_credit_line_def load_line_def get_credit_line_def Let_def assert_not_paused_def
        require_valid_transition_def dest: acc.accrue_line(2) split: if_splits)
qed

lemma reinstate_reads:
  assumes "reinstate_credit_line b t w = Inr w'"
  shows "\<exists>l. st_lines w b = Some l \<and> status l = Defaulted \<and> \<not> is_paused w"
proof -
  from assms obtain a w1 w2 where u: "require_admin_auth w = Inr (a, w1)" "enforce_accrual_admin_cooldown b w1 = Inr w2"
    and d: "lifecycle_reinstate_credit_line b t w2 = Inr w'" by (auto simp: reinstate_credit_line_def)
  show ?thesis using d admin_guard_reads[OF u]
    by (auto simp: lifecycle_reinstate_credit_line_def load_line_def get_credit_line_def Let_def assert_not_paused_def
        require_valid_transition_def dest: acc.accrue_line(2) split: if_splits)
qed

lemma draw_reads:
  assumes "draw_credit tok b x w = Inr w'"
  shows "can_draw (borrow_capabilities b w)"
  using assms
proof (rule draw_credit_Inr)
  fix k l w0 w1 assume d: "\<not> is_paused w" "w0 = w\<lparr>st_reentrancy := Some True, frame_auth := b # frame_auth w\<rparr>"
    "draw_preflight b x w0 = Inr ()" "st_lines w b = Some k" "apply_accrual k w0 = Inr (l, w1)"
    "status l = Active \<or> status l = Restricted"
  have st: "draw_status_error (status k) = None" using acc.accrue_line(2)[OF d(5)] d(6) by (auto simp: draw_status_error_def)
  show ?thesis using d st
    by (auto simp: borrow_capabilities_def Let_def draw_preflight_def is_draws_frozen_def is_credit_line_frozen_def
        get_credit_line_def is_paused_def is_borrower_blocked_def is_borrower_frozen_def split: option.splits if_splits)
qed

lemma repay_reads:
  assumes "repay_credit tok b x w = Inr w'"
  shows "can_repay (borrow_capabilities b w)"
  using assms by (rule repay_credit_Inr) (simp add: borrow_capabilities_def get_credit_line_def)

lemma suspend_reads:
  assumes "suspend_credit_line b w = Inr w'"
  shows "\<exists>l. st_lines w b = Some l \<and> status l = Active \<and> \<not> is_paused w"
proof -
  from assms obtain a w1 w2 where u: "require_admin_auth w = Inr (a, w1)" "enforce_accrual_admin_cooldown b w1 = Inr w2"
    and p: "\<not> is_paused w2" and d: "suspend_credit_line_internal b Suspended w2 = Inr w'"
    by (auto simp: suspend_credit_line_def assert_not_paused_def)
  show ?thesis using suspend_internal_Active[OF d] admin_guard_reads[OF u] p by simp
qed

lemma self_suspend_reads:
  assumes "self_suspend_credit_line b w = Inr w'"
  shows "\<exists>l. st_lines w b = Some l \<and> status l = Active \<and> \<not> is_paused w"
proof -
  from assms obtain w1 where p: "\<not> is_paused w" and u: "require_auth b w = Inr w1"
    and d: "suspend_credit_line_internal b SelfSuspended w1 = Inr w'"
    by (auto simp: self_suspend_credit_line_def assert_not_paused_def)
  show ?thesis using suspend_internal_Active[OF d] require_auth_Inr[OF u] p by auto
qed

text \<open>C24 The capability views never under-report: whenever a draw, a repayment, a suspension, a close, a default or a
  reinstatement goes through, the flag the views publish for it in the same state is set, so a cleared flag means
  that the call reverts.\<close>

theorem capabilities_cover_every_success:
  "(draw_credit tok b x w = Inr w' \<longrightarrow> can_draw (borrow_capabilities b w))
   \<and> (repay_credit tok b x w = Inr w' \<longrightarrow> can_repay (borrow_capabilities b w))
   \<and> (self_suspend_credit_line b w = Inr w' \<longrightarrow>
        can_self_suspend (borrow_capabilities b w) \<and> lc_can_self_suspend (lifecycle_capabilities b w))
   \<and> (suspend_credit_line b w = Inr w' \<longrightarrow> lc_can_suspend (lifecycle_capabilities b w))
   \<and> (close_credit_line b c w = Inr w' \<longrightarrow> lc_can_close_admin (lifecycle_capabilities b w)
        \<and> (st_admin w \<noteq> Some c \<longrightarrow> lc_can_close_borrower (lifecycle_capabilities b w)))
   \<and> (default_credit_line b w = Inr w' \<longrightarrow> lc_can_default (lifecycle_capabilities b w))
   \<and> (reinstate_credit_line b s w = Inr w' \<longrightarrow> lc_can_reinstate (lifecycle_capabilities b w))"
  using draw_reads[of tok b x w w'] repay_reads[of tok b x w w'] self_suspend_reads[of b w w'] suspend_reads[of b w w']
    close_reads[of b c w w'] default_reads[of b w w'] reinstate_reads[of b s w w']
  by (intro conjI impI) (auto simp: borrow_capabilities_def lifecycle_capabilities_def get_credit_line_def)

theorem capabilities_cover_every_success_witness:
  "\<exists>w'. draw_credit book_token 5 1 borrow_env = Inr w' \<and> can_draw (borrow_capabilities 5 borrow_env)"
proof -
  obtain w' where w': "draw_credit book_token 5 1 borrow_env = Inr w'" by (simp add: borrow_eval)
  then show ?thesis using capabilities_cover_every_success[of book_token 5 1 borrow_env w'] by blast
qed

text \<open>The borrower view reports a self-suspension as available while the protocol is paused, although the entrypoint
  then always reverts with \<open>Paused\<close>; the lifecycle view of the same state does not.\<close>

theorem borrow_view_ignores_pause:
  assumes "is_paused w" and "st_lines w b = Some l" and "status l = Active"
  shows "can_self_suspend (borrow_capabilities b w) \<and> \<not> lc_can_self_suspend (lifecycle_capabilities b w)
    \<and> self_suspend_credit_line b w = Inl (Contract Paused)"
  using assms by (simp add: borrow_capabilities_def lifecycle_capabilities_def no_lifecycle_caps_def get_credit_line_def
      self_suspend_credit_line_def assert_not_paused_def)

theorem borrow_view_ignores_pause_witness:
  "can_self_suspend (borrow_capabilities 5 (borrow_env\<lparr>st_paused := Some True\<rparr>))
   \<and> self_suspend_credit_line 5 (borrow_env\<lparr>st_paused := Some True\<rparr>) = Inl (Contract Paused)"
  using borrow_view_ignores_pause[of "borrow_env\<lparr>st_paused := Some True\<rparr>" 5]
  by (simp add: borrow_reads is_paused_def)

theorem pagination_complete_witness:
  "\<exists>p. get_credit_lines_paginated (Some 0) 10 borrow_env = Some (Inr p) \<and> page_next_cursor p = None"
  using pagination_complete[of 10 0 borrow_env] by (auto simp: get_credit_line_count_def borrow_reads u32_max_def split: option.splits)

theorem enumeration_exact_witness:
  "enumerate_credit_lines None 7 borrow_env = Some [(0, the (st_lines borrow_env 5))]"
  using enumeration_exact[of 7 borrow_env None]
  by (simp add: get_credit_line_count_def borrow_reads u32_max_def live_entries_Cons line_at_def
      get_borrower_by_credit_line_id_def get_credit_line_def)

definition two_line_env :: "(address \<times> address \<Rightarrow> int) env" where
  "two_line_env = borrow_env\<lparr>st_lines := (st_lines borrow_env)(6 \<mapsto> \<lparr>borrower = 6, credit_limit = 10, utilized_amount = 0,
       interest_rate_bps = 0, risk_score = 0, status = Closed, last_rate_update_ts = 0, accrued_interest = 0,
       last_accrual_ts = 100, suspension_ts = 0\<rparr>),
     st_credit_line_id := [5 \<mapsto> 0, 6 \<mapsto> 1], st_borrower_by_id := [0 \<mapsto> 5, 1 \<mapsto> 6], st_credit_line_count := Some 2\<rparr>"

lemma two_line_books: "books_ok two_line_env"
proof -
  have run: "persist_credit_line 6 \<lparr>borrower = 6, credit_limit = 10, utilized_amount = 0, interest_rate_bps = 0,
      risk_score = 0, status = Closed, last_rate_update_ts = 0, accrued_interest = 0, last_accrual_ts = 100, suspension_ts = 0\<rparr>
      0 None borrow_env = Inr two_line_env"
    by (simp add: two_line_env_def) (simp add: borrow_eval saturating_add_u32_def u32_max_def)
  have "books_ok borrow_env" "room_for 6 borrow_env"
    using borrow_env_ledger by (simp_all add: ledger_gap_def borrow_reads room_for_def get_credit_line_count_def u32_max_def)
  then show ?thesis using persist_books[OF run, of 0] by (simp add: borrow_reads has_status_def)
qed

theorem pagination_repeats_last_line_witness:
  "\<exists>p. get_credit_lines_paginated None 2 two_line_env = Some (Inr p) \<and> page_has_more p \<and> page_next_cursor p = Some 1"
  using pagination_repeats_last_line[OF two_line_books, of 2] by (auto simp: two_line_env_def get_credit_line_count_def)

section \<open>The query bitmap\<close>

text \<open>The bitmap bundles the single queries without loss: its delinquency flag is the delinquency query on
  every line although it consults that query only on some, and where it declares the health factor not
  applicable the health-factor query answers the maximum.\<close>

lemma query_capabilities_agree:
  "qc_is_delinquent (query_capabilities b w) = is_delinquent b w"
  "has_credit_line (query_capabilities b w) \<longleftrightarrow> get_credit_line b w \<noteq> None"
  "delinquency_applicable (query_capabilities b w) \<Longrightarrow>
     health_factor_applicable (query_capabilities b w) \<and> has_repayment_schedule (query_capabilities b w)"
  "\<not> health_factor_applicable (query_capabilities b w) \<Longrightarrow> get_health_factor b w = Inr u32_max"
  by (auto simp: query_capabilities_def Let_def is_delinquent_def get_health_factor_def split: option.splits)

end
