(* ===== verification/Attestation.thy ===== *)
theory Attestation
  imports Admin
begin

text \<open>
  Attestation batches (\<^verbatim>\<open>contracts/credit/src/attestation.rs\<close>): the admin commits a Merkle root per
  borrower, and anyone can check a leaf against it with a sibling path.  SHA-256 is a host function
  and enters as the parameter \<open>sha\<close>; byte strings are lists of 8-bit words.  Against the Merkle trees of the
  specification (\<open>mtree\<close>), every leaf has a path that verifies, and a path of the tree's depth verifies only for a leaf of the
  tree, unless the check hashed a string that collides with one hashed for the tree.
\<close>

definition byte_at :: "bytes \<Rightarrow> nat \<Rightarrow> u8" where
  "byte_at a i = (if i < length a then a ! i else 0)"

primrec bytes_le_from :: "nat list \<Rightarrow> bytes \<Rightarrow> bytes \<Rightarrow> bool" where
  "bytes_le_from [] a b = True"
| "bytes_le_from (i # is) a b =
     (if byte_at a i < byte_at b i then True
      else if byte_at b i < byte_at a i then False
      else bytes_le_from is a b)"

definition bytes32_le :: "bytes \<Rightarrow> bytes \<Rightarrow> bool" where
  "bytes32_le a b = bytes_le_from [0..<32] a b"

definition hash_pair :: "(bytes \<Rightarrow> bytes) \<Rightarrow> bytes \<Rightarrow> bytes \<Rightarrow> bytes" where
  "hash_pair sha a b =
     (let (l, r) = (if bytes32_le a b then (a, b) else (b, a)) in sha ([1] @ l @ r))"

primrec compute_root :: "(bytes \<Rightarrow> bytes) \<Rightarrow> bytes \<Rightarrow> bytes list \<Rightarrow> bytes" where
  "compute_root sha current [] = current"
| "compute_root sha current (sibling # proof) = compute_root sha (hash_pair sha current sibling) proof"

definition commit_attestation_batch :: "address \<Rightarrow> bytes \<Rightarrow> u32 \<Rightarrow> 't env \<Rightarrow> 't env res" where
  "commit_attestation_batch b merkle_root n w =
     and_then (assert_not_paused w) (\<lambda>_.
     and_then (require_admin_auth w) (\<lambda>(_, w).
     let batch = \<lparr>ab_merkle_root = merkle_root, ab_count = n, ab_committed_at = ledger_ts w\<rparr>;
         w = w\<lparr>st_attestation_batch := (st_attestation_batch w)(b \<mapsto> batch)\<rparr> in
     Inr (publish_attestation_batch_committed b merkle_root n w)))"

definition verify_attestation_proof :: "(bytes \<Rightarrow> bytes) \<Rightarrow> address \<Rightarrow> bytes \<Rightarrow> bytes list \<Rightarrow> 't env \<Rightarrow> bool res" where
  "verify_attestation_proof sha b leaf proof w =
     and_then (ok_or (Contract AttestationBatchNotFound) (st_attestation_batch w b)) (\<lambda>batch.
     Inr (compute_root sha leaf proof = ab_merkle_root batch))"

definition get_attestation_batch :: "address \<Rightarrow> 't env \<Rightarrow> attestation_batch option" where
  "get_attestation_batch b w = st_attestation_batch w b"

definition clear_attestation_batch :: "address \<Rightarrow> 't env \<Rightarrow> 't env res" where
  "clear_attestation_batch b w =
     and_then (assert_not_paused w) (\<lambda>_.
     and_then (require_admin_auth w) (\<lambda>(_, w).
     Inr (w\<lparr>st_attestation_batch := (st_attestation_batch w)(b := None)\<rparr>)))"

lemma attestation_books:
  "commit_attestation_batch b r n w = Inr w' \<Longrightarrow> same_books w w'"
  "clear_attestation_batch b w = Inr w' \<Longrightarrow> same_books w w'"
  by (auto simp: commit_attestation_batch_def clear_attestation_batch_def Let_def dest!: require_admin_auth_Inr)

section \<open>The sorted pair\<close>

lemma bytes_le_from_antisym:
  "bytes_le_from is a b \<Longrightarrow> bytes_le_from is b a \<Longrightarrow> j \<in> set is \<Longrightarrow> byte_at a j = byte_at b j"
proof (induction "is")
  case Nil
  then show ?case by simp
next
  case (Cons i "is")
  then have "\<not> byte_at a i < byte_at b i" "\<not> byte_at b i < byte_at a i" by (auto split: if_splits)
  then show ?case using Cons by (cases "j = i") simp_all
qed

lemma bytes_le_from_total: "bytes_le_from is a b \<or> bytes_le_from is b a"
  by (induction "is") auto

lemma bytes32_le_total: "bytes32_le a b \<or> bytes32_le b a"
  unfolding bytes32_le_def by (rule bytes_le_from_total)

lemma bytes32_le_antisym:
  assumes "bytes32_le a b" "bytes32_le b a" "length a = 32" "length b = 32"
  shows "a = b"
proof (rule nth_equalityI)
  show "length a = length b" using assms by simp
  fix i assume i: "i < length a"
  have "byte_at a i = byte_at b i"
    by (rule bytes_le_from_antisym[OF assms(1,2)[unfolded bytes32_le_def]]) (use i assms(3) in \<open>simp only: atLeastLessThan_upt[symmetric], simp\<close>)
  then show "a ! i = b ! i" using i assms(3,4) by (simp add: byte_at_def)
qed

lemma hash_pair_commute:
  assumes "length a = 32" "length b = 32"
  shows "hash_pair sha a b = hash_pair sha b a"
  using bytes32_le_antisym[OF _ _ assms] bytes32_le_total[of a b] by (auto simp: hash_pair_def)

text \<open>The 65 bytes that are hashed for a pair: the domain byte and the two nodes in order.\<close>

definition pair_input :: "bytes \<Rightarrow> bytes \<Rightarrow> bytes" where
  "pair_input a b = [1] @ (if bytes32_le a b then a @ b else b @ a)"

lemma hash_pair_input: "hash_pair sha a b = sha (pair_input a b)"
  by (simp add: hash_pair_def pair_input_def)

lemma pair_input_inj:
  assumes "pair_input a b = pair_input c d" and "length a = 32" "length b = 32" "length c = 32" "length d = 32"
  shows "a = c \<or> a = d"
  using assms by (auto simp: pair_input_def append_eq_append_conv split: if_splits)

section \<open>Merkle trees\<close>

datatype mtree = MLeaf bytes | MNode mtree mtree

primrec mroot :: "(bytes \<Rightarrow> bytes) \<Rightarrow> mtree \<Rightarrow> bytes" where
  "mroot sha (MLeaf x) = x"
| "mroot sha (MNode s t) = hash_pair sha (mroot sha s) (mroot sha t)"

primrec leaves :: "mtree \<Rightarrow> bytes list" where
  "leaves (MLeaf x) = [x]"
| "leaves (MNode s t) = leaves s @ leaves t"

primrec perfect :: "nat \<Rightarrow> mtree \<Rightarrow> bool" where
  "perfect 0 t = (case t of MLeaf _ \<Rightarrow> True | MNode _ _ \<Rightarrow> False)"
| "perfect (Suc n) t = (case t of MLeaf _ \<Rightarrow> False | MNode s u \<Rightarrow> perfect n s \<and> perfect n u)"

primrec leaf_paths :: "(bytes \<Rightarrow> bytes) \<Rightarrow> mtree \<Rightarrow> (bytes \<times> bytes list) list" where
  "leaf_paths sha (MLeaf x) = [(x, [])]"
| "leaf_paths sha (MNode s t) =
     map (\<lambda>(x, p). (x, p @ [mroot sha t])) (leaf_paths sha s) @
     map (\<lambda>(x, p). (x, p @ [mroot sha s])) (leaf_paths sha t)"

definition digests :: "(bytes \<Rightarrow> bytes) \<Rightarrow> mtree \<Rightarrow> bool" where
  "digests sha t \<longleftrightarrow> (\<forall>x. length (sha x) = 32) \<and> (\<forall>x\<in>set (leaves t). length x = 32)"

lemma compute_root_snoc: "compute_root sha l (p @ [s]) = hash_pair sha (compute_root sha l p) s"
  by (induction p arbitrary: l) simp_all

lemma mroot_length: "digests sha t \<Longrightarrow> length (mroot sha t) = 32"
  by (cases t) (auto simp: digests_def hash_pair_def)

lemma digests_Node [simp]: "digests sha (MNode s t) \<longleftrightarrow> digests sha s \<and> digests sha t"
  by (auto simp: digests_def)

lemma leaf_paths_leaves: "map fst (leaf_paths sha t) = leaves t"
  by (induction t) (simp_all add: case_prod_unfold comp_def)

lemma leaf_paths_root:
  "digests sha t \<Longrightarrow> (x, p) \<in> set (leaf_paths sha t) \<Longrightarrow> compute_root sha x p = mroot sha t"
proof (induction t arbitrary: p)
  case (MLeaf y)
  then show ?case by simp
next
  case (MNode s t)
  then show ?case by (auto simp: compute_root_snoc mroot_length hash_pair_commute)
qed

lemma compute_root_length: "length l = 32 \<Longrightarrow> \<forall>x. length (sha x) = 32 \<Longrightarrow> length (compute_root sha l p) = 32"
  by (induction p arbitrary: l) (auto simp: hash_pair_def)

text \<open>The strings a verification hashes, the strings hashed to build the tree, and a clash between the two: two
  different strings among them with the same hash.\<close>

primrec path_inputs :: "(bytes \<Rightarrow> bytes) \<Rightarrow> bytes \<Rightarrow> bytes list \<Rightarrow> bytes list" where
  "path_inputs sha x [] = []"
| "path_inputs sha x (s # p) = pair_input x s # path_inputs sha (hash_pair sha x s) p"

primrec tree_inputs :: "(bytes \<Rightarrow> bytes) \<Rightarrow> mtree \<Rightarrow> bytes list" where
  "tree_inputs sha (MLeaf x) = []"
| "tree_inputs sha (MNode s t) = pair_input (mroot sha s) (mroot sha t) # tree_inputs sha s @ tree_inputs sha t"

definition clash :: "(bytes \<Rightarrow> bytes) \<Rightarrow> bytes list \<Rightarrow> bytes list \<Rightarrow> bool" where
  "clash sha us vs \<longleftrightarrow> (\<exists>u\<in>set us. \<exists>v\<in>set vs. u \<noteq> v \<and> sha u = sha v)"

lemma path_inputs_snoc: "path_inputs sha x (p @ [s]) = path_inputs sha x p @ [pair_input (compute_root sha x p) s]"
  by (induction p arbitrary: x) simp_all

lemma verified_is_leaf:
  assumes "\<not> clash sha (path_inputs sha x p) (tree_inputs sha t)" "digests sha t" "perfect (length p) t" "length x = 32"
    and "\<forall>s\<in>set p. length s = 32" and "compute_root sha x p = mroot sha t"
  shows "x \<in> set (leaves t)"
  using assms
proof (induction p arbitrary: t rule: rev_induct)
  case Nil
  then show ?case by (auto split: mtree.splits)
next
  case (snoc s p)
  then obtain u v where t: "t = MNode u v" "perfect (length p) u" "perfect (length p) v" by (auto split: mtree.splits)
  let ?c = "compute_root sha x p"
  have len: "length ?c = 32" using compute_root_length snoc.prems(2,4) unfolding digests_def by blast
  have "sha (pair_input ?c s) = sha (pair_input (mroot sha u) (mroot sha v))"
    using snoc.prems(6) t(1) by (simp add: compute_root_snoc hash_pair_input)
  then have "pair_input ?c s = pair_input (mroot sha u) (mroot sha v)"
    using snoc.prems(1) t(1) by (auto simp: clash_def path_inputs_snoc)
  then have "?c = mroot sha u \<or> ?c = mroot sha v"
    using pair_input_inj len snoc.prems(2,5) t(1) by (simp add: mroot_length)
  then show ?case using snoc.IH[of u] snoc.IH[of v] snoc.prems t by (auto simp: clash_def path_inputs_snoc)
qed

text \<open>C21 A committed Merkle tree answers for its leaves: after the admin commits the root of a tree, every leaf of the tree has a
  sibling path that verifies.\<close>

theorem attestation_roundtrip:
  assumes "commit_attestation_batch b (mroot sha t) n w = Inr w'" and "digests sha t" and "x \<in> set (leaves t)"
  shows "\<exists>p. verify_attestation_proof sha b x p w' = Inr True"
proof -
  obtain p where "(x, p) \<in> set (leaf_paths sha t)" using assms(3) leaf_paths_leaves[of sha t]
    by (metis (no_types, lifting) imageE list.set_map prod.collapse)
  then have "compute_root sha x p = mroot sha t" by (rule leaf_paths_root[OF assms(2)])
  then show ?thesis using assms(1)
    by (auto simp: commit_attestation_batch_def verify_attestation_proof_def Let_def emit_def dest!: require_admin_auth_Inr)
qed

text \<open>C22 A path of the tree's depth that verifies proves membership: against the root of a perfect tree, a leaf that the
  contract accepts with as many siblings as the tree is deep is one of the tree's leaves, unless one of the strings that this
  very verification hashed differs from, and has the same SHA-256 as, one of the strings hashed to build the tree - a
  collision that the accepted path exhibits.\<close>

theorem attestation_sound:
  assumes "st_attestation_batch w b = Some a" and "ab_merkle_root a = mroot sha t" and "digests sha t"
    and "perfect (length p) t" and "length x = 32" and "\<forall>s\<in>set p. length s = 32"
    and "verify_attestation_proof sha b x p w = Inr True"
  shows "x \<in> set (leaves t) \<or> clash sha (path_inputs sha x p) (tree_inputs sha t)"
  using verified_is_leaf[OF _ assms(3,4,5,6)] assms(1,2,7) by (auto simp: verify_attestation_proof_def)

text \<open>The contract does not distinguish internal nodes from leaves: the hash of a subtree is accepted as a leaf with the
  path of one sibling.\<close>

theorem attestation_accepts_inner_node:
  assumes "st_attestation_batch w b = Some a" and "ab_merkle_root a = mroot sha (MNode s t)"
  shows "verify_attestation_proof sha b (mroot sha s) [mroot sha t] w = Inr True"
  using assms by (simp add: verify_attestation_proof_def)

theorem attestation_roundtrip_witness:
  "\<exists>w' p. commit_attestation_batch 5 (mroot (\<lambda>_. replicate 32 7) (MNode (MLeaf (replicate 32 1)) (MLeaf (replicate 32 2)))) 2
       (borrow_env\<lparr>signers := [1]\<rparr>) = Inr w'
     \<and> verify_attestation_proof (\<lambda>_. replicate 32 7) 5 (replicate 32 2) p w' = Inr True"
proof -
  obtain w' where w': "commit_attestation_batch 5 (mroot (\<lambda>_. replicate 32 7) (MNode (MLeaf (replicate 32 1)) (MLeaf (replicate 32 2)))) 2
       (borrow_env\<lparr>signers := [1]\<rparr>) = Inr w'"
    by (simp add: commit_attestation_batch_def assert_not_paused_def require_admin_auth_def require_admin_def is_paused_def
        require_auth_def borrow_reads)
  have d: "digests (\<lambda>_. replicate 32 7) (MNode (MLeaf (replicate 32 1)) (MLeaf (replicate 32 2)))"
    "replicate 32 2 \<in> set (leaves (MNode (MLeaf (replicate 32 1)) (MLeaf (replicate 32 2))))"
    by (simp_all add: digests_def)
  show ?thesis using attestation_roundtrip[OF w' d] w' by blast
qed

text \<open>A hash that tells the strings of a small tree apart: 32 copies of the byte sum.\<close>

definition sum_sha :: "bytes \<Rightarrow> bytes" where
  "sum_sha x = replicate 32 (sum_list x)"

definition four_leaves :: mtree where
  "four_leaves = MNode (MNode (MLeaf (replicate 32 1)) (MLeaf (replicate 32 2)))
     (MNode (MLeaf (replicate 32 3)) (MLeaf (replicate 32 4)))"

definition attested_env :: "(address \<times> address \<Rightarrow> int) env" where
  "attested_env = borrow_env\<lparr>st_attestation_batch :=
     [5 \<mapsto> \<lparr>ab_merkle_root = mroot sum_sha four_leaves, ab_count = 4, ab_committed_at = 0\<rparr>]\<rparr>"

theorem attestation_sound_witness:
  "verify_attestation_proof sum_sha 5 (replicate 32 3) [replicate 32 4, replicate 32 97] attested_env = Inr True \<and>
     \<not> clash sum_sha (path_inputs sum_sha (replicate 32 3) [replicate 32 4, replicate 32 97]) (tree_inputs sum_sha four_leaves) \<and>
     replicate 32 3 \<in> set (leaves four_leaves)"
proof -
  let ?p = "[replicate 32 4, replicate 32 97] :: bytes list"
  have r: "compute_root sum_sha (replicate 32 3) ?p = mroot sum_sha four_leaves"
    "\<not> clash sum_sha (path_inputs sum_sha (replicate 32 3) ?p) (tree_inputs sum_sha four_leaves)"
    by code_simp+
  then have v: "verify_attestation_proof sum_sha 5 (replicate 32 3) ?p attested_env = Inr True"
    by (simp add: verify_attestation_proof_def attested_env_def)
  have "digests sum_sha four_leaves" "perfect (length ?p) four_leaves"
    by (auto simp: digests_def four_leaves_def sum_sha_def)
  moreover have "st_attestation_batch attested_env 5 = Some \<lparr>ab_merkle_root = mroot sum_sha four_leaves, ab_count = 4, ab_committed_at = 0\<rparr>"
    by (simp add: attested_env_def)
  ultimately have "replicate 32 3 \<in> set (leaves four_leaves) \<or> clash sum_sha (path_inputs sum_sha (replicate 32 3) ?p) (tree_inputs sum_sha four_leaves)"
    using attestation_sound[of attested_env 5 _ sum_sha four_leaves ?p "replicate 32 3"] v by simp
  then show ?thesis using v r(2) by blast
qed

theorem attestation_accepts_inner_node_witness:
  "verify_attestation_proof (\<lambda>_. [7]) 5 [1] [[2]]
     (borrow_env\<lparr>st_attestation_batch := [5 \<mapsto> \<lparr>ab_merkle_root = [7], ab_count = 2, ab_committed_at = 0\<rparr>]\<rparr>) = Inr True"
  using attestation_accepts_inner_node[of "borrow_env\<lparr>st_attestation_batch := [5 \<mapsto> \<lparr>ab_merkle_root = [7], ab_count = 2, ab_committed_at = 0\<rparr>]\<rparr>"
      5 _ "\<lambda>_. [7]" "MLeaf [1]" "MLeaf [2]"] by (simp add: hash_pair_def)

end
