(* ===== verification/Protocol.thy ===== *)
theory Protocol
  imports Views Attestation
begin

text \<open>
  The whole contract as a transition system.  A \<open>call\<close> is an invocation of a state-changing
  entrypoint with its arguments, grouped by component; \<open>exec\<close> dispatches it.  A \<open>step\<close> is a
  successful invocation in a fresh frame: the host advances the clock, the transaction is signed by
  any addresses, and the external contracts may have changed their own state in between; an
  invocation that fails is rolled back by the host and is not a step.  \<open>run\<close> is a finite sequence of
  steps with its calls and their signers.
\<close>

section \<open>Calls\<close>

datatype (plugins only: code) collateral_call =
    DepositCollateral address i128
  | WithdrawCollateral address i128
  | PartialReleaseCollateral address i128
  | DepositCollateralToken address address i128
  | WithdrawCollateralToken address address i128
  | SetCollateralRiskWeight address u32
  | SetMinCollateralRatioBps u32
  | SetColAdminCooldownSecs u64
  | SetCollateralTokenAllowlist "address list"

primrec exec_collateral :: "'t token_client \<Rightarrow> collateral_call \<Rightarrow> 't env \<Rightarrow> 't env res" where
  "exec_collateral tok (DepositCollateral b x) w = deposit_collateral tok b x w"
| "exec_collateral tok (WithdrawCollateral b x) w = withdraw_collateral tok b x w"
| "exec_collateral tok (PartialReleaseCollateral b x) w = partial_release_collateral tok b x w"
| "exec_collateral tok (DepositCollateralToken b t x) w = deposit_collateral_token tok b t x w"
| "exec_collateral tok (WithdrawCollateralToken b t x) w = withdraw_collateral_token tok b t x w"
| "exec_collateral tok (SetCollateralRiskWeight a u) w = set_collateral_risk_weight a u w"
| "exec_collateral tok (SetMinCollateralRatioBps u) w = set_min_collateral_ratio_bps u w"
| "exec_collateral tok (SetColAdminCooldownSecs s) w = set_admin_collateral_cooldown_seconds s w"
| "exec_collateral tok (SetCollateralTokenAllowlist ts) w = set_collateral_token_allowlist tok ts w"

datatype (plugins only: code) oracle_call =
    AddOracle address u32
  | RemoveOracle address
  | SetQuorumThreshold u32
  | SetReportingWindow u64
  | ReportValue address u128
  | SetOracleConfig u32 u64
  | SetOracleQuorumConfig u32 u32 u64
  | SubmitOraclePrices "i128 list"

primrec exec_oracle :: "oracle_call \<Rightarrow> 't env \<Rightarrow> 't env res" where
  "exec_oracle (AddOracle a u) w = add_oracle a u w"
| "exec_oracle (RemoveOracle a) w = remove_oracle a w"
| "exec_oracle (SetQuorumThreshold u) w = set_quorum_threshold u w"
| "exec_oracle (SetReportingWindow s) w = set_reporting_window s w"
| "exec_oracle (ReportValue a v) w = report_value a v w"
| "exec_oracle (SetOracleConfig d a) w = set_oracle_config d a w"
| "exec_oracle (SetOracleQuorumConfig k d a) w = set_oracle_quorum_config k d a w"
| "exec_oracle (SubmitOraclePrices ps) w = submit_oracle_prices ps w"

datatype (plugins only: code) lifecycle_call =
    OpenCreditLine address i128 u32 u32
  | SuspendCreditLine address
  | SelfSuspendCreditLine address
  | UnsuspendCreditLine address
  | SelfUnsuspendCreditLine address
  | CloseCreditLine address address
  | CloseCreditLinesBatch "address list"
  | DefaultCreditLine address
  | ForgiveDebt address i128
  | SettleDefaultLiquidation address i128 symbol u32 "i128 option"
  | ReinstateCreditLine address credit_status
  | SetCreditLimitBounds i128 i128
  | SetBorrowerLiqGrace address u64
  | SetLateFeeFlat i128
  | SetRepaymentSchedule address i128 u64 u64

primrec exec_lifecycle :: "'t auction_client \<Rightarrow> lifecycle_call \<Rightarrow> 't env \<Rightarrow> 't env res" where
  "exec_lifecycle auc (OpenCreditLine b x u v) w = open_credit_line b x u v w"
| "exec_lifecycle auc (SuspendCreditLine b) w = suspend_credit_line b w"
| "exec_lifecycle auc (SelfSuspendCreditLine b) w = self_suspend_credit_line b w"
| "exec_lifecycle auc (UnsuspendCreditLine b) w = unsuspend_credit_line b w"
| "exec_lifecycle auc (SelfUnsuspendCreditLine b) w = self_unsuspend_credit_line b w"
| "exec_lifecycle auc (CloseCreditLine b c) w = close_credit_line b c w"
| "exec_lifecycle auc (CloseCreditLinesBatch bs) w = close_credit_lines_batch bs w"
| "exec_lifecycle auc (DefaultCreditLine b) w = default_credit_line b w"
| "exec_lifecycle auc (ForgiveDebt b x) w = forgive_debt b x w"
| "exec_lifecycle auc (SettleDefaultLiquidation b x sid cf p) w = settle_default_liquidation auc b x sid cf p w"
| "exec_lifecycle auc (ReinstateCreditLine b s) w = reinstate_credit_line b s w"
| "exec_lifecycle auc (SetCreditLimitBounds lo hi) w = set_credit_limit_bounds lo hi w"
| "exec_lifecycle auc (SetBorrowerLiqGrace b s) w = set_per_borrower_liquidation_grace b s w"
| "exec_lifecycle auc (SetLateFeeFlat x) w = set_late_fee_flat x w"
| "exec_lifecycle auc (SetRepaymentSchedule b x p t) w = set_repayment_schedule b x p t w"

datatype (plugins only: code) freeze_call =
    FreezeDraws freeze_reason
  | UnfreezeDraws
  | FreezeCreditLine address freeze_reason
  | UnfreezeCreditLine address
  | FreezeBorrowerUntil address address u64
  | UnfreezeBorrower address address
  | BlockBorrower address address
  | UnblockBorrower address address
  | BulkBlockBorrowers address "address list"
  | SetProtocolPaused bool
  | SetProtocolPausedWithReason bool symbol

primrec exec_freeze :: "freeze_call \<Rightarrow> 't env \<Rightarrow> 't env res" where
  "exec_freeze (FreezeDraws r) w = freeze_draws r w"
| "exec_freeze UnfreezeDraws w = unfreeze_draws w"
| "exec_freeze (FreezeCreditLine b r) w = freeze_credit_line b r w"
| "exec_freeze (UnfreezeCreditLine b) w = unfreeze_credit_line b w"
| "exec_freeze (FreezeBorrowerUntil a b t) w = freeze_borrower_until a b t w"
| "exec_freeze (UnfreezeBorrower a b) w = unfreeze_borrower a b w"
| "exec_freeze (BlockBorrower a b) w = block_borrower a b w"
| "exec_freeze (UnblockBorrower a b) w = unblock_borrower a b w"
| "exec_freeze (BulkBlockBorrowers a bs) w = bulk_block_borrowers a bs w"
| "exec_freeze (SetProtocolPaused p) w = set_protocol_paused p w"
| "exec_freeze (SetProtocolPausedWithReason p r) w = set_protocol_paused_with_reason p r w"

datatype (plugins only: code) risk_call =
    UpdateRiskParameters address i128 u32 u32
  | SetRateChangeLimits u32 u64
  | SetPenaltySurchargeBps u32
  | SetRiskAdminCooldown u64
  | SetBorrowerRateFloor address "u32 option"
  | SetBorrowerRateCeiling address "u32 option"
  | SetUtilizationCap address u32
  | CommitVrfOutput address bytes
  | ClearVrfCommitment address
  | SetRateFormulaConfig u32 u32 u32 u32
  | ClearRateFormulaConfig

primrec exec_risk :: "risk_call \<Rightarrow> 't env \<Rightarrow> 't env res" where
  "exec_risk (UpdateRiskParameters b x r s) w = update_risk_parameters b x r s w"
| "exec_risk (SetRateChangeLimits u s) w = set_rate_change_limits u s w"
| "exec_risk (SetPenaltySurchargeBps u) w = set_penalty_surcharge_bps u w"
| "exec_risk (SetRiskAdminCooldown s) w = set_risk_admin_cooldown s w"
| "exec_risk (SetBorrowerRateFloor b f) w = set_borrower_rate_floor b f w"
| "exec_risk (SetBorrowerRateCeiling b f) w = set_borrower_rate_ceiling b f w"
| "exec_risk (SetUtilizationCap b u) w = set_utilization_cap b u w"
| "exec_risk (CommitVrfOutput b h) w = commit_vrf_output b h w"
| "exec_risk (ClearVrfCommitment b) w = clear_vrf_commitment b w"
| "exec_risk (SetRateFormulaConfig p q r s) w = set_rate_formula_config p q r s w"
| "exec_risk ClearRateFormulaConfig w = clear_rate_formula_config w"

datatype (plugins only: code) borrow_call =
    DrawCredit address i128
  | RepayCredit address i128
  | AccrueBatch "address list"
  | ReverseDraw address i128 u64 u32

primrec exec_borrow :: "'t token_client \<Rightarrow> borrow_call \<Rightarrow> 't env \<Rightarrow> 't env res" where
  "exec_borrow tok (DrawCredit b x) w = draw_credit tok b x w"
| "exec_borrow tok (RepayCredit b x) w = repay_credit tok b x w"
| "exec_borrow tok (AccrueBatch bs) w = accrue_batch_entry bs w"
| "exec_borrow tok (ReverseDraw b x t r) w = reverse_draw b x t r w"

datatype (plugins only: code) admin_call =
    Init address
  | ProposeAdmin address u64
  | AcceptAdmin
  | SetLiquidityToken address
  | SetLiquiditySource address
  | SetGracePeriodConfig u64 grace_waiver_mode u32
  | SetLateFeeConfig "late_fee_config option"
  | SetMaxDrawAmount i128
  | SetMaxRepayAmount i128
  | SetDrawMinInterval u64
  | SetBorrowAdminCooldown u64
  | SetAccrualAdminCooldown u64
  | SetProtocolFeeBps u32
  | SetTreasuryFeeShareBps u32
  | SetMaxTotalExposure i128
  | SetBorrowerExposureCap address i128
  | SetAuctionContract address
  | SetCloseFactorBps u32
  | Upgrade bytes
  | CommitAttestationBatch address bytes u32
  | ClearAttestationBatch address

primrec exec_admin :: "admin_call \<Rightarrow> 't env \<Rightarrow> 't env res" where
  "exec_admin (Init a) w = init a w"
| "exec_admin (ProposeAdmin a d) w = propose_admin a d w"
| "exec_admin AcceptAdmin w = accept_admin w"
| "exec_admin (SetLiquidityToken a) w = set_liquidity_token a w"
| "exec_admin (SetLiquiditySource a) w = set_liquidity_source a w"
| "exec_admin (SetGracePeriodConfig s m r) w = set_grace_period_config s m r w"
| "exec_admin (SetLateFeeConfig c) w = set_late_fee_config c w"
| "exec_admin (SetMaxDrawAmount x) w = set_max_draw_amount x w"
| "exec_admin (SetMaxRepayAmount x) w = set_max_repay_amount x w"
| "exec_admin (SetDrawMinInterval s) w = set_draw_min_interval s w"
| "exec_admin (SetBorrowAdminCooldown s) w = set_borrow_admin_cooldown s w"
| "exec_admin (SetAccrualAdminCooldown s) w = set_accrual_admin_cooldown s w"
| "exec_admin (SetProtocolFeeBps u) w = set_protocol_fee_bps u w"
| "exec_admin (SetTreasuryFeeShareBps u) w = set_treasury_fee_share_bps u w"
| "exec_admin (SetMaxTotalExposure x) w = set_max_total_exposure x w"
| "exec_admin (SetBorrowerExposureCap b x) w = set_borrower_exposure_cap b x w"
| "exec_admin (SetAuctionContract a) w = set_auction_contract a w"
| "exec_admin (SetCloseFactorBps u) w = set_close_factor_bps u w"
| "exec_admin (Upgrade h) w = upgrade h w"
| "exec_admin (CommitAttestationBatch b r n) w = commit_attestation_batch b r n w"
| "exec_admin (ClearAttestationBatch b) w = clear_attestation_batch b w"

datatype (plugins only: code) treasury_call =
    SetTreasury address address
  | SetBounty address address
  | ProposeTreasuryWithdrawal address
  | ExecuteTreasuryWithdrawal address
  | WithdrawBounty address
  | WithdrawTreasury address

primrec exec_treasury :: "'t token_client \<Rightarrow> treasury_call \<Rightarrow> 't env \<Rightarrow> 't env res" where
  "exec_treasury tok (SetTreasury a t) w = set_treasury a t w"
| "exec_treasury tok (SetBounty a t) w = set_bounty a t w"
| "exec_treasury tok (ProposeTreasuryWithdrawal a) w = propose_treasury_withdrawal a w"
| "exec_treasury tok (ExecuteTreasuryWithdrawal a) w = execute_treasury_withdrawal tok a w"
| "exec_treasury tok (WithdrawBounty a) w = withdraw_bounty tok a w"
| "exec_treasury tok (WithdrawTreasury a) w = withdraw_treasury tok a w"

datatype call =
    CollateralCall collateral_call
  | OracleCall oracle_call
  | LifecycleCall lifecycle_call
  | FreezeCall freeze_call
  | RiskCall risk_call
  | BorrowCall borrow_call
  | AdminCall admin_call
  | TreasuryCall treasury_call

primrec exec :: "'t token_client \<Rightarrow> 't auction_client \<Rightarrow> call \<Rightarrow> 't env \<Rightarrow> 't env res" where
  "exec tok auc (CollateralCall c) w = exec_collateral tok c w"
| "exec tok auc (OracleCall c) w = exec_oracle c w"
| "exec tok auc (LifecycleCall c) w = exec_lifecycle auc c w"
| "exec tok auc (FreezeCall c) w = exec_freeze c w"
| "exec tok auc (RiskCall c) w = exec_risk c w"
| "exec tok auc (BorrowCall c) w = exec_borrow tok c w"
| "exec tok auc (AdminCall c) w = exec_admin c w"
| "exec tok auc (TreasuryCall c) w = exec_treasury tok c w"

section \<open>Steps and runs\<close>

definition frame_of :: "u64 \<Rightarrow> u32 \<Rightarrow> address list \<Rightarrow> 't \<Rightarrow> 't env \<Rightarrow> 't env" where
  "frame_of ts sq sg tk w = w\<lparr>ledger_ts := ts, ledger_seq := sq, signers := sg, frame_auth := [], tokens := tk\<rparr>"

text \<open>The index gives out 32-bit ids by a saturating counter; a step that opens a line for a new borrower
  presupposes that an id is left.\<close>

primrec has_room :: "call \<Rightarrow> 't env \<Rightarrow> bool" where
  "has_room (CollateralCall c) w = True"
| "has_room (OracleCall c) w = True"
| "has_room (LifecycleCall c) w = (case c of OpenCreditLine b x u v \<Rightarrow> room_for b w | _ \<Rightarrow> True)"
| "has_room (FreezeCall c) w = True"
| "has_room (RiskCall c) w = True"
| "has_room (BorrowCall c) w = True"
| "has_room (AdminCall c) w = True"
| "has_room (TreasuryCall c) w = True"

type_synonym invocation = "address list \<times> call"

inductive step :: "'t token_client \<Rightarrow> 't auction_client \<Rightarrow> 't env \<Rightarrow> invocation \<Rightarrow> 't env \<Rightarrow> bool"
  for tok :: "'t token_client" and auc :: "'t auction_client" where
  invoke: "exec tok auc c (frame_of ts sq sg tk w) = Inr w' \<Longrightarrow> ledger_ts w \<le> ts \<Longrightarrow> has_room c w \<Longrightarrow>
    step tok auc w (sg, c) w'"

inductive run :: "'t token_client \<Rightarrow> 't auction_client \<Rightarrow> 't env \<Rightarrow> invocation list \<Rightarrow> 't env \<Rightarrow> bool"
  for tok :: "'t token_client" and auc :: "'t auction_client" and w0 :: "'t env" where
  start: "run tok auc w0 [] w0"
| extend: "run tok auc w0 cs w \<Longrightarrow> step tok auc w c w' \<Longrightarrow> run tok auc w0 (cs @ [c]) w'"

inductive_cases step_cases: "step tok auc w (sg, c) w'"
inductive_simps run_Nil: "run tok auc w0 [] w"

lemma frame_of_books [simp]: "same_books w (frame_of ts sq sg tk w)"
  by (simp add: frame_of_def)

text \<open>An invariant of the steps that satisfy \<open>Q\<close> holds along every run whose calls all satisfy \<open>Q\<close>.\<close>

lemma run_invariant:
  assumes "run tok auc w0 cs w" and "P w0" and "\<forall>(sg, c)\<in>set cs. Q c"
    and "\<And>w sg c w'. step tok auc w (sg, c) w' \<Longrightarrow> Q c \<Longrightarrow> P w \<Longrightarrow> P w'"
  shows "P w"
  using assms
proof (induction rule: run.induct)
  case start
  then show ?case by simp
next
  case (extend cs w c w')
  then show ?case by (cases c) auto
qed

section \<open>Every call keeps the books\<close>

lemma collateral_setting_books:
  "set_collateral_risk_weight a u w = Inr w' \<Longrightarrow> same_books w w'"
  "set_min_collateral_ratio_bps u w = Inr w' \<Longrightarrow> same_books w w'"
  "set_admin_collateral_cooldown_seconds s w = Inr w' \<Longrightarrow> same_books w w'"
  "set_collateral_token_allowlist tok ts w = Inr w' \<Longrightarrow> same_books w w'"
  by (auto dest!: require_admin_auth_Inr simp: collateral_admin_action_def touch_admin_collateral_critical_action_ts_def
      set_collateral_risk_weight_def set_min_collateral_ratio_bps_def set_admin_collateral_cooldown_seconds_def
      set_collateral_token_allowlist_def)

lemma exec_oracle_books: "exec_oracle c w = Inr w' \<Longrightarrow> same_books w w'"
  by (cases c) (auto dest!: require_admin_auth_Inr require_auth_Inr split: if_splits
      simp: add_oracle_def remove_oracle_def set_quorum_threshold_def set_reporting_window_def report_value_def
        set_oracle_config_def set_oracle_quorum_config_def submit_oracle_prices_def set_oracle_last_price_def
        set_oracle_quorum_price_def Let_def)

lemma lifecycle_setting_books:
  "set_credit_limit_bounds lo hi w = Inr w' \<Longrightarrow> same_books w w'"
  "set_per_borrower_liquidation_grace b s w = Inr w' \<Longrightarrow> same_books w w'"
  "set_late_fee_flat x w = Inr w' \<Longrightarrow> same_books w w'"
  "set_repayment_schedule b x p t w = Inr w' \<Longrightarrow> same_books w w'"
  by (auto dest!: require_admin_auth_Inr simp: set_credit_limit_bounds_def set_per_borrower_liquidation_grace_def
      set_late_fee_flat_def set_repayment_schedule_def store_defs Let_def)

lemma exec_freeze_books: "exec_freeze c w = Inr w' \<Longrightarrow> same_books w w'"
  by (cases c) (auto dest: freeze_draws_books unfreeze_draws_books freeze_credit_line_books unfreeze_credit_line_books
      freeze_borrower_until_books unfreeze_borrower_books block_borrower_books unblock_borrower_books
      bulk_block_borrowers_books set_protocol_paused_books set_protocol_paused_with_reason_books)

lemma exec_treasury_books: "exec_treasury tok c w = Inr w' \<Longrightarrow> same_books w w'"
  by (cases c) (auto dest: treasury_books)

definition moves_admin :: "admin_call \<Rightarrow> bool" where
  "moves_admin c \<longleftrightarrow> c = AcceptAdmin \<or> (\<exists>a. c = Init a)"

lemma exec_admin_books: "exec_admin c w = Inr w' \<Longrightarrow> \<not> moves_admin c \<Longrightarrow> same_books w w'"
  by (cases c) (auto dest: admin_setting_books attestation_books simp: moves_admin_def)

lemma exec_risk_books:
  "exec_risk c w = Inr w' \<Longrightarrow> (\<forall>b x r s. c \<noteq> UpdateRiskParameters b x r s) \<Longrightarrow> same_books w w'"
  by (cases c) (auto dest: risk_setting_books)

end
