(* ===== verification/Book.thy ===== *)
theory Book
  imports Protocol
begin

text \<open>
  The abstract machine behind the contract: a book that maps each borrower to a status and a
  principal, with the edges E1 to E21 of \<^verbatim>\<open>docs/state-machine.md\<close> and the movements of principal that
  each call may cause.  The machine is the code's: on E21 it departs from the document, which has every re-opened line start
  at zero; the code keeps the debt of a line that was not closed (rule \<open>reopened_with_debt\<close>).  The lemmas say what every operation does to the book; the refinement is that every step of
  the contract is a step of this machine.
\<close>

section \<open>The abstraction\<close>

text \<open>
  What a line is worth to its borrower: its status and its principal, the debt without the interest
  bucket.  Interest accrual does not show in this view.  \<open>side\<close> is the part of the state that the operations on lines
  leave alone.
\<close>

type_synonym book = "address \<rightharpoonup> credit_status \<times> int"

definition line_view :: "credit_line_data \<Rightarrow> credit_status \<times> int" where
  "line_view l = (status l, utilized_amount l - accrued_interest l)"

definition book_of :: "'t env \<Rightarrow> book" where
  "book_of w b = map_option line_view (st_lines w b)"

definition side :: "'t env \<Rightarrow> address option \<times> (address \<times> symbol \<rightharpoonup> bool) \<times> (address \<rightharpoonup> i128)" where
  "side w = (st_admin w, st_liq_seen w, st_collateral_balance w)"

lemma book_of_same_lines: "st_lines w' = st_lines w \<Longrightarrow> book_of w' = book_of w"
  by (simp add: book_of_def fun_eq_iff)

lemma same_books_view: "same_books w w' \<Longrightarrow> book_of w' = book_of w \<and> side w' = side w"
  by (simp add: same_books_def book_of_def side_def fun_eq_iff)

lemma book_of_Some: "st_lines w b = Some k \<Longrightarrow> book_of w b = Some (line_view k)"
  by (simp add: book_of_def)

lemma accrual_view:
  "apply_accrual k w = Inr (l, w') \<Longrightarrow> line_view l = line_view k \<and> book_of w' = book_of w \<and> side w' = side w"
  using apply_accrual_shape[of k w l w'] same_books_view[OF acc.accrue_same_books]
  by (fastforce simp: line_view_def accrues_def)

lemma persist_view:
  "persist_credit_line b l pu ps w = Inr w' \<Longrightarrow> book_of w' = (book_of w)(b \<mapsto> line_view l) \<and> side w' = side w"
  using persist_line_write[of b l pu ps w w'] by (auto simp: line_write_def book_of_def side_def fun_eq_iff)

lemma pending_view [simp]:
  "book_of (increment_pending_auction_count w) = book_of w" "book_of (decrement_pending_auction_count w) = book_of w"
  "side (increment_pending_auction_count w) = side w" "side (decrement_pending_auction_count w) = side w"
  by (simp_all add: book_of_def side_def increment_pending_auction_count_def decrement_pending_auction_count_def fun_eq_iff)

lemma publish_view [simp]:
  "book_of (emit e w) = book_of w" "side (emit e w) = side w"
  "book_of (publish_line t b l w) = book_of w" "side (publish_line t b l w) = side w"
  "book_of (publish_borrow_lifecycle_event ph b l w) = book_of w" "side (publish_borrow_lifecycle_event ph b l w) = side w"
  "book_of (clear_repayment_schedule b w) = book_of w" "side (clear_repayment_schedule b w) = side w"
  "book_of (clear_reentrancy_guard w) = book_of w" "side (clear_reentrancy_guard w) = side w"
  by (simp_all add: book_of_def side_def emit_def publish_line_def publish_borrow_lifecycle_event_def
      clear_repayment_schedule_def clear_reentrancy_guard_def fun_eq_iff)

lemma require_auth_view: "require_auth a w = Inr w' \<Longrightarrow> book_of w' = book_of w \<and> side w' = side w \<and> a \<in> set (signers w)"
  by (auto dest!: require_auth_Inr simp: book_of_def side_def fun_eq_iff)

lemma admin_auth_view:
  "require_admin_auth w = Inr (a, w') \<Longrightarrow>
     book_of w' = book_of w \<and> side w' = side w \<and> st_admin w = Some a \<and> a \<in> set (signers w)"
  by (auto dest!: require_admin_auth_Inr simp: book_of_def side_def fun_eq_iff)

lemma cooldown_view:
  "enforce_accrual_admin_cooldown b w = Inr w' \<Longrightarrow> book_of w' = book_of w \<and> side w' = side w"
  "enforce_borrow_admin_cooldown b w = Inr w' \<Longrightarrow> book_of w' = book_of w \<and> side w' = side w"
  using cooldown_same_books same_books_view by blast+

lemma admin_accrual_wrap:
  assumes "and_then (require_admin_auth w) (\<lambda>(_, w). and_then (enforce_accrual_admin_cooldown b w) f) = Inr w'"
  obtains a w2 where "f w2 = Inr w'" "book_of w2 = book_of w" "side w2 = side w" "st_admin w = Some a" "a \<in> set (signers w)"
  using assms by (auto dest!: admin_auth_view cooldown_view)

section \<open>What each operation does to the book\<close>

lemma suspend_internal_view:
  assumes "suspend_credit_line_internal b t w = Inr w'"
  obtains p where "book_of w b = Some (Active, p)" "book_of w' = (book_of w)(b \<mapsto> (t, p))" "side w' = side w"
proof -
  from assms obtain k l w1 w2 where k: "st_lines w b = Some k" and a: "apply_accrual k w = Inr (l, w1)"
    and st: "status l = Active"
    and p: "persist_credit_line b (l\<lparr>status := t, suspension_ts := ledger_ts w1\<rparr>) (utilized_amount k)
              (Some (status k)) w1 = Inr w2"
    and w': "book_of w' = book_of w2" "side w' = side w2"
    by (auto simp: suspend_credit_line_internal_def Let_def require_valid_transition_def split: if_splits)
  show ?thesis
    using accrual_view[OF a] persist_view[OF p] book_of_Some[OF k] w' st
    by (intro that[of "snd (line_view k)"]) (auto simp: line_view_def)
qed

lemma unsuspend_view:
  assumes "lifecycle_unsuspend_credit_line b w = Inr w'"
  obtains p st where "book_of w b = Some (st, p)" "st = Suspended \<or> st = SelfSuspended"
    "book_of w' = (book_of w)(b \<mapsto> (Active, p))" "side w' = side w"
proof -
  from assms obtain k l w1 w2 where k: "st_lines w b = Some k" and a: "apply_accrual k w = Inr (l, w1)"
    and st: "status l = Suspended \<or> status l = SelfSuspended"
    and p: "persist_credit_line b (l\<lparr>status := Active, suspension_ts := 0\<rparr>) (utilized_amount k) (Some (status k)) w1 = Inr w2"
    and w': "book_of w' = book_of w2" "side w' = side w2"
    by (auto simp: lifecycle_unsuspend_credit_line_def Let_def require_valid_transition_def split: if_splits)
  show ?thesis
    using accrual_view[OF a] persist_view[OF p] book_of_Some[OF k] w' st
    by (intro that[of "status k" "snd (line_view k)"]) (auto simp: line_view_def)
qed

lemma self_unsuspend_view:
  assumes "self_unsuspend_credit_line b w = Inr w'"
  obtains p where "book_of w b = Some (SelfSuspended, p)" "book_of w' = (book_of w)(b \<mapsto> (Active, p))" "side w' = side w"
    "b \<in> set (signers w)"
proof -
  from assms obtain w0 k l w1 w2 where u: "require_auth b w = Inr w0" and k: "st_lines w0 b = Some k"
    and a: "apply_accrual k w0 = Inr (l, w1)" and st: "status l = SelfSuspended"
    and p: "persist_credit_line b (l\<lparr>status := Active, suspension_ts := 0\<rparr>) (utilized_amount k) (Some (status k)) w1 = Inr w2"
    and w': "book_of w' = book_of w2" "side w' = side w2"
    by (auto simp: self_unsuspend_credit_line_def Let_def require_valid_transition_def split: if_splits)
  show ?thesis
    using require_auth_view[OF u] accrual_view[OF a] persist_view[OF p] book_of_Some[OF k] w' st
    by (intro that[of "snd (line_view k)"]) (auto simp: line_view_def)
qed

lemma lifecycle_close_view:
  assumes "lifecycle_close_credit_line b c w = Inr w'"
  obtains p st where "book_of w b = Some (st, p)" "st \<noteq> Closed" "book_of w' = (book_of w)(b \<mapsto> (Closed, p))" "side w' = side w"
    "st_admin w = Some c \<or> c = b \<and> (ledger_ok True w \<longrightarrow> p = 0)"
proof -
  from assms obtain adm k w2 where k: "st_lines w b = Some k" and st: "status k \<noteq> Closed" and ad: "st_admin w = Some adm"
    and g: "(if c = adm then Inr () else if c = b then ensure (utilized_amount k = 0) (Contract UtilizationNotZero)
             else Inl (Contract Unauthorized)) = Inr ()"
    and p: "persist_credit_line b (k\<lparr>status := Closed\<rparr>) (utilized_amount k) (Some (status k))
              (if status k = Defaulted then decrement_pending_auction_count w else w) = Inr w2"
    and w': "w' = publish_line ''closed'' b (k\<lparr>status := Closed\<rparr>) (clear_repayment_schedule b w2)"
    unfolding lifecycle_close_credit_line_def Let_def require_admin_def by auto
  have c: "st_admin w = Some c \<or> c = b \<and> (ledger_ok True w \<longrightarrow> snd (line_view k) = 0)"
    using g ad ledger_line[OF _ k, of True 0] by (auto simp: line_ok_def line_view_def split: if_splits)
  show ?thesis
    using persist_view[OF p] book_of_Some[OF k] w' st c
    by (intro that[of "status k" "snd (line_view k)"]) (auto simp: line_view_def)
qed

lemma close_view:
  assumes "close_credit_line b c w = Inr w'"
  obtains p st where "book_of w b = Some (st, p)" "st \<noteq> Closed" "book_of w' = (book_of w)(b \<mapsto> (Closed, p))" "side w' = side w"
    "c \<in> set (signers w)" "st_admin w = Some c \<or> c = b \<and> (ledger_ok True w \<longrightarrow> p = 0)"
proof -
  from assms obtain w1 w2 where u: "require_auth c w = Inr w1"
    and g: "enforce_accrual_admin_cooldown b w1 = Inr w2 \<or> w2 = w1" and d: "lifecycle_close_credit_line b c w2 = Inr w'"
    by (auto simp: close_credit_line_def split: if_splits)
  have e: "book_of w2 = book_of w" "side w2 = side w" "c \<in> set (signers w)"
    using require_auth_view[OF u] g cooldown_view(1) by metis+
  have "same_books w w1" using require_auth_Inr[OF u] by (auto simp: same_books_def)
  then have "ledger_ok True w2 = ledger_ok True w" using g cooldown_same_books(1)[of b w1 w2] same_books_ledger by blast
  then show ?thesis using lifecycle_close_view[OF d] e that by (metis Pair_inject side_def)
qed

lemma default_view:
  assumes "lifecycle_default_credit_line b w = Inr w'"
  obtains p st where "book_of w b = Some (st, p)" "st \<in> {Active, Suspended, SelfSuspended, Restricted}"
    "book_of w' = (book_of w)(b \<mapsto> (Defaulted, p))" "side w' = side w"
proof -
  from assms obtain k l w1 w2 where k: "st_lines w b = Some k" and a: "apply_accrual k w = Inr (l, w1)"
    and st: "status l \<in> {Active, Suspended, SelfSuspended, Restricted}"
    and p: "persist_credit_line b (l\<lparr>status := Defaulted\<rparr>) (utilized_amount k) (Some (status l))
              (increment_pending_auction_count w1) = Inr w2"
    and w': "book_of w' = book_of w2" "side w' = side w2"
    by (auto simp: lifecycle_default_credit_line_def Let_def require_valid_transition_def split: if_splits)
  show ?thesis
    using accrual_view[OF a] persist_view[OF p] book_of_Some[OF k] w' st
    by (intro that[of "status k" "snd (line_view k)"]) (auto simp: line_view_def)
qed

lemma reinstate_view:
  assumes "lifecycle_reinstate_credit_line b t w = Inr w'"
  obtains p where "book_of w b = Some (Defaulted, p)" "t = Active \<or> t = Restricted"
    "book_of w' = (book_of w)(b \<mapsto> (t, p))" "side w' = side w"
proof -
  from assms obtain k l w1 w2 where k: "st_lines w b = Some k" and a: "apply_accrual k w = Inr (l, w1)"
    and st: "status l = Defaulted" and t: "t = Active \<or> t = Restricted"
    and p: "persist_credit_line b (l\<lparr>status := t, suspension_ts := 0\<rparr>) (utilized_amount k) (Some (status l))
              (decrement_pending_auction_count w1) = Inr w2"
    and w': "book_of w' = book_of w2" "side w' = side w2"
    by (auto simp: lifecycle_reinstate_credit_line_def Let_def require_valid_transition_def split: if_splits)
  show ?thesis
    using accrual_view[OF a] persist_view[OF p] book_of_Some[OF k] w' st t
    by (intro that[of "snd (line_view k)"]) (auto simp: line_view_def)
qed

lemma forgive_view:
  assumes "lifecycle_forgive_debt b amount w = Inr w'"
  obtains p q st where "book_of w b = Some (st, p)" "st \<noteq> Closed" "q \<le> p"
    "book_of w' = (book_of w)(b \<mapsto> (st, q))" "side w' = side w"
proof -
  from assms obtain k l w1 w2 where k: "st_lines w b = Some k" and a: "apply_accrual k w = Inr (l, w1)"
    and st: "status l \<noteq> Closed"
    and p: "persist_credit_line b (l\<lparr>accrued_interest := accrued_interest l - min (min amount (utilized_amount l)) (accrued_interest l),
              utilized_amount := utilized_amount l - min amount (utilized_amount l)\<rparr>) (utilized_amount k) (Some (status k)) w1 = Inr w2"
    and w': "book_of w' = book_of w2" "side w' = side w2"
    by (auto simp: lifecycle_forgive_debt_def Let_def checked_arith)
  show ?thesis
    using accrual_view[OF a] persist_view[OF p] book_of_Some[OF k] w' st
    by (intro that[of "status k" "snd (line_view k)"
          "utilized_amount l - min amount (utilized_amount l) - (accrued_interest l - min (min amount (utilized_amount l)) (accrued_interest l))"])
      (auto simp: line_view_def)
qed

lemma settle_view:
  assumes "settle_default_liquidation auc b r sid cf op w = Inr w'"
  obtains p q st a where "book_of w b = Some (Defaulted, p)" "q \<le> p" "st = Defaulted \<or> st = Closed"
    "ledger_ok True w \<Longrightarrow> st = Closed \<Longrightarrow> q = 0"
    "book_of w' = (book_of w)(b \<mapsto> (st, q))" "st_admin w = Some a" "a \<in> set (signers w)"
    "side w' = (st_admin w, (st_liq_seen w)((b, sid) \<mapsto> True), st_collateral_balance w)"
proof -
  from assms obtain ad u1 u2 u3 u4 where u: "require_admin_auth w = Inr (ad, u1)"
    and g: "enter_reentrancy_guard u1 = Inr u2" and h: "auction_settlement_hook auc b r sid u2 = Inr u3"
    and l: "lifecycle_settle_default_liquidation b r sid cf op u3 = Inr u4" and w': "w' = clear_reentrancy_guard u4"
    by (auto simp: settle_default_liquidation_def)
  have u3: "book_of u3 = book_of w" "side u3 = side w" "st_lines u3 = st_lines w"
    using admin_auth_view[OF u] require_admin_auth_Inr[OF u] guard_shape[OF g] auction_hook_shape[OF h] by (auto simp: book_of_def side_def fun_eq_iff)
  from l obtain k a w1 w2 orc where k: "st_lines u3 b = Some k" and a: "apply_accrual k u3 = Inr (a, w1)"
    and st: "status a = Defaulted"
    and p: "persist_credit_line b (settlement_status (snd (allocate_recovery a r))) (utilized_amount k) (Some (status a))
       (if status (settlement_status (snd (allocate_recovery a r))) = Closed
        then decrement_pending_auction_count w1 else w1) = Inr w2"
    and u4: "u4 = record_settlement b sid r (fst (allocate_recovery a r)) cf orc
            (settlement_status (snd (allocate_recovery a r))) w2"
    by (auto simp: lifecycle_settle_default_liquidation_def Let_def checked_arith)
  let ?l = "settlement_status (snd (allocate_recovery a r))"
  have rec: "book_of u4 = book_of w2" "side u4 = (st_admin w2, (st_liq_seen w2)((b, sid) \<mapsto> True), st_collateral_balance w2)"
    unfolding u4 record_settlement_def Let_def record_accepted_oracle_price_def set_oracle_last_price_def
    by (simp_all add: book_of_def side_def emit_def publish_line_def clear_repayment_schedule_def fun_eq_iff split: option.split)
  have v: "book_of w2 = (book_of w)(b \<mapsto> line_view ?l)" "side w2 = side w" "book_of w b = Some (line_view a)"
    using accrual_view[OF a] persist_view[OF p] book_of_Some[OF k] u3 by simp_all
  have "snd (line_view ?l) \<le> snd (line_view a)" "fst (line_view ?l) = Defaulted \<or> fst (line_view ?l) = Closed"
    using st by (auto simp: line_view_def settlement_status_def allocate_recovery_def Let_def)
  moreover have "snd (line_view ?l) = 0" if "ledger_ok True w" "fst (line_view ?l) = Closed"
  proof -
    have "line_ok True b k" using that(1) k u3(3) by (auto intro: ledger_line)
    then have "line_ok True b a" by (rule acc.accrue_line_ok[OF a])
    then show ?thesis using that(2) st
      by (auto simp: line_ok_def line_view_def settlement_status_def allocate_recovery_def Let_def split: if_splits)
  qed
  moreover have "book_of w' = book_of u4" "side w' = side u4" unfolding w' by simp_all
  ultimately show ?thesis
    using v rec st admin_auth_view[OF u]
    by (intro that[of "snd (line_view a)" "snd (line_view ?l)" "fst (line_view ?l)" ad])
      (auto simp: line_view_def side_def)
qed

lemma open_view:
  assumes "lifecycle_open_credit_line b x r s w = Inr w'"
  obtains p where "book_of w' = (book_of w)(b \<mapsto> (Active, p))" "side w' = side w"
    "case book_of w b of None \<Rightarrow> p = 0 | Some (st, q) \<Rightarrow> st \<noteq> Active \<and> p = (if st = Closed then 0 else q)"
proof (cases "st_lines w b")
  case None
  then obtain w2 l where p: "persist_credit_line b l 0 None w = Inr w2" and l: "line_view l = (Active, 0)"
    and w': "book_of w' = book_of w2" "side w' = side w2"
    using assms by (auto simp: lifecycle_open_credit_line_def Let_def get_credit_line_def line_view_def)
  show ?thesis using persist_view[OF p] l w' None by (intro that[of 0]) (auto simp: book_of_def)
next
  case (Some k)
  obtain w2 l where p: "persist_credit_line b l (utilized_amount k) (Some (status k))
        (if status k = Defaulted then decrement_pending_auction_count w else w) = Inr w2"
    and l: "line_view l = (Active, if status k = Closed then 0 else snd (line_view k))" and st: "status k \<noteq> Active"
    and w': "book_of w' = book_of w2" "side w' = side w2"
    using assms Some by (auto simp: lifecycle_open_credit_line_def Let_def get_credit_line_def line_view_def split: if_splits)
  show ?thesis using persist_view[OF p] l w' Some st
    by (intro that[of "if status k = Closed then 0 else snd (line_view k)"]) (auto simp: book_of_def line_view_def)
qed

lemma risk_view:
  fixes w w' :: "'t env"
  assumes "risk_update_risk_parameters b x r s w = Inr w'"
  obtains p st st' where "book_of w b = Some (st, p)" "book_of w' = (book_of w)(b \<mapsto> (st', p))" "side w' = side w"
    "st' = st \<or> st = Active \<and> st' = Restricted \<or> st = Restricted \<and> st' = Active"
  using assms
proof (rule risk_update_Inr)
  fix k l :: credit_line_data and w1 w2 :: "'t env" and ts
  let ?l = "l\<lparr>last_rate_update_ts := ts, interest_rate_bps := priced_rate b r s w1,
           risk_score := s, status := status_for_limit x l, credit_limit := x\<rparr>"
  assume k: "st_lines w b = Some k" and a: "apply_accrual k w = Inr (l, w1)"
    and p: "persist_credit_line b ?l (utilized_amount k) (Some (status k)) w1 = Inr w2"
    and w': "w' = set_last_risk_admin_action_ts_for b (ledger_ts w2) (emit ([''credit'', ''risk_upd''], RiskParametersUpdatedEvent b x (priced_rate b r s w1) s) w2)"
  have "line_view ?l = (status_for_limit x l, snd (line_view l))" by (simp add: line_view_def)
  moreover have "book_of w' = book_of w2" "side w' = side w2"
    unfolding w' by (simp_all add: set_last_risk_admin_action_ts_for_def book_of_def side_def emit_def fun_eq_iff)
  ultimately show ?thesis
    using accrual_view[OF a] persist_view[OF p] book_of_Some[OF k]
    by (intro that[of "status k" "snd (line_view k)" "status_for_limit x l"])
      (auto simp: line_view_def status_for_limit_def)
qed

lemma accrue_stored_view:
  assumes "accrue_stored_line b k w = Inr w'" and "st_lines w b = Some k"
  shows "book_of w' = book_of w \<and> side w' = side w"
proof -
  from assms(1) obtain l w1 where a: "apply_accrual k w = Inr (l, w1)"
    and p: "persist_credit_line b l (utilized_amount k) (Some (status k)) w1 = Inr w' \<or> w' = w1"
    by (auto simp: accrue_stored_line_def split: if_splits)
  show ?thesis using accrual_view[OF a] book_of_Some[OF assms(2)] p persist_view[of b l _ _ w1 w'] by (auto simp: fun_upd_idem)
qed

lemma accrue_loop_view:
  "accrue_all_except b w = Inr w' \<Longrightarrow> book_of w' = book_of w \<and> side w' = side w"
  "accrue_batch bs w = Inr w' \<Longrightarrow> book_of w' = book_of w \<and> side w' = side w"
  unfolding accrue_all_except_def accrue_batch_def
  by (erule for_each_inv[where P = "\<lambda>v. book_of v = book_of w \<and> side v = side w"];
      auto simp: get_credit_line_def split: option.splits if_splits dest!: accrue_stored_view)+

lemma draw_view:
  fixes w w' :: "'t env"
  assumes "draw_credit tok b x w = Inr w'"
  obtains p st where "book_of w b = Some (st, p)" "st = Active \<or> st = Restricted" "0 < x"
    "book_of w' = (book_of w)(b \<mapsto> (st, p + x))" "side w' = side w" "b \<in> set (signers w)"
  using assms
proof (rule draw_credit_Inr)
  fix k l :: credit_line_data and w0 w1 w2 w3 w4 :: "'t env"
  let ?l = "l\<lparr>utilized_amount := utilized_amount l + x\<rparr>"
  assume b: "b \<in> set (signers w)" and w0: "w0 = w\<lparr>st_reentrancy := Some True, frame_auth := b # frame_auth w\<rparr>"
    and pf: "draw_preflight b x w0 = Inr ()" and k: "st_lines w b = Some k" and a: "apply_accrual k w0 = Inr (l, w1)"
    and st: "status l = Active \<or> status l = Restricted"
    and gc: "draw_global_cap b x (utilized_amount k) l w1 = Inr w2" and py: "draw_payout tok b x w2 = Inr w3"
    and p: "persist_credit_line b ?l (utilized_amount k) (Some (status k)) w3 = Inr w4"
    and w': "w' = clear_reentrancy_guard (record_draw b x ?l w4)"
  have x: "0 < x" using pf by (auto simp: draw_preflight_def split: if_splits)
  have 0: "book_of w0 = book_of w" "side w0 = side w" by (simp_all add: w0 book_of_def side_def fun_eq_iff)
  have 2: "book_of w2 = book_of w1" "side w2 = side w1"
    using gc accrue_loop_view(1)[of b w1] by (auto simp: draw_global_cap_def split: option.splits)
  have 3: "book_of w3 = book_of w2" "side w3 = side w2"
    using draw_payout_shape[OF py] by (auto simp: book_of_def side_def fun_eq_iff)
  have 5: "book_of w' = book_of w4" "side w' = side w4"
    unfolding w' record_draw_def Let_def by (simp_all add: book_of_def side_def emit_def set_last_draw_ts_def
        publish_borrow_lifecycle_event_def clear_reentrancy_guard_def fun_eq_iff)
  show ?thesis
    using b st x 0 2 3 5 accrual_view[OF a] persist_view[OF p] book_of_Some[OF k]
    by (intro that[of "status k" "snd (line_view k)"]) (auto simp: line_view_def)
qed

lemma repay_view:
  fixes w w' :: "'t env"
  assumes "repay_credit tok b x w = Inr w'" and "ledger_ok True w"
  obtains p q st where "book_of w b = Some (st, p)" "st \<noteq> Closed" "q \<le> p"
    "book_of w' = (book_of w)(b \<mapsto> (st, q))" "side w' = side w" "b \<in> set (signers w)"
  using assms(1)
proof (rule repay_credit_Inr)
  fix k l :: credit_line_data and w0 w1 w2 w3 w4 w5 :: "'t env" and e i p t f
  let ?l = "repaid_line e i (normalize_interest l)"
  assume b: "b \<in> set (signers w)" and w0: "w0 = w\<lparr>st_reentrancy := Some True, frame_auth := b # frame_auth w\<rparr>"
    and x: "0 < x" and k: "st_lines w b = Some k" and a: "apply_accrual k w0 = Inr (l, w1)" and st: "status k \<noteq> Closed"
    and al: "allocate_repayment (max (utilized_amount l) 0) (accrued_interest (normalize_interest l)) x = (e, i, p)"
    and tr: "repay_transfers tok t b e i w1 = Inr w2"
    and ps: "persist_credit_line b ?l (utilized_amount k) (Some (status k)) w2 = Inr w3"
    and ad: "advance_repayment_schedule_after_repay b e i w3 = Inr (f, w4)" and lf: "collect_late_fee tok b f w4 = Inr w5"
    and w': "w' = clear_reentrancy_guard (publish_borrow_lifecycle_event Repaid b ?l (emit ([''credit'', ''repay''], RepaymentEvent b e (utilized_amount ?l)) w5))"
  have w0b: "book_of w0 = book_of w" "side w0 = side w" by (simp_all add: w0 book_of_def side_def fun_eq_iff)
  have "line_ok True b l" by (rule acc.accrue_line_ok[OF a ledger_line[OF assms(2) k]])
  then have l: "0 \<le> accrued_interest l" "accrued_interest l \<le> utilized_amount l" "utilized_amount l \<le> i128_max"
    and n: "normalize_interest l = l"
    by (auto simp: line_ok_def normalize_interest_def)
  have e: "e = min x (utilized_amount l)" "i = min e (accrued_interest l)"
    using allocate_repayment_value[OF al x] l n by simp_all
  have r: "0 \<le> accrued_interest l - i" "accrued_interest l - i \<le> i128_max" "0 \<le> utilized_amount l - e"
    "utilized_amount l - e \<le> i128_max" "i \<le> e" "(0::int) \<le> i128_max" "i128_min \<le> 0"
    using l e x by (auto simp: i128_max_def i128_min_def)
  have v: "line_view ?l = (status l, utilized_amount l - e - (accrued_interest l - i))"
    using r by (simp add: n line_view_def repaid_line_def checked_arith checked_def in_i128_def
        saturating_sub_i128_def clamp_int_def)
  have m: "book_of w2 = book_of w1" "side w2 = side w1" "book_of w4 = book_of w3" "side w4 = side w3"
    "book_of w5 = book_of w4" "side w5 = side w4"
    using same_books_view[OF moves_money_books[OF repay_transfers_moves[OF tr]]] same_books_view[OF advance_schedule_books[OF ad]]
      same_books_view[OF moves_money_books[OF collect_late_fee_moves[OF lf]]] by simp_all
  have "book_of w' = book_of w5" "side w' = side w5" unfolding w' by simp_all
  then show ?thesis
    using w0b m v r(5) st b accrual_view[OF a] persist_view[OF ps] book_of_Some[OF k]
    by (intro that[of "status k" "snd (line_view k)" "utilized_amount l - e - (accrued_interest l - i)"])
      (auto simp: line_view_def)
qed

lemma reverse_view:
  assumes "reverse_draw b x ts rc w = Inr w'"
  obtains p st a where "book_of w b = Some (st, p)" "0 < x" "book_of w' = (book_of w)(b \<mapsto> (st, p - x))" "side w' = side w"
    "st_admin w = Some a" "a \<in> set (signers w)"
proof -
  from assms obtain ad w0 k l w1 w2 where u: "require_admin_auth w = Inr (ad, w0)" and x: "0 < x"
    and k: "st_lines w0 b = Some k" and a: "apply_accrual k w0 = Inr (l, w1)"
    and p: "persist_credit_line b (l\<lparr>utilized_amount := utilized_amount l - x\<rparr>) (utilized_amount k)
              (Some (status k)) w1 = Inr w2"
    and w': "book_of w' = book_of w2" "side w' = side w2"
    by (auto simp: reverse_draw_def Let_def checked_arith set_draw_reversed_amount_def book_of_def side_def emit_def fun_eq_iff)
  show ?thesis
    using x w' admin_auth_view[OF u] accrual_view[OF a] persist_view[OF p] book_of_Some[OF k]
    by (intro that[of "status k" "snd (line_view k)" ad]) (auto simp: line_view_def)
qed

section \<open>The ledger is an invariant\<close>

definition reverses :: "call \<Rightarrow> bool" where
  "reverses c \<longleftrightarrow> (\<exists>b x t r. c = BorrowCall (ReverseDraw b x t r))"

lemma books_kept: "same_books w w' \<Longrightarrow> ledger_gap s d w \<Longrightarrow> ledger_gap s d w'"
  by (simp add: same_books_ledger)

lemma exec_collateral_ledger: "exec_collateral tok c w = Inr w' \<Longrightarrow> ledger_ok s w \<Longrightarrow> ledger_ok s w'"
  by (cases c) (auto intro: deposit_collateral_ledger withdraw_collateral_ledger partial_release_collateral_ledger
      books_kept[OF collateral_setting_books(1)] books_kept[OF collateral_setting_books(2)]
      books_kept[OF collateral_setting_books(3)] books_kept[OF collateral_setting_books(4)]
      simp: deposit_collateral_token_stuck withdraw_collateral_token_stuck ledger_gap_def[of s 0 w])

lemma exec_lifecycle_ledger:
  assumes "exec_lifecycle auc c w = Inr w'" and "ledger_ok s w" and "has_room (LifecycleCall c) w"
  shows "ledger_ok s w'"
  using assms
  by (cases c) (auto intro: open_credit_line_ledger suspend_credit_line_ledger self_suspend_credit_line_ledger
      unsuspend_credit_line_ledger self_unsuspend_ledger close_credit_line_ledger default_credit_line_ledger
      forgive_debt_ledger settle_default_liquidation_ledger reinstate_credit_line_ledger
      books_kept[OF lifecycle_setting_books(1)] books_kept[OF lifecycle_setting_books(2)]
      books_kept[OF lifecycle_setting_books(3)] books_kept[OF lifecycle_setting_books(4)])

lemma exec_risk_ledger: "exec_risk c w = Inr w' \<Longrightarrow> ledger_ok s w \<Longrightarrow> ledger_ok s w'"
proof (cases "\<exists>b x r t. c = UpdateRiskParameters b x r t")
  case False
  then show "exec_risk c w = Inr w' \<Longrightarrow> ledger_ok s w \<Longrightarrow> ledger_ok s w'" by (auto intro: books_kept exec_risk_books)
qed (auto intro: update_risk_parameters_ledger)

lemma exec_borrow_ledger:
  assumes "exec_borrow tok c w = Inr w'" and "ledger_ok s w" and "s \<longrightarrow> \<not> reverses (BorrowCall c)"
  shows "ledger_ok s w'"
  using assms
  by (cases c; cases s) (auto simp: reverses_def intro: draw_credit_ledger repay_credit_ledger accrue_batch_entry_ledger reverse_draw_ledger)

lemma init_ledger:
  assumes "init a w = Inr w'" and "ledger_ok s w" and "st_admin w = None \<longrightarrow> st_lines w = Map.empty"
  shows "ledger_ok s w'"
proof -
  have e: "st_lines w = Map.empty"
    and w': "w' = w\<lparr>st_admin := Some a, st_liquidity_source := Some (self_addr w), st_credit_line_count := Some 0,
        st_total_utilized := Some 0, st_schema_version := Some SCHEMA_VERSION, st_min_collateral_ratio_bps := Some 15000\<rparr>"
    using assms(1,3) by (auto simp: init_def)
  have "index_ok (st_lines w) (st_credit_line_id w) (st_borrower_by_id w) (get_credit_line_count w)"
    using assms(2) by (simp add: ledger_gap_def books_gap_def)
  then have n: "get_credit_line_count w = 0" using index_ok_card e by fastforce
  show ?thesis using assms(2) e n unfolding w'
    by (auto simp: ledger_gap_def lines_ok_def books_gap_def get_credit_line_count_def get_total_utilized_def
        get_active_line_count_def get_pending_auction_count_def get_total_collateral_def)
qed

lemma exec_admin_ledger:
  assumes "exec_admin c w = Inr w'" and "ledger_ok s w" and "st_admin w = None \<longrightarrow> st_lines w = Map.empty"
  shows "ledger_ok s w'"
proof (cases "moves_admin c")
  case False
  then show ?thesis using assms by (auto intro: books_kept exec_admin_books)
next
  case True
  then consider (init) a where "init a w = Inr w'" | (accept) "accept_admin w = Inr w'"
    using assms(1) by (auto simp: moves_admin_def)
  then show ?thesis
    by cases (use init_ledger[OF _ assms(2,3)] accept_admin_ledger[of w w' s 0] assms(2) in blast)+
qed

lemma exec_ledger:
  assumes "exec tok auc c w = Inr w'" and "ledger_ok s w" and "has_room c w" and "s \<longrightarrow> \<not> reverses c"
    and "st_admin w = None \<longrightarrow> st_lines w = Map.empty"
  shows "ledger_ok s w'"
  using assms
  by (cases c) (auto intro: exec_collateral_ledger exec_lifecycle_ledger exec_risk_ledger exec_borrow_ledger exec_admin_ledger
      books_kept[OF exec_oracle_books] books_kept[OF exec_freeze_books] books_kept[OF exec_treasury_books])

section \<open>The admin and the settlement markers\<close>

definition kept :: "'t env \<Rightarrow> address option \<times> (address \<times> symbol \<rightharpoonup> bool) \<times> (address \<rightharpoonup> credit_line_data)" where
  "kept w = (st_admin w, st_liq_seen w, st_lines w)"

lemma set_balance_kept:
  "set_collateral_balance b v w = Inr w' \<Longrightarrow> kept w' = kept w"
  "set_collateral_balance_for_token b t v w = Inr w' \<Longrightarrow> kept w' = kept w"
  unfolding set_collateral_balance_for_token_def
  by (drule set_collateral_balance_shape(1), erule ssubst, simp add: kept_def)
    (drule adjust_total_collateral_Inr(1), erule ssubst, simp add: kept_def)

lemma small_kept [simp]: "kept (emit e w) = kept w" "kept (publish_collateral_lifecycle_event b k t x n w) = kept w"
  by (simp_all add: kept_def publish_collateral_lifecycle_event_def emit_def)

lemma transfer_kept: "token_transfer tok t a b x w = Inr w' \<Longrightarrow> kept w' = kept w"
  by (auto dest!: token_transfer_Inr simp: kept_def)

lemma auth_kept: "require_auth a w = Inr w' \<Longrightarrow> kept w' = kept w"
  by (auto dest!: require_auth_Inr simp: kept_def)

lemma pay_out_kept: "pay_out_collateral tok b x v w = Inr w' \<Longrightarrow> kept w' = kept w"
  by (auto simp: pay_out_collateral_def dest!: transfer_kept set_balance_kept)

lemma exec_collateral_kept: "exec_collateral tok c w = Inr w' \<Longrightarrow> kept w' = kept w"
proof (cases c)
  fix b x assume "c = DepositCollateral b x" and "exec_collateral tok c w = Inr w'"
  then show ?thesis by (auto simp: deposit_collateral_def Let_def dest!: auth_kept transfer_kept set_balance_kept)
next
  fix b x assume "c = WithdrawCollateral b x" and "exec_collateral tok c w = Inr w'"
  then show ?thesis by (auto simp: withdraw_collateral_def Let_def dest!: auth_kept pay_out_kept)
next
  fix b x assume "c = PartialReleaseCollateral b x" and "exec_collateral tok c w = Inr w'"
  then show ?thesis by (auto simp: partial_release_collateral_def Let_def dest!: auth_kept pay_out_kept)
next
  fix b t x assume "c = DepositCollateralToken b t x" and "exec_collateral tok c w = Inr w'"
  then show ?thesis by (auto simp: deposit_collateral_token_def Let_def dest!: auth_kept transfer_kept set_balance_kept)
next
  fix b t x assume "c = WithdrawCollateralToken b t x" and "exec_collateral tok c w = Inr w'"
  then show ?thesis by (auto simp: withdraw_collateral_token_def Let_def dest!: auth_kept transfer_kept set_balance_kept)
qed (use collateral_setting_books in \<open>fastforce simp: same_books_def kept_def\<close>)+

definition settles :: "call \<Rightarrow> address \<times> symbol \<Rightarrow> bool" where
  "settles c k \<longleftrightarrow> (\<exists>x cf p. c = LifecycleCall (SettleDefaultLiquidation (fst k) x (snd k) cf p))"

definition transfers_admin :: "call \<Rightarrow> bool" where
  "transfers_admin c \<longleftrightarrow> (\<exists>k. c = AdminCall k \<and> moves_admin k)"

lemma suspend_credit_line_view:
  assumes "suspend_credit_line b w = Inr w'"
  obtains p a where "book_of w b = Some (Active, p)" "book_of w' = (book_of w)(b \<mapsto> (Suspended, p))" "side w' = side w"
    "st_admin w = Some a" "a \<in> set (signers w)"
proof -
  from assms obtain a w1 w2 where u: "require_admin_auth w = Inr (a, w1)" "enforce_accrual_admin_cooldown b w1 = Inr w2"
    and d: "suspend_credit_line_internal b Suspended w2 = Inr w'"
    by (auto simp: suspend_credit_line_def)
  show ?thesis using d
    by (rule suspend_internal_view) (use that admin_auth_view[OF u(1)] cooldown_view(1)[OF u(2)] in metis)
qed

lemma self_suspend_credit_line_view:
  assumes "self_suspend_credit_line b w = Inr w'"
  obtains p where "book_of w b = Some (Active, p)" "book_of w' = (book_of w)(b \<mapsto> (SelfSuspended, p))" "side w' = side w"
    "b \<in> set (signers w)"
proof -
  from assms obtain w1 where u: "require_auth b w = Inr w1" and d: "suspend_credit_line_internal b SelfSuspended w1 = Inr w'"
    by (auto simp: self_suspend_credit_line_def)
  show ?thesis using d by (rule suspend_internal_view) (use that require_auth_view[OF u] in metis)
qed

lemma open_credit_line_view:
  assumes "open_credit_line b x r s w = Inr w'"
  obtains p a where "book_of w' = (book_of w)(b \<mapsto> (Active, p))" "side w' = side w"
    "case book_of w b of None \<Rightarrow> p = 0 | Some (st, q) \<Rightarrow> st \<noteq> Active \<and> p = (if st = Closed then 0 else q)"
    "st_admin w = Some a" "a \<in> set (signers w)"
proof -
  from assms obtain a w1 w2 where u: "require_admin_auth w = Inr (a, w1)" "enforce_borrow_admin_cooldown b w1 = Inr w2"
    and d: "lifecycle_open_credit_line b x r s w2 = Inr w'"
    by (auto simp: open_credit_line_def)
  have e: "book_of w2 = book_of w" "side w2 = side w" using admin_auth_view[OF u(1)] cooldown_view(2)[OF u(2)] by simp_all
  show ?thesis using d
    by (rule open_view) (rule that[of _ a], use e admin_auth_view[OF u(1)] in auto)
qed

lemmas admin_wrapped = unsuspend_credit_line_def default_credit_line_def forgive_debt_def reinstate_credit_line_def
  update_risk_parameters_def

lemma unsuspend_credit_line_view:
  assumes "unsuspend_credit_line b w = Inr w'"
  obtains p st a where "book_of w b = Some (st, p)" "st = Suspended \<or> st = SelfSuspended"
    "book_of w' = (book_of w)(b \<mapsto> (Active, p))" "side w' = side w" "st_admin w = Some a" "a \<in> set (signers w)"
  using assms unfolding admin_wrapped by (rule admin_accrual_wrap) (erule unsuspend_view, metis that)

lemma default_credit_line_view:
  assumes "default_credit_line b w = Inr w'"
  obtains p st a where "book_of w b = Some (st, p)" "st \<in> {Active, Suspended, SelfSuspended, Restricted}"
    "book_of w' = (book_of w)(b \<mapsto> (Defaulted, p))" "side w' = side w" "st_admin w = Some a" "a \<in> set (signers w)"
  using assms unfolding admin_wrapped by (rule admin_accrual_wrap) (erule default_view, metis that)

lemma forgive_debt_view:
  assumes "forgive_debt b x w = Inr w'"
  obtains p q st a where "book_of w b = Some (st, p)" "st \<noteq> Closed" "q \<le> p"
    "book_of w' = (book_of w)(b \<mapsto> (st, q))" "side w' = side w" "st_admin w = Some a" "a \<in> set (signers w)"
  using assms unfolding admin_wrapped by (rule admin_accrual_wrap) (erule forgive_view, metis that)

lemma reinstate_credit_line_view:
  assumes "reinstate_credit_line b t w = Inr w'"
  obtains p a where "book_of w b = Some (Defaulted, p)" "t = Active \<or> t = Restricted"
    "book_of w' = (book_of w)(b \<mapsto> (t, p))" "side w' = side w" "st_admin w = Some a" "a \<in> set (signers w)"
  using assms unfolding admin_wrapped by (rule admin_accrual_wrap) (erule reinstate_view, metis that)

lemma update_risk_parameters_view:
  assumes "update_risk_parameters b x r s w = Inr w'"
  obtains p st st' a where "book_of w b = Some (st, p)" "book_of w' = (book_of w)(b \<mapsto> (st', p))" "side w' = side w"
    "st' = st \<or> st = Active \<and> st' = Restricted \<or> st = Restricted \<and> st' = Active" "st_admin w = Some a" "a \<in> set (signers w)"
  using assms unfolding admin_wrapped by (rule admin_accrual_wrap) (erule risk_view, metis that)

section \<open>The abstract machine\<close>

text \<open>
  The edges of the documented state machine, with their actors and their effect on the principal: \<open>opened\<close> is E1,
  \<open>suspended\<close> E2, \<open>self_suspended\<close> E3, \<open>repriced\<close> E4 and E7, \<open>defaulted\<close> E5, E8, E11 and E15, \<open>closed\<close> E6, E9, E12, E16
  and E20 and, at zero debt, the borrower's own close, \<open>unsuspended\<close> E10 and E14, \<open>self_unsuspended\<close> E13, \<open>reinstated\<close> E17 and
  E18, \<open>settled\<close> E19.  E21, the re-opening, is two rules: a closed line starts afresh as documented, while a line in any
  other status becomes active with the principal it had, where the document says zero.  A call that is not about a line, and
  the accrual of interest, leave the book alone.
\<close>

definition by_admin :: "address option \<Rightarrow> address list \<Rightarrow> bool" where
  "by_admin adm sg \<longleftrightarrow> (\<exists>a. adm = Some a \<and> a \<in> set sg)"

primrec quiet :: "call \<Rightarrow> bool" where
  "quiet (CollateralCall c) = True"
| "quiet (OracleCall c) = True"
| "quiet (LifecycleCall c) = (case c of SetCreditLimitBounds _ _ \<Rightarrow> True | SetBorrowerLiqGrace _ _ \<Rightarrow> True
     | SetLateFeeFlat _ \<Rightarrow> True | SetRepaymentSchedule _ _ _ _ \<Rightarrow> True | _ \<Rightarrow> False)"
| "quiet (FreezeCall c) = True"
| "quiet (RiskCall c) = (case c of UpdateRiskParameters _ _ _ _ \<Rightarrow> False | _ \<Rightarrow> True)"
| "quiet (BorrowCall c) = (case c of AccrueBatch _ \<Rightarrow> True | _ \<Rightarrow> False)"
| "quiet (AdminCall c) = True"
| "quiet (TreasuryCall c) = True"

inductive book_step :: "address option \<Rightarrow> address list \<Rightarrow> call \<Rightarrow> book \<Rightarrow> book \<Rightarrow> bool"
  for adm :: "address option" and sg :: "address list" where
  stutter: "quiet c \<Longrightarrow> book_step adm sg c m m"
| opened: "by_admin adm sg \<Longrightarrow> m b = None \<Longrightarrow>
    book_step adm sg (LifecycleCall (OpenCreditLine b x u v)) m (m(b \<mapsto> (Active, 0)))"
| reopened: "by_admin adm sg \<Longrightarrow> m b = Some (Closed, p) \<Longrightarrow>
    book_step adm sg (LifecycleCall (OpenCreditLine b x u v)) m (m(b \<mapsto> (Active, 0)))"
| reopened_with_debt: "by_admin adm sg \<Longrightarrow> m b = Some (st, p) \<Longrightarrow> st \<in> {Suspended, SelfSuspended, Defaulted, Restricted} \<Longrightarrow>
    book_step adm sg (LifecycleCall (OpenCreditLine b x u v)) m (m(b \<mapsto> (Active, p)))"
| suspended: "by_admin adm sg \<Longrightarrow> m b = Some (Active, p) \<Longrightarrow>
    book_step adm sg (LifecycleCall (SuspendCreditLine b)) m (m(b \<mapsto> (Suspended, p)))"
| self_suspended: "b \<in> set sg \<Longrightarrow> m b = Some (Active, p) \<Longrightarrow>
    book_step adm sg (LifecycleCall (SelfSuspendCreditLine b)) m (m(b \<mapsto> (SelfSuspended, p)))"
| unsuspended: "by_admin adm sg \<Longrightarrow> m b = Some (st, p) \<Longrightarrow> st = Suspended \<or> st = SelfSuspended \<Longrightarrow>
    book_step adm sg (LifecycleCall (UnsuspendCreditLine b)) m (m(b \<mapsto> (Active, p)))"
| self_unsuspended: "b \<in> set sg \<Longrightarrow> m b = Some (SelfSuspended, p) \<Longrightarrow>
    book_step adm sg (LifecycleCall (SelfUnsuspendCreditLine b)) m (m(b \<mapsto> (Active, p)))"
| closed: "c \<in> set sg \<Longrightarrow> adm = Some c \<or> c = b \<and> p = 0 \<Longrightarrow> m b = Some (st, p) \<Longrightarrow> st \<noteq> Closed \<Longrightarrow>
    book_step adm sg (LifecycleCall (CloseCreditLine b c)) m (m(b \<mapsto> (Closed, p)))"
| defaulted: "by_admin adm sg \<Longrightarrow> m b = Some (st, p) \<Longrightarrow> st \<in> {Active, Suspended, SelfSuspended, Restricted} \<Longrightarrow>
    book_step adm sg (LifecycleCall (DefaultCreditLine b)) m (m(b \<mapsto> (Defaulted, p)))"
| forgiven: "by_admin adm sg \<Longrightarrow> m b = Some (st, p) \<Longrightarrow> st \<noteq> Closed \<Longrightarrow> q \<le> p \<Longrightarrow>
    book_step adm sg (LifecycleCall (ForgiveDebt b x)) m (m(b \<mapsto> (st, q)))"
| settled: "by_admin adm sg \<Longrightarrow> m b = Some (Defaulted, p) \<Longrightarrow> st = Defaulted \<or> st = Closed \<and> q = 0 \<Longrightarrow> q \<le> p \<Longrightarrow>
    book_step adm sg (LifecycleCall (SettleDefaultLiquidation b x sid cf pr)) m (m(b \<mapsto> (st, q)))"
| reinstated: "by_admin adm sg \<Longrightarrow> m b = Some (Defaulted, p) \<Longrightarrow> st = Active \<or> st = Restricted \<Longrightarrow>
    book_step adm sg (LifecycleCall (ReinstateCreditLine b st)) m (m(b \<mapsto> (st, p)))"
| repriced: "by_admin adm sg \<Longrightarrow> m b = Some (st, p) \<Longrightarrow>
    st' = st \<or> st = Active \<and> st' = Restricted \<or> st = Restricted \<and> st' = Active \<Longrightarrow>
    book_step adm sg (RiskCall (UpdateRiskParameters b x r s)) m (m(b \<mapsto> (st', p)))"
| drawn: "b \<in> set sg \<Longrightarrow> m b = Some (st, p) \<Longrightarrow> st = Active \<or> st = Restricted \<Longrightarrow> 0 < x \<Longrightarrow>
    book_step adm sg (BorrowCall (DrawCredit b x)) m (m(b \<mapsto> (st, p + x)))"
| repaid: "b \<in> set sg \<Longrightarrow> m b = Some (st, p) \<Longrightarrow> st \<noteq> Closed \<Longrightarrow> q \<le> p \<Longrightarrow>
    book_step adm sg (BorrowCall (RepayCredit b x)) m (m(b \<mapsto> (st, q)))"
| reversed: "by_admin adm sg \<Longrightarrow> m b = Some (st, p) \<Longrightarrow> 0 < x \<Longrightarrow>
    book_step adm sg (BorrowCall (ReverseDraw b x t rc)) m (m(b \<mapsto> (st, p - x)))"

inductive_cases book_step_cases: "book_step adm sg c m m'"

lemma quiet_stutter: "quiet c \<Longrightarrow> same_books w w' \<Longrightarrow> book_step adm sg c (book_of w) (book_of w')"
  using same_books_view by (metis book_step.stutter)

lemma admin_moves_view:
  assumes "exec_admin c w = Inr w'" and "moves_admin c"
  shows "book_of w' = book_of w" "st_liq_seen w' = st_liq_seen w" "st_admin w' \<noteq> None" "c \<noteq> AcceptAdmin \<Longrightarrow> st_admin w = None"
  using assms by (auto simp: moves_admin_def accept_admin_def init_def Let_def book_of_def emit_def fun_eq_iff
      dest!: require_auth_Inr)

lemma book_step_open:
  assumes "m' = m(b \<mapsto> (Active, p))" and "by_admin adm sg"
    and "case m b of None \<Rightarrow> p = 0 | Some (st, q) \<Rightarrow> st \<noteq> Active \<and> p = (if st = Closed then 0 else q)"
  shows "book_step adm sg (LifecycleCall (OpenCreditLine b x u v)) m m'"
proof (cases "m b")
  case None
  then show ?thesis using assms by (auto intro: book_step.opened)
next
  case (Some a)
  then obtain st q where st: "m b = Some (st, q)" by (cases a) auto
  then show ?thesis using assms by (cases st) (auto intro: book_step.reopened book_step.reopened_with_debt)
qed

lemma exec_lifecycle_refines:
  assumes "exec_lifecycle auc c w = Inr w'" and l: "ledger_ok True w"
  shows "book_step (st_admin w) (signers w) (LifecycleCall c) (book_of w) (book_of w')"
proof (cases c)
  case (OpenCreditLine b x u v)
  with assms(1) have "open_credit_line b x u v w = Inr w'" by simp
  then show ?thesis unfolding OpenCreditLine
    by (rule open_credit_line_view) (rule book_step_open, auto simp: by_admin_def)
next
  case (SuspendCreditLine b)
  with assms(1) have "suspend_credit_line b w = Inr w'" by simp
  then show ?thesis unfolding SuspendCreditLine
    by (rule suspend_credit_line_view) (auto simp: by_admin_def intro: book_step.suspended)
next
  case (SelfSuspendCreditLine b)
  with assms(1) have "self_suspend_credit_line b w = Inr w'" by simp
  then show ?thesis unfolding SelfSuspendCreditLine
    by (rule self_suspend_credit_line_view) (auto intro: book_step.self_suspended)
next
  case (UnsuspendCreditLine b)
  with assms(1) have "unsuspend_credit_line b w = Inr w'" by simp
  then show ?thesis unfolding UnsuspendCreditLine
    by (rule unsuspend_credit_line_view) (auto simp: by_admin_def intro: book_step.unsuspended)
next
  case (SelfUnsuspendCreditLine b)
  with assms(1) have "self_unsuspend_credit_line b w = Inr w'" by simp
  then show ?thesis unfolding SelfUnsuspendCreditLine
    by (rule self_unsuspend_view) (auto intro: book_step.self_unsuspended)
next
  case (CloseCreditLine b d)
  with assms(1) have "close_credit_line b d w = Inr w'" by simp
  then show ?thesis unfolding CloseCreditLine
    by (rule close_view) (use l in \<open>auto intro!: book_step.closed\<close>)
next
  case (CloseCreditLinesBatch bs)
  then show ?thesis using assms(1) by simp
next
  case (DefaultCreditLine b)
  with assms(1) have "default_credit_line b w = Inr w'" by simp
  then show ?thesis unfolding DefaultCreditLine
    by (rule default_credit_line_view) (auto simp: by_admin_def intro: book_step.defaulted)
next
  case (ForgiveDebt b x)
  with assms(1) have "forgive_debt b x w = Inr w'" by simp
  then show ?thesis unfolding ForgiveDebt
    by (rule forgive_debt_view) (auto simp: by_admin_def intro: book_step.forgiven)
next
  case (SettleDefaultLiquidation b x sid cf pr)
  with assms(1) have "settle_default_liquidation auc b x sid cf pr w = Inr w'" by simp
  then show ?thesis unfolding SettleDefaultLiquidation
    by (rule settle_view) (use l in \<open>auto simp: by_admin_def intro!: book_step.settled\<close>)
next
  case (ReinstateCreditLine b s)
  with assms(1) have "reinstate_credit_line b s w = Inr w'" by simp
  then show ?thesis unfolding ReinstateCreditLine
    by (rule reinstate_credit_line_view) (auto simp: by_admin_def intro: book_step.reinstated)
qed (use assms(1) in \<open>auto intro!: quiet_stutter dest: lifecycle_setting_books\<close>)

lemma exec_risk_refines:
  assumes "exec_risk c w = Inr w'"
  shows "book_step (st_admin w) (signers w) (RiskCall c) (book_of w) (book_of w')"
proof (cases "\<exists>b x r s. c = UpdateRiskParameters b x r s")
  case True
  then obtain b x r s where c: "c = UpdateRiskParameters b x r s" by blast
  with assms have "update_risk_parameters b x r s w = Inr w'" by simp
  then show ?thesis unfolding c
    by (rule update_risk_parameters_view) (auto simp: by_admin_def intro: book_step.repriced)
next
  case False
  then have "quiet (RiskCall c)" by (cases c) auto
  then show ?thesis using exec_risk_books[OF assms] False by (blast intro: quiet_stutter)
qed

lemma exec_borrow_refines:
  assumes "exec_borrow tok c w = Inr w'" and "ledger_ok True w"
  shows "book_step (st_admin w) (signers w) (BorrowCall c) (book_of w) (book_of w')"
proof (cases c)
  case (DrawCredit b x)
  with assms have "draw_credit tok b x w = Inr w'" by simp
  then show ?thesis unfolding DrawCredit by (rule draw_view) (auto intro: book_step.drawn)
next
  case (RepayCredit b x)
  with assms have "repay_credit tok b x w = Inr w'" by simp
  then show ?thesis unfolding RepayCredit using assms(2) by (rule repay_view) (auto intro: book_step.repaid)
next
  case (AccrueBatch bs)
  then have "book_of w' = book_of w" using assms(1) accrue_loop_view(2) by (auto simp: accrue_batch_entry_def)
  then show ?thesis unfolding AccrueBatch by (simp add: book_step.stutter)
next
  case (ReverseDraw b x t rc)
  with assms have "reverse_draw b x t rc w = Inr w'" by simp
  then show ?thesis unfolding ReverseDraw by (rule reverse_view) (auto simp: by_admin_def intro: book_step.reversed)
qed

lemma exec_refines:
  assumes "exec tok auc c w = Inr w'" and "ledger_ok True w"
  shows "book_step (st_admin w) (signers w) c (book_of w) (book_of w')"
proof (cases c)
  case (CollateralCall k)
  then have "book_of w' = book_of w" using assms(1) exec_collateral_kept[of tok k w w'] by (auto simp: kept_def intro: book_of_same_lines)
  then show ?thesis unfolding CollateralCall by (simp add: book_step.stutter)
next
  case (AdminCall k)
  then have "book_of w' = book_of w"
    using assms(1) admin_moves_view(1)[of k w w'] same_books_view[OF exec_admin_books[of k w w']] by auto
  then show ?thesis unfolding AdminCall by (simp add: book_step.stutter)
qed (use assms in \<open>auto intro: exec_lifecycle_refines exec_risk_refines exec_borrow_refines
    quiet_stutter[OF _ exec_oracle_books] quiet_stutter[OF _ exec_freeze_books] quiet_stutter[OF _ exec_treasury_books]\<close>)

section \<open>What the calls keep besides the book\<close>

lemma exec_lifecycle_side:
  assumes "exec_lifecycle auc c w = Inr w'" and "\<And>k. \<not> settles (LifecycleCall c) k"
  shows "side w' = side w"
proof (cases c)
  case (SettleDefaultLiquidation b x sid cf pr)
  then show ?thesis using assms(2)[of "(b, sid)"] by (simp add: settles_def)
qed (use assms(1) in \<open>auto elim!: open_credit_line_view suspend_credit_line_view self_suspend_credit_line_view
    unsuspend_credit_line_view self_unsuspend_view close_view default_credit_line_view forgive_debt_view
    reinstate_credit_line_view dest!: lifecycle_setting_books dest: same_books_view\<close>)

lemma repay_side: "repay_credit tok b x w = Inr w' \<Longrightarrow> side w' = side w"
proof (erule repay_credit_Inr)
  fix k l :: credit_line_data and w0 w1 w2 w3 w4 w5 :: "'a env" and e i p t f
  let ?l = "repaid_line e i (normalize_interest l)"
  assume w0: "w0 = w\<lparr>st_reentrancy := Some True, frame_auth := b # frame_auth w\<rparr>" and a: "apply_accrual k w0 = Inr (l, w1)"
    and tr: "repay_transfers tok t b e i w1 = Inr w2"
    and ps: "persist_credit_line b ?l (utilized_amount k) (Some (status k)) w2 = Inr w3"
    and ad: "advance_repayment_schedule_after_repay b e i w3 = Inr (f, w4)" and lf: "collect_late_fee tok b f w4 = Inr w5"
    and w': "w' = clear_reentrancy_guard (publish_borrow_lifecycle_event Repaid b ?l (emit ([''credit'', ''repay''], RepaymentEvent b e (utilized_amount ?l)) w5))"
  have "side w0 = side w" by (simp add: w0 side_def)
  then show "side w' = side w"
    using accrual_view[OF a] persist_view[OF ps] same_books_view[OF moves_money_books[OF repay_transfers_moves[OF tr]]]
      same_books_view[OF advance_schedule_books[OF ad]] same_books_view[OF moves_money_books[OF collect_late_fee_moves[OF lf]]]
    unfolding w' by simp
qed

lemma exec_borrow_side: "exec_borrow tok c w = Inr w' \<Longrightarrow> side w' = side w"
  by (cases c) (auto elim!: draw_view reverse_view simp: repay_side accrue_batch_entry_def dest: accrue_loop_view(2))

lemma exec_risk_side: "exec_risk c w = Inr w' \<Longrightarrow> side w' = side w"
proof (cases "\<exists>b x r t. c = UpdateRiskParameters b x r t")
  case False
  then show "exec_risk c w = Inr w' \<Longrightarrow> side w' = side w" using exec_risk_books same_books_view by blast
qed (auto elim: update_risk_parameters_view)

lemma exec_admin_kept:
  assumes "exec tok auc c w = Inr w'" and "\<not> transfers_admin c"
  shows "st_admin w' = st_admin w"
proof (cases "\<exists>b x sid cf p. c = LifecycleCall (SettleDefaultLiquidation b x sid cf p)")
  case True
  then obtain b x sid cf p where "settle_default_liquidation auc b x sid cf p w = Inr w'" using assms(1) by auto
  then show ?thesis by (rule settle_view) (simp add: side_def)
next
  case False
  then have ns: "\<not> settles c k" for k by (auto simp: settles_def)
  show ?thesis
  proof (cases c)
    case (AdminCall k)
    then show ?thesis using assms exec_admin_books[of k w w'] by (auto simp: transfers_admin_def same_books_def)
  next
    case (LifecycleCall k)
    then show ?thesis using assms ns exec_lifecycle_side[of auc k w w'] by (auto simp: side_def)
  qed (use assms exec_collateral_kept exec_oracle_books exec_freeze_books exec_treasury_books exec_risk_side exec_borrow_side
      in \<open>fastforce simp: kept_def same_books_def side_def\<close>)+
qed

lemma exec_markers:
  assumes "exec tok auc c w = Inr w'"
  shows "st_liq_seen w' k = (if settles c k then Some True else st_liq_seen w k)" and "settles c k \<Longrightarrow> st_liq_seen w k = None"
proof -
  have both: "st_liq_seen w' k = (if settles c k then Some True else st_liq_seen w k) \<and> (settles c k \<longrightarrow> st_liq_seen w k = None)"
  proof (cases "\<exists>b x sid cf p. c = LifecycleCall (SettleDefaultLiquidation b x sid cf p)")
    case True
    then obtain b x sid cf p where c: "c = LifecycleCall (SettleDefaultLiquidation b x sid cf p)"
      and s: "settle_default_liquidation auc b x sid cf p w = Inr w'" using assms by auto
    have "st_liq_seen w (b, sid) = None" using s by (rule settle_Inr)
    moreover have "st_liq_seen w' = (st_liq_seen w)((b, sid) \<mapsto> True)" using s by (rule settle_view) (simp add: side_def)
    ultimately show ?thesis by (cases k) (auto simp: c settles_def)
  next
    case False
    then have ns: "\<not> settles c j" for j by (auto simp: settles_def)
    have "st_liq_seen w' = st_liq_seen w"
    proof (cases c)
      case (AdminCall j)
      then show ?thesis using assms exec_admin_books[of j w w'] admin_moves_view(2)[of j w w'] by (auto simp: same_books_def)
    next
      case (LifecycleCall j)
      then show ?thesis using assms ns exec_lifecycle_side[of auc j w w'] by (auto simp: side_def)
    qed (use assms exec_collateral_kept exec_oracle_books exec_freeze_books exec_treasury_books exec_risk_side exec_borrow_side
        in \<open>fastforce simp: kept_def same_books_def side_def\<close>)+
    then show ?thesis using ns by simp
  qed
  show "st_liq_seen w' k = (if settles c k then Some True else st_liq_seen w k)" using both by blast
  show "settles c k \<Longrightarrow> st_liq_seen w k = None" using both by blast
qed

section \<open>Steps\<close>

definition contract_inv :: "bool \<Rightarrow> 't env \<Rightarrow> bool" where
  "contract_inv s w \<longleftrightarrow> ledger_ok s w \<and> (st_admin w = None \<longrightarrow> st_lines w = Map.empty)"

lemma frame_of_reads [simp]:
  "st_admin (frame_of ts sq sg tk w) = st_admin w" "st_lines (frame_of ts sq sg tk w) = st_lines w"
  "book_of (frame_of ts sq sg tk w) = book_of w" "side (frame_of ts sq sg tk w) = side w"
  "signers (frame_of ts sq sg tk w) = sg" "st_liq_seen (frame_of ts sq sg tk w) = st_liq_seen w"
  "has_room c (frame_of ts sq sg tk w) = has_room c w" "ledger_gap s d (frame_of ts sq sg tk w) = ledger_gap s d w"
  using same_books_ledger[OF frame_of_books[of w ts sq sg tk], of s d]
  by (cases c; simp add: frame_of_def book_of_def side_def fun_eq_iff room_for_def get_credit_line_count_def
      split: lifecycle_call.split)+

lemma book_empty: "book_of w = Map.empty \<longleftrightarrow> st_lines w = Map.empty"
  by (auto simp: book_of_def fun_eq_iff)

lemma exec_uninitialised:
  assumes "exec tok auc c w = Inr w'" and "ledger_ok s w" and "st_admin w = None" and "st_lines w = Map.empty"
  shows "st_lines w' = Map.empty"
proof -
  have "ledger_ok True w" using assms(2,4) by (simp add: ledger_gap_def lines_ok_def)
  then have "book_step None (signers w) c Map.empty (book_of w')"
    using exec_refines[OF assms(1)] assms(3,4) book_empty[of w] by simp
  then have "book_of w' = Map.empty" by (rule book_step_cases) (auto simp: by_admin_def)
  then show ?thesis by (simp add: book_empty)
qed

lemma step_inv:
  assumes "step tok auc w (sg, c) w'" and "contract_inv s w" and "s \<longrightarrow> \<not> reverses c"
  shows "contract_inv s w'"
  using assms(1)
proof (rule step_cases)
  fix ts sq tk assume e: "exec tok auc c (frame_of ts sq sg tk w) = Inr w'" and r: "has_room c w"
  have l: "ledger_ok s (frame_of ts sq sg tk w)" using assms(2) by (simp add: contract_inv_def)
  have "ledger_ok s w'" using exec_ledger[OF e l] r assms(2,3) by (simp add: contract_inv_def)
  moreover have "st_lines w' = Map.empty" if n: "st_admin w' = None"
  proof -
    have "st_admin w = None"
    proof (cases "transfers_admin c")
      case True
      then show ?thesis using e n admin_moves_view(3) by (fastforce simp: transfers_admin_def)
    next
      case False
      then show ?thesis using exec_admin_kept[OF e] n by simp
    qed
    then show ?thesis using exec_uninitialised[OF e l] assms(2) by (simp add: contract_inv_def)
  qed
  ultimately show ?thesis by (simp add: contract_inv_def)
qed

lemma genesis_inv: "contract_inv s (genesis ts self tk)"
  using genesis_ledger[of s ts self tk] by (simp add: contract_inv_def genesis_def)

lemma run_inv:
  assumes "run tok auc w0 cs w" and "contract_inv s w0" and "s \<longrightarrow> (\<forall>(sg, c)\<in>set cs. \<not> reverses c)"
  shows "contract_inv s w"
proof (rule run_invariant[OF assms(1), where P = "contract_inv s" and Q = "\<lambda>c. s \<longrightarrow> \<not> reverses c"])
  show "contract_inv s w0" by (rule assms(2))
  show "\<forall>(sg, c)\<in>set cs. s \<longrightarrow> \<not> reverses c" using assms(3) by auto
qed (rule step_inv; assumption)

lemma step_refines:
  assumes "step tok auc w (sg, c) w'" and "ledger_ok True w"
  shows "book_step (st_admin w) sg c (book_of w) (book_of w')"
  using assms(1)
proof (rule step_cases)
  fix ts sq tk assume e: "exec tok auc c (frame_of ts sq sg tk w) = Inr w'"
  show ?thesis using exec_refines[OF e] assms(2) by simp
qed

text \<open>On the abstract machine: a principal that grows belongs to the borrower who signed a draw of the difference.\<close>

lemma book_growth:
  assumes "book_step adm sg c m m'" and "m b = Some (st, p)" and "m' b = Some (st', p')" and "p < p'" and "0 \<le> p"
  shows "b \<in> set sg \<and> (\<exists>x. c = BorrowCall (DrawCredit b x) \<and> p' = p + x)"
  using assms by (cases rule: book_step.cases) (auto split: if_splits)

lemma book_new:
  assumes "book_step adm sg c m m'" and "m b = None" and "m' b = Some (st, p)"
  shows "by_admin adm sg \<and> st = Active \<and> p = 0 \<and> (\<exists>x u v. c = LifecycleCall (OpenCreditLine b x u v))"
  using assms by (cases rule: book_step.cases) (auto split: if_splits)

lemma open_new_line:
  assumes "open_credit_line b x r s w = Inr w'" and "st_lines w b = None" and "st_lines w' b = Some l"
  shows "utilized_amount l = 0 \<and> accrued_interest l = 0"
proof -
  from assms(1) obtain a w1 w2 where u: "require_admin_auth w = Inr (a, w1)" "enforce_borrow_admin_cooldown b w1 = Inr w2"
    and d: "lifecycle_open_credit_line b x r s w2 = Inr w'"
    by (auto simp: open_credit_line_def)
  have "st_lines w2 = st_lines w"
    using require_admin_auth_Inr[OF u(1)] cooldown_same_books(2)[OF u(2)] by (auto simp: same_books_def)
  then obtain k w3 where p: "persist_credit_line b k 0 None w2 = Inr w3" and k: "utilized_amount k = 0" "accrued_interest k = 0"
    and w': "st_lines w' = st_lines w3"
    using d assms(2) by (auto simp: lifecycle_open_credit_line_def Let_def get_credit_line_def publish_line_def emit_def
        clear_repayment_schedule_def)
  show ?thesis using persist_line_write[OF p] assms(3) k w' by (auto simp: line_write_def)
qed

lemma book_kept:
  assumes "book_step adm sg c m m'" and "m b \<noteq> None"
  shows "m' b \<noteq> None"
  using assms by (cases rule: book_step.cases) auto

section \<open>Collateral and the admin over steps\<close>

lemma pay_out_owner: "pay_out_collateral tok b x v w = Inr w' \<Longrightarrow> a \<noteq> b \<Longrightarrow> st_collateral_balance w' a = st_collateral_balance w a"
  using pay_out_collateral_shape by fastforce

lemma set_balance_owner:
  "set_collateral_balance b v w = Inr w' \<Longrightarrow> a \<noteq> b \<Longrightarrow> st_collateral_balance w' a = st_collateral_balance w a"
  "set_collateral_balance_for_token b t v w = Inr w' \<Longrightarrow> st_collateral_balance w' a = st_collateral_balance w a"
  unfolding set_collateral_balance_for_token_def
  by (drule set_collateral_balance_shape(1), erule ssubst, simp)
    (drule adjust_total_collateral_Inr(1), erule ssubst, simp)

lemma exec_collateral_owner:
  assumes "exec_collateral tok c w = Inr w'" and "a \<notin> set (signers w)"
  shows "st_collateral_balance w' a = st_collateral_balance w a"
proof (cases c)
  case (DepositCollateral b x)
  then show ?thesis using assms
    by (auto simp: deposit_collateral_def Let_def publish_collateral_lifecycle_event_def emit_def
        dest!: require_auth_Inr token_transfer_Inr dest: set_balance_owner(1))
next
  case (WithdrawCollateral b x)
  then show ?thesis using assms
    by (auto simp: withdraw_collateral_def Let_def publish_collateral_lifecycle_event_def emit_def
        dest!: require_auth_Inr dest: pay_out_owner)
next
  case (PartialReleaseCollateral b x)
  then show ?thesis using assms
    by (auto simp: partial_release_collateral_def Let_def publish_collateral_lifecycle_event_def emit_def
        dest!: require_auth_Inr dest: pay_out_owner)
next
  case (DepositCollateralToken b t x)
  then show ?thesis using assms
    by (auto simp: deposit_collateral_token_def Let_def publish_collateral_lifecycle_event_def emit_def
        dest!: require_auth_Inr token_transfer_Inr dest: set_balance_owner(2))
next
  case (WithdrawCollateralToken b t x)
  then show ?thesis using assms
    by (auto simp: withdraw_collateral_token_def Let_def publish_collateral_lifecycle_event_def emit_def
        dest!: require_auth_Inr token_transfer_Inr dest: set_balance_owner(2))
qed (use assms(1) collateral_setting_books in \<open>fastforce simp: same_books_def\<close>)+

lemma admin_moves_collateral: "exec_admin c w = Inr w' \<Longrightarrow> st_collateral_balance w' = st_collateral_balance w"
proof (cases "moves_admin c")
  case False
  then show "exec_admin c w = Inr w' \<Longrightarrow> ?thesis" using exec_admin_books by (auto simp: same_books_def)
qed (auto simp: moves_admin_def accept_admin_def init_def Let_def emit_def dest!: require_auth_Inr)

lemma exec_lifecycle_collateral: "exec_lifecycle auc c w = Inr w' \<Longrightarrow> st_collateral_balance w' = st_collateral_balance w"
proof (cases "\<exists>b x sid cf p. c = SettleDefaultLiquidation b x sid cf p")
  case True
  then show "exec_lifecycle auc c w = Inr w' \<Longrightarrow> ?thesis" by (auto elim!: settle_view simp: side_def)
next
  case False
  then have "\<not> settles (LifecycleCall c) k" for k by (auto simp: settles_def)
  then have "exec_lifecycle auc c w = Inr w' \<Longrightarrow> side w' = side w" by (intro exec_lifecycle_side)
  then show "exec_lifecycle auc c w = Inr w' \<Longrightarrow> ?thesis" by (simp add: side_def)
qed

lemma exec_collateral_signed:
  assumes "exec tok auc c w = Inr w'" and "a \<notin> set (signers w)"
  shows "st_collateral_balance w' a = st_collateral_balance w a"
proof (cases c)
  case (CollateralCall k)
  then show ?thesis using assms exec_collateral_owner by auto
qed (use assms admin_moves_collateral exec_lifecycle_collateral exec_oracle_books exec_freeze_books exec_treasury_books
    exec_risk_side exec_borrow_side in \<open>fastforce simp: same_books_def side_def\<close>)+

lemma exec_admin_change:
  assumes "exec tok auc c w = Inr w'" and "st_admin w' \<noteq> st_admin w"
  shows "(\<exists>a. c = AdminCall (Init a) \<and> st_admin w = None \<and> st_admin w' = Some a)
    \<or> (\<exists>p. c = AdminCall AcceptAdmin \<and> st_proposed_admin w = Some p \<and> p \<in> set (signers w) \<and> st_admin w' = Some p
         \<and> ledger_ts w' = ledger_ts w \<and> (case st_proposed_at w of None \<Rightarrow> 0 | Some t \<Rightarrow> t) \<le> ledger_ts w)"
proof -
  have "transfers_admin c" using exec_admin_kept[OF assms(1)] assms(2) by blast
  then consider (init) a where "c = AdminCall (Init a)" | (accept) "c = AdminCall AcceptAdmin"
    by (auto simp: transfers_admin_def moves_admin_def)
  then show ?thesis
    by cases (use assms(1) in \<open>auto simp: init_def accept_admin_def Let_def emit_def dest!: require_auth_Inr split: option.splits\<close>)
qed

lemma markers_once:
  assumes "run tok auc w0 cs w" and "st_liq_seen w0 = Map.empty"
  shows "(st_liq_seen w k = None \<longrightarrow> filter (\<lambda>(sg, c). settles c k) cs = [])
    \<and> length (filter (\<lambda>(sg, c). settles c k) cs) \<le> 1"
  using assms
proof (induction rule: run.induct)
  case start
  then show ?case by simp
next
  case (extend cs w c w')
  obtain sg d where c: "c = (sg, d)" by (cases c)
  from extend.hyps(2) obtain ts sq tk where e: "exec tok auc d (frame_of ts sq sg tk w) = Inr w'"
    unfolding c by (rule step_cases)
  show ?case using exec_markers[OF e, of k] extend.IH extend.prems unfolding c by auto
qed

end
