(* ===== verification/Auction.thy ===== *)
theory Auction
  imports Storage
begin

text \<open>
  The auction contract (\<^verbatim>\<open>gateway-contract/contracts/auction_contract/src\<close>: \<^verbatim>\<open>lib.rs\<close>,
  \<^verbatim>\<open>storage.rs\<close>, \<^verbatim>\<open>curves.rs\<close>, \<^verbatim>\<open>types.rs\<close>, \<^verbatim>\<open>errors.rs\<close>, \<^verbatim>\<open>events.rs\<close>,
  \<^verbatim>\<open>auth.rs\<close>): english and dutch auctions of a borrower's collateral, whose proceeds the credit
  contract collects when it settles a default.  The record \<open>auction_env\<close> has one field per
  storage key and the host fields of \<open>env\<close>; the bid token is a \<^typ>\<open>'t token_client\<close>.
  TTL extensions are not observable here: each is guarded by \<^verbatim>\<open>has\<close> or follows the write of its
  entry, so none can abort.  Then the closed form of the dutch prices; theory \<open>DutchCurve\<close> sets it against the documented formulas.
\<close>

named_theorems auction_defs "unfoldings of the auction contract's storage helpers"

section \<open>Types\<close>

datatype auction_error =
    NotWinner | AlreadyClaimed | NotClosed | NoFactoryContract | Unauthorized_auction | InvalidState
  | BidTooLow | AuctionNotOpen | AuctionNotClosed | Reentrancy_auction | NoWinner | NotFound
  | AlreadySettled_auction | GracePeriodActive

primrec auction_error_code :: "auction_error \<Rightarrow> nat" where
  "auction_error_code NotWinner = 1"
| "auction_error_code AlreadyClaimed = 2"
| "auction_error_code NotClosed = 3"
| "auction_error_code NoFactoryContract = 4"
| "auction_error_code Unauthorized_auction = 5"
| "auction_error_code InvalidState = 6"
| "auction_error_code BidTooLow = 7"
| "auction_error_code AuctionNotOpen = 8"
| "auction_error_code AuctionNotClosed = 9"
| "auction_error_code Reentrancy_auction = 10"
| "auction_error_code NoWinner = 11"
| "auction_error_code NotFound = 12"
| "auction_error_code AlreadySettled_auction = 13"
| "auction_error_code GracePeriodActive = 14"

text \<open>Why the host discards an invocation of the auction contract.\<close>

datatype auction_abort =
    AuctionErr auction_error
  | AuctionPanic
  | AuctionAuthMissing
  | AuctionAuthExisting
  | AuctionCalleeTrapped

type_synonym 'a ares = "auction_abort + 'a"

datatype auction_mode = English | Dutch

datatype auction_status = Open | Closed_auction | Claimed

datatype dutch_auction_decay = NoDecay | Linear | Stepped | Exponential

record auction_config =
  mode :: auction_mode
  username_hash :: bytes
  start_time :: u64
  end_time :: u64
  min_bid :: i128
  min_increment_bps :: u32
  dutch_start_price :: "i128 option"
  dutch_floor_price :: "i128 option"
  dutch_decay :: dutch_auction_decay
  dutch_step_count :: "u32 option"

record auction_state =
  config :: auction_config
  au_status :: auction_status
  highest_bidder :: "address option"
  highest_bid :: i128

datatype auction_event =
    BidRefundedEvent address i128
  | AuctionClosedEvent symbol "address option" i128
  | DefaultLiquidationSettlementEvent symbol address address address i128

record 't auction_env =
  au_ts :: u64
  au_self :: address
  au_signers :: "address list"
  au_frame_auth :: "address list"
  au_events :: "auction_event list"
  au_tokens :: 't
  bid_token :: "address option"
  factory_contract :: "address option"
  liquidation_grace_window :: "u64 option"
  au_reentrancy :: "bool option"
  auctions :: "symbol \<rightharpoonup> auction_state"
  liquidation_settled :: "symbol \<rightharpoonup> bool"
  bid_accepted :: "symbol \<times> address \<times> i128 \<rightharpoonup> bool"

section \<open>Storage helpers\<close>

definition auction_require_auth :: "address \<Rightarrow> 't auction_env \<Rightarrow> 't auction_env ares" where
  "auction_require_auth a w =
     (if a \<notin> set (au_signers w) then Inl AuctionAuthMissing
      else if a \<in> set (au_frame_auth w) then Inl AuctionAuthExisting
      else Inr (w\<lparr>au_frame_auth := a # au_frame_auth w\<rparr>))"

definition require_bidder_auth :: "address \<Rightarrow> 't auction_env \<Rightarrow> 't auction_env ares" where
  [auction_defs]: "require_bidder_auth bidder w = auction_require_auth bidder w"

definition require_winner_auth :: "address \<Rightarrow> 't auction_env \<Rightarrow> 't auction_env ares" where
  [auction_defs]: "require_winner_auth winner w = auction_require_auth winner w"

definition get_factory_contract :: "'t auction_env \<Rightarrow> address option" where
  [auction_defs]: "get_factory_contract w = factory_contract w"

definition set_factory_contract_store :: "address \<Rightarrow> 't auction_env \<Rightarrow> 't auction_env" where
  [auction_defs]: "set_factory_contract_store factory w = w\<lparr>factory_contract := Some factory\<rparr>"

definition set_reentrancy_guard_auction :: "'t auction_env \<Rightarrow> 't auction_env ares" where
  "set_reentrancy_guard_auction w =
     and_then (ensure (au_reentrancy w \<noteq> Some True) (AuctionErr Reentrancy_auction)) (\<lambda>_.
     Inr (w\<lparr>au_reentrancy := Some True\<rparr>))"

definition clear_reentrancy_guard_auction :: "'t auction_env \<Rightarrow> 't auction_env" where
  [auction_defs]: "clear_reentrancy_guard_auction w = w\<lparr>au_reentrancy := Some False\<rparr>"

definition get_grace_window_store :: "'t auction_env \<Rightarrow> u64" where
  [auction_defs]: "get_grace_window_store w = (case liquidation_grace_window w of None \<Rightarrow> 0 | Some s \<Rightarrow> s)"

definition set_grace_window_store :: "u64 \<Rightarrow> 't auction_env \<Rightarrow> 't auction_env" where
  [auction_defs]: "set_grace_window_store seconds w = w\<lparr>liquidation_grace_window := Some seconds\<rparr>"

definition publish_auction_event :: "auction_event \<Rightarrow> 't auction_env \<Rightarrow> 't auction_env" where
  [auction_defs]: "publish_auction_event e w = w\<lparr>au_events := au_events w @ [e]\<rparr>"

definition load_auction :: "symbol \<Rightarrow> 't auction_env \<Rightarrow> auction_state ares" where
  "load_auction auction_id w = ok_or (AuctionErr NotFound) (auctions w auction_id)"

definition store_auction :: "symbol \<Rightarrow> auction_state \<Rightarrow> 't auction_env \<Rightarrow> 't auction_env" where
  [auction_defs]: "store_auction auction_id s w = w\<lparr>auctions := (auctions w)(auction_id \<mapsto> s)\<rparr>"

definition is_settled :: "symbol \<Rightarrow> 't auction_env \<Rightarrow> bool" where
  [auction_defs]: "is_settled auction_id w \<longleftrightarrow> liquidation_settled w auction_id = Some True"

definition require_factory :: "'t auction_env \<Rightarrow> (address \<times> 't auction_env) ares" where
  "require_factory w =
     and_then (ok_or (AuctionErr NoFactoryContract) (get_factory_contract w)) (\<lambda>factory.
     and_then (auction_require_auth factory w) (\<lambda>w. Inr (factory, w)))"

definition bid_token_transfer ::
  "'t token_client \<Rightarrow> address \<Rightarrow> address \<Rightarrow> address \<Rightarrow> i128 \<Rightarrow> 't auction_env \<Rightarrow> 't auction_env ares" where
  "bid_token_transfer tok t src dst amount w =
     (case tk_transfer tok (au_tokens w) t src dst amount of
        None \<Rightarrow> Inl AuctionCalleeTrapped
      | Some s \<Rightarrow> Inr (w\<lparr>au_tokens := s\<rparr>))"

section \<open>Prices\<close>

definition min_next_bid :: "i128 \<Rightarrow> u32 \<Rightarrow> i128 ares" where
  "min_next_bid highest increment_bps =
     and_then (ok_or (AuctionErr BidTooLow) (checked_mul_i128 highest increment_bps)) (\<lambda>product.
     let bps_increment = product sdiv 10000 + (if product smod 10000 \<noteq> 0 then 1 else 0);
         increment = max bps_increment 1 in
     ok_or (AuctionErr BidTooLow) (checked_add_i128 highest increment))"

definition mul_u128 :: "u128 \<Rightarrow> u128 \<Rightarrow> u128 ares" where
  "mul_u128 a b = ok_or AuctionPanic (checked_mul_u128 a b)"

definition add_u128 :: "u128 \<Rightarrow> u128 \<Rightarrow> u128 ares" where
  "add_u128 a b = ok_or AuctionPanic (checked_add_u128 a b)"

text \<open>The three curves share one idiom: the drop \<open>p\<close> times \<open>num / den\<close>, with the
  quotient and the remainder of \<open>p\<close> by \<open>den\<close> scaled apart.\<close>

definition scaled_drop :: "u128 \<Rightarrow> u128 \<Rightarrow> u128 \<Rightarrow> i128 ares" where
  "scaled_drop p num den =
     and_then (mul_u128 (p div den) num) (\<lambda>x.
     and_then (mul_u128 (p mod den) num) (\<lambda>y.
     and_then (add_u128 x (y div den)) (\<lambda>drop. Inr (u128_as_i128 drop))))"

primrec decay_factor :: "nat \<Rightarrow> u128 \<Rightarrow> u128 ares" where
  "decay_factor 0 factor = Inr factor"
| "decay_factor (Suc n) factor = and_then (mul_u128 factor 9900) (\<lambda>x. decay_factor n (x div 10000))"

definition compute_dutch_price ::
  "i128 \<Rightarrow> i128 \<Rightarrow> u64 \<Rightarrow> u64 \<Rightarrow> dutch_auction_decay \<Rightarrow> u32 option \<Rightarrow> i128 ares" where
  "compute_dutch_price start_price floor_price elapsed_time duration decay step_count =
     (if duration = 0 then Inr floor_price
      else if elapsed_time \<ge> duration then Inr floor_price
      else
        and_then (ok_or AuctionPanic (checked_sub_i128 start_price floor_price)) (\<lambda>price_drop.
        let p = i128_as_u128 price_drop in
        and_then
          (case decay of
             NoDecay \<Rightarrow> scaled_drop p elapsed_time duration
           | Linear \<Rightarrow> scaled_drop p elapsed_time duration
           | Stepped \<Rightarrow>
               and_then (case step_count of
                           Some s \<Rightarrow> if s > 0 then Inr s else Inl AuctionPanic
                         | None \<Rightarrow> Inl AuctionPanic) (\<lambda>steps.
               and_then (mul_u128 elapsed_time steps) (\<lambda>es.
               scaled_drop p (es div duration) steps))
           | Exponential \<Rightarrow>
               and_then (decay_factor (nat (min elapsed_time 100)) 10000) (\<lambda>factor.
               and_then (ensure (factor \<le> 10000) AuctionPanic) (\<lambda>_.
               scaled_drop p (10000 - factor) 10000))) (\<lambda>drop_so_far.
        and_then (ok_or AuctionPanic (checked_sub_i128 start_price drop_so_far)) (\<lambda>current_price.
        Inr (max current_price floor_price)))))"

definition validate_auction_curve_params ::
  "auction_mode \<Rightarrow> i128 \<Rightarrow> i128 option \<Rightarrow> i128 option \<Rightarrow> dutch_auction_decay \<Rightarrow> u32 option \<Rightarrow> unit ares" where
  "validate_auction_curve_params md mbid start_price floor_price decay step_count =
     (if md \<noteq> Dutch
      then ensure (start_price = None \<and> floor_price = None \<and> step_count = None) AuctionPanic
      else
        and_then (ok_or AuctionPanic start_price) (\<lambda>start.
        and_then (ok_or AuctionPanic floor_price) (\<lambda>flr.
        and_then (ensure (\<not> start < flr) AuctionPanic) (\<lambda>_.
        and_then (ensure (\<not> start < mbid) AuctionPanic) (\<lambda>_.
        case decay of
          Stepped \<Rightarrow> and_then (ok_or AuctionPanic step_count) (\<lambda>n. ensure (n \<noteq> 0) AuctionPanic)
        | _ \<Rightarrow> ensure (step_count = None) AuctionPanic)))))"


section \<open>Entrypoints\<close>

definition init_auction ::
  "symbol \<Rightarrow> auction_mode \<Rightarrow> u64 \<Rightarrow> u64 \<Rightarrow> i128 \<Rightarrow> u32 \<Rightarrow> i128 option \<Rightarrow> i128 option \<Rightarrow>
   dutch_auction_decay option \<Rightarrow> u32 option \<Rightarrow> 't auction_env \<Rightarrow> 't auction_env ares" where
  "init_auction auction_id md start_t end_t mbid inc_bps start_price floor_price decay_opt step_count w =
     and_then (require_factory w) (\<lambda>(_, w).
     and_then (ensure (\<not> start_t \<ge> end_t) (AuctionErr InvalidState)) (\<lambda>_.
     and_then (ensure (\<not> inc_bps > 10000) (AuctionErr InvalidState)) (\<lambda>_.
     let decay = (case decay_opt of None \<Rightarrow> NoDecay | Some d \<Rightarrow> d) in
     and_then
       (if md \<noteq> Dutch
        then ensure (start_price = None \<and> floor_price = None \<and> step_count = None) (AuctionErr InvalidState)
        else
          and_then (ok_or (AuctionErr InvalidState) start_price) (\<lambda>start.
          and_then (ok_or (AuctionErr InvalidState) floor_price) (\<lambda>flr.
          and_then (ensure (\<not> start < flr) (AuctionErr InvalidState)) (\<lambda>_.
          and_then (ensure (\<not> start < mbid) (AuctionErr InvalidState)) (\<lambda>_.
          case decay of
            Stepped \<Rightarrow> (case step_count of
                Some n \<Rightarrow> ensure (n \<noteq> 0) (AuctionErr InvalidState)
              | None \<Rightarrow> Inl (AuctionErr InvalidState))
          | _ \<Rightarrow> Inr ()))))) (\<lambda>_.
     let cfg = \<lparr>mode = md, username_hash = replicate 32 0, start_time = start_t, end_time = end_t,
                min_bid = mbid, min_increment_bps = inc_bps, dutch_start_price = start_price,
                dutch_floor_price = floor_price, dutch_decay = decay, dutch_step_count = step_count\<rparr> in
     Inr (store_auction auction_id
            \<lparr>config = cfg, au_status = Open, highest_bidder = None, highest_bid = 0\<rparr> w)))))"

definition set_factory_contract :: "address \<Rightarrow> 't auction_env \<Rightarrow> 't auction_env ares" where
  "set_factory_contract factory w =
     and_then (case get_factory_contract w of
                 Some current_factory \<Rightarrow> auction_require_auth current_factory w
               | None \<Rightarrow> auction_require_auth factory w) (\<lambda>w.
     Inr (set_factory_contract_store factory w))"

definition english_threshold :: "auction_state \<Rightarrow> i128 ares" where
  "english_threshold s =
     (if highest_bid s > 0
      then and_then (min_next_bid (highest_bid s) (min_increment_bps (config s))) (\<lambda>t.
           Inr (max t (min_bid (config s))))
      else min_next_bid (min_bid (config s)) (min_increment_bps (config s)))"

definition english_escrow ::
  "'t token_client \<Rightarrow> address \<Rightarrow> i128 \<Rightarrow> auction_state \<Rightarrow> 't auction_env \<Rightarrow> 't auction_env ares" where
  "english_escrow tok bidder amount s w =
     (case bid_token w of
        None \<Rightarrow> Inr w
      | Some tkn \<Rightarrow>
          and_then (set_reentrancy_guard_auction w) (\<lambda>w.
          and_then (bid_token_transfer tok tkn bidder (au_self w) amount w) (\<lambda>w.
          and_then
            (case highest_bidder s of
               None \<Rightarrow> Inr w
             | Some prev_bidder \<Rightarrow>
                 bid_token_transfer tok tkn (au_self w) prev_bidder (highest_bid s)
                   (publish_auction_event (BidRefundedEvent prev_bidder (highest_bid s)) w)) (\<lambda>w.
          Inr (clear_reentrancy_guard_auction w)))))"

definition english_bid ::
  "'t token_client \<Rightarrow> address \<Rightarrow> i128 \<Rightarrow> auction_state \<Rightarrow> 't auction_env \<Rightarrow>
   (auction_state \<times> 't auction_env) ares" where
  "english_bid tok bidder amount s w =
     and_then (english_threshold s) (\<lambda>threshold.
     and_then (ensure (\<not> amount < threshold) (AuctionErr BidTooLow)) (\<lambda>_.
     and_then (english_escrow tok bidder amount s w) (\<lambda>w.
     Inr (s\<lparr>highest_bidder := Some bidder, highest_bid := amount\<rparr>, w))))"

definition dutch_price_now :: "auction_state \<Rightarrow> u64 \<Rightarrow> i128 ares" where
  "dutch_price_now s now =
     (let c = config s;
          elapsed_time = saturating_sub_u64 now (start_time c);
          duration = (if start_time c \<le> end_time c then end_time c - start_time c else 1);
          start_price = (case dutch_start_price c of None \<Rightarrow> min_bid c | Some p \<Rightarrow> p);
          floor_price = (case dutch_floor_price c of None \<Rightarrow> min_bid c | Some p \<Rightarrow> p) in
      compute_dutch_price start_price floor_price elapsed_time duration (dutch_decay c) (dutch_step_count c))"

definition dutch_escrow ::
  "'t token_client \<Rightarrow> address \<Rightarrow> i128 \<Rightarrow> 't auction_env \<Rightarrow> 't auction_env ares" where
  "dutch_escrow tok bidder amount w =
     (case bid_token w of
        None \<Rightarrow> Inr w
      | Some tkn \<Rightarrow>
          and_then (set_reentrancy_guard_auction w) (\<lambda>w.
          and_then (bid_token_transfer tok tkn bidder (au_self w) amount w) (\<lambda>w.
          Inr (clear_reentrancy_guard_auction w))))"

definition dutch_bid ::
  "'t token_client \<Rightarrow> symbol \<Rightarrow> address \<Rightarrow> i128 \<Rightarrow> auction_state \<Rightarrow> 't auction_env \<Rightarrow>
   (auction_state \<times> 't auction_env) ares" where
  "dutch_bid tok auction_id bidder amount s w =
     and_then (dutch_price_now s (au_ts w)) (\<lambda>current_price.
     and_then (ensure (\<not> amount < current_price) (AuctionErr BidTooLow)) (\<lambda>_.
     and_then (ensure (\<not> amount < min_bid (config s)) (AuctionErr BidTooLow)) (\<lambda>_.
     and_then (dutch_escrow tok bidder amount w) (\<lambda>w.
     Inr (s\<lparr>highest_bidder := Some bidder, highest_bid := amount, au_status := Closed_auction\<rparr>,
          publish_auction_event (AuctionClosedEvent auction_id (Some bidder) amount) w)))))"

definition place_bid ::
  "'t token_client \<Rightarrow> symbol \<Rightarrow> address \<Rightarrow> i128 \<Rightarrow> 't auction_env \<Rightarrow> 't auction_env ares" where
  "place_bid tok auction_id bidder amount w =
     and_then (require_bidder_auth bidder w) (\<lambda>w.
     if bid_accepted w (auction_id, bidder, amount) \<noteq> None then Inr w
     else
       and_then (ensure (\<not> amount \<le> 0) (AuctionErr BidTooLow)) (\<lambda>_.
       and_then (load_auction auction_id w) (\<lambda>s.
       and_then (ensure (au_status s = Open) (AuctionErr AuctionNotOpen)) (\<lambda>_.
       let now = au_ts w in
       and_then (ensure (\<not> now \<ge> end_time (config s)) (AuctionErr AuctionNotOpen)) (\<lambda>_.
       let grace_window = get_grace_window_store w in
       and_then (ensure (\<not> (grace_window > 0 \<and> now < saturating_add_u64 (start_time (config s)) grace_window))
                   (AuctionErr GracePeriodActive)) (\<lambda>_.
       and_then (case mode (config s) of
                   English \<Rightarrow> english_bid tok bidder amount s w
                 | Dutch \<Rightarrow> dutch_bid tok auction_id bidder amount s w) (\<lambda>(s, w).
       let w = store_auction auction_id s w in
       Inr (w\<lparr>bid_accepted := (bid_accepted w)((auction_id, bidder, amount) \<mapsto> True)\<rparr>))))))))"

definition close_auction :: "symbol \<Rightarrow> 't auction_env \<Rightarrow> 't auction_env ares" where
  "close_auction auction_id w =
     and_then (ok_or (AuctionErr NoFactoryContract) (get_factory_contract w)) (\<lambda>factory.
     and_then (load_auction auction_id w) (\<lambda>s.
     and_then (case au_status s of
                 Claimed \<Rightarrow> Inl (AuctionErr AlreadyClaimed)
               | Closed_auction \<Rightarrow> Inl (AuctionErr AuctionNotOpen)
               | Open \<Rightarrow> Inr ()) (\<lambda>_.
     let past_deadline = au_ts w \<ge> end_time (config s) in
     and_then (if \<not> past_deadline then auction_require_auth factory w else Inr w) (\<lambda>w.
     let s = s\<lparr>au_status := Closed_auction\<rparr> in
     Inr (publish_auction_event (AuctionClosedEvent auction_id (highest_bidder s) (highest_bid s))
            (store_auction auction_id s w))))))"

definition pay_bid_token ::
  "'t token_client \<Rightarrow> address \<Rightarrow> address \<Rightarrow> i128 \<Rightarrow> 't auction_env \<Rightarrow> 't auction_env ares" where
  "pay_bid_token tok tkn to amount w =
     and_then (set_reentrancy_guard_auction w) (\<lambda>w.
     and_then (bid_token_transfer tok tkn (au_self w) to amount w) (\<lambda>w.
     Inr (clear_reentrancy_guard_auction w)))"

definition settle_payout :: "'t token_client \<Rightarrow> address \<Rightarrow> i128 \<Rightarrow> 't auction_env \<Rightarrow> 't auction_env ares" where
  "settle_payout tok credit_contract amount w =
     (case bid_token w of
        None \<Rightarrow> Inr w
      | Some tkn \<Rightarrow> if amount > 0 then pay_bid_token tok tkn credit_contract amount w else Inr w)"

definition settle_default_liquidation_auction ::
  "'t token_client \<Rightarrow> symbol \<Rightarrow> address \<Rightarrow> address \<Rightarrow> 't auction_env \<Rightarrow> (i128 \<times> 't auction_env) ares" where
  "settle_default_liquidation_auction tok auction_id credit_contract borrower_addr w =
     and_then (require_factory w) (\<lambda>(factory, w).
     and_then (ensure (credit_contract = factory) (AuctionErr Unauthorized_auction)) (\<lambda>_.
     and_then (load_auction auction_id w) (\<lambda>s.
     and_then (ensure (au_status s = Closed_auction) (AuctionErr NotClosed)) (\<lambda>_.
     and_then (ensure (\<not> is_settled auction_id w) (AuctionErr AlreadySettled_auction)) (\<lambda>_.
     let w = w\<lparr>liquidation_settled := (liquidation_settled w)(auction_id \<mapsto> True)\<rparr>;
         winner = (case highest_bidder s of None \<Rightarrow> borrower_addr | Some h \<Rightarrow> h);
         w = publish_auction_event (DefaultLiquidationSettlementEvent auction_id credit_contract
               borrower_addr winner (highest_bid s)) w in
     and_then (settle_payout tok credit_contract (highest_bid s) w) (\<lambda>w. Inr (highest_bid s, w)))))))"

definition claim_auction :: "'t token_client \<Rightarrow> symbol \<Rightarrow> 't auction_env \<Rightarrow> 't auction_env ares" where
  "claim_auction tok auction_id w =
     and_then (load_auction auction_id w) (\<lambda>s.
     and_then (ensure (au_status s = Closed_auction) (AuctionErr AuctionNotClosed)) (\<lambda>_.
     and_then (ensure (\<not> is_settled auction_id w) (AuctionErr AlreadySettled_auction)) (\<lambda>_.
     and_then (ok_or (AuctionErr NoWinner) (highest_bidder s)) (\<lambda>winner.
     and_then (require_winner_auth winner w) (\<lambda>w.
     and_then (ensure (au_status s \<noteq> Claimed) (AuctionErr AlreadyClaimed)) (\<lambda>_.
     and_then (ok_or (AuctionErr InvalidState) (bid_token w)) (\<lambda>tkn.
     let w = store_auction auction_id (s\<lparr>au_status := Claimed\<rparr>) w in
     pay_bid_token tok tkn winner (highest_bid s) w)))))))"

definition get_liquidation_grace_window :: "'t auction_env \<Rightarrow> u64" where
  "get_liquidation_grace_window w = get_grace_window_store w"

definition set_liquidation_grace_window :: "u64 \<Rightarrow> 't auction_env \<Rightarrow> 't auction_env ares" where
  "set_liquidation_grace_window seconds w =
     and_then (require_factory w) (\<lambda>(_, w). Inr (set_grace_window_store seconds w))"

section \<open>Standalone decay curves\<close>

datatype decay_curve =
    Linear_curve u128
  | Stepped_curve u128 u64
  | Exponential_curve u128 u128

datatype curve_error = Overflow_curve | InvalidInput

primrec exponential_loop :: "u128 \<Rightarrow> u128 \<Rightarrow> nat \<Rightarrow> u128 \<Rightarrow> curve_error + u128" where
  "exponential_loop f sc 0 price = Inr price"
| "exponential_loop f sc (Suc n) price =
     and_then (ok_or Overflow_curve (checked_mul_u128 price f)) (\<lambda>x. exponential_loop f sc n (x div sc))"

fun calculate_price :: "u128 \<Rightarrow> u64 \<Rightarrow> decay_curve \<Rightarrow> curve_error + u128" where
  "calculate_price start_price elapsed (Linear_curve r) =
     and_then (ok_or Overflow_curve (checked_mul_u128 r elapsed)) (\<lambda>decay. Inr (max 0 (start_price - decay)))"
| "calculate_price start_price elapsed (Stepped_curve step i) =
     (if i = 0 then Inl InvalidInput
      else and_then (ok_or Overflow_curve (checked_mul_u128 step (elapsed div i))) (\<lambda>decay.
           Inr (max 0 (start_price - decay))))"
| "calculate_price start_price elapsed (Exponential_curve f sc) =
     (if sc = 0 then Inl InvalidInput else exponential_loop f sc (nat elapsed) start_price)"

section \<open>The dutch price follows the documented curves\<close>

lemma scale_split:
  fixes p n d :: int
  assumes "0 < d"
  shows "(p div d) * n + ((p mod d) * n) div d = p * n div d"
proof -
  have "p * n = (p mod d) * n + ((p div d) * n) * d"
    by (metis add.commute div_mult_mod_eq distrib_right mult.assoc mult.commute)
  then show ?thesis using assms by simp
qed

lemma scaled_drop_exact:
  assumes "0 \<le> p" and "p \<le> i128_max" and "0 \<le> n" and "n \<le> d" and "0 < d" and "d \<le> u64_max"
  shows "scaled_drop p n d = Inr (p * n div d)" and "0 \<le> p * n div d" and "p * n div d \<le> p"
proof -
  have le: "p * n div d \<le> p"
    using assms zdiv_mono1[OF mult_left_mono[OF assms(4,1)] assms(5)] by simp
  show "0 \<le> p * n div d" "p * n div d \<le> p" using assms le by (simp_all add: pos_imp_zdiv_nonneg_iff)
  have q: "0 \<le> (p div d) * n" using assms by (simp add: pos_imp_zdiv_nonneg_iff)
  have r: "0 \<le> (p mod d) * n" using assms by simp
  have r2: "(p mod d) * n \<le> u64_max * u64_max"
    using assms pos_mod_bound[OF assms(5), of p] by (intro mult_mono) (auto simp: u64_max_def simp del: pos_mod_bound)
  have "0 \<le> (p mod d) * n div d" using r assms by (simp add: pos_imp_zdiv_nonneg_iff)
  then have q2: "(p div d) * n \<le> p" using scale_split[OF assms(5), of p n] le by linarith
  have "u64_max * u64_max \<le> u128_max" "i128_max \<le> u128_max" by (simp_all add: int_defs)
  then have f: "in_u128 ((p div d) * n)" "in_u128 ((p mod d) * n)" "in_u128 (p * n div d)"
    using q r r2 q2 le assms(2) \<open>0 \<le> p * n div d\<close> unfolding in_u128_def by linarith+
  then show "scaled_drop p n d = Inr (p * n div d)"
    using le assms(2) by (simp add: scaled_drop_def mul_u128_def add_u128_def checked_arith checked_def scale_split[OF assms(5)])
qed

definition exp_factor :: "nat \<Rightarrow> int" where
  "exp_factor n = ((\<lambda>f. f * 9900 div 10000) ^^ n) 10000"

lemma exp_factor_bounds: "0 \<le> exp_factor n \<and> exp_factor n \<le> 10000"
  by (induction n) (auto simp: exp_factor_def)

lemma exp_factor_antimono: "m \<le> n \<Longrightarrow> exp_factor n \<le> exp_factor m"
proof (induction n rule: dec_induct)
  case base
  then show ?case by simp
next
  case (step n)
  have "exp_factor (Suc n) = exp_factor n * 9900 div 10000" by (simp add: exp_factor_def)
  then have "exp_factor (Suc n) \<le> exp_factor n" using exp_factor_bounds[of n] by linarith
  then show ?case using step.IH by simp
qed

lemma decay_factor_iter:
  assumes "0 \<le> f" and "f \<le> 10000"
  shows "decay_factor n f = Inr (((\<lambda>f. f * 9900 div 10000) ^^ n) f)"
  using assms
proof (induction n arbitrary: f)
  case 0
  then show ?case by simp
next
  case (Suc n)
  have "mul_u128 f 9900 = Inr (f * 9900)" using Suc.prems by (simp add: mul_u128_def checked_arith checked_def int_defs)
  then have "decay_factor (Suc n) f = decay_factor n (f * 9900 div 10000)" by simp
  also have "\<dots> = Inr (((\<lambda>f. f * 9900 div 10000) ^^ n) (f * 9900 div 10000))"
    using Suc.prems by (intro Suc.IH) auto
  finally show ?case by (simp only: funpow_Suc_right o_apply)
qed

text \<open>The closed form of what \<^verbatim>\<open>compute_dutch_price\<close> computes, over unbounded integers: one division per curve, with
  the truncated factor of the exponential one.\<close>

definition dutch_curve :: "dutch_auction_decay \<Rightarrow> int \<Rightarrow> int \<Rightarrow> int \<Rightarrow> int \<Rightarrow> int \<Rightarrow> int" where
  "dutch_curve decay start flr t duration steps =
     (if t \<ge> duration then flr
      else case decay of
        Stepped \<Rightarrow> start - (start - flr) * (t * steps div duration) div steps
      | Exponential \<Rightarrow> start - (start - flr) * (10000 - exp_factor (nat (min t 100))) div 10000
      | _ \<Rightarrow> start - (start - flr) * t div duration)"

lemma stepped_index:
  fixes t s d :: int
  assumes "0 \<le> t" and "t \<le> d" and "0 < d" and "0 \<le> s"
  shows "0 \<le> t * s div d" and "t * s div d \<le> s"
proof -
  show "0 \<le> t * s div d" using assms by (simp add: pos_imp_zdiv_nonneg_iff)
  have "t * s \<le> s * d" using assms mult_right_mono[of t d s] by (simp add: mult.commute)
  then have "t * s div d \<le> s * d div d" using assms by (intro zdiv_mono1)
  then show "t * s div d \<le> s" using assms by simp
qed

definition dutch_params_ok :: "dutch_auction_decay \<Rightarrow> i128 \<Rightarrow> i128 \<Rightarrow> u64 \<Rightarrow> u32 \<Rightarrow> bool" where
  "dutch_params_ok decay start flr duration steps \<longleftrightarrow>
     in_i128 start \<and> in_i128 flr \<and> flr \<le> start \<and> start - flr \<le> i128_max \<and>
     0 < duration \<and> duration \<le> u64_max \<and> 0 < steps \<and> steps \<le> u32_max"

lemma dutch_price_curve:
  assumes ok: "dutch_params_ok decay start flr duration steps" and t: "0 \<le> t"
  shows "compute_dutch_price start flr t duration decay (Some steps) =
           Inr (dutch_curve decay start flr t duration steps) \<and>
         flr \<le> dutch_curve decay start flr t duration steps \<and>
         dutch_curve decay start flr t duration steps \<le> start"
proof -
  define p where "p = start - flr"
  have p: "0 \<le> p" "p \<le> i128_max" "in_i128 p" "start - p = flr"
    using ok by (auto simp: p_def dutch_params_ok_def in_i128_def i128_min_def)
  have u: "i128_as_u128 p = p" using p by (intro i128_as_u128_id) (auto simp: int_defs)
  have d: "0 < duration" "duration \<le> u64_max" "0 < steps" "steps \<le> u64_max" "flr \<le> start"
    using ok by (auto simp: dutch_params_ok_def int_defs)
  have sub: "checked_sub_i128 start x = Some (start - x)" "max (start - x) flr = start - x" if "0 \<le> x" "x \<le> p" for x
    using ok that by (auto simp: p_def checked_arith checked_def dutch_params_ok_def in_i128_def)
  have s0: "checked_sub_i128 start flr = Some p" using p(3) by (simp add: p_def checked_arith checked_def)
  have le: "flr \<le> start - x" "start - x \<le> start" if "0 \<le> x" "x \<le> p" for x using that by (simp_all add: p_def)
  consider (late) "duration \<le> t" | (lin) "t < duration" "decay = NoDecay \<or> decay = Linear"
    | (step) "t < duration" "decay = Stepped" | (ex) "t < duration" "decay = Exponential"
    using dutch_auction_decay.exhaust by (metis not_le_imp_less)
  then show ?thesis
  proof cases
    case late
    then show ?thesis using d by (simp_all add: compute_dutch_price_def dutch_curve_def)
  next
    case lin
    note e = scaled_drop_exact[OF p(1,2) t less_imp_le[OF lin(1)] d(1,2)]
    show ?thesis
      using lin d e sub[OF e(2,3)] le[OF e(2,3)] s0 u
      by (auto simp: compute_dutch_price_def dutch_curve_def p_def[symmetric] Let_def)
  next
    case step
    note i = stepped_index[OF t less_imp_le[OF step(1)] d(1) less_imp_le[OF d(3)]]
    note e = scaled_drop_exact[OF p(1,2) i d(3,4)]
    have "t * steps \<le> u64_max * u64_max" using step t d by (intro mult_mono) auto
    then have m: "mul_u128 t steps = Inr (t * steps)"
      using t d by (auto simp: mul_u128_def checked_arith checked_def in_u128_def u128_max_def u64_max_def)
    show ?thesis
      using step d e sub[OF e(2,3)] le[OF e(2,3)] s0 u m
      by (auto simp: compute_dutch_price_def dutch_curve_def p_def[symmetric] Let_def)
  next
    case ex
    have f: "0 \<le> 10000 - exp_factor n" "10000 - exp_factor n \<le> 10000" for n
      using exp_factor_bounds[of n] by simp_all
    have b: "(0::int) < 10000" "(10000::int) \<le> u64_max" by (simp_all add: u64_max_def)
    note e = scaled_drop_exact[OF p(1,2) f b]
    have m: "decay_factor n 10000 = Inr (exp_factor n)" for n by (simp add: decay_factor_iter exp_factor_def)
    show ?thesis
      using ex d e[of "nat (min t 100)"] sub[OF e(2,3)[of "nat (min t 100)"]] le[OF e(2,3)[of "nat (min t 100)"]] s0 u m
        exp_factor_bounds[of "nat (min t 100)"]
      by (auto simp: compute_dutch_price_def dutch_curve_def p_def[symmetric] Let_def)
  qed
qed

lemma step_count_irrelevant:
  "decay \<noteq> Stepped \<Longrightarrow> compute_dutch_price start flr t duration decay n = compute_dutch_price start flr t duration decay m"
  by (cases decay) (simp_all add: compute_dutch_price_def)

lemma dutch_price_value:
  assumes "dutch_params_ok decay start flr duration steps" and "0 \<le> t" and "decay = Stepped \<longrightarrow> n = Some steps"
  shows "compute_dutch_price start flr t duration decay n = Inr (dutch_curve decay start flr t duration steps)"
  using dutch_price_curve[OF assms(1,2)] assms(3) step_count_irrelevant[of decay start flr t duration n "Some steps"] by metis

lemma dutch_curve_antimono:
  assumes ok: "dutch_params_ok decay start flr duration steps" and t: "0 \<le> t" "t \<le> t'"
  shows "dutch_curve decay start flr t' duration steps \<le> dutch_curve decay start flr t duration steps"
proof (cases "duration \<le> t'")
  case True
  then show ?thesis using dutch_price_curve[OF ok t(1)] by (simp add: dutch_curve_def)
next
  case False
  have p: "0 \<le> start - flr" "0 < duration" "0 < steps" using ok by (auto simp: dutch_params_ok_def)
  have scaled: "(start - flr) * x div d \<le> (start - flr) * y div d" if "x \<le> y" "0 < d" for x y d
    using that p by (intro zdiv_mono1 mult_left_mono) auto
  have "t * steps div duration \<le> t' * steps div duration" using t p by (intro zdiv_mono1 mult_right_mono) auto
  moreover have "exp_factor (nat (min t' 100)) \<le> exp_factor (nat (min t 100))"
    using t by (intro exp_factor_antimono) (simp add: nat_mono min.coboundedI1)
  ultimately show ?thesis using False t p scaled by (auto simp: dutch_curve_def split: dutch_auction_decay.split)
qed

text \<open>(\<open>compute_dutch_price\<close>): the price starts at the start price, never rises as time
  passes, never leaves the band between floor and start price, and is the floor from the end of the
  auction on.\<close>

theorem dutch_price_descends:
  assumes "dutch_params_ok decay start flr duration steps" and "decay = Stepped \<longrightarrow> n = Some steps"
    and "0 \<le> t" and "t \<le> t'"
  shows "\<exists>p p'. compute_dutch_price start flr t duration decay n = Inr p \<and>
       compute_dutch_price start flr t' duration decay n = Inr p' \<and>
       flr \<le> p' \<and> p' \<le> p \<and> p \<le> start \<and> (t = 0 \<longrightarrow> p = start) \<and> (duration \<le> t' \<longrightarrow> p' = flr)"
proof -
  have t': "0 \<le> t'" using assms(3,4) by simp
  have "0 < duration" using assms(1) by (simp add: dutch_params_ok_def)
  then have "t = 0 \<longrightarrow> dutch_curve decay start flr t duration steps = start"
    by (auto simp: dutch_curve_def exp_factor_def split: dutch_auction_decay.split)
  moreover have "duration \<le> t' \<longrightarrow> dutch_curve decay start flr t' duration steps = flr" by (simp add: dutch_curve_def)
  ultimately show ?thesis
    using dutch_price_value[OF assms(1,3,2)] dutch_price_value[OF assms(1) t' assms(2)]
      dutch_price_curve[OF assms(1,3)] dutch_price_curve[OF assms(1) t'] dutch_curve_antimono[OF assms(1,3,4)] by blast
qed

theorem dutch_price_descends_witness:
  "\<exists>p p'. compute_dutch_price 1000 500 10 100 Exponential None = Inr p \<and>
     compute_dutch_price 1000 500 60 100 Exponential None = Inr p' \<and> 500 \<le> p' \<and> p' \<le> p \<and> p \<le> 1000"
  using dutch_price_descends[of Exponential 1000 500 100 1 None 10 60] by (simp add: dutch_params_ok_def int_defs)

section \<open>The standalone curves against the contract's\<close>

text \<open>\<^verbatim>\<open>curves.rs\<close> asks that both implementations have the same mathematical semantics.  They do
  on the linear and the stepped curve, whenever the drop divides evenly into rates.\<close>

lemma linear_curves_agree:
  assumes "start - flr = r * duration" and "0 \<le> r" and "0 \<le> flr" and "start \<le> i128_max"
    and "0 < duration" and "duration \<le> u64_max" and "0 \<le> t" and "t < duration"
  shows "\<exists>p. compute_dutch_price start flr t duration Linear None = Inr p \<and> calculate_price start t (Linear_curve r) = Inr p"
proof -
  have le: "r * t \<le> r * duration" using assms(2,8) by (intro mult_left_mono) auto
  have nn: "0 \<le> r * t" "0 \<le> r * duration" using assms by auto
  have ok: "dutch_params_ok Linear start flr duration 1"
    using assms nn unfolding dutch_params_ok_def in_i128_def i128_min_def u32_max_def by linarith
  have "compute_dutch_price start flr t duration Linear None = Inr (start - r * t)"
    using dutch_price_value[OF ok assms(7), of None] assms(5,8)
    by (simp add: dutch_curve_def assms(1) mult.assoc mult.commute[of duration] flip: mult.assoc)
  moreover have "in_u128 (r * t)" using nn le assms unfolding in_u128_def i128_max_def u128_max_def by linarith
  ultimately show ?thesis using le assms by (simp add: checked_arith checked_def)
qed

lemma exponential_curves_differ:
  "compute_dutch_price 1000000 0 10 100 Exponential None = Inr 903700"
  "calculate_price 1000000 10 (Exponential_curve 9900 10000) = Inr 904380"
  by code_simp+

lemma curve_never_rises:
  assumes "calculate_price start t c = Inr p" and "c = Linear_curve r \<or> c = Stepped_curve r i" and "0 \<le> r" and "0 \<le> t"
    and "0 \<le> start" and "0 \<le> i"
  shows "0 \<le> p \<and> p \<le> start"
  using assms by (auto simp: checked_arith pos_imp_zdiv_nonneg_iff split: if_splits)

end
