(* ===== verification/AuctionRun.thy ===== *)
theory AuctionRun
  imports Auction Borrow
begin

text \<open>
  The auction contract in operation: what an accepted bid guarantees, and the runs of the contract -
  its entrypoints in any order, interleaved with transfers that others make - over which it pays each auction out at
  most once and, as it is deployed, never moves a token.  Under a bid token, which no entrypoint
  can configure, the contract would hold every winning bid of the auctions in its store.
\<close>

section \<open>What an accepted bid guarantees\<close>

lemma auction_require_auth_Inr:
  "auction_require_auth a w = Inr w' \<longleftrightarrow>
     a \<in> set (au_signers w) \<and> a \<notin> set (au_frame_auth w) \<and> w' = w\<lparr>au_frame_auth := a # au_frame_auth w\<rparr>"
  by (auto simp: auction_require_auth_def)

lemma require_factory_Inr:
  "require_factory w = Inr x \<longleftrightarrow>
     (\<exists>f w'. x = (f, w') \<and> factory_contract w = Some f \<and> auction_require_auth f w = Inr w')"
  by (auto simp: require_factory_def auction_defs)

lemma load_auction_Inr [simp]: "load_auction i w = Inr s \<longleftrightarrow> auctions w i = Some s"
  by (simp add: load_auction_def)

lemma guard_Inr [simp]:
  "set_reentrancy_guard_auction w = Inr w' \<longleftrightarrow> au_reentrancy w \<noteq> Some True \<and> w' = w\<lparr>au_reentrancy := Some True\<rparr>"
  by (auto simp: set_reentrancy_guard_auction_def)

lemma bid_token_transfer_Inr [simp]:
  "bid_token_transfer tok t src dst a w = Inr w' \<longleftrightarrow>
     (\<exists>s. tk_transfer tok (au_tokens w) t src dst a = Some s \<and> w' = w\<lparr>au_tokens := s\<rparr>)"
  by (auto simp: bid_token_transfer_def split: option.splits)

lemma grace_frame [simp]: "get_grace_window_store (w\<lparr>au_frame_auth := x\<rparr>) = get_grace_window_store w"
  by (simp add: get_grace_window_store_def)

definition bid_increment :: "i128 \<Rightarrow> u32 \<Rightarrow> int" where
  "bid_increment highest bps = max ((highest * bps + 9999) div 10000) 1"

lemma ceil_bps: "(x::int) div 10000 + (if x mod 10000 \<noteq> 0 then 1 else 0) = (x + 9999) div 10000"
proof -
  define q r where "q = x div 10000" and "r = x mod 10000"
  have x: "x + 9999 = (r + 9999) + q * 10000" using div_mult_mod_eq[of x 10000] unfolding q_def r_def by linarith
  have r: "0 \<le> r" "r < 10000" by (simp_all add: r_def)
  have "(x + 9999) div 10000 = q + (r + 9999) div 10000" unfolding x by simp
  moreover have "(r + 9999) div 10000 = (if r \<noteq> 0 then 1 else 0)"
    using r int_div_pos_eq[of "r + 9999" 10000 1 "r - 1"] by auto
  ultimately show ?thesis by (simp only: q_def r_def)
qed

lemma min_next_bid_above: "min_next_bid h bps = Inr t \<Longrightarrow> h < t"
  by (auto simp: min_next_bid_def Let_def checked_arith)

lemma min_next_bid_Inr:
  "min_next_bid h bps = Inr t \<Longrightarrow> t = h + max ((h * bps) sdiv 10000 + (if (h * bps) smod 10000 \<noteq> 0 then 1 else 0)) 1"
  unfolding min_next_bid_def Let_def checked_arith by (simp del: max.absorb_iff1 max.absorb_iff2 split del: if_split)

lemma sdiv_nonneg: "0 \<le> (x::int) \<Longrightarrow> x sdiv 10000 = x div 10000" "0 \<le> (x::int) \<Longrightarrow> x smod 10000 = x mod 10000"
  by (cases "x = 0"; simp add: signed_divide_int_def signed_modulo_int_def sgn_if)+

lemma min_next_bid_exact:
  assumes "min_next_bid h bps = Inr t" and "0 \<le> h" and "0 \<le> bps"
  shows "t = h + bid_increment h bps"
proof -
  have nn: "0 \<le> h * bps" using assms(2,3) by simp
  show ?thesis unfolding min_next_bid_Inr[OF assms(1)] bid_increment_def sdiv_nonneg[OF nn] ceil_bps by (rule refl)
qed

lemma english_threshold_above:
  assumes "english_threshold s = Inr t"
  shows "highest_bid s < t \<or> highest_bid s \<le> 0" and "min_bid (config s) \<le> t"
  using assms by (auto simp: english_threshold_def split: if_splits dest!: min_next_bid_above)

text \<open>The tokens that a new bid moves: the bid into escrow and, in an english auction, the refund of
  the bid it displaces.\<close>

definition bid_moves ::
  "'t token_client \<Rightarrow> address \<Rightarrow> address \<Rightarrow> i128 \<Rightarrow> auction_state \<Rightarrow> address option \<Rightarrow> 't \<Rightarrow> 't \<Rightarrow> bool" where
  "bid_moves tok self bidder amount s tkn x y \<longleftrightarrow>
     (case tkn of
        None \<Rightarrow> y = x
      | Some t \<Rightarrow> (\<exists>z. tk_transfer tok x t bidder self amount = Some z \<and>
          (case (mode (config s), highest_bidder s) of
             (English, Some prev) \<Rightarrow> tk_transfer tok z t self prev (highest_bid s) = Some y
           | _ \<Rightarrow> y = z)))"

definition after_bid :: "address \<Rightarrow> i128 \<Rightarrow> auction_state \<Rightarrow> auction_state" where
  "after_bid bidder amount s =
     s\<lparr>highest_bidder := Some bidder, highest_bid := amount,
       au_status := (case mode (config s) of English \<Rightarrow> Open | Dutch \<Rightarrow> Closed_auction)\<rparr>"

lemma english_bid_shape:
  assumes "english_bid tok b a s w = Inr (s', w')" and "mode (config s) = English" and "au_status s = Open"
  shows "\<exists>t. english_threshold s = Inr t \<and> t \<le> a" and "s' = after_bid b a s"
    and "bid_moves tok (au_self w) b a s (bid_token w) (au_tokens w) (au_tokens w')"
    and "w' = w\<lparr>au_tokens := au_tokens w', au_events := au_events w', au_reentrancy := au_reentrancy w'\<rparr>"
proof -
  obtain t where t: "english_threshold s = Inr t" "t \<le> a" and e: "english_escrow tok b a s w = Inr w'"
    and s': "s' = s\<lparr>highest_bidder := Some b, highest_bid := a\<rparr>"
    using assms(1) by (auto simp: english_bid_def)
  show "\<exists>t. english_threshold s = Inr t \<and> t \<le> a" using t by blast
  show "s' = after_bid b a s" using s' assms(2,3) by (simp add: after_bid_def)
  show "bid_moves tok (au_self w) b a s (bid_token w) (au_tokens w) (au_tokens w')"
    using e assms(2) by (cases "bid_token w"; cases "highest_bidder s") (auto simp: english_escrow_def bid_moves_def auction_defs)
  show "w' = w\<lparr>au_tokens := au_tokens w', au_events := au_events w', au_reentrancy := au_reentrancy w'\<rparr>"
    using e by (cases "bid_token w"; cases "highest_bidder s") (auto simp: english_escrow_def auction_defs)
qed

lemma dutch_bid_shape:
  assumes "dutch_bid tok i b a s w = Inr (s', w')" and "mode (config s) = Dutch"
  shows "\<exists>p. dutch_price_now s (au_ts w) = Inr p \<and> p \<le> a \<and> min_bid (config s) \<le> a" and "s' = after_bid b a s"
    and "bid_moves tok (au_self w) b a s (bid_token w) (au_tokens w) (au_tokens w')"
    and "w' = w\<lparr>au_tokens := au_tokens w', au_events := au_events w', au_reentrancy := au_reentrancy w'\<rparr>"
proof -
  obtain p u where p: "dutch_price_now s (au_ts w) = Inr p" "p \<le> a" "min_bid (config s) \<le> a"
    and e: "dutch_escrow tok b a w = Inr u"
    and s': "s' = s\<lparr>highest_bidder := Some b, highest_bid := a, au_status := Closed_auction\<rparr>"
    and w': "w' = publish_auction_event (AuctionClosedEvent i (Some b) a) u"
    using assms(1) by (auto simp: dutch_bid_def)
  show "\<exists>p. dutch_price_now s (au_ts w) = Inr p \<and> p \<le> a \<and> min_bid (config s) \<le> a" using p by blast
  show "s' = after_bid b a s" using s' assms(2) by (simp add: after_bid_def)
  show "bid_moves tok (au_self w) b a s (bid_token w) (au_tokens w) (au_tokens w')"
    using e w' assms(2) by (auto simp: dutch_escrow_def bid_moves_def auction_defs split: option.splits)
  show "w' = w\<lparr>au_tokens := au_tokens w', au_events := au_events w', au_reentrancy := au_reentrancy w'\<rparr>"
    using e w' by (auto simp: dutch_escrow_def auction_defs split: option.splits)
qed

definition bid_clears :: "auction_state \<Rightarrow> i128 \<Rightarrow> u64 \<Rightarrow> bool" where
  "bid_clears s amount now \<longleftrightarrow>
     min_bid (config s) \<le> amount \<and>
     (case mode (config s) of
        English \<Rightarrow> (\<exists>t. english_threshold s = Inr t \<and> t \<le> amount)
      | Dutch \<Rightarrow> (\<exists>p. dutch_price_now s now = Inr p \<and> p \<le> amount))"

lemma place_bid_shape:
  assumes "place_bid tok i b a w = Inr w'" and "bid_accepted w (i, b, a) = None"
  obtains s where "b \<in> set (au_signers w)" "0 < a" "auctions w i = Some s" "au_status s = Open"
    "au_ts w < end_time (config s)"
    "0 < get_grace_window_store w \<longrightarrow> saturating_add_u64 (start_time (config s)) (get_grace_window_store w) \<le> au_ts w"
    "bid_clears s a (au_ts w)" "bid_moves tok (au_self w) b a s (bid_token w) (au_tokens w) (au_tokens w')"
    "auctions w' = (auctions w)(i \<mapsto> after_bid b a s)"
    "liquidation_settled w' = liquidation_settled w" "bid_token w' = bid_token w" "au_self w' = au_self w"
    "factory_contract w' = factory_contract w" "bid_accepted w' = (bid_accepted w)((i, b, a) \<mapsto> True)"
proof -
  let ?u = "w\<lparr>au_frame_auth := b # au_frame_auth w\<rparr>"
  obtain s s' v where sg: "b \<in> set (au_signers w)" "0 < a" "auctions w i = Some s" "au_status s = Open"
    "au_ts w < end_time (config s)"
    "0 < get_grace_window_store w \<longrightarrow> saturating_add_u64 (start_time (config s)) (get_grace_window_store w) \<le> au_ts w"
    and body: "(case mode (config s) of English \<Rightarrow> english_bid tok b a s ?u | Dutch \<Rightarrow> dutch_bid tok i b a s ?u) = Inr (s', v)"
    and w': "w' = store_auction i s' v\<lparr>bid_accepted := (bid_accepted (store_auction i s' v))((i, b, a) \<mapsto> True)\<rparr>"
    using assms
    by (simp add: place_bid_def require_bidder_auth_def Let_def auction_require_auth_Inr not_le not_less)
      (elim exE conjE, auto)
  have "bid_clears s a (au_ts w) \<and> s' = after_bid b a s \<and>
      bid_moves tok (au_self w) b a s (bid_token w) (au_tokens w) (au_tokens v) \<and>
      v = ?u\<lparr>au_tokens := au_tokens v, au_events := au_events v, au_reentrancy := au_reentrancy v\<rparr>"
  proof (cases "mode (config s)")
    case English
    then have e: "english_bid tok b a s ?u = Inr (s', v)" using body by simp
    note x = english_bid_shape[OF e English sg(4)]
    obtain t where t: "english_threshold s = Inr t" "t \<le> a" using x(1) by blast
    show ?thesis using x(2-4) t english_threshold_above(2)[OF t(1)] English by (auto simp: bid_clears_def)
  next
    case Dutch
    then have e: "dutch_bid tok i b a s ?u = Inr (s', v)" using body by simp
    show ?thesis using dutch_bid_shape[OF e Dutch] Dutch by (auto simp: bid_clears_def)
  qed
  then have r: "bid_clears s a (au_ts w)" "s' = after_bid b a s"
    "bid_moves tok (au_self w) b a s (bid_token w) (au_tokens w) (au_tokens v)"
    "v = ?u\<lparr>au_tokens := au_tokens v, au_events := au_events v, au_reentrancy := au_reentrancy v\<rparr>" by blast+
  have f: "auctions v = auctions w" "liquidation_settled v = liquidation_settled w" "bid_token v = bid_token w"
    "au_self v = au_self w" "factory_contract v = factory_contract w" "bid_accepted v = bid_accepted w"
    by (subst r(4), simp)+
  show ?thesis by (rule that[OF sg r(1)]) (use r(2,3) f in \<open>simp_all add: w' store_auction_def\<close>)
qed

section \<open>Runs of the contract\<close>

datatype (plugins only: code) auction_call =
    InitAuction symbol auction_mode u64 u64 i128 u32 "i128 option" "i128 option" "dutch_auction_decay option" "u32 option"
  | SetFactoryContract address
  | PlaceBid symbol address i128
  | CloseAuction symbol
  | SettleAuction symbol address address
  | ClaimAuction symbol
  | SetGraceWindow u64

primrec exec_auction :: "'t token_client \<Rightarrow> auction_call \<Rightarrow> 't auction_env \<Rightarrow> 't auction_env ares" where
  "exec_auction tok (InitAuction i md st en mb inc sp fp dc sc) w = init_auction i md st en mb inc sp fp dc sc w"
| "exec_auction tok (SetFactoryContract f) w = set_factory_contract f w"
| "exec_auction tok (PlaceBid i b a) w = place_bid tok i b a w"
| "exec_auction tok (CloseAuction i) w = close_auction i w"
| "exec_auction tok (SettleAuction i cc b) w =
     and_then (settle_default_liquidation_auction tok i cc b w) (\<lambda>(_, w). Inr w)"
| "exec_auction tok (ClaimAuction i) w = claim_auction tok i w"
| "exec_auction tok (SetGraceWindow s) w = set_liquidation_grace_window s w"

definition auction_frame :: "u64 \<Rightarrow> address list \<Rightarrow> 't auction_env \<Rightarrow> 't auction_env" where
  "auction_frame ts sg w = w\<lparr>au_ts := ts, au_signers := sg, au_frame_auth := []\<rparr>"

text \<open>A step is a successful call, signed by \<open>sg\<close> - never by the contract itself, which signs no
  transaction - or something that happens to the tokens outside and leaves the contract no poorer.\<close>

inductive auction_step ::
  "'t token_client \<Rightarrow> 't auction_env \<Rightarrow> (address list \<times> auction_call) option \<Rightarrow> 't auction_env \<Rightarrow> bool"
  for tok :: "'t token_client" where
  invoke: "exec_auction tok c (auction_frame ts sg w) = Inr w' \<Longrightarrow> au_ts w \<le> ts \<Longrightarrow> au_self w \<notin> set sg \<Longrightarrow>
    auction_step tok w (Some (sg, c)) w'"
| outside: "(\<And>t. tk_balance tok (au_tokens w) t (au_self w) \<le> tk_balance tok s t (au_self w)) \<Longrightarrow>
    auction_step tok w None (w\<lparr>au_tokens := s\<rparr>)"

inductive auction_run ::
  "'t token_client \<Rightarrow> 't auction_env \<Rightarrow> (address list \<times> auction_call) option list \<Rightarrow> 't auction_env \<Rightarrow> bool"
  for tok :: "'t token_client" and w0 :: "'t auction_env" where
  start: "auction_run tok w0 [] w0"
| extend: "auction_run tok w0 ls w \<Longrightarrow> auction_step tok w l w' \<Longrightarrow> auction_run tok w0 (ls @ [l]) w'"

inductive_cases auction_step_call: "auction_step tok w (Some (sg, c)) w'"
inductive_cases auction_step_outside: "auction_step tok w None w'"

definition fresh_auction_contract :: "u64 \<Rightarrow> address \<Rightarrow> address option \<Rightarrow> 't \<Rightarrow> 't auction_env" where
  "fresh_auction_contract ts self tkn tk =
     \<lparr>au_ts = ts, au_self = self, au_signers = [], au_frame_auth = [], au_events = [], au_tokens = tk,
      bid_token = tkn, factory_contract = None, liquidation_grace_window = None, au_reentrancy = None,
      auctions = Map.empty, liquidation_settled = Map.empty, bid_accepted = Map.empty\<rparr>"

section \<open>What the other entrypoints do\<close>

text \<open>\<open>idle\<close>: nothing of the auctions, the markers, the tokens or the deployment has changed.\<close>

definition idle :: "'t auction_env \<Rightarrow> 't auction_env \<Rightarrow> bool" where
  "idle w w' \<longleftrightarrow> auctions w' = auctions w \<and> liquidation_settled w' = liquidation_settled w \<and>
     au_tokens w' = au_tokens w \<and> bid_token w' = bid_token w \<and> au_self w' = au_self w"

lemma idle_frame [simp]: "idle w (auction_frame ts sg w)"
  by (simp add: idle_def auction_frame_def)

lemma setting_idle:
  "set_factory_contract f w = Inr w' \<Longrightarrow> idle w w'"
  "set_liquidation_grace_window s w = Inr w' \<Longrightarrow> idle w w'"
  "place_bid tok i b a w = Inr w' \<Longrightarrow> bid_accepted w (i, b, a) \<noteq> None \<Longrightarrow> idle w w'"
  by (auto simp: set_factory_contract_def set_liquidation_grace_window_def place_bid_def require_factory_Inr
      auction_require_auth_Inr auction_defs idle_def split: option.splits if_splits)

lemma init_auction_shape:
  assumes "init_auction i md st en mb inc sp fp dc sc w = Inr w'"
  obtains s where "auctions w' = (auctions w)(i \<mapsto> s)" "au_status s = Open" "highest_bidder s = None" "highest_bid s = 0"
    "start_time (config s) < end_time (config s)" "liquidation_settled w' = liquidation_settled w"
    "au_tokens w' = au_tokens w" "bid_token w' = bid_token w" "au_self w' = au_self w"
    "\<exists>f. factory_contract w = Some f \<and> f \<in> set (au_signers w)"
  using assms unfolding init_auction_def Let_def require_factory_def
  by (auto simp: auction_require_auth_Inr auction_defs not_le)

lemma open_check_Inr [simp]:
  "(case st of Claimed \<Rightarrow> Inl e | Closed_auction \<Rightarrow> Inl e' | Open \<Rightarrow> Inr ()) = Inr u \<longleftrightarrow> st = Open"
  "(case st of Open \<Rightarrow> Inr () | Closed_auction \<Rightarrow> Inl e' | Claimed \<Rightarrow> Inl e) = Inr u \<longleftrightarrow> st = Open"
  by (cases st; simp)+

lemma close_auction_shape:
  assumes "close_auction i w = Inr w'"
  obtains s where "auctions w i = Some s" "au_status s = Open"
    "auctions w' = (auctions w)(i \<mapsto> s\<lparr>au_status := Closed_auction\<rparr>)"
    "liquidation_settled w' = liquidation_settled w" "au_tokens w' = au_tokens w" "bid_token w' = bid_token w"
    "au_self w' = au_self w"
    "au_ts w < end_time (config s) \<longrightarrow> (\<exists>f. factory_contract w = Some f \<and> f \<in> set (au_signers w))"
  using assms
  by (auto simp: close_auction_def Let_def auction_require_auth_Inr auction_defs split: if_splits)

lemma settle_auction_shape:
  assumes "settle_default_liquidation_auction tok i cc b w = Inr (r, w')"
  obtains s where "auctions w i = Some s" "au_status s = Closed_auction" "\<not> is_settled i w" "r = highest_bid s"
    "factory_contract w = Some cc" "cc \<in> set (au_signers w)"
    "auctions w' = auctions w" "liquidation_settled w' = (liquidation_settled w)(i \<mapsto> True)"
    "bid_token w' = bid_token w" "au_self w' = au_self w"
    "case bid_token w of
       Some t \<Rightarrow> if 0 < r then tk_transfer tok (au_tokens w) t (au_self w) cc r = Some (au_tokens w') else au_tokens w' = au_tokens w
     | None \<Rightarrow> au_tokens w' = au_tokens w"
proof -
  let ?e = "\<lambda>s. DefaultLiquidationSettlementEvent i cc b (case highest_bidder s of None \<Rightarrow> b | Some h \<Rightarrow> h) (highest_bid s)"
  let ?u = "\<lambda>s. w\<lparr>au_frame_auth := cc # au_frame_auth w, liquidation_settled := (liquidation_settled w)(i \<mapsto> True),
    au_events := au_events w @ [?e s]\<rparr>"
  obtain s where s: "auctions w i = Some s" "au_status s = Closed_auction" "\<not> is_settled i w" "r = highest_bid s"
    "factory_contract w = Some cc" "cc \<in> set (au_signers w)"
    and pay: "settle_payout tok cc (highest_bid s) (?u s) = Inr w'"
    using assms
    by (auto simp: settle_default_liquidation_auction_def Let_def require_factory_Inr auction_require_auth_Inr auction_defs)
  have "(case bid_token w of
       Some t \<Rightarrow> if 0 < r then tk_transfer tok (au_tokens w) t (au_self w) cc r = Some (au_tokens w') else au_tokens w' = au_tokens w
     | None \<Rightarrow> au_tokens w' = au_tokens w) \<and> auctions w' = auctions w \<and> bid_token w' = bid_token w \<and> au_self w' = au_self w \<and>
     liquidation_settled w' = (liquidation_settled w)(i \<mapsto> True)"
    using pay s(4) by (cases "bid_token w"; cases "0 < highest_bid s") (auto simp: settle_payout_def pay_bid_token_def auction_defs)
  then show ?thesis using that s by blast
qed

lemma claim_auction_shape:
  assumes "claim_auction tok i w = Inr w'"
  obtains s h t where "auctions w i = Some s" "au_status s = Closed_auction" "\<not> is_settled i w"
    "highest_bidder s = Some h" "h \<in> set (au_signers w)" "bid_token w = Some t"
    "auctions w' = (auctions w)(i \<mapsto> s\<lparr>au_status := Claimed\<rparr>)" "liquidation_settled w' = liquidation_settled w"
    "bid_token w' = bid_token w" "au_self w' = au_self w"
    "tk_transfer tok (au_tokens w) t (au_self w) h (highest_bid s) = Some (au_tokens w')"
  using assms
  by (auto simp: claim_auction_def Let_def auction_require_auth_Inr auction_defs pay_bid_token_def)

section \<open>The escrow covers what is owed\<close>

text \<open>What the contract owes for an auction: the winning bid, until it is claimed or settled.\<close>

definition owed_map :: "'t auction_env \<Rightarrow> symbol \<rightharpoonup> int" where
  "owed_map w i =
     map_option (\<lambda>s. if au_status s = Claimed \<or> is_settled i w then 0 else highest_bid s) (auctions w i)"

definition total_owed :: "'t auction_env \<Rightarrow> int" where
  "total_owed w = map_sum (\<lambda>x. x) (owed_map w)"

definition auction_wf :: "auction_state \<Rightarrow> bool" where
  "auction_wf s \<longleftrightarrow> 0 \<le> highest_bid s \<and> (highest_bidder s = None \<longleftrightarrow> highest_bid s = 0) \<and>
     (mode (config s) = Dutch \<and> au_status s = Open \<longrightarrow> highest_bidder s = None)"

definition escrow_ok :: "'t token_client \<Rightarrow> 't auction_env \<Rightarrow> bool" where
  "escrow_ok tok w \<longleftrightarrow> finite (dom (auctions w)) \<and> (\<forall>i s. auctions w i = Some s \<longrightarrow> auction_wf s) \<and>
     (\<forall>t. bid_token w = Some t \<longrightarrow> total_owed w \<le> tk_balance tok (au_tokens w) t (au_self w))"

lemma owed_dom [simp]: "dom (owed_map w) = dom (auctions w)"
  by (auto simp: owed_map_def)

lemma total_owed_store:
  assumes "auctions w' = (auctions w)(i \<mapsto> s)" and "liquidation_settled w' = liquidation_settled w"
    and "finite (dom (auctions w))"
  shows "total_owed w' = total_owed w - opt_val (\<lambda>x. x) (owed_map w i)
     + (if au_status s = Claimed \<or> is_settled i w then 0 else highest_bid s)"
proof -
  have "owed_map w' = (owed_map w)(i \<mapsto> if au_status s = Claimed \<or> is_settled i w then 0 else highest_bid s)"
    using assms(1,2) by (auto simp: owed_map_def is_settled_def fun_eq_iff)
  then show ?thesis using map_sum_upd[of "owed_map w"] assms(3) by (simp add: total_owed_def)
qed

lemma total_owed_settled:
  assumes "auctions w' = auctions w" and "liquidation_settled w' = (liquidation_settled w)(i \<mapsto> True)"
    and "finite (dom (auctions w))" and "auctions w i = Some s" and "au_status s \<noteq> Claimed" and "\<not> is_settled i w"
  shows "total_owed w' = total_owed w - highest_bid s"
proof -
  have "owed_map w' = (owed_map w)(i \<mapsto> 0)"
    using assms(1,2,4) by (auto simp: owed_map_def is_settled_def fun_eq_iff)
  moreover have "owed_map w i = Some (highest_bid s)" using assms(4-6) by (simp add: owed_map_def)
  ultimately show ?thesis using map_sum_upd[of "owed_map w" "\<lambda>x. x" i 0] assms(3) by (simp add: total_owed_def)
qed

lemma idle_escrow: "idle w w' \<Longrightarrow> escrow_ok tok w' = escrow_ok tok w"
proof -
  assume i: "idle w w'"
  then have "owed_map w' = owed_map w" by (simp add: idle_def owed_map_def is_settled_def fun_eq_iff)
  then show ?thesis using i by (simp add: idle_def escrow_ok_def total_owed_def)
qed

lemma escrow_okI:
  assumes "escrow_ok tok w" and "auctions w' = (auctions w)(i \<mapsto> s)" and "liquidation_settled w' = liquidation_settled w"
    and "auction_wf s" and "bid_token w' = bid_token w" and "au_self w' = au_self w"
    and "\<And>t. bid_token w = Some t \<Longrightarrow>
       (if au_status s = Claimed \<or> is_settled i w then 0 else highest_bid s) - opt_val (\<lambda>x. x) (owed_map w i)
       \<le> tk_balance tok (au_tokens w') t (au_self w) - tk_balance tok (au_tokens w) t (au_self w)"
  shows "escrow_ok tok w'"
proof -
  have f: "finite (dom (auctions w))" using assms(1) by (simp add: escrow_ok_def)
  show ?thesis
    using assms total_owed_store[OF assms(2,3) f] f unfolding escrow_ok_def by (auto simp del: dom_fun_upd) force+
qed

lemma owed_val:
  "auctions w i = Some s \<Longrightarrow>
     opt_val (\<lambda>x. x) (owed_map w i) = (if au_status s = Claimed \<or> is_settled i w then 0 else highest_bid s)"
  by (simp add: owed_map_def)

lemma owed_nonneg: "escrow_ok tok w \<Longrightarrow> 0 \<le> opt_val (\<lambda>x. x) (owed_map w i)"
  by (cases "auctions w i") (auto simp: owed_map_def escrow_ok_def auction_wf_def)

lemma bid_rises:
  assumes "bid_clears s a now" and "auction_wf s" and "au_status s = Open" and "0 < a"
  shows "highest_bid s < a"
proof (cases "mode (config s)")
  case English
  then obtain t where "english_threshold s = Inr t" "t \<le> a" using assms(1) by (auto simp: bid_clears_def)
  then show ?thesis using english_threshold_above(1)[of s t] assms(4) by auto
next
  case Dutch
  then show ?thesis using assms(2-4) by (auto simp: auction_wf_def)
qed

context sac_token
begin

lemma bid_cash:
  assumes "bid_moves tok self b a s (Some t) x y" and "b \<noteq> self" and "auction_wf s" and "au_status s = Open"
  shows "a - highest_bid s \<le> tk_balance tok y t self - tk_balance tok x t self"
proof -
  obtain z where z: "tk_transfer tok x t b self a = Some z"
    and y: "case (mode (config s), highest_bidder s) of
        (English, Some prev) \<Rightarrow> tk_transfer tok z t self prev (highest_bid s) = Some y | _ \<Rightarrow> y = z"
    using assms(1) by (auto simp: bid_moves_def)
  have in_escrow: "tk_balance tok z t self = tk_balance tok x t self + a"
    using transfer_balance[OF z, of self] assms(2) by simp
  show ?thesis
  proof (cases "mode (config s)")
    case English
    show ?thesis
    proof (cases "highest_bidder s")
      case None
      then show ?thesis using y English in_escrow assms(3) by (simp add: auction_wf_def)
    next
      case (Some p)
      then have "tk_transfer tok z t self p (highest_bid s) = Some y" using y English by simp
      from transfer_balance[OF this, of self] show ?thesis using in_escrow assms(3) by (auto simp: auction_wf_def)
    qed
  next
    case Dutch
    then show ?thesis using y in_escrow assms(3,4) by (auto simp: auction_wf_def)
  qed
qed

lemma place_bid_escrow:
  assumes ok: "escrow_ok tok w" and p: "place_bid tok i b a w = Inr w'" and self: "au_self w \<notin> set (au_signers w)"
  shows "escrow_ok tok w'"
proof (cases "bid_accepted w (i, b, a)")
  case (Some v)
  then show ?thesis using ok idle_escrow[OF setting_idle(3)[OF p]] by simp
next
  case None
  show ?thesis
  proof (rule place_bid_shape[OF p None])
    fix s
    assume sg: "b \<in> set (au_signers w)" and a: "0 < a" and s: "auctions w i = Some s" and op: "au_status s = Open"
      and clr: "bid_clears s a (au_ts w)"
      and mv: "bid_moves tok (au_self w) b a s (bid_token w) (au_tokens w) (au_tokens w')"
      and w': "auctions w' = (auctions w)(i \<mapsto> after_bid b a s)" "liquidation_settled w' = liquidation_settled w"
        "bid_token w' = bid_token w" "au_self w' = au_self w"
    have wf: "auction_wf s" using ok s by (simp add: escrow_ok_def)
    have up: "highest_bid s < a" by (rule bid_rises[OF clr wf op a])
    have wf': "auction_wf (after_bid b a s)" using a by (simp add: auction_wf_def after_bid_def split: auction_mode.split)
    have bn: "b \<noteq> au_self w" using sg self by blast
    have cash: "a - highest_bid s \<le> tk_balance tok (au_tokens w') t (au_self w) - tk_balance tok (au_tokens w) t (au_self w)"
      if "bid_token w = Some t" for t
      using bid_cash[OF _ bn wf op, of a t] mv that by simp
    show "escrow_ok tok w'"
    proof (rule escrow_okI[OF ok w'(1,2) wf' w'(3,4)])
      fix t assume "bid_token w = Some t"
      note c = cash[OF this]
      show "(if au_status (after_bid b a s) = Claimed \<or> is_settled i w then 0 else highest_bid (after_bid b a s))
          - opt_val (\<lambda>x. x) (owed_map w i)
        \<le> tk_balance tok (au_tokens w') t (au_self w) - tk_balance tok (au_tokens w) t (au_self w)"
        using c up op by (simp add: owed_val[OF s] after_bid_def split: auction_mode.split)
    qed
  qed
qed

lemma settle_escrow:
  assumes ok: "escrow_ok tok w" and p: "settle_default_liquidation_auction tok i cc b w = Inr (r, w')"
  shows "escrow_ok tok w'"
proof (rule settle_auction_shape[OF p])
  fix s
  assume s: "auctions w i = Some s" "au_status s = Closed_auction" "\<not> is_settled i w" and r: "r = highest_bid s"
    and w': "auctions w' = auctions w" "liquidation_settled w' = (liquidation_settled w)(i \<mapsto> True)"
      "bid_token w' = bid_token w" "au_self w' = au_self w"
    and pay: "case bid_token w of
       Some t \<Rightarrow> if 0 < r then tk_transfer tok (au_tokens w) t (au_self w) cc r = Some (au_tokens w') else au_tokens w' = au_tokens w
     | None \<Rightarrow> au_tokens w' = au_tokens w"
  have f: "finite (dom (auctions w))" and wf: "auction_wf s" using ok s(1) by (auto simp: escrow_ok_def)
  have "total_owed w' = total_owed w - highest_bid s" by (rule total_owed_settled[OF w'(1,2) f s(1)]) (use s in simp_all)
  moreover have "tk_balance tok (au_tokens w) t (au_self w) - highest_bid s \<le> tk_balance tok (au_tokens w') t (au_self w)"
    if "bid_token w = Some t" for t
    using pay that wf transfer_balance[of "au_tokens w" t "au_self w" cc r "au_tokens w'" "au_self w"]
    by (auto simp: r auction_wf_def split: if_splits)
  ultimately show ?thesis using ok w' unfolding escrow_ok_def by force
qed

lemma claim_escrow:
  assumes ok: "escrow_ok tok w" and p: "claim_auction tok i w = Inr w'"
  shows "escrow_ok tok w'"
proof (rule claim_auction_shape[OF p])
  fix s h t
  assume s: "auctions w i = Some s" "au_status s = Closed_auction" "\<not> is_settled i w" and t: "bid_token w = Some t"
    and w': "auctions w' = (auctions w)(i \<mapsto> s\<lparr>au_status := Claimed\<rparr>)" "liquidation_settled w' = liquidation_settled w"
      "bid_token w' = bid_token w" "au_self w' = au_self w"
    and pay: "tk_transfer tok (au_tokens w) t (au_self w) h (highest_bid s) = Some (au_tokens w')"
  have wf: "auction_wf s" using ok s(1) by (auto simp: escrow_ok_def)
  show ?thesis
    by (rule escrow_okI[OF ok w'(1,2) _ w'(3,4)])
      (use wf s t transfer_balance[OF pay, of "au_self w"] in \<open>auto simp: auction_wf_def owed_val\<close>)
qed

lemma init_escrow:
  assumes ok: "escrow_ok tok w" and p: "init_auction i md st en mb inc sp fp dc sc w = Inr w'"
  shows "escrow_ok tok w'"
proof (rule init_auction_shape[OF p])
  fix s
  assume s: "auctions w' = (auctions w)(i \<mapsto> s)" "au_status s = Open" "highest_bidder s = None" "highest_bid s = 0"
    and w': "liquidation_settled w' = liquidation_settled w" "au_tokens w' = au_tokens w" "bid_token w' = bid_token w"
      "au_self w' = au_self w"
  show ?thesis
    by (rule escrow_okI[OF ok s(1) w'(1) _ w'(3,4)]) (use s w' owed_nonneg[OF ok, of i] in \<open>auto simp: auction_wf_def\<close>)
qed

lemma close_escrow:
  assumes ok: "escrow_ok tok w" and p: "close_auction i w = Inr w'"
  shows "escrow_ok tok w'"
proof (rule close_auction_shape[OF p])
  fix s
  assume s: "auctions w i = Some s" "au_status s = Open" "auctions w' = (auctions w)(i \<mapsto> s\<lparr>au_status := Closed_auction\<rparr>)"
    and w': "liquidation_settled w' = liquidation_settled w" "au_tokens w' = au_tokens w" "bid_token w' = bid_token w"
      "au_self w' = au_self w"
  have wf: "auction_wf s" using ok s(1) by (auto simp: escrow_ok_def)
  show ?thesis
    by (rule escrow_okI[OF ok s(3) w'(1) _ w'(3,4)]) (use wf s w' in \<open>auto simp: auction_wf_def owed_val\<close>)
qed

lemma exec_escrow:
  assumes "escrow_ok tok w" and "exec_auction tok c w = Inr w'" and "au_self w \<notin> set (au_signers w)"
  shows "escrow_ok tok w'"
  using assms(2)
  by (cases c)
    (auto intro: init_escrow[OF assms(1)] place_bid_escrow[OF assms(1) _ assms(3)] close_escrow[OF assms(1)]
      settle_escrow[OF assms(1)] claim_escrow[OF assms(1)] simp: assms(1) idle_escrow[OF setting_idle(1)] idle_escrow[OF setting_idle(2)])

lemma step_escrow:
  assumes "auction_step tok w l w'" and "escrow_ok tok w"
  shows "escrow_ok tok w'"
  using assms
proof (cases rule: auction_step.cases)
  case (invoke c ts sg)
  have "escrow_ok tok (auction_frame ts sg w)" using assms(2) idle_escrow[OF idle_frame] by blast
  moreover have "au_self (auction_frame ts sg w) \<notin> set (au_signers (auction_frame ts sg w))"
    using invoke by (simp add: auction_frame_def)
  ultimately show ?thesis using exec_escrow invoke by blast
next
  case (outside s)
  have "owed_map w' = owed_map w" by (simp add: outside owed_map_def is_settled_def fun_eq_iff)
  then show ?thesis using assms(2) outside(3) order_trans unfolding escrow_ok_def total_owed_def outside(2) by fastforce
qed

lemma run_escrow: "auction_run tok w0 ls w \<Longrightarrow> escrow_ok tok w0 \<Longrightarrow> escrow_ok tok w"
  by (induction rule: auction_run.induct) (auto intro: step_escrow)

end

section \<open>Each auction is paid out at most once\<close>

definition pays_out :: "symbol \<Rightarrow> (address list \<times> auction_call) option \<Rightarrow> bool" where
  "pays_out i l \<longleftrightarrow> (\<exists>sg. l = Some (sg, ClaimAuction i) \<or> (\<exists>cc b. l = Some (sg, SettleAuction i cc b)))"

definition opens_anew :: "symbol \<Rightarrow> (address list \<times> auction_call) option \<Rightarrow> bool" where
  "opens_anew i l \<longleftrightarrow> (\<exists>sg md st en mb inc sp fp dc sc. l = Some (sg, InitAuction i md st en mb inc sp fp dc sc))"

definition paid :: "symbol \<Rightarrow> 't auction_env \<Rightarrow> bool" where
  "paid i w \<longleftrightarrow> is_settled i w \<or> (\<exists>s. auctions w i = Some s \<and> au_status s = Claimed)"

lemma idle_paid: "idle w w' \<Longrightarrow> paid i w' = paid i w"
  by (simp add: idle_def paid_def is_settled_def)

lemma exec_paid:
  assumes "exec_auction tok c w = Inr w'"
  shows "pays_out i (Some (sg, c)) \<Longrightarrow> \<not> paid i w \<and> paid i w'"
    and "\<not> opens_anew i (Some (sg, c)) \<Longrightarrow> paid i w \<Longrightarrow> paid i w'"
proof -
  show "\<not> paid i w \<and> paid i w'" if "pays_out i (Some (sg, c))"
  proof (cases c)
    case (SettleAuction j cc b)
    then have j: "j = i" using that by (auto simp: pays_out_def)
    obtain r where "settle_default_liquidation_auction tok i cc b w = Inr (r, w')" using assms SettleAuction j by auto
    then show ?thesis by (rule settle_auction_shape) (auto simp: paid_def is_settled_def)
  next
    case (ClaimAuction j)
    then have "claim_auction tok i w = Inr w'" using assms that by (auto simp: pays_out_def)
    then show ?thesis by (rule claim_auction_shape) (auto simp: paid_def is_settled_def)
  qed (use that in \<open>auto simp: pays_out_def\<close>)
  show "paid i w'" if "\<not> opens_anew i (Some (sg, c))" "paid i w"
  proof (cases c)
    case (InitAuction j md st en mb inc sp fp dc sc)
    then have "j \<noteq> i" "init_auction j md st en mb inc sp fp dc sc w = Inr w'" using assms that(1) by (auto simp: opens_anew_def)
    then show ?thesis using that(2) by (elim init_auction_shape) (auto simp: paid_def is_settled_def)
  next
    case (PlaceBid j b a)
    then have p: "place_bid tok j b a w = Inr w'" using assms by simp
    show ?thesis
    proof (cases "bid_accepted w (j, b, a)")
      case None
      show ?thesis by (rule place_bid_shape[OF p None]) (use that(2) in \<open>auto simp: paid_def is_settled_def\<close>)
    qed (use idle_paid[OF setting_idle(3)[OF p]] that(2) in simp)
  next
    case (CloseAuction j)
    then have "close_auction j w = Inr w'" using assms by simp
    then show ?thesis using that(2) by (elim close_auction_shape) (auto simp: paid_def is_settled_def)
  next
    case (SettleAuction j cc b)
    then obtain r where "settle_default_liquidation_auction tok j cc b w = Inr (r, w')" using assms by auto
    then show ?thesis using that(2) by (elim settle_auction_shape) (auto simp: paid_def is_settled_def)
  next
    case (ClaimAuction j)
    then have "claim_auction tok j w = Inr w'" using assms by simp
    then show ?thesis using that(2) by (elim claim_auction_shape) (auto simp: paid_def is_settled_def)
  next
    case (SetFactoryContract f)
    then show ?thesis using assms that(2) idle_paid[OF setting_idle(1), of f w w' i] by simp
  next
    case (SetGraceWindow x)
    then show ?thesis using assms that(2) idle_paid[OF setting_idle(2), of x w w' i] by simp
  qed
qed

lemma step_paid:
  assumes "auction_step tok w l w'"
  shows "pays_out i l \<Longrightarrow> \<not> paid i w \<and> paid i w'" and "\<not> opens_anew i l \<Longrightarrow> paid i w \<Longrightarrow> paid i w'"
proof -
  have "(pays_out i l \<longrightarrow> \<not> paid i w \<and> paid i w') \<and> (\<not> opens_anew i l \<longrightarrow> paid i w \<longrightarrow> paid i w')"
    using assms
  proof (cases rule: auction_step.cases)
    case (invoke c ts sg)
    have p: "paid i (auction_frame ts sg w) = paid i w" by (rule idle_paid[OF idle_frame])
    show ?thesis using exec_paid(1)[OF invoke(2), of i sg] exec_paid(2)[OF invoke(2), of i sg] unfolding p invoke(1) by blast
  next
    case (outside s)
    then show ?thesis by (simp add: pays_out_def paid_def is_settled_def)
  qed
  then show "pays_out i l \<Longrightarrow> \<not> paid i w \<and> paid i w'" "\<not> opens_anew i l \<Longrightarrow> paid i w \<Longrightarrow> paid i w'" by blast+
qed

lemma run_pays_once:
  assumes "auction_run tok w0 ls w" and "\<forall>l\<in>set ls. \<not> opens_anew i l"
  shows "length (filter (pays_out i) ls) \<le> (if paid i w then 1 else 0)"
  using assms
proof (induction rule: auction_run.induct)
  case start
  then show ?case by simp
next
  case (extend ls w l w')
  then show ?case using step_paid[OF extend.hyps(2), of i] by (auto split: if_splits)
qed

lemma exec_deploy:
  assumes "exec_auction tok c w = Inr w'"
  shows "bid_token w' = bid_token w \<and> au_self w' = au_self w"
proof (cases c)
  case (InitAuction i md st en mb inc sp fp dc sc)
  then have "init_auction i md st en mb inc sp fp dc sc w = Inr w'" using assms by simp
  then show ?thesis by (rule init_auction_shape) simp
next
  case (SetFactoryContract f)
  then show ?thesis using assms setting_idle(1)[of f w w'] by (simp add: idle_def)
next
  case (PlaceBid i b a)
  then have p: "place_bid tok i b a w = Inr w'" using assms by simp
  show ?thesis
  proof (cases "bid_accepted w (i, b, a)")
    case None
    show ?thesis by (rule place_bid_shape[OF p None]) simp
  qed (use setting_idle(3)[OF p] in \<open>simp add: idle_def\<close>)
next
  case (CloseAuction i)
  then have "close_auction i w = Inr w'" using assms by simp
  then show ?thesis by (rule close_auction_shape) simp
next
  case (SettleAuction i cc b)
  then obtain r where "settle_default_liquidation_auction tok i cc b w = Inr (r, w')" using assms by auto
  then show ?thesis by (rule settle_auction_shape) simp
next
  case (ClaimAuction i)
  then have "claim_auction tok i w = Inr w'" using assms by simp
  then show ?thesis by (rule claim_auction_shape) simp
next
  case (SetGraceWindow x)
  then show ?thesis using assms setting_idle(2)[of x w w'] by (simp add: idle_def)
qed

lemma step_deploy: "auction_step tok w l w' \<Longrightarrow> bid_token w' = bid_token w \<and> au_self w' = au_self w"
  by (erule auction_step.cases) (auto dest!: exec_deploy simp: auction_frame_def)

lemma run_deploy: "auction_run tok w0 ls w \<Longrightarrow> bid_token w = bid_token w0 \<and> au_self w = au_self w0"
  by (induction rule: auction_run.induct) (auto dest: step_deploy)

lemma exec_without_token:
  assumes "exec_auction tok c w = Inr w'" and "bid_token w = None"
  shows "au_tokens w' = au_tokens w"
proof (cases c)
  case (InitAuction i md st en mb inc sp fp dc sc)
  then have "init_auction i md st en mb inc sp fp dc sc w = Inr w'" using assms by simp
  then show ?thesis by (rule init_auction_shape) simp
next
  case (SetFactoryContract f)
  then show ?thesis using assms setting_idle(1)[of f w w'] by (simp add: idle_def)
next
  case (PlaceBid i b a)
  then have p: "place_bid tok i b a w = Inr w'" using assms by simp
  show ?thesis
  proof (cases "bid_accepted w (i, b, a)")
    case None
    show ?thesis by (rule place_bid_shape[OF p None]) (simp add: bid_moves_def assms(2))
  qed (use setting_idle(3)[OF p] in \<open>simp add: idle_def\<close>)
next
  case (CloseAuction i)
  then have "close_auction i w = Inr w'" using assms by simp
  then show ?thesis by (rule close_auction_shape) simp
next
  case (SettleAuction i cc b)
  then obtain r where "settle_default_liquidation_auction tok i cc b w = Inr (r, w')" using assms by auto
  then show ?thesis by (rule settle_auction_shape) (simp add: assms(2))
next
  case (ClaimAuction i)
  then have "claim_auction tok i w = Inr w'" using assms by simp
  then show ?thesis by (rule claim_auction_shape) (simp add: assms(2))
next
  case (SetGraceWindow x)
  then show ?thesis using assms setting_idle(2)[of x w w'] by (simp add: idle_def)
qed

section \<open>Properties\<close>

text \<open>C28 (\<open>place_bid\<close>): a bid that is accepted for the first time was signed by its bidder, is
  positive, arrived while the auction was open, before its end and not before the grace window has passed, reaches the
  minimum bid, and either beats the standing bid - or, as the first bid, the minimum bid - by the configured increment (english) or
  reaches the current price and closes the auction (dutch); the bidder becomes the winner at exactly that amount.  The terms of
  the auction stay as they are: no bid extends the end of an auction.\<close>

theorem accepted_bid_guarantees:
  assumes "place_bid tok i b a w = Inr w'" and "bid_accepted w (i, b, a) = None"
  shows "\<exists>s. auctions w i = Some s \<and> au_status s = Open \<and> b \<in> set (au_signers w) \<and> 0 < a \<and>
     au_ts w < end_time (config s) \<and>
     (0 < get_grace_window_store w \<longrightarrow> min (start_time (config s) + get_grace_window_store w) u64_max \<le> au_ts w) \<and>
     min_bid (config s) \<le> a \<and>
     (mode (config s) = English \<and> 0 \<le> min_increment_bps (config s) \<longrightarrow>
        (if 0 < highest_bid s then highest_bid s + bid_increment (highest_bid s) (min_increment_bps (config s)) \<le> a
         else 0 \<le> min_bid (config s) \<longrightarrow> min_bid (config s) + bid_increment (min_bid (config s)) (min_increment_bps (config s)) \<le> a)) \<and>
     (mode (config s) = Dutch \<longrightarrow> (\<exists>p. dutch_price_now s (au_ts w) = Inr p \<and> p \<le> a)) \<and>
     auctions w' = (auctions w)(i \<mapsto> s\<lparr>highest_bidder := Some b, highest_bid := a,
       au_status := (case mode (config s) of English \<Rightarrow> Open | Dutch \<Rightarrow> Closed_auction)\<rparr>)"
proof (rule place_bid_shape[OF assms])
  fix s
  assume h: "auctions w i = Some s" "au_status s = Open" "b \<in> set (au_signers w)" "0 < a"
    "au_ts w < end_time (config s)" "auctions w' = (auctions w)(i \<mapsto> after_bid b a s)"
    and g: "0 < get_grace_window_store w \<longrightarrow> saturating_add_u64 (start_time (config s)) (get_grace_window_store w) \<le> au_ts w"
    and c: "bid_clears s a (au_ts w)"
  have "if 0 < highest_bid s then highest_bid s + bid_increment (highest_bid s) (min_increment_bps (config s)) \<le> a
         else 0 \<le> min_bid (config s) \<longrightarrow> min_bid (config s) + bid_increment (min_bid (config s)) (min_increment_bps (config s)) \<le> a"
    if m: "mode (config s) = English" "0 \<le> min_increment_bps (config s)"
  proof -
    obtain t where t: "english_threshold s = Inr t" "t \<le> a" using c m(1) by (auto simp: bid_clears_def)
    show ?thesis
    proof (cases "0 < highest_bid s")
      case True
      then obtain x where "min_next_bid (highest_bid s) (min_increment_bps (config s)) = Inr x" "x \<le> t"
        using t(1) by (auto simp: english_threshold_def)
      then show ?thesis using min_next_bid_exact[of "highest_bid s" "min_increment_bps (config s)" x] True m t(2) by simp
    next
      case False
      then have "min_next_bid (min_bid (config s)) (min_increment_bps (config s)) = Inr t"
        using t(1) by (simp add: english_threshold_def)
      then have "min_bid (config s) + bid_increment (min_bid (config s)) (min_increment_bps (config s)) = t" if "0 \<le> min_bid (config s)"
        using min_next_bid_exact that m(2) by metis
      then show ?thesis using False t(2) by auto
    qed
  qed
  then show ?thesis using h g c by (auto simp: bid_clears_def after_bid_def saturating_add_u64_def)
qed

text \<open>C26 (the auction contract as it can be deployed): no entrypoint writes the bid token, so over every run from deployment the
  contract never moves a token - bids are recorded and settlements signalled only - and every claim of every auction is refused;
  a settlement is signed by the factory, which is the credit contract it names, returns the winning bid of an auction that is closed and
  was not settled before, marks that auction settled and changes no auction.\<close>

theorem auction_signals_only:
  assumes "auction_run tok (fresh_auction_contract ts self None tk) ls w"
  shows "(\<forall>sg c w'. auction_step tok w (Some (sg, c)) w' \<longrightarrow> au_tokens w' = au_tokens w) \<and>
     (\<forall>now sg i w'. claim_auction tok i (auction_frame now sg w) \<noteq> Inr w') \<and>
     (\<forall>now sg i cc b r w'. settle_default_liquidation_auction tok i cc b (auction_frame now sg w) = Inr (r, w') \<longrightarrow>
        cc \<in> set sg \<and> factory_contract w = Some cc \<and>
        (\<exists>s. auctions w i = Some s \<and> au_status s = Closed_auction \<and> highest_bid s = r) \<and>
        \<not> is_settled i w \<and> is_settled i w' \<and> auctions w' = auctions w \<and> au_tokens w' = au_tokens w)"
proof (intro conjI allI impI)
  have n: "bid_token (auction_frame now sg w) = None" for now sg
    using run_deploy[OF assms] by (simp add: auction_frame_def fresh_auction_contract_def)
  show "au_tokens w' = au_tokens w" if "auction_step tok w (Some (sg, c)) w'" for sg c w'
  proof (rule auction_step_call[OF that])
    fix ts assume "exec_auction tok c (auction_frame ts sg w) = Inr w'"
    then show ?thesis using exec_without_token[OF _ n] by (fastforce simp: auction_frame_def)
  qed
  show "claim_auction tok i (auction_frame now sg w) \<noteq> Inr w'" for now sg i w'
    using n by (auto elim!: claim_auction_shape)
  fix now sg i cc b r w'
  assume s: "settle_default_liquidation_auction tok i cc b (auction_frame now sg w) = Inr (r, w')"
  show "cc \<in> set sg" "factory_contract w = Some cc" "\<exists>s. auctions w i = Some s \<and> au_status s = Closed_auction \<and> highest_bid s = r"
    "\<not> is_settled i w" "is_settled i w'" "auctions w' = auctions w" "au_tokens w' = au_tokens w"
    using s n by (auto elim!: settle_auction_shape simp: auction_frame_def is_settled_def)
qed

text \<open>Beside it, for a contract whose storage holds a bid token: it always holds at least the sum of the winning bids of the auctions in
  its store that are neither claimed nor settled.  A bid whose auction was opened anew under the same id has left the
  store and is not part of that sum.\<close>

lemma auction_escrow_covers_bids:
  assumes "sac_token tok" and "auction_run tok (fresh_auction_contract ts self (Some t) tk) ls w"
    and "0 \<le> tk_balance tok tk t self"
  shows "total_owed w \<le> tk_balance tok (au_tokens w) t self"
proof -
  have "escrow_ok tok (fresh_auction_contract ts self (Some t) tk)"
    using assms(3) by (simp add: escrow_ok_def fresh_auction_contract_def total_owed_def owed_map_def map_sum_def dom_def)
  then show ?thesis using sac_token.run_escrow[OF assms(1,2)] run_deploy[OF assms(2)]
    by (simp add: escrow_ok_def fresh_auction_contract_def)
qed

text \<open>C27 As long as the factory does not open the same auction anew, a run contains at most one
  payout of it - a claim by the winner or a settlement to the credit contract, never both.\<close>

theorem auction_paid_out_once:
  assumes "auction_run tok w0 ls w" and "\<forall>l\<in>set ls. \<not> opens_anew i l"
  shows "length (filter (pays_out i) ls) \<le> 1"
  using run_pays_once[OF assms] by (auto split: if_splits)

section \<open>A concrete auction\<close>

text \<open>Calls one after another, each with its ledger time and signers.\<close>

primrec replay ::
  "'t token_client \<Rightarrow> (u64 \<times> address list \<times> auction_call) list \<Rightarrow> 't auction_env \<Rightarrow> 't auction_env ares" where
  "replay tok [] w = Inr w"
| "replay tok (x # xs) w =
     (case x of (ts, sg, c) \<Rightarrow>
        and_then (ensure (au_ts w \<le> ts \<and> au_self w \<notin> set sg) AuctionPanic) (\<lambda>_.
        and_then (exec_auction tok c (auction_frame ts sg w)) (replay tok xs)))"

lemma replay_extends:
  "replay tok xs w = Inr w' \<Longrightarrow> auction_run tok w0 ls w \<Longrightarrow> auction_run tok w0 (ls @ map (\<lambda>(ts, l). Some l) xs) w'"
proof (induction xs arbitrary: w ls)
  case Nil
  then show ?case by simp
next
  case (Cons x xs)
  obtain ts sg c where x: "x = (ts, sg, c)" by (cases x)
  obtain v where v: "exec_auction tok c (auction_frame ts sg w) = Inr v" "replay tok xs v = Inr w'"
    "au_ts w \<le> ts" "au_self w \<notin> set sg"
    using Cons.prems(1) x by auto
  have "auction_run tok w0 (ls @ [Some (sg, c)]) v"
    using auction_run.extend[OF Cons.prems(2)] auction_step.invoke[OF v(1,3,4)] by blast
  from Cons.IH[OF v(2) this] show ?case by (simp add: x)
qed

lemmas replay_runs = replay_extends[OF _ auction_run.start, simplified]

definition sample_contract :: "(address \<times> address \<Rightarrow> int) auction_env" where
  "sample_contract = fresh_auction_contract 100 9 (Some 3) (\<lambda>(t, who). if who = 9 then 0 else 1000)"

definition sample_calls :: "(u64 \<times> address list \<times> auction_call) list" where
  "sample_calls =
     [(100, [8], SetFactoryContract 8),
      (100, [8], InitAuction ''lot'' English 100 200 50 500 None None None None),
      (110, [5], PlaceBid ''lot'' 5 100),
      (120, [6], PlaceBid ''lot'' 6 200),
      (200, [], CloseAuction ''lot''),
      (210, [6], ClaimAuction ''lot'')]"

lemmas auction_eval = auction_frame_def require_factory_def auction_require_auth_def
  init_auction_def set_factory_contract_def place_bid_def english_bid_def english_threshold_def min_next_bid_def
  english_escrow_def bid_token_transfer_def set_reentrancy_guard_auction_def load_auction_def close_auction_def
  claim_auction_def settle_default_liquidation_auction_def settle_payout_def pay_bid_token_def
  book_token_def move_balance_def
  Let_def auction_defs checked_arith checked_def int_defs saturating_add_u64_def

theorem accepted_bid_guarantees_witness:
  "\<exists>w w' s. replay book_token (take 3 sample_calls) (fresh_auction_contract 100 9 None (\<lambda>_. 0)) = Inr w \<and>
     place_bid book_token ''lot'' 6 200 (auction_frame 120 [6] w) = Inr w' \<and> auctions w ''lot'' = Some s \<and> highest_bid s = 100 \<and>
     100 + bid_increment 100 (min_increment_bps (config s)) \<le> 200 \<and>
     auctions w' = (auctions w)(''lot'' \<mapsto> s\<lparr>highest_bidder := Some 6, highest_bid := 200, au_status := Open\<rparr>)"
proof -
  let ?w0 = "fresh_auction_contract 100 9 None (\<lambda>_. 0) :: (address \<times> address \<Rightarrow> int) auction_env"
  obtain w where w: "replay book_token (take 3 sample_calls) ?w0 = Inr w"
    by (simp add: sample_calls_def fresh_auction_contract_def auction_eval)
  have h: "(\<exists>w'. place_bid book_token ''lot'' 6 200 (auction_frame 120 [6] w) = Inr w') \<and>
    bid_accepted (auction_frame 120 [6] w) (''lot'', 6, 200) = None"
    using w by (auto simp: sample_calls_def fresh_auction_contract_def auction_eval)
  have "\<exists>s. auctions w ''lot'' = Some s \<and> mode (config s) = English \<and> highest_bid s = 100 \<and> 0 \<le> min_increment_bps (config s)"
    using w by (auto simp: sample_calls_def fresh_auction_contract_def auction_eval)
  then obtain s where s: "auctions w ''lot'' = Some s" "mode (config s) = English" "highest_bid s = 100" "0 \<le> min_increment_bps (config s)"
    by blast
  obtain w' where p: "place_bid book_token ''lot'' 6 200 (auction_frame 120 [6] w) = Inr w'"
    and n: "bid_accepted (auction_frame 120 [6] w) (''lot'', 6, 200) = None"
    using h by blast
  have f: "auctions (auction_frame 120 [6] w) = auctions w" by (simp add: auction_frame_def)
  have "100 + bid_increment 100 (min_increment_bps (config s)) \<le> 200"
    "auctions w' = (auctions w)(''lot'' \<mapsto> s\<lparr>highest_bidder := Some 6, highest_bid := 200, au_status := Open\<rparr>)"
    using accepted_bid_guarantees[OF p n] s unfolding f by auto
  then show ?thesis using w p s by blast
qed

definition signal_calls :: "(u64 \<times> address list \<times> auction_call) list" where
  "signal_calls =
     [(100, [8], SetFactoryContract 8),
      (100, [8], InitAuction ''lot'' English 100 200 50 500 None None None None),
      (120, [6], PlaceBid ''lot'' 6 200),
      (200, [], CloseAuction ''lot'')]"

theorem auction_signals_only_witness:
  "\<exists>w w'. replay book_token signal_calls (fresh_auction_contract 100 9 None (\<lambda>_. 1000)) = Inr w \<and>
     settle_default_liquidation_auction book_token ''lot'' 8 5 (auction_frame 210 [8] w) = Inr (200, w') \<and>
     is_settled ''lot'' w' \<and> au_tokens w' = au_tokens w \<and> (\<forall>v. claim_auction book_token ''lot'' (auction_frame 210 [6] w) \<noteq> Inr v)"
proof -
  let ?w0 = "fresh_auction_contract 100 9 None (\<lambda>_. 1000) :: (address \<times> address \<Rightarrow> int) auction_env"
  obtain w w' where w: "replay book_token signal_calls ?w0 = Inr w"
    and s: "settle_default_liquidation_auction book_token ''lot'' 8 5 (auction_frame 210 [8] w) = Inr (200, w')"
    by (simp add: signal_calls_def fresh_auction_contract_def auction_eval)
  show ?thesis using auction_signals_only[OF replay_runs[OF w]] w s by blast
qed

theorem auction_paid_out_once_witness:
  "\<exists>(v :: (address \<times> address \<Rightarrow> int) auction_env) ls w. auction_run book_token v ls w \<and> ls \<noteq> [] \<and>
     last ls = Some ([6], ClaimAuction ''lot'') \<and> length (filter (pays_out ''lot'') ls) \<le> 1"
proof -
  obtain v w where w: "replay book_token (drop 2 sample_calls) (v :: (address \<times> address \<Rightarrow> int) auction_env) = Inr w"
  proof -
    obtain v where v: "replay book_token (take 2 sample_calls) sample_contract = Inr v"
      by (simp add: sample_calls_def sample_contract_def fresh_auction_contract_def auction_eval)
    then obtain w where "replay book_token (drop 2 sample_calls) v = Inr w"
      by (auto simp: sample_calls_def sample_contract_def fresh_auction_contract_def auction_eval)
    then show ?thesis using that by blast
  qed
  let ?ls = "map (\<lambda>(ts, l). Some l) (drop 2 sample_calls)"
  have n: "\<forall>l\<in>set ?ls. \<not> opens_anew ''lot'' l" by (simp add: sample_calls_def opens_anew_def)
  have l: "?ls \<noteq> []" "last ?ls = Some ([6], ClaimAuction ''lot'')" by (simp_all add: sample_calls_def)
  show ?thesis using auction_paid_out_once[OF replay_runs[OF w] n] replay_runs[OF w] l by blast
qed

end
