(* ===== verification/Liquidation.thy ===== *)
theory Liquidation
  imports AuctionRun
begin

text \<open>
  The default-liquidation hand-off: the credit contract's \<^verbatim>\<open>settle_default_liquidation\<close>
  (\<open>Lifecycle\<close>) with an auction contract configured.  First for any auction client: what a settlement that succeeds
  has obtained from it (\<^verbatim>\<open>docs/CROSS_CONTRACT_HANDSHAKE.md\<close>).  Then with the auction contract of the repository
  (\<open>Auction\<close>) as the client: it exports no \<^verbatim>\<open>get_version\<close>, so the handshake fails and every settlement is refused.
\<close>

section \<open>The handshake\<close>

lemma lifecycle_settle_tokens:
  assumes "lifecycle_settle_default_liquidation b r sid cf op w = Inr w'"
  shows "tokens w' = tokens w"
proof -
  from assms obtain k l w1 w2 orc where a: "apply_accrual k w = Inr (l, w1)"
    and p: "persist_credit_line b (settlement_status (snd (allocate_recovery l r))) (utilized_amount k) (Some (status l))
              (if status (settlement_status (snd (allocate_recovery l r))) = Closed
               then decrement_pending_auction_count w1 else w1) = Inr w2"
    and w': "w' = record_settlement b sid r (fst (allocate_recovery l r)) cf orc (settlement_status (snd (allocate_recovery l r))) w2"
    unfolding lifecycle_settle_default_liquidation_def by (auto simp: Let_def)
  have "tokens w2 = tokens w1" using persist_line_write[OF p] by (auto simp: line_write_def decrement_pending_auction_count_def)
  moreover have "tokens w1 = tokens w" using acc.accrue_env[OF a] by auto
  moreover have "tokens w' = tokens w2"
    by (simp add: w' record_settlement_def record_accepted_oracle_price_def set_oracle_last_price_def
      publish_line_def clear_repayment_schedule_def emit_def Let_def split: option.split)
  ultimately show ?thesis by simp
qed

text \<open>C25 (\<open>settle_default_liquidation\<close> with an auction contract configured): whatever the auction contract does, a settlement succeeds
  only if the contract was asked for its version and answered with major version 1, then settled the auction under this very
  settlement id for this credit contract and this borrower, and returned exactly the amount that the admin states as recovered; the
  state outside the credit contract is the one the auction contract left.  Without a configured auction contract nothing
  outside changes.\<close>

theorem settlement_handshake:
  assumes "settle_default_liquidation auc b r sid cf op w = Inr w'"
  shows "case st_auction_contract w of
      None \<Rightarrow> tokens w' = tokens w
    | Some a \<Rightarrow> (\<exists>v. ac_get_version auc (tokens w) a = Some v \<and> pv_major v = 1) \<and>
        ac_settle auc (tokens w) a sid (self_addr w) b = Some (r, tokens w')"
proof -
  from assms obtain ad w1 w2 w3 w4 where u: "require_admin_auth w = Inr (ad, w1)"
    and g: "enter_reentrancy_guard w1 = Inr w2" and h: "auction_settlement_hook auc b r sid w2 = Inr w3"
    and l: "lifecycle_settle_default_liquidation b r sid cf op w3 = Inr w4" and w': "w' = clear_reentrancy_guard w4"
    by (auto simp: settle_default_liquidation_def)
  have s: "st_auction_contract w2 = st_auction_contract w" "self_addr w2 = self_addr w" "tokens w2 = tokens w"
    using require_admin_auth_Inr[OF u] g by (auto simp: enter_reentrancy_guard_def set_reentrancy_guard_def)
  have "tokens w' = tokens w3" using lifecycle_settle_tokens[OF l] by (simp add: w' clear_reentrancy_guard_def)
  then show ?thesis using h s
    by (auto simp: auction_settlement_hook_def verify_version_def get_current_version_def split: option.splits)
qed

section \<open>With the auction contract of the repository\<close>

text \<open>The auction contract as the callee: a settlement runs its \<open>settle_default_liquidation_auction\<close> on behalf of the caller; a call of
  \<^verbatim>\<open>get_version\<close>, which it does not export, fails.\<close>

definition auction_service :: "'t token_client \<Rightarrow> 't auction_env auction_client" where
  "auction_service tok =
     \<lparr>ac_get_version = (\<lambda>_ _. None),
      ac_settle = (\<lambda>s _ settlement_id credit_contract b.
        case settle_default_liquidation_auction tok settlement_id credit_contract b
               (auction_frame (au_ts s) [credit_contract] s) of
          Inl _ \<Rightarrow> None
        | Inr x \<Rightarrow> Some x)\<rparr>"

text \<open>Once it is configured every settlement is refused, and one that the admin signs is refused with \<open>AuctionCallFailed\<close>.\<close>

theorem settlement_needs_version_entrypoint:
  assumes "st_auction_contract w = Some a"
  shows "settle_default_liquidation (auction_service tok) b r sid cf op w \<noteq> Inr w'"
    and "require_admin_auth w = Inr x \<Longrightarrow> st_reentrancy w \<noteq> Some True \<Longrightarrow>
      settle_default_liquidation (auction_service tok) b r sid cf op w = Inl (Contract AuctionCallFailed)"
proof -
  have "\<not> (\<exists>w'. settle_default_liquidation (auction_service tok) b r sid cf op w = Inr w')"
    using settlement_handshake[of "auction_service tok" b r sid cf op w] assms by (auto simp: auction_service_def)
  then show "settle_default_liquidation (auction_service tok) b r sid cf op w \<noteq> Inr w'" by blast
  show "require_admin_auth w = Inr x \<Longrightarrow> st_reentrancy w \<noteq> Some True \<Longrightarrow>
      settle_default_liquidation (auction_service tok) b r sid cf op w = Inl (Contract AuctionCallFailed)"
    using assms require_admin_auth_Inr[of w "fst x" "snd x"]
    by (cases x) (auto simp: settle_default_liquidation_def enter_reentrancy_guard_def set_reentrancy_guard_def auction_settlement_hook_def
        auction_service_def ok_or_def ensure_def)
qed

section \<open>A concrete hand-off\<close>

text \<open>A client that answers the handshake and pays from an account of its own: its state is a balance.\<close>

definition paying_auction :: "int auction_client" where
  "paying_auction = \<lparr>ac_get_version = (\<lambda>_ _. Some \<lparr>pv_major = 1, pv_minor = 4\<rparr>),
     ac_settle = (\<lambda>s _ settlement_id _ _. if settlement_id = ''s1'' \<and> 4 \<le> s then Some (4, s - 4) else None)\<rparr>"

definition liquidation_env :: "'x \<Rightarrow> 'x env" where
  "liquidation_env x = (genesis 100 9 x)\<lparr>signers := [1], st_admin := Some 1, st_auction_contract := Some 20,
     st_lines := [5 \<mapsto> \<lparr>borrower = 5, credit_limit = 10, utilized_amount = 8, interest_rate_bps = 0, risk_score = 0,
        status = Defaulted, last_rate_update_ts = 0, accrued_interest = 3, last_accrual_ts = 100, suspension_ts = 0\<rparr>],
     st_credit_line_id := [5 \<mapsto> 0], st_borrower_by_id := [0 \<mapsto> 5], st_credit_line_count := Some 1,
     st_active_line_count := Some 0, st_pending_auction_count := Some 1, st_total_utilized := Some 8\<rparr>"

theorem settlement_handshake_witness:
  "\<exists>w'. settle_default_liquidation paying_auction 5 4 ''s1'' 5000 None (liquidation_env 10) = Inr w' \<and> tokens w' = 6"
proof -
  have "\<exists>w'. settle_default_liquidation paying_auction 5 4 ''s1'' 5000 None (liquidation_env 10) = Inr w'"
    by (simp add: settle_eval liquidation_env_def paying_auction_def verify_version_def get_current_version_def)
  then obtain w' where w': "settle_default_liquidation paying_auction 5 4 ''s1'' 5000 None (liquidation_env 10) = Inr w'" by blast
  then show ?thesis using settlement_handshake[OF w'] by (auto simp: liquidation_env_def genesis_def paying_auction_def)
qed

theorem settlement_needs_version_entrypoint_witness:
  "\<forall>w'. settle_default_liquidation (auction_service book_token) 5 4 ''s1'' 5000 None (liquidation_env x) \<noteq> Inr w'"
  using settlement_needs_version_entrypoint(1)[of "liquidation_env x" 20] by (simp add: liquidation_env_def)

end
