(* ===== verification/DutchCurve.thy ===== *)
theory DutchCurve
  imports Auction Complex_Main
begin

text \<open>
  The prices of a dutch auction against the formulas that \<^verbatim>\<open>compute_dutch_price\<close> documents
  (\<^verbatim>\<open>gateway-contract/contracts/auction_contract/src/lib.rs\<close>).  The linear and the stepped curve are met exactly.
  The exponential one is documented as a real power of \<open>0.99\<close>; the code truncates the factor to four digits at
  every step, and the distance between the two is bounded here.
\<close>

text \<open>The factor after \<open>n\<close> truncated steps against \<open>0.99^n\<close>: never above it, and below it by less than one percent.\<close>

lemma exp_factor_step:
  "of_int (exp_factor (Suc n)) \<le> 99 / 100 * (of_int (exp_factor n) :: real)"
  "99 / 100 * (of_int (exp_factor n) :: real) - 1 \<le> of_int (exp_factor (Suc n))"
proof -
  let ?x = "exp_factor n * 9900"
  have e: "exp_factor (Suc n) = ?x div 10000" by (simp add: exp_factor_def)
  have "?x div 10000 * 10000 \<le> ?x" "?x < ?x div 10000 * 10000 + 10000"
    using div_mult_mod_eq[of ?x 10000] pos_mod_bound[of 10000 ?x] pos_mod_sign[of 10000 ?x] by linarith+
  then have "real_of_int (?x div 10000 * 10000) \<le> real_of_int ?x" "real_of_int ?x < real_of_int (?x div 10000 * 10000 + 10000)"
    by (simp_all only: of_int_le_iff of_int_less_iff)
  then show "of_int (exp_factor (Suc n)) \<le> 99 / 100 * (of_int (exp_factor n) :: real)"
    "99 / 100 * (of_int (exp_factor n) :: real) - 1 \<le> of_int (exp_factor (Suc n))"
    unfolding e by simp_all
qed

lemma exp_factor_near:
  "of_int (exp_factor n) \<le> 10000 * (99 / 100 :: real) ^ n"
  "10000 * (99 / 100 :: real) ^ n - 100 * (1 - (99 / 100) ^ n) \<le> of_int (exp_factor n)"
proof (induction n)
  case 0
  show "of_int (exp_factor 0) \<le> 10000 * (99 / 100 :: real) ^ 0"
    "10000 * (99 / 100 :: real) ^ 0 - 100 * (1 - (99 / 100) ^ 0) \<le> of_int (exp_factor 0)" by (simp_all add: exp_factor_def)
next
  case (Suc n)
  define q where "q = (99 / 100 :: real) ^ n"
  have q: "(99 / 100 :: real) ^ Suc n = 99 / 100 * q" by (simp add: q_def)
  note h = exp_factor_step[of n] Suc[folded q_def]
  show "of_int (exp_factor (Suc n)) \<le> 10000 * (99 / 100 :: real) ^ Suc n" using h(1,3) unfolding q by linarith
  show "10000 * (99 / 100 :: real) ^ Suc n - 100 * (1 - (99 / 100) ^ Suc n) \<le> of_int (exp_factor (Suc n))"
    using h(2,4) unfolding q by (simp add: algebra_simps)
qed

lemma exponential_near:
  fixes start flr :: int and n :: nat
  assumes "flr \<le> start"
  defines "q \<equiv> (99 / 100 :: real) ^ n" and "r \<equiv> start - (start - flr) * (10000 - exp_factor n) div 10000"
  shows "of_int start - of_int (start - flr) * (1 - q) - of_int (start - flr) * (1 - q) / 100 \<le> of_int r"
    and "of_int r < of_int start - of_int (start - flr) * (1 - q) + 1"
proof -
  define p f where "p = real_of_int (start - flr)" and "f = real_of_int (exp_factor n)"
  let ?x = "(start - flr) * (10000 - exp_factor n)"
  have "?x div 10000 * 10000 \<le> ?x" "?x < ?x div 10000 * 10000 + 10000"
    using div_mult_mod_eq[of ?x 10000] pos_mod_bound[of 10000 ?x] pos_mod_sign[of 10000 ?x] by linarith+
  then have "real_of_int (?x div 10000 * 10000) \<le> real_of_int ?x" "real_of_int ?x < real_of_int (?x div 10000 * 10000 + 10000)"
    by (simp_all only: of_int_le_iff of_int_less_iff)
  then have d: "10000 * real_of_int (?x div 10000) \<le> p * (10000 - f)" "p * (10000 - f) < 10000 * real_of_int (?x div 10000) + 10000"
    by (simp_all add: p_def f_def)
  define k where "k = real_of_int (?x div 10000)"
  have r: "real_of_int r = real_of_int start - k" by (simp add: r_def k_def)
  have p0: "0 \<le> p" using assms(1) by (simp add: p_def)
  have "p * f \<le> p * (10000 * q)" "p * (10000 * q - 100 * (1 - q)) \<le> p * f"
    using exp_factor_near[of n] p0 unfolding f_def q_def by (auto intro!: mult_left_mono)
  then have "p * f \<le> 10000 * (p * q)" "10000 * (p * q) - 100 * p + 100 * (p * q) \<le> p * f"
    "10000 * k \<le> 10000 * p - p * f" "10000 * p - p * f < 10000 * k + 10000"
    using d by (simp_all add: k_def algebra_simps)
  then have "real_of_int start - (p - p * q) - (p - p * q) / 100 \<le> real_of_int r" "real_of_int r < real_of_int start - (p - p * q) + 1"
    unfolding r by (simp_all add: field_simps)
  then have "real_of_int start - p * (1 - q) - p * (1 - q) / 100 \<le> real_of_int r" "real_of_int r < real_of_int start - p * (1 - q) + 1"
    by (simp_all add: right_diff_distrib)
  then show "of_int start - of_int (start - flr) * (1 - q) - of_int (start - flr) * (1 - q) / 100 \<le> of_int r"
    "of_int r < of_int start - of_int (start - flr) * (1 - q) + 1" by (simp_all add: p_def)
qed

text \<open>C29 (\<open>compute_dutch_price\<close>): for valid parameters a price is returned at every time; from the end of the auction on it is the
  floor; before, on the linear and the stepped curve it is exactly the documented \<open>p(t)\<close>, and on the exponential curve it lies
  less than one unit above and at most one percent of the price drop so far below the documented
  \<open>start - (start - floor) * (1 - 0.99^min(t,100))\<close>, because the code truncates the factor at every step.\<close>

theorem dutch_price_documented:
  assumes "dutch_params_ok decay start flr duration steps" and "0 \<le> t" and "decay = Stepped \<longrightarrow> n = Some steps"
  shows "\<exists>r. compute_dutch_price start flr t duration decay n = Inr r \<and>
     (if duration \<le> t then r = flr
      else case decay of
        Exponential \<Rightarrow>
          let drop = of_int (start - flr) * (1 - (99 / 100 :: real) ^ nat (min t 100)) in
          of_int start - drop - drop / 100 \<le> of_int r \<and> of_int r < of_int start - drop + 1
      | Stepped \<Rightarrow> r = start - (start - flr) * (t * steps div duration) div steps
      | _ \<Rightarrow> r = start - (start - flr) * t div duration)"
proof -
  have le: "flr \<le> start" using assms(1) by (simp add: dutch_params_ok_def)
  show ?thesis
    using dutch_price_value[OF assms] exponential_near[OF le, of "nat (min t 100)"]
    by (cases decay) (auto simp: dutch_curve_def Let_def)
qed

theorem dutch_price_documented_witness:
  "\<exists>r. compute_dutch_price 1000000 0 2 100 Exponential None = Inr r \<and>
     980100 - 199 \<le> (of_int r :: real) \<and> (of_int r :: real) < 980101"
  using dutch_price_documented[of Exponential 1000000 0 100 1 2 None]
  by (auto simp: dutch_params_ok_def int_defs Let_def power2_eq_square)

end
