(* ===== verification/AuctionStore.thy ===== *)
theory AuctionStore
  imports Auction
begin

text \<open>
  The id-scoped storage interface of the auction contract (\<^verbatim>\<open>storage.rs\<close>, the
  \<^verbatim>\<open>auction_*\<close> family) and the instance cells of the current auction.  No entrypoint calls
  them; the module offers them to deployments that number their auctions.  Every cell is an instance of
  one interface, the locale \<open>keyed_cell\<close>, whose laws give last-write-wins, independence of the ids
  and that a cell is written exactly once per write.
\<close>

section \<open>Cells\<close>

record auction_cells =
  cell_status :: "u32 \<rightharpoonup> auction_status"
  cell_seller :: "u32 \<rightharpoonup> address"
  cell_asset :: "u32 \<rightharpoonup> address"
  cell_min_bid :: "u32 \<rightharpoonup> i128"
  cell_end_time :: "u32 \<rightharpoonup> u64"
  cell_highest_bidder :: "u32 \<rightharpoonup> address"
  cell_highest_bid :: "u32 \<rightharpoonup> i128"
  cell_claimed :: "u32 \<rightharpoonup> bool"
  cur_status :: "auction_status option"
  cur_highest_bidder :: "address option"
  cur_end_time :: "u64 option"
  cur_highest_bid :: "u128 option"

definition auction_exists :: "auction_cells \<Rightarrow> u32 \<Rightarrow> bool" where
  "auction_exists w i \<longleftrightarrow> cell_status w i \<noteq> None"

definition auction_get_status :: "auction_cells \<Rightarrow> u32 \<Rightarrow> auction_status" where
  "auction_get_status w i = (case cell_status w i of None \<Rightarrow> Open | Some x \<Rightarrow> x)"

definition auction_set_status :: "u32 \<Rightarrow> auction_status \<Rightarrow> auction_cells \<Rightarrow> auction_cells" where
  "auction_set_status i x w = w\<lparr>cell_status := (cell_status w)(i \<mapsto> x)\<rparr>"

definition auction_get_seller :: "auction_cells \<Rightarrow> u32 \<Rightarrow> address option" where
  "auction_get_seller w i = cell_seller w i"

definition auction_set_seller :: "u32 \<Rightarrow> address \<Rightarrow> auction_cells \<Rightarrow> auction_cells" where
  "auction_set_seller i x w = w\<lparr>cell_seller := (cell_seller w)(i \<mapsto> x)\<rparr>"

definition auction_get_asset :: "auction_cells \<Rightarrow> u32 \<Rightarrow> address option" where
  "auction_get_asset w i = cell_asset w i"

definition auction_set_asset :: "u32 \<Rightarrow> address \<Rightarrow> auction_cells \<Rightarrow> auction_cells" where
  "auction_set_asset i x w = w\<lparr>cell_asset := (cell_asset w)(i \<mapsto> x)\<rparr>"

definition auction_get_min_bid :: "auction_cells \<Rightarrow> u32 \<Rightarrow> i128" where
  "auction_get_min_bid w i = (case cell_min_bid w i of None \<Rightarrow> 0 | Some x \<Rightarrow> x)"

definition auction_set_min_bid :: "u32 \<Rightarrow> i128 \<Rightarrow> auction_cells \<Rightarrow> auction_cells" where
  "auction_set_min_bid i x w = w\<lparr>cell_min_bid := (cell_min_bid w)(i \<mapsto> x)\<rparr>"

definition auction_get_end_time :: "auction_cells \<Rightarrow> u32 \<Rightarrow> u64" where
  "auction_get_end_time w i = (case cell_end_time w i of None \<Rightarrow> 0 | Some x \<Rightarrow> x)"

definition auction_set_end_time :: "u32 \<Rightarrow> u64 \<Rightarrow> auction_cells \<Rightarrow> auction_cells" where
  "auction_set_end_time i x w = w\<lparr>cell_end_time := (cell_end_time w)(i \<mapsto> x)\<rparr>"

definition auction_get_highest_bidder :: "auction_cells \<Rightarrow> u32 \<Rightarrow> address option" where
  "auction_get_highest_bidder w i = cell_highest_bidder w i"

definition auction_set_highest_bidder :: "u32 \<Rightarrow> address \<Rightarrow> auction_cells \<Rightarrow> auction_cells" where
  "auction_set_highest_bidder i x w = w\<lparr>cell_highest_bidder := (cell_highest_bidder w)(i \<mapsto> x)\<rparr>"

definition auction_get_highest_bid :: "auction_cells \<Rightarrow> u32 \<Rightarrow> i128" where
  "auction_get_highest_bid w i = (case cell_highest_bid w i of None \<Rightarrow> 0 | Some x \<Rightarrow> x)"

definition auction_set_highest_bid :: "u32 \<Rightarrow> i128 \<Rightarrow> auction_cells \<Rightarrow> auction_cells" where
  "auction_set_highest_bid i x w = w\<lparr>cell_highest_bid := (cell_highest_bid w)(i \<mapsto> x)\<rparr>"

definition auction_is_claimed :: "auction_cells \<Rightarrow> u32 \<Rightarrow> bool" where
  "auction_is_claimed w i = (case cell_claimed w i of None \<Rightarrow> False | Some x \<Rightarrow> x)"

definition auction_set_claimed :: "u32 \<Rightarrow> auction_cells \<Rightarrow> auction_cells" where
  "auction_set_claimed i w = w\<lparr>cell_claimed := (cell_claimed w)(i \<mapsto> True)\<rparr>"

definition get_status :: "auction_cells \<Rightarrow> auction_status" where
  "get_status w = (case cur_status w of None \<Rightarrow> Open | Some x \<Rightarrow> x)"

definition set_status :: "auction_status \<Rightarrow> auction_cells \<Rightarrow> auction_cells" where
  "set_status x w = w\<lparr>cur_status := Some x\<rparr>"

definition get_end_time :: "auction_cells \<Rightarrow> u64" where
  "get_end_time w = (case cur_end_time w of None \<Rightarrow> 0 | Some x \<Rightarrow> x)"

definition set_end_time :: "u64 \<Rightarrow> auction_cells \<Rightarrow> auction_cells" where
  "set_end_time x w = w\<lparr>cur_end_time := Some x\<rparr>"

definition get_highest_bid :: "auction_cells \<Rightarrow> u128" where
  "get_highest_bid w = (case cur_highest_bid w of None \<Rightarrow> 0 | Some x \<Rightarrow> x)"

definition set_highest_bid :: "u128 \<Rightarrow> auction_cells \<Rightarrow> auction_cells" where
  "set_highest_bid x w = w\<lparr>cur_highest_bid := Some x\<rparr>"

definition get_highest_bidder :: "auction_cells \<Rightarrow> address option" where
  "get_highest_bidder w = cur_highest_bidder w"

definition set_highest_bidder :: "address \<Rightarrow> auction_cells \<Rightarrow> auction_cells" where
  "set_highest_bidder x w = w\<lparr>cur_highest_bidder := Some x\<rparr>"

section \<open>The interface of a cell\<close>

locale keyed_cell =
  fixes get :: "auction_cells \<Rightarrow> u32 \<Rightarrow> 'v" and put :: "u32 \<Rightarrow> 'x \<Rightarrow> auction_cells \<Rightarrow> auction_cells"
    and read :: "'x \<Rightarrow> 'v"
  assumes get_put: "get (put i x w) j = (if j = i then read x else get w j)"
    and put_put: "put i y (put i x w) = put i y w"
    and put_commute: "i \<noteq> j \<Longrightarrow> put i x (put j y w) = put j y (put i x w)"
begin

text \<open>After any sequence of writes a cell holds the last value written to its id, or what it held.\<close>

lemma get_writes:
  "get (fold (\<lambda>(i, x). put i x) ws w) j =
     (case filter (\<lambda>(i, x). i = j) ws of [] \<Rightarrow> get w j | fs \<Rightarrow> read (snd (last fs)))"
proof (induction ws rule: rev_induct)
  case Nil
  then show ?case by simp
next
  case (snoc x xs)
  then show ?case by (cases x) (auto simp: get_put split: list.splits)
qed

text \<open>Writes to distinct ids may be reordered.\<close>

lemma writes_commute:
  "j \<notin> fst ` set ws \<Longrightarrow> fold (\<lambda>(i, x). put i x) ws (put j y w) = put j y (fold (\<lambda>(i, x). put i x) ws w)"
proof (induction ws arbitrary: w)
  case Nil
  then show ?case by simp
next
  case (Cons v ws)
  obtain i x where v: "v = (i, x)" by (cases v)
  then have "put i x (put j y w) = put j y (put i x w)" using Cons.prems by (intro put_commute) auto
  then show ?case using Cons by (simp add: v)
qed

end

interpretation status_cell: keyed_cell auction_get_status auction_set_status "(\<lambda>x. x)"
  by unfold_locales (simp_all add: auction_get_status_def auction_set_status_def fun_upd_twist)

interpretation seller_cell: keyed_cell auction_get_seller auction_set_seller "Some"
  by unfold_locales (simp_all add: auction_get_seller_def auction_set_seller_def fun_upd_twist)

interpretation asset_cell: keyed_cell auction_get_asset auction_set_asset "Some"
  by unfold_locales (simp_all add: auction_get_asset_def auction_set_asset_def fun_upd_twist)

interpretation min_bid_cell: keyed_cell auction_get_min_bid auction_set_min_bid "(\<lambda>x. x)"
  by unfold_locales (simp_all add: auction_get_min_bid_def auction_set_min_bid_def fun_upd_twist)

interpretation end_time_cell: keyed_cell auction_get_end_time auction_set_end_time "(\<lambda>x. x)"
  by unfold_locales (simp_all add: auction_get_end_time_def auction_set_end_time_def fun_upd_twist)

interpretation highest_bidder_cell: keyed_cell auction_get_highest_bidder auction_set_highest_bidder "Some"
  by unfold_locales (simp_all add: auction_get_highest_bidder_def auction_set_highest_bidder_def fun_upd_twist)

interpretation highest_bid_cell: keyed_cell auction_get_highest_bid auction_set_highest_bid "(\<lambda>x. x)"
  by unfold_locales (simp_all add: auction_get_highest_bid_def auction_set_highest_bid_def fun_upd_twist)

interpretation claimed_cell: keyed_cell auction_is_claimed "\<lambda>i (_ :: unit). auction_set_claimed i" "\<lambda>_. True"
  by unfold_locales (simp_all add: auction_is_claimed_def auction_set_claimed_def fun_upd_twist)

text \<open>An auction exists from the first write of its status on, and no other write creates or removes one.\<close>

lemma auction_exists_writes:
  "auction_exists (fold (\<lambda>(i, x). auction_set_status i x) ws w) j \<longleftrightarrow> auction_exists w j \<or> j \<in> fst ` set ws"
  by (induction ws arbitrary: w) (auto simp: auction_exists_def auction_set_status_def)

lemma auction_exists_others [simp]:
  "auction_exists (auction_set_seller i seller_v w) j = auction_exists w j"
  "auction_exists (auction_set_asset i asset_v w) j = auction_exists w j"
  "auction_exists (auction_set_min_bid i min_bid_v w) j = auction_exists w j"
  "auction_exists (auction_set_end_time i end_time_v w) j = auction_exists w j"
  "auction_exists (auction_set_highest_bidder i highest_bidder_v w) j = auction_exists w j"
  "auction_exists (auction_set_highest_bid i highest_bid_v w) j = auction_exists w j"
  "auction_exists (auction_set_claimed i w) j = auction_exists w j"
  by (simp_all add: auction_exists_def auction_set_seller_def auction_set_asset_def auction_set_min_bid_def auction_set_end_time_def auction_set_highest_bidder_def auction_set_highest_bid_def auction_set_claimed_def)

text \<open>Once claimed, always claimed: no cell operation clears the flag.\<close>

lemma claimed_sticky:
  "auction_is_claimed w j \<Longrightarrow> auction_is_claimed (auction_set_claimed i w) j"
  by (simp add: claimed_cell.get_put)

end
