(* ===== verification/Escrow.thy ===== *)
theory Escrow
  imports Borrow
begin

text \<open>
  The crowdfunding contracts beside the credit protocol: the campaign escrow
  (\<^verbatim>\<open>contracts/soroban/contracts/escrow/src/lib.rs\<close>) and the milestone contract that releases it
  (\<^verbatim>\<open>milestones/src/lib.rs\<close>).  The escrow keeps each contributor's balance and the total raised; its
  admin - the milestone contract - approves amounts that are then paid out less a capped platform fee.
  The milestone contract's state contains the escrow it calls.  A bare arithmetic operator that leaves
  \<open>i128\<close> panics.  Shown: the fee stays capped, the split of a withdrawal is exact, the total raised is
  the sum of the balances over every run, and a milestone is released at most once; and that the
  approval of a withdrawal can be forged with a negative amount.
\<close>

named_theorems escrow_defs "unfoldings of the escrow contract's helpers"

declare or_zero_def [escrow_defs]

section \<open>Authorisation and arithmetic\<close>

definition authorize :: "address \<Rightarrow> address list \<Rightarrow> address list \<Rightarrow> address list res" where
  "authorize a sg fr =
     (if a \<notin> set sg then Inl AuthMissing
      else if a \<in> set fr then Inl AuthExistingValue
      else Inr (a # fr))"

definition add_i128 :: "i128 \<Rightarrow> i128 \<Rightarrow> i128 res" where
  "add_i128 a b = ok_or RustPanic (checked_add_i128 a b)"

definition sub_i128 :: "i128 \<Rightarrow> i128 \<Rightarrow> i128 res" where
  "sub_i128 a b = ok_or RustPanic (checked_sub_i128 a b)"

definition mul_i128 :: "i128 \<Rightarrow> i128 \<Rightarrow> i128 res" where
  "mul_i128 a b = ok_or RustPanic (checked_mul_i128 a b)"

lemma authorize_Inr [simp]: "authorize a sg fr = Inr x \<longleftrightarrow> a \<in> set sg \<and> a \<notin> set fr \<and> x = a # fr"
  by (auto simp: authorize_def)

lemma i128_ops_Inr [simp]:
  "add_i128 a b = Inr x \<longleftrightarrow> in_i128 (a + b) \<and> x = a + b"
  "sub_i128 a b = Inr x \<longleftrightarrow> in_i128 (a - b) \<and> x = a - b"
  "mul_i128 a b = Inr x \<longleftrightarrow> in_i128 (a * b) \<and> x = a * b"
  by (auto simp: add_i128_def sub_i128_def mul_i128_def checked_arith)

section \<open>The escrow\<close>

definition MAX_FEE_BPS :: u32 where "MAX_FEE_BPS = 1000"

datatype escrow_event =
    DepositEvent address i128
  | FeeProposedEvent address u32
  | FeeChangedEvent address u32
  | FeeCancelledEvent address
  | WithdrawalEvent address i128 i128 i128
  | RefundEvent address i128

record 't escrow_env =
  es_ts :: u64
  es_self :: address
  es_signers :: "address list"
  es_frame :: "address list"
  es_events :: "escrow_event list"
  es_tokens :: 't
  es_admin :: "address option"
  es_campaign_id :: "u64 option"
  es_target :: "i128 option"
  es_deadline :: "u64 option"
  es_asset :: "address option"
  es_balances :: "address \<rightharpoonup> i128"
  es_total_raised :: "i128 option"
  es_approved :: "i128 option"
  es_is_initialized :: "bool option"
  es_fee_bps :: "u32 option"
  es_fee_recipient :: "address option"
  es_pending_fee :: "u32 option"

definition escrow_publish :: "escrow_event \<Rightarrow> 't escrow_env \<Rightarrow> 't escrow_env" where
  [escrow_defs]: "escrow_publish e w = w\<lparr>es_events := es_events w @ [e]\<rparr>"

definition escrow_bump_persistent :: "address \<Rightarrow> 't escrow_env \<Rightarrow> unit res" where
  "escrow_bump_persistent a w = ensure (es_balances w a \<noteq> None) StorageMissingValue"

definition escrow_transfer ::
  "'t token_client \<Rightarrow> address \<Rightarrow> address \<Rightarrow> address \<Rightarrow> i128 \<Rightarrow> 't escrow_env \<Rightarrow> 't escrow_env res" where
  "escrow_transfer tok t src dst amount w =
     (case tk_transfer tok (es_tokens w) t src dst amount of
        None \<Rightarrow> Inl CalleeTrapped
      | Some s \<Rightarrow> Inr (w\<lparr>es_tokens := s\<rparr>))"

definition escrow_auth :: "address \<Rightarrow> 't escrow_env \<Rightarrow> 't escrow_env res" where
  "escrow_auth a w = and_then (authorize a (es_signers w) (es_frame w)) (\<lambda>fr. Inr (w\<lparr>es_frame := fr\<rparr>))"

definition escrow_admin_auth :: "'t escrow_env \<Rightarrow> (address \<times> 't escrow_env) res" where
  "escrow_admin_auth w =
     and_then (ok_or RustPanic (es_admin w)) (\<lambda>admin.
     and_then (escrow_auth admin w) (\<lambda>w. Inr (admin, w)))"

definition escrow_initialize ::
  "address \<Rightarrow> u64 \<Rightarrow> i128 \<Rightarrow> u64 \<Rightarrow> address \<Rightarrow> u32 \<Rightarrow> address \<Rightarrow> 't escrow_env \<Rightarrow> 't escrow_env res" where
  "escrow_initialize admin campaign_id target deadline asset platform_fee_bps platform_fee_recipient w =
     and_then (ensure (es_is_initialized w = None) RustPanic) (\<lambda>_.
     and_then (ensure (\<not> platform_fee_bps > MAX_FEE_BPS) RustPanic) (\<lambda>_.
     Inr (w\<lparr>es_admin := Some admin, es_campaign_id := Some campaign_id, es_target := Some target,
            es_deadline := Some deadline, es_asset := Some asset, es_total_raised := Some 0,
            es_approved := Some 0, es_is_initialized := Some True, es_fee_bps := Some platform_fee_bps,
            es_fee_recipient := Some platform_fee_recipient\<rparr>)))"

definition escrow_deposit :: "'t token_client \<Rightarrow> address \<Rightarrow> i128 \<Rightarrow> 't escrow_env \<Rightarrow> 't escrow_env res" where
  "escrow_deposit tok from amount w =
     and_then (escrow_auth from w) (\<lambda>w.
     and_then (ok_or RustPanic (es_deadline w)) (\<lambda>deadline.
     and_then (ensure (\<not> es_ts w > deadline) RustPanic) (\<lambda>_.
     and_then (ok_or RustPanic (es_asset w)) (\<lambda>asset.
     and_then (escrow_transfer tok asset from (es_self w) amount w) (\<lambda>w.
     and_then (add_i128 (or_zero (es_balances w from)) amount) (\<lambda>new_balance.
     let w = w\<lparr>es_balances := (es_balances w)(from \<mapsto> new_balance)\<rparr> in
     and_then (escrow_bump_persistent from w) (\<lambda>_.
     and_then (add_i128 (or_zero (es_total_raised w)) amount) (\<lambda>total.
     Inr (escrow_publish (DepositEvent from amount) (w\<lparr>es_total_raised := Some total\<rparr>))))))))))"

definition approve_withdrawal :: "i128 \<Rightarrow> 't escrow_env \<Rightarrow> 't escrow_env res" where
  "approve_withdrawal release_amount w =
     and_then (escrow_admin_auth w) (\<lambda>(_, w).
     and_then (add_i128 (or_zero (es_approved w)) release_amount) (\<lambda>approved.
     Inr (w\<lparr>es_approved := Some approved\<rparr>)))"

definition propose_fee_change :: "u32 \<Rightarrow> 't escrow_env \<Rightarrow> 't escrow_env res" where
  "propose_fee_change new_fee_bps w =
     and_then (escrow_admin_auth w) (\<lambda>(admin, w).
     and_then (ensure (\<not> new_fee_bps > MAX_FEE_BPS) RustPanic) (\<lambda>_.
     Inr (escrow_publish (FeeProposedEvent admin new_fee_bps) (w\<lparr>es_pending_fee := Some new_fee_bps\<rparr>))))"

definition confirm_fee_change :: "'t escrow_env \<Rightarrow> 't escrow_env res" where
  "confirm_fee_change w =
     and_then (escrow_admin_auth w) (\<lambda>(admin, w).
     and_then (ok_or RustPanic (es_pending_fee w)) (\<lambda>new_fee_bps.
     and_then (ensure (\<not> new_fee_bps > MAX_FEE_BPS) RustPanic) (\<lambda>_.
     Inr (escrow_publish (FeeChangedEvent admin new_fee_bps)
            (w\<lparr>es_fee_bps := Some new_fee_bps, es_pending_fee := None\<rparr>)))))"

definition cancel_fee_change :: "'t escrow_env \<Rightarrow> 't escrow_env res" where
  "cancel_fee_change w =
     and_then (escrow_admin_auth w) (\<lambda>(admin, w).
     and_then (ensure (es_pending_fee w \<noteq> None) RustPanic) (\<lambda>_.
     Inr (escrow_publish (FeeCancelledEvent admin) (w\<lparr>es_pending_fee := None\<rparr>))))"

definition get_pending_fee :: "'t escrow_env \<Rightarrow> u32 option" where
  "get_pending_fee w = es_pending_fee w"

definition withdrawal_fee :: "i128 \<Rightarrow> u32 \<Rightarrow> (i128 \<times> i128) res" where
  "withdrawal_fee release_amount fee_bps =
     and_then (mul_i128 release_amount fee_bps) (\<lambda>product.
     let fee_amount = product sdiv 10000 in
     and_then (sub_i128 release_amount fee_amount) (\<lambda>net_amount. Inr (net_amount, fee_amount)))"

definition execute_withdrawal :: "'t token_client \<Rightarrow> address \<Rightarrow> i128 \<Rightarrow> 't escrow_env \<Rightarrow> 't escrow_env res" where
  "execute_withdrawal tok to release_amount w =
     (let approved = or_zero (es_approved w) in
      and_then (ensure (\<not> approved < release_amount) RustPanic) (\<lambda>_.
      and_then (ok_or RustPanic (es_asset w)) (\<lambda>asset.
      and_then (withdrawal_fee release_amount (or_zero (es_fee_bps w))) (\<lambda>(net_amount, fee_amount).
      and_then (if net_amount > 0 then escrow_transfer tok asset (es_self w) to net_amount w else Inr w) (\<lambda>w.
      and_then (if fee_amount > 0
                then and_then (ok_or RustPanic (es_fee_recipient w)) (\<lambda>fee_recipient.
                     escrow_transfer tok asset (es_self w) fee_recipient fee_amount w)
                else Inr w) (\<lambda>w.
      and_then (sub_i128 approved release_amount) (\<lambda>approved.
      Inr (escrow_publish (WithdrawalEvent to release_amount net_amount fee_amount)
             (w\<lparr>es_approved := Some approved\<rparr>)))))))))"

definition escrow_refund :: "'t token_client \<Rightarrow> address \<Rightarrow> 't escrow_env \<Rightarrow> 't escrow_env res" where
  "escrow_refund tok contributor w =
     and_then (ok_or RustPanic (es_deadline w)) (\<lambda>deadline.
     and_then (ensure (\<not> es_ts w < deadline) RustPanic) (\<lambda>_.
     and_then (ok_or RustPanic (es_target w)) (\<lambda>target.
     and_then (ensure (\<not> or_zero (es_total_raised w) \<ge> target) RustPanic) (\<lambda>_.
     and_then (escrow_bump_persistent contributor w) (\<lambda>_.
     let amount = or_zero (es_balances w contributor) in
     and_then (ensure (\<not> amount \<le> 0) RustPanic) (\<lambda>_.
     and_then (ok_or RustPanic (es_asset w)) (\<lambda>asset.
     and_then (escrow_transfer tok asset (es_self w) contributor amount w) (\<lambda>w.
     let w = w\<lparr>es_balances := (es_balances w)(contributor \<mapsto> 0)\<rparr> in
     and_then (sub_i128 (or_zero (es_total_raised w)) amount) (\<lambda>new_total.
     Inr (escrow_publish (RefundEvent contributor amount) (w\<lparr>es_total_raised := Some new_total\<rparr>)))))))))))"

definition get_total_raised :: "'t escrow_env \<Rightarrow> i128" where
  "get_total_raised w = or_zero (es_total_raised w)"

definition get_asset :: "'t escrow_env \<Rightarrow> address res" where
  "get_asset w = ok_or RustPanic (es_asset w)"

definition get_platform_fee_config :: "'t escrow_env \<Rightarrow> (u32 \<times> address) res" where
  "get_platform_fee_config w =
     and_then (ok_or RustPanic (es_fee_recipient w)) (\<lambda>recipient. Inr (or_zero (es_fee_bps w), recipient))"

section \<open>Milestones\<close>

datatype milestone_status = Pending | Submitted | Approved | Rejected

record milestone =
  title_hash :: bytes
  release_bps :: u32
  ms_status :: milestone_status
  evidence_hash :: "bytes option"

datatype milestone_event =
    SubmitEvent nat bytes
  | ReleaseEvent nat address i128
  | ApproveEvent nat
  | RejectEvent nat bytes

record 't milestones_env =
  ms_self :: address
  ms_signers :: "address list"
  ms_frame :: "address list"
  ms_events :: "milestone_event list"
  ms_escrow :: "'t escrow_env"
  ms_creator :: "address option"
  ms_platform :: "address option"
  ms_escrow_addr :: "address option"
  ms_milestones :: "milestone list option"
  ms_initialized :: "bool option"

definition add_u32 :: "u32 \<Rightarrow> u32 \<Rightarrow> u32 res" where
  "add_u32 a b = ok_or RustPanic (checked in_u32 (a + b))"

definition milestones_initialize ::
  "address \<Rightarrow> address \<Rightarrow> address \<Rightarrow> milestone list \<Rightarrow> 't milestones_env \<Rightarrow> 't milestones_env res" where
  "milestones_initialize creator platform escrow milestones w =
     and_then (ensure (ms_initialized w = None) RustPanic) (\<lambda>_.
     and_then (for_each (\<lambda>m total. add_u32 total (release_bps m)) milestones 0) (\<lambda>total_bps.
     and_then (ensure (total_bps = 10000) RustPanic) (\<lambda>_.
     Inr (w\<lparr>ms_creator := Some creator, ms_platform := Some platform, ms_escrow_addr := Some escrow,
            ms_milestones := Some milestones, ms_initialized := Some True\<rparr>))))"

definition milestones_auth :: "address option \<Rightarrow> 't milestones_env \<Rightarrow> 't milestones_env res" where
  "milestones_auth who w =
     and_then (ok_or RustPanic who) (\<lambda>a.
     and_then (authorize a (ms_signers w) (ms_frame w)) (\<lambda>fr. Inr (w\<lparr>ms_frame := fr\<rparr>)))"

definition milestone_at :: "nat \<Rightarrow> 't milestones_env \<Rightarrow> (milestone list \<times> milestone) res" where
  "milestone_at index w =
     and_then (ok_or RustPanic (ms_milestones w)) (\<lambda>milestones.
     and_then (ensure (index < length milestones) RustPanic) (\<lambda>_. Inr (milestones, milestones ! index)))"

definition submit_milestone :: "nat \<Rightarrow> bytes \<Rightarrow> 't milestones_env \<Rightarrow> 't milestones_env res" where
  "submit_milestone index evidence w =
     and_then (milestones_auth (ms_creator w) w) (\<lambda>w.
     and_then (milestone_at index w) (\<lambda>(milestones, m).
     and_then (ensure (\<not> (ms_status m \<noteq> Pending \<and> ms_status m \<noteq> Rejected)) RustPanic) (\<lambda>_.
     let m = m\<lparr>ms_status := Submitted, evidence_hash := Some evidence\<rparr> in
     Inr (w\<lparr>ms_milestones := Some (milestones[index := m]), ms_events := ms_events w @ [SubmitEvent index evidence]\<rparr>))))"

text \<open>A call into the escrow runs in a frame of its own, signed in addition by the calling contract.\<close>

definition escrow_frame :: "address list \<Rightarrow> 't escrow_env \<Rightarrow> 't escrow_env" where
  "escrow_frame sg e = e\<lparr>es_signers := sg, es_frame := []\<rparr>"

definition release_from_escrow ::
  "'t token_client \<Rightarrow> address \<Rightarrow> i128 \<Rightarrow> 't milestones_env \<Rightarrow> 't milestones_env res" where
  "release_from_escrow tok creator release_amount w =
     (let sg = ms_self w # ms_signers w in
      and_then (approve_withdrawal release_amount (escrow_frame sg (ms_escrow w))) (\<lambda>e.
      and_then (execute_withdrawal tok creator release_amount (escrow_frame sg e)) (\<lambda>e.
      Inr (w\<lparr>ms_escrow := e\<rparr>))))"

definition release_share ::
  "'t token_client \<Rightarrow> nat \<Rightarrow> address \<Rightarrow> i128 \<Rightarrow> 't milestones_env \<Rightarrow> 't milestones_env res" where
  "release_share tok index creator release_amount w =
     (if release_amount > 0
      then and_then (release_from_escrow tok creator release_amount w) (\<lambda>w.
           Inr (w\<lparr>ms_events := ms_events w @ [ReleaseEvent index creator release_amount]\<rparr>))
      else Inr w)"

definition approve_milestone :: "'t token_client \<Rightarrow> nat \<Rightarrow> 't milestones_env \<Rightarrow> 't milestones_env res" where
  "approve_milestone tok index w =
     and_then (milestones_auth (ms_platform w) w) (\<lambda>w.
     and_then (milestone_at index w) (\<lambda>(milestones, m).
     and_then (ensure (ms_status m = Submitted) RustPanic) (\<lambda>_.
     let w = w\<lparr>ms_milestones := Some (milestones[index := m\<lparr>ms_status := Approved\<rparr>])\<rparr> in
     and_then (ok_or RustPanic (ms_escrow_addr w)) (\<lambda>_.
     and_then (ok_or RustPanic (ms_creator w)) (\<lambda>creator.
     and_then (mul_i128 (get_total_raised (ms_escrow w)) (release_bps m)) (\<lambda>product.
     and_then (release_share tok index creator (product sdiv 10000) w) (\<lambda>w.
     Inr (w\<lparr>ms_events := ms_events w @ [ApproveEvent index]\<rparr>))))))))"

definition reject_milestone :: "nat \<Rightarrow> bytes \<Rightarrow> 't milestones_env \<Rightarrow> 't milestones_env res" where
  "reject_milestone index reason w =
     and_then (milestones_auth (ms_platform w) w) (\<lambda>w.
     and_then (milestone_at index w) (\<lambda>(milestones, m).
     and_then (ensure (ms_status m = Submitted) RustPanic) (\<lambda>_.
     Inr (w\<lparr>ms_milestones := Some (milestones[index := m\<lparr>ms_status := Rejected\<rparr>]),
            ms_events := ms_events w @ [RejectEvent index reason]\<rparr>))))"

definition get_milestone :: "nat \<Rightarrow> 't milestones_env \<Rightarrow> milestone res" where
  "get_milestone index w = and_then (milestone_at index w) (\<lambda>(_, m). Inr m)"

definition get_all_milestones :: "'t milestones_env \<Rightarrow> milestone list res" where
  "get_all_milestones w = ok_or RustPanic (ms_milestones w)"

section \<open>Withdrawals\<close>

lemma escrow_transfer_Inr [simp]:
  "escrow_transfer tok t src dst a w = Inr w' \<longleftrightarrow>
     (\<exists>s. tk_transfer tok (es_tokens w) t src dst a = Some s \<and> w' = w\<lparr>es_tokens := s\<rparr>)"
  by (auto simp: escrow_transfer_def split: option.splits)

lemma escrow_auth_Inr [simp]:
  "escrow_auth a w = Inr w' \<longleftrightarrow> a \<in> set (es_signers w) \<and> a \<notin> set (es_frame w) \<and> w' = w\<lparr>es_frame := a # es_frame w\<rparr>"
  by (auto simp: escrow_auth_def)

lemma escrow_admin_auth_Inr [simp]:
  "escrow_admin_auth w = Inr (a, w') \<longleftrightarrow>
     es_admin w = Some a \<and> a \<in> set (es_signers w) \<and> a \<notin> set (es_frame w) \<and> w' = w\<lparr>es_frame := a # es_frame w\<rparr>"
  by (auto simp: escrow_admin_auth_def)

text \<open>The fee of a withdrawal, over the integers.\<close>

definition fee_of :: "int \<Rightarrow> int \<Rightarrow> int" where
  "fee_of a bps = a * bps div 10000"

lemma fee_bounds:
  assumes "0 \<le> a" and "0 \<le> bps" and "bps \<le> MAX_FEE_BPS"
  shows "0 \<le> fee_of a bps" and "10 * fee_of a bps \<le> a" and "fee_of a bps \<le> a"
proof -
  show nn: "0 \<le> fee_of a bps" using assms by (simp add: fee_of_def pos_imp_zdiv_nonneg_iff)
  have "a * bps \<le> a * 1000" using assms by (intro mult_left_mono) (auto simp: MAX_FEE_BPS_def)
  moreover have "fee_of a bps * 10000 \<le> a * bps" unfolding fee_of_def by (simp add: minus_mod_eq_div_mult[symmetric])
  ultimately show "10 * fee_of a bps \<le> a" by linarith
  then show "fee_of a bps \<le> a" using nn by linarith
qed

lemma withdrawal_fee_eval:
  "in_i128 (a * bps) \<Longrightarrow> in_i128 (a - (a * bps) sdiv 10000) \<Longrightarrow>
     withdrawal_fee a bps = Inr (a - (a * bps) sdiv 10000, (a * bps) sdiv 10000)"
  by (simp add: withdrawal_fee_def Let_def mul_i128_def sub_i128_def checked_arith checked_def)

lemma withdrawal_fee_exact:
  assumes "withdrawal_fee a bps = Inr (net, fee)" and "0 \<le> a" and "0 \<le> bps"
  shows "fee = fee_of a bps" and "net = a - fee_of a bps"
  using assms by (auto simp: withdrawal_fee_def Let_def fee_of_def signed_divide_int_def sgn_if)

definition paid_to :: "address \<Rightarrow> address \<Rightarrow> int \<Rightarrow> int" where
  "paid_to dst who a = (if who = dst then a else 0)"

lemma execute_withdrawal_shape:
  assumes "execute_withdrawal tok to a w = Inr w'"
  obtains t net fee x where "es_asset w = Some t" "withdrawal_fee a (or_zero (es_fee_bps w)) = Inr (net, fee)"
    "a \<le> or_zero (es_approved w)" "es_approved w' = Some (or_zero (es_approved w) - a)"
    "w' = w\<lparr>es_tokens := es_tokens w', es_approved := es_approved w', es_events := es_events w'\<rparr>"
    "if net > 0 then tk_transfer tok (es_tokens w) t (es_self w) to net = Some x else x = es_tokens w"
    "if fee > 0 then \<exists>f. es_fee_recipient w = Some f \<and> tk_transfer tok x t (es_self w) f fee = Some (es_tokens w')
     else es_tokens w' = x"
proof -
  from assms obtain t net fee w1 w2 where h: "es_asset w = Some t"
    "withdrawal_fee a (or_zero (es_fee_bps w)) = Inr (net, fee)" "a \<le> or_zero (es_approved w)"
    and n: "(if net > 0 then escrow_transfer tok t (es_self w) to net w else Inr w) = Inr w1"
    and f: "(if fee > 0 then and_then (ok_or RustPanic (es_fee_recipient w1)) (\<lambda>r. escrow_transfer tok t (es_self w1) r fee w1)
             else Inr w1) = Inr w2"
    and w': "w' = escrow_publish (WithdrawalEvent to a net fee) (w2\<lparr>es_approved := Some (or_zero (es_approved w) - a)\<rparr>)"
    unfolding execute_withdrawal_def Let_def by auto
  have s1: "w1 = w\<lparr>es_tokens := es_tokens w1\<rparr>" using n by (auto split: if_splits)
  then have same: "es_self w1 = es_self w" "es_fee_recipient w1 = es_fee_recipient w" by (metis escrow_env.select_convs escrow_env.surjective escrow_env.update_convs(6))+
  have s2: "w2 = w1\<lparr>es_tokens := es_tokens w2\<rparr>" using f by (auto split: if_splits)
  show ?thesis
  proof (rule that[OF h(1,2,3)])
    show "es_approved w' = Some (or_zero (es_approved w) - a)" by (simp add: w' escrow_publish_def)
    show "w' = w\<lparr>es_tokens := es_tokens w', es_approved := es_approved w', es_events := es_events w'\<rparr>"
      unfolding w' escrow_publish_def by (subst (1) s2, subst (1) s1) simp
    show "if net > 0 then tk_transfer tok (es_tokens w) t (es_self w) to net = Some (es_tokens w1) else es_tokens w1 = es_tokens w"
      using n by (auto split: if_splits)
    show "if fee > 0 then \<exists>f. es_fee_recipient w = Some f \<and> tk_transfer tok (es_tokens w1) t (es_self w) f fee = Some (es_tokens w')
     else es_tokens w' = es_tokens w1"
      using f same by (auto simp: w' escrow_publish_def split: if_splits)
  qed
qed

text \<open>(\<open>execute_withdrawal\<close>): with a fee within the cap and a token that follows the token
  interface, a withdrawal of a positive amount consumes exactly that much of the approval, pays the
  recipient the amount less the fee and the platform the fee, which is the rounded-down share and at
  most a tenth, and moves nothing else.\<close>

theorem withdrawal_split_exact:
  assumes "execute_withdrawal tok to a w = Inr w'" and "sac_token tok" and "0 < a"
    and "0 \<le> or_zero (es_fee_bps w)" and "or_zero (es_fee_bps w) \<le> MAX_FEE_BPS"
  shows "\<exists>t fee r. es_asset w = Some t \<and> fee = fee_of a (or_zero (es_fee_bps w)) \<and> 0 \<le> fee \<and> 10 * fee \<le> a \<and>
     (fee = 0 \<or> es_fee_recipient w = Some r) \<and>
     a \<le> or_zero (es_approved w) \<and> or_zero (es_approved w') = or_zero (es_approved w) - a \<and>
     (\<forall>who. tk_balance tok (es_tokens w') t who =
        tk_balance tok (es_tokens w) t who - paid_to (es_self w) who a + paid_to to who (a - fee) + paid_to r who fee)"
proof (rule execute_withdrawal_shape[OF assms(1)])
  fix t net fee x
  assume t: "es_asset w = Some t" and wf: "withdrawal_fee a (or_zero (es_fee_bps w)) = Inr (net, fee)"
    and ap: "a \<le> or_zero (es_approved w)" "es_approved w' = Some (or_zero (es_approved w) - a)"
    and n: "if net > 0 then tk_transfer tok (es_tokens w) t (es_self w) to net = Some x else x = es_tokens w"
    and f: "if fee > 0 then \<exists>f. es_fee_recipient w = Some f \<and> tk_transfer tok x t (es_self w) f fee = Some (es_tokens w')
     else es_tokens w' = x"
  have e: "fee = fee_of a (or_zero (es_fee_bps w))" "net = a - fee"
    using withdrawal_fee_exact[OF wf] assms(3,4) by auto
  have b: "0 \<le> fee" "10 * fee \<le> a" using fee_bounds[of a "or_zero (es_fee_bps w)"] assms(3-5) e(1) by auto
  then have pos: "net > 0" using e(2) assms(3) by linarith
  have b1: "tk_balance tok x t who = tk_balance tok (es_tokens w) t who - paid_to (es_self w) who net + paid_to to who net" for who
    using sac_token.transfer_moves[OF assms(2), of "es_tokens w" t "es_self w" to net x] n pos by (simp add: moved_def paid_to_def)
  show ?thesis
  proof (cases "fee > 0")
    case True
    then obtain r where r: "es_fee_recipient w = Some r" "tk_transfer tok x t (es_self w) r fee = Some (es_tokens w')" using f by auto
    have "tk_balance tok (es_tokens w') t who = tk_balance tok x t who - paid_to (es_self w) who fee + paid_to r who fee" for who
      using sac_token.transfer_moves[OF assms(2) r(2)] by (simp add: moved_def paid_to_def)
    then have "\<forall>who. tk_balance tok (es_tokens w') t who =
        tk_balance tok (es_tokens w) t who - paid_to (es_self w) who a + paid_to to who (a - fee) + paid_to r who fee"
      using b1 e(2) by (simp add: paid_to_def)
    then show ?thesis using t e b ap r(1) by (auto simp: or_zero_def)
  next
    case False
    then have z: "fee = 0" "es_tokens w' = x" using f b by auto
    have "\<forall>who. tk_balance tok (es_tokens w') t who =
        tk_balance tok (es_tokens w) t who - paid_to (es_self w) who a + paid_to to who (a - fee) + paid_to 0 who fee"
      using b1 e(2) z by (simp add: paid_to_def)
    then show ?thesis using t e(1) b ap z(1) by (intro exI[of _ t] exI[of _ fee] exI[of _ 0]) (auto simp: or_zero_def)
  qed
qed

text \<open>(\<open>execute_withdrawal\<close>): a withdrawal of a negative amount needs no signature at all,
  moves no token and raises the approval by that amount.  Whoever makes one can then withdraw what was
  never approved.\<close>

theorem approval_forgeable:
  assumes "es_asset w = Some t" and "0 \<le> or_zero (es_approved w)" and "or_zero (es_approved w) + x \<le> i128_max" and "0 < x"
    and "0 \<le> or_zero (es_fee_bps w)" and "or_zero (es_fee_bps w) \<le> MAX_FEE_BPS" and "x * 1000 \<le> i128_max"
  shows "\<exists>w'. execute_withdrawal tok to (- x) w = Inr w' \<and> or_zero (es_approved w') = or_zero (es_approved w) + x \<and>
     es_tokens w' = es_tokens w"
proof -
  let ?b = "or_zero (es_fee_bps w)"
  have m: "0 \<le> x * ?b" "x * ?b \<le> x * 1000" using assms by (auto intro: mult_left_mono simp: MAX_FEE_BPS_def)
  have "in_i128 (- x * ?b)" using m assms(7) by (simp add: in_i128_def i128_min_def i128_max_def)
  define q where "q = (- x * ?b) sdiv 10000"
  have q: "q \<le> 0" "- x \<le> q"
  proof -
    have "q = - (x * ?b div 10000)" using m by (simp add: q_def signed_divide_int_def sgn_if mult.commute)
    moreover have "0 \<le> x * ?b div 10000" using m by (simp add: pos_imp_zdiv_nonneg_iff)
    moreover have "x * ?b div 10000 \<le> x" using fee_bounds(3)[of x ?b] assms by (simp add: fee_of_def)
    ultimately show "q \<le> 0" "- x \<le> q" by auto
  qed
  then have "in_i128 (- x - q)" using assms(3,4,2) by (simp add: in_i128_def i128_min_def i128_max_def)
  then have wf: "withdrawal_fee (- x) ?b = Inr (- x - q, q)"
    using withdrawal_fee_eval[OF \<open>in_i128 (- x * ?b)\<close>] unfolding q_def by blast
  have "in_i128 (or_zero (es_approved w) + x)" using assms(2-4) by (simp add: in_i128_def i128_min_def)
  then show ?thesis using assms(1,2,4) q
    by (simp add: execute_withdrawal_def wf sub_i128_def checked_arith checked_def escrow_publish_def)
qed

section \<open>Runs of the escrow\<close>

datatype (plugins only: code) escrow_call =
    EscrowInitialize address u64 i128 u64 address u32 address
  | EscrowDeposit address i128
  | ApproveWithdrawal i128
  | ProposeFeeChange u32
  | ConfirmFeeChange
  | CancelFeeChange
  | ExecuteWithdrawal address i128
  | EscrowRefund address

primrec exec_escrow :: "'t token_client \<Rightarrow> escrow_call \<Rightarrow> 't escrow_env \<Rightarrow> 't escrow_env res" where
  "exec_escrow tok (EscrowInitialize ad ci ta de as fe re) w = escrow_initialize ad ci ta de as fe re w"
| "exec_escrow tok (EscrowDeposit a x) w = escrow_deposit tok a x w"
| "exec_escrow tok (ApproveWithdrawal x) w = approve_withdrawal x w"
| "exec_escrow tok (ProposeFeeChange f) w = propose_fee_change f w"
| "exec_escrow tok ConfirmFeeChange w = confirm_fee_change w"
| "exec_escrow tok CancelFeeChange w = cancel_fee_change w"
| "exec_escrow tok (ExecuteWithdrawal a x) w = execute_withdrawal tok a x w"
| "exec_escrow tok (EscrowRefund a) w = escrow_refund tok a w"

inductive escrow_run :: "'t token_client \<Rightarrow> 't escrow_env \<Rightarrow> escrow_call list \<Rightarrow> 't escrow_env \<Rightarrow> bool"
  for tok :: "'t token_client" and w0 :: "'t escrow_env" where
  start: "escrow_run tok w0 [] w0"
| extend: "escrow_run tok w0 cs w \<Longrightarrow>
    exec_escrow tok c (w\<lparr>es_ts := ts, es_signers := sg, es_frame := [], es_tokens := tk\<rparr>) = Inr w' \<Longrightarrow>
    escrow_run tok w0 (cs @ [c]) w'"

definition fresh_escrow :: "u64 \<Rightarrow> address \<Rightarrow> 't \<Rightarrow> 't escrow_env" where
  "fresh_escrow ts self tk =
     \<lparr>es_ts = ts, es_self = self, es_signers = [], es_frame = [], es_events = [], es_tokens = tk, es_admin = None,
      es_campaign_id = None, es_target = None, es_deadline = None, es_asset = None, es_balances = Map.empty,
      es_total_raised = None, es_approved = None, es_is_initialized = None, es_fee_bps = None,
      es_fee_recipient = None, es_pending_fee = None\<rparr>"

definition escrow_inv :: "'t escrow_env \<Rightarrow> bool" where
  "escrow_inv w \<longleftrightarrow> finite (dom (es_balances w)) \<and> or_zero (es_total_raised w) = map_sum (\<lambda>x. x) (es_balances w) \<and>
     (\<forall>f. es_fee_bps w = Some f \<longrightarrow> f \<le> MAX_FEE_BPS) \<and> (\<forall>f. es_pending_fee w = Some f \<longrightarrow> f \<le> MAX_FEE_BPS) \<and>
     (es_is_initialized w = None \<longrightarrow> es_balances w = Map.empty \<and> es_deadline w = None)"

lemma escrow_inv_frame [simp]:
  "escrow_inv (w\<lparr>es_frame := fr\<rparr>) = escrow_inv w" "escrow_inv (w\<lparr>es_tokens := tk\<rparr>) = escrow_inv w"
  "escrow_inv (w\<lparr>es_approved := ap\<rparr>) = escrow_inv w" "escrow_inv (escrow_publish e w) = escrow_inv w"
  "escrow_inv (w\<lparr>es_events := ev\<rparr>) = escrow_inv w"
  "escrow_inv (w\<lparr>es_ts := ts\<rparr>) = escrow_inv w" "escrow_inv (w\<lparr>es_signers := sg\<rparr>) = escrow_inv w"
  by (simp_all add: escrow_inv_def escrow_publish_def)

lemma balance_opt_val: "opt_val (\<lambda>x. x) v = or_zero v"
  by (cases v) simp_all

lemma escrow_deposit_inv:
  assumes "escrow_deposit tok a x w = Inr w'" and "escrow_inv w"
  shows "escrow_inv w'"
proof -
  obtain d s where d: "es_deadline w = Some d"
    and w': "w' = escrow_publish (DepositEvent a x) (w\<lparr>es_frame := a # es_frame w, es_tokens := s,
      es_balances := (es_balances w)(a \<mapsto> or_zero (es_balances w a) + x), es_total_raised := Some (or_zero (es_total_raised w) + x)\<rparr>)"
    using assms(1) by (auto simp: escrow_deposit_def Let_def escrow_bump_persistent_def)
  show ?thesis
    using assms(2) d map_sum_upd[of "es_balances w" "\<lambda>x. x" a "or_zero (es_balances w a) + x"]
    by (auto simp: w' escrow_inv_def escrow_publish_def balance_opt_val)
qed

lemma escrow_refund_inv:
  assumes "escrow_refund tok a w = Inr w'" and "escrow_inv w"
  shows "escrow_inv w'"
proof -
  obtain d s where d: "es_deadline w = Some d"
    and w': "w' = escrow_publish (RefundEvent a (or_zero (es_balances w a))) (w\<lparr>es_tokens := s,
      es_balances := (es_balances w)(a \<mapsto> 0), es_total_raised := Some (or_zero (es_total_raised w) - or_zero (es_balances w a))\<rparr>)"
    using assms(1) by (auto simp: escrow_refund_def Let_def)
  show ?thesis
    using assms(2) d map_sum_upd[of "es_balances w" "\<lambda>x. x" a 0]
    by (auto simp: w' escrow_inv_def escrow_publish_def balance_opt_val)
qed

lemma execute_withdrawal_inv:
  assumes "execute_withdrawal tok to a w = Inr w'" and "escrow_inv w"
  shows "escrow_inv w'"
proof (rule execute_withdrawal_shape[OF assms(1)])
  assume "w' = w\<lparr>es_tokens := es_tokens w', es_approved := es_approved w', es_events := es_events w'\<rparr>"
  then show ?thesis using assms(2) by (metis escrow_inv_frame(2,3,5))
qed

lemma exec_escrow_inv:
  assumes "exec_escrow tok c w = Inr w'" and "escrow_inv w"
  shows "escrow_inv w'"
proof (cases c)
  case (EscrowInitialize ad ci ta de as fe re)
  then show ?thesis using assms by (auto simp: escrow_initialize_def escrow_inv_def)
next
  case (EscrowDeposit a x)
  then show ?thesis using assms escrow_deposit_inv by auto
next
  case (ApproveWithdrawal x)
  then show ?thesis using assms by (auto simp: approve_withdrawal_def)
next
  case (ProposeFeeChange f)
  then show ?thesis using assms by (auto simp: propose_fee_change_def escrow_inv_def escrow_publish_def)
next
  case ConfirmFeeChange
  then show ?thesis using assms by (auto simp: confirm_fee_change_def escrow_inv_def escrow_publish_def)
next
  case CancelFeeChange
  then show ?thesis using assms by (auto simp: cancel_fee_change_def escrow_inv_def escrow_publish_def)
next
  case (ExecuteWithdrawal a x)
  then show ?thesis using assms execute_withdrawal_inv by auto
next
  case (EscrowRefund a)
  then show ?thesis using assms escrow_refund_inv by auto
qed

lemma run_escrow_inv: "escrow_run tok w0 cs w \<Longrightarrow> escrow_inv w0 \<Longrightarrow> escrow_inv w"
  by (induction rule: escrow_run.induct) (auto dest!: exec_escrow_inv)

lemma fresh_escrow_inv: "escrow_inv (fresh_escrow ts self tk)"
  by (simp add: escrow_inv_def fresh_escrow_def)

text \<open>C31 (campaign escrow): after any sequence of calls on a fresh contract, the total raised is the sum of
  the contributors' balances and the platform fee, current and proposed, is within its cap.\<close>

theorem escrow_books_balance:
  assumes "escrow_run tok (fresh_escrow ts self tk) cs w"
  shows "get_total_raised w = (\<Sum>a\<in>dom (es_balances w). the (es_balances w a)) \<and>
     or_zero (es_fee_bps w) \<le> MAX_FEE_BPS \<and> or_zero (get_pending_fee w) \<le> MAX_FEE_BPS"
  using run_escrow_inv[OF assms fresh_escrow_inv]
  by (auto simp: escrow_inv_def get_total_raised_def get_pending_fee_def map_sum_def MAX_FEE_BPS_def or_zero_def split: option.splits)

section \<open>Milestones release at most what was raised\<close>

datatype (plugins only: code) milestone_call =
    SubmitMilestone nat bytes
  | ApproveMilestone nat
  | RejectMilestone nat bytes

primrec exec_milestone :: "'t token_client \<Rightarrow> milestone_call \<Rightarrow> 't milestones_env \<Rightarrow> 't milestones_env res" where
  "exec_milestone tok (SubmitMilestone i e) w = submit_milestone i e w"
| "exec_milestone tok (ApproveMilestone i) w = approve_milestone tok i w"
| "exec_milestone tok (RejectMilestone i r) w = reject_milestone i r w"

inductive milestones_run ::
  "'t token_client \<Rightarrow> 't milestones_env \<Rightarrow> milestone_call list \<Rightarrow> 't milestones_env \<Rightarrow> bool"
  for tok :: "'t token_client" and w0 :: "'t milestones_env" where
  start: "milestones_run tok w0 [] w0"
| extend: "milestones_run tok w0 cs w \<Longrightarrow> exec_milestone tok c (w\<lparr>ms_signers := sg, ms_frame := []\<rparr>) = Inr w' \<Longrightarrow>
    milestones_run tok w0 (cs @ [c]) w'"

primrec released_sum :: "milestone_event list \<Rightarrow> int" where
  "released_sum [] = 0"
| "released_sum (e # es) = (case e of ReleaseEvent i c a \<Rightarrow> a | _ \<Rightarrow> 0) + released_sum es"

lemma released_sum_append [simp]: "released_sum (xs @ ys) = released_sum xs + released_sum ys"
  by (induction xs) auto

definition due :: "int \<Rightarrow> milestone \<Rightarrow> int" where
  "due T m = (if ms_status m = Approved then T * release_bps m div 10000 else 0)"

lemma sum_list_upd: "i < length xs \<Longrightarrow> sum_list (xs[i := x]) = sum_list xs - xs ! i + (x :: int)"
proof (induction xs arbitrary: i)
  case Nil
  then show ?case by simp
next
  case (Cons a xs)
  then show ?case by (cases i) auto
qed

lemma due_upd:
  "i < length ls \<Longrightarrow> sum_list (map (due T) (ls[i := m])) = sum_list (map (due T) ls) - due T (ls ! i) + due T m"
  using sum_list_upd[of i "map (due T) ls" "due T m"] by (simp add: map_update)

definition milestones_inv :: "int \<Rightarrow> u32 list \<Rightarrow> 't milestones_env \<Rightarrow> bool" where
  "milestones_inv T bs w \<longleftrightarrow> get_total_raised (ms_escrow w) = T \<and>
     (\<exists>ls. ms_milestones w = Some ls \<and> map release_bps ls = bs \<and>
        released_sum (ms_events w) = sum_list (map (due T) ls))"

lemma milestone_at_Inr [simp]:
  "milestone_at i w = Inr (ls, m) \<longleftrightarrow> ms_milestones w = Some ls \<and> i < length ls \<and> m = ls ! i"
  by (auto simp: milestone_at_def)

lemma milestones_auth_Inr [simp]:
  "milestones_auth who w = Inr w' \<longleftrightarrow>
     (\<exists>a. who = Some a \<and> a \<in> set (ms_signers w) \<and> a \<notin> set (ms_frame w) \<and> w' = w\<lparr>ms_frame := a # ms_frame w\<rparr>)"
  by (auto simp: milestones_auth_def)

lemma map_bps_upd [simp]: "i < length ls \<Longrightarrow> release_bps m = release_bps (ls ! i) \<Longrightarrow>
    map release_bps (ls[i := m]) = map release_bps ls"
  by (simp add: map_update list_update_same_conv)

lemma release_keeps_total:
  assumes "release_from_escrow tok c a w = Inr w'"
  shows "get_total_raised (ms_escrow w') = get_total_raised (ms_escrow w)" and "w' = w\<lparr>ms_escrow := ms_escrow w'\<rparr>"
proof -
  obtain e e' where e: "approve_withdrawal a (escrow_frame (ms_self w # ms_signers w) (ms_escrow w)) = Inr e"
    and e': "execute_withdrawal tok c a (escrow_frame (ms_self w # ms_signers w) e) = Inr e'"
    and w': "w' = w\<lparr>ms_escrow := e'\<rparr>"
    using assms by (auto simp: release_from_escrow_def Let_def)
  have "es_total_raised e = es_total_raised (ms_escrow w)" using e by (auto simp: approve_withdrawal_def escrow_frame_def)
  moreover have "es_total_raised e' = es_total_raised e"
  proof (rule execute_withdrawal_shape[OF e'])
    let ?f = "escrow_frame (ms_self w # ms_signers w) e"
    assume "e' = ?f\<lparr>es_tokens := es_tokens e', es_approved := es_approved e', es_events := es_events e'\<rparr>"
    from arg_cong[OF this, of es_total_raised] show ?thesis by (simp add: escrow_frame_def)
  qed
  ultimately show "get_total_raised (ms_escrow w') = get_total_raised (ms_escrow w)" "w' = w\<lparr>ms_escrow := ms_escrow w'\<rparr>"
    by (simp_all add: w' get_total_raised_def)
qed

lemma release_share_shape:
  assumes "release_share tok i c a w = Inr w'"
  shows "ms_milestones w' = ms_milestones w" and "get_total_raised (ms_escrow w') = get_total_raised (ms_escrow w)"
    and "ms_events w' = ms_events w @ (if a > 0 then [ReleaseEvent i c a] else [])"
proof -
  have "ms_milestones w' = ms_milestones w \<and> get_total_raised (ms_escrow w') = get_total_raised (ms_escrow w) \<and>
     ms_events w' = ms_events w @ (if a > 0 then [ReleaseEvent i c a] else [])"
  proof (cases "a > 0")
    case True
    then obtain v where v: "release_from_escrow tok c a w = Inr v" "w' = v\<lparr>ms_events := ms_events v @ [ReleaseEvent i c a]\<rparr>"
      using assms by (auto simp: release_share_def)
    note k = release_keeps_total[OF v(1)]
    have "ms_milestones v = ms_milestones w" "ms_events v = ms_events w"
      using arg_cong[OF k(2), of ms_milestones] arg_cong[OF k(2), of ms_events] by simp_all
    then show ?thesis using k(1) v(2) True by simp
  next
    case False
    then show ?thesis using assms by (simp add: release_share_def)
  qed
  then show "ms_milestones w' = ms_milestones w" "get_total_raised (ms_escrow w') = get_total_raised (ms_escrow w)"
    "ms_events w' = ms_events w @ (if a > 0 then [ReleaseEvent i c a] else [])" by blast+
qed

lemma approve_milestone_shape:
  assumes "approve_milestone tok i w = Inr w'"
  obtains ls :: "milestone list" and c where "ms_milestones w = Some ls" "i < length ls" "ms_status (ls ! i) = Submitted"
    "ms_milestones w' = Some (ls[i := (ls ! i)\<lparr>ms_status := Approved\<rparr>])"
    "get_total_raised (ms_escrow w') = get_total_raised (ms_escrow w)"
    "ms_events w' = ms_events w @ (if get_total_raised (ms_escrow w) * release_bps (ls ! i) sdiv 10000 > 0
       then [ReleaseEvent i c (get_total_raised (ms_escrow w) * release_bps (ls ! i) sdiv 10000)] else []) @ [ApproveEvent i]"
proof -
  from assms obtain p ls c v where ls: "ms_milestones w = Some ls" "i < length ls" "ms_status (ls ! i) = Submitted"
    and r: "release_share tok i c (get_total_raised (ms_escrow w) * release_bps (ls ! i) sdiv 10000)
      (w\<lparr>ms_frame := p # ms_frame w, ms_milestones := Some (ls[i := (ls ! i)\<lparr>ms_status := Approved\<rparr>])\<rparr>) = Inr v"
    and w': "w' = v\<lparr>ms_events := ms_events v @ [ApproveEvent i]\<rparr>"
    unfolding approve_milestone_def Let_def by auto
  show ?thesis using that[OF ls, of c] release_share_shape[OF r] by (simp add: w')
qed

lemma approve_milestone_inv:
  assumes "approve_milestone tok i w = Inr w'" and inv: "milestones_inv T bs w" and T: "0 \<le> T" and nn: "\<forall>b\<in>set bs. 0 \<le> b"
  shows "milestones_inv T bs w'"
proof (rule approve_milestone_shape[OF assms(1)])
  fix ls :: "milestone list" and c
  let ?a = "get_total_raised (ms_escrow w) * release_bps (ls ! i) sdiv 10000"
  assume ls: "ms_milestones w = Some ls" "i < length ls" "ms_status (ls ! i) = Submitted"
    and w': "ms_milestones w' = Some (ls[i := (ls ! i)\<lparr>ms_status := Approved\<rparr>])"
      "get_total_raised (ms_escrow w') = get_total_raised (ms_escrow w)"
      "ms_events w' = ms_events w @ (if ?a > 0 then [ReleaseEvent i c ?a] else []) @ [ApproveEvent i]"
  have h: "get_total_raised (ms_escrow w) = T" "map release_bps ls = bs" "released_sum (ms_events w) = sum_list (map (due T) ls)"
    using inv ls(1) by (auto simp: milestones_inv_def)
  have "0 \<le> release_bps (ls ! i)" using nn ls(2) h(2) by auto
  then have p: "0 \<le> T * release_bps (ls ! i)" using T by simp
  then have a: "?a = T * release_bps (ls ! i) div 10000" using h(1) by (simp add: signed_divide_int_def sgn_if)
  have "0 \<le> ?a" unfolding a using p by (simp add: pos_imp_zdiv_nonneg_iff)
  then have "released_sum (ms_events w') = released_sum (ms_events w) + ?a" using w'(3) by auto
  moreover have "sum_list (map (due T) (ls[i := (ls ! i)\<lparr>ms_status := Approved\<rparr>])) = sum_list (map (due T) ls) + ?a"
    using due_upd[OF ls(2), of T] ls(3) a by (simp add: due_def)
  ultimately show ?thesis using h w' ls(2) by (auto simp: milestones_inv_def)
qed

lemma exec_milestone_inv:
  assumes "exec_milestone tok c w = Inr w'" and "milestones_inv T bs w" and "0 \<le> T" and "\<forall>b\<in>set bs. 0 \<le> b"
  shows "milestones_inv T bs w'"
proof (cases c)
  case (ApproveMilestone i)
  then show ?thesis using assms approve_milestone_inv by auto
next
  case (SubmitMilestone i e)
  then show ?thesis using assms(1,2)
    by (auto simp: submit_milestone_def milestones_inv_def Let_def due_upd due_def)
next
  case (RejectMilestone i r)
  then show ?thesis using assms(1,2)
    by (auto simp: reject_milestone_def milestones_inv_def Let_def due_upd due_def)
qed

lemma milestones_run_inv:
  assumes "milestones_run tok w0 cs w" and "milestones_inv T bs w0" and "0 \<le> T" and "\<forall>b\<in>set bs. 0 \<le> b"
  shows "milestones_inv T bs w"
  using assms(1)
proof (induction rule: milestones_run.induct)
  case start
  then show ?case by (rule assms(2))
next
  case (extend cs w c sg w')
  have "milestones_inv T bs (w\<lparr>ms_signers := sg, ms_frame := []\<rparr>)" using extend.IH by (simp add: milestones_inv_def)
  then show ?case using exec_milestone_inv[OF extend.hyps(2) _ assms(3,4)] by blast
qed

lemma bps_total:
  "for_each (\<lambda>m total. add_u32 total (release_bps m)) ls t = Inr s \<Longrightarrow> s = t + sum_list (map release_bps ls)"
proof (induction ls arbitrary: t)
  case Nil
  then show ?case by simp
next
  case (Cons m ls)
  then have "for_each (\<lambda>m total. add_u32 total (release_bps m)) ls (t + release_bps m) = Inr s" by (auto simp: add_u32_def)
  from Cons.IH[OF this] show ?case by simp
qed

lemma due_sum_le:
  assumes "0 \<le> T" and "\<forall>m\<in>set ls. 0 \<le> release_bps m"
  shows "10000 * sum_list (map (due T) ls) \<le> T * sum_list (map release_bps ls)"
  using assms(2)
proof (induction ls)
  case Nil
  then show ?case by simp
next
  case (Cons m ls)
  have "10000 * due T m \<le> T * release_bps m"
    using Cons.prems assms(1) by (auto simp: due_def minus_mod_eq_div_mult[symmetric] mult.commute[of 10000])
  then show ?case using Cons by (simp add: distrib_left)
qed

text \<open>C30 (milestones over the escrow): from an accepted plan with no milestone released yet, the creator and
  the platform may submit, reject and approve in any order and as often as the contract lets them: all the
  releases together never exceed the total raised.\<close>

theorem milestone_releases_bounded:
  assumes "milestones_initialize cr pl es ls w = Inr w0" and "\<forall>m\<in>set ls. ms_status m = Pending \<and> 0 \<le> release_bps m"
    and "released_sum (ms_events w) = 0" and "0 \<le> get_total_raised (ms_escrow w)" and "milestones_run tok w0 cs w'"
  shows "released_sum (ms_events w') \<le> get_total_raised (ms_escrow w) \<and>
     get_total_raised (ms_escrow w') = get_total_raised (ms_escrow w)"
proof -
  let ?T = "get_total_raised (ms_escrow w)" and ?bs = "map release_bps ls"
  have i: "sum_list ?bs = 10000" "w0 = w\<lparr>ms_creator := Some cr, ms_platform := Some pl, ms_escrow_addr := Some es,
      ms_milestones := Some ls, ms_initialized := Some True\<rparr>"
    using assms(1) by (auto simp: milestones_initialize_def dest!: bps_total)
  have "sum_list (map (due ?T) ls) = 0" using assms(2) by (induction ls) (auto simp: due_def)
  then have "milestones_inv ?T ?bs w0" using assms(3) i(2) by (simp add: milestones_inv_def)
  then have "milestones_inv ?T ?bs w'" using milestones_run_inv[OF assms(5) _ assms(4)] assms(2) by auto
  then obtain ks where k: "get_total_raised (ms_escrow w') = ?T" "map release_bps ks = ?bs"
    "released_sum (ms_events w') = sum_list (map (due ?T) ks)"
    by (auto simp: milestones_inv_def)
  have "\<forall>b\<in>set (map release_bps ks). 0 \<le> b" unfolding k(2) using assms(2) by simp
  then have "10000 * sum_list (map (due ?T) ks) \<le> ?T * sum_list (map release_bps ks)" by (intro due_sum_le[OF assms(4)]) auto
  then show ?thesis using k i(1) by simp
qed

section \<open>A concrete campaign\<close>

definition campaign_env :: "(address \<times> address \<Rightarrow> int) escrow_env" where
  "campaign_env = (fresh_escrow 10 9 (\<lambda>(t, who). if who = 9 then 700 else 1000))\<lparr>es_signers := [4], es_admin := Some 4,
     es_target := Some 500, es_deadline := Some 100, es_asset := Some 3, es_balances := [5 \<mapsto> 700],
     es_total_raised := Some 700, es_approved := Some 100, es_is_initialized := Some True, es_fee_bps := Some 250,
     es_fee_recipient := Some 8\<rparr>"

lemmas escrow_eval = campaign_env_def fresh_escrow_def execute_withdrawal_def withdrawal_fee_def escrow_transfer_def
  mul_i128_def sub_i128_def add_i128_def checked_arith checked_def int_defs signed_divide_int_def Let_def
  book_token_def move_balance_def escrow_publish_def MAX_FEE_BPS_def escrow_frame_def

theorem withdrawal_split_exact_witness:
  "\<exists>w'. execute_withdrawal book_token 6 100 campaign_env = Inr w' \<and> es_tokens w' (3, 6) = 1000 + 98 \<and>
     es_tokens w' (3, 8) = 1000 + 2 \<and> es_tokens w' (3, 9) = 700 - 100"
proof -
  obtain w' where w': "execute_withdrawal book_token 6 100 campaign_env = Inr w'"
    by (simp add: escrow_eval)
  have f: "or_zero (es_fee_bps campaign_env) = 250" "es_self campaign_env = 9" "es_asset campaign_env = Some 3"
    "es_fee_recipient campaign_env = Some 8" "fee_of 100 250 = 2"
    "es_tokens campaign_env (3, 6) = 1000" "es_tokens campaign_env (3, 8) = 1000" "es_tokens campaign_env (3, 9) = 700"
    by (simp_all add: campaign_env_def fresh_escrow_def fee_of_def)
  have "\<forall>who. tk_balance book_token (es_tokens w') 3 who = tk_balance book_token (es_tokens campaign_env) 3 who
      - paid_to 9 who 100 + paid_to 6 who 98 + paid_to 8 who 2"
    using withdrawal_split_exact[OF w' bt.sac_token_axioms] f by (simp add: MAX_FEE_BPS_def)
  then have "tk_balance book_token (es_tokens w') 3 6 = 1098" "tk_balance book_token (es_tokens w') 3 8 = 1002"
    "tk_balance book_token (es_tokens w') 3 9 = 600" using f(6-8) by (simp_all add: paid_to_def book_token_def)
  then show ?thesis using w' by (simp add: book_token_def)
qed

theorem approval_forgeable_witness:
  "\<exists>w' w''. execute_withdrawal book_token 6 (- 600) (campaign_env\<lparr>es_signers := []\<rparr>) = Inr w' \<and>
     or_zero (es_approved w') = 700 \<and> es_tokens w' = es_tokens campaign_env \<and>
     execute_withdrawal book_token 6 700 w' = Inr w'' \<and> es_tokens w'' (3, 9) = 0"
proof -
  let ?w = "campaign_env\<lparr>es_signers := []\<rparr>"
  have h: "es_asset ?w = Some 3" "or_zero (es_approved ?w) = 100" "or_zero (es_fee_bps ?w) = 250" "es_tokens ?w = es_tokens campaign_env"
    by (simp_all add: campaign_env_def)
  obtain w' where w': "execute_withdrawal book_token 6 (- 600) ?w = Inr w'" "or_zero (es_approved w') = 700"
    "es_tokens w' = es_tokens campaign_env"
    using approval_forgeable[of ?w 3 600 book_token 6] h by (auto simp: MAX_FEE_BPS_def i128_max_def)
  have "\<exists>w''. and_then (execute_withdrawal book_token 6 (- 600) ?w) (execute_withdrawal book_token 6 700) = Inr w'' \<and> es_tokens w'' (3, 9) = 0"
    by (simp add: escrow_eval del: and_then_Inr)
  then have "\<exists>w''. execute_withdrawal book_token 6 700 w' = Inr w'' \<and> es_tokens w'' (3, 9) = 0" using w'(1) by simp
  then show ?thesis using w' by blast
qed

theorem escrow_books_balance_witness:
  "\<exists>w. escrow_run book_token (fresh_escrow 10 9 (\<lambda>_. 0)) [EscrowInitialize 4 1 500 100 3 250 8] w \<and> or_zero (es_fee_bps w) \<le> 1000"
proof -
  let ?w = "fresh_escrow 10 9 (\<lambda>_. 0 :: int)"
  obtain w where "exec_escrow book_token (EscrowInitialize 4 1 500 100 3 250 8)
      (?w\<lparr>es_ts := 10, es_signers := [4], es_frame := [], es_tokens := \<lambda>_. 0\<rparr>) = Inr w"
    by (simp add: escrow_initialize_def fresh_escrow_def MAX_FEE_BPS_def)
  then have r: "escrow_run book_token ?w [EscrowInitialize 4 1 500 100 3 250 8] w"
    using escrow_run.extend[OF escrow_run.start] by fastforce
  show ?thesis using escrow_books_balance[OF r] r by (auto simp: MAX_FEE_BPS_def)
qed

definition plan_env :: "(address \<times> address \<Rightarrow> int) milestones_env" where
  "plan_env = \<lparr>ms_self = 4, ms_signers = [], ms_frame = [], ms_events = [], ms_escrow = campaign_env\<lparr>es_signers := []\<rparr>,
     ms_creator = None, ms_platform = None, ms_escrow_addr = None, ms_milestones = None, ms_initialized = None\<rparr>"

definition two_steps :: "milestone list" where
  "two_steps = [\<lparr>title_hash = [], release_bps = 4000, ms_status = Pending, evidence_hash = None\<rparr>,
     \<lparr>title_hash = [1], release_bps = 6000, ms_status = Pending, evidence_hash = None\<rparr>]"

theorem milestone_releases_bounded_witness:
  "\<exists>w0 w'. milestones_initialize 6 7 9 two_steps plan_env = Inr w0 \<and>
     milestones_run book_token w0 [SubmitMilestone 0 [1], ApproveMilestone 0] w' \<and>
     ReleaseEvent 0 6 280 \<in> set (ms_events w') \<and> released_sum (ms_events w') \<le> 700"
proof -
  let ?a = "\<lambda>w. exec_milestone book_token (SubmitMilestone 0 [1]) (w\<lparr>ms_signers := [6], ms_frame := []\<rparr>)"
  let ?b = "\<lambda>w. exec_milestone book_token (ApproveMilestone 0) (w\<lparr>ms_signers := [7], ms_frame := []\<rparr>)"
  have "\<exists>w. and_then (milestones_initialize 6 7 9 two_steps plan_env) (\<lambda>w. and_then (?a w) ?b) = Inr w \<and>
      ReleaseEvent 0 6 280 \<in> set (ms_events w)"
    by (simp add: milestones_initialize_def plan_env_def two_steps_def add_u32_def submit_milestone_def
        milestones_auth_def milestone_at_def authorize_def approve_milestone_def get_total_raised_def release_share_def
        release_from_escrow_def approve_withdrawal_def escrow_admin_auth_def escrow_auth_def escrow_eval del: and_then_Inr)
  then obtain w0 w1 w2 where w0: "milestones_initialize 6 7 9 two_steps plan_env = Inr w0" and w1: "?a w0 = Inr w1"
    and w2: "?b w1 = Inr w2" and ev: "ReleaseEvent 0 6 280 \<in> set (ms_events w2)"
    unfolding and_then_Inr by blast
  have r: "milestones_run book_token w0 ([] @ [SubmitMilestone 0 [1]] @ [ApproveMilestone 0]) w2"
    using milestones_run.extend[OF milestones_run.extend[OF milestones_run.start w1] w2] by simp
  have h: "\<forall>m\<in>set two_steps. ms_status m = Pending \<and> 0 \<le> release_bps m" "released_sum (ms_events plan_env) = 0"
    "get_total_raised (ms_escrow plan_env) = 700"
    by (simp_all add: two_steps_def plan_env_def campaign_env_def get_total_raised_def)
  have "released_sum (ms_events w2) \<le> 700"
    using milestone_releases_bounded[OF w0 h(1,2) _ r] h(3) by simp
  then show ?thesis using w0 r ev by auto
qed

end
