(* ===== verification/CrowdPay.thy ===== *)
theory CrowdPay
  imports Escrow
begin

text \<open>
  The second crowdfunding contract (\<^verbatim>\<open>contracts/soroban/contracts/crowdpay/src/lib.rs\<close>): a campaign
  with a goal and a deadline whose creator is paid the whole balance when a milestone target is met, and
  whose contributors are refunded when the campaign has failed.  Shown: as long as no milestone is
  released, the contract holds what its contributors can reclaim, over every run; and that nothing ties
  a release to the status, so a creator can declare failure and still empty the contract.
\<close>

section \<open>State and entrypoints\<close>

record crowd_milestone =
  cm_target :: i128
  cm_released :: bool

datatype crowd_status = CrowdActive | CrowdFunded | CrowdFailed

record 't crowd_env =
  cp_ts :: u64
  cp_self :: address
  cp_signers :: "address list"
  cp_frame :: "address list"
  cp_tokens :: 't
  cp_campaign_id :: "symbol option"
  cp_goal :: "i128 option"
  cp_deadline :: "u64 option"
  cp_creator :: "address option"
  cp_token :: "address option"
  cp_total_raised :: "i128 option"
  cp_contributions :: "address \<rightharpoonup> i128"
  cp_milestones :: "crowd_milestone list option"
  cp_status :: "crowd_status option"

definition crowd_auth :: "address \<Rightarrow> 't crowd_env \<Rightarrow> 't crowd_env res" where
  "crowd_auth a w = and_then (authorize a (cp_signers w) (cp_frame w)) (\<lambda>fr. Inr (w\<lparr>cp_frame := fr\<rparr>))"

definition crowd_transfer ::
  "'t token_client \<Rightarrow> address \<Rightarrow> address \<Rightarrow> address \<Rightarrow> i128 \<Rightarrow> 't crowd_env \<Rightarrow> 't crowd_env res" where
  "crowd_transfer tok t src dst amount w =
     (case tk_transfer tok (cp_tokens w) t src dst amount of
        None \<Rightarrow> Inl CalleeTrapped
      | Some s \<Rightarrow> Inr (w\<lparr>cp_tokens := s\<rparr>))"

definition crowd_initialize ::
  "symbol \<Rightarrow> address \<Rightarrow> address \<Rightarrow> i128 \<Rightarrow> u64 \<Rightarrow> crowd_milestone list \<Rightarrow> 't crowd_env \<Rightarrow> 't crowd_env res" where
  "crowd_initialize campaign_id creator token goal deadline milestones w =
     and_then (ensure (cp_campaign_id w = None) RustPanic) (\<lambda>_.
     Inr (w\<lparr>cp_campaign_id := Some campaign_id, cp_creator := Some creator, cp_token := Some token,
            cp_goal := Some goal, cp_deadline := Some deadline, cp_milestones := Some milestones,
            cp_total_raised := Some 0, cp_status := Some CrowdActive\<rparr>))"

definition mark_funded :: "crowd_status \<Rightarrow> i128 \<Rightarrow> i128 \<Rightarrow> 't crowd_env \<Rightarrow> 't crowd_env" where
  "mark_funded st goal new_total w =
     (if new_total \<ge> goal \<and> st = CrowdActive then w\<lparr>cp_status := Some CrowdFunded\<rparr> else w)"

definition contribute :: "'t token_client \<Rightarrow> address \<Rightarrow> i128 \<Rightarrow> 't crowd_env \<Rightarrow> 't crowd_env res" where
  "contribute tok contributor amount w =
     and_then (crowd_auth contributor w) (\<lambda>w.
     and_then (ok_or RustPanic (cp_status w)) (\<lambda>st.
     and_then (ensure (\<not> (st \<noteq> CrowdActive \<and> st \<noteq> CrowdFunded)) RustPanic) (\<lambda>_.
     and_then (ok_or RustPanic (cp_deadline w)) (\<lambda>deadline.
     and_then (ensure (\<not> cp_ts w \<ge> deadline) RustPanic) (\<lambda>_.
     and_then (ok_or RustPanic (cp_token w)) (\<lambda>token_addr.
     and_then (crowd_transfer tok token_addr contributor (cp_self w) amount w) (\<lambda>w.
     and_then (add_i128 (or_zero (cp_contributions w contributor)) amount) (\<lambda>balance.
     let w = w\<lparr>cp_contributions := (cp_contributions w)(contributor \<mapsto> balance)\<rparr> in
     and_then (add_i128 (or_zero (cp_total_raised w)) amount) (\<lambda>new_total.
     let w = w\<lparr>cp_total_raised := Some new_total\<rparr> in
     and_then (ok_or RustPanic (cp_goal w)) (\<lambda>goal.
     Inr (mark_funded st goal new_total w)))))))))))"

definition release_milestone :: "'t token_client \<Rightarrow> nat \<Rightarrow> 't crowd_env \<Rightarrow> 't crowd_env res" where
  "release_milestone tok milestone_index w =
     and_then (ok_or RustPanic (cp_creator w)) (\<lambda>creator.
     and_then (crowd_auth creator w) (\<lambda>w.
     and_then (ok_or RustPanic (cp_milestones w)) (\<lambda>milestones.
     and_then (ensure (milestone_index < length milestones) RustPanic) (\<lambda>_.
     let milestone = milestones ! milestone_index in
     and_then (ensure (\<not> cm_released milestone) RustPanic) (\<lambda>_.
     and_then (ensure (\<not> or_zero (cp_total_raised w) < cm_target milestone) RustPanic) (\<lambda>_.
     let w = w\<lparr>cp_milestones := Some (milestones[milestone_index := milestone\<lparr>cm_released := True\<rparr>])\<rparr> in
     and_then (ok_or RustPanic (cp_token w)) (\<lambda>token_addr.
     let balance = tk_balance tok (cp_tokens w) token_addr (cp_self w) in
     if balance > 0 then crowd_transfer tok token_addr (cp_self w) creator balance w else Inr w)))))))"

definition crowd_refund :: "'t token_client \<Rightarrow> address \<Rightarrow> 't crowd_env \<Rightarrow> 't crowd_env res" where
  "crowd_refund tok contributor w =
     and_then (crowd_auth contributor w) (\<lambda>w.
     and_then (ok_or RustPanic (cp_status w)) (\<lambda>st.
     and_then (ensure (st = CrowdFailed) RustPanic) (\<lambda>_.
     and_then (ensure (cp_contributions w contributor \<noteq> None) StorageMissingValue) (\<lambda>_.
     let amount = or_zero (cp_contributions w contributor) in
     and_then (ensure (\<not> amount \<le> 0) RustPanic) (\<lambda>_.
     and_then (ok_or RustPanic (cp_token w)) (\<lambda>token_addr.
     and_then (crowd_transfer tok token_addr (cp_self w) contributor amount w) (\<lambda>w.
     Inr (w\<lparr>cp_contributions := (cp_contributions w)(contributor \<mapsto> 0)\<rparr>))))))))"

definition set_failed :: "'t crowd_env \<Rightarrow> 't crowd_env res" where
  "set_failed w =
     and_then (ok_or RustPanic (cp_deadline w)) (\<lambda>deadline.
     and_then (ok_or RustPanic (cp_goal w)) (\<lambda>goal.
     if cp_ts w \<ge> deadline \<and> or_zero (cp_total_raised w) < goal
     then Inr (w\<lparr>cp_status := Some CrowdFailed\<rparr>)
     else
       and_then (ok_or RustPanic (cp_creator w)) (\<lambda>creator.
       and_then (crowd_auth creator w) (\<lambda>w. Inr (w\<lparr>cp_status := Some CrowdFailed\<rparr>)))))"

definition get_crowd_status :: "'t crowd_env \<Rightarrow> crowd_status" where
  "get_crowd_status w = (case cp_status w of None \<Rightarrow> CrowdActive | Some s \<Rightarrow> s)"

definition get_crowd_total_raised :: "'t crowd_env \<Rightarrow> i128" where
  "get_crowd_total_raised w = or_zero (cp_total_raised w)"

section \<open>Runs\<close>

datatype (plugins only: code) crowd_call =
    CrowdInitialize symbol address address i128 u64 "crowd_milestone list"
  | Contribute address i128
  | ReleaseMilestone nat
  | CrowdRefund address
  | SetFailed

primrec exec_crowd :: "'t token_client \<Rightarrow> crowd_call \<Rightarrow> 't crowd_env \<Rightarrow> 't crowd_env res" where
  "exec_crowd tok (CrowdInitialize c cr t g d ms) w = crowd_initialize c cr t g d ms w"
| "exec_crowd tok (Contribute a x) w = contribute tok a x w"
| "exec_crowd tok (ReleaseMilestone i) w = release_milestone tok i w"
| "exec_crowd tok (CrowdRefund a) w = crowd_refund tok a w"
| "exec_crowd tok SetFailed w = set_failed w"

text \<open>Between two calls others may move tokens, but the contract grows no poorer.\<close>

inductive crowd_run :: "'t token_client \<Rightarrow> 't crowd_env \<Rightarrow> crowd_call list \<Rightarrow> 't crowd_env \<Rightarrow> bool"
  for tok :: "'t token_client" and w0 :: "'t crowd_env" where
  start: "crowd_run tok w0 [] w0"
| extend: "crowd_run tok w0 cs w \<Longrightarrow>
    (\<And>t. tk_balance tok (cp_tokens w) t (cp_self w) \<le> tk_balance tok tk t (cp_self w)) \<Longrightarrow> cp_self w \<notin> set sg \<Longrightarrow>
    exec_crowd tok c (w\<lparr>cp_ts := ts, cp_signers := sg, cp_frame := [], cp_tokens := tk\<rparr>) = Inr w' \<Longrightarrow>
    crowd_run tok w0 (cs @ [c]) w'"

definition fresh_crowd :: "u64 \<Rightarrow> address \<Rightarrow> 't \<Rightarrow> 't crowd_env" where
  "fresh_crowd ts self tk =
     \<lparr>cp_ts = ts, cp_self = self, cp_signers = [], cp_frame = [], cp_tokens = tk, cp_campaign_id = None, cp_goal = None,
      cp_deadline = None, cp_creator = None, cp_token = None, cp_total_raised = None, cp_contributions = Map.empty,
      cp_milestones = None, cp_status = None\<rparr>"

definition reclaimable :: "'t crowd_env \<Rightarrow> int" where
  "reclaimable w = map_sum (\<lambda>x. x) (cp_contributions w)"

definition crowd_covered :: "'t token_client \<Rightarrow> 't crowd_env \<Rightarrow> bool" where
  "crowd_covered tok w \<longleftrightarrow> finite (dom (cp_contributions w)) \<and>
     (cp_campaign_id w = None \<longrightarrow> cp_status w = None \<and> cp_deadline w = None \<and> cp_contributions w = Map.empty \<and>
        (\<forall>t. 0 \<le> tk_balance tok (cp_tokens w) t (cp_self w))) \<and>
     (\<forall>t. cp_token w = Some t \<longrightarrow> cp_campaign_id w \<noteq> None \<longrightarrow> reclaimable w \<le> tk_balance tok (cp_tokens w) t (cp_self w))"

lemma crowd_auth_Inr [simp]:
  "crowd_auth a w = Inr w' \<longleftrightarrow> a \<in> set (cp_signers w) \<and> a \<notin> set (cp_frame w) \<and> w' = w\<lparr>cp_frame := a # cp_frame w\<rparr>"
  by (auto simp: crowd_auth_def)

lemma crowd_transfer_Inr [simp]:
  "crowd_transfer tok t src dst a w = Inr w' \<longleftrightarrow>
     (\<exists>s. tk_transfer tok (cp_tokens w) t src dst a = Some s \<and> w' = w\<lparr>cp_tokens := s\<rparr>)"
  by (auto simp: crowd_transfer_def split: option.splits)

lemma contribute_shape:
  assumes "contribute tok a x w = Inr w'"
  obtains t where "a \<in> set (cp_signers w)" "cp_status w \<noteq> None" "cp_token w = Some t"
    "tk_transfer tok (cp_tokens w) t a (cp_self w) x = Some (cp_tokens w')"
    "cp_contributions w' = (cp_contributions w)(a \<mapsto> or_zero (cp_contributions w a) + x)"
    "cp_token w' = cp_token w" "cp_campaign_id w' = cp_campaign_id w" "cp_self w' = cp_self w" "cp_status w' \<noteq> None"
proof -
  let ?v = "\<lambda>s. w\<lparr>cp_frame := a # cp_frame w, cp_tokens := s,
     cp_contributions := (cp_contributions w)(a \<mapsto> or_zero (cp_contributions w a) + x),
     cp_total_raised := Some (or_zero (cp_total_raised w) + x)\<rparr>"
  from assms obtain st t s g n where h: "a \<in> set (cp_signers w)" "cp_status w = Some st" "cp_token w = Some t"
    "tk_transfer tok (cp_tokens w) t a (cp_self w) x = Some s"
    and w': "w' = mark_funded st g n (?v s)"
    unfolding contribute_def Let_def by auto
  show ?thesis by (rule that[of t]) (use h w' in \<open>auto simp: mark_funded_def split: if_splits\<close>)
qed

lemma crowd_refund_shape:
  assumes "crowd_refund tok a w = Inr w'"
  obtains t s where "a \<in> set (cp_signers w)" "cp_status w = Some CrowdFailed" "cp_token w = Some t" "0 < or_zero (cp_contributions w a)"
    "tk_transfer tok (cp_tokens w) t (cp_self w) a (or_zero (cp_contributions w a)) = Some s"
    "w' = w\<lparr>cp_frame := a # cp_frame w, cp_tokens := s, cp_contributions := (cp_contributions w)(a \<mapsto> 0)\<rparr>"
  using assms unfolding crowd_refund_def Let_def by auto


context sac_token
begin

lemma contribute_covered:
  assumes "contribute tok a x w = Inr w'" and "crowd_covered tok w" and "cp_self w \<notin> set (cp_signers w)"
  shows "crowd_covered tok w'"
proof (rule contribute_shape[OF assms(1)])
  fix t
  assume h: "a \<in> set (cp_signers w)" "cp_status w \<noteq> None" "cp_token w = Some t"
    and tr: "tk_transfer tok (cp_tokens w) t a (cp_self w) x = Some (cp_tokens w')"
    and w': "cp_contributions w' = (cp_contributions w)(a \<mapsto> or_zero (cp_contributions w a) + x)" "cp_token w' = cp_token w"
      "cp_campaign_id w' = cp_campaign_id w" "cp_self w' = cp_self w"
  have c: "cp_campaign_id w \<noteq> None" "finite (dom (cp_contributions w))" "reclaimable w \<le> tk_balance tok (cp_tokens w) t (cp_self w)"
    using assms(2) h by (auto simp: crowd_covered_def)
  have "reclaimable w' = reclaimable w + x"
    using map_sum_upd[OF c(2), of "\<lambda>x. x" a] w'(1) by (simp add: reclaimable_def balance_opt_val)
  moreover have "tk_balance tok (cp_tokens w') t (cp_self w) = tk_balance tok (cp_tokens w) t (cp_self w) + x"
    using transfer_balance[OF tr, of "cp_self w"] h(1) assms(3) by auto
  ultimately show ?thesis using c w' h(3) by (simp add: crowd_covered_def)
qed

lemma refund_covered:
  assumes "crowd_refund tok a w = Inr w'" and "crowd_covered tok w" and "cp_self w \<notin> set (cp_signers w)"
  shows "crowd_covered tok w'"
proof (rule crowd_refund_shape[OF assms(1)])
  fix t s
  assume h: "a \<in> set (cp_signers w)" "cp_status w = Some CrowdFailed" "cp_token w = Some t"
    and tr: "tk_transfer tok (cp_tokens w) t (cp_self w) a (or_zero (cp_contributions w a)) = Some s"
    and w': "w' = w\<lparr>cp_frame := a # cp_frame w, cp_tokens := s, cp_contributions := (cp_contributions w)(a \<mapsto> 0)\<rparr>"
  have c: "cp_campaign_id w \<noteq> None" "finite (dom (cp_contributions w))" "reclaimable w \<le> tk_balance tok (cp_tokens w) t (cp_self w)"
    using assms(2) h by (auto simp: crowd_covered_def)
  have "reclaimable w' = reclaimable w - or_zero (cp_contributions w a)"
    using map_sum_upd[OF c(2), of "\<lambda>x. x" a 0] w' by (simp add: reclaimable_def balance_opt_val)
  moreover have "tk_balance tok s t (cp_self w) = tk_balance tok (cp_tokens w) t (cp_self w) - or_zero (cp_contributions w a)"
    using transfer_balance[OF tr, of "cp_self w"] h(1) assms(3) by auto
  ultimately show ?thesis using c w' h(3) by (simp add: crowd_covered_def)
qed

lemma exec_crowd_covered:
  assumes "exec_crowd tok c w = Inr w'" and "crowd_covered tok w" and "cp_self w \<notin> set (cp_signers w)" and "\<forall>i. c \<noteq> ReleaseMilestone i"
  shows "crowd_covered tok w' \<and> cp_self w' = cp_self w"
proof (cases c)
  case (CrowdInitialize ci cr t g d ms)
  then show ?thesis using assms(1,2) by (auto simp: crowd_initialize_def crowd_covered_def reclaimable_def)
next
  case (Contribute a x)
  then have p: "contribute tok a x w = Inr w'" using assms(1) by simp
  then have "cp_self w' = cp_self w" by (rule contribute_shape) simp
  then show ?thesis using contribute_covered[OF p assms(2,3)] by simp
next
  case (ReleaseMilestone i)
  then show ?thesis using assms(4) by simp
next
  case (CrowdRefund a)
  then have p: "crowd_refund tok a w = Inr w'" using assms(1) by simp
  then have "cp_self w' = cp_self w" by (rule crowd_refund_shape) simp
  then show ?thesis using refund_covered[OF p assms(2,3)] by simp
next
  case SetFailed
  then show ?thesis using assms(1,2) by (auto simp: set_failed_def crowd_covered_def reclaimable_def split: if_splits)
qed

lemma run_crowd_covered:
  assumes "crowd_run tok w0 cs w" and "crowd_covered tok w0" and "\<forall>c\<in>set cs. \<forall>i. c \<noteq> ReleaseMilestone i"
  shows "crowd_covered tok w \<and> cp_self w = cp_self w0"
  using assms
proof (induction rule: crowd_run.induct)
  case start
  then show ?case by simp
next
  case (extend cs w tk sg c ts w')
  let ?v = "w\<lparr>cp_ts := ts, cp_signers := sg, cp_frame := [], cp_tokens := tk\<rparr>"
  have "crowd_covered tok w" "cp_self w = cp_self w0" using extend by auto
  then have "crowd_covered tok ?v" using extend.hyps(2) order_trans by (fastforce simp: crowd_covered_def reclaimable_def)
  then show ?case using exec_crowd_covered[OF extend.hyps(4)] extend.hyps(3) extend.prems(2) \<open>cp_self w = cp_self w0\<close> by auto
qed

end

text \<open>C32 (\<open>contribute\<close>, \<open>refund\<close>): as long as no milestone has been released, the contract holds at
  least the sum of the contributions that can still be reclaimed, whatever the order of contributions,
  refunds and failures.\<close>

theorem crowd_refunds_covered:
  assumes "crowd_run tok (fresh_crowd ts self tk) cs w" and "sac_token tok" and "\<forall>t. 0 \<le> tk_balance tok tk t self"
    and "\<forall>c\<in>set cs. \<forall>i. c \<noteq> ReleaseMilestone i" and "cp_token w = Some t" and "cp_campaign_id w \<noteq> None"
  shows "(\<Sum>a\<in>dom (cp_contributions w). the (cp_contributions w a)) \<le> tk_balance tok (cp_tokens w) t self"
proof -
  have "crowd_covered tok (fresh_crowd ts self tk)" using assms(3) by (simp add: crowd_covered_def fresh_crowd_def)
  then have "crowd_covered tok w \<and> cp_self w = self"
    using sac_token.run_crowd_covered[OF assms(2,1) _ assms(4)] by (simp add: fresh_crowd_def)
  then show ?thesis using assms(5,6) by (auto simp: crowd_covered_def reclaimable_def map_sum_def)
qed

text \<open>(\<open>release_milestone\<close>): the release does not look at the status.  On a campaign that has failed,
  the creator can still release a milestone whose target was met, which pays out the whole balance and
  leaves the refunds of all contributors uncovered.\<close>

theorem release_after_failure:
  assumes "cp_status w = Some CrowdFailed" and "cp_creator w = Some c" and "c \<in> set (cp_signers w)" and "c \<notin> set (cp_frame w)"
    and "cp_milestones w = Some ms" and "i < length ms" and "\<not> cm_released (ms ! i)" and "cm_target (ms ! i) \<le> or_zero (cp_total_raised w)"
    and "cp_token w = Some t" and "0 < tk_balance tok (cp_tokens w) t (cp_self w)" and "c \<noteq> cp_self w"
    and "tk_transfer tok (cp_tokens w) t (cp_self w) c (tk_balance tok (cp_tokens w) t (cp_self w)) = Some s" and "sac_token tok"
  shows "\<exists>w'. release_milestone tok i w = Inr w' \<and> cp_status w' = Some CrowdFailed \<and>
     tk_balance tok (cp_tokens w') t (cp_self w') = 0 \<and> reclaimable w' = reclaimable w"
  using assms sac_token.transfer_balance[OF assms(13,12), of "cp_self w"]
  by (simp add: release_milestone_def crowd_auth_def authorize_def Let_def crowd_transfer_def reclaimable_def)

section \<open>A concrete campaign\<close>

definition crowd_start :: "(address \<times> address \<Rightarrow> int) crowd_env" where
  "crowd_start = fresh_crowd 10 9 (\<lambda>(t, who). if who = 9 then 0 else 1000)"

definition crowd_plan :: "crowd_milestone list" where
  "crowd_plan = [\<lparr>cm_target = 100, cm_released = False\<rparr>]"

abbreviation crowd_exec :: "u64 \<Rightarrow> address list \<Rightarrow> crowd_call \<Rightarrow> (address \<times> address \<Rightarrow> int) crowd_env \<Rightarrow> (address \<times> address \<Rightarrow> int) crowd_env res"
  where "crowd_exec ts sg c w \<equiv>
    exec_crowd book_token c (w\<lparr>cp_ts := ts, cp_signers := sg, cp_frame := [], cp_tokens := cp_tokens w\<rparr>)"

lemmas crowd_eval = crowd_start_def fresh_crowd_def crowd_plan_def crowd_initialize_def contribute_def mark_funded_def crowd_auth_def
  authorize_def crowd_transfer_def add_i128_def checked_arith checked_def int_defs Let_def set_failed_def
  book_token_def move_balance_def release_milestone_def

definition crowd_failed_state :: "(address \<times> address \<Rightarrow> int) crowd_env \<Rightarrow> bool" where
  "crowd_failed_state w \<longleftrightarrow> cp_status w = Some CrowdFailed \<and> cp_creator w = Some 6 \<and> cp_frame w = [] \<and> cp_milestones w = Some crowd_plan \<and>
     cp_total_raised w = Some 300 \<and> cp_token w = Some 3 \<and> cp_campaign_id w = Some ''c'' \<and> cp_self w = 9 \<and>
     cp_contributions w = [5 \<mapsto> 300] \<and> cp_tokens w (3, 9) = 300"

lemma crowd_sample:
  "\<exists>w. and_then (crowd_exec 10 [] (CrowdInitialize ''c'' 6 3 500 100 crowd_plan) crowd_start)
       (\<lambda>w. and_then (crowd_exec 20 [5] (Contribute 5 300) w) (crowd_exec 100 [] SetFailed)) = Inr w \<and>
     crowd_failed_state w"
  by (simp add: crowd_eval crowd_failed_state_def del: and_then_Inr)

lemma crowd_sample_run:
  "\<exists>w. crowd_run book_token crowd_start ([] @ [CrowdInitialize ''c'' 6 3 500 100 crowd_plan] @ [Contribute 5 300] @ [SetFailed]) w \<and>
     crowd_failed_state w"
proof -
  obtain w1 w2 w3 where w1: "crowd_exec 10 [] (CrowdInitialize ''c'' 6 3 500 100 crowd_plan) crowd_start = Inr w1"
    and w2: "crowd_exec 20 [5] (Contribute 5 300) w1 = Inr w2" and w3: "crowd_exec 100 [] SetFailed w2 = Inr w3"
    and rest: "crowd_failed_state w3"
    using crowd_sample unfolding and_then_Inr by blast
  have "cp_self crowd_start = 9" by (simp add: crowd_start_def fresh_crowd_def)
  moreover have "cp_self w1 = cp_self crowd_start" using w1 by (auto simp: crowd_initialize_def)
  ultimately have s: "cp_self crowd_start = 9" "cp_self w1 = 9" by simp_all
  have "crowd_run book_token crowd_start [CrowdInitialize ''c'' 6 3 500 100 crowd_plan] w1"
    using crowd_run.extend[OF crowd_run.start _ _ w1] by simp
  from crowd_run.extend[OF this _ _ w2]
  have "crowd_run book_token crowd_start [CrowdInitialize ''c'' 6 3 500 100 crowd_plan, Contribute 5 300] w2" using s by simp
  from crowd_run.extend[OF this _ _ w3] show ?thesis using rest by auto
qed

theorem crowd_refunds_covered_witness:
  "\<exists>cs w. crowd_run book_token crowd_start cs w \<and> cp_contributions w = [5 \<mapsto> 300] \<and> 300 \<le> cp_tokens w (3, 9)"
proof -
  obtain w where r: "crowd_run book_token crowd_start [CrowdInitialize ''c'' 6 3 500 100 crowd_plan, Contribute 5 300, SetFailed] w"
    and f: "crowd_failed_state w" using crowd_sample_run by auto
  have h: "cp_token w = Some 3" "cp_campaign_id w = Some ''c''" "cp_contributions w = [5 \<mapsto> 300]"
    using f by (simp_all add: crowd_failed_state_def)
  have nn: "\<forall>t. 0 \<le> tk_balance book_token (\<lambda>(t, who). if who = 9 then 0 else 1000) t 9" by (simp add: book_token_def)
  have "(\<Sum>a\<in>dom (cp_contributions w). the (cp_contributions w a)) \<le> tk_balance book_token (cp_tokens w) 3 9"
    using crowd_refunds_covered[OF r[unfolded crowd_start_def] bt.sac_token_axioms nn _ h(1)] h(2) by simp
  then show ?thesis using r h(3) by (auto simp: book_token_def)
qed

theorem release_after_failure_witness:
  "\<exists>w w'. cp_status w = Some CrowdFailed \<and> release_milestone book_token 0 w = Inr w' \<and> reclaimable w' = 300 \<and>
     tk_balance book_token (cp_tokens w') 3 (cp_self w') = 0"
proof -
  obtain w where f: "crowd_failed_state w" using crowd_sample_run by blast
  have h: "cp_status w = Some CrowdFailed" "cp_creator w = Some 6"
    "cp_frame w = []" "cp_milestones w = Some crowd_plan" "cp_total_raised w = Some 300" "cp_token w = Some 3"
    "cp_self w = 9" "cp_contributions w = [5 \<mapsto> 300]" "cp_tokens w (3, 9) = 300"
    using f by (simp_all add: crowd_failed_state_def)
  let ?w = "w\<lparr>cp_signers := [6]\<rparr>"
  have b: "tk_balance book_token (cp_tokens ?w) 3 (cp_self ?w) = 300" using h by (simp add: book_token_def)
  then obtain s where s: "tk_transfer book_token (cp_tokens ?w) 3 (cp_self ?w) 6 (tk_balance book_token (cp_tokens ?w) 3 (cp_self ?w)) = Some s"
    by (auto simp: book_token_def move_balance_def h Let_def)
  obtain w' where "release_milestone book_token 0 ?w = Inr w'" "tk_balance book_token (cp_tokens w') 3 (cp_self w') = 0"
    "reclaimable w' = reclaimable ?w"
    using release_after_failure[of ?w 6 crowd_plan 0 3, OF _ _ _ _ _ _ _ _ _ _ _ s bt.sac_token_axioms] h b
    by (auto simp: crowd_plan_def)
  moreover have "reclaimable ?w = 300" by (simp add: reclaimable_def h map_sum_def)
  ultimately show ?thesis using h(1) by (intro exI[of _ ?w] exI[of _ w']) simp
qed

end
