(* ===== verification/CwState.thy ===== *)
theory CwState
  imports Oracle "HOL-Library.List_Lexorder" "HOL-Library.Char_ord"
begin

text \<open>
  The CosmWasm crate \<^verbatim>\<open>src/contracts/creditra-credit\<close>: its errors (\<^verbatim>\<open>error.rs\<close>), its storage
  (\<^verbatim>\<open>state.rs\<close>, one field per storage key), and the modules the entrypoints call: \<^verbatim>\<open>math_utils.rs\<close>,
  \<^verbatim>\<open>accrual.rs\<close>, \<^verbatim>\<open>limits.rs\<close>, \<^verbatim>\<open>penalties.rs\<close>, \<^verbatim>\<open>handshake.rs\<close>, \<^verbatim>\<open>fees.rs\<close>,
  \<^verbatim>\<open>oracles.rs\<close> and \<^verbatim>\<open>collateral.rs\<close>.  The crate is built with overflow checks; a bare
  operator that leaves its range traps.  Address validation and the decimal notation of \<open>Uint128\<close>
  belong to \<^verbatim>\<open>cosmwasm-std\<close> and are parameters (the record \<open>cw_api\<close>).

  The lemmas show that the fixed-point routines are exact, that a fee split loses nothing, that version
  negotiation is symmetric and sound, and where this crate departs from the Soroban contract it says it
  mirrors: the length of its year, and the width at which a price deviation is compared.
\<close>

named_theorems cw_defs "unfoldings of the CosmWasm crate's small helpers"

section \<open>Errors\<close>

datatype cw_error =
    CwStd std_error
  | CwCreditLineNotFound u64
  | CwDrawNotFound u64 u64
  | CwUnauthorized
  | CwCrossTenantIdentifier
  | CwCollateralInsufficient
  | CwInsufficientCollateralBalance
  | CwInvalidAmount
  | CwAlreadySettled
  | CwOraclePriceInvalid
  | CwOracleQuorumNotMet
  | CwOracleNotFound
  | CwRateTooHigh
  | CwOverflow
  | CwCollateralTokenNotAllowed
  | CwTreasuryAddressNotSet
  | CwBountyAddressNotSet
  | CwLateFeeConfigInvalid
  | CwProtocolFeeBpsExceeded
  | CwRateCeilingExceeded
  | CwInvalidFeeShareBps
  | CwInsufficientTreasuryBalance
  | CwInsufficientBountyBalance
  | CwOverLimit
  | CwTooManyCollateralTokens
and std_error =
    GenericErr string
  | ParseErr string string
  | InvalidAddr
  | StdNotFound
  | OverflowErr
  | DivideByZeroErr
  | Displayed cw_error

datatype cw_error_category = CatStd | CatNotFound | CatAuth | CatCollateral | CatValidation | CatState | CatOracle

primrec cw_category :: "cw_error \<Rightarrow> cw_error_category" where
  "cw_category (CwStd _) = CatStd"
| "cw_category (CwCreditLineNotFound _) = CatNotFound"
| "cw_category (CwDrawNotFound _ _) = CatNotFound"
| "cw_category CwUnauthorized = CatAuth"
| "cw_category CwCrossTenantIdentifier = CatAuth"
| "cw_category CwCollateralInsufficient = CatCollateral"
| "cw_category CwInsufficientCollateralBalance = CatCollateral"
| "cw_category CwCollateralTokenNotAllowed = CatCollateral"
| "cw_category CwInvalidAmount = CatValidation"
| "cw_category CwAlreadySettled = CatState"
| "cw_category CwOraclePriceInvalid = CatOracle"
| "cw_category CwOracleQuorumNotMet = CatOracle"
| "cw_category CwOracleNotFound = CatOracle"
| "cw_category CwRateTooHigh = CatValidation"
| "cw_category CwOverflow = CatState"
| "cw_category CwRateCeilingExceeded = CatValidation"
| "cw_category CwInvalidFeeShareBps = CatValidation"
| "cw_category CwInsufficientTreasuryBalance = CatCollateral"
| "cw_category CwInsufficientBountyBalance = CatCollateral"
| "cw_category CwTreasuryAddressNotSet = CatState"
| "cw_category CwBountyAddressNotSet = CatState"
| "cw_category CwLateFeeConfigInvalid = CatValidation"
| "cw_category CwProtocolFeeBpsExceeded = CatValidation"
| "cw_category CwOverLimit = CatValidation"
| "cw_category CwTooManyCollateralTokens = CatValidation"

text \<open>An invocation fails with an error of the contract or by a trap of the virtual machine.\<close>

datatype cw_fail = CwErr cw_error | CwTrap

type_synonym 'a cw = "cw_fail + 'a"

section \<open>Storage\<close>

type_synonym cw_addr = string

record cw_api =
  addr_validate :: "string \<Rightarrow> cw_addr option"
  parse_uint128 :: "string \<Rightarrow> u128 option"
  uint128_to_string :: "u128 \<Rightarrow> string"

record cw_env =
  block_time :: u64
  block_height :: u64

record credit_line =
  cl_id :: u64
  cl_borrower :: cw_addr
  cl_collateral_denom :: string
  cl_collateral_amount :: u128
  cl_credit_denom :: string
  cl_credit_amount :: u128
  cl_active :: bool

record draw =
  dr_id :: u64
  dr_credit_line_id :: u64
  dr_amount :: u128
  dr_denom :: string
  drawn_at :: u64
  drawn_by :: cw_addr
  dr_repaid :: bool

datatype draw_action = DrawCreated | DrawRepaid | DrawLiquidated | MemoAdded

record draw_audit_entry =
  da_seq :: u64
  da_draw_id :: u64
  da_credit_line_id :: u64
  da_action :: draw_action
  da_timestamp :: u64
  da_block_height :: u64
  da_by :: cw_addr
  da_memo :: string

record draw_audit_event =
  de_seq :: u64
  de_action :: draw_action
  de_timestamp :: u64
  de_block_height :: u64
  de_by :: cw_addr
  de_memo :: string

definition into_event :: "draw_audit_entry \<Rightarrow> draw_audit_event" where
  "into_event e = \<lparr>de_seq = da_seq e, de_action = da_action e, de_timestamp = da_timestamp e,
     de_block_height = da_block_height e, de_by = da_by e, de_memo = da_memo e\<rparr>"

record cw_quorum_config =
  cq_min_quorum_k :: u32
  cq_max_deviation_bps :: u32
  cq_max_age_seconds :: u64

record oracle_report_data =
  or_value :: i128
  or_timestamp :: u64

record oracle_price_record =
  op_price :: i128
  op_timestamp :: u64

record flat_fee_config =
  ff_amount :: u128

record apr_fee_config =
  af_surcharge_bps :: u32

datatype cw_late_fee_config = FlatFee flat_fee_config | AprFee apr_fee_config

definition CW_MAX_ORACLE_FEEDS :: int where [cw_defs]: "CW_MAX_ORACLE_FEEDS = 20"
definition MAX_COLLATERAL_TOKENS :: int where [cw_defs]: "MAX_COLLATERAL_TOKENS = 50"
definition DEFAULT_COLLATERAL_RISK_WEIGHT_BPS :: u32 where [cw_defs]: "DEFAULT_COLLATERAL_RISK_WEIGHT_BPS = 10000"

record cw_store =
  cs_config :: "cw_addr option"
  cs_credit_line_count :: "u64 option"
  cs_credit_lines :: "u64 \<rightharpoonup> credit_line"
  cs_draw_count :: "u64 \<rightharpoonup> u64"
  cs_draws :: "u64 \<times> u64 \<rightharpoonup> draw"
  cs_draw_audit_count :: "u64 \<times> u64 \<rightharpoonup> u64"
  cs_draw_audit :: "u64 \<times> u64 \<times> u64 \<rightharpoonup> draw_audit_entry"
  cs_borrower_to_id :: "cw_addr \<rightharpoonup> u64"
  cs_oracle_quorum_config :: "cw_quorum_config option"
  cs_oracle_price_record :: "oracle_price_record option"
  cs_oracle_list :: "cw_addr list option"
  cs_oracle_weight :: "cw_addr \<rightharpoonup> u32"
  cs_oracle_report :: "cw_addr \<rightharpoonup> oracle_report_data"
  cs_late_fee_config :: "cw_late_fee_config option"
  cs_borrower_collateral_tokens :: "cw_addr \<rightharpoonup> string list"
  cs_collateral_balances :: "cw_addr \<times> string \<rightharpoonup> u128"
  cs_collateral_risk_weights :: "string \<rightharpoonup> u32"
  cs_collateral_token_allowlist :: "string list option"
  cs_default_fee_share_bps :: "u32 option"
  cs_market_fee_share_bps :: "string \<rightharpoonup> u32"
  cs_treasury_balance :: "string \<rightharpoonup> u128"
  cs_bounty_balance :: "string \<rightharpoonup> u128"
  cs_protocol_fee_bps :: "u32 option"
  cs_protocol_version :: "protocol_version option"

text \<open>\<open>unwrap_or_default\<close> on a stored list, and the responses of the handlers.\<close>

definition or_nil :: "'a list option \<Rightarrow> 'a list" where
  [cw_defs]: "or_nil x = (case x of None \<Rightarrow> [] | Some xs \<Rightarrow> xs)"

lemma or_nil_simps [simp]: "or_nil None = []" "or_nil (Some xs) = xs"
  by (simp_all add: or_nil_def)

datatype attr_value = Txt string | Dec int

type_synonym cw_response = "(string \<times> attr_value) list"

definition std_generic :: "string \<Rightarrow> cw_fail" where
  "std_generic s = CwErr (CwStd (GenericErr s))"

definition uint_add :: "cw_fail \<Rightarrow> u128 \<Rightarrow> u128 \<Rightarrow> u128 cw" where
  [cw_defs]: "uint_add e a b = ok_or e (checked_add_u128 a b)"
definition uint_sub :: "cw_fail \<Rightarrow> u128 \<Rightarrow> u128 \<Rightarrow> u128 cw" where
  [cw_defs]: "uint_sub e a b = ok_or e (checked_sub_u128 a b)"
definition uint_mul :: "cw_fail \<Rightarrow> u128 \<Rightarrow> u128 \<Rightarrow> u128 cw" where
  [cw_defs]: "uint_mul e a b = ok_or e (checked_mul_u128 a b)"
definition uint_div :: "cw_fail \<Rightarrow> u128 \<Rightarrow> u128 \<Rightarrow> u128 cw" where
  [cw_defs]: "uint_div e a b = (if b = 0 then Inl e else Inr (a div b))"
definition add_u64 :: "u64 \<Rightarrow> u64 \<Rightarrow> u64 cw" where
  [cw_defs]: "add_u64 a b = ok_or CwTrap (checked in_u64 (a + b))"

lemma uint_ops [simp]:
  "uint_add e a b = Inr c \<longleftrightarrow> in_u128 (a + b) \<and> c = a + b"
  "uint_sub e a b = Inr c \<longleftrightarrow> in_u128 (a - b) \<and> c = a - b"
  "uint_mul e a b = Inr c \<longleftrightarrow> in_u128 (a * b) \<and> c = a * b"
  "uint_div e a b = Inr c \<longleftrightarrow> b \<noteq> 0 \<and> c = a div b"
  "add_u64 a b = Inr c \<longleftrightarrow> in_u64 (a + b) \<and> c = a + b"
  by (auto simp: cw_defs checked_arith)

section \<open>Fixed-point helpers, accrual and rate ceilings\<close>

definition cw_mul_div :: "u128 \<Rightarrow> u128 \<Rightarrow> u128 \<Rightarrow> rounding \<Rightarrow> u128 option" where
  "cw_mul_div a numerator denominator rnd =
     (if denominator = 0 then None
      else Option.bind (checked_mul_u128 a numerator) (\<lambda>product.
        let quotient = product div denominator in
        case rnd of
          Floor \<Rightarrow> Some quotient
        | Ceil \<Rightarrow> if product mod denominator \<noteq> 0 then checked_add_u128 quotient 1 else Some quotient))"

definition CW_SECONDS_PER_YEAR :: u64 where [cw_defs]: "CW_SECONDS_PER_YEAR = 31536000"
definition CW_BPS_DENOMINATOR :: u64 where [cw_defs]: "CW_BPS_DENOMINATOR = 10000"
definition CW_BPS_YEAR_DENOM :: u128 where [cw_defs]: "CW_BPS_YEAR_DENOM = CW_BPS_DENOMINATOR * CW_SECONDS_PER_YEAR"

definition cw_accrued_interest :: "u128 \<Rightarrow> u32 \<Rightarrow> u64 \<Rightarrow> u128 cw" where
  "cw_accrued_interest prin rate_bps elapsed_seconds =
     (if prin = 0 \<or> rate_bps = 0 \<or> elapsed_seconds = 0 then Inr 0
      else
        and_then (uint_mul (CwErr CwOverflow) prin rate_bps) (\<lambda>v.
        and_then (uint_mul (CwErr CwOverflow) v elapsed_seconds) (\<lambda>numerator.
        uint_div (CwErr CwOverflow) numerator CW_BPS_YEAR_DENOM)))"

definition MAX_RATE_BPS :: u32 where [cw_defs]: "MAX_RATE_BPS = 10000"

definition is_valid_ceiling_bps :: "u32 \<Rightarrow> bool" where
  "is_valid_ceiling_bps bps = (bps \<le> MAX_RATE_BPS)"

definition validate_ceiling_bps :: "u32 \<Rightarrow> u32 cw" where
  "validate_ceiling_bps bps = (if is_valid_ceiling_bps bps then Inr bps else Inl (CwErr CwInvalidAmount))"

definition effective_ceiling_bps :: "u32 \<Rightarrow> u32 option \<Rightarrow> u32" where
  "effective_ceiling_bps default_bps borrower_override = (case borrower_override of Some bps \<Rightarrow> bps | None \<Rightarrow> default_bps)"

definition check_rate_within_ceiling :: "u32 \<Rightarrow> u32 \<Rightarrow> unit cw" where
  "check_rate_within_ceiling rate_bps ceiling_bps = ensure (\<not> ceiling_bps < rate_bps) (CwErr CwRateCeilingExceeded)"

definition clamp_rate_to_ceiling :: "u32 \<Rightarrow> u32 \<Rightarrow> u32" where
  "clamp_rate_to_ceiling rate_bps ceiling_bps = (if rate_bps < ceiling_bps then rate_bps else ceiling_bps)"

definition max_interest_for_principal :: "u128 \<Rightarrow> u32 \<Rightarrow> u128 cw" where
  "max_interest_for_principal prin ceiling_bps =
     and_then (uint_mul (CwErr CwInvalidAmount) prin ceiling_bps) (\<lambda>scaled.
     uint_div (CwErr CwInvalidAmount) scaled 10000)"

section \<open>Late fees\<close>

definition MAX_SURCHARGE_BPS :: u32 where [cw_defs]: "MAX_SURCHARGE_BPS = 10000"

definition cw_compute_late_fee :: "cw_late_fee_config \<Rightarrow> u64 \<Rightarrow> u128 cw" where
  "cw_compute_late_fee config missed_installments =
     (if missed_installments = 0 then Inr 0
      else case config of
        FlatFee c \<Rightarrow> if ff_amount c = 0 then Inr 0 else uint_mul (CwErr CwOverflow) (ff_amount c) missed_installments
      | AprFee _ \<Rightarrow> Inr 0)"

definition validate_late_fee_config :: "cw_late_fee_config \<Rightarrow> unit cw" where
  "validate_late_fee_config config =
     (case config of
        FlatFee c \<Rightarrow> ensure (ff_amount c \<noteq> 0) (CwErr CwInvalidAmount)
      | AprFee c \<Rightarrow> ensure (\<not> MAX_SURCHARGE_BPS < af_surcharge_bps c) (CwErr CwRateTooHigh))"

section \<open>Version handshake\<close>

definition is_compatible_with :: "protocol_version \<Rightarrow> protocol_version \<Rightarrow> bool" where
  "is_compatible_with v other = (pv_major v = pv_major other)"

definition meets_minimum :: "protocol_version \<Rightarrow> protocol_version \<Rightarrow> bool" where
  "meets_minimum v m = (pv_major v = pv_major m \<and> pv_minor v \<ge> pv_minor m)"

definition negotiate ::
  "protocol_version \<Rightarrow> protocol_version \<Rightarrow> protocol_version \<Rightarrow> protocol_version \<Rightarrow> protocol_version option" where
  "negotiate our_version their_version our_min_compat their_min_compat =
     (if pv_major our_version \<noteq> pv_major their_version then None
      else if \<not> meets_minimum our_version their_min_compat then None
      else if \<not> meets_minimum their_version our_min_compat then None
      else Some \<lparr>pv_major = pv_major our_version, pv_minor = min (pv_minor our_version) (pv_minor their_version)\<rparr>)"

definition CURRENT_PROTOCOL_VERSION :: protocol_version where
  [cw_defs]: "CURRENT_PROTOCOL_VERSION = \<lparr>pv_major = 1, pv_minor = 0\<rparr>"

definition initialize_version :: "cw_store \<Rightarrow> cw_store" where
  "initialize_version st =
     (if cs_protocol_version st = None then st\<lparr>cs_protocol_version := Some CURRENT_PROTOCOL_VERSION\<rparr> else st)"

definition query_protocol_version :: "cw_store \<Rightarrow> protocol_version cw" where
  "query_protocol_version st = ok_or (CwErr (CwStd StdNotFound)) (cs_protocol_version st)"

definition set_protocol_version :: "protocol_version \<Rightarrow> cw_store \<Rightarrow> cw_store" where
  "set_protocol_version v st = st\<lparr>cs_protocol_version := Some v\<rparr>"

definition verify_peer_version :: "protocol_version \<Rightarrow> protocol_version \<Rightarrow> bool" where
  "verify_peer_version our_version peer_version =
     (is_compatible_with our_version peer_version \<and> is_compatible_with peer_version our_version)"

section \<open>Protocol fees\<close>

definition CW_MAX_PROTOCOL_FEE_BPS :: u32 where [cw_defs]: "CW_MAX_PROTOCOL_FEE_BPS = 1000"
definition CW_MAX_FEE_SHARE_BPS :: u32 where [cw_defs]: "CW_MAX_FEE_SHARE_BPS = 10000"
definition CW_DEFAULT_TREASURY_FEE_SHARE_BPS :: u32 where [cw_defs]: "CW_DEFAULT_TREASURY_FEE_SHARE_BPS = 10000"

record cw_fee_split =
  cw_treasury_amount :: u128
  cw_bounty_amount :: u128

definition cw_split_protocol_fee :: "u128 \<Rightarrow> u32 \<Rightarrow> cw_fee_split cw" where
  "cw_split_protocol_fee total_fee treasury_share_bps =
     and_then (ensure (\<not> CW_MAX_FEE_SHARE_BPS < treasury_share_bps) (CwErr CwInvalidFeeShareBps)) (\<lambda>_.
     if total_fee = 0 then Inr \<lparr>cw_treasury_amount = 0, cw_bounty_amount = 0\<rparr>
     else if treasury_share_bps = 0 then Inr \<lparr>cw_treasury_amount = 0, cw_bounty_amount = total_fee\<rparr>
     else if CW_MAX_FEE_SHARE_BPS \<le> treasury_share_bps then Inr \<lparr>cw_treasury_amount = total_fee, cw_bounty_amount = 0\<rparr>
     else
       and_then (uint_mul (std_generic ''Fee split overflow'') total_fee treasury_share_bps) (\<lambda>v.
       and_then (uint_div (std_generic ''Fee split division by zero'') v CW_MAX_FEE_SHARE_BPS) (\<lambda>treasury_amount.
       and_then (uint_sub (std_generic ''Fee split subtraction overflow'') total_fee treasury_amount) (\<lambda>bounty_amount.
       Inr \<lparr>cw_treasury_amount = treasury_amount, cw_bounty_amount = bounty_amount\<rparr>))))"

definition cw_get_treasury_fee_share_bps :: "string \<Rightarrow> cw_store \<Rightarrow> u32" where
  "cw_get_treasury_fee_share_bps market_denom st =
     (case cs_market_fee_share_bps st market_denom of
        Some bps \<Rightarrow> bps
      | None \<Rightarrow> (case cs_default_fee_share_bps st of Some bps \<Rightarrow> bps | None \<Rightarrow> CW_DEFAULT_TREASURY_FEE_SHARE_BPS))"

definition credit_treasury :: "string \<Rightarrow> u128 \<Rightarrow> cw_store \<Rightarrow> cw_store cw" where
  "credit_treasury market_denom amount st =
     (if amount = 0 then Inr st
      else and_then (uint_add (std_generic ''Treasury balance overflow'') (or_zero (cs_treasury_balance st market_denom)) amount)
        (\<lambda>updated. Inr (st\<lparr>cs_treasury_balance := (cs_treasury_balance st)(market_denom \<mapsto> updated)\<rparr>)))"

definition credit_bounty :: "string \<Rightarrow> u128 \<Rightarrow> cw_store \<Rightarrow> cw_store cw" where
  "credit_bounty market_denom amount st =
     (if amount = 0 then Inr st
      else and_then (uint_add (std_generic ''Bounty balance overflow'') (or_zero (cs_bounty_balance st market_denom)) amount)
        (\<lambda>updated. Inr (st\<lparr>cs_bounty_balance := (cs_bounty_balance st)(market_denom \<mapsto> updated)\<rparr>)))"

definition cw_accrue_protocol_fee :: "string \<Rightarrow> u128 \<Rightarrow> cw_store \<Rightarrow> (cw_fee_split \<times> cw_store) cw" where
  "cw_accrue_protocol_fee market_denom total_fee st =
     (if total_fee = 0 then Inr (\<lparr>cw_treasury_amount = 0, cw_bounty_amount = 0\<rparr>, st)
      else
        and_then (cw_split_protocol_fee total_fee (cw_get_treasury_fee_share_bps market_denom st)) (\<lambda>split.
        and_then (credit_treasury market_denom (cw_treasury_amount split) st) (\<lambda>st.
        and_then (credit_bounty market_denom (cw_bounty_amount split) st) (\<lambda>st.
        Inr (split, st)))))"

definition assert_owner :: "cw_addr \<Rightarrow> cw_store \<Rightarrow> cw_addr cw" where
  "assert_owner sender st =
     and_then (ok_or (CwErr (CwStd StdNotFound)) (cs_config st)) (\<lambda>owner.
     and_then (ensure (sender = owner) (CwErr CwUnauthorized)) (\<lambda>_. Inr owner))"

definition cw_set_protocol_fee_bps :: "cw_addr \<Rightarrow> u32 \<Rightarrow> cw_store \<Rightarrow> cw_store cw" where
  "cw_set_protocol_fee_bps sender bps st =
     and_then (assert_owner sender st) (\<lambda>_.
     and_then (ensure (\<not> CW_MAX_PROTOCOL_FEE_BPS < bps) (CwErr CwProtocolFeeBpsExceeded)) (\<lambda>_.
     Inr (st\<lparr>cs_protocol_fee_bps := Some bps\<rparr>)))"

definition get_protocol_fee_bps :: "cw_store \<Rightarrow> u32" where
  "get_protocol_fee_bps st = or_zero (cs_protocol_fee_bps st)"

definition cw_withdraw_treasury :: "cw_addr \<Rightarrow> string \<Rightarrow> u128 \<Rightarrow> cw_store \<Rightarrow> (u128 \<times> cw_store) cw" where
  "cw_withdraw_treasury sender market_denom amount st =
     and_then (assert_owner sender st) (\<lambda>_.
     and_then (ensure (amount \<noteq> 0) (CwErr CwInvalidAmount)) (\<lambda>_.
     let balance = or_zero (cs_treasury_balance st market_denom) in
     and_then (ensure (\<not> balance < amount) (CwErr CwInsufficientTreasuryBalance)) (\<lambda>_.
     and_then (uint_sub (std_generic ''Treasury withdrawal underflow'') balance amount) (\<lambda>updated.
     Inr (amount, st\<lparr>cs_treasury_balance := (cs_treasury_balance st)(market_denom \<mapsto> updated)\<rparr>)))))"

definition cw_withdraw_bounty :: "cw_addr \<Rightarrow> string \<Rightarrow> u128 \<Rightarrow> cw_store \<Rightarrow> (u128 \<times> cw_store) cw" where
  "cw_withdraw_bounty sender market_denom amount st =
     and_then (assert_owner sender st) (\<lambda>_.
     and_then (ensure (amount \<noteq> 0) (CwErr CwInvalidAmount)) (\<lambda>_.
     let balance = or_zero (cs_bounty_balance st market_denom) in
     and_then (ensure (\<not> balance < amount) (CwErr CwInsufficientBountyBalance)) (\<lambda>_.
     and_then (uint_sub (std_generic ''Bounty withdrawal underflow'') balance amount) (\<lambda>updated.
     Inr (amount, st\<lparr>cs_bounty_balance := (cs_bounty_balance st)(market_denom \<mapsto> updated)\<rparr>)))))"

section \<open>Oracles\<close>

definition cw_add_oracle :: "cw_addr \<Rightarrow> u32 \<Rightarrow> cw_store \<Rightarrow> cw_store cw" where
  "cw_add_oracle oracle weight st =
     and_then (ensure (weight \<noteq> 0) (CwErr CwInvalidAmount)) (\<lambda>_.
     let oracle_list = or_nil (cs_oracle_list st);
         st = (if oracle \<in> set oracle_list then st else st\<lparr>cs_oracle_list := Some (oracle_list @ [oracle])\<rparr>) in
     Inr (st\<lparr>cs_oracle_weight := (cs_oracle_weight st)(oracle \<mapsto> weight)\<rparr>))"

definition cw_remove_oracle :: "cw_addr \<Rightarrow> cw_store \<Rightarrow> cw_store cw" where
  "cw_remove_oracle oracle st =
     (let oracle_list = or_nil (cs_oracle_list st) in
      if oracle \<in> set oracle_list
      then Inr (st\<lparr>cs_oracle_list := Some (remove1 oracle oracle_list),
                  cs_oracle_weight := (cs_oracle_weight st)(oracle := None),
                  cs_oracle_report := (cs_oracle_report st)(oracle := None)\<rparr>)
      else Inl (CwErr CwOracleNotFound))"

definition block_seconds :: "cw_env \<Rightarrow> u64" where
  [cw_defs]: "block_seconds env = block_time env div 1000000000"

definition cw_report_value :: "cw_env \<Rightarrow> cw_addr \<Rightarrow> i128 \<Rightarrow> cw_store \<Rightarrow> cw_store cw" where
  "cw_report_value env sender value st =
     and_then (ensure (sender \<in> set (or_nil (cs_oracle_list st))) (CwErr CwUnauthorized)) (\<lambda>_.
     Inr (st\<lparr>cs_oracle_report := (cs_oracle_report st)(sender \<mapsto> \<lparr>or_value = value, or_timestamp = block_seconds env\<rparr>)\<rparr>))"

definition is_price_stale :: "oracle_price_record \<Rightarrow> cw_quorum_config \<Rightarrow> u64 \<Rightarrow> bool" where
  "is_price_stale rec cfg current_timestamp =
     (if current_timestamp < op_timestamp rec then True
      else cq_max_age_seconds cfg < saturating_sub_u64 current_timestamp (op_timestamp rec))"

text \<open>The cast to \<open>u32\<close> keeps the low 32 bits.\<close>

definition cw_compute_deviation_bps :: "i128 \<Rightarrow> i128 \<Rightarrow> u32 option" where
  "cw_compute_deviation_bps price last_price =
     (if last_price \<le> 0 then None
      else
        Option.bind (checked_mul_u128 \<bar>price - last_price\<bar> 10000) (\<lambda>v.
        Option.bind (checked_add_u128 v (last_price - 1)) (\<lambda>v.
        Some (v div last_price mod 4294967296))))"

fun cw_find_window :: "i128 list \<Rightarrow> nat \<Rightarrow> u32 \<Rightarrow> nat list \<Rightarrow> i128 cw" where
  "cw_find_window xs kk max_dev [] = Inl (CwErr CwOracleQuorumNotMet)"
| "cw_find_window xs kk max_dev (i # is) =
     (let lo = xs ! i; hi = xs ! (i + kk - 1);
          dev = (case cw_compute_deviation_bps hi lo of None \<Rightarrow> u32_max | Some d \<Rightarrow> d) in
      if dev \<le> max_dev then Inr (xs ! (i + (kk - 1) div 2))
      else cw_find_window xs kk max_dev is)"

definition cw_resolve_quorum_price :: "i128 list \<Rightarrow> cw_quorum_config \<Rightarrow> i128 cw" where
  "cw_resolve_quorum_price prices cfg =
     (let n = length prices; k = cq_min_quorum_k cfg in
      and_then (ensure (\<not> (n = 0 \<or> CW_MAX_ORACLE_FEEDS < int n)) (CwErr CwOraclePriceInvalid)) (\<lambda>_.
      and_then (ensure (\<not> (k < 2 \<or> int n < k)) (CwErr CwOracleQuorumNotMet)) (\<lambda>_.
      and_then (ensure (\<forall>p\<in>set prices. \<not> p \<le> 0) (CwErr CwOraclePriceInvalid)) (\<lambda>_.
      let kk = nat k in
      cw_find_window (selection_sort (\<lambda>x. x) prices) kk (cq_max_deviation_bps cfg) [0..<Suc (n - kk)]))))"

section \<open>Collateral\<close>

definition cw_is_collateral_token_allowed :: "string \<Rightarrow> cw_store \<Rightarrow> bool" where
  "cw_is_collateral_token_allowed denom st = (denom \<in> set (or_nil (cs_collateral_token_allowlist st)))"

definition collateral_risk_weight_bps :: "string \<Rightarrow> cw_store \<Rightarrow> u32" where
  "collateral_risk_weight_bps denom st =
     (case cs_collateral_risk_weights st denom of Some bps \<Rightarrow> bps | None \<Rightarrow> DEFAULT_COLLATERAL_RISK_WEIGHT_BPS)"

definition record_token :: "cw_addr \<Rightarrow> string \<Rightarrow> cw_store \<Rightarrow> cw_store" where
  "record_token acct denom st =
     (let tokens = or_nil (cs_borrower_collateral_tokens st acct) in
      if denom \<notin> set tokens
      then st\<lparr>cs_borrower_collateral_tokens := (cs_borrower_collateral_tokens st)(acct \<mapsto> tokens @ [denom])\<rparr>
      else st)"

definition cw_deposit_collateral :: "cw_addr \<Rightarrow> string \<Rightarrow> u128 \<Rightarrow> cw_store \<Rightarrow> (cw_response \<times> cw_store) cw" where
  "cw_deposit_collateral acct denom amount st =
     and_then (ensure (amount \<noteq> 0) (CwErr CwInvalidAmount)) (\<lambda>_.
     and_then (ensure (cw_is_collateral_token_allowed denom st) (CwErr CwCollateralTokenNotAllowed)) (\<lambda>_.
     and_then (uint_add (CwErr CwOverflow) (or_zero (cs_collateral_balances st (acct, denom))) amount) (\<lambda>new_balance.
     Inr ([(''action'', Txt ''deposit_collateral''), (''borrower'', Txt acct), (''denom'', Txt denom), (''amount'', Dec amount)],
          record_token acct denom
            (st\<lparr>cs_collateral_balances := (cs_collateral_balances st)((acct, denom) \<mapsto> new_balance)\<rparr>)))))"

definition set_or_drop_balance :: "cw_addr \<Rightarrow> string \<Rightarrow> u128 \<Rightarrow> cw_store \<Rightarrow> cw_store" where
  "set_or_drop_balance acct denom new_balance st =
     (if new_balance = 0
      then st\<lparr>cs_collateral_balances := (cs_collateral_balances st)((acct, denom) := None),
              cs_borrower_collateral_tokens := (cs_borrower_collateral_tokens st)
                (acct \<mapsto> filter (\<lambda>t. t \<noteq> denom) (or_nil (cs_borrower_collateral_tokens st acct)))\<rparr>
      else st\<lparr>cs_collateral_balances := (cs_collateral_balances st)((acct, denom) \<mapsto> new_balance)\<rparr>)"

definition cw_withdraw_collateral :: "cw_addr \<Rightarrow> string \<Rightarrow> u128 \<Rightarrow> cw_store \<Rightarrow> (cw_response \<times> cw_store) cw" where
  "cw_withdraw_collateral acct denom amount st =
     and_then (ensure (amount \<noteq> 0) (CwErr CwInvalidAmount)) (\<lambda>_.
     and_then (ok_or (CwErr CwInsufficientCollateralBalance) (cs_collateral_balances st (acct, denom))) (\<lambda>balance.
     and_then (ensure (\<not> balance < amount) (CwErr CwInsufficientCollateralBalance)) (\<lambda>_.
     and_then (uint_sub (CwErr CwOverflow) balance amount) (\<lambda>new_balance.
     Inr ([(''action'', Txt ''withdraw_collateral''), (''borrower'', Txt acct), (''denom'', Txt denom), (''amount'', Dec amount)],
          set_or_drop_balance acct denom new_balance st)))))"

definition cw_query_collateral_balance :: "cw_addr \<Rightarrow> string \<Rightarrow> cw_store \<Rightarrow> u128" where
  "cw_query_collateral_balance acct denom st = or_zero (cs_collateral_balances st (acct, denom))"

definition query_borrower_collateral :: "cw_addr \<Rightarrow> cw_store \<Rightarrow> (string \<times> u128) list" where
  "query_borrower_collateral acct st =
     sort_key fst (filter (\<lambda>(_, balance). balance \<noteq> 0)
       (map (\<lambda>t. (t, cw_query_collateral_balance acct t st)) (or_nil (cs_borrower_collateral_tokens st acct))))"

definition cw_add_weighted :: "cw_store \<Rightarrow> string \<times> u128 \<Rightarrow> u128 \<Rightarrow> u128 cw" where
  "cw_add_weighted st entry acc =
     and_then (uint_mul (CwErr CwOverflow) (snd entry) (collateral_risk_weight_bps (fst entry) st)) (\<lambda>v.
     and_then (uint_div (CwErr CwOverflow) v 10000) (\<lambda>weighted.
     uint_add (CwErr CwOverflow) acc weighted))"

definition weighted_collateral_total :: "cw_addr \<Rightarrow> cw_store \<Rightarrow> u128 cw" where
  "weighted_collateral_total acct st = for_each (cw_add_weighted st) (query_borrower_collateral acct st) 0"

definition cw_query_collateral_allowlist :: "cw_store \<Rightarrow> string list" where
  "cw_query_collateral_allowlist st = or_nil (cs_collateral_token_allowlist st)"

definition store_weight :: "string \<Rightarrow> u32 \<Rightarrow> cw_store \<Rightarrow> cw_store" where
  "store_weight denom risk_weight_bps st =
     (if risk_weight_bps \<noteq> DEFAULT_COLLATERAL_RISK_WEIGHT_BPS
      then st\<lparr>cs_collateral_risk_weights := (cs_collateral_risk_weights st)(denom \<mapsto> risk_weight_bps)\<rparr> else st)"

definition cw_add_collateral_token :: "string \<Rightarrow> u32 \<Rightarrow> cw_store \<Rightarrow> (cw_response \<times> cw_store) cw" where
  "cw_add_collateral_token denom risk_weight_bps st =
     and_then (ensure (\<not> 10000 < risk_weight_bps) (CwErr CwInvalidAmount)) (\<lambda>_.
     let lst = or_nil (cs_collateral_token_allowlist st) in
     and_then (ensure (denom \<notin> set lst) (CwErr CwAlreadySettled)) (\<lambda>_.
     and_then (ensure (\<not> MAX_COLLATERAL_TOKENS \<le> int (length lst)) (CwErr CwTooManyCollateralTokens)) (\<lambda>_.
     Inr ([(''action'', Txt ''add_collateral_token''), (''denom'', Txt denom), (''risk_weight_bps'', Dec risk_weight_bps)],
          store_weight denom risk_weight_bps (st\<lparr>cs_collateral_token_allowlist := Some (lst @ [denom])\<rparr>)))))"

definition cw_remove_collateral_token :: "string \<Rightarrow> cw_store \<Rightarrow> (cw_response \<times> cw_store) cw" where
  "cw_remove_collateral_token denom st =
     (let lst = or_nil (cs_collateral_token_allowlist st) in
      and_then (ensure (denom \<in> set lst) (CwErr CwCollateralTokenNotAllowed)) (\<lambda>_.
      Inr ([(''action'', Txt ''remove_collateral_token''), (''denom'', Txt denom)],
           st\<lparr>cs_collateral_token_allowlist := Some (filter (\<lambda>d. d \<noteq> denom) lst),
              cs_collateral_risk_weights := (cs_collateral_risk_weights st)(denom := None)\<rparr>)))"

definition cw_set_collateral_risk_weight :: "string \<Rightarrow> u32 \<Rightarrow> cw_store \<Rightarrow> (cw_response \<times> cw_store) cw" where
  "cw_set_collateral_risk_weight denom risk_weight_bps st =
     and_then (ensure (\<not> 10000 < risk_weight_bps) (CwErr CwInvalidAmount)) (\<lambda>_.
     and_then (ensure (denom \<in> set (or_nil (cs_collateral_token_allowlist st))) (CwErr CwCollateralTokenNotAllowed)) (\<lambda>_.
     Inr ([(''action'', Txt ''set_collateral_risk_weight''), (''denom'', Txt denom), (''risk_weight_bps'', Dec risk_weight_bps)],
          st\<lparr>cs_collateral_risk_weights := (cs_collateral_risk_weights st)(denom \<mapsto> risk_weight_bps)\<rparr>)))"

section \<open>The fixed-point routines\<close>

lemma cw_mul_div_same: "cw_mul_div a n d rnd = safe_mul_div a n d rnd"
  by (auto simp: cw_mul_div_def safe_mul_div_def Let_def split: option.splits rounding.splits)

lemma in_u128_factor:
  fixes a t :: int
  assumes "in_u128 (a * t)" and "0 \<le> a" and "1 \<le> t"
  shows "in_u128 a"
proof -
  have "a * 1 \<le> a * t" using assms(2,3) by (intro mult_left_mono) auto
  then show ?thesis using assms by (simp add: in_u128_def)
qed

lemma cw_accrued_interest_cases:
  assumes "0 \<le> p" and "0 \<le> r" and "0 \<le> t"
  shows "cw_accrued_interest p r t =
    (if in_u128 (p * r * t) then Inr (p * r * t div CW_BPS_YEAR_DENOM) else Inl (CwErr CwOverflow))"
proof (cases "p = 0 \<or> r = 0 \<or> t = 0")
  case True
  then show ?thesis by (auto simp: cw_accrued_interest_def in_u128_def u128_max_def)
next
  case False
  then have "1 \<le> t" "0 \<le> p * r" using assms by auto
  then have "in_u128 (p * r * t) \<Longrightarrow> in_u128 (p * r)" using in_u128_factor[of "p * r" t] by blast
  then show ?thesis using False
    by (auto simp: cw_accrued_interest_def uint_mul_def uint_div_def checked_mul_u128_def checked_def ok_or_def
        CW_BPS_YEAR_DENOM_def CW_BPS_DENOMINATOR_def CW_SECONDS_PER_YEAR_def)
qed

lemma cw_accrued_interest_mono:
  assumes "cw_accrued_interest p r t = Inr a" and "cw_accrued_interest p' r' t' = Inr b"
    and "0 \<le> p" and "0 \<le> r" and "0 \<le> t" and "p \<le> p'" and "r \<le> r'" and "t \<le> t'"
  shows "a \<le> b"
proof -
  have "p * r \<le> p' * r'" using assms by (intro mult_mono) auto
  then have "p * r * t \<le> p' * r' * t'" using assms by (intro mult_mono) auto
  then have "p * r * t div CW_BPS_YEAR_DENOM \<le> p' * r' * t' div CW_BPS_YEAR_DENOM"
    by (intro zdiv_mono1) (simp_all add: cw_defs)
  then show ?thesis using assms by (simp add: cw_accrued_interest_cases split: if_splits)
qed

text \<open>(\<open>accrued_interest\<close>): the module says that the two runtimes accrue identically.  Both are the rounded-down
  product over a year, and they overflow on the same inputs, but this crate's year has 365 days and the Soroban contract's
  365.25: on every input this crate charges at least as much, and on a million at a hundred percent over its own year it
  charges 684 units more.\<close>

theorem runtimes_accrue_differently:
  assumes "0 \<le> p" and "0 \<le> r" and "0 \<le> t"
  shows "(cw_accrued_interest p r t = Inl (CwErr CwOverflow)) = (checked_prorate_interest p r t Floor = None) \<and>
     (\<forall>a b. cw_accrued_interest p r t = Inr a \<longrightarrow> checked_prorate_interest p r t Floor = Some b \<longrightarrow> b \<le> a) \<and>
     cw_accrued_interest 1000000 10000 31536000 = Inr 1000000 \<and>
     checked_prorate_interest 1000000 10000 31536000 Floor = Some 999315"
proof -
  have soroban: "checked_prorate_interest p r t Floor = (if in_u128 (p * r * t) then Some (p * r * t div BPS_YEAR_DENOM) else None)"
  proof (cases "p = 0 \<or> r = 0 \<or> t = 0")
    case True
    then show ?thesis by (auto simp: checked_prorate_interest_def in_u128_def u128_max_def)
  next
    case False
    then have "1 \<le> t" "0 \<le> p * r" using assms by auto
    then have "in_u128 (p * r * t) \<Longrightarrow> in_u128 (p * r)" using in_u128_factor[of "p * r" t] by blast
    then show ?thesis using False
      by (auto simp: checked_prorate_interest_def checked_mul_u128_def checked_def Let_def split: option.splits)
  qed
  have "p * r * t div BPS_YEAR_DENOM \<le> p * r * t div CW_BPS_YEAR_DENOM"
    using assms by (intro zdiv_mono2) (simp_all add: cw_defs BPS_YEAR_DENOM_def BPS_DENOMINATOR_def SECONDS_PER_YEAR_def)
  then show ?thesis
    by (simp add: soroban cw_accrued_interest_cases[OF assms])
      (simp add: cw_accrued_interest_cases checked_prorate_interest_def checked_mul_u128_def checked_def in_u128_def u128_max_def
        cw_defs BPS_YEAR_DENOM_def BPS_DENOMINATOR_def SECONDS_PER_YEAR_def)
qed

theorem runtimes_accrue_differently_witness:
  "\<forall>a b. cw_accrued_interest 5000 300 86400 = Inr a \<longrightarrow> checked_prorate_interest 5000 300 86400 Floor = Some b \<longrightarrow> b \<le> a"
  using runtimes_accrue_differently[of 5000 300 86400] by simp

lemma max_interest_monotone:
  assumes "max_interest_for_principal p (clamp_rate_to_ceiling r c) = Inr a" and "max_interest_for_principal p c = Inr b" and "0 \<le> p"
  shows "a \<le> b"
proof -
  have "p * clamp_rate_to_ceiling r c \<le> p * c" using assms(3) by (intro mult_left_mono) (auto simp: clamp_rate_to_ceiling_def)
  then show ?thesis using assms by (auto simp: max_interest_for_principal_def intro: zdiv_mono1)
qed

section \<open>Version negotiation\<close>

lemma negotiate_symmetric: "negotiate a b ma mb = negotiate b a mb ma"
  by (auto simp: negotiate_def min.commute)

lemma negotiate_sound:
  assumes "negotiate a b ma mb = Some v"
  shows "verify_peer_version a b" and "meets_minimum a v" and "meets_minimum b v"
    and "meets_minimum a ma \<Longrightarrow> meets_minimum v ma" and "meets_minimum b mb \<Longrightarrow> meets_minimum v mb"
  using assms by (auto simp: negotiate_def meets_minimum_def verify_peer_version_def is_compatible_with_def split: if_splits)

section \<open>Fees are conserved\<close>

lemma cw_split_exact:
  assumes "cw_split_protocol_fee fee share = Inr sp" and "0 \<le> fee" and "0 \<le> share"
  shows "share \<le> 10000 \<and> cw_treasury_amount sp = fee * share div 10000 \<and> cw_treasury_amount sp + cw_bounty_amount sp = fee \<and>
     0 \<le> cw_treasury_amount sp \<and> 0 \<le> cw_bounty_amount sp"
proof -
  have le: "fee * share div 10000 \<le> fee" if "share \<le> 10000"
  proof -
    have "fee * share \<le> fee * 10000" using that assms(2) by (intro mult_left_mono) auto
    then have "fee * share div 10000 \<le> fee * 10000 div 10000" by (intro zdiv_mono1) auto
    then show ?thesis by simp
  qed
  have "0 \<le> fee * share" using assms(2,3) by simp
  then show ?thesis using assms le
    by (auto simp: cw_split_protocol_fee_def CW_MAX_FEE_SHARE_BPS_def pos_imp_zdiv_nonneg_iff split: if_splits)
qed

lemma credit_pool_shape:
  "credit_treasury d x st = Inr st' \<Longrightarrow>
     st' = st\<lparr>cs_treasury_balance := cs_treasury_balance st'\<rparr> \<and>
     or_zero (cs_treasury_balance st' d) = or_zero (cs_treasury_balance st d) + x \<and>
     (\<forall>e. e \<noteq> d \<longrightarrow> cs_treasury_balance st' e = cs_treasury_balance st e)"
  "credit_bounty d x st = Inr st' \<Longrightarrow>
     st' = st\<lparr>cs_bounty_balance := cs_bounty_balance st'\<rparr> \<and>
     or_zero (cs_bounty_balance st' d) = or_zero (cs_bounty_balance st d) + x \<and>
     (\<forall>e. e \<noteq> d \<longrightarrow> cs_bounty_balance st' e = cs_bounty_balance st e)"
  by (auto simp: credit_treasury_def credit_bounty_def split: if_splits)

lemma cw_accrue_shape:
  assumes "cw_accrue_protocol_fee d fee st = Inr (sp, st')"
  shows "st' = st\<lparr>cs_treasury_balance := cs_treasury_balance st', cs_bounty_balance := cs_bounty_balance st'\<rparr>"
proof (cases "fee = 0")
  case True
  then show ?thesis using assms by (simp add: cw_accrue_protocol_fee_def)
next
  case False
  then obtain s1 where s1: "credit_treasury d (cw_treasury_amount sp) st = Inr s1" and s2: "credit_bounty d (cw_bounty_amount sp) s1 = Inr st'"
    using assms by (auto simp: cw_accrue_protocol_fee_def)
  note a = credit_pool_shape(1)[OF s1, THEN conjunct1] and b = credit_pool_shape(2)[OF s2, THEN conjunct1]
  have "cs_treasury_balance st' = cs_treasury_balance s1" using arg_cong[OF b, of cs_treasury_balance] by simp
  then show ?thesis using b by (subst (asm) a) simp
qed

text \<open>(\<open>accrue_protocol_fee\<close>): a fee is booked in full, the treasury's rounded-down share and the rest to the bounty pool of
  its market; no other market's pools and nothing else in the store change.\<close>

theorem accrued_fee_conserved:
  assumes "cw_accrue_protocol_fee d fee st = Inr (sp, st')" and "0 \<le> fee" and "0 \<le> cw_get_treasury_fee_share_bps d st"
  shows "or_zero (cs_treasury_balance st' d) + or_zero (cs_bounty_balance st' d) =
       or_zero (cs_treasury_balance st d) + or_zero (cs_bounty_balance st d) + fee \<and>
     or_zero (cs_treasury_balance st' d) = or_zero (cs_treasury_balance st d) + fee * cw_get_treasury_fee_share_bps d st div 10000 \<and>
     (\<forall>e. e \<noteq> d \<longrightarrow> cs_treasury_balance st' e = cs_treasury_balance st e \<and> cs_bounty_balance st' e = cs_bounty_balance st e) \<and>
     st' = st\<lparr>cs_treasury_balance := cs_treasury_balance st', cs_bounty_balance := cs_bounty_balance st'\<rparr>"
proof (cases "fee = 0")
  case True
  then show ?thesis using assms(1) by (simp add: cw_accrue_protocol_fee_def)
next
  case False
  then obtain s1 where sp: "cw_split_protocol_fee fee (cw_get_treasury_fee_share_bps d st) = Inr sp"
    and s1: "credit_treasury d (cw_treasury_amount sp) st = Inr s1" and s2: "credit_bounty d (cw_bounty_amount sp) s1 = Inr st'"
    using assms(1) by (auto simp: cw_accrue_protocol_fee_def)
  note a = credit_pool_shape(1)[OF s1] and b = credit_pool_shape(2)[OF s2]
  have "cs_treasury_balance st' = cs_treasury_balance s1" "cs_bounty_balance s1 = cs_bounty_balance st"
    using arg_cong[OF b[THEN conjunct1], of cs_treasury_balance] arg_cong[OF a[THEN conjunct1], of cs_bounty_balance] by simp_all
  then show ?thesis using a b cw_split_exact[OF sp assms(2,3)] cw_accrue_shape[OF assms(1)] by auto
qed

section \<open>The deviation of two prices wraps around\<close>

lemma cw_deviation_wrapped:
  assumes "0 < m" and "m \<le> 1000000000000000000"
  shows "cw_compute_deviation_bps (4294977296 * m) (10000 * m) = Some 0"
proof -
  have "(4294967296 * m * 10000 + (10000 * m - 1)) div (10000 * m) = 4294967296"
    using assms(1) int_div_pos_eq[of "4294967296 * m * 10000 + (10000 * m - 1)" "10000 * m" 4294967296 "10000 * m - 1"] by simp
  then show ?thesis using assms
    by (simp add: cw_compute_deviation_bps_def checked_mul_u128_def checked_add_u128_def checked_def in_u128_def u128_max_def)
qed

text \<open>C40 (\<open>resolve_quorum_price\<close>, \<open>compute_deviation_bps\<close>): the deviation is cut to 32 bits before it is compared.  Two
  prices that are more than four hundred thousand times apart can therefore form a quorum even at tolerance zero; the Soroban
  contract, which saturates instead, rejects the same prices.\<close>

theorem quorum_accepts_wrapped_outlier:
  assumes "0 < m" and "m \<le> 1000000000000000000"
  shows "cw_resolve_quorum_price [10000 * m, 4294977296 * m]
       \<lparr>cq_min_quorum_k = 2, cq_max_deviation_bps = 0, cq_max_age_seconds = age\<rparr> = Inr (10000 * m) \<and>
     resolve_quorum_price [10000 * m, 4294977296 * m]
       \<lparr>min_quorum_k = 2, oq_max_deviation_bps = 0, oq_max_age_seconds = age\<rparr> = Inl (Contract OracleQuorumNotMet)"
proof -
  let ?lo = "10000 * m" and ?hi = "4294977296 * m"
  have s: "selection_sort (\<lambda>x. x) [?lo, ?hi] = [?lo, ?hi]" using assms by (simp add: selection_sort_sort)
  have k: "nat 2 = Suc (Suc 0)" by simp
  have dev: "cw_compute_deviation_bps ?hi ?lo = Some 0" by (rule cw_deviation_wrapped[OF assms])
  have q: "4294967296 * m * 10000 div (10000 * m) = 4294967296" using assms(1) by simp
  have sor: "compute_deviation_bps ?hi ?lo = Inr (Some u32_max)"
    using assms q by (simp add: compute_deviation_bps_def checked_sub_i128_def checked_mul_u128_def checked_def in_i128_def in_u128_def
        i128_max_def i128_min_def u128_max_def u32_max_def BPS_DENOMINATOR_def)
  show ?thesis using assms dev sor
    by (simp add: cw_resolve_quorum_price_def resolve_quorum_price_def s k Let_def CW_MAX_ORACLE_FEEDS_def MAX_ORACLE_FEEDS_def
        u32_max_def)
qed

theorem quorum_accepts_wrapped_outlier_witness:
  "cw_resolve_quorum_price [10000, 4294977296] \<lparr>cq_min_quorum_k = 2, cq_max_deviation_bps = 0, cq_max_age_seconds = 60\<rparr> = Inr 10000"
  using quorum_accepts_wrapped_outlier[of 1 60] by simp

end
