(* ===== verification/CwContract.thy ===== *)
theory CwContract
  imports CwState
begin

text \<open>
  The entrypoints of the CosmWasm crate (\<^verbatim>\<open>src/contracts/creditra-credit/src/contract.rs\<close>): instantiation, the
  dispatcher and every handler, each a function from the store to an error or a response and the next store.  A run is a
  sequence of messages, each with its sender and its block.

  The tables of lines, draws and audit entries are filled through counters; the locale \<open>counted_table\<close> states what a push on
  such a table does and derives that a table stays dense.  Over every run from instantiation: the unrepaid draws of a line
  never exceed its credit amount, the audit trail of a draw is complete and in order, the collateral index lists exactly the
  balances, only the owner and the tenants of a line change anything of it, and, since no message sets the fee rate, no fee
  is ever collected.
\<close>

section \<open>Storage accesses\<close>

text \<open>Sum of the unrepaid draws of a line (\<^verbatim>\<open>state.rs\<close>).\<close>

definition add_unrepaid :: "u64 \<Rightarrow> cw_store \<Rightarrow> u64 \<Rightarrow> u128 \<Rightarrow> u128 cw" where
  "add_unrepaid credit_line_id st did utilized =
     (case cs_draws st (credit_line_id, did) of
        None \<Rightarrow> Inr utilized
      | Some d \<Rightarrow> if \<not> dr_repaid d then uint_add (CwErr CwOverflow) utilized (dr_amount d) else Inr utilized)"

definition outstanding_utilization :: "u64 \<Rightarrow> cw_store \<Rightarrow> u128 cw" where
  "outstanding_utilization credit_line_id st =
     for_each (add_unrepaid credit_line_id st) [0..or_zero (cs_draw_count st credit_line_id) - 1] 0"

definition cw_load_line :: "u64 \<Rightarrow> cw_store \<Rightarrow> credit_line cw" where
  "cw_load_line credit_line_id st = ok_or (CwErr (CwCreditLineNotFound credit_line_id)) (cs_credit_lines st credit_line_id)"

definition cw_load_draw :: "u64 \<Rightarrow> u64 \<Rightarrow> cw_store \<Rightarrow> draw cw" where
  "cw_load_draw credit_line_id draw_id st =
     ok_or (CwErr (CwDrawNotFound draw_id credit_line_id)) (cs_draws st (credit_line_id, draw_id))"

definition validate_addr :: "cw_api \<Rightarrow> string \<Rightarrow> cw_addr cw" where
  "validate_addr api s = ok_or (CwErr (CwStd InvalidAddr)) (addr_validate api s)"

definition parse_amount :: "cw_api \<Rightarrow> string \<Rightarrow> u128 cw" where
  "parse_amount api s = ok_or (CwErr (CwStd (ParseErr ''Uint128'' s))) (parse_uint128 api s)"

text \<open>A push on each of the three counted tables.\<close>

definition push_line :: "u64 \<Rightarrow> credit_line \<Rightarrow> cw_store \<Rightarrow> cw_store" where
  "push_line n line st =
     st\<lparr>cs_credit_lines := (cs_credit_lines st)(n \<mapsto> line), cs_credit_line_count := Some (n + 1)\<rparr>"

definition push_draw :: "u64 \<Rightarrow> u64 \<Rightarrow> draw \<Rightarrow> cw_store \<Rightarrow> cw_store" where
  "push_draw lid n d st =
     st\<lparr>cs_draws := (cs_draws st)((lid, n) \<mapsto> d), cs_draw_count := (cs_draw_count st)(lid \<mapsto> n + 1)\<rparr>"

definition push_audit :: "u64 \<Rightarrow> u64 \<Rightarrow> u64 \<Rightarrow> draw_audit_entry \<Rightarrow> cw_store \<Rightarrow> cw_store" where
  "push_audit lid did n e st =
     st\<lparr>cs_draw_audit := (cs_draw_audit st)((lid, did, n) \<mapsto> e),
        cs_draw_audit_count := (cs_draw_audit_count st)((lid, did) \<mapsto> n + 1)\<rparr>"

section \<open>Entrypoints\<close>

definition instantiate :: "cw_api \<Rightarrow> string \<Rightarrow> cw_store \<Rightarrow> cw_store cw" where
  "instantiate api owner st =
     and_then (validate_addr api owner) (\<lambda>owner.
     Inr (initialize_version (st\<lparr>cs_config := Some owner, cs_credit_line_count := Some 0\<rparr>)))"

definition execute_create_credit_line ::
  "cw_api \<Rightarrow> cw_addr \<Rightarrow> string \<Rightarrow> string \<Rightarrow> string \<Rightarrow> string \<Rightarrow> string \<Rightarrow> cw_store \<Rightarrow> (cw_response \<times> cw_store) cw" where
  "execute_create_credit_line api sender who collateral_denom collateral_amount credit_denom credit_amount st =
     and_then (assert_owner sender st) (\<lambda>_.
     and_then (validate_addr api who) (\<lambda>borrower_addr.
     and_then (ok_or (CwErr (CwStd StdNotFound)) (cs_credit_line_count st)) (\<lambda>count.
     and_then (parse_amount api collateral_amount) (\<lambda>collateral.
     and_then (parse_amount api credit_amount) (\<lambda>credit.
     and_then (add_u64 count 1) (\<lambda>_.
     let line = \<lparr>cl_id = count, cl_borrower = borrower_addr, cl_collateral_denom = collateral_denom,
                 cl_collateral_amount = collateral, cl_credit_denom = credit_denom, cl_credit_amount = credit, cl_active = True\<rparr>;
         st = push_line count line st in
     Inr ([(''action'', Txt ''create_credit_line''), (''credit_line_id'', Dec count)],
          st\<lparr>cs_borrower_to_id := (cs_borrower_to_id st)(borrower_addr \<mapsto> count)\<rparr>)))))))"

definition execute_create_draw ::
  "cw_api \<Rightarrow> cw_env \<Rightarrow> cw_addr \<Rightarrow> u64 \<Rightarrow> string \<Rightarrow> string \<Rightarrow> cw_store \<Rightarrow> (cw_response \<times> cw_store) cw" where
  "execute_create_draw api env sender credit_line_id amount denom st =
     and_then (cw_load_line credit_line_id st) (\<lambda>line.
     and_then (ensure (sender = cl_borrower line) (CwErr CwCrossTenantIdentifier)) (\<lambda>_.
     let draw_count = or_zero (cs_draw_count st credit_line_id) in
     and_then (parse_amount api amount) (\<lambda>draw_amount.
     and_then (ensure (draw_amount \<noteq> 0) (CwErr CwInvalidAmount)) (\<lambda>_.
     and_then (outstanding_utilization credit_line_id st) (\<lambda>outstanding.
     and_then (uint_add (CwErr CwOverflow) outstanding draw_amount) (\<lambda>projected.
     and_then (ensure (\<not> cl_credit_amount line < projected) (CwErr CwOverLimit)) (\<lambda>_.
     and_then (add_u64 draw_count 1) (\<lambda>_.
     let d = \<lparr>dr_id = draw_count, dr_credit_line_id = credit_line_id, dr_amount = draw_amount, dr_denom = denom,
              drawn_at = block_time env, drawn_by = sender, dr_repaid = False\<rparr>;
         e = \<lparr>da_seq = 0, da_draw_id = draw_count, da_credit_line_id = credit_line_id, da_action = DrawCreated,
              da_timestamp = block_time env, da_block_height = block_height env, da_by = sender, da_memo = ''''\<rparr> in
     Inr ([(''action'', Txt ''create_draw''), (''credit_line_id'', Dec credit_line_id), (''draw_id'', Dec draw_count)],
          push_audit credit_line_id draw_count 0 e (push_draw credit_line_id draw_count d st))))))))))"

definition append_audit_entry ::
  "cw_env \<Rightarrow> cw_addr \<Rightarrow> u64 \<Rightarrow> u64 \<Rightarrow> draw_action \<Rightarrow> string \<Rightarrow> cw_store \<Rightarrow> cw_store cw" where
  "append_audit_entry env sender credit_line_id draw_id action memo st =
     (let audit_count = or_zero (cs_draw_audit_count st (credit_line_id, draw_id));
          e = \<lparr>da_seq = audit_count, da_draw_id = draw_id, da_credit_line_id = credit_line_id, da_action = action,
               da_timestamp = block_time env, da_block_height = block_height env, da_by = sender, da_memo = memo\<rparr> in
      and_then (add_u64 audit_count 1) (\<lambda>_. Inr (push_audit credit_line_id draw_id audit_count e st)))"

text \<open>The fee on a repaid draw: \<open>multiply_ratio\<close> multiplies at double width and traps when the quotient does not fit.\<close>

definition repay_fee :: "draw \<Rightarrow> cw_store \<Rightarrow> u128 cw" where
  "repay_fee d st =
     (let fee_bps = or_zero (cs_protocol_fee_bps st) in
      if 0 < fee_bps \<and> dr_amount d \<noteq> 0 then ok_or CwTrap (checked in_u128 (dr_amount d * fee_bps div 10000)) else Inr 0)"

definition collect_repay_fee :: "draw \<Rightarrow> u128 \<Rightarrow> cw_store \<Rightarrow> cw_store cw" where
  "collect_repay_fee d fee_amount st =
     (if fee_amount \<noteq> 0 then and_then (cw_accrue_protocol_fee (dr_denom d) fee_amount st) (\<lambda>(_, st). Inr st) else Inr st)"

definition execute_repay_draw ::
  "cw_env \<Rightarrow> cw_addr \<Rightarrow> u64 \<Rightarrow> u64 \<Rightarrow> cw_store \<Rightarrow> (cw_response \<times> cw_store) cw" where
  "execute_repay_draw env sender credit_line_id draw_id st =
     and_then (cw_load_line credit_line_id st) (\<lambda>line.
     and_then (ensure (sender = cl_borrower line) (CwErr CwCrossTenantIdentifier)) (\<lambda>_.
     and_then (cw_load_draw credit_line_id draw_id st) (\<lambda>d.
     and_then (ensure (sender = drawn_by d) (CwErr CwUnauthorized)) (\<lambda>_.
     and_then (repay_fee d st) (\<lambda>fee_amount.
     and_then (collect_repay_fee d fee_amount st) (\<lambda>st.
     let st = st\<lparr>cs_draws := (cs_draws st)((credit_line_id, draw_id) \<mapsto> d\<lparr>dr_repaid := True\<rparr>)\<rparr> in
     and_then (append_audit_entry env sender credit_line_id draw_id DrawRepaid '''' st) (\<lambda>st.
     Inr ([(''action'', Txt ''repay_draw''), (''credit_line_id'', Dec credit_line_id), (''draw_id'', Dec draw_id)] @
            (if fee_amount \<noteq> 0 then [(''protocol_fee_skimmed'', Dec fee_amount)] else []), st))))))))"

definition execute_add_audit_memo ::
  "cw_env \<Rightarrow> cw_addr \<Rightarrow> u64 \<Rightarrow> u64 \<Rightarrow> string \<Rightarrow> cw_store \<Rightarrow> (cw_response \<times> cw_store) cw" where
  "execute_add_audit_memo env sender credit_line_id draw_id memo st =
     and_then (assert_owner sender st) (\<lambda>_.
     and_then (cw_load_draw credit_line_id draw_id st) (\<lambda>_.
     and_then (append_audit_entry env sender credit_line_id draw_id MemoAdded memo st) (\<lambda>st.
     Inr ([(''action'', Txt ''add_audit_memo''), (''credit_line_id'', Dec credit_line_id), (''draw_id'', Dec draw_id)], st))))"

definition execute_update_protocol_version ::
  "cw_addr \<Rightarrow> u32 \<Rightarrow> u32 \<Rightarrow> cw_store \<Rightarrow> (cw_response \<times> cw_store) cw" where
  "execute_update_protocol_version sender major minor st =
     and_then (assert_owner sender st) (\<lambda>_.
     Inr ([(''action'', Txt ''update_protocol_version''), (''major'', Dec major), (''minor'', Dec minor)],
          set_protocol_version \<lparr>pv_major = major, pv_minor = minor\<rparr> st))"

definition execute_set_oracle_quorum_config ::
  "cw_addr \<Rightarrow> u32 \<Rightarrow> u32 \<Rightarrow> u64 \<Rightarrow> cw_store \<Rightarrow> (cw_response \<times> cw_store) cw" where
  "execute_set_oracle_quorum_config sender k max_deviation_bps max_age_seconds st =
     and_then (assert_owner sender st) (\<lambda>_.
     and_then (ensure (\<not> k < 2) (CwErr CwInvalidAmount)) (\<lambda>_.
     and_then (ensure (\<not> 10000 < max_deviation_bps) (CwErr CwInvalidAmount)) (\<lambda>_.
     and_then (ensure (max_age_seconds \<noteq> 0) (CwErr CwInvalidAmount)) (\<lambda>_.
     Inr ([(''action'', Txt ''set_oracle_quorum_config''), (''min_quorum_k'', Dec k),
           (''max_deviation_bps'', Dec max_deviation_bps), (''max_age_seconds'', Dec max_age_seconds)],
          st\<lparr>cs_oracle_quorum_config := Some \<lparr>cq_min_quorum_k = k, cq_max_deviation_bps = max_deviation_bps,
               cq_max_age_seconds = max_age_seconds\<rparr>\<rparr>)))))"

definition execute_add_oracle :: "cw_api \<Rightarrow> cw_addr \<Rightarrow> string \<Rightarrow> u32 \<Rightarrow> cw_store \<Rightarrow> (cw_response \<times> cw_store) cw" where
  "execute_add_oracle api sender oracle weight st =
     and_then (assert_owner sender st) (\<lambda>_.
     and_then (validate_addr api oracle) (\<lambda>oracle_addr.
     and_then (cw_add_oracle oracle_addr weight st) (\<lambda>st.
     Inr ([(''action'', Txt ''add_oracle''), (''oracle'', Txt oracle)], st))))"

definition execute_remove_oracle :: "cw_api \<Rightarrow> cw_addr \<Rightarrow> string \<Rightarrow> cw_store \<Rightarrow> (cw_response \<times> cw_store) cw" where
  "execute_remove_oracle api sender oracle st =
     and_then (assert_owner sender st) (\<lambda>_.
     and_then (validate_addr api oracle) (\<lambda>oracle_addr.
     and_then (cw_remove_oracle oracle_addr st) (\<lambda>st.
     Inr ([(''action'', Txt ''remove_oracle''), (''oracle'', Txt oracle)], st))))"

definition execute_report_value :: "cw_env \<Rightarrow> cw_addr \<Rightarrow> i128 \<Rightarrow> cw_store \<Rightarrow> (cw_response \<times> cw_store) cw" where
  "execute_report_value env sender value st =
     and_then (cw_report_value env sender value st) (\<lambda>st.
     Inr ([(''action'', Txt ''report_value''), (''value'', Dec value)], st))"

definition execute_set_late_fee_config :: "cw_addr \<Rightarrow> cw_late_fee_config option \<Rightarrow> cw_store \<Rightarrow> (cw_response \<times> cw_store) cw" where
  "execute_set_late_fee_config sender config st =
     and_then (assert_owner sender st) (\<lambda>_.
     and_then (case config of Some v \<Rightarrow> validate_late_fee_config v | None \<Rightarrow> Inr ()) (\<lambda>_.
     Inr ([(''action'', Txt ''set_late_fee_config'')], st\<lparr>cs_late_fee_config := config\<rparr>)))"

definition execute_submit_oracle_prices ::
  "cw_env \<Rightarrow> cw_addr \<Rightarrow> i128 list \<Rightarrow> cw_store \<Rightarrow> (cw_response \<times> cw_store) cw" where
  "execute_submit_oracle_prices env sender prices st =
     and_then (assert_owner sender st) (\<lambda>_.
     and_then (ok_or (CwErr CwOraclePriceInvalid) (cs_oracle_quorum_config st)) (\<lambda>qcfg.
     and_then (ensure (\<not> CW_MAX_ORACLE_FEEDS < int (length prices)) (CwErr CwOraclePriceInvalid)) (\<lambda>_.
     and_then (cw_resolve_quorum_price prices qcfg) (\<lambda>canonical_price.
     let now = block_seconds env in
     Inr ([(''action'', Txt ''submit_oracle_prices''), (''canonical_price'', Dec canonical_price),
           (''min_quorum_k'', Dec (cq_min_quorum_k qcfg)), (''timestamp'', Dec now)],
          st\<lparr>cs_oracle_price_record := Some \<lparr>op_price = canonical_price, op_timestamp = now\<rparr>\<rparr>)))))"

definition execute_deposit_collateral ::
  "cw_api \<Rightarrow> cw_addr \<Rightarrow> string \<Rightarrow> string \<Rightarrow> string \<Rightarrow> cw_store \<Rightarrow> (cw_response \<times> cw_store) cw" where
  "execute_deposit_collateral api sender who denom amount st =
     and_then (assert_owner sender st) (\<lambda>_.
     and_then (validate_addr api who) (\<lambda>borrower_addr.
     and_then (parse_amount api amount) (\<lambda>parsed_amount.
     cw_deposit_collateral borrower_addr denom parsed_amount st)))"

definition execute_withdraw_collateral ::
  "cw_api \<Rightarrow> cw_addr \<Rightarrow> string \<Rightarrow> string \<Rightarrow> string \<Rightarrow> cw_store \<Rightarrow> (cw_response \<times> cw_store) cw" where
  "execute_withdraw_collateral api sender who denom amount st =
     and_then (assert_owner sender st) (\<lambda>_.
     and_then (validate_addr api who) (\<lambda>borrower_addr.
     and_then (parse_amount api amount) (\<lambda>parsed_amount.
     cw_withdraw_collateral borrower_addr denom parsed_amount st)))"

definition execute_add_collateral_token :: "cw_addr \<Rightarrow> string \<Rightarrow> u32 \<Rightarrow> cw_store \<Rightarrow> (cw_response \<times> cw_store) cw" where
  "execute_add_collateral_token sender denom risk_weight_bps st =
     and_then (assert_owner sender st) (\<lambda>_. cw_add_collateral_token denom risk_weight_bps st)"

definition execute_remove_collateral_token :: "cw_addr \<Rightarrow> string \<Rightarrow> cw_store \<Rightarrow> (cw_response \<times> cw_store) cw" where
  "execute_remove_collateral_token sender denom st =
     and_then (assert_owner sender st) (\<lambda>_. cw_remove_collateral_token denom st)"

definition execute_set_collateral_risk_weight :: "cw_addr \<Rightarrow> string \<Rightarrow> u32 \<Rightarrow> cw_store \<Rightarrow> (cw_response \<times> cw_store) cw" where
  "execute_set_collateral_risk_weight sender denom risk_weight_bps st =
     and_then (assert_owner sender st) (\<lambda>_. cw_set_collateral_risk_weight denom risk_weight_bps st)"

datatype (plugins only: code) execute_msg =
    MsgCreateCreditLine string string string string string
  | MsgCreateDraw u64 string string
  | MsgRepayDraw u64 u64
  | MsgAddAuditMemo u64 u64 string
  | MsgUpdateProtocolVersion u32 u32
  | MsgSetOracleQuorumConfig u32 u32 u64
  | MsgAddOracle string u32
  | MsgRemoveOracle string
  | MsgReportValue i128
  | MsgSubmitOraclePrices "i128 list"
  | MsgSetLateFeeConfig "cw_late_fee_config option"
  | MsgDepositCollateral string string string
  | MsgWithdrawCollateral string string string
  | MsgAddCollateralToken string u32
  | MsgRemoveCollateralToken string
  | MsgSetCollateralRiskWeight string u32

primrec execute :: "cw_api \<Rightarrow> cw_env \<Rightarrow> cw_addr \<Rightarrow> execute_msg \<Rightarrow> cw_store \<Rightarrow> (cw_response \<times> cw_store) cw" where
  "execute api env sender (MsgCreateCreditLine b cd ca kd ka) = execute_create_credit_line api sender b cd ca kd ka"
| "execute api env sender (MsgCreateDraw lid amount denom) = execute_create_draw api env sender lid amount denom"
| "execute api env sender (MsgRepayDraw lid did) = execute_repay_draw env sender lid did"
| "execute api env sender (MsgAddAuditMemo lid did memo) = execute_add_audit_memo env sender lid did memo"
| "execute api env sender (MsgUpdateProtocolVersion major minor) = execute_update_protocol_version sender major minor"
| "execute api env sender (MsgSetOracleQuorumConfig k dev age) = execute_set_oracle_quorum_config sender k dev age"
| "execute api env sender (MsgAddOracle oracle weight) = execute_add_oracle api sender oracle weight"
| "execute api env sender (MsgRemoveOracle oracle) = execute_remove_oracle api sender oracle"
| "execute api env sender (MsgReportValue v) = execute_report_value env sender v"
| "execute api env sender (MsgSubmitOraclePrices prices) = execute_submit_oracle_prices env sender prices"
| "execute api env sender (MsgSetLateFeeConfig config) = execute_set_late_fee_config sender config"
| "execute api env sender (MsgDepositCollateral b denom amount) = execute_deposit_collateral api sender b denom amount"
| "execute api env sender (MsgWithdrawCollateral b denom amount) = execute_withdraw_collateral api sender b denom amount"
| "execute api env sender (MsgAddCollateralToken denom rw) = execute_add_collateral_token sender denom rw"
| "execute api env sender (MsgRemoveCollateralToken denom) = execute_remove_collateral_token sender denom"
| "execute api env sender (MsgSetCollateralRiskWeight denom rw) = execute_set_collateral_risk_weight sender denom rw"

section \<open>Counted tables\<close>

definition dense :: "int \<Rightarrow> (int \<Rightarrow> 'r option) \<Rightarrow> bool" where
  "dense n row \<longleftrightarrow> 0 \<le> n \<and> (\<forall>i. row i \<noteq> None \<longleftrightarrow> 0 \<le> i \<and> i < n)"

definition rows :: "int \<Rightarrow> (int \<Rightarrow> 'r option) \<Rightarrow> 'r list" where
  "rows n row = map (\<lambda>i. the (row i)) [0..n - 1]"

lemma dense_row: "dense n row \<Longrightarrow> 0 \<le> i \<Longrightarrow> i < n \<Longrightarrow> \<exists>r. row i = Some r"
  by (auto simp: dense_def)

lemma dense_range: "dense n row \<Longrightarrow> row i = Some r \<Longrightarrow> 0 \<le> i \<and> i < n"
  unfolding dense_def by (metis option.distinct(1))

lemma dense_empty [simp]: "dense 0 (\<lambda>i. None)"
  by (simp add: dense_def)

locale counted_table =
  fixes cnt :: "'s \<Rightarrow> int" and row :: "'s \<Rightarrow> int \<Rightarrow> 'r option" and push :: "'r \<Rightarrow> 's \<Rightarrow> 's"
  assumes cnt_push: "cnt (push r s) = cnt s + 1"
    and row_push: "row (push r s) i = (if i = cnt s then Some r else row s i)"
begin

lemma push_dense: "dense (cnt s) (row s) \<Longrightarrow> dense (cnt (push r s)) (row (push r s))"
  by (auto simp: dense_def cnt_push row_push)

lemma push_rows:
  assumes "dense (cnt s) (row s)"
  shows "rows (cnt (push r s)) (row (push r s)) = rows (cnt s) (row s) @ [r]"
proof -
  have "[0..cnt s] = [0..cnt s - 1] @ [cnt s]" using assms by (intro upto_rec2) (simp add: dense_def)
  moreover have "map (\<lambda>i. the (row (push r s) i)) [0..cnt s - 1] = map (\<lambda>i. the (row s i)) [0..cnt s - 1]"
    by (intro map_cong) (auto simp: row_push)
  ultimately show ?thesis by (simp add: rows_def cnt_push row_push)
qed

lemma push_all:
  assumes "dense (cnt s) (row s)" and "\<And>i x. row s i = Some x \<Longrightarrow> P i x" and "P (cnt s) r" and "row (push r s) i = Some x"
  shows "P i x"
  using assms by (auto simp: row_push split: if_splits)

end

definition line_count :: "cw_store \<Rightarrow> int" where
  "line_count st = or_zero (cs_credit_line_count st)"
definition draw_count_of :: "u64 \<Rightarrow> cw_store \<Rightarrow> int" where
  "draw_count_of lid st = or_zero (cs_draw_count st lid)"
definition draw_of :: "u64 \<Rightarrow> cw_store \<Rightarrow> int \<Rightarrow> draw option" where
  "draw_of lid st did = cs_draws st (lid, did)"
definition audit_count_of :: "u64 \<Rightarrow> u64 \<Rightarrow> cw_store \<Rightarrow> int" where
  "audit_count_of lid did st = or_zero (cs_draw_audit_count st (lid, did))"
definition audit_of :: "u64 \<Rightarrow> u64 \<Rightarrow> cw_store \<Rightarrow> int \<Rightarrow> draw_audit_entry option" where
  "audit_of lid did st seq = cs_draw_audit st (lid, did, seq)"

lemmas table_defs = line_count_def draw_count_of_def draw_of_def audit_count_of_def audit_of_def

interpretation lines: counted_table line_count cs_credit_lines "\<lambda>l st. push_line (line_count st) l st"
  by unfold_locales (simp_all add: push_line_def table_defs)

interpretation draws: counted_table "draw_count_of lid" "draw_of lid" "\<lambda>d st. push_draw lid (draw_count_of lid st) d st" for lid
  by unfold_locales (simp_all add: push_draw_def table_defs)

interpretation audits: counted_table "audit_count_of lid did" "audit_of lid did"
    "\<lambda>e st. push_audit lid did (audit_count_of lid did st) e st" for lid did
  by unfold_locales (simp_all add: push_audit_def table_defs)

lemma push_line_tables [simp]:
  "cs_credit_lines (push_line n l st) = (cs_credit_lines st)(n \<mapsto> l)" "line_count (push_line n l st) = n + 1"
  "cs_credit_line_count (push_line n l st) = Some (n + 1)"
  "draw_count_of lid (push_line n l st) = draw_count_of lid st" "draw_of lid (push_line n l st) = draw_of lid st"
  "audit_count_of lid did (push_line n l st) = audit_count_of lid did st" "audit_of lid did (push_line n l st) = audit_of lid did st"
  by (simp_all add: push_line_def table_defs fun_eq_iff)

lemma push_draw_tables [simp]:
  "cs_credit_lines (push_draw lid n d st) = cs_credit_lines st" "line_count (push_draw lid n d st) = line_count st"
  "cs_credit_line_count (push_draw lid n d st) = cs_credit_line_count st"
  "draw_count_of k (push_draw lid n d st) = (if k = lid then n + 1 else draw_count_of k st)"
  "draw_of k (push_draw lid n d st) = (if k = lid then (draw_of lid st)(n \<mapsto> d) else draw_of k st)"
  "audit_count_of k did (push_draw lid n d st) = audit_count_of k did st" "audit_of k did (push_draw lid n d st) = audit_of k did st"
  by (simp_all add: push_draw_def table_defs fun_eq_iff)

lemma push_audit_tables [simp]:
  "cs_credit_lines (push_audit lid did n e st) = cs_credit_lines st" "line_count (push_audit lid did n e st) = line_count st"
  "cs_credit_line_count (push_audit lid did n e st) = cs_credit_line_count st"
  "draw_count_of k (push_audit lid did n e st) = draw_count_of k st" "draw_of k (push_audit lid did n e st) = draw_of k st"
  "audit_count_of k i (push_audit lid did n e st) = (if k = lid \<and> i = did then n + 1 else audit_count_of k i st)"
  "audit_of k i (push_audit lid did n e st) = (if k = lid \<and> i = did then (audit_of lid did st)(n \<mapsto> e) else audit_of k i st)"
  by (auto simp: push_audit_def table_defs fun_eq_iff)

section \<open>The unrepaid draws of a line\<close>

definition unrepaid :: "draw \<Rightarrow> int" where
  "unrepaid d = (if dr_repaid d then 0 else dr_amount d)"

definition unrepaid_sum :: "u64 \<Rightarrow> cw_store \<Rightarrow> int" where
  "unrepaid_sum lid st = (\<Sum>did\<in>{0..draw_count_of lid st - 1}. opt_val unrepaid (draw_of lid st did))"

lemma for_each_unrepaid:
  assumes "\<And>i d. draw_of lid st i = Some d \<Longrightarrow> 0 \<le> dr_amount d" and "0 \<le> acc"
    and "acc + sum_list (map (\<lambda>i. opt_val unrepaid (draw_of lid st i)) is) \<le> u128_max"
  shows "for_each (add_unrepaid lid st) is acc = Inr (acc + sum_list (map (\<lambda>i. opt_val unrepaid (draw_of lid st i)) is))"
  using assms(2,3)
proof (induction "is" arbitrary: acc)
  case Nil
  then show ?case by simp
next
  case (Cons i "is")
  let ?v = "opt_val unrepaid (draw_of lid st i)"
  have v: "0 \<le> ?v" using assms(1)[of i] by (auto simp: opt_val_def unrepaid_def split: option.splits)
  have rest: "0 \<le> sum_list (map (\<lambda>i. opt_val unrepaid (draw_of lid st i)) is)"
    using assms(1) by (intro sum_list_nonneg) (auto simp: opt_val_def unrepaid_def split: option.splits)
  have "in_u128 (acc + ?v)" using Cons.prems v rest by (simp add: in_u128_def)
  then have "add_unrepaid lid st i acc = Inr (acc + ?v)"
    by (auto simp: add_unrepaid_def draw_of_def unrepaid_def split: option.splits)
  then show ?case using Cons.IH[of "acc + ?v"] Cons.prems v by (simp add: add.assoc)
qed

lemma outstanding_exact:
  assumes "\<And>i d. draw_of lid st i = Some d \<Longrightarrow> 0 \<le> dr_amount d" and "unrepaid_sum lid st \<le> u128_max"
  shows "outstanding_utilization lid st = Inr (unrepaid_sum lid st)"
proof -
  have "unrepaid_sum lid st = sum_list (map (\<lambda>i. opt_val unrepaid (draw_of lid st i)) [0..draw_count_of lid st - 1])"
    unfolding unrepaid_sum_def by (metis set_upto sum_set_upto_conv_sum_list_int)
  then show ?thesis using for_each_unrepaid[of lid st 0 "[0..draw_count_of lid st - 1]"] assms
    by (simp add: outstanding_utilization_def draw_count_of_def)
qed

lemma unrepaid_sum_push_draw:
  assumes "0 \<le> n" and "n = draw_count_of lid st"
  shows "unrepaid_sum k (push_draw lid n d st) = unrepaid_sum k st + (if k = lid then unrepaid d else 0)"
proof (cases "k = lid")
  case True
  have "{0..n} = insert n {0..n - 1}" using assms(1) by auto
  moreover have "(\<Sum>i\<in>{0..n - 1}. opt_val unrepaid (((draw_of lid st)(n \<mapsto> d)) i)) = (\<Sum>i\<in>{0..n - 1}. opt_val unrepaid (draw_of lid st i))"
    by (intro sum.cong) auto
  ultimately show ?thesis using True assms(2) by (simp add: unrepaid_sum_def)
qed (simp add: unrepaid_sum_def)

lemma unrepaid_sum_frame:
  "draw_count_of k st' = draw_count_of k st \<Longrightarrow> draw_of k st' = draw_of k st \<Longrightarrow> unrepaid_sum k st' = unrepaid_sum k st"
  by (simp add: unrepaid_sum_def)

lemma unrepaid_sum_mono:
  assumes "draw_count_of k st' = draw_count_of k st" and "\<And>i. opt_val unrepaid (draw_of k st' i) \<le> opt_val unrepaid (draw_of k st i)"
  shows "unrepaid_sum k st' \<le> unrepaid_sum k st"
  unfolding unrepaid_sum_def assms(1) by (intro sum_mono assms(2))

section \<open>The invariant of the books\<close>

definition audit_inv :: "u64 \<Rightarrow> u64 \<Rightarrow> draw \<Rightarrow> cw_store \<Rightarrow> bool" where
  "audit_inv lid did d st \<longleftrightarrow> dense (audit_count_of lid did st) (audit_of lid did st) \<and> 0 < audit_count_of lid did st \<and>
     (\<forall>i e. audit_of lid did st i = Some e \<longrightarrow> da_seq e = i \<and> da_draw_id e = did \<and> da_credit_line_id e = lid \<and>
        (da_action e = DrawCreated) = (i = 0)) \<and>
     dr_repaid d = (\<exists>i e. audit_of lid did st i = Some e \<and> da_action e = DrawRepaid)"

definition draw_inv :: "u64 \<Rightarrow> u64 \<Rightarrow> draw \<Rightarrow> cw_store \<Rightarrow> bool" where
  "draw_inv lid did d st \<longleftrightarrow> dr_id d = did \<and> dr_credit_line_id d = lid \<and> 0 < dr_amount d \<and>
     (\<exists>l. cs_credit_lines st lid = Some l \<and> drawn_by d = cl_borrower l) \<and> audit_inv lid did d st"

definition line_inv :: "u64 \<Rightarrow> credit_line \<Rightarrow> cw_store \<Rightarrow> bool" where
  "line_inv lid l st \<longleftrightarrow> cl_id l = lid \<and> cl_active l \<and> in_u128 (cl_credit_amount l) \<and> unrepaid_sum lid st \<le> cl_credit_amount l"

definition book_inv :: "cw_store \<Rightarrow> bool" where
  "book_inv st \<longleftrightarrow> cs_credit_line_count st \<noteq> None \<and> dense (line_count st) (cs_credit_lines st) \<and>
     (\<forall>lid. dense (draw_count_of lid st) (draw_of lid st)) \<and>
     (\<forall>lid did. draw_of lid st did = None \<longrightarrow> audit_count_of lid did st = 0 \<and> audit_of lid did st = (\<lambda>_. None)) \<and>
     (\<forall>lid l. cs_credit_lines st lid = Some l \<longrightarrow> line_inv lid l st) \<and>
     (\<forall>lid did d. draw_of lid st did = Some d \<longrightarrow> draw_inv lid did d st)"

definition book_part where
  "book_part st = (cs_credit_line_count st, cs_credit_lines st, cs_draw_count st, cs_draws st, cs_draw_audit_count st, cs_draw_audit st)"

lemma book_inv_cong:
  assumes "book_part st' = book_part st"
  shows "book_inv st' = book_inv st"
proof -
  have "line_count st' = line_count st" "\<And>k. draw_count_of k st' = draw_count_of k st" "\<And>k. draw_of k st' = draw_of k st"
    "\<And>k i. audit_count_of k i st' = audit_count_of k i st" "\<And>k i. audit_of k i st' = audit_of k i st"
    "cs_credit_lines st' = cs_credit_lines st" "cs_credit_line_count st' = cs_credit_line_count st"
    using assms by (simp_all add: book_part_def table_defs fun_eq_iff)
  then show ?thesis by (simp add: book_inv_def line_inv_def draw_inv_def audit_inv_def unrepaid_sum_def)
qed

lemma book_line: "book_inv st \<Longrightarrow> cs_credit_lines st lid = Some l \<Longrightarrow> line_inv lid l st"
  and book_draw: "book_inv st \<Longrightarrow> draw_of lid st did = Some d \<Longrightarrow> draw_inv lid did d st"
  and book_dense: "book_inv st \<Longrightarrow> dense (draw_count_of lid st) (draw_of lid st)"
  and book_no_audit: "book_inv st \<Longrightarrow> draw_of lid st did = None \<Longrightarrow> audit_count_of lid did st = 0 \<and> audit_of lid did st = (\<lambda>_. None)"
  by (auto simp: book_inv_def)

lemma book_outstanding:
  assumes "book_inv st" and "cs_credit_lines st lid = Some l"
  shows "outstanding_utilization lid st = Inr (unrepaid_sum lid st)" and "unrepaid_sum lid st \<le> cl_credit_amount l"
proof -
  show le: "unrepaid_sum lid st \<le> cl_credit_amount l" using book_line[OF assms] by (simp add: line_inv_def)
  show "outstanding_utilization lid st = Inr (unrepaid_sum lid st)"
    using book_draw[OF assms(1), of lid] book_line[OF assms] le
    by (intro outstanding_exact) (force simp: draw_inv_def line_inv_def in_u128_def)+
qed

lemma push_line_inv:
  assumes b: "book_inv st" and n: "n = line_count st" and l: "cl_id l = n" "cl_active l" "in_u128 (cl_credit_amount l)"
  shows "book_inv (push_line n l st)"
proof -
  have new: "cs_credit_lines st n = None" using b n by (auto simp: book_inv_def dense_def)
  have none: "draw_of n st i = None" for i
    using book_draw[OF b, of n i] new by (cases "draw_of n st i") (auto simp: draw_inv_def)
  have "unrepaid_sum n st = 0" by (simp add: unrepaid_sum_def none)
  moreover have "dense (line_count (push_line n l st)) (cs_credit_lines (push_line n l st))"
    using lines.push_dense[of st l] b n by (simp add: book_inv_def)
  moreover have "unrepaid_sum k (push_line n l st) = unrepaid_sum k st" for k by (rule unrepaid_sum_frame) simp_all
  ultimately show ?thesis using b l none new
    by (auto simp: book_inv_def line_inv_def draw_inv_def audit_inv_def in_u128_def)
qed

lemma push_draw_inv:
  assumes b: "book_inv st" and l: "cs_credit_lines st lid = Some l" and n: "n = draw_count_of lid st"
    and d: "dr_id d = n" "dr_credit_line_id d = lid" "0 < dr_amount d" "drawn_by d = cl_borrower l" "\<not> dr_repaid d"
    and e: "da_seq e = 0" "da_draw_id e = n" "da_credit_line_id e = lid" "da_action e = DrawCreated"
    and le: "unrepaid_sum lid st + dr_amount d \<le> cl_credit_amount l"
  shows "book_inv (push_audit lid n 0 e (push_draw lid n d st))"
proof -
  let ?st' = "push_audit lid n 0 e (push_draw lid n d st)"
  have n0: "0 \<le> n" "draw_of lid st n = None" using book_dense[OF b, of lid] n by (auto simp: dense_def)
  have na: "audit_count_of lid n st = 0" "audit_of lid n st = (\<lambda>_. None)" using book_no_audit[OF b n0(2)] by auto
  have dn: "dense (draw_count_of k ?st') (draw_of k ?st')" for k
    using draws.push_dense[of lid st d] book_dense[OF b] n by auto
  have sum: "unrepaid_sum k ?st' = unrepaid_sum k st + (if k = lid then dr_amount d else 0)" for k
    using unrepaid_sum_push_draw[OF n0(1) n, of k d] unrepaid_sum_frame[of k ?st' "push_draw lid n d st"] d(5)
    by (simp add: unrepaid_def)
  have fresh: "audit_inv lid n d ?st'" using d(5) e by (auto simp: audit_inv_def dense_def na split: if_splits)
  have old: "draw_inv k i x ?st'" if "draw_of k st i = Some x" "\<not> (k = lid \<and> i = n)" for k i x
    using book_draw[OF b that(1)] that(2) by (auto simp: draw_inv_def audit_inv_def)
  have lines: "line_inv k x ?st'" if "cs_credit_lines st k = Some x" for k x
    using book_line[OF b that] le l that by (auto simp: line_inv_def sum)
  show ?thesis unfolding book_inv_def
  proof (intro conjI allI impI)
    fix k i x assume "draw_of k ?st' i = Some x"
    then show "draw_inv k i x ?st'" using old[of k i x] fresh d l by (cases "k = lid \<and> i = n") (auto simp: draw_inv_def split: if_splits)
  qed (use b dn lines book_no_audit[OF b] in \<open>auto simp: book_inv_def split: if_splits\<close>)
qed

definition touch_draw :: "u64 \<Rightarrow> u64 \<Rightarrow> draw \<Rightarrow> cw_store \<Rightarrow> cw_store" where
  "touch_draw lid did d st = st\<lparr>cs_draws := (cs_draws st)((lid, did) \<mapsto> d)\<rparr>"

lemma touch_draw_tables [simp]:
  "cs_credit_lines (touch_draw lid did d st) = cs_credit_lines st" "line_count (touch_draw lid did d st) = line_count st"
  "cs_credit_line_count (touch_draw lid did d st) = cs_credit_line_count st"
  "draw_count_of k (touch_draw lid did d st) = draw_count_of k st"
  "draw_of k (touch_draw lid did d st) = (if k = lid then (draw_of lid st)(did \<mapsto> d) else draw_of k st)"
  "audit_count_of k i (touch_draw lid did d st) = audit_count_of k i st" "audit_of k i (touch_draw lid did d st) = audit_of k i st"
  by (simp_all add: touch_draw_def table_defs fun_eq_iff)

lemma ex_upd:
  assumes "m n = None"
  shows "(\<exists>i x. (m(n \<mapsto> e)) i = Some x \<and> P x) \<longleftrightarrow> P e \<or> (\<exists>i x. m i = Some x \<and> P x)"
proof -
  have "i \<noteq> n" if "m i = Some x" for i x using assms that by auto
  then show ?thesis by (metis fun_upd_apply option.inject)
qed

lemma push_audit_inv:
  assumes b: "book_inv st" and d: "draw_of lid st did = Some d" and n: "n = audit_count_of lid did st"
    and e: "da_seq e = n" "da_draw_id e = did" "da_credit_line_id e = lid" "da_action e \<noteq> DrawCreated"
    and d': "d' = d\<lparr>dr_repaid := dr_repaid d \<or> da_action e = DrawRepaid\<rparr>"
  shows "book_inv (push_audit lid did n e (touch_draw lid did d' st))"
proof -
  let ?st' = "push_audit lid did n e (touch_draw lid did d' st)"
  have di: "draw_inv lid did d st" by (rule book_draw[OF b d])
  have ai: "dense n (audit_of lid did st)" "0 < n" using di n by (auto simp: draw_inv_def audit_inv_def)
  have old_none: "audit_of lid did st n = None" using ai(1) by (auto simp: dense_def)
  have dn: "dense (audit_count_of lid did ?st') (audit_of lid did ?st')"
    using audits.push_dense[of lid did "touch_draw lid did d' st" e] ai(1) n by simp
  have rep: "dr_repaid d' = (\<exists>i x. audit_of lid did ?st' i = Some x \<and> da_action x = DrawRepaid)"
    using di d' ex_upd[of "audit_of lid did st" n e "\<lambda>x. da_action x = DrawRepaid", OF old_none]
    by (simp add: draw_inv_def audit_inv_def disj_commute del: fun_upd_apply)
  have fresh: "audit_inv lid did d' ?st'" unfolding audit_inv_def
    using dn rep di ai(2) e n by (auto simp: draw_inv_def audit_inv_def)
  have other: "draw_inv k i x ?st'" if "draw_of k st i = Some x" "\<not> (k = lid \<and> i = did)" for k i x
    using book_draw[OF b that(1)] that(2) by (auto simp: draw_inv_def audit_inv_def)
  have sum: "unrepaid_sum k ?st' \<le> unrepaid_sum k st" for k
    using di d d' by (intro unrepaid_sum_mono) (auto simp: opt_val_def unrepaid_def draw_inv_def)
  have lines: "line_inv k x ?st'" if "cs_credit_lines st k = Some x" for k x
    using book_line[OF b that] sum[of k] by (auto simp: line_inv_def)
  have ds: "dense (draw_count_of k ?st') (draw_of k ?st')" for k
    using book_dense[OF b, of k] d by (auto simp: dense_def)
  show ?thesis unfolding book_inv_def
  proof (intro conjI allI impI)
    fix k i x assume "draw_of k ?st' i = Some x"
    then show "draw_inv k i x ?st'" using other[of k i x] fresh di d' by (cases "k = lid \<and> i = did") (auto simp: draw_inv_def split: if_splits)
  qed (use b ds lines book_no_audit[OF b] d in \<open>auto simp: book_inv_def split: if_splits\<close>)
qed

section \<open>What each message may touch\<close>

definition coll_part where
  "coll_part st = (cs_borrower_collateral_tokens st, cs_collateral_balances st)"
definition settings_part where
  "settings_part st = (cs_oracle_quorum_config st, cs_oracle_price_record st, cs_oracle_list st, cs_oracle_weight st, cs_oracle_report st,
     cs_late_fee_config st, cs_collateral_risk_weights st, cs_collateral_token_allowlist st, cs_protocol_version st)"
definition fee_part where
  "fee_part st = (cs_default_fee_share_bps st, cs_market_fee_share_bps st, cs_treasury_balance st, cs_bounty_balance st, cs_protocol_fee_bps st)"

lemmas part_defs = book_part_def coll_part_def settings_part_def fee_part_def

primrec books_msg :: "execute_msg \<Rightarrow> bool" where
  "books_msg (MsgCreateCreditLine b cd ca kd ka) = True"
| "books_msg (MsgCreateDraw lid amount denom) = True"
| "books_msg (MsgRepayDraw lid did) = True"
| "books_msg (MsgAddAuditMemo lid did memo) = True"
| "books_msg (MsgUpdateProtocolVersion major minor) = False"
| "books_msg (MsgSetOracleQuorumConfig k dev age) = False"
| "books_msg (MsgAddOracle oracle weight) = False"
| "books_msg (MsgRemoveOracle oracle) = False"
| "books_msg (MsgReportValue v) = False"
| "books_msg (MsgSubmitOraclePrices prices) = False"
| "books_msg (MsgSetLateFeeConfig config) = False"
| "books_msg (MsgDepositCollateral b denom amount) = False"
| "books_msg (MsgWithdrawCollateral b denom amount) = False"
| "books_msg (MsgAddCollateralToken denom rw) = False"
| "books_msg (MsgRemoveCollateralToken denom) = False"
| "books_msg (MsgSetCollateralRiskWeight denom rw) = False"

lemma collect_repay_fee_shape:
  assumes "collect_repay_fee d f st = Inr st'"
  shows "st' = st\<lparr>cs_treasury_balance := cs_treasury_balance st', cs_bounty_balance := cs_bounty_balance st'\<rparr>"
  using assms cw_accrue_shape by (auto simp: collect_repay_fee_def split: if_splits)

lemma collect_repay_fee_frame:
  assumes "collect_repay_fee d f st = Inr st'"
  shows "book_part st' = book_part st" "coll_part st' = coll_part st" "settings_part st' = settings_part st"
    "cs_config st' = cs_config st" "cs_borrower_to_id st' = cs_borrower_to_id st"
  by (subst collect_repay_fee_shape[OF assms], simp add: part_defs)+

definition tokens_only :: "cw_store \<Rightarrow> cw_store \<Rightarrow> bool" where
  "tokens_only st st' \<longleftrightarrow> st' = st\<lparr>cs_borrower_collateral_tokens := cs_borrower_collateral_tokens st',
     cs_collateral_balances := cs_collateral_balances st'\<rparr>"

lemma token_msg_shape:
  "execute_deposit_collateral api sender who denom a st = Inr (r, st') \<Longrightarrow> cs_config st = Some sender \<and> tokens_only st st'"
  "execute_withdraw_collateral api sender who denom a st = Inr (r, st') \<Longrightarrow> cs_config st = Some sender \<and> tokens_only st st'"
  by (auto simp: execute_deposit_collateral_def execute_withdraw_collateral_def cw_deposit_collateral_def cw_withdraw_collateral_def
      record_token_def set_or_drop_balance_def Let_def assert_owner_def tokens_only_def)

definition settings_only :: "cw_store \<Rightarrow> cw_store \<Rightarrow> bool" where
  "settings_only st st' \<longleftrightarrow> st' = st\<lparr>cs_oracle_quorum_config := cs_oracle_quorum_config st', cs_oracle_price_record := cs_oracle_price_record st',
     cs_oracle_list := cs_oracle_list st', cs_oracle_weight := cs_oracle_weight st', cs_oracle_report := cs_oracle_report st',
     cs_late_fee_config := cs_late_fee_config st', cs_collateral_risk_weights := cs_collateral_risk_weights st',
     cs_collateral_token_allowlist := cs_collateral_token_allowlist st', cs_protocol_version := cs_protocol_version st'\<rparr>"

lemma settings_only_simps:
  "settings_only st (set_protocol_version pv st)"
  "settings_only st (st\<lparr>cs_oracle_quorum_config := q\<rparr>)" "settings_only st (st\<lparr>cs_oracle_price_record := p\<rparr>)"
  "settings_only st (st\<lparr>cs_late_fee_config := l\<rparr>)" "settings_only st (st\<lparr>cs_oracle_report := o'\<rparr>)"
  "settings_only st (st\<lparr>cs_collateral_risk_weights := ws\<rparr>)"
  "settings_only st (st\<lparr>cs_collateral_token_allowlist := al, cs_collateral_risk_weights := ws\<rparr>)"
  "settings_only st (store_weight dn rw (st\<lparr>cs_collateral_token_allowlist := al\<rparr>))"
  "cw_add_oracle x w st = Inr st' \<Longrightarrow> settings_only st st'" "cw_remove_oracle x st = Inr st' \<Longrightarrow> settings_only st st'"
  "cw_report_value env x v st = Inr st' \<Longrightarrow> settings_only st st'"
  by (auto simp: settings_only_def set_protocol_version_def store_weight_def cw_add_oracle_def cw_remove_oracle_def cw_report_value_def Let_def
      split: if_splits)

lemma tokens_only_frame:
  assumes "tokens_only st st'"
  shows "book_part st' = book_part st" "fee_part st' = fee_part st" "settings_part st' = settings_part st"
    "cs_borrower_to_id st' = cs_borrower_to_id st" "cs_config st' = cs_config st"
  by (subst assms[unfolded tokens_only_def], simp add: part_defs)+

lemma settings_only_frame:
  assumes "settings_only st st'"
  shows "book_part st' = book_part st" "fee_part st' = fee_part st" "coll_part st' = coll_part st"
    "cs_borrower_to_id st' = cs_borrower_to_id st" "cs_config st' = cs_config st"
  by (subst assms[unfolded settings_only_def], simp add: part_defs)+

primrec token_msg :: "execute_msg \<Rightarrow> bool" where
  "token_msg (MsgCreateCreditLine b cd ca kd ka) = False"
| "token_msg (MsgCreateDraw lid amount denom) = False"
| "token_msg (MsgRepayDraw lid did) = False"
| "token_msg (MsgAddAuditMemo lid did memo) = False"
| "token_msg (MsgUpdateProtocolVersion major minor) = False"
| "token_msg (MsgSetOracleQuorumConfig k dev age) = False"
| "token_msg (MsgAddOracle oracle weight) = False"
| "token_msg (MsgRemoveOracle oracle) = False"
| "token_msg (MsgReportValue v) = False"
| "token_msg (MsgSubmitOraclePrices prices) = False"
| "token_msg (MsgSetLateFeeConfig config) = False"
| "token_msg (MsgDepositCollateral b denom amount) = True"
| "token_msg (MsgWithdrawCollateral b denom amount) = True"
| "token_msg (MsgAddCollateralToken denom rw) = False"
| "token_msg (MsgRemoveCollateralToken denom) = False"
| "token_msg (MsgSetCollateralRiskWeight denom rw) = False"

lemmas setting_handlers = execute_update_protocol_version_def execute_set_oracle_quorum_config_def execute_add_oracle_def
  execute_remove_oracle_def execute_report_value_def execute_set_late_fee_config_def execute_submit_oracle_prices_def
  execute_add_collateral_token_def execute_remove_collateral_token_def execute_set_collateral_risk_weight_def
  cw_add_collateral_token_def cw_remove_collateral_token_def cw_set_collateral_risk_weight_def

lemma setting_msg_shape:
  assumes "execute api env sender msg st = Inr (r, st')" and "\<not> books_msg msg" and "\<not> token_msg msg"
  shows "settings_only st st'"
  using assms by (cases msg) (auto simp: setting_handlers Let_def intro: settings_only_simps)

lemma setting_msg_sender:
  assumes "execute api env sender msg st = Inr (r, st')" and "\<not> books_msg msg" and "\<not> token_msg msg"
  shows "cs_config st = Some sender \<or> (\<exists>v. msg = MsgReportValue v \<and> sender \<in> set (or_nil (cs_oracle_list st)))"
  using assms by (cases msg) (auto simp: setting_handlers cw_report_value_def assert_owner_def Let_def)

lemma books_frame:
  assumes "execute api env sender msg st = Inr (r, st')" and "\<not> books_msg msg"
  shows "book_part st' = book_part st" and "fee_part st' = fee_part st" and "cs_borrower_to_id st' = cs_borrower_to_id st"
    and "cs_config st' = cs_config st"
proof -
  have "tokens_only st st' \<or> settings_only st st'"
  proof (cases "token_msg msg")
    case True
    then show ?thesis using assms(1) by (cases msg) (auto dest: token_msg_shape)
  qed (use setting_msg_shape[OF assms] in simp)
  then show "book_part st' = book_part st" "fee_part st' = fee_part st" "cs_borrower_to_id st' = cs_borrower_to_id st"
    "cs_config st' = cs_config st"
    using tokens_only_frame[of st st'] settings_only_frame[of st st'] by auto
qed

lemma repay_shape:
  assumes "execute_repay_draw env sender lid did st = Inr (r, st')"
  shows "\<exists>l d f st1 n. cs_credit_lines st lid = Some l \<and> sender = cl_borrower l \<and> draw_of lid st did = Some d \<and> sender = drawn_by d \<and>
     repay_fee d st = Inr f \<and> collect_repay_fee d f st = Inr st1 \<and> n = audit_count_of lid did st \<and> book_part st1 = book_part st \<and>
     st' = push_audit lid did n \<lparr>da_seq = n, da_draw_id = did, da_credit_line_id = lid, da_action = DrawRepaid,
        da_timestamp = block_time env, da_block_height = block_height env, da_by = sender, da_memo = ''''\<rparr>
        (touch_draw lid did (d\<lparr>dr_repaid := True\<rparr>) st1)"
proof -
  obtain l d f st1 where *: "cs_credit_lines st lid = Some l" "sender = cl_borrower l" "cs_draws st (lid, did) = Some d" "sender = drawn_by d"
    "repay_fee d st = Inr f" "collect_repay_fee d f st = Inr st1"
    "append_audit_entry env sender lid did DrawRepaid '''' (touch_draw lid did (d\<lparr>dr_repaid := True\<rparr>) st1) = Inr st'"
    using assms by (auto simp: execute_repay_draw_def cw_load_line_def cw_load_draw_def Let_def touch_draw_def)
  have bp: "book_part st1 = book_part st" by (rule collect_repay_fee_frame(1)[OF *(6)])
  then have "or_zero (cs_draw_audit_count st1 (lid, did)) = audit_count_of lid did st" by (simp add: book_part_def audit_count_of_def)
  then show ?thesis using * bp
    by (auto simp: append_audit_entry_def Let_def touch_draw_def draw_of_def)
qed

definition api_ok :: "cw_api \<Rightarrow> bool" where
  "api_ok api \<longleftrightarrow> (\<forall>s v. parse_uint128 api s = Some v \<longrightarrow> in_u128 v)"

lemma create_line_shape:
  assumes "execute_create_credit_line api sender who cd ca kd ka st = Inr (r, st')"
  shows "\<exists>b col cr n. cs_config st = Some sender \<and> addr_validate api who = Some b \<and> parse_uint128 api ka = Some cr \<and>
     cs_credit_line_count st = Some n \<and> st' = (push_line n \<lparr>cl_id = n, cl_borrower = b, cl_collateral_denom = cd, cl_collateral_amount = col,
       cl_credit_denom = kd, cl_credit_amount = cr, cl_active = True\<rparr> st)\<lparr>cs_borrower_to_id := (cs_borrower_to_id st)(b \<mapsto> n)\<rparr>"
  using assms by (auto simp: execute_create_credit_line_def assert_owner_def validate_addr_def parse_amount_def Let_def push_line_def)

lemma create_draw_shape:
  assumes "execute_create_draw api env sender lid amount denom st = Inr (r, st')"
  shows "\<exists>l v q n. cs_credit_lines st lid = Some l \<and> sender = cl_borrower l \<and> parse_uint128 api amount = Some v \<and> v \<noteq> 0 \<and>
     outstanding_utilization lid st = Inr q \<and> q + v \<le> cl_credit_amount l \<and> n = draw_count_of lid st \<and>
     st' = push_audit lid n 0 \<lparr>da_seq = 0, da_draw_id = n, da_credit_line_id = lid, da_action = DrawCreated, da_timestamp = block_time env,
         da_block_height = block_height env, da_by = sender, da_memo = ''''\<rparr>
       (push_draw lid n \<lparr>dr_id = n, dr_credit_line_id = lid, dr_amount = v, dr_denom = denom, drawn_at = block_time env,
         drawn_by = sender, dr_repaid = False\<rparr> st)"
  using assms by (auto simp: execute_create_draw_def cw_load_line_def parse_amount_def Let_def draw_count_of_def)

lemma memo_shape:
  assumes "execute_add_audit_memo env sender lid did memo st = Inr (r, st')"
  shows "\<exists>d n. cs_config st = Some sender \<and> draw_of lid st did = Some d \<and> n = audit_count_of lid did st \<and>
     st' = push_audit lid did n \<lparr>da_seq = n, da_draw_id = did, da_credit_line_id = lid, da_action = MemoAdded, da_timestamp = block_time env,
        da_block_height = block_height env, da_by = sender, da_memo = memo\<rparr> (touch_draw lid did d st)"
  using assms
  by (auto simp: execute_add_audit_memo_def assert_owner_def cw_load_draw_def append_audit_entry_def Let_def draw_of_def audit_count_of_def
      touch_draw_def fun_upd_idem)

lemma create_line_inv:
  assumes "execute_create_credit_line api sender who cd ca kd ka st = Inr (r, st')" and b: "book_inv st" and "api_ok api"
  shows "book_inv st'"
proof -
  obtain b' col cr n where s: "parse_uint128 api ka = Some cr" "cs_credit_line_count st = Some n"
      "st' = (push_line n \<lparr>cl_id = n, cl_borrower = b', cl_collateral_denom = cd, cl_collateral_amount = col,
       cl_credit_denom = kd, cl_credit_amount = cr, cl_active = True\<rparr> st)\<lparr>cs_borrower_to_id := (cs_borrower_to_id st)(b' \<mapsto> n)\<rparr>"
    using create_line_shape[OF assms(1)] by blast
  have "in_u128 cr" using s(1) assms(3) by (auto simp: api_ok_def)
  then have "book_inv (push_line n \<lparr>cl_id = n, cl_borrower = b', cl_collateral_denom = cd, cl_collateral_amount = col,
       cl_credit_denom = kd, cl_credit_amount = cr, cl_active = True\<rparr> st)" (is "book_inv ?s")
    using s(2) by (intro push_line_inv[OF b]) (simp_all add: line_count_def)
  moreover have "book_part st' = book_part ?s" using s(3) by (simp add: book_part_def)
  ultimately show ?thesis using book_inv_cong by blast
qed

lemma create_draw_inv:
  assumes "execute_create_draw api env sender lid amount denom st = Inr (r, st')" and b: "book_inv st" and "api_ok api"
  shows "book_inv st'"
proof -
  obtain l v q n where s: "cs_credit_lines st lid = Some l" "sender = cl_borrower l" "parse_uint128 api amount = Some v" "v \<noteq> 0"
      "outstanding_utilization lid st = Inr q" "q + v \<le> cl_credit_amount l" "n = draw_count_of lid st"
      "st' = push_audit lid n 0 \<lparr>da_seq = 0, da_draw_id = n, da_credit_line_id = lid, da_action = DrawCreated, da_timestamp = block_time env,
         da_block_height = block_height env, da_by = sender, da_memo = ''''\<rparr>
       (push_draw lid n \<lparr>dr_id = n, dr_credit_line_id = lid, dr_amount = v, dr_denom = denom, drawn_at = block_time env,
         drawn_by = sender, dr_repaid = False\<rparr> st)"
    using create_draw_shape[OF assms(1)] by blast
  have "0 < v" using s(3,4) assms(3) by (auto simp: api_ok_def in_u128_def order.not_eq_order_implies_strict)
  then show ?thesis unfolding s(8) using s book_outstanding(1)[OF b s(1)] by (intro push_draw_inv[OF b s(1,7)]) simp_all
qed

lemma repay_inv:
  assumes "execute_repay_draw env sender lid did st = Inr (r, st')" and b: "book_inv st"
  shows "book_inv st'"
proof -
  obtain d st1 n where s: "draw_of lid st did = Some d" "n = audit_count_of lid did st" "book_part st1 = book_part st"
      "st' = push_audit lid did n \<lparr>da_seq = n, da_draw_id = did, da_credit_line_id = lid, da_action = DrawRepaid,
        da_timestamp = block_time env, da_block_height = block_height env, da_by = sender, da_memo = ''''\<rparr>
        (touch_draw lid did (d\<lparr>dr_repaid := True\<rparr>) st1)"
    using repay_shape[OF assms(1)] by blast
  have "book_inv st1" "draw_of lid st1 did = Some d" "n = audit_count_of lid did st1"
    using s(1-3) b book_inv_cong[OF s(3)] by (simp_all add: book_part_def draw_of_def audit_count_of_def)
  then show ?thesis unfolding s(4) by (intro push_audit_inv) simp_all
qed

lemma memo_inv:
  assumes "execute_add_audit_memo env sender lid did memo st = Inr (r, st')" and b: "book_inv st"
  shows "book_inv st'"
proof -
  obtain d n where s: "draw_of lid st did = Some d" "n = audit_count_of lid did st"
      "st' = push_audit lid did n \<lparr>da_seq = n, da_draw_id = did, da_credit_line_id = lid, da_action = MemoAdded, da_timestamp = block_time env,
        da_block_height = block_height env, da_by = sender, da_memo = memo\<rparr> (touch_draw lid did d st)"
    using memo_shape[OF assms(1)] by blast
  show ?thesis unfolding s(3) using s by (intro push_audit_inv[OF b s(1,2)]) simp_all
qed

lemma execute_book_inv:
  assumes "execute api env sender msg st = Inr (r, st')" and "book_inv st" and "api_ok api"
  shows "book_inv st'"
proof (cases "books_msg msg")
  case False
  then show ?thesis using books_frame(1)[OF assms(1)] book_inv_cong assms(2) by blast
next
  case True
  then show ?thesis using assms
    by (cases msg) (auto intro: create_line_inv create_draw_inv repay_inv memo_inv)
qed

lemma books_msg_frame:
  assumes "execute api env sender msg st = Inr (r, st')" and "books_msg msg"
  shows "coll_part st' = coll_part st \<and> settings_part st' = settings_part st \<and> cs_config st' = cs_config st"
proof -
  have line: "coll_part st' = coll_part st \<and> settings_part st' = settings_part st \<and> cs_config st' = cs_config st"
    if "execute_create_credit_line api sender w cd ca kd ka st = Inr (r, st')" for w cd ca kd ka
    using create_line_shape[OF that] by (auto simp: part_defs push_line_def)
  have draw: "coll_part st' = coll_part st \<and> settings_part st' = settings_part st \<and> cs_config st' = cs_config st"
    if "execute_create_draw api env sender lid a dn st = Inr (r, st')" for lid a dn
    using create_draw_shape[OF that] by (auto simp: part_defs push_draw_def push_audit_def)
  have repay: "coll_part st' = coll_part st \<and> settings_part st' = settings_part st \<and> cs_config st' = cs_config st"
    if rp: "execute_repay_draw env sender lid did st = Inr (r, st')" for lid did
  proof -
    obtain d f st1 e n where c: "collect_repay_fee d f st = Inr st1"
      and s: "st' = push_audit lid did n e (touch_draw lid did (d\<lparr>dr_repaid := True\<rparr>) st1)"
      using repay_shape[OF rp] by blast
    show ?thesis unfolding s using collect_repay_fee_frame[OF c] by (simp add: part_defs push_audit_def touch_draw_def)
  qed
  have memo: "coll_part st' = coll_part st \<and> settings_part st' = settings_part st \<and> cs_config st' = cs_config st"
    if "execute_add_audit_memo env sender lid did m st = Inr (r, st')" for lid did m
    using memo_shape[OF that] by (auto simp: part_defs push_audit_def touch_draw_def)
  show ?thesis using assms by (cases msg) (auto dest: line draw repay memo)
qed

section \<open>The collateral index\<close>

definition coll_inv :: "cw_store \<Rightarrow> bool" where
  "coll_inv st \<longleftrightarrow>
     (\<forall>a. distinct (or_nil (cs_borrower_collateral_tokens st a)) \<and>
        set (or_nil (cs_borrower_collateral_tokens st a)) = {d. cs_collateral_balances st (a, d) \<noteq> None}) \<and>
     (\<forall>k v. cs_collateral_balances st k = Some v \<longrightarrow> 0 < v \<and> v \<le> u128_max)"

lemma coll_inv_cong: "coll_part st' = coll_part st \<Longrightarrow> coll_inv st' = coll_inv st"
  by (simp add: coll_part_def coll_inv_def)

lemma deposit_coll_inv:
  assumes "cw_deposit_collateral a d v st = Inr (r, st')" and "coll_inv st" and "in_u128 v"
  shows "coll_inv st'"
proof -
  let ?b = "or_zero (cs_collateral_balances st (a, d))"
  have g: "v \<noteq> 0" "in_u128 (?b + v)"
    "st' = record_token a d (st\<lparr>cs_collateral_balances := (cs_collateral_balances st)((a, d) \<mapsto> ?b + v)\<rparr>)"
    using assms(1) by (auto simp: cw_deposit_collateral_def)
  have "0 \<le> ?b" using assms(2) by (cases "cs_collateral_balances st (a, d)") (auto simp: coll_inv_def intro: less_imp_le)
  then have "0 < ?b + v" "?b + v \<le> u128_max" using g(1,2) assms(3) by (auto simp: in_u128_def)
  then show ?thesis using assms(2) unfolding g(3) coll_inv_def record_token_def Let_def by auto
qed

lemma withdraw_coll_inv:
  assumes "cw_withdraw_collateral a d v st = Inr (r, st')" and "coll_inv st" and "in_u128 v"
  shows "coll_inv st'"
proof -
  obtain b where g: "v \<noteq> 0" "cs_collateral_balances st (a, d) = Some b" "v \<le> b" "st' = set_or_drop_balance a d (b - v) st"
    using assms(1) by (auto simp: cw_withdraw_collateral_def)
  have "b \<le> u128_max" using assms(2) g(2) by (auto simp: coll_inv_def)
  then have "b - v \<le> u128_max" "b \<noteq> v \<Longrightarrow> 0 < b - v" using g(3) assms(3) by (auto simp: in_u128_def)
  then show ?thesis using assms(2) g(2) unfolding g(4) coll_inv_def set_or_drop_balance_def by auto
qed

lemma execute_coll_inv:
  assumes "execute api env sender msg st = Inr (r, st')" and "coll_inv st" and "api_ok api"
  shows "coll_inv st'"
proof (cases "token_msg msg")
  case True
  then show ?thesis using assms
    by (cases msg) (auto simp: execute_deposit_collateral_def execute_withdraw_collateral_def parse_amount_def api_ok_def
        intro: deposit_coll_inv withdraw_coll_inv)
next
  case False
  then have "coll_part st' = coll_part st"
    using books_msg_frame[OF assms(1)] setting_msg_shape[OF assms(1)] settings_only_frame(3)[of st st'] by blast
  then show ?thesis using assms(2) coll_inv_cong by blast
qed

section \<open>Settings and fees\<close>

definition allow_ok :: "string list \<Rightarrow> (string \<rightharpoonup> u32) \<Rightarrow> bool" where
  "allow_ok al ws \<longleftrightarrow> distinct al \<and> int (length al) \<le> MAX_COLLATERAL_TOKENS \<and> (\<forall>d w. ws d = Some w \<longrightarrow> d \<in> set al \<and> w \<le> 10000)"

definition oracles_ok :: "cw_addr list \<Rightarrow> (cw_addr \<rightharpoonup> u32) \<Rightarrow> (cw_addr \<rightharpoonup> oracle_report_data) \<Rightarrow> bool" where
  "oracles_ok os ws rs \<longleftrightarrow> distinct os \<and> dom ws = set os \<and> dom rs \<subseteq> set os"

definition quorum_ok :: "cw_quorum_config option \<Rightarrow> bool" where
  "quorum_ok q \<longleftrightarrow> (\<forall>c. q = Some c \<longrightarrow> 2 \<le> cq_min_quorum_k c \<and> cq_max_deviation_bps c \<le> 10000 \<and> cq_max_age_seconds c \<noteq> 0)"

definition late_ok :: "cw_late_fee_config option \<Rightarrow> bool" where
  "late_ok c \<longleftrightarrow> (\<forall>x. c = Some x \<longrightarrow> validate_late_fee_config x = Inr ())"

definition settings_inv :: "cw_store \<Rightarrow> bool" where
  "settings_inv st \<longleftrightarrow>
     allow_ok (or_nil (cs_collateral_token_allowlist st)) (cs_collateral_risk_weights st) \<and>
     oracles_ok (or_nil (cs_oracle_list st)) (cs_oracle_weight st) (cs_oracle_report st) \<and>
     quorum_ok (cs_oracle_quorum_config st) \<and> late_ok (cs_late_fee_config st)"

lemma settings_inv_cong: "settings_part st' = settings_part st \<Longrightarrow> settings_inv st' = settings_inv st"
  by (simp add: settings_part_def settings_inv_def)

lemma allow_ok_steps:
  "allow_ok al ws \<Longrightarrow> d \<notin> set al \<Longrightarrow> \<not> MAX_COLLATERAL_TOKENS \<le> int (length al) \<Longrightarrow> allow_ok (al @ [d]) ws"
  "allow_ok al ws \<Longrightarrow> d \<in> set al \<Longrightarrow> \<not> 10000 < rw \<Longrightarrow> allow_ok al (ws(d \<mapsto> rw))"
  "allow_ok al ws \<Longrightarrow> allow_ok (filter (\<lambda>x. x \<noteq> d) al) (ws(d := None))"
proof -
  assume a: "allow_ok al ws"
  then have "int (length al) \<le> MAX_COLLATERAL_TOKENS" by (simp add: allow_ok_def)
  then have "int (length (filter (\<lambda>x. x \<noteq> d) al)) \<le> MAX_COLLATERAL_TOKENS" by (meson length_filter_le of_nat_mono order.trans)
  then show "allow_ok (filter (\<lambda>x. x \<noteq> d) al) (ws(d := None))" using a by (auto simp: allow_ok_def)
qed (auto simp: allow_ok_def)

lemma oracles_ok_steps:
  "oracles_ok os ws rs \<Longrightarrow> x \<notin> set os \<Longrightarrow> oracles_ok (os @ [x]) (ws(x \<mapsto> w)) rs"
  "oracles_ok os ws rs \<Longrightarrow> x \<in> set os \<Longrightarrow> oracles_ok os (ws(x \<mapsto> w)) rs"
  "oracles_ok os ws rs \<Longrightarrow> x \<in> set os \<Longrightarrow> oracles_ok os ws (rs(x \<mapsto> v))"
  "oracles_ok os ws rs \<Longrightarrow> oracles_ok (remove1 x os) (ws(x := None)) (rs(x := None))"
  by (auto simp: oracles_ok_def)

lemma oracle_settings_inv:
  "cw_add_oracle x w st = Inr st' \<Longrightarrow> settings_inv st \<Longrightarrow> settings_inv st'"
  "cw_remove_oracle x st = Inr st' \<Longrightarrow> settings_inv st \<Longrightarrow> settings_inv st'"
  "cw_report_value env x v st = Inr st' \<Longrightarrow> settings_inv st \<Longrightarrow> settings_inv st'"
  by (auto simp: cw_add_oracle_def cw_remove_oracle_def cw_report_value_def settings_inv_def Let_def split: if_splits
      intro: oracles_ok_steps)

lemma store_weight_fields [simp]:
  "cs_collateral_token_allowlist (store_weight d rw st) = cs_collateral_token_allowlist st"
  "cs_oracle_list (store_weight d rw st) = cs_oracle_list st" "cs_oracle_weight (store_weight d rw st) = cs_oracle_weight st"
  "cs_oracle_report (store_weight d rw st) = cs_oracle_report st" "cs_late_fee_config (store_weight d rw st) = cs_late_fee_config st"
  "cs_oracle_quorum_config (store_weight d rw st) = cs_oracle_quorum_config st"
  by (simp_all add: store_weight_def)

lemma store_weight_ok:
  assumes "allow_ok al (cs_collateral_risk_weights st)" and "d \<in> set al" and "\<not> 10000 < rw"
  shows "allow_ok al (cs_collateral_risk_weights (store_weight d rw st))"
  using assms allow_ok_steps(2) by (simp add: store_weight_def)

lemma allowlist_settings_inv:
  "cw_add_collateral_token d rw st = Inr (r, st') \<Longrightarrow> settings_inv st \<Longrightarrow> settings_inv st'"
  "cw_remove_collateral_token d st = Inr (r, st') \<Longrightarrow> settings_inv st \<Longrightarrow> settings_inv st'"
  "cw_set_collateral_risk_weight d rw st = Inr (r, st') \<Longrightarrow> settings_inv st \<Longrightarrow> settings_inv st'"
  by (auto simp: cw_add_collateral_token_def cw_remove_collateral_token_def cw_set_collateral_risk_weight_def settings_inv_def Let_def
      intro!: store_weight_ok allow_ok_steps)

lemma config_settings_inv:
  "execute_update_protocol_version sender major minor st = Inr (r, st') \<Longrightarrow> settings_inv st \<Longrightarrow> settings_inv st'"
  "execute_set_oracle_quorum_config sender k dev age st = Inr (r, st') \<Longrightarrow> settings_inv st \<Longrightarrow> settings_inv st'"
  "execute_submit_oracle_prices env sender prices st = Inr (r, st') \<Longrightarrow> settings_inv st \<Longrightarrow> settings_inv st'"
  "execute_set_late_fee_config sender config st = Inr (r, st') \<Longrightarrow> settings_inv st \<Longrightarrow> settings_inv st'"
  by (auto simp: execute_update_protocol_version_def execute_set_oracle_quorum_config_def execute_submit_oracle_prices_def
      execute_set_late_fee_config_def set_protocol_version_def settings_inv_def quorum_ok_def late_ok_def Let_def split: option.splits)

lemma execute_settings_inv:
  assumes "execute api env sender msg st = Inr (r, st')" and "settings_inv st"
  shows "settings_inv st'"
proof (cases "books_msg msg \<or> token_msg msg")
  case True
  then have "settings_part st' = settings_part st"
  proof
    assume "books_msg msg"
    then show ?thesis using books_msg_frame[OF assms(1)] by blast
  next
    assume "token_msg msg"
    then have "tokens_only st st'" using assms(1) by (cases msg) (auto dest: token_msg_shape)
    then show ?thesis by (rule tokens_only_frame(3))
  qed
  then show ?thesis using assms(2) settings_inv_cong by blast
next
  case False
  then show ?thesis using assms
    by (cases msg)
      (auto simp: execute_add_oracle_def execute_remove_oracle_def execute_report_value_def execute_add_collateral_token_def
        execute_remove_collateral_token_def execute_set_collateral_risk_weight_def
        intro: oracle_settings_inv allowlist_settings_inv config_settings_inv)
qed

definition fee_clean :: "cw_store \<Rightarrow> bool" where
  "fee_clean st \<longleftrightarrow> cs_protocol_fee_bps st = None \<and> cs_treasury_balance st = Map.empty \<and> cs_bounty_balance st = Map.empty"

lemma fee_clean_cong: "fee_part st' = fee_part st \<Longrightarrow> fee_clean st' = fee_clean st"
  by (simp add: fee_part_def fee_clean_def)

lemma execute_fee_clean:
  assumes "execute api env sender msg st = Inr (r, st')" and "fee_clean st"
  shows "fee_clean st'"
proof (cases "books_msg msg")
  case False
  then show ?thesis using books_frame(2)[OF assms(1)] fee_clean_cong assms(2) by blast
next
  case True
  have repay: "fee_part st' = fee_part st" if rp: "execute_repay_draw env sender lid did st = Inr (r, st')" for lid did
  proof -
    obtain d f st1 e n where "repay_fee d st = Inr f" "collect_repay_fee d f st = Inr st1"
      and s: "st' = push_audit lid did n e (touch_draw lid did (d\<lparr>dr_repaid := True\<rparr>) st1)"
      using repay_shape[OF rp] by blast
    then have "st1 = st" using assms(2) by (simp add: repay_fee_def fee_clean_def collect_repay_fee_def)
    then show ?thesis by (simp add: s fee_part_def push_audit_def touch_draw_def)
  qed
  have line: "fee_part st' = fee_part st" if "execute_create_credit_line api sender w cd ca kd ka st = Inr (r, st')" for w cd ca kd ka
    using create_line_shape[OF that] by (auto simp: fee_part_def push_line_def)
  have draw: "fee_part st' = fee_part st" if "execute_create_draw api env sender lid a dn st = Inr (r, st')" for lid a dn
    using create_draw_shape[OF that] by (auto simp: fee_part_def push_draw_def push_audit_def)
  have memo: "fee_part st' = fee_part st" if "execute_add_audit_memo env sender lid did m st = Inr (r, st')" for lid did m
    using memo_shape[OF that] by (auto simp: fee_part_def push_audit_def touch_draw_def)
  have "fee_part st' = fee_part st" using assms(1) True by (cases msg) (auto dest: line draw repay memo)
  then show ?thesis using fee_clean_cong assms(2) by blast
qed

section \<open>Runs\<close>

text \<open>A transaction that fails leaves the store as it was.\<close>

definition transact :: "cw_api \<Rightarrow> cw_env \<times> cw_addr \<times> execute_msg \<Rightarrow> cw_store \<Rightarrow> cw_store" where
  "transact api tx st = (case tx of (env, sender, msg) \<Rightarrow>
     (case execute api env sender msg st of Inl _ \<Rightarrow> st | Inr (_, st') \<Rightarrow> st'))"

definition empty_store :: cw_store where
  "empty_store = \<lparr>cs_config = None, cs_credit_line_count = None, cs_credit_lines = Map.empty, cs_draw_count = Map.empty,
     cs_draws = Map.empty, cs_draw_audit_count = Map.empty, cs_draw_audit = Map.empty, cs_borrower_to_id = Map.empty,
     cs_oracle_quorum_config = None, cs_oracle_price_record = None, cs_oracle_list = None, cs_oracle_weight = Map.empty,
     cs_oracle_report = Map.empty, cs_late_fee_config = None, cs_borrower_collateral_tokens = Map.empty,
     cs_collateral_balances = Map.empty, cs_collateral_risk_weights = Map.empty, cs_collateral_token_allowlist = None,
     cs_default_fee_share_bps = None, cs_market_fee_share_bps = Map.empty, cs_treasury_balance = Map.empty,
     cs_bounty_balance = Map.empty, cs_protocol_fee_bps = None, cs_protocol_version = None\<rparr>"

definition cw_ledger :: "cw_api \<Rightarrow> string \<Rightarrow> (cw_env \<times> cw_addr \<times> execute_msg) list \<Rightarrow> cw_store cw" where
  "cw_ledger api owner txs = and_then (instantiate api owner empty_store) (\<lambda>st. Inr (fold (transact api) txs st))"

definition cw_inv :: "cw_store \<Rightarrow> bool" where
  "cw_inv st \<longleftrightarrow> book_inv st \<and> coll_inv st \<and> settings_inv st \<and> fee_clean st"

lemma table_rows: "draw_of lid st = (\<lambda>did. cs_draws st (lid, did))" "audit_of lid did st = (\<lambda>seq. cs_draw_audit st (lid, did, seq))"
  by (simp_all add: fun_eq_iff table_defs)

lemma instantiate_inv: "instantiate api owner empty_store = Inr st \<Longrightarrow> cw_inv st"
  by (auto simp: instantiate_def initialize_version_def empty_store_def cw_inv_def book_inv_def coll_inv_def settings_inv_def fee_clean_def
      table_rows line_count_def draw_count_of_def audit_count_of_def allow_ok_def oracles_ok_def quorum_ok_def late_ok_def MAX_COLLATERAL_TOKENS_def)

lemma transact_inv: "cw_inv st \<Longrightarrow> api_ok api \<Longrightarrow> cw_inv (transact api tx st)"
  by (auto simp: transact_def cw_inv_def split: prod.splits sum.splits
      intro: execute_book_inv execute_coll_inv execute_settings_inv execute_fee_clean)

lemma fold_transact_inv: "cw_inv st \<Longrightarrow> api_ok api \<Longrightarrow> cw_inv (fold (transact api) txs st)"
  by (induction txs arbitrary: st) (simp_all add: transact_inv)

lemma ledger_inv:
  assumes "cw_ledger api owner txs = Inr st" and "api_ok api"
  shows "cw_inv st"
  using assms instantiate_inv fold_transact_inv by (auto simp: cw_ledger_def)

text \<open>C33 (\<open>create_draw\<close>, \<open>repay_draw\<close>): after any sequence of transactions, whoever sent them, the unrepaid draws of every line can
  be summed without overflow and their sum is within the line's credit amount; every draw is positive, carries its own ids and was
  made by the borrower of its line.\<close>

theorem draws_within_credit_amount:
  assumes "cw_ledger api owner txs = Inr st" and "api_ok api" and "cs_credit_lines st lid = Some l"
  shows "\<exists>q. outstanding_utilization lid st = Inr q \<and>
       q = (\<Sum>did\<in>{0..or_zero (cs_draw_count st lid) - 1}. opt_val unrepaid (cs_draws st (lid, did))) \<and> q \<le> cl_credit_amount l \<and>
     (\<forall>did d. cs_draws st (lid, did) = Some d \<longrightarrow> dr_id d = did \<and> dr_credit_line_id d = lid \<and> 0 < dr_amount d \<and> drawn_by d = cl_borrower l)"
proof -
  have b: "book_inv st" using ledger_inv[OF assms(1,2)] by (simp add: cw_inv_def)
  have "dr_id d = did \<and> dr_credit_line_id d = lid \<and> 0 < dr_amount d \<and> drawn_by d = cl_borrower l" if "cs_draws st (lid, did) = Some d" for did d
    using book_draw[OF b, of lid did d] that assms(3) by (auto simp: draw_inv_def draw_of_def)
  then show ?thesis using book_outstanding[OF b assms(3)] by (auto simp: unrepaid_sum_def draw_count_of_def draw_of_def)
qed

text \<open>The part of the store a borrower's message may touch: the draws and audit trails of one line, and the fee pools.\<close>

definition on_line_only :: "u64 \<Rightarrow> cw_store \<Rightarrow> cw_store \<Rightarrow> bool" where
  "on_line_only lid st st' \<longleftrightarrow>
     st' = st\<lparr>cs_draw_count := cs_draw_count st', cs_draws := cs_draws st', cs_draw_audit_count := cs_draw_audit_count st',
       cs_draw_audit := cs_draw_audit st', cs_treasury_balance := cs_treasury_balance st', cs_bounty_balance := cs_bounty_balance st'\<rparr> \<and>
     (\<forall>k. k \<noteq> lid \<longrightarrow> cs_draw_count st' k = cs_draw_count st k \<and>
        (\<forall>i. cs_draws st' (k, i) = cs_draws st (k, i) \<and> cs_draw_audit_count st' (k, i) = cs_draw_audit_count st (k, i) \<and>
           (\<forall>n. cs_draw_audit st' (k, i, n) = cs_draw_audit st (k, i, n))))"

lemma create_draw_footprint:
  assumes "execute_create_draw api env sender lid a dn st = Inr (r, st')"
  shows "\<exists>l. cs_credit_lines st lid = Some l \<and> sender = cl_borrower l \<and> on_line_only lid st st'"
  using create_draw_shape[OF assms] by (auto simp: on_line_only_def push_draw_def push_audit_def)

lemma repay_footprint:
  assumes "execute_repay_draw env sender lid did st = Inr (r, st')"
  shows "\<exists>l. cs_credit_lines st lid = Some l \<and> sender = cl_borrower l \<and> on_line_only lid st st'"
proof -
  obtain l d f st1 e n where l: "cs_credit_lines st lid = Some l" "sender = cl_borrower l" and c: "collect_repay_fee d f st = Inr st1"
    and s: "st' = push_audit lid did n e (touch_draw lid did (d\<lparr>dr_repaid := True\<rparr>) st1)"
    using repay_shape[OF assms] by blast
  define tb bb where "tb = cs_treasury_balance st1" and "bb = cs_bounty_balance st1"
  have st1: "st1 = st\<lparr>cs_treasury_balance := tb, cs_bounty_balance := bb\<rparr>"
    unfolding tb_def bb_def by (rule collect_repay_fee_shape[OF c])
  show ?thesis using l unfolding s st1 by (auto simp: on_line_only_def push_audit_def touch_draw_def)
qed

lemma memo_frame:
  assumes "execute_add_audit_memo env sender lid did m st = Inr (r, st')"
  shows "cs_draws st' = cs_draws st \<and> cs_config st = Some sender \<and> cs_config st' = cs_config st"
  using memo_shape[OF assms] by (auto simp: push_audit_def touch_draw_def draw_of_def fun_upd_idem)

lemma line_frame:
  assumes "execute_create_credit_line api sender w cd ca kd ka st = Inr (r, st')"
  shows "cs_draws st' = cs_draws st \<and> cs_config st = Some sender \<and> cs_config st' = cs_config st"
  using create_line_shape[OF assms] by (auto simp: push_line_def)

lemma on_line_only_frame:
  assumes "on_line_only lid st st'"
  shows "cs_config st' = cs_config st" "cs_credit_lines st' = cs_credit_lines st" "coll_part st' = coll_part st"
    "settings_part st' = settings_part st"
  by (subst assms[unfolded on_line_only_def, THEN conjunct1], simp add: part_defs)+

lemma on_line_only_draws:
  "on_line_only lid st st' \<Longrightarrow> cs_draws st' (k, i) \<noteq> cs_draws st (k, i) \<Longrightarrow> k = lid"
  unfolding on_line_only_def by blast

text \<open>C34 (authorisation of the dispatcher): on any store, a successful message never changes the owner and changes the draws of a line
  only when its sender is that line's borrower; and a message that does not come from the owner is one of two kinds: a draw on or a
  repayment of a line of its sender, which touches nothing but the draws and audit trails of that line and the fee pools, or
  the report of a registered oracle, which stores exactly that report under the sender.  Every other
  message - lines, memos, collateral, prices, oracles, fees, the protocol version - is the owner's alone.\<close>

theorem messages_stay_with_their_tenant:
  assumes "execute api env sender msg st = Inr (r, st')"
  shows "cs_config st' = cs_config st \<and>
     (\<forall>lid did. cs_draws st' (lid, did) \<noteq> cs_draws st (lid, did) \<longrightarrow> (\<exists>l. cs_credit_lines st lid = Some l \<and> sender = cl_borrower l)) \<and>
     (cs_config st \<noteq> Some sender \<longrightarrow>
        (\<exists>lid l. cs_credit_lines st lid = Some l \<and> sender = cl_borrower l \<and> on_line_only lid st st' \<and>
           ((\<exists>a dn. msg = MsgCreateDraw lid a dn) \<or> (\<exists>did. msg = MsgRepayDraw lid did))) \<or>
        (\<exists>v. msg = MsgReportValue v \<and> sender \<in> set (or_nil (cs_oracle_list st)) \<and>
           st' = st\<lparr>cs_oracle_report := (cs_oracle_report st)(sender \<mapsto> \<lparr>or_value = v, or_timestamp = block_seconds env\<rparr>)\<rparr>))"
proof (cases "books_msg msg")
  case True
  then show ?thesis using assms
    by (cases msg) (auto dest!: create_draw_footprint repay_footprint dest: line_frame memo_frame on_line_only_frame(1) on_line_only_draws)
next
  case False
  have "cs_draws st' = cs_draws st" using books_frame(1)[OF assms False] by (simp add: book_part_def)
  moreover have "cs_config st = Some sender" if "token_msg msg"
    using that assms by (cases msg) (auto dest: token_msg_shape)
  moreover have "cs_config st = Some sender \<or> (\<exists>v. msg = MsgReportValue v)" if "\<not> token_msg msg"
    using setting_msg_sender[OF assms False that] by blast
  ultimately have "cs_draws st' = cs_draws st" "cs_config st = Some sender \<or> (\<exists>v. msg = MsgReportValue v)" by blast+
  then show ?thesis using assms books_frame(4)[OF assms False]
    by (auto simp: execute_report_value_def cw_report_value_def)
qed

text \<open>(\<open>deposit_collateral\<close>, \<open>withdraw_collateral\<close>): after any sequence of transactions the token list of a borrower has no duplicates and
  lists exactly the denominations with a balance, every stored balance is positive, and the balance listing is sorted and complete.\<close>

theorem collateral_index_exact:
  assumes "cw_ledger api owner txs = Inr st" and "api_ok api"
  shows "distinct (map fst (query_borrower_collateral a st)) \<and> sorted (map fst (query_borrower_collateral a st)) \<and>
     set (query_borrower_collateral a st) = {(d, v). cs_collateral_balances st (a, d) = Some v} \<and>
     (\<forall>d v. cs_collateral_balances st (a, d) = Some v \<longrightarrow> 0 < v \<and> v \<le> u128_max)"
proof -
  have c: "coll_inv st" using ledger_inv[OF assms] by (simp add: cw_inv_def)
  let ?ts = "or_nil (cs_borrower_collateral_tokens st a)" and ?f = "\<lambda>t. (t, cw_query_collateral_balance a t st)"
  have ts: "distinct ?ts" "set ?ts = {d. cs_collateral_balances st (a, d) \<noteq> None}"
    and pos: "\<And>d v. cs_collateral_balances st (a, d) = Some v \<Longrightarrow> 0 < v \<and> v \<le> u128_max" using c by (auto simp: coll_inv_def)
  let ?xs = "filter (\<lambda>(_, b). b \<noteq> 0) (map ?f ?ts)"
  have "set ?xs = {(d, v). cs_collateral_balances st (a, d) = Some v}"
    using ts(2) pos by (force simp: cw_query_collateral_balance_def)
  moreover have "distinct (map fst ?xs)"
    by (rule distinct_map_filter) (simp add: ts(1) comp_def)
  moreover have "mset (map fst (sort_key fst ?xs)) = mset (map fst ?xs)" by simp
  ultimately show ?thesis using pos mset_eq_imp_distinct_iff[of "map fst (sort_key fst ?xs)" "map fst ?xs"]
    by (auto simp: query_borrower_collateral_def)
qed

text \<open>(\<open>fees.rs\<close>): no message of the dispatcher reaches \<open>set_protocol_fee_bps\<close>, so on every deployed contract the fee rate stays
  unset, both pools stay empty for ever and a repayment, of any draw, costs nothing.\<close>

theorem protocol_fee_unreachable:
  assumes "cw_ledger api owner txs = Inr st" and "api_ok api"
  shows "get_protocol_fee_bps st = 0 \<and> cs_treasury_balance st = Map.empty \<and> cs_bounty_balance st = Map.empty \<and>
     (\<forall>d. repay_fee d st = Inr 0)"
  using ledger_inv[OF assms] by (simp add: cw_inv_def fee_clean_def get_protocol_fee_bps_def repay_fee_def)

text \<open>(\<open>repay_draw\<close>): the handler does not look at the repaid flag.  A draw that is already repaid can be repaid again, which
  changes no amount but appends a further entry to its audit trail; with a fee rate set, the fee is charged again.\<close>

theorem repaid_draw_is_repaid_again:
  assumes "cs_credit_lines st lid = Some l" and "cs_draws st (lid, did) = Some d" and "dr_repaid d" and "drawn_by d = cl_borrower l"
    and "or_zero (cs_draw_audit_count st (lid, did)) < u64_max" and "0 \<le> or_zero (cs_draw_audit_count st (lid, did))"
    and "cs_protocol_fee_bps st = None"
  shows "\<exists>r st'. execute_repay_draw env (cl_borrower l) lid did st = Inr (r, st') \<and> cs_draws st' = cs_draws st \<and>
     or_zero (cs_draw_audit_count st' (lid, did)) = or_zero (cs_draw_audit_count st (lid, did)) + 1"
  using assms
  by (auto simp: execute_repay_draw_def cw_load_line_def cw_load_draw_def repay_fee_def collect_repay_fee_def append_audit_entry_def
      Let_def in_u64_def push_audit_def fun_upd_idem)

section \<open>A sample deployment\<close>

text \<open>Decimal notation with the digits only, as a concrete instance of the parameters.\<close>

primrec dec_digits :: "string \<Rightarrow> int \<Rightarrow> int option" where
  "dec_digits [] n = checked in_u128 n"
| "dec_digits (c # cs) n =
     (let k = int (of_char c) in if 48 \<le> k \<and> k \<le> 57 then dec_digits cs (10 * n + (k - 48)) else None)"

definition dec_api :: cw_api where
  "dec_api = \<lparr>addr_validate = (\<lambda>s. if s = [] then None else Some s), parse_uint128 = (\<lambda>s. if s = [] then None else dec_digits s 0),
     uint128_to_string = (\<lambda>n. [])\<rparr>"

lemma dec_digits_range: "dec_digits s n = Some v \<Longrightarrow> in_u128 v"
  by (induction s arbitrary: n) (auto simp: Let_def split: if_splits)

lemma dec_api_ok: "api_ok dec_api"
  by (auto simp: api_ok_def dec_api_def intro: dec_digits_range split: if_splits)

definition sample_block :: cw_env where
  "sample_block = \<lparr>block_time = 1000000000000, block_height = 7\<rparr>"

definition draw_txs :: "(cw_env \<times> cw_addr \<times> execute_msg) list" where
  "draw_txs = map (\<lambda>(s, m). (sample_block, s, m))
     [(''owner'', MsgCreateCreditLine ''bob'' ''atom'' ''500'' ''usdc'' ''100''), (''bob'', MsgCreateDraw 0 ''60'' ''usdc''),
      (''bob'', MsgCreateDraw 0 ''50'' ''usdc''), (''bob'', MsgRepayDraw 0 0)]"

definition collateral_txs :: "(cw_env \<times> cw_addr \<times> execute_msg) list" where
  "collateral_txs = map (\<lambda>(s, m). (sample_block, s, m))
     [(''owner'', MsgAddCollateralToken ''atom'' 8000), (''owner'', MsgAddCollateralToken ''akt'' 10000),
      (''owner'', MsgDepositCollateral ''bob'' ''atom'' ''30''), (''owner'', MsgDepositCollateral ''bob'' ''akt'' ''9'')]"

definition ledger_view :: "(cw_env \<times> cw_addr \<times> execute_msg) list \<Rightarrow> (cw_store \<Rightarrow> 'a) \<Rightarrow> 'a option" where
  "ledger_view txs f = (case cw_ledger dec_api ''owner'' txs of Inl _ \<Rightarrow> None | Inr st \<Rightarrow> Some (f st))"

lemma ledger_viewD:
  assumes "ledger_view txs f = Some v"
  shows "\<exists>st. cw_ledger dec_api ''owner'' txs = Inr st \<and> f st = v"
  using assms by (auto simp: ledger_view_def split: sum.splits)

theorem draws_within_credit_amount_witness:
  "\<exists>st q. cw_ledger dec_api ''owner'' draw_txs = Inr st \<and> outstanding_utilization 0 st = Inr q \<and> q \<le> 100"
proof -
  have "ledger_view draw_txs (\<lambda>st. map_option cl_credit_amount (cs_credit_lines st 0)) = Some (Some 100)" by code_simp
  then obtain st l where s: "cw_ledger dec_api ''owner'' draw_txs = Inr st" "cs_credit_lines st 0 = Some l" "cl_credit_amount l = 100"
    by (auto dest!: ledger_viewD)
  show ?thesis using draws_within_credit_amount[OF s(1) dec_api_ok s(2)] s(1,3) by auto
qed

theorem collateral_index_exact_witness:
  "\<exists>st. cw_ledger dec_api ''owner'' collateral_txs = Inr st \<and> query_borrower_collateral ''bob'' st = [(''akt'', 9), (''atom'', 30)] \<and>
     cs_collateral_balances st (''bob'', ''akt'') = Some 9"
proof -
  have "ledger_view collateral_txs (query_borrower_collateral ''bob'') = Some [(''akt'', 9), (''atom'', 30)]" by code_simp
  then obtain st where s: "cw_ledger dec_api ''owner'' collateral_txs = Inr st" "query_borrower_collateral ''bob'' st = [(''akt'', 9), (''atom'', 30)]"
    by (auto dest!: ledger_viewD)
  have "(''akt'', 9) \<in> set (query_borrower_collateral ''bob'' st)" by (simp add: s(2))
  then show ?thesis using collateral_index_exact[OF s(1) dec_api_ok, of "''bob''"] s by auto
qed

theorem protocol_fee_unreachable_witness:
  "\<exists>st. cw_ledger dec_api ''owner'' draw_txs = Inr st \<and> get_protocol_fee_bps st = 0"
proof -
  have "ledger_view draw_txs (\<lambda>st. ()) = Some ()" by code_simp
  then obtain st where s: "cw_ledger dec_api ''owner'' draw_txs = Inr st" by (auto dest!: ledger_viewD)
  show ?thesis using protocol_fee_unreachable[OF s dec_api_ok] s by auto
qed

theorem messages_stay_with_their_tenant_witness:
  "\<exists>st r st'. cw_ledger dec_api ''owner'' (take 2 draw_txs) = Inr st \<and> cs_config st \<noteq> Some ''bob'' \<and>
     execute dec_api sample_block ''bob'' (MsgCreateDraw 0 ''30'' ''usdc'') st = Inr (r, st') \<and>
     map_option dr_amount (cs_draws st' (0, 1)) = Some 30 \<and> on_line_only 0 st st' \<and> settings_part st' = settings_part st"
proof -
  have "ledger_view (take 2 draw_txs) (\<lambda>st. (cs_config st, case execute dec_api sample_block ''bob'' (MsgCreateDraw 0 ''30'' ''usdc'') st of
      Inl _ \<Rightarrow> None | Inr (r, st') \<Rightarrow> map_option dr_amount (cs_draws st' (0, 1)))) = Some (Some ''owner'', Some 30)" by code_simp
  from ledger_viewD[OF this] obtain st where st: "cw_ledger dec_api ''owner'' (take 2 draw_txs) = Inr st" "cs_config st = Some ''owner''"
    and x: "(case execute dec_api sample_block ''bob'' (MsgCreateDraw 0 ''30'' ''usdc'') st of
      Inl _ \<Rightarrow> None | Inr (r, st') \<Rightarrow> map_option dr_amount (cs_draws st' (0, 1))) = Some 30" by auto
  from x obtain r st' where e: "execute dec_api sample_block ''bob'' (MsgCreateDraw 0 ''30'' ''usdc'') st = Inr (r, st')"
    and a: "map_option dr_amount (cs_draws st' (0, 1)) = Some 30" by (auto split: sum.splits prod.splits)
  have n: "cs_config st \<noteq> Some ''bob''" using st(2) by simp
  then have o: "on_line_only 0 st st'" using messages_stay_with_their_tenant[OF e] by blast
  then show ?thesis using st(1) n e a on_line_only_frame(4)[OF o] by blast
qed

theorem repaid_draw_is_repaid_again_witness:
  "\<exists>st r st'. cw_ledger dec_api ''owner'' draw_txs = Inr st \<and> execute_repay_draw sample_block ''bob'' 0 0 st = Inr (r, st') \<and>
     or_zero (cs_draw_audit_count st' (0, 0)) = 3"
proof -
  have "ledger_view draw_txs (\<lambda>st. (map_option cl_borrower (cs_credit_lines st 0),
      map_option (\<lambda>d. (dr_repaid d, drawn_by d)) (cs_draws st (0, 0)), cs_draw_audit_count st (0, 0), cs_protocol_fee_bps st)) =
    Some (Some ''bob'', Some (True, ''bob''), Some 2, None)" by code_simp
  from ledger_viewD[OF this] obtain st where st: "cw_ledger dec_api ''owner'' draw_txs = Inr st"
    and e: "map_option cl_borrower (cs_credit_lines st 0) = Some ''bob''"
      "map_option (\<lambda>d. (dr_repaid d, drawn_by d)) (cs_draws st (0, 0)) = Some (True, ''bob'')"
    and c: "cs_draw_audit_count st (0, 0) = Some 2" "cs_protocol_fee_bps st = None" by auto
  from e(1) obtain l where l: "cs_credit_lines st 0 = Some l" "cl_borrower l = ''bob''" by auto
  from e(2) obtain d where d: "cs_draws st (0, 0) = Some d" "dr_repaid d" "drawn_by d = ''bob''" by auto
  have "\<exists>r st'. execute_repay_draw sample_block (cl_borrower l) 0 0 st = Inr (r, st') \<and> cs_draws st' = cs_draws st \<and>
     or_zero (cs_draw_audit_count st' (0, 0)) = or_zero (cs_draw_audit_count st (0, 0)) + 1"
    by (rule repaid_draw_is_repaid_again[OF l(1) d(1,2)]) (simp_all add: l d c u64_max_def)
  then show ?thesis using st l c by auto
qed

end
