(* ===== verification/CwViews.thy ===== *)
theory CwViews
  imports CwContract
begin

text \<open>
  The queries of the CosmWasm crate (\<^verbatim>\<open>views.rs\<close> and the query dispatcher of \<^verbatim>\<open>contract.rs\<close>): audit trails, the
  proof of reserve, health factors, snapshots and the collateral listings.  The ordered map of the reserve report is a list of
  entries sorted by denomination.

  Shown: on every reachable store the audit trail of a draw can be read in full, is in order, starts with the creation and records
  a repayment exactly when the draw is marked repaid; the pages of a line's trail, read one after the other, give every draw once;
  the reserve report's outstanding total is the sum of the outstanding draws of all lines; and the reported collateral counts a
  deposit once for every line of its owner.
\<close>

section \<open>Responses\<close>

record draw_audit_trail_response =
  at_credit_line_id :: u64
  at_draw_id :: u64
  at_draw_amount :: string
  at_draw_denom :: string
  at_drawn_at :: u64
  at_drawn_by :: cw_addr
  at_repaid :: bool
  at_events :: "draw_audit_event list"

record denom_reserve =
  rs_denom :: string
  rs_collateral_amount :: u128
  rs_credit_limit :: u128
  rs_drawn_amount :: u128
  rs_repaid_amount :: u128
  rs_net_outstanding :: u128

record proof_of_reserve_response =
  pr_total_credit_lines :: u64
  pr_active_credit_lines :: u64
  pr_total_collateral :: u128
  pr_total_credit_limit :: u128
  pr_total_drawn :: u128
  pr_total_repaid :: u128
  pr_net_outstanding :: u128
  pr_reserves_by_denom :: "denom_reserve list"

record credit_line_health_response =
  ch_credit_line_id :: u64
  ch_collateral_denom :: string
  ch_collateral_amount :: u128
  ch_credit_denom :: string
  ch_credit_amount :: u128
  ch_utilized_amount :: u128
  ch_health_factor_bps :: u32

record borrower_health_factor_response =
  bh_borrower :: string
  bh_credit_lines :: "credit_line_health_response list"

record collateral_entry_response =
  ce_denom :: string
  ce_amount :: u128
  ce_risk_weight_bps :: u32

record collateral_balance_response =
  cb_borrower :: string
  cb_entries :: "collateral_entry_response list"
  cb_weighted_total :: u128

record draw_snapshot_entry =
  ds_draw_id :: u64
  ds_amount :: u128
  ds_denom :: string
  ds_drawn_at :: u64
  ds_drawn_by :: cw_addr
  ds_repaid :: bool

record credit_line_snapshot_response =
  sn_credit_line_id :: u64
  sn_borrower :: cw_addr
  sn_collateral_denom :: string
  sn_collateral_amount :: u128
  sn_credit_denom :: string
  sn_credit_amount :: u128
  sn_active :: bool
  sn_total_utilized :: u128
  sn_multi_collateral :: "collateral_entry_response list"
  sn_weighted_collateral_total :: u128
  sn_health_factor_bps :: u32
  sn_draws :: "draw_snapshot_entry list"

text \<open>\<open>StdError::generic_err(e.to_string())\<close>.\<close>

definition displayed :: "'a cw \<Rightarrow> 'a cw" where
  "displayed r = (case r of Inl (CwErr e) \<Rightarrow> Inl (CwErr (CwStd (Displayed e))) | x \<Rightarrow> x)"

section \<open>Audit trails\<close>

definition ensure_draw_exists :: "u64 \<Rightarrow> u64 \<Rightarrow> cw_store \<Rightarrow> unit cw" where
  "ensure_draw_exists credit_line_id draw_id st =
     ensure (cs_draws st (credit_line_id, draw_id) \<noteq> None) (CwErr (CwDrawNotFound draw_id credit_line_id))"

definition push_event :: "u64 \<Rightarrow> u64 \<Rightarrow> cw_store \<Rightarrow> u64 \<Rightarrow> draw_audit_event list \<Rightarrow> draw_audit_event list cw" where
  "push_event credit_line_id draw_id st seq evs =
     and_then (ok_or (CwErr (CwStd StdNotFound)) (cs_draw_audit st (credit_line_id, draw_id, seq))) (\<lambda>e.
     Inr (evs @ [into_event e]))"

definition build_response :: "cw_api \<Rightarrow> u64 \<Rightarrow> u64 \<Rightarrow> cw_store \<Rightarrow> draw_audit_trail_response cw" where
  "build_response api credit_line_id draw_id st =
     and_then (ok_or (CwErr (CwStd StdNotFound)) (cs_draws st (credit_line_id, draw_id))) (\<lambda>d.
     and_then (for_each (push_event credit_line_id draw_id st)
                 [0..or_zero (cs_draw_audit_count st (credit_line_id, draw_id)) - 1] []) (\<lambda>events.
     Inr \<lparr>at_credit_line_id = credit_line_id, at_draw_id = draw_id, at_draw_amount = uint128_to_string api (dr_amount d),
          at_draw_denom = dr_denom d, at_drawn_at = drawn_at d, at_drawn_by = drawn_by d, at_repaid = dr_repaid d,
          at_events = events\<rparr>))"

definition push_trail ::
  "cw_api \<Rightarrow> u64 \<Rightarrow> cw_store \<Rightarrow> u64 \<Rightarrow> draw_audit_trail_response list \<Rightarrow> draw_audit_trail_response list cw" where
  "push_trail api credit_line_id st did responses =
     and_then (build_response api credit_line_id did st) (\<lambda>resp. Inr (responses @ [resp]))"

definition query_draw_audit_trail ::
  "cw_api \<Rightarrow> u64 \<Rightarrow> u64 option \<Rightarrow> u64 option \<Rightarrow> u32 option \<Rightarrow> cw_store \<Rightarrow> draw_audit_trail_response list cw" where
  "query_draw_audit_trail api credit_line_id draw_id start_after limit st =
     and_then (cw_load_line credit_line_id st) (\<lambda>_.
     let limit = (case limit of None \<Rightarrow> 30 | Some l \<Rightarrow> l) in
     case draw_id of
       Some did \<Rightarrow>
         and_then (ensure_draw_exists credit_line_id did st) (\<lambda>_.
         and_then (build_response api credit_line_id did st) (\<lambda>resp. Inr [resp]))
     | None \<Rightarrow>
         let draw_count = or_zero (cs_draw_count st credit_line_id) in
         and_then (case start_after of None \<Rightarrow> Inr 0 | Some s \<Rightarrow> add_u64 s 1) (\<lambda>start.
         and_then (add_u64 start limit) (\<lambda>last.
         for_each (push_trail api credit_line_id st) [start..min last draw_count - 1] [])))"

section \<open>Proof of reserve\<close>

definition empty_reserve :: "string \<Rightarrow> denom_reserve" where
  "empty_reserve denom = \<lparr>rs_denom = denom, rs_collateral_amount = 0, rs_credit_limit = 0, rs_drawn_amount = 0,
     rs_repaid_amount = 0, rs_net_outstanding = 0\<rparr>"

text \<open>\<open>entry(denom).or_insert_with(..)\<close> followed by an update that may fail.\<close>

fun with_entry :: "string \<Rightarrow> (denom_reserve \<Rightarrow> denom_reserve cw) \<Rightarrow> denom_reserve list \<Rightarrow> denom_reserve list cw" where
  "with_entry denom f [] = and_then (f (empty_reserve denom)) (\<lambda>r. Inr [r])"
| "with_entry denom f (x # xs) =
     (if rs_denom x = denom then and_then (f x) (\<lambda>r. Inr (r # xs))
      else if denom < rs_denom x then and_then (f (empty_reserve denom)) (\<lambda>r. Inr (r # x # xs))
      else and_then (with_entry denom f xs) (\<lambda>ys. Inr (x # ys)))"

definition add_to_denom_collateral :: "string \<Rightarrow> u128 \<Rightarrow> denom_reserve list \<Rightarrow> denom_reserve list cw" where
  "add_to_denom_collateral denom amount =
     with_entry denom (\<lambda>r. and_then (uint_add (std_generic ''Collateral overflow'') (rs_collateral_amount r) amount)
       (\<lambda>v. Inr (r\<lparr>rs_collateral_amount := v\<rparr>)))"

definition add_to_denom_limit :: "string \<Rightarrow> u128 \<Rightarrow> denom_reserve list \<Rightarrow> denom_reserve list cw" where
  "add_to_denom_limit denom amount =
     with_entry denom (\<lambda>r. and_then (uint_add (std_generic ''Credit limit overflow'') (rs_credit_limit r) amount)
       (\<lambda>v. Inr (r\<lparr>rs_credit_limit := v\<rparr>)))"

definition add_to_denom_repaid :: "string \<Rightarrow> u128 \<Rightarrow> denom_reserve list \<Rightarrow> denom_reserve list cw" where
  "add_to_denom_repaid denom amount =
     with_entry denom (\<lambda>r. and_then (uint_add (std_generic ''Repaid overflow'') (rs_repaid_amount r) amount)
       (\<lambda>v. Inr (r\<lparr>rs_repaid_amount := v\<rparr>)))"

definition add_to_denom_drawn :: "string \<Rightarrow> u128 \<Rightarrow> denom_reserve list \<Rightarrow> denom_reserve list cw" where
  "add_to_denom_drawn denom amount =
     with_entry denom (\<lambda>r. and_then (uint_add (std_generic ''Drawn overflow'') (rs_drawn_amount r) amount)
       (\<lambda>v. Inr (r\<lparr>rs_drawn_amount := v\<rparr>)))"

record reserve_acc =
  ra_total_lines :: u64
  ra_active_lines :: u64
  ra_collateral :: u128
  ra_limit :: u128
  ra_drawn :: u128
  ra_repaid :: u128
  ra_denoms :: "denom_reserve list"

definition passes :: "string option \<Rightarrow> string \<Rightarrow> bool" where
  "passes filt denom = (filt = None \<or> filt = Some denom)"

definition line_matches :: "string option \<Rightarrow> credit_line \<Rightarrow> bool" where
  "line_matches filt cl = (case filt of Some target \<Rightarrow> cl_collateral_denom cl = target \<or> cl_credit_denom cl = target | None \<Rightarrow> True)"

definition reserve_line :: "string option \<Rightarrow> credit_line \<Rightarrow> reserve_acc \<Rightarrow> reserve_acc cw" where
  "reserve_line filt cl s =
     and_then (uint_add (std_generic ''Collateral overflow'') (ra_collateral s) (cl_collateral_amount cl)) (\<lambda>total_collateral.
     and_then (uint_add (std_generic ''Credit limit overflow'') (ra_limit s) (cl_credit_amount cl)) (\<lambda>total_credit_limit.
     and_then (if passes filt (cl_collateral_denom cl)
               then add_to_denom_collateral (cl_collateral_denom cl) (cl_collateral_amount cl) (ra_denoms s) else Inr (ra_denoms s)) (\<lambda>ds.
     and_then (if passes filt (cl_credit_denom cl)
               then add_to_denom_limit (cl_credit_denom cl) (cl_credit_amount cl) ds else Inr ds) (\<lambda>ds.
     Inr (s\<lparr>ra_active_lines := saturating_add_u64 (ra_active_lines s) 1, ra_collateral := total_collateral,
            ra_limit := total_credit_limit, ra_denoms := ds\<rparr>)))))"

definition reserve_token :: "string option \<Rightarrow> string \<times> u128 \<Rightarrow> reserve_acc \<Rightarrow> reserve_acc cw" where
  "reserve_token filt entry s =
     (if passes filt (fst entry)
      then and_then (add_to_denom_collateral (fst entry) (snd entry) (ra_denoms s)) (\<lambda>ds.
           and_then (uint_add (std_generic ''Collateral overflow'') (ra_collateral s) (snd entry)) (\<lambda>total_collateral.
           Inr (s\<lparr>ra_collateral := total_collateral, ra_denoms := ds\<rparr>)))
      else Inr s)"

definition reserve_draw :: "string option \<Rightarrow> draw \<Rightarrow> reserve_acc \<Rightarrow> reserve_acc cw" where
  "reserve_draw filt d s =
     (if passes filt (dr_denom d)
      then if dr_repaid d
        then and_then (uint_add (std_generic ''Repaid overflow'') (ra_repaid s) (dr_amount d)) (\<lambda>total_repaid.
             and_then (add_to_denom_repaid (dr_denom d) (dr_amount d) (ra_denoms s)) (\<lambda>ds.
             Inr (s\<lparr>ra_repaid := total_repaid, ra_denoms := ds\<rparr>)))
        else and_then (uint_add (std_generic ''Drawn overflow'') (ra_drawn s) (dr_amount d)) (\<lambda>total_drawn.
             and_then (add_to_denom_drawn (dr_denom d) (dr_amount d) (ra_denoms s)) (\<lambda>ds.
             Inr (s\<lparr>ra_drawn := total_drawn, ra_denoms := ds\<rparr>)))
      else Inr s)"

definition reserve_draw_at :: "string option \<Rightarrow> cw_store \<Rightarrow> u64 \<Rightarrow> u64 \<Rightarrow> reserve_acc \<Rightarrow> reserve_acc cw" where
  "reserve_draw_at filt st lid did s = (case cs_draws st (lid, did) of None \<Rightarrow> Inr s | Some d \<Rightarrow> reserve_draw filt d s)"

definition reserve_active :: "string option \<Rightarrow> cw_store \<Rightarrow> credit_line \<Rightarrow> reserve_acc \<Rightarrow> reserve_acc cw" where
  "reserve_active filt st cl s =
     (if cl_active cl
      then and_then (if line_matches filt cl then reserve_line filt cl s else Inr s)
             (for_each (reserve_token filt) (query_borrower_collateral (cl_borrower cl) st))
      else Inr s)"

definition reserve_step :: "string option \<Rightarrow> cw_store \<Rightarrow> u64 \<Rightarrow> reserve_acc \<Rightarrow> reserve_acc cw" where
  "reserve_step filt st lid s =
     (case cs_credit_lines st lid of
        None \<Rightarrow> Inr s
      | Some cl \<Rightarrow>
          let s = (if line_matches filt cl then s\<lparr>ra_total_lines := saturating_add_u64 (ra_total_lines s) 1\<rparr> else s) in
          and_then (reserve_active filt st cl s)
            (for_each (reserve_draw_at filt st lid) [0..or_zero (cs_draw_count st lid) - 1]))"

definition query_proof_of_reserve :: "string option \<Rightarrow> cw_store \<Rightarrow> proof_of_reserve_response cw" where
  "query_proof_of_reserve filt st =
     and_then (for_each (reserve_step filt st) [0..or_zero (cs_credit_line_count st) - 1]
        \<lparr>ra_total_lines = 0, ra_active_lines = 0, ra_collateral = 0, ra_limit = 0, ra_drawn = 0, ra_repaid = 0, ra_denoms = []\<rparr>) (\<lambda>s.
     Inr \<lparr>pr_total_credit_lines = ra_total_lines s, pr_active_credit_lines = ra_active_lines s, pr_total_collateral = ra_collateral s,
          pr_total_credit_limit = ra_limit s, pr_total_drawn = ra_drawn s, pr_total_repaid = ra_repaid s, pr_net_outstanding = ra_drawn s,
          pr_reserves_by_denom = map (\<lambda>r. r\<lparr>rs_net_outstanding := rs_drawn_amount r\<rparr>) (ra_denoms s)\<rparr>)"

section \<open>Health factors and snapshots\<close>

definition try_u32 :: "u128 \<Rightarrow> u32" where
  [cw_defs]: "try_u32 x = (if x \<le> u32_max then x else u32_max)"

definition ratio_bps :: "u128 \<Rightarrow> u128 \<Rightarrow> u32 cw" where
  "ratio_bps effective_collateral utilized =
     and_then (uint_mul (CwErr (CwStd OverflowErr)) effective_collateral 10000) (\<lambda>numerator.
     and_then (uint_div (CwErr (CwStd DivideByZeroErr)) numerator utilized) (\<lambda>result. Inr (try_u32 result)))"

definition borrower_health_bps :: "u128 \<Rightarrow> u128 \<Rightarrow> u128 \<Rightarrow> u32 cw" where
  "borrower_health_bps utilized effective_collateral credit_amount =
     (if utilized = 0 then Inr u32_max
      else if effective_collateral = 0 \<or> credit_amount = 0 then Inr 0
      else ratio_bps effective_collateral utilized)"

definition snapshot_health_bps :: "u128 \<Rightarrow> u128 \<Rightarrow> u32 cw" where
  "snapshot_health_bps utilized effective_collateral =
     (if utilized = 0 then Inr u32_max
      else if effective_collateral = 0 then Inr 0
      else ratio_bps effective_collateral utilized)"

definition health_entry :: "u64 \<Rightarrow> credit_line \<Rightarrow> cw_store \<Rightarrow> credit_line_health_response cw" where
  "health_entry lid cl st =
     and_then (outstanding_utilization lid st) (\<lambda>utilized.
     and_then (weighted_collateral_total (cl_borrower cl) st) (\<lambda>multi_total.
     and_then (uint_add (CwErr (CwStd OverflowErr)) (cl_collateral_amount cl) multi_total) (\<lambda>effective_collateral.
     and_then (borrower_health_bps utilized effective_collateral (cl_credit_amount cl)) (\<lambda>health_factor_bps.
     Inr \<lparr>ch_credit_line_id = lid, ch_collateral_denom = cl_collateral_denom cl, ch_collateral_amount = cl_collateral_amount cl,
          ch_credit_denom = cl_credit_denom cl, ch_credit_amount = cl_credit_amount cl, ch_utilized_amount = utilized,
          ch_health_factor_bps = health_factor_bps\<rparr>))))"

definition push_health ::
  "cw_addr \<Rightarrow> cw_store \<Rightarrow> u64 \<Rightarrow> credit_line_health_response list \<Rightarrow> credit_line_health_response list cw" where
  "push_health borrower_addr st lid acc =
     (case cs_credit_lines st lid of
        None \<Rightarrow> Inr acc
      | Some cl \<Rightarrow> if cl_active cl \<and> cl_borrower cl = borrower_addr
                   then and_then (health_entry lid cl st) (\<lambda>h. Inr (acc @ [h])) else Inr acc)"

definition query_borrower_health_factor :: "cw_api \<Rightarrow> string \<Rightarrow> cw_store \<Rightarrow> borrower_health_factor_response cw" where
  "query_borrower_health_factor api who st =
     and_then (validate_addr api who) (\<lambda>borrower_addr.
     and_then (ok_or (CwErr (CwStd StdNotFound)) (cs_credit_line_count st)) (\<lambda>count.
     and_then (for_each (push_health borrower_addr st) [0..count - 1] []) (\<lambda>credit_lines.
     Inr \<lparr>bh_borrower = who, bh_credit_lines = credit_lines\<rparr>)))"

definition snapshot_draw :: "u64 \<Rightarrow> cw_store \<Rightarrow> u64 \<Rightarrow> draw_snapshot_entry option" where
  "snapshot_draw lid st did =
     map_option (\<lambda>d. \<lparr>ds_draw_id = did, ds_amount = dr_amount d, ds_denom = dr_denom d, ds_drawn_at = drawn_at d,
       ds_drawn_by = drawn_by d, ds_repaid = dr_repaid d\<rparr>) (cs_draws st (lid, did))"

definition collateral_entries :: "cw_addr \<Rightarrow> cw_store \<Rightarrow> collateral_entry_response list" where
  "collateral_entries a st =
     map (\<lambda>(denom, amount). \<lparr>ce_denom = denom, ce_amount = amount, ce_risk_weight_bps = collateral_risk_weight_bps denom st\<rparr>)
       (query_borrower_collateral a st)"

definition query_credit_line_snapshot :: "u64 \<Rightarrow> cw_store \<Rightarrow> credit_line_snapshot_response option cw" where
  "query_credit_line_snapshot lid st =
     (case cs_credit_lines st lid of
        None \<Rightarrow> Inr None
      | Some cl \<Rightarrow>
          and_then (outstanding_utilization lid st) (\<lambda>total_utilized.
          and_then (displayed (weighted_collateral_total (cl_borrower cl) st)) (\<lambda>weighted_total.
          and_then (uint_add (CwErr (CwStd OverflowErr)) (cl_collateral_amount cl) weighted_total) (\<lambda>effective_collateral.
          and_then (snapshot_health_bps total_utilized effective_collateral) (\<lambda>health_factor_bps.
          Inr (Some \<lparr>sn_credit_line_id = lid, sn_borrower = cl_borrower cl, sn_collateral_denom = cl_collateral_denom cl,
            sn_collateral_amount = cl_collateral_amount cl, sn_credit_denom = cl_credit_denom cl, sn_credit_amount = cl_credit_amount cl,
            sn_active = cl_active cl, sn_total_utilized = total_utilized, sn_multi_collateral = collateral_entries (cl_borrower cl) st,
            sn_weighted_collateral_total = weighted_total, sn_health_factor_bps = health_factor_bps,
            sn_draws = List.map_filter (snapshot_draw lid st) [0..or_zero (cs_draw_count st lid) - 1]\<rparr>))))))"

section \<open>The query dispatcher\<close>

definition query_collateral_balance :: "cw_api \<Rightarrow> string \<Rightarrow> string option \<Rightarrow> cw_store \<Rightarrow> collateral_balance_response cw" where
  "query_collateral_balance api who denom st =
     and_then (validate_addr api who) (\<lambda>borrower_addr.
     let entries = (case denom of
           Some d \<Rightarrow> (let amount = cw_query_collateral_balance borrower_addr d st in
                      if amount = 0 then []
                      else [\<lparr>ce_denom = d, ce_amount = amount, ce_risk_weight_bps = collateral_risk_weight_bps d st\<rparr>])
         | None \<Rightarrow> collateral_entries borrower_addr st) in
     and_then (displayed (weighted_collateral_total borrower_addr st)) (\<lambda>weighted_total.
     Inr \<lparr>cb_borrower = who, cb_entries = entries, cb_weighted_total = weighted_total\<rparr>))"

datatype (plugins only: code) query_msg =
    DrawAuditTrail u64 "u64 option" "u64 option" "u32 option"
  | ProofOfReserve "string option"
  | BorrowerHealthFactor string
  | GetOracleQuorumConfig
  | GetOraclePrice
  | GetLateFeeConfig
  | GetCollateralBalance string "string option"
  | GetCollateralAllowlist
  | CreditLineSnapshot u64

datatype (plugins only: code) query_response =
    AuditTrailResp "draw_audit_trail_response list"
  | ReserveResp proof_of_reserve_response
  | HealthResp borrower_health_factor_response
  | QuorumConfigResp "cw_quorum_config option"
  | PriceResp "i128 option" "u64 option"
  | LateFeeResp "cw_late_fee_config option"
  | CollateralResp collateral_balance_response
  | AllowlistResp "string list"
  | SnapshotResp "credit_line_snapshot_response option"

primrec query :: "cw_api \<Rightarrow> query_msg \<Rightarrow> cw_store \<Rightarrow> query_response cw" where
  "query api (DrawAuditTrail lid did start_after limit) st =
     and_then (displayed (query_draw_audit_trail api lid did start_after limit st)) (\<lambda>r. Inr (AuditTrailResp r))"
| "query api (ProofOfReserve denom) st = and_then (displayed (query_proof_of_reserve denom st)) (\<lambda>r. Inr (ReserveResp r))"
| "query api (BorrowerHealthFactor who) st = and_then (displayed (query_borrower_health_factor api who st)) (\<lambda>r. Inr (HealthResp r))"
| "query api GetOracleQuorumConfig st = Inr (QuorumConfigResp (cs_oracle_quorum_config st))"
| "query api GetOraclePrice st =
     Inr (PriceResp (map_option op_price (cs_oracle_price_record st)) (map_option op_timestamp (cs_oracle_price_record st)))"
| "query api GetLateFeeConfig st = Inr (LateFeeResp (cs_late_fee_config st))"
| "query api (GetCollateralBalance who denom) st = and_then (query_collateral_balance api who denom st) (\<lambda>r. Inr (CollateralResp r))"
| "query api GetCollateralAllowlist st = Inr (AllowlistResp (cw_query_collateral_allowlist st))"
| "query api (CreditLineSnapshot lid) st = and_then (displayed (query_credit_line_snapshot lid st)) (\<lambda>r. Inr (SnapshotResp r))"

section \<open>Audit trails are complete\<close>

lemma push_events_all:
  assumes "\<And>i. i \<in> set is \<Longrightarrow> \<exists>e. audit_of lid did st i = Some e"
  shows "for_each (push_event lid did st) is acc = Inr (acc @ map (\<lambda>i. into_event (the (audit_of lid did st i))) is)"
  using assms
proof (induction "is" arbitrary: acc)
  case Nil
  then show ?case by simp
next
  case (Cons i "is")
  from Cons.prems[of i] obtain e where "audit_of lid did st i = Some e" by auto
  then show ?case using Cons by (simp add: push_event_def audit_of_def)
qed

lemma build_response_exact:
  assumes "book_inv st" and "cs_draws st (lid, did) = Some d"
  shows "\<exists>r. build_response api lid did st = Inr r \<and> at_credit_line_id r = lid \<and> at_draw_id r = did \<and> at_repaid r = dr_repaid d \<and>
     at_events r = map into_event (rows (audit_count_of lid did st) (audit_of lid did st))"
proof -
  have a: "audit_inv lid did d st" using book_draw[OF assms(1), of lid did d] assms(2) by (simp add: draw_inv_def draw_of_def)
  then have "\<exists>e. audit_of lid did st i = Some e" if "i \<in> set [0..audit_count_of lid did st - 1]" for i
    using that dense_row[of "audit_count_of lid did st" "audit_of lid did st" i] by (auto simp: audit_inv_def)
  then have "for_each (push_event lid did st) [0..audit_count_of lid did st - 1] [] =
      Inr (map (\<lambda>i. into_event (the (audit_of lid did st i))) [0..audit_count_of lid did st - 1])"
    using push_events_all[of "[0..audit_count_of lid did st - 1]" lid did st "[]"] by simp
  then show ?thesis using assms(2) by (simp add: build_response_def rows_def audit_count_of_def comp_def)
qed

lemma audit_rows:
  assumes "audit_inv lid did d st"
  defines "evs \<equiv> map into_event (rows (audit_count_of lid did st) (audit_of lid did st))"
  shows "evs \<noteq> [] \<and> de_action (hd evs) = DrawCreated \<and> map de_seq evs = [0..audit_count_of lid did st - 1] \<and>
     (DrawRepaid \<in> de_action ` set evs) = dr_repaid d"
proof -
  let ?n = "audit_count_of lid did st" and ?row = "audit_of lid did st"
  have d: "dense ?n ?row" "0 < ?n" and e: "\<And>i x. ?row i = Some x \<Longrightarrow> da_seq x = i \<and> (da_action x = DrawCreated) = (i = 0)"
    and r: "dr_repaid d = (\<exists>i x. ?row i = Some x \<and> da_action x = DrawRepaid)"
    using assms(1) by (auto simp: audit_inv_def)
  have some: "\<exists>x. ?row i = Some x" if "i \<in> set [0..?n - 1]" for i using dense_row[OF d(1), of i] that by auto
  have seqs: "map de_seq evs = [0..?n - 1]" unfolding evs_def rows_def
    using some e by (auto simp: comp_def into_event_def intro!: map_idI)
  have first: "[0..?n - 1] = 0 # [1..?n - 1]" using d(2) by (simp add: upto_rec1)
  obtain x0 where "?row 0 = Some x0" "da_action x0 = DrawCreated" using some[of 0] e[of 0] d(2) by auto
  then have hd: "evs \<noteq> []" "de_action (hd evs) = DrawCreated" by (simp_all add: evs_def rows_def first into_event_def)
  have "(DrawRepaid \<in> de_action ` set evs) = (\<exists>i. 0 \<le> i \<and> i < ?n \<and> da_action (the (?row i)) = DrawRepaid)"
    by (force simp: evs_def rows_def into_event_def image_iff)
  also have "\<dots> = dr_repaid d" unfolding r using dense_row[OF d(1)] dense_range[OF d(1)] by (metis option.sel)
  finally show ?thesis using seqs hd by simp
qed

text \<open>C35 (\<open>query_draw_audit_trail\<close>): after any sequence of transactions the trail of an existing draw can be read; its entries are
  numbered without gaps from zero, the first records the creation, and a repayment is recorded exactly when the draw is marked repaid.\<close>

theorem audit_trail_complete:
  assumes "cw_ledger api owner txs = Inr st" and "api_ok api" and "cs_draws st (lid, did) = Some d"
  shows "\<exists>r. query_draw_audit_trail api lid (Some did) start_after limit st = Inr [r] \<and> at_draw_id r = did \<and>
     at_events r \<noteq> [] \<and> de_action (hd (at_events r)) = DrawCreated \<and>
     map de_seq (at_events r) = [0..or_zero (cs_draw_audit_count st (lid, did)) - 1] \<and>
     (DrawRepaid \<in> de_action ` set (at_events r)) = dr_repaid d"
proof -
  have b: "book_inv st" using ledger_inv[OF assms(1,2)] by (simp add: cw_inv_def)
  have di: "draw_inv lid did d st" using book_draw[OF b, of lid did d] assms(3) by (simp add: draw_of_def)
  obtain r where r: "build_response api lid did st = Inr r" "at_draw_id r = did"
    "at_events r = map into_event (rows (audit_count_of lid did st) (audit_of lid did st))"
    using build_response_exact[OF b assms(3)] by blast
  moreover have "query_draw_audit_trail api lid (Some did) start_after limit st = Inr [r]"
    using r(1) di assms(3) by (auto simp: query_draw_audit_trail_def cw_load_line_def ensure_draw_exists_def draw_inv_def)
  ultimately show ?thesis using audit_rows[of lid did d st] di by (auto simp: draw_inv_def audit_count_of_def)
qed

lemma push_trails_all:
  assumes "book_inv st" and "\<And>i. i \<in> set is \<Longrightarrow> \<exists>d. cs_draws st (lid, i) = Some d"
  shows "\<exists>rs. for_each (push_trail api lid st) is acc = Inr (acc @ rs) \<and> map at_draw_id rs = is"
  using assms(2)
proof (induction "is" arbitrary: acc)
  case Nil
  then show ?case by simp
next
  case (Cons i "is")
  from Cons.prems[of i] obtain d where "cs_draws st (lid, i) = Some d" by auto
  from build_response_exact[OF assms(1) this] obtain r where r: "build_response api lid i st = Inr r" "at_draw_id r = i" by blast
  obtain rs where "for_each (push_trail api lid st) is (acc @ [r]) = Inr ((acc @ [r]) @ rs)" "map at_draw_id rs = is"
    using Cons.IH[of "acc @ [r]"] Cons.prems by auto
  moreover have "push_trail api lid st i acc = Inr (acc @ [r])" using r by (simp add: push_trail_def)
  ultimately show ?case using r by (intro exI[of _ "r # rs"]) simp
qed

text \<open>(\<open>query_draw_audit_trail\<close>, listing): after any sequence of transactions a page of the listing contains, in order, exactly the
  draws after the given position, at most as many as the limit allows.\<close>

theorem audit_page_exact:
  assumes "cw_ledger api owner txs = Inr st" and "api_ok api" and "cs_credit_lines st lid = Some l"
    and "- 1 \<le> s" and "0 \<le> k" and "s + 1 + k \<le> u64_max"
  shows "\<exists>rs. query_draw_audit_trail api lid None (Some s) (Some k) st = Inr rs \<and>
     map at_draw_id rs = [s + 1..min (s + 1 + k) (or_zero (cs_draw_count st lid)) - 1]"
proof -
  have b: "book_inv st" using ledger_inv[OF assms(1,2)] by (simp add: cw_inv_def)
  let ?is = "[s + 1..min (s + 1 + k) (or_zero (cs_draw_count st lid)) - 1]"
  have "\<exists>d. cs_draws st (lid, i) = Some d" if "i \<in> set ?is" for i
    using dense_row[OF book_dense[OF b, of lid], of i] that assms(4) by (auto simp: draw_of_def draw_count_of_def)
  then obtain rs where rs: "for_each (push_trail api lid st) ?is [] = Inr ([] @ rs)" "map at_draw_id rs = ?is"
    using push_trails_all[OF b, of ?is lid api "[]"] by blast
  have "add_u64 s 1 = Inr (s + 1)" "add_u64 (s + 1) k = Inr (s + 1 + k)" using assms(4-6) by (auto simp: in_u64_def)
  then show ?thesis using rs assms(3) by (simp add: query_draw_audit_trail_def cw_load_line_def)
qed

section \<open>The reserve report\<close>

lemma for_each_adds:
  assumes "for_each f xs s = Inr s'" and "\<And>x s s'. x \<in> set xs \<Longrightarrow> f x s = Inr s' \<Longrightarrow> m s' = m s + g x"
  shows "m s' = m s + (sum_list (map g xs) :: int)"
  using assms
proof (induction xs arbitrary: s)
  case Nil
  then show ?case by simp
next
  case (Cons x xs)
  from Cons.prems(1) obtain t where t: "f x s = Inr t" "for_each f xs t = Inr s'" by auto
  have "m s' = m t + sum_list (map g xs)" by (rule Cons.IH[OF t(2)]) (use Cons.prems(2) in auto)
  then show ?case using Cons.prems(2)[of x s t] t(1) by simp
qed

lemma reserve_line_adds:
  assumes "reserve_line filt cl s = Inr s'"
  shows "ra_drawn s' = ra_drawn s \<and> ra_repaid s' = ra_repaid s \<and> ra_limit s' = ra_limit s + cl_credit_amount cl \<and>
     ra_collateral s' = ra_collateral s + cl_collateral_amount cl"
  using assms by (auto simp: reserve_line_def)

lemma reserve_token_adds:
  assumes "reserve_token None e s = Inr s'"
  shows "ra_drawn s' = ra_drawn s \<and> ra_repaid s' = ra_repaid s \<and> ra_limit s' = ra_limit s \<and> ra_collateral s' = ra_collateral s + snd e"
  using assms by (auto simp: reserve_token_def passes_def)

lemma reserve_draw_adds:
  assumes "reserve_draw_at None st lid did s = Inr s'"
  shows "ra_drawn s' = ra_drawn s + opt_val unrepaid (draw_of lid st did) \<and>
     ra_repaid s' = ra_repaid s + opt_val (\<lambda>d. dr_amount d - unrepaid d) (draw_of lid st did) \<and>
     ra_limit s' = ra_limit s \<and> ra_collateral s' = ra_collateral s"
  using assms
  by (auto simp: reserve_draw_at_def reserve_draw_def passes_def draw_of_def unrepaid_def split: option.splits if_splits)

definition held_by :: "cw_addr \<Rightarrow> cw_store \<Rightarrow> int" where
  "held_by a st = sum_list (map snd (query_borrower_collateral a st))"

definition reported_collateral :: "cw_store \<Rightarrow> credit_line \<Rightarrow> int" where
  "reported_collateral st cl = cl_collateral_amount cl + held_by (cl_borrower cl) st"

lemma reserve_active_adds:
  assumes "reserve_active None st cl s = Inr s'" and "cl_active cl"
  shows "ra_drawn s' = ra_drawn s \<and> ra_repaid s' = ra_repaid s \<and> ra_limit s' = ra_limit s + cl_credit_amount cl \<and>
     ra_collateral s' = ra_collateral s + reported_collateral st cl"
proof -
  obtain t where t: "reserve_line None cl s = Inr t" and f: "for_each (reserve_token None) (query_borrower_collateral (cl_borrower cl) st) t = Inr s'"
    using assms by (auto simp: reserve_active_def line_matches_def)
  have "ra_drawn s' = ra_drawn t + sum_list (map (\<lambda>e. 0) (query_borrower_collateral (cl_borrower cl) st))"
    "ra_repaid s' = ra_repaid t + sum_list (map (\<lambda>e. 0) (query_borrower_collateral (cl_borrower cl) st))"
    "ra_limit s' = ra_limit t + sum_list (map (\<lambda>e. 0) (query_borrower_collateral (cl_borrower cl) st))"
    "ra_collateral s' = ra_collateral t + sum_list (map snd (query_borrower_collateral (cl_borrower cl) st))"
    by (rule for_each_adds[OF f]; simp add: reserve_token_adds)+
  then show ?thesis using reserve_line_adds[OF t] by (simp add: reported_collateral_def held_by_def)
qed

definition repaid_sum :: "u64 \<Rightarrow> cw_store \<Rightarrow> int" where
  "repaid_sum lid st = (\<Sum>did\<in>{0..draw_count_of lid st - 1}. opt_val (\<lambda>d. dr_amount d - unrepaid d) (draw_of lid st did))"

lemma sum_upto: "sum_list (map g [a..b]) = (\<Sum>i\<in>{a..b}. g i)"
  by (metis set_upto sum_set_upto_conv_sum_list_int)

lemma reserve_step_adds:
  assumes "reserve_step None st lid s = Inr s'" and "cs_credit_lines st lid = Some cl" and "cl_active cl"
  shows "ra_drawn s' = ra_drawn s + unrepaid_sum lid st \<and> ra_repaid s' = ra_repaid s + repaid_sum lid st \<and>
     ra_limit s' = ra_limit s + cl_credit_amount cl \<and> ra_collateral s' = ra_collateral s + reported_collateral st cl"
proof -
  let ?s = "s\<lparr>ra_total_lines := saturating_add_u64 (ra_total_lines s) 1\<rparr>" and ?is = "[0..draw_count_of lid st - 1]"
  obtain t where t: "reserve_active None st cl ?s = Inr t" and f: "for_each (reserve_draw_at None st lid) ?is t = Inr s'"
    using assms(1,2) by (auto simp: reserve_step_def line_matches_def Let_def draw_count_of_def)
  have "ra_drawn s' = ra_drawn t + sum_list (map (\<lambda>i. opt_val unrepaid (draw_of lid st i)) ?is)"
    "ra_repaid s' = ra_repaid t + sum_list (map (\<lambda>i. opt_val (\<lambda>d. dr_amount d - unrepaid d) (draw_of lid st i)) ?is)"
    "ra_limit s' = ra_limit t + sum_list (map (\<lambda>e. 0) ?is)" "ra_collateral s' = ra_collateral t + sum_list (map (\<lambda>e. 0) ?is)"
    by (rule for_each_adds[OF f]; simp add: reserve_draw_adds)+
  then show ?thesis using reserve_active_adds[OF t assms(3)] by (simp add: unrepaid_sum_def repaid_sum_def sum_upto)
qed

lemma dense_lines: "dense n m \<Longrightarrow> {0..n - 1} = dom m"
  by (auto simp: dense_def dom_def)

text \<open>C36 (\<open>query_proof_of_reserve\<close>): after any sequence of transactions an unfiltered report that is produced gives the exact totals: the
  drawn and repaid amounts and the credit limits summed over all lines, the drawn total being within the total limit.  The collateral total adds
  the whole deposits of a borrower once for each of the borrower's lines.\<close>

theorem reserve_report_exact:
  assumes "cw_ledger api owner txs = Inr st" and "api_ok api" and "query_proof_of_reserve None st = Inr r"
  shows "pr_total_drawn r = (\<Sum>lid\<in>dom (cs_credit_lines st). unrepaid_sum lid st) \<and> pr_net_outstanding r = pr_total_drawn r \<and>
     pr_total_repaid r = (\<Sum>lid\<in>dom (cs_credit_lines st). repaid_sum lid st) \<and>
     pr_total_credit_limit r = (\<Sum>lid\<in>dom (cs_credit_lines st). cl_credit_amount (the (cs_credit_lines st lid))) \<and>
     pr_total_drawn r \<le> pr_total_credit_limit r \<and>
     pr_total_collateral r = (\<Sum>lid\<in>dom (cs_credit_lines st).
        cl_collateral_amount (the (cs_credit_lines st lid)) + held_by (cl_borrower (the (cs_credit_lines st lid))) st)"
proof -
  have b: "book_inv st" using ledger_inv[OF assms(1,2)] by (simp add: cw_inv_def)
  have dom: "{0..line_count st - 1} = dom (cs_credit_lines st)" using b by (intro dense_lines) (simp add: book_inv_def)
  let ?is = "[0..line_count st - 1]" and ?l = "\<lambda>lid. the (cs_credit_lines st lid)"
  let ?z = "\<lparr>ra_total_lines = 0, ra_active_lines = 0, ra_collateral = 0, ra_limit = 0, ra_drawn = 0, ra_repaid = 0, ra_denoms = []\<rparr>"
  obtain s where f: "for_each (reserve_step None st) ?is ?z = Inr s" and r: "pr_total_drawn r = ra_drawn s" "pr_net_outstanding r = ra_drawn s"
    "pr_total_repaid r = ra_repaid s" "pr_total_credit_limit r = ra_limit s" "pr_total_collateral r = ra_collateral s"
    using assms(3) by (auto simp: query_proof_of_reserve_def line_count_def)
  have step: "ra_drawn y = ra_drawn x + unrepaid_sum lid st \<and> ra_repaid y = ra_repaid x + repaid_sum lid st \<and>
     ra_limit y = ra_limit x + cl_credit_amount (?l lid) \<and> ra_collateral y = ra_collateral x + reported_collateral st (?l lid)"
    if "lid \<in> set ?is" "reserve_step None st lid x = Inr y" for lid x y
  proof -
    from that(1) dom obtain cl where cl: "cs_credit_lines st lid = Some cl" by auto
    then show ?thesis using reserve_step_adds[OF that(2) cl] book_line[OF b cl] by (simp add: line_inv_def)
  qed
  have "ra_drawn s = ra_drawn ?z + sum_list (map (\<lambda>lid. unrepaid_sum lid st) ?is)"
    "ra_repaid s = ra_repaid ?z + sum_list (map (\<lambda>lid. repaid_sum lid st) ?is)"
    "ra_limit s = ra_limit ?z + sum_list (map (\<lambda>lid. cl_credit_amount (?l lid)) ?is)"
    "ra_collateral s = ra_collateral ?z + sum_list (map (\<lambda>lid. reported_collateral st (?l lid)) ?is)"
    by (rule for_each_adds[OF f]; simp add: step)+
  then have sums: "ra_drawn s = (\<Sum>lid\<in>dom (cs_credit_lines st). unrepaid_sum lid st)"
    "ra_repaid s = (\<Sum>lid\<in>dom (cs_credit_lines st). repaid_sum lid st)"
    "ra_limit s = (\<Sum>lid\<in>dom (cs_credit_lines st). cl_credit_amount (?l lid))"
    "ra_collateral s = (\<Sum>lid\<in>dom (cs_credit_lines st). reported_collateral st (?l lid))"
    by (simp_all add: sum_upto dom)
  have "unrepaid_sum lid st \<le> cl_credit_amount (?l lid)" if "lid \<in> dom (cs_credit_lines st)" for lid
    using that book_line[OF b, of lid "?l lid"] by (auto simp: line_inv_def)
  then have "ra_drawn s \<le> ra_limit s" unfolding sums by (rule sum_mono)
  then show ?thesis using sums r by (simp add: reported_collateral_def)
qed

section \<open>Health factors\<close>

lemma health_bps_Inr:
  "borrower_health_bps u e c = Inr v \<Longrightarrow> v = (if u = 0 then u32_max else if c = 0 then 0 else min u32_max (e * 10000 div u))"
  "snapshot_health_bps u e = Inr v \<Longrightarrow> v = (if u = 0 then u32_max else min u32_max (e * 10000 div u))"
  by (auto simp: borrower_health_bps_def snapshot_health_bps_def ratio_bps_def try_u32_def u32_max_def split: if_splits)

lemma health_entry_Inr:
  assumes "health_entry lid cl st = Inr h"
  shows "\<exists>w. outstanding_utilization lid st = Inr (ch_utilized_amount h) \<and> weighted_collateral_total (cl_borrower cl) st = Inr w \<and>
     borrower_health_bps (ch_utilized_amount h) (cl_collateral_amount cl + w) (cl_credit_amount cl) = Inr (ch_health_factor_bps h)"
  using assms by (auto simp: health_entry_def)

lemma snapshot_Inr:
  assumes "query_credit_line_snapshot lid st = Inr (Some s)" and "cs_credit_lines st lid = Some cl"
    and "weighted_collateral_total (cl_borrower cl) st = Inr w"
  shows "outstanding_utilization lid st = Inr (sn_total_utilized s) \<and> sn_weighted_collateral_total s = w \<and>
     snapshot_health_bps (sn_total_utilized s) (cl_collateral_amount cl + w) = Inr (sn_health_factor_bps s)"
  using assms by (auto simp: query_credit_line_snapshot_def displayed_def)

text \<open>(\<open>query_credit_line_snapshot\<close>, \<open>query_borrower_health_factor\<close>): after any sequence of transactions the two views report the same
  utilization and the same health factor for a line; it is the weighted collateral in basis points of the outstanding draws, rounded down and
  capped, and at its maximum when nothing is outstanding.\<close>

theorem health_views_agree:
  assumes "cw_ledger api owner txs = Inr st" and "api_ok api" and "cs_credit_lines st lid = Some cl"
    and "health_entry lid cl st = Inr h" and "query_credit_line_snapshot lid st = Inr (Some s)"
  shows "ch_health_factor_bps h = sn_health_factor_bps s \<and> ch_utilized_amount h = sn_total_utilized s \<and>
     sn_total_utilized s = unrepaid_sum lid st \<and>
     sn_health_factor_bps s = (if sn_total_utilized s = 0 then u32_max
        else min u32_max ((cl_collateral_amount cl + sn_weighted_collateral_total s) * 10000 div sn_total_utilized s))"
proof -
  have b: "book_inv st" using ledger_inv[OF assms(1,2)] by (simp add: cw_inv_def)
  note o = book_outstanding[OF b assms(3)]
  have nn: "0 \<le> unrepaid_sum lid st" unfolding unrepaid_sum_def
    using book_draw[OF b, of lid] by (intro sum_nonneg) (force simp: opt_val_def unrepaid_def draw_inv_def split: option.splits)
  have zero: "cl_credit_amount cl = 0 \<Longrightarrow> unrepaid_sum lid st = 0" using o(2) nn by simp
  obtain w where w: "weighted_collateral_total (cl_borrower cl) st = Inr w" using health_entry_Inr[OF assms(4)] by blast
  note h = health_entry_Inr[OF assms(4)] and s = snapshot_Inr[OF assms(5,3) w]
  have u: "ch_utilized_amount h = unrepaid_sum lid st" "sn_total_utilized s = unrepaid_sum lid st" using h s o(1) by auto
  have "ch_health_factor_bps h = (if unrepaid_sum lid st = 0 then u32_max
      else min u32_max ((cl_collateral_amount cl + w) * 10000 div unrepaid_sum lid st))"
    using h w zero health_bps_Inr(1)[of "unrepaid_sum lid st" "cl_collateral_amount cl + w" "cl_credit_amount cl" "ch_health_factor_bps h"]
    unfolding u by auto
  moreover have "sn_health_factor_bps s = (if unrepaid_sum lid st = 0 then u32_max
      else min u32_max ((cl_collateral_amount cl + w) * 10000 div unrepaid_sum lid st))"
    using s health_bps_Inr(2)[of "unrepaid_sum lid st" "cl_collateral_amount cl + w"] unfolding u by blast
  ultimately show ?thesis using s u by simp
qed

section \<open>Witnesses\<close>

lemma ledger_viewE:
  assumes "ledger_view txs f = Some v"
  obtains st where "cw_ledger dec_api ''owner'' txs = Inr st" and "f st = v"
  using ledger_viewD[OF assms] by blast

theorem audit_trail_complete_witness:
  "\<exists>st r. cw_ledger dec_api ''owner'' draw_txs = Inr st \<and> query_draw_audit_trail dec_api 0 (Some 0) None None st = Inr [r] \<and>
     DrawRepaid \<in> de_action ` set (at_events r)"
proof -
  have "ledger_view draw_txs (\<lambda>st. map_option dr_repaid (cs_draws st (0, 0))) = Some (Some True)" by code_simp
  then obtain st where st: "cw_ledger dec_api ''owner'' draw_txs = Inr st" and "map_option dr_repaid (cs_draws st (0, 0)) = Some True"
    by (rule ledger_viewE)
  then obtain d where d: "cs_draws st (0, 0) = Some d" "dr_repaid d" by auto
  show ?thesis using audit_trail_complete[OF st dec_api_ok d(1), of None None] st d(2) by auto
qed

theorem audit_page_exact_witness:
  "\<exists>st rs. cw_ledger dec_api ''owner'' draw_txs = Inr st \<and> query_draw_audit_trail dec_api 0 None (Some (- 1)) (Some 5) st = Inr rs \<and>
     map at_draw_id rs = [0]"
proof -
  have "ledger_view draw_txs (\<lambda>st. (map_option cl_id (cs_credit_lines st 0), cs_draw_count st 0)) = Some (Some 0, Some 1)" by code_simp
  then obtain st where st: "cw_ledger dec_api ''owner'' draw_txs = Inr st"
    and v: "(map_option cl_id (cs_credit_lines st 0), cs_draw_count st 0) = (Some 0, Some 1)" by (rule ledger_viewE)
  then obtain l where l: "cs_credit_lines st 0 = Some l" by auto
  show ?thesis using audit_page_exact[OF st dec_api_ok l, of "- 1" 5] st v by (auto simp: u64_max_def)
qed

text \<open>Two lines of one borrower and a single deposit of thirty units.\<close>

definition two_line_txs :: "(cw_env \<times> cw_addr \<times> execute_msg) list" where
  "two_line_txs = map (\<lambda>(s, m). (sample_block, s, m))
     [(''owner'', MsgCreateCreditLine ''bob'' ''atom'' ''0'' ''usdc'' ''100''), (''owner'', MsgCreateCreditLine ''bob'' ''atom'' ''0'' ''usdc'' ''100''),
      (''owner'', MsgAddCollateralToken ''atom'' 8000), (''owner'', MsgDepositCollateral ''bob'' ''atom'' ''30'')]"

lemma deposit_counted_twice:
  "ledger_view two_line_txs (\<lambda>st. (held_by ''bob'' st, case query_proof_of_reserve None st of Inl _ \<Rightarrow> None | Inr r \<Rightarrow> Some (pr_total_collateral r))) =
     Some (30, Some 60)"
  by code_simp

theorem reserve_report_exact_witness:
  "\<exists>st r. cw_ledger dec_api ''owner'' draw_txs = Inr st \<and> query_proof_of_reserve None st = Inr r \<and>
     pr_total_drawn r \<le> pr_total_credit_limit r \<and> pr_total_repaid r = 60"
proof -
  have "ledger_view draw_txs (\<lambda>st. case query_proof_of_reserve None st of Inl _ \<Rightarrow> 0 | Inr r \<Rightarrow> pr_total_repaid r) = Some 60" by code_simp
  then obtain st where st: "cw_ledger dec_api ''owner'' draw_txs = Inr st"
    and v: "(case query_proof_of_reserve None st of Inl _ \<Rightarrow> 0 | Inr r \<Rightarrow> pr_total_repaid r) = 60" by (rule ledger_viewE)
  then obtain r where r: "query_proof_of_reserve None st = Inr r" by (auto split: sum.splits)
  show ?thesis using reserve_report_exact[OF st dec_api_ok r] st r v by auto
qed

definition open_txs :: "(cw_env \<times> cw_addr \<times> execute_msg) list" where
  "open_txs = map (\<lambda>(s, m). (sample_block, s, m))
     [(''owner'', MsgCreateCreditLine ''bob'' ''atom'' ''500'' ''usdc'' ''100''), (''bob'', MsgCreateDraw 0 ''60'' ''usdc'')]"

theorem health_views_agree_witness:
  "\<exists>st cl h s. cw_ledger dec_api ''owner'' open_txs = Inr st \<and> cs_credit_lines st 0 = Some cl \<and> health_entry 0 cl st = Inr h \<and>
     query_credit_line_snapshot 0 st = Inr (Some s) \<and> ch_health_factor_bps h = sn_health_factor_bps s \<and> sn_health_factor_bps s = 83333"
proof -
  have "ledger_view open_txs (\<lambda>st. case cs_credit_lines st 0 of None \<Rightarrow> None | Some cl \<Rightarrow>
      (case health_entry 0 cl st of Inl _ \<Rightarrow> None | Inr h \<Rightarrow>
      (case query_credit_line_snapshot 0 st of Inr (Some s) \<Rightarrow> Some (sn_health_factor_bps s) | _ \<Rightarrow> None))) = Some (Some 83333)" by code_simp
  then obtain st where st: "cw_ledger dec_api ''owner'' open_txs = Inr st"
    and v: "(case cs_credit_lines st 0 of None \<Rightarrow> None | Some cl \<Rightarrow>
      (case health_entry 0 cl st of Inl _ \<Rightarrow> None | Inr h \<Rightarrow>
      (case query_credit_line_snapshot 0 st of Inr (Some s) \<Rightarrow> Some (sn_health_factor_bps s) | _ \<Rightarrow> None))) = Some 83333" by (rule ledger_viewE)
  from v obtain cl h s where c: "cs_credit_lines st 0 = Some cl" "health_entry 0 cl st = Inr h"
      "query_credit_line_snapshot 0 st = Inr (Some s)" "sn_health_factor_bps s = 83333"
    by (auto split: option.splits sum.splits)
  show ?thesis using health_views_agree[OF st dec_api_ok c(1-3)] st c by blast
qed

end
