(* ===== verification/CwEncoding.thy ===== *)
theory CwEncoding
  imports Prelude
begin

text \<open>
  The wire formats of the CosmWasm crate: the migration of serialised errors from the first to the
  second encoding (\<^verbatim>\<open>contracts/creditra-credit/src/migrate.rs\<close>) and the storage key of a borrower
  (\<^verbatim>\<open>key.rs\<close>).  What \<^verbatim>\<open>serde\<close> derives from the declarations and their attributes is written out over
  JSON trees, for the documented representations: an externally tagged enum for the first encoding; an adjacently
  tagged enum with tag \<^verbatim>\<open>code\<close>, content \<^verbatim>\<open>details\<close> and snake-case names inside a struct that denies unknown
  fields for the second.  Only the text of JSON is a parameter: how \<^verbatim>\<open>cosmwasm_std\<close> parses bytes into a tree and
  prints a tree, with the hypothesis that what is printed parses back.  Shown, against the documents of
  \<^verbatim>\<open>docs/ERROR_MIGRATION.md\<close>: which bytes migrate, the exact document each becomes, that both decode to the same
  value, that a second migration and an envelope of another version are refused.
\<close>

section \<open>The two encodings\<close>

definition CONTRACT_ERROR_ENCODING_V2 :: int where "CONTRACT_ERROR_ENCODING_V2 = 2"

datatype error_encoding_v1 =
    V1Std string
  | V1CreditLineNotFound u64
  | V1DrawNotFound u64 u64
  | V1Unauthorized
  | V1CollateralInsufficient
  | V1InsufficientCollateralBalance
  | V1InvalidAmount
  | V1AlreadySettled
  | V1OraclePriceInvalid
  | V1OracleQuorumNotMet

datatype error_kind_v2 =
    V2Std string
  | V2CreditLineNotFound u64
  | V2DrawNotFound (v2_draw_id: u64) (v2_credit_line_id: u64)
  | V2Unauthorized
  | V2CollateralInsufficient
  | V2InsufficientCollateralBalance
  | V2InvalidAmount
  | V2AlreadySettled
  | V2OraclePriceInvalid
  | V2OracleQuorumNotMet

record error_encoding_v2 =
  enc_version :: int
  enc_error :: error_kind_v2

datatype error_migration_error =
    InvalidEncoding string
  | UnsupportedVersion int
  | EncodeFailed string

primrec kind_from_v1 :: "error_encoding_v1 \<Rightarrow> error_kind_v2" where
  "kind_from_v1 (V1Std message) = V2Std message"
| "kind_from_v1 (V1CreditLineNotFound i) = V2CreditLineNotFound i"
| "kind_from_v1 (V1DrawNotFound draw_id credit_line_id) = V2DrawNotFound draw_id credit_line_id"
| "kind_from_v1 V1Unauthorized = V2Unauthorized"
| "kind_from_v1 V1CollateralInsufficient = V2CollateralInsufficient"
| "kind_from_v1 V1InsufficientCollateralBalance = V2InsufficientCollateralBalance"
| "kind_from_v1 V1InvalidAmount = V2InvalidAmount"
| "kind_from_v1 V1AlreadySettled = V2AlreadySettled"
| "kind_from_v1 V1OraclePriceInvalid = V2OraclePriceInvalid"
| "kind_from_v1 V1OracleQuorumNotMet = V2OracleQuorumNotMet"

definition encoding_from_v1 :: "error_encoding_v1 \<Rightarrow> error_encoding_v2" where
  "encoding_from_v1 v = \<lparr>enc_version = CONTRACT_ERROR_ENCODING_V2, enc_error = kind_from_v1 v\<rparr>"

section \<open>What serde derives\<close>

datatype json = JNull | JBool bool | JNum int | JStr string | JArr "json list" | JObj "(string \<times> json) list"

definition read_u64 :: "json \<Rightarrow> string + u64" where
  "read_u64 j = (case j of JNum n \<Rightarrow> if in_u64 n then Inr n else Inl ''invalid number'' | _ \<Rightarrow> Inl ''invalid type'')"

definition read_u8 :: "json \<Rightarrow> string + int" where
  "read_u8 j = (case j of JNum n \<Rightarrow> if 0 \<le> n \<and> n \<le> 255 then Inr n else Inl ''invalid number'' | _ \<Rightarrow> Inl ''invalid type'')"

definition read_string :: "json \<Rightarrow> string + string" where
  "read_string j = (case j of JStr x \<Rightarrow> Inr x | _ \<Rightarrow> Inl ''invalid type'')"

definition field :: "string \<Rightarrow> (string \<times> json) list \<Rightarrow> string + json" where
  "field k fs = (if distinct (map fst fs) then ok_or ''missing field'' (map_of fs k) else Inl ''duplicate field'')"

text \<open>\<^verbatim>\<open>Deserialize\<close> and \<^verbatim>\<open>Serialize\<close> of the first encoding: a unit variant is its name, any other variant an object
  with its name as the only key; the two fields of a tuple variant are an array.\<close>

definition v1_units :: "(string \<times> error_encoding_v1) list" where
  "v1_units = [(''Unauthorized'', V1Unauthorized), (''CollateralInsufficient'', V1CollateralInsufficient),
     (''InsufficientCollateralBalance'', V1InsufficientCollateralBalance), (''InvalidAmount'', V1InvalidAmount),
     (''AlreadySettled'', V1AlreadySettled), (''OraclePriceInvalid'', V1OraclePriceInvalid),
     (''OracleQuorumNotMet'', V1OracleQuorumNotMet)]"

definition v1_of_json :: "json \<Rightarrow> string + error_encoding_v1" where
  "v1_of_json j =
     (case j of
        JStr name \<Rightarrow> ok_or ''unknown variant'' (map_of v1_units name)
      | JObj [(name, x)] \<Rightarrow>
          if name = ''Std'' then and_then (read_string x) (\<lambda>m. Inr (V1Std m))
          else if name = ''CreditLineNotFound'' then and_then (read_u64 x) (\<lambda>i. Inr (V1CreditLineNotFound i))
          else if name = ''DrawNotFound'' then
            (case x of
               JArr [y, z] \<Rightarrow> and_then (read_u64 y) (\<lambda>a. and_then (read_u64 z) (\<lambda>b. Inr (V1DrawNotFound a b)))
             | _ \<Rightarrow> Inl ''invalid length'')
          else Inl ''unknown variant''
      | _ \<Rightarrow> Inl ''invalid type'')"

primrec v1_json :: "error_encoding_v1 \<Rightarrow> json" where
  "v1_json (V1Std message) = JObj [(''Std'', JStr message)]"
| "v1_json (V1CreditLineNotFound i) = JObj [(''CreditLineNotFound'', JNum i)]"
| "v1_json (V1DrawNotFound d l) = JObj [(''DrawNotFound'', JArr [JNum d, JNum l])]"
| "v1_json V1Unauthorized = JStr ''Unauthorized''"
| "v1_json V1CollateralInsufficient = JStr ''CollateralInsufficient''"
| "v1_json V1InsufficientCollateralBalance = JStr ''InsufficientCollateralBalance''"
| "v1_json V1InvalidAmount = JStr ''InvalidAmount''"
| "v1_json V1AlreadySettled = JStr ''AlreadySettled''"
| "v1_json V1OraclePriceInvalid = JStr ''OraclePriceInvalid''"
| "v1_json V1OracleQuorumNotMet = JStr ''OracleQuorumNotMet''"

text \<open>The second encoding: the payload names its variant under \<^verbatim>\<open>code\<close> and carries its data under \<^verbatim>\<open>details\<close>; the
  envelope has exactly the fields \<^verbatim>\<open>version\<close> and \<^verbatim>\<open>error\<close>.\<close>

definition v2_units :: "(string \<times> error_kind_v2) list" where
  "v2_units = [(''unauthorized'', V2Unauthorized), (''collateral_insufficient'', V2CollateralInsufficient),
     (''insufficient_collateral_balance'', V2InsufficientCollateralBalance), (''invalid_amount'', V2InvalidAmount),
     (''already_settled'', V2AlreadySettled), (''oracle_price_invalid'', V2OraclePriceInvalid),
     (''oracle_quorum_not_met'', V2OracleQuorumNotMet)]"

definition kind_of_json :: "json \<Rightarrow> string + error_kind_v2" where
  "kind_of_json j =
     (case j of
        JObj fs \<Rightarrow>
          and_then (and_then (field ''code'' fs) read_string) (\<lambda>code.
          case map_of v2_units code of
            Some k \<Rightarrow> ok_or ''invalid type'' (if map_of fs ''details'' \<in> {None, Some JNull} then Some k else None)
          | None \<Rightarrow>
              and_then (field ''details'' fs) (\<lambda>x.
              if code = ''std'' then and_then (read_string x) (\<lambda>m. Inr (V2Std m))
              else if code = ''credit_line_not_found'' then and_then (read_u64 x) (\<lambda>i. Inr (V2CreditLineNotFound i))
              else if code = ''draw_not_found'' then
                (case x of
                   JObj gs \<Rightarrow> and_then (and_then (field ''draw_id'' gs) read_u64) (\<lambda>d.
                     and_then (and_then (field ''credit_line_id'' gs) read_u64) (\<lambda>l. Inr (V2DrawNotFound d l)))
                 | _ \<Rightarrow> Inl ''invalid type'')
              else Inl ''unknown variant''))
      | _ \<Rightarrow> Inl ''invalid type'')"

definition v2_of_json :: "json \<Rightarrow> string + error_encoding_v2" where
  "v2_of_json j =
     (case j of
        JObj fs \<Rightarrow>
          and_then (ensure (set (map fst fs) \<subseteq> {''version'', ''error''}) ''unknown field'') (\<lambda>_.
          and_then (and_then (field ''version'' fs) read_u8) (\<lambda>v.
          and_then (and_then (field ''error'' fs) kind_of_json) (\<lambda>k.
          Inr \<lparr>enc_version = v, enc_error = k\<rparr>)))
      | _ \<Rightarrow> Inl ''invalid type'')"

primrec kind_json :: "error_kind_v2 \<Rightarrow> json" where
  "kind_json (V2Std m) = JObj [(''code'', JStr ''std''), (''details'', JStr m)]"
| "kind_json (V2CreditLineNotFound i) = JObj [(''code'', JStr ''credit_line_not_found''), (''details'', JNum i)]"
| "kind_json (V2DrawNotFound d l) = JObj [(''code'', JStr ''draw_not_found''),
     (''details'', JObj [(''draw_id'', JNum d), (''credit_line_id'', JNum l)])]"
| "kind_json V2Unauthorized = JObj [(''code'', JStr ''unauthorized'')]"
| "kind_json V2CollateralInsufficient = JObj [(''code'', JStr ''collateral_insufficient'')]"
| "kind_json V2InsufficientCollateralBalance = JObj [(''code'', JStr ''insufficient_collateral_balance'')]"
| "kind_json V2InvalidAmount = JObj [(''code'', JStr ''invalid_amount'')]"
| "kind_json V2AlreadySettled = JObj [(''code'', JStr ''already_settled'')]"
| "kind_json V2OraclePriceInvalid = JObj [(''code'', JStr ''oracle_price_invalid'')]"
| "kind_json V2OracleQuorumNotMet = JObj [(''code'', JStr ''oracle_quorum_not_met'')]"

definition v2_json :: "error_encoding_v2 \<Rightarrow> json" where
  "v2_json e = JObj [(''version'', JNum (enc_version e)), (''error'', kind_json (enc_error e))]"

section \<open>Migration and decoding\<close>

text \<open>The text of JSON: parsing bytes and printing a tree, each with the message of its failure.\<close>

record 'b json_text =
  parse_json :: "'b \<Rightarrow> string + json"
  print_json :: "json \<Rightarrow> string + 'b"

definition map_err :: "('e \<Rightarrow> 'f) \<Rightarrow> 'e + 'a \<Rightarrow> 'f + 'a" where
  "map_err f r = (case r of Inl e \<Rightarrow> Inl (f e) | Inr x \<Rightarrow> Inr x)"

definition from_json_v1 :: "'b json_text \<Rightarrow> 'b \<Rightarrow> string + error_encoding_v1" where
  "from_json_v1 t inp = and_then (parse_json t inp) v1_of_json"

definition from_json_v2 :: "'b json_text \<Rightarrow> 'b \<Rightarrow> string + error_encoding_v2" where
  "from_json_v2 t inp = and_then (parse_json t inp) v2_of_json"

definition migrate_v1_error_encoding :: "'b json_text \<Rightarrow> 'b \<Rightarrow> error_migration_error + 'b" where
  "migrate_v1_error_encoding t inp =
     and_then (map_err InvalidEncoding (from_json_v1 t inp)) (\<lambda>legacy.
     map_err EncodeFailed (print_json t (v2_json (encoding_from_v1 legacy))))"

definition decode_contract_error :: "'b json_text \<Rightarrow> 'b \<Rightarrow> error_migration_error + error_encoding_v2" where
  "decode_contract_error t inp =
     (case from_json_v2 t inp of
        Inr versioned \<Rightarrow>
          if enc_version versioned \<noteq> CONTRACT_ERROR_ENCODING_V2 then Inl (UnsupportedVersion (enc_version versioned))
          else Inr versioned
      | Inl _ \<Rightarrow> map_err InvalidEncoding (and_then (from_json_v1 t inp) (\<lambda>v. Inr (encoding_from_v1 v))))"

definition reads_back :: "'b json_text \<Rightarrow> bool" where
  "reads_back t \<longleftrightarrow> (\<forall>j b. print_json t j = Inr b \<longrightarrow> parse_json t b = Inr j)"

section \<open>The documents of the migration guide\<close>

text \<open>The document each first-version error is to become, from \<^verbatim>\<open>docs/ERROR_MIGRATION.md\<close> and the names of the
  variants.\<close>

definition v2_document :: "string \<Rightarrow> json option \<Rightarrow> json" where
  "v2_document code details = JObj [(''version'', JNum 2), (''error'', JObj ((''code'', JStr code) #
     (case details of None \<Rightarrow> [] | Some x \<Rightarrow> [(''details'', x)])))]"

primrec migrated_document :: "error_encoding_v1 \<Rightarrow> json" where
  "migrated_document (V1Std m) = v2_document ''std'' (Some (JStr m))"
| "migrated_document (V1CreditLineNotFound i) = v2_document ''credit_line_not_found'' (Some (JNum i))"
| "migrated_document (V1DrawNotFound draw_id line_id) =
     v2_document ''draw_not_found'' (Some (JObj [(''draw_id'', JNum draw_id), (''credit_line_id'', JNum line_id)]))"
| "migrated_document V1Unauthorized = v2_document ''unauthorized'' None"
| "migrated_document V1CollateralInsufficient = v2_document ''collateral_insufficient'' None"
| "migrated_document V1InsufficientCollateralBalance = v2_document ''insufficient_collateral_balance'' None"
| "migrated_document V1InvalidAmount = v2_document ''invalid_amount'' None"
| "migrated_document V1AlreadySettled = v2_document ''already_settled'' None"
| "migrated_document V1OraclePriceInvalid = v2_document ''oracle_price_invalid'' None"
| "migrated_document V1OracleQuorumNotMet = v2_document ''oracle_quorum_not_met'' None"

fun v1_ids_ok :: "error_encoding_v1 \<Rightarrow> bool" where
  "v1_ids_ok (V1CreditLineNotFound i) \<longleftrightarrow> in_u64 i"
| "v1_ids_ok (V1DrawNotFound d l) \<longleftrightarrow> in_u64 d \<and> in_u64 l"
| "v1_ids_ok _ \<longleftrightarrow> True"

lemma map_err_simps [simp]: "map_err f (Inl e) = Inl (f e)" "map_err f (Inr x) = Inr x"
  by (simp_all add: map_err_def)

lemma map_err_Inr [simp]: "map_err f r = Inr x \<longleftrightarrow> r = Inr x"
  by (cases r) simp_all

lemmas read_defs = read_u64_def read_u8_def read_string_def field_def v1_units_def v2_units_def

lemma v1_reads_back: "v1_ids_ok v \<Longrightarrow> v1_of_json (v1_json v) = Inr v"
  by (cases v) (simp_all add: v1_of_json_def read_defs)

lemma v1_read_shape: "v1_of_json j = Inr v \<longleftrightarrow> j = v1_json v \<and> v1_ids_ok v"
proof
  assume "v1_of_json j = Inr v"
  then show "j = v1_json v \<and> v1_ids_ok v"
    by (auto simp: v1_of_json_def read_defs split: json.splits list.splits if_splits)
qed (use v1_reads_back in blast)

lemma v1_not_v2: "v2_of_json (v1_json v) \<noteq> Inr e"
  by (cases v) (simp_all add: v2_of_json_def)

lemma v2_not_v1: "v1_of_json (v2_json e) \<noteq> Inr v"
  by (simp add: v2_json_def v1_of_json_def)

lemma migrated_json: "v2_json (encoding_from_v1 v) = migrated_document v"
  by (cases v) (simp_all add: v2_json_def encoding_from_v1_def CONTRACT_ERROR_ENCODING_V2_def v2_document_def)

lemma v2_reads_back:
  assumes "0 \<le> n" "n \<le> 255" "v1_ids_ok v"
  shows "v2_of_json (JObj [(''version'', JNum n), (''error'', kind_json (kind_from_v1 v))]) = Inr \<lparr>enc_version = n, enc_error = kind_from_v1 v\<rparr>"
  using assms by (cases v) (simp_all add: v2_of_json_def kind_of_json_def read_defs)

lemma migrate_Inr:
  "migrate_v1_error_encoding t old = Inr new \<longleftrightarrow>
     (\<exists>v. v1_ids_ok v \<and> parse_json t old = Inr (v1_json v) \<and> print_json t (migrated_document v) = Inr new)"
  by (auto simp: migrate_v1_error_encoding_def from_json_v1_def migrated_json v1_read_shape)

lemma decode_v1:
  "v1_ids_ok v \<Longrightarrow> parse_json t b = Inr (v1_json v) \<Longrightarrow> decode_contract_error t b = Inr (encoding_from_v1 v)"
  using v1_not_v2[of v]
  by (cases "v2_of_json (v1_json v)") (auto simp: decode_contract_error_def from_json_v1_def from_json_v2_def v1_reads_back)

lemma decode_envelope:
  assumes "parse_json t b = Inr (JObj [(''version'', JNum n), (''error'', kind_json (kind_from_v1 v))])"
    and "0 \<le> n" "n \<le> 255" "v1_ids_ok v"
  shows "decode_contract_error t b = (if n = 2 then Inr \<lparr>enc_version = 2, enc_error = kind_from_v1 v\<rparr> else Inl (UnsupportedVersion n))"
  using assms by (simp add: decode_contract_error_def from_json_v2_def v2_reads_back CONTRACT_ERROR_ENCODING_V2_def)

text \<open>C39 (\<open>migrate_v1_error_encoding\<close>, \<open>decode_contract_error\<close>): the bytes that migrate are exactly those that hold a
  first-version error, and they become the document that the migration guide gives for that error; the original and the migrated
  bytes decode to the same value, whose serialisation is that document; migrating the result again is refused as an invalid encoding;
  and an envelope with the same payload under any other version is refused with that version.\<close>

theorem error_migration_exact:
  assumes "reads_back t"
  shows "(migrate_v1_error_encoding t old = Inr new \<longleftrightarrow>
       (\<exists>v. v1_ids_ok v \<and> parse_json t old = Inr (v1_json v) \<and> print_json t (migrated_document v) = Inr new)) \<and>
     (migrate_v1_error_encoding t old = Inr new \<longrightarrow>
       (\<exists>v e r. parse_json t old = Inr (v1_json v) \<and> parse_json t new = Inr (migrated_document v) \<and>
          decode_contract_error t old = Inr e \<and> decode_contract_error t new = Inr e \<and> v2_json e = migrated_document v \<and>
          migrate_v1_error_encoding t new = Inl (InvalidEncoding r) \<and>
          (\<forall>b n p. migrated_document v = JObj [(''version'', JNum 2), (''error'', p)] \<and>
             parse_json t b = Inr (JObj [(''version'', JNum n), (''error'', p)]) \<and> 0 \<le> n \<and> n \<le> 255 \<and> n \<noteq> 2 \<longrightarrow>
             decode_contract_error t b = Inl (UnsupportedVersion n))))"
proof (intro conjI impI)
  show "migrate_v1_error_encoding t old = Inr new \<longleftrightarrow>
       (\<exists>v. v1_ids_ok v \<and> parse_json t old = Inr (v1_json v) \<and> print_json t (migrated_document v) = Inr new)"
    by (rule migrate_Inr)
  assume "migrate_v1_error_encoding t old = Inr new"
  then obtain v where v: "v1_ids_ok v" "parse_json t old = Inr (v1_json v)" "print_json t (migrated_document v) = Inr new"
    by (auto simp: migrate_Inr)
  let ?e = "encoding_from_v1 v"
  have p: "parse_json t new = Inr (migrated_document v)" using assms v(3) by (simp add: reads_back_def)
  have m: "migrated_document v = JObj [(''version'', JNum 2), (''error'', kind_json (kind_from_v1 v))]"
    by (simp add: v2_json_def encoding_from_v1_def CONTRACT_ERROR_ENCODING_V2_def flip: migrated_json)
  have "decode_contract_error t new = Inr ?e"
    using decode_envelope[of t new 2 v] p v(1) by (simp add: m encoding_from_v1_def CONTRACT_ERROR_ENCODING_V2_def)
  moreover have "\<exists>r. migrate_v1_error_encoding t new = Inl (InvalidEncoding r)"
    using v2_not_v1[of ?e] p
    by (cases "v1_of_json (migrated_document v)") (auto simp: migrate_v1_error_encoding_def from_json_v1_def migrated_json)
  moreover have "\<forall>b n q. migrated_document v = JObj [(''version'', JNum 2), (''error'', q)] \<and>
             parse_json t b = Inr (JObj [(''version'', JNum n), (''error'', q)]) \<and> 0 \<le> n \<and> n \<le> 255 \<and> n \<noteq> 2 \<longrightarrow>
             decode_contract_error t b = Inl (UnsupportedVersion n)"
    using decode_envelope[of t _ _ v] v(1) by (auto simp: m)
  ultimately show "\<exists>v e r. parse_json t old = Inr (v1_json v) \<and> parse_json t new = Inr (migrated_document v) \<and>
          decode_contract_error t old = Inr e \<and> decode_contract_error t new = Inr e \<and> v2_json e = migrated_document v \<and>
          migrate_v1_error_encoding t new = Inl (InvalidEncoding r) \<and>
          (\<forall>b n p. migrated_document v = JObj [(''version'', JNum 2), (''error'', p)] \<and>
             parse_json t b = Inr (JObj [(''version'', JNum n), (''error'', p)]) \<and> 0 \<le> n \<and> n \<le> 255 \<and> n \<noteq> 2 \<longrightarrow>
             decode_contract_error t b = Inl (UnsupportedVersion n))"
    using decode_v1[OF v(1,2)] p v(2) migrated_json by blast
qed

text \<open>A text layer that satisfies the hypothesis: the bytes are the tree.\<close>

definition tree_text :: "json json_text" where
  "tree_text = \<lparr>parse_json = Inr, print_json = Inr\<rparr>"

theorem error_migration_exact_witness:
  "\<exists>new e. migrate_v1_error_encoding tree_text (JObj [(''DrawNotFound'', JArr [JNum 4, JNum 9])]) = Inr new \<and>
     new = JObj [(''version'', JNum 2), (''error'', JObj [(''code'', JStr ''draw_not_found''),
       (''details'', JObj [(''draw_id'', JNum 4), (''credit_line_id'', JNum 9)])])] \<and>
     decode_contract_error tree_text new = Inr e \<and> v2_json e = new \<and>
     (\<exists>r. migrate_v1_error_encoding tree_text new = Inl (InvalidEncoding r))"
proof -
  have h: "reads_back tree_text" by (simp add: reads_back_def tree_text_def)
  let ?old = "JObj [(''DrawNotFound'', JArr [JNum 4, JNum 9])]" and ?new = "migrated_document (V1DrawNotFound 4 9)"
  have p: "parse_json tree_text j = Inr j" "print_json tree_text j = Inr j" for j by (simp_all add: tree_text_def)
  have "\<exists>v. v1_ids_ok v \<and> parse_json tree_text ?old = Inr (v1_json v) \<and> print_json tree_text (migrated_document v) = Inr ?new"
    by (rule exI[of _ "V1DrawNotFound 4 9"]) (simp add: p in_u64_def u64_max_def)
  then have m: "migrate_v1_error_encoding tree_text ?old = Inr ?new" using error_migration_exact[OF h] by blast
  obtain v e r where "parse_json tree_text ?new = Inr (migrated_document v)" "decode_contract_error tree_text ?new = Inr e"
    "v2_json e = migrated_document v" "migrate_v1_error_encoding tree_text ?new = Inl (InvalidEncoding r)"
    using error_migration_exact[OF h] m by blast
  then show ?thesis using m by (auto simp: v2_document_def p)
qed

section \<open>Borrower keys\<close>

text \<open>An \<open>Addr\<close> is its text; its bytes are those of the text, and addresses on the chain are ASCII.\<close>

record borrower_key = key_bytes :: bytes

definition addr_as_bytes :: "string \<Rightarrow> bytes" where
  "addr_as_bytes a = map (\<lambda>c. word_of_nat (of_char c)) a"

definition from_address :: "string \<Rightarrow> borrower_key" where
  "from_address a = \<lparr>key_bytes = addr_as_bytes a\<rparr>"

definition borrower_key_bytes :: "string \<Rightarrow> bytes" where
  "borrower_key_bytes a = addr_as_bytes a"

lemma char_byte_inj: "inj (\<lambda>c. word_of_nat (of_char c) :: u8)"
proof (rule injI)
  fix c d assume "(word_of_nat (of_char c) :: u8) = word_of_nat (of_char d)"
  then have "unat (word_of_nat (of_char c) :: u8) = unat (word_of_nat (of_char d) :: u8)" by simp
  then have "(of_char c :: nat) mod 256 = of_char d mod 256" by (simp add: unsigned_of_nat take_bit_eq_mod)
  then show "c = d" by (simp add: of_char_mod_256)
qed

lemma borrower_keys_collision_free:
  "from_address a = from_address b \<longleftrightarrow> a = b"
  "borrower_key_bytes a = key_bytes (from_address a)"
  by (auto simp: from_address_def addr_as_bytes_def borrower_key_bytes_def inj_map_eq_map[OF char_byte_inj])

end
