(* ===== verification/Companions.thy ===== *)
theory Companions
  imports Escrow
begin

text \<open>
  The small contracts and catalogs beside the credit contract: the standalone risk contract
  (\<^verbatim>\<open>contracts/risk\<close>), whose cool-off interprets the locale of \<open>Cooldown\<close>; the collateral
  contract (\<^verbatim>\<open>contracts/collateral\<close>) with its migration of unversioned balances, its error catalog
  and its capability bits; the cool-off of \<^verbatim>\<open>contracts/borrow/src/admin.rs\<close>; the error catalog of
  \<^verbatim>\<open>contracts/freeze\<close>; and the events of \<^verbatim>\<open>contracts/query\<close>.  Shown: recorded risk actions are a
  cool-off apart over every run; initialisation hands the risk contract to any signer and so undoes
  its cool-off; the collateral contract refines a table of balances over every run, migration
  included; a withdrawal is not limited by the balance; the two forms of the cool-off test agree but
  at the end of time; the catalogs agree with the credit contract's codes.
\<close>

unbundle bit_operations_syntax

named_theorems rk_defs "unfoldings of the risk contract's helpers"

section \<open>The risk contract\<close>

datatype rk_error = RkUnauthorized | RkNotAdmin | RkPaused | RkRiskAdminCooldownActive

primrec rk_error_code :: "rk_error \<Rightarrow> nat" where
  "rk_error_code RkUnauthorized = 1"
| "rk_error_code RkNotAdmin = 2"
| "rk_error_code RkPaused = 3"
| "rk_error_code RkRiskAdminCooldownActive = 54"

datatype rk_error_category = RkAuth | RkRisk

primrec rk_category :: "rk_error \<Rightarrow> rk_error_category" where
  "rk_category RkUnauthorized = RkAuth"
| "rk_category RkNotAdmin = RkAuth"
| "rk_category RkPaused = RkRisk"
| "rk_category RkRiskAdminCooldownActive = RkRisk"

datatype rk_fail = RkContract rk_error | RkHost host_error

datatype rk_event =
    RkCooldownConfiguredEvent u64
  | RkActionRecordedEvent u64
  | RkInitializedEvent address
  | RkPausedEvent bool

record rk_env =
  rk_ts :: u64
  rk_signers :: "address list"
  rk_frame :: "address list"
  rk_events :: "((symbol \<times> symbol) \<times> rk_event) list"
  rk_admin :: "address option"
  rk_paused :: "bool option"
  rad_cool :: "u64 option"
  rad_last :: "u64 option"

definition rk_publish :: "symbol \<times> symbol \<Rightarrow> rk_event \<Rightarrow> rk_env \<Rightarrow> rk_env" where
  [rk_defs]: "rk_publish t e w = w\<lparr>rk_events := rk_events w @ [(t, e)]\<rparr>"

definition rk_publish_admin_cooldown_configured :: "u64 \<Rightarrow> rk_env \<Rightarrow> rk_env" where
  [rk_defs]: "rk_publish_admin_cooldown_configured s =
     rk_publish (''risk'', ''rad_cool'') (RkCooldownConfiguredEvent s)"

definition rk_publish_admin_action_recorded :: "u64 \<Rightarrow> rk_env \<Rightarrow> rk_env" where
  [rk_defs]: "rk_publish_admin_action_recorded t =
     rk_publish (''risk'', ''rad_act'') (RkActionRecordedEvent t)"

definition rk_publish_initialized :: "address \<Rightarrow> rk_env \<Rightarrow> rk_env" where
  [rk_defs]: "rk_publish_initialized a = rk_publish (''risk'', ''init'') (RkInitializedEvent a)"

definition rk_publish_paused :: "bool \<Rightarrow> rk_env \<Rightarrow> rk_env" where
  [rk_defs]: "rk_publish_paused p =
     rk_publish (''risk'', if p then ''paused'' else ''unpaused'') (RkPausedEvent p)"

definition rk_auth :: "address \<Rightarrow> rk_env \<Rightarrow> rk_fail + rk_env" where
  "rk_auth a w = (case authorize a (rk_signers w) (rk_frame w) of
     Inl e \<Rightarrow> Inl (RkHost e) | Inr fr \<Rightarrow> Inr (w\<lparr>rk_frame := fr\<rparr>))"

definition rk_require_admin_auth :: "rk_env \<Rightarrow> rk_fail + rk_env" where
  "rk_require_admin_auth w =
     and_then (ok_or (RkContract RkNotAdmin) (rk_admin w)) (\<lambda>admin. rk_auth admin w)"

definition rk_assert_not_paused :: "rk_env \<Rightarrow> rk_fail + unit" where
  "rk_assert_not_paused w =
     ensure (\<not> (case rk_paused w of None \<Rightarrow> False | Some p \<Rightarrow> p)) (RkContract RkPaused)"

definition rk_get_cooldown_seconds :: "rk_env \<Rightarrow> u64" where
  [rk_defs]: "rk_get_cooldown_seconds w = or_zero (rad_cool w)"

definition rk_set_cooldown_seconds :: "u64 \<Rightarrow> rk_env \<Rightarrow> rk_env" where
  [rk_defs]: "rk_set_cooldown_seconds s w = w\<lparr>rad_cool := Some s\<rparr>"

definition rk_get_last_action_ts :: "rk_env \<Rightarrow> u64" where
  [rk_defs]: "rk_get_last_action_ts w = or_zero (rad_last w)"

definition rk_set_last_action_ts :: "u64 \<Rightarrow> rk_env \<Rightarrow> rk_env" where
  [rk_defs]: "rk_set_last_action_ts t w = w\<lparr>rad_last := Some t\<rparr>"

definition rk_assert_cooldown_elapsed :: "rk_env \<Rightarrow> rk_fail + unit" where
  "rk_assert_cooldown_elapsed w =
     (let cooldown = rk_get_cooldown_seconds w in
      if cooldown = 0 then Inr ()
      else let last_ts = rk_get_last_action_ts w in
        if last_ts = 0 then Inr ()
        else ensure (\<not> rk_ts w < saturating_add_u64 last_ts cooldown) (RkContract RkRiskAdminCooldownActive))"

definition rk_init :: "address \<Rightarrow> rk_env \<Rightarrow> rk_fail + rk_env" where
  "rk_init admin w =
     and_then (rk_auth admin w) (\<lambda>w. Inr (rk_publish_initialized admin (w\<lparr>rk_admin := Some admin\<rparr>)))"

definition rk_set_risk_admin_cooldown :: "u64 \<Rightarrow> rk_env \<Rightarrow> rk_fail + rk_env" where
  "rk_set_risk_admin_cooldown s w =
     and_then (rk_assert_not_paused w) (\<lambda>_.
     and_then (rk_require_admin_auth w) (\<lambda>w.
     Inr (rk_publish_admin_cooldown_configured s (rk_set_cooldown_seconds s w))))"

definition rk_set_paused :: "bool \<Rightarrow> rk_env \<Rightarrow> rk_fail + rk_env" where
  "rk_set_paused p w =
     and_then (rk_require_admin_auth w) (\<lambda>w. Inr (rk_publish_paused p (w\<lparr>rk_paused := Some p\<rparr>)))"

definition rk_record_risk_admin_action :: "rk_env \<Rightarrow> rk_fail + rk_env" where
  "rk_record_risk_admin_action w =
     and_then (rk_assert_not_paused w) (\<lambda>_.
     and_then (rk_require_admin_auth w) (\<lambda>w.
     and_then (rk_assert_cooldown_elapsed w) (\<lambda>_.
     let ts = rk_ts w in
     Inr (rk_publish_admin_action_recorded ts (rk_set_last_action_ts ts w)))))"

definition rk_get_admin :: "rk_env \<Rightarrow> rk_fail + address" where
  "rk_get_admin w = ok_or (RkHost RustPanic) (rk_admin w)"

text \<open>The entrypoints as messages; a failing call leaves the state of the ledger as it was.\<close>

datatype rk_msg = RkInit address | RkSetCooldown u64 | RkSetPaused bool | RkRecordAction

primrec rk_exec :: "rk_msg \<Rightarrow> rk_env \<Rightarrow> rk_fail + rk_env" where
  "rk_exec (RkInit a) = rk_init a"
| "rk_exec (RkSetCooldown s) = rk_set_risk_admin_cooldown s"
| "rk_exec (RkSetPaused p) = rk_set_paused p"
| "rk_exec RkRecordAction = rk_record_risk_admin_action"

definition rk_transact :: "u64 \<times> address list \<times> rk_msg \<Rightarrow> rk_env \<Rightarrow> rk_env" where
  "rk_transact tx w = (case tx of (t, sg, m) \<Rightarrow>
     let w = w\<lparr>rk_ts := t, rk_signers := sg, rk_frame := []\<rparr> in
     case rk_exec m w of Inl _ \<Rightarrow> w | Inr w' \<Rightarrow> w')"

abbreviation rk_ledger :: "(u64 \<times> address list \<times> rk_msg) list \<Rightarrow> rk_env \<Rightarrow> rk_env" where
  "rk_ledger \<equiv> fold rk_transact"

fun recorded_actions :: "((symbol \<times> symbol) \<times> rk_event) list \<Rightarrow> u64 list" where
  "recorded_actions [] = []"
| "recorded_actions ((_, RkActionRecordedEvent t) # es) = t # recorded_actions es"
| "recorded_actions (_ # es) = recorded_actions es"

lemma recorded_append [simp]: "recorded_actions (es @ fs) = recorded_actions es @ recorded_actions fs"
  by (induction es rule: recorded_actions.induct) simp_all

subsection \<open>Guards\<close>

lemma rk_auth_Inr [simp]:
  "rk_auth a w = Inr w' \<longleftrightarrow> a \<in> set (rk_signers w) \<and> a \<notin> set (rk_frame w) \<and> w' = w\<lparr>rk_frame := a # rk_frame w\<rparr>"
  by (auto simp: rk_auth_def authorize_def)

lemma rk_require_admin_auth_Inr [simp]:
  "rk_require_admin_auth w = Inr w' \<longleftrightarrow> (\<exists>a. rk_admin w = Some a \<and> rk_auth a w = Inr w')"
  by (simp add: rk_require_admin_auth_def)

lemma rk_assert_not_paused_Inr [simp]: "rk_assert_not_paused w = Inr u \<longleftrightarrow> rk_paused w \<noteq> Some True"
  by (cases "rk_paused w") (auto simp: rk_assert_not_paused_def)

definition rk_action_stamp :: "rk_env \<Rightarrow> rk_env" where
  "rk_action_stamp w = rk_set_last_action_ts (rk_ts w) w"

definition rk_action_last :: "rk_env \<Rightarrow> u64 option" where
  "rk_action_last w = (if rk_get_last_action_ts w = 0 then None else Some (rk_get_last_action_ts w))"

interpretation rk_cd: cooldown_gate rk_ts rk_assert_cooldown_elapsed rk_action_stamp rk_get_cooldown_seconds
  rk_action_last "RkContract RkRiskAdminCooldownActive"
  by unfold_locales (auto simp: rk_action_stamp_def rk_action_last_def rk_defs rk_assert_cooldown_elapsed_def
      Let_def ensure_def or_zero_def split: if_splits)

text \<open>A call by the stored admin's signature; \<open>init\<close> is the only one that needs no other.\<close>

lemma rk_exec_needs_admin:
  assumes "rk_exec m w = Inr w'" and "\<forall>a. m \<noteq> RkInit a"
  shows "\<exists>a. rk_admin w = Some a \<and> a \<in> set (rk_signers w)"
  using assms by (cases m) (auto simp: rk_set_risk_admin_cooldown_def rk_set_paused_def rk_record_risk_admin_action_def Let_def)

lemma rk_paused_blocks:
  assumes "rk_exec m w = Inr w'" and "rk_paused w = Some True"
  shows "(\<exists>a. m = RkInit a) \<or> (\<exists>p. m = RkSetPaused p)"
  using assms by (cases m) (auto simp: rk_set_risk_admin_cooldown_def rk_record_risk_admin_action_def)

subsection \<open>Spacing over runs\<close>

abbreviation rk_apart :: "u64 \<Rightarrow> u64 \<Rightarrow> u64 \<Rightarrow> bool" where
  "rk_apart c s t \<equiv> min u64_max (s + c) \<le> t"

definition rk_recorded :: "rk_env \<Rightarrow> u64 list" where
  "rk_recorded w = recorded_actions (rk_events w)"

definition rk_spaced :: "u64 \<Rightarrow> rk_env \<Rightarrow> bool" where
  "rk_spaced c w \<longleftrightarrow> rad_cool w = Some c \<and> sorted_wrt (rk_apart c) (rk_recorded w) \<and>
     (\<forall>t \<in> set (rk_recorded w). 0 < t \<and> t \<le> u64_max) \<and>
     rad_last w = (if rk_recorded w = [] then None else Some (List.last (rk_recorded w)))"

lemma apart_snoc:
  assumes "sorted_wrt (rk_apart c) (ts @ [s])" and "rk_apart c s t" and "0 < c" and "\<forall>r \<in> set ts. r \<le> u64_max"
  shows "sorted_wrt (rk_apart c) ((ts @ [s]) @ [t])"
proof -
  have "rk_apart c r t" if "r \<in> set ts" for r
  proof -
    have "rk_apart c r s" and "r \<le> u64_max" using assms(1,4) that by (auto simp: sorted_wrt_append)
    then show ?thesis using assms(2,3) by linarith
  qed
  then show ?thesis using assms(1,2) by (auto simp: sorted_wrt_append)
qed

lemma rk_exec_frame:
  assumes "rk_exec m w = Inr w'" and "m \<noteq> RkRecordAction"
  shows "rad_last w' = rad_last w" and "rk_recorded w' = rk_recorded w"
    and "(\<forall>s. m \<noteq> RkSetCooldown s) \<Longrightarrow> rad_cool w' = rad_cool w"
  using assms by (cases m; force simp: rk_set_risk_admin_cooldown_def rk_set_paused_def rk_init_def rk_defs rk_recorded_def)+

lemma rk_record_Inr:
  assumes "rk_record_risk_admin_action w = Inr w'"
  shows "rad_cool w' = rad_cool w" and "rad_last w' = Some (rk_ts w)" and "rk_recorded w' = rk_recorded w @ [rk_ts w]"
    and "rk_assert_cooldown_elapsed w = Inr ()"
  using assms
  by (auto simp: rk_record_risk_admin_action_def Let_def rk_defs rk_recorded_def rk_assert_cooldown_elapsed_def)

lemma rk_record_spaced:
  assumes "rk_record_risk_admin_action w = Inr w'" and "rk_spaced c w" and "0 < c"
    and "0 < rk_ts w" and "rk_ts w \<le> u64_max"
  shows "rk_spaced c w'"
proof -
  note w' = rk_record_Inr[OF assms(1)]
  have c: "rk_get_cooldown_seconds w = c" using assms(2) by (simp add: rk_spaced_def rk_defs)
  have "sorted_wrt (rk_apart c) (rk_recorded w @ [rk_ts w])"
  proof (cases "rk_recorded w" rule: rev_cases)
    case (snoc ts s)
    then have s: "sorted_wrt (rk_apart c) (ts @ [s])" "\<forall>r \<in> set ts. r \<le> u64_max" "rad_last w = Some s" "0 < s"
      using assms(2) by (auto simp: rk_spaced_def)
    then have "rk_apart c s (rk_ts w)"
      using rk_cd.guard_on[of w s] c assms(3) w'(4)
      by (auto simp: saturating_add_u64_def rk_action_last_def rk_defs split: if_splits)
    then show ?thesis using apart_snoc[OF s(1) _ assms(3) s(2)] snoc by simp
  qed simp
  then show ?thesis using assms(2,4,5) w' by (auto simp: rk_spaced_def)
qed

lemma rk_spaced_cong:
  assumes "rk_spaced c w" and "rad_cool v = rad_cool w" and "rad_last v = rad_last w" and "rk_recorded v = rk_recorded w"
  shows "rk_spaced c v"
  using assms by (simp add: rk_spaced_def)

lemma rk_transact_spaced:
  assumes "rk_spaced c w" and "0 < c" and "\<forall>s. m \<noteq> RkSetCooldown s" and "0 < t" and "t \<le> u64_max"
  shows "rk_spaced c (rk_transact (t, sg, m) w)"
proof -
  let ?w = "w\<lparr>rk_ts := t, rk_signers := sg, rk_frame := []\<rparr>"
  have w: "rk_spaced c ?w" by (rule rk_spaced_cong[OF assms(1)]) (simp_all add: rk_recorded_def)
  have "rk_spaced c w'" if "rk_exec m ?w = Inr w'" for w'
  proof (cases "m = RkRecordAction")
    case True
    then show ?thesis using rk_record_spaced[OF _ w assms(2)] that assms(4,5) by simp
  next
    case False
    show ?thesis by (rule rk_spaced_cong[OF w]) (use rk_exec_frame[OF that False] assms(3) in simp_all)
  qed
  then show ?thesis using w by (simp add: rk_transact_def Let_def split: sum.splits)
qed

lemma rk_ledger_spaced:
  assumes "rk_spaced c w" and "0 < c"
    and "\<forall>(t, sg, m) \<in> set txs. 0 < t \<and> t \<le> u64_max \<and> (\<forall>s. m \<noteq> RkSetCooldown s)"
  shows "rk_spaced c (rk_ledger txs w)"
  using assms
proof (induction txs arbitrary: w)
  case (Cons tx txs)
  obtain t sg m where "tx = (t, sg, m)" by (cases tx)
  then show ?case using Cons rk_transact_spaced[OF Cons.prems(1,2), of m t sg] by simp
qed simp

definition rk_genesis :: "address \<Rightarrow> u64 \<Rightarrow> rk_env" where
  "rk_genesis a c = \<lparr>rk_ts = 0, rk_signers = [], rk_frame = [], rk_events = [], rk_admin = Some a, rk_paused = None,
     rad_cool = Some c, rad_last = None\<rparr>"

text \<open>C37 (\<open>assert_risk_admin_cooldown_elapsed\<close>, \<open>record_risk_admin_action\<close>): over every run of the risk
  contract in which the cool-off stays configured at \<open>c\<close>, whoever calls what and whichever calls fail,
  any two recorded risk actions are at least \<open>c\<close> seconds apart (saturating at the end of time).\<close>

theorem recorded_risk_actions_apart:
  assumes "rad_cool w = Some c" and "0 < c" and "rad_last w = None" and "rk_recorded w = []"
    and "\<forall>(t, sg, m) \<in> set txs. 0 < t \<and> t \<le> u64_max \<and> (\<forall>s. m \<noteq> RkSetCooldown s)"
  shows "sorted_wrt (rk_apart c) (rk_recorded (rk_ledger txs w))"
proof -
  have "rk_spaced c w" using assms(1-4) by (simp add: rk_spaced_def)
  from rk_ledger_spaced[OF this assms(2,5)] show ?thesis by (simp add: rk_spaced_def)
qed

theorem recorded_risk_actions_apart_witness:
  "let txs = [(5, [1], RkRecordAction), (64, [1], RkRecordAction), (65, [1], RkRecordAction)];
       w = rk_ledger txs (rk_genesis 1 60) in rk_recorded w = [5, 65] \<and> sorted_wrt (rk_apart 60) (rk_recorded w)"
proof -
  let ?txs = "[(5, [1], RkRecordAction), (64, [1], RkRecordAction), (65, [1], RkRecordAction)]"
  have "rk_recorded (rk_ledger ?txs (rk_genesis 1 60)) = [5, 65]" by code_simp
  then show ?thesis
    using recorded_risk_actions_apart[of "rk_genesis 1 60" 60 ?txs]
    by (simp add: Let_def rk_genesis_def rk_recorded_def u64_max_def)
qed

text \<open>(\<open>init\<close>): nothing limits initialisation to the first call, so whoever signs for itself takes the
  contract over at any moment, paused or not, switches the cool-off off and records two actions at one
  instant.\<close>

theorem risk_contract_can_be_taken_over:
  "let w' = rk_ledger [(t, [mallory], RkInit mallory), (t, [mallory], RkSetPaused False),
     (t, [mallory], RkSetCooldown 0), (t, [mallory], RkRecordAction), (t, [mallory], RkRecordAction)] w
   in rk_admin w' = Some mallory \<and> rk_recorded w' = rk_recorded w @ [t, t]"
  by (simp add: rk_transact_def Let_def rk_init_def rk_set_paused_def rk_set_risk_admin_cooldown_def
      rk_record_risk_admin_action_def rk_auth_def authorize_def rk_require_admin_auth_def rk_assert_not_paused_def
      rk_assert_cooldown_elapsed_def rk_defs rk_recorded_def)

section \<open>Error catalogs\<close>

datatype collateral_error =
    ClInvalidAmount | ClOverflow | ClMissingLiquidityToken | ClCollateralRatioBelowMinimum
  | ClInsufficientCollateralBalance
  | CollateralTokenNotAllowed | CollateralRiskWeightOutOfRange | CollateralTokenMismatch
  | CollateralPositionLocked | CollateralBalanceForTokenNotFound | AuctionBidTooLate

primrec collateral_error_code :: "collateral_error \<Rightarrow> nat" where
  "collateral_error_code ClInvalidAmount = 5"
| "collateral_error_code ClOverflow = 12"
| "collateral_error_code ClMissingLiquidityToken = 22"
| "collateral_error_code ClCollateralRatioBelowMinimum = 35"
| "collateral_error_code ClInsufficientCollateralBalance = 39"
| "collateral_error_code CollateralTokenNotAllowed = 100"
| "collateral_error_code CollateralRiskWeightOutOfRange = 101"
| "collateral_error_code CollateralTokenMismatch = 102"
| "collateral_error_code CollateralPositionLocked = 103"
| "collateral_error_code CollateralBalanceForTokenNotFound = 104"
| "collateral_error_code AuctionBidTooLate = 105"

datatype freeze_error =
    FzCreditLineNotFound | FzBorrowerBlocked | FzDrawsFrozen | FzBorrowerFrozen | FzCreditLineFrozen

primrec freeze_error_code :: "freeze_error \<Rightarrow> nat" where
  "freeze_error_code FzCreditLineNotFound = 3"
| "freeze_error_code FzBorrowerBlocked = 16"
| "freeze_error_code FzDrawsFrozen = 19"
| "freeze_error_code FzBorrowerFrozen = 40"
| "freeze_error_code FzCreditLineFrozen = 46"

text \<open>The credit contract's error a catalog entry is documented to mirror.\<close>

primrec collateral_mirror :: "collateral_error \<Rightarrow> contract_error option" where
  "collateral_mirror ClInvalidAmount = Some InvalidAmount"
| "collateral_mirror ClOverflow = Some Overflow"
| "collateral_mirror ClMissingLiquidityToken = Some MissingLiquidityToken"
| "collateral_mirror ClCollateralRatioBelowMinimum = Some CollateralRatioBelowMinimum"
| "collateral_mirror ClInsufficientCollateralBalance = Some InsufficientCollateralBalance"
| "collateral_mirror CollateralTokenNotAllowed = None"
| "collateral_mirror CollateralRiskWeightOutOfRange = None"
| "collateral_mirror CollateralTokenMismatch = None"
| "collateral_mirror CollateralPositionLocked = None"
| "collateral_mirror CollateralBalanceForTokenNotFound = None"
| "collateral_mirror AuctionBidTooLate = None"

primrec freeze_mirror :: "freeze_error \<Rightarrow> contract_error" where
  "freeze_mirror FzCreditLineNotFound = CreditLineNotFound"
| "freeze_mirror FzBorrowerBlocked = BorrowerBlocked"
| "freeze_mirror FzDrawsFrozen = DrawsFrozen"
| "freeze_mirror FzBorrowerFrozen = BorrowerFrozen"
| "freeze_mirror FzCreditLineFrozen = CreditLineFrozen"

text \<open>A code a client receives from either catalog means the credit contract's error of that code, or no
  error of the credit contract at all.\<close>

theorem catalogs_mirror_credit_errors:
  "error_code c = collateral_error_code e \<longleftrightarrow> collateral_mirror e = Some c"
  "error_code c = freeze_error_code f \<longleftrightarrow> freeze_mirror f = c"
  by (cases e; cases c; simp) (cases f; cases c; simp)

section \<open>The collateral contract\<close>

definition CL_STATE_VERSION :: u32 where "CL_STATE_VERSION = 1"

record versioned_balance =
  vb_version :: u32
  vb_amount :: i128

record cl_env =
  cl_signers :: "address list"
  cl_frame :: "address list"
  cl_balance :: "address \<rightharpoonup> i128"
  cl_versioned :: "address \<rightharpoonup> versioned_balance"

datatype cl_fail = ClError collateral_error | ClHost host_error

definition load_balance :: "address \<Rightarrow> cl_env \<Rightarrow> i128 \<times> cl_env" where
  "load_balance user w =
     (case cl_versioned w user of
        Some entry \<Rightarrow> (vb_amount entry, w)
      | None \<Rightarrow>
          (case cl_balance w user of
             Some legacy \<Rightarrow>
               (let migrated = \<lparr>vb_version = CL_STATE_VERSION, vb_amount = legacy\<rparr> in
                (legacy, w\<lparr>cl_versioned := (cl_versioned w)(user \<mapsto> migrated),
                           cl_balance := (cl_balance w)(user := None)\<rparr>))
           | None \<Rightarrow> (0, w)))"

definition store_balance :: "address \<Rightarrow> i128 \<Rightarrow> cl_env \<Rightarrow> cl_env" where
  "store_balance user amount w =
     w\<lparr>cl_versioned := (cl_versioned w)(user \<mapsto> \<lparr>vb_version = CL_STATE_VERSION, vb_amount = amount\<rparr>)\<rparr>"

definition cl_auth :: "address \<Rightarrow> cl_env \<Rightarrow> cl_fail + cl_env" where
  "cl_auth a w = (case authorize a (cl_signers w) (cl_frame w) of
     Inl e \<Rightarrow> Inl (ClHost e) | Inr fr \<Rightarrow> Inr (w\<lparr>cl_frame := fr\<rparr>))"

definition cl_deposit :: "address \<Rightarrow> i128 \<Rightarrow> cl_env \<Rightarrow> cl_fail + cl_env" where
  "cl_deposit user amount w =
     and_then (cl_auth user w) (\<lambda>w.
     and_then (ensure (\<not> amount \<le> 0) (ClError ClInvalidAmount)) (\<lambda>_.
     let (current_balance, w) = load_balance user w in
     and_then (ok_or (ClError ClOverflow) (checked_add_i128 current_balance amount)) (\<lambda>new_balance.
     Inr (store_balance user new_balance w))))"

definition cl_withdraw :: "address \<Rightarrow> i128 \<Rightarrow> cl_env \<Rightarrow> cl_fail + cl_env" where
  "cl_withdraw user amount w =
     and_then (cl_auth user w) (\<lambda>w.
     and_then (ensure (\<not> amount \<le> 0) (ClError ClInvalidAmount)) (\<lambda>_.
     let (current_balance, w) = load_balance user w in
     and_then (ok_or (ClError ClInsufficientCollateralBalance) (checked_sub_i128 current_balance amount)) (\<lambda>new_balance.
     Inr (store_balance user new_balance w))))"

datatype cl_msg = ClDeposit address i128 | ClWithdraw address i128

primrec cl_exec :: "cl_msg \<Rightarrow> cl_env \<Rightarrow> cl_fail + cl_env" where
  "cl_exec (ClDeposit u a) = cl_deposit u a"
| "cl_exec (ClWithdraw u a) = cl_withdraw u a"

definition cl_transact :: "address list \<times> cl_msg \<Rightarrow> cl_env \<Rightarrow> cl_env" where
  "cl_transact tx w = (case tx of (sg, m) \<Rightarrow>
     let w = w\<lparr>cl_signers := sg, cl_frame := []\<rparr> in
     case cl_exec m w of Inl _ \<Rightarrow> w | Inr w' \<Rightarrow> w')"

abbreviation cl_ledger :: "(address list \<times> cl_msg) list \<Rightarrow> cl_env \<Rightarrow> cl_env" where
  "cl_ledger \<equiv> fold cl_transact"

text \<open>The abstract vault: a total table of balances, with no trace of versions and migration.\<close>

definition vault :: "cl_env \<Rightarrow> address \<Rightarrow> i128" where
  "vault w u = (case cl_versioned w u of Some e \<Rightarrow> vb_amount e | None \<Rightarrow> or_zero (cl_balance w u))"

fun vault_step :: "address list \<times> cl_msg \<Rightarrow> (address \<Rightarrow> i128) \<Rightarrow> (address \<Rightarrow> i128)" where
  "vault_step (sg, ClDeposit u a) m = (if u \<in> set sg \<and> 0 < a \<and> in_i128 (m u + a) then m(u := m u + a) else m)"
| "vault_step (sg, ClWithdraw u a) m = (if u \<in> set sg \<and> 0 < a \<and> in_i128 (m u - a) then m(u := m u - a) else m)"

text \<open>Each user's balance sits under one key, and a versioned record carries the current version.\<close>

definition vault_keys :: "cl_env \<Rightarrow> bool" where
  "vault_keys w \<longleftrightarrow> dom (cl_balance w) \<inter> dom (cl_versioned w) = {} \<and>
     (\<forall>u e. cl_versioned w u = Some e \<longrightarrow> vb_version e = CL_STATE_VERSION)"

lemma load_balance_value: "fst (load_balance u w) = vault w u"
  by (simp add: load_balance_def vault_def or_zero_def Let_def split: option.splits)

lemma load_balance_keeps:
  "vault (snd (load_balance u w)) = vault w"
  by (auto simp: load_balance_def vault_def or_zero_def Let_def fun_eq_iff split: option.splits)

lemma load_balance_keys: "vault_keys w \<Longrightarrow> vault_keys (snd (load_balance u w)) \<and> cl_balance (snd (load_balance u w)) u = None"
  by (fastforce simp: load_balance_def vault_keys_def Let_def split: option.splits if_splits)

lemma store_balance_value: "vault (store_balance u x w) = (vault w)(u := x)"
  by (auto simp: store_balance_def vault_def fun_eq_iff split: option.split)

lemma store_balance_keys: "vault_keys w \<Longrightarrow> cl_balance w u = None \<Longrightarrow> vault_keys (store_balance u x w)"
  by (auto simp: vault_keys_def store_balance_def)

lemma cl_auth_simps:
  "cl_frame w = [] \<Longrightarrow> cl_auth a w = (if a \<in> set (cl_signers w) then Inr (w\<lparr>cl_frame := [a]\<rparr>) else Inl (ClHost AuthMissing))"
  by (simp add: cl_auth_def authorize_def)

lemma vault_frame [simp]: "vault (w\<lparr>cl_signers := sg\<rparr>) = vault w" "vault (w\<lparr>cl_frame := fr\<rparr>) = vault w"
  by (simp_all add: vault_def fun_eq_iff split: option.split)

lemma keys_frame [simp]:
  "vault_keys (w\<lparr>cl_signers := sg\<rparr>) = vault_keys w" "vault_keys (w\<lparr>cl_frame := fr\<rparr>) = vault_keys w"
  by (simp_all add: vault_keys_def)

lemma cl_deposit_cases:
  assumes "cl_frame w = []"
  shows "if u \<in> set (cl_signers w) \<and> 0 < a \<and> in_i128 (vault w u + a)
    then \<exists>w'. cl_deposit u a w = Inr w' \<and> vault w' = (vault w)(u := vault w u + a) \<and> (vault_keys w \<longrightarrow> vault_keys w')
    else \<exists>e. cl_deposit u a w = Inl e"
  using assms load_balance_value[of u "w\<lparr>cl_frame := [u]\<rparr>"] load_balance_keeps[of u "w\<lparr>cl_frame := [u]\<rparr>"]
    load_balance_keys[of "w\<lparr>cl_frame := [u]\<rparr>" u]
  by (auto simp: cl_deposit_def cl_auth_simps ensure_def case_prod_unfold checked_arith checked_def
      store_balance_value store_balance_keys)

lemma cl_withdraw_cases:
  assumes "cl_frame w = []"
  shows "if u \<in> set (cl_signers w) \<and> 0 < a \<and> in_i128 (vault w u - a)
    then \<exists>w'. cl_withdraw u a w = Inr w' \<and> vault w' = (vault w)(u := vault w u - a) \<and> (vault_keys w \<longrightarrow> vault_keys w')
    else \<exists>e. cl_withdraw u a w = Inl e"
  using assms load_balance_value[of u "w\<lparr>cl_frame := [u]\<rparr>"] load_balance_keeps[of u "w\<lparr>cl_frame := [u]\<rparr>"]
    load_balance_keys[of "w\<lparr>cl_frame := [u]\<rparr>" u]
  by (auto simp: cl_withdraw_def cl_auth_simps ensure_def case_prod_unfold checked_arith checked_def
      store_balance_value store_balance_keys)

lemma cl_transact_refines:
  "vault (cl_transact tx w) = vault_step tx (vault w) \<and> (vault_keys w \<longrightarrow> vault_keys (cl_transact tx w))"
proof -
  obtain sg m where tx: "tx = (sg, m)" by (cases tx)
  let ?w = "w\<lparr>cl_signers := sg, cl_frame := []\<rparr>"
  show ?thesis
  proof (cases m)
    case (ClDeposit u a)
    then show ?thesis using tx cl_deposit_cases[of ?w u a] by (auto simp: cl_transact_def Let_def split: if_splits)
  next
    case (ClWithdraw u a)
    then show ?thesis using tx cl_withdraw_cases[of ?w u a] by (auto simp: cl_transact_def Let_def split: if_splits)
  qed
qed

text \<open>C38 (\<open>deposit\<close>, \<open>withdraw\<close>, \<open>load_balance\<close>): over every run, from any mix of legacy and versioned
  records, the collateral contract shows exactly the balances of a table that adds accepted deposits
  and subtracts accepted withdrawals; migrating a record on first access is invisible, no user ever has
  a record under both keys, and every versioned record carries the current version.\<close>

theorem collateral_contract_refines_table:
  assumes "vault_keys w"
  shows "vault (cl_ledger txs w) = fold vault_step txs (vault w) \<and> vault_keys (cl_ledger txs w)"
  using assms
proof (induction txs arbitrary: w)
  case (Cons tx txs)
  then show ?case using cl_transact_refines[of tx w] by simp
qed simp

definition cl_example :: cl_env where
  "cl_example = \<lparr>cl_signers = [], cl_frame = [], cl_balance = [7 \<mapsto> 40], cl_versioned = Map.empty\<rparr>"

theorem collateral_contract_refines_table_witness:
  "vault (cl_ledger [([7], ClDeposit 7 2), ([8], ClDeposit 7 5)] cl_example) 7 = 42 \<and>
   vault_keys (cl_ledger [([7], ClDeposit 7 2), ([8], ClDeposit 7 5)] cl_example)"
proof -
  have "vault_keys cl_example" by (simp add: cl_example_def vault_keys_def)
  from collateral_contract_refines_table[OF this, of "[([7], ClDeposit 7 2), ([8], ClDeposit 7 5)]"]
  show ?thesis by (simp add: vault_def cl_example_def or_zero_def int_defs)
qed

text \<open>(\<open>withdraw\<close>): the subtraction is checked against the range of \<open>i128\<close> and not against the balance, so a
  user with any balance from 0 on withdraws any positive amount and is left with what is then negative;
  \<open>InsufficientCollateralBalance\<close> is not raised for such a user.\<close>

theorem withdrawal_not_limited_by_balance:
  assumes "cl_frame w = []" and "u \<in> set (cl_signers w)" and "0 < a" and "in_i128 a" and "0 \<le> vault w u" and "in_i128 (vault w u)"
  shows "\<exists>w'. cl_withdraw u a w = Inr w' \<and> vault w' u = vault w u - a"
proof -
  have "in_i128 (vault w u - a)" using assms(3-6) by (auto simp: int_defs)
  then show ?thesis using cl_withdraw_cases[OF assms(1), of u a] assms(2,3) by auto
qed

theorem withdrawal_not_limited_by_balance_witness:
  "\<exists>w'. cl_withdraw 9 100 (cl_example\<lparr>cl_signers := [9]\<rparr>) = Inr w' \<and> vault w' 9 = - 100"
  using withdrawal_not_limited_by_balance[of "cl_example\<lparr>cl_signers := [9]\<rparr>" 9 100]
  by (simp add: cl_example_def vault_def or_zero_def int_defs)

subsection \<open>Capability bits\<close>

type_synonym capability = "64 word"

definition CAPABILITY_DEPOSIT :: capability where "CAPABILITY_DEPOSIT = push_bit 0 1"
definition CAPABILITY_WITHDRAW :: capability where "CAPABILITY_WITHDRAW = push_bit 1 1"
definition CAPABILITY_PARTIAL_RELEASE :: capability where "CAPABILITY_PARTIAL_RELEASE = push_bit 2 1"
definition CAPABILITY_MULTI_TOKEN :: capability where "CAPABILITY_MULTI_TOKEN = push_bit 3 1"
definition CAPABILITY_RISK_WEIGHTING :: capability where "CAPABILITY_RISK_WEIGHTING = push_bit 4 1"
definition CAPABILITY_ADMIN_COOLDOWN :: capability where "CAPABILITY_ADMIN_COOLDOWN = push_bit 5 1"
definition CAPABILITY_RATIO_FLOOR :: capability where "CAPABILITY_RATIO_FLOOR = push_bit 6 1"

lemmas capability_defs = CAPABILITY_DEPOSIT_def CAPABILITY_WITHDRAW_def CAPABILITY_PARTIAL_RELEASE_def
  CAPABILITY_MULTI_TOKEN_def CAPABILITY_RISK_WEIGHTING_def CAPABILITY_ADMIN_COOLDOWN_def CAPABILITY_RATIO_FLOOR_def

definition ALL_COLLATERAL_CAPABILITIES :: capability where
  "ALL_COLLATERAL_CAPABILITIES = CAPABILITY_DEPOSIT OR CAPABILITY_WITHDRAW OR CAPABILITY_PARTIAL_RELEASE OR
     CAPABILITY_MULTI_TOKEN OR CAPABILITY_RISK_WEIGHTING OR CAPABILITY_ADMIN_COOLDOWN OR CAPABILITY_RATIO_FLOOR"

definition collateral_capabilities :: capability where
  "collateral_capabilities = ALL_COLLATERAL_CAPABILITIES"

text \<open>The bitmap is the seven lowest bits: a client that tests any one capability finds it, and no undocumented
  bit is set.\<close>

lemma collateral_capabilities_mask: "collateral_capabilities = mask 7"
  by (simp add: collateral_capabilities_def ALL_COLLATERAL_CAPABILITIES_def capability_defs mask_eq_exp_minus_1)

lemma collateral_capabilities_bits: "bit collateral_capabilities n \<longleftrightarrow> n < 7"
  by (auto simp: collateral_capabilities_mask bit_mask_iff)

section \<open>The cool-off of the borrow crate\<close>

record ba_env =
  ba_ts :: u64
  ba_signers :: "address list"
  ba_frame :: "address list"
  ba_cooldown_seconds :: "u64 option"
  ba_last_action_timestamp :: "u64 option"

datatype borrow_admin_cooldown_error = CooldownActive

definition cooldown_allows :: "u64 option \<Rightarrow> u64 \<Rightarrow> u64 \<Rightarrow> bool" where
  "cooldown_allows last_action now cooldown =
     (if cooldown = 0 then True
      else case last_action of None \<Rightarrow> True | Some l \<Rightarrow> saturating_sub_u64 now l \<ge> cooldown)"

definition ba_set_cooldown :: "address \<Rightarrow> u64 \<Rightarrow> ba_env \<Rightarrow> ba_env res" where
  "ba_set_cooldown admin seconds w =
     and_then (authorize admin (ba_signers w) (ba_frame w)) (\<lambda>fr.
     Inr (w\<lparr>ba_frame := fr, ba_cooldown_seconds := (if seconds = 0 then None else Some seconds)\<rparr>))"

definition check_borrow_admin_cooldown :: "ba_env \<Rightarrow> borrow_admin_cooldown_error + unit" where
  "check_borrow_admin_cooldown w =
     ensure (cooldown_allows (ba_last_action_timestamp w) (ba_ts w) (or_zero (ba_cooldown_seconds w))) CooldownActive"

definition record_borrow_admin_action :: "ba_env \<Rightarrow> ba_env" where
  "record_borrow_admin_action w = w\<lparr>ba_last_action_timestamp := Some (ba_ts w)\<rparr>"

text \<open>The crate subtracts where the credit contract adds and saturates.  The two tests agree on every
  64-bit input but one: at the last representable instant the credit contract lets a cool-off that
  reaches past the end of time pass, and this crate does not.\<close>

theorem cooldown_tests_agree:
  assumes "in_u64 l" and "in_u64 now" and "in_u64 c" and "0 < c"
  shows "cooldown_allows (Some l) now c \<noteq> (\<not> now < saturating_add_u64 l c) \<longleftrightarrow> now = u64_max \<and> u64_max < l + c"
  using assms by (auto simp: cooldown_allows_def saturating_add_u64_def saturating_sub_u64_def in_u64_def)

theorem cooldown_tests_agree_witness:
  "cooldown_allows (Some 100) 400 300 = (\<not> (400::int) < saturating_add_u64 100 300)"
  using cooldown_tests_agree[of 100 400 300] by (simp add: int_defs)

text \<open>Setting the cool-off needs the signature of the address passed as the admin, whoever that is: the
  check that it is the administrator is left to the caller.\<close>

lemma ba_set_cooldown_any_signer:
  assumes "ba_frame w = []" and "a \<in> set (ba_signers w)"
  shows "\<exists>w'. ba_set_cooldown a 0 w = Inr w' \<and> check_borrow_admin_cooldown w' = Inr ()"
  using assms by (simp add: ba_set_cooldown_def authorize_def check_borrow_admin_cooldown_def
      cooldown_allows_def or_zero_def)

section \<open>Events of the query crate\<close>

datatype query_event =
    CreditLineQueriedEvent address bool u64
  | HealthFactorQueriedEvent address u32 u64
  | DelinquencyCheckedEvent address bool u64
  | ProtocolSummaryQueriedEvent i128 u32 u64

primrec query_topics :: "query_event \<Rightarrow> symbol \<times> symbol" where
  "query_topics (CreditLineQueriedEvent _ _ _) = (''query'', ''cl_read'')"
| "query_topics (HealthFactorQueriedEvent _ _ _) = (''query'', ''hf_read'')"
| "query_topics (DelinquencyCheckedEvent _ _ _) = (''query'', ''dlq_chk'')"
| "query_topics (ProtocolSummaryQueriedEvent _ _ _) = (''query'', ''proto_rd'')"

lemma query_topics_inject:
  "query_topics e = query_topics f \<Longrightarrow>
     (case e of CreditLineQueriedEvent _ _ _ \<Rightarrow> (0::nat) | HealthFactorQueriedEvent _ _ _ \<Rightarrow> 1
        | DelinquencyCheckedEvent _ _ _ \<Rightarrow> 2 | ProtocolSummaryQueriedEvent _ _ _ \<Rightarrow> 3)
   = (case f of CreditLineQueriedEvent _ _ _ \<Rightarrow> 0 | HealthFactorQueriedEvent _ _ _ \<Rightarrow> 1
        | DelinquencyCheckedEvent _ _ _ \<Rightarrow> 2 | ProtocolSummaryQueriedEvent _ _ _ \<Rightarrow> 3)"
  by (cases e; cases f) simp_all

end
