(* ===== verification/Api.thy ===== *)
theory Api
  imports Views Attestation
begin

text \<open>
  The entrypoints of the credit contract (\<^verbatim>\<open>lib.rs\<close>) that delegate to a module: every query, and the operations
  whose body is one call.  Each is named after the entrypoint with the contract's name first.  The locale \<open>setting\<close> is the contract between
  an administrative setter and the query that shows the setting: a write that succeeds is what the query
  then answers.  It is interpreted on every such pair.  Shown: each setting reads back, and after any
  sequence of attempts, failed ones included, the query answers the last accepted value.
\<close>

named_theorems api_defs "unfoldings of the delegating entrypoints"

section \<open>Queries\<close>

definition CONTRACT_API_VERSION :: "u32 \<times> u32 \<times> u32" where
  [api_defs]: "CONTRACT_API_VERSION = (1, 0, 0)"

definition credit_get_version :: "u32 \<times> u32 \<times> u32" where
  [api_defs]: "credit_get_version = CONTRACT_API_VERSION"

definition credit_get_contract_version :: "u32 \<times> u32 \<times> u32" where
  [api_defs]: "credit_get_contract_version = CONTRACT_API_VERSION"

definition credit_get_attestation_batch :: "address \<Rightarrow> 't env \<Rightarrow> attestation_batch option" where
  [api_defs]: "credit_get_attestation_batch b w = get_attestation_batch b w"

definition credit_get_penalty_surcharge_bps :: "'t env \<Rightarrow> u32" where
  [api_defs]: "credit_get_penalty_surcharge_bps w = get_penalty_surcharge_bps w"

definition risk_get_rate_change_limits :: "'t env \<Rightarrow> rate_change_config option" where
  [api_defs]: "risk_get_rate_change_limits w = st_rate_cfg w"

definition credit_get_rate_change_limits :: "'t env \<Rightarrow> rate_change_config option" where
  [api_defs]: "credit_get_rate_change_limits w = risk_get_rate_change_limits w"

definition credit_get_risk_admin_cooldown :: "'t env \<Rightarrow> u64" where
  [api_defs]: "credit_get_risk_admin_cooldown w = get_risk_admin_cooldown_seconds w"

definition credit_get_borrower_rate_floor :: "address \<Rightarrow> 't env \<Rightarrow> u32 option" where
  [api_defs]: "credit_get_borrower_rate_floor b w = get_borrower_rate_floor b w"

definition credit_get_borrower_rate_ceiling :: "address \<Rightarrow> 't env \<Rightarrow> u32 option" where
  [api_defs]: "credit_get_borrower_rate_ceiling b w = get_borrower_rate_ceiling b w"

definition credit_get_median_value :: "'t env \<Rightarrow> contract_error + u128" where
  [api_defs]: "credit_get_median_value w = get_median_value w"

definition credit_get_utilization_cap :: "address \<Rightarrow> 't env \<Rightarrow> u32 option" where
  [api_defs]: "credit_get_utilization_cap b w = get_utilization_cap_bps b w"

definition credit_get_vrf_commitment :: "address \<Rightarrow> 't env \<Rightarrow> vrf_commitment option" where
  [api_defs]: "credit_get_vrf_commitment b w = get_vrf_commitment b w"

definition credit_get_grace_period_config :: "'t env \<Rightarrow> grace_period_config option" where
  [api_defs]: "credit_get_grace_period_config w = storage_get_grace_period_config w"

definition credit_get_borrower_liq_grace :: "address \<Rightarrow> 't env \<Rightarrow> u64" where
  [api_defs]: "credit_get_borrower_liq_grace b w = get_per_borrower_liquidation_grace b w"

definition credit_get_late_fee_config :: "'t env \<Rightarrow> late_fee_config option" where
  [api_defs]: "credit_get_late_fee_config w = storage_get_late_fee_config w"

definition credit_get_repayment_schedule :: "address \<Rightarrow> 't env \<Rightarrow> repayment_schedule option" where
  [api_defs]: "credit_get_repayment_schedule b w = get_repayment_schedule b w"

definition credit_get_late_fee_flat :: "'t env \<Rightarrow> i128" where
  [api_defs]: "credit_get_late_fee_flat w = get_late_fee_flat w"

definition credit_is_delinquent :: "address \<Rightarrow> 't env \<Rightarrow> bool" where
  [api_defs]: "credit_is_delinquent b w = is_delinquent b w"

definition credit_get_health_factor :: "address \<Rightarrow> 't env \<Rightarrow> u32 res" where
  [api_defs]: "credit_get_health_factor b w = get_health_factor b w"

definition credit_get_max_draw_amount :: "'t env \<Rightarrow> i128 option" where
  [api_defs]: "credit_get_max_draw_amount w = st_max_draw_amount w"

definition credit_get_max_repay_amount :: "'t env \<Rightarrow> i128 option" where
  [api_defs]: "credit_get_max_repay_amount w = st_max_repay_amount w"

definition credit_get_draw_min_interval :: "'t env \<Rightarrow> u64 option" where
  [api_defs]: "credit_get_draw_min_interval w = storage_get_draw_min_interval w"

definition credit_get_borrow_admin_cooldown :: "'t env \<Rightarrow> u64 option" where
  [api_defs]: "credit_get_borrow_admin_cooldown w = storage_get_borrow_admin_cooldown w"

definition credit_get_accrual_admin_cooldown :: "'t env \<Rightarrow> u64 option" where
  [api_defs]: "credit_get_accrual_admin_cooldown w = storage_get_accrual_admin_cooldown w"

definition credit_get_protocol_fee_bps :: "'t env \<Rightarrow> u32 option" where
  [api_defs]: "credit_get_protocol_fee_bps w = storage_get_protocol_fee_bps w"

definition credit_get_treasury :: "'t env \<Rightarrow> address option" where
  [api_defs]: "credit_get_treasury w = storage_get_treasury_address w"

definition credit_get_pending_treasury_withdrawal :: "'t env \<Rightarrow> treasury_withdrawal_proposal option" where
  [api_defs]: "credit_get_pending_treasury_withdrawal w = storage_get_pending_treasury_withdrawal w"

definition credit_get_treasury_fee_share_bps :: "'t env \<Rightarrow> u32 option" where
  [api_defs]: "credit_get_treasury_fee_share_bps w = storage_get_treasury_fee_share_bps w"

definition credit_get_bounty :: "'t env \<Rightarrow> address option" where
  [api_defs]: "credit_get_bounty w = storage_get_bounty_address w"

definition credit_get_schema_version :: "'t env \<Rightarrow> u32 option" where
  [api_defs]: "credit_get_schema_version w = storage_get_schema_version w"

definition credit_get_total_utilized :: "'t env \<Rightarrow> i128" where
  [api_defs]: "credit_get_total_utilized w = get_total_utilized w"

definition credit_get_protocol_summary :: "'t env \<Rightarrow> protocol_summary" where
  [api_defs]: "credit_get_protocol_summary w = get_protocol_summary w"

definition credit_get_protocol_summary_view :: "'t env \<Rightarrow> protocol_summary_view" where
  [api_defs]: "credit_get_protocol_summary_view w = get_protocol_summary_view w"

definition credit_get_proof_of_reserve :: "'t env \<Rightarrow> proof_of_reserve" where
  [api_defs]: "credit_get_proof_of_reserve w = get_proof_of_reserve w"

definition credit_borrow_capabilities :: "address \<Rightarrow> 't env \<Rightarrow> borrow_caps" where
  [api_defs]: "credit_borrow_capabilities b w = borrow_capabilities b w"

definition credit_lifecycle_capabilities :: "address \<Rightarrow> 't env \<Rightarrow> lifecycle_caps" where
  [api_defs]: "credit_lifecycle_capabilities b w = lifecycle_capabilities b w"

definition collateral_get_collateral :: "address \<Rightarrow> 't env \<Rightarrow> i128" where
  [api_defs]: "collateral_get_collateral b w = get_collateral_balance b w"

definition credit_get_collateral :: "address \<Rightarrow> 't env \<Rightarrow> i128" where
  [api_defs]: "credit_get_collateral b w = collateral_get_collateral b w"

definition credit_get_collateral_state :: "address \<Rightarrow> 't env \<Rightarrow> collateral_state" where
  [api_defs]: "credit_get_collateral_state b w = get_collateral_state b w"

definition credit_get_min_collateral_ratio_bps :: "'t env \<Rightarrow> u32 option" where
  [api_defs]: "credit_get_min_collateral_ratio_bps w = get_min_collateral_ratio_bps w"

definition credit_get_col_admin_cooldown_secs :: "'t env \<Rightarrow> u64 option" where
  [api_defs]: "credit_get_col_admin_cooldown_secs w = storage_get_admin_collateral_cooldown_seconds w"

definition credit_get_last_col_admin_action_ts :: "'t env \<Rightarrow> u64 option" where
  [api_defs]: "credit_get_last_col_admin_action_ts w = storage_get_last_admin_collateral_critical_action_ts w"

definition credit_get_collateral_tokens :: "'t env \<Rightarrow> address list" where
  [api_defs]: "credit_get_collateral_tokens w = get_collateral_token_allowlist w"

definition collateral_get_collateral_for_token :: "address \<Rightarrow> address \<Rightarrow> 't env \<Rightarrow> i128" where
  [api_defs]: "collateral_get_collateral_for_token b t w = get_collateral_balance_for_token b t w"

definition credit_get_collateral_for_token :: "address \<Rightarrow> address \<Rightarrow> 't env \<Rightarrow> i128" where
  [api_defs]: "credit_get_collateral_for_token b t w = collateral_get_collateral_for_token b t w"

definition credit_get_max_total_exposure :: "'t env \<Rightarrow> i128 option" where
  [api_defs]: "credit_get_max_total_exposure w = storage_get_max_total_exposure w"

definition credit_get_borrower_exposure_cap :: "address \<Rightarrow> 't env \<Rightarrow> i128 option" where
  [api_defs]: "credit_get_borrower_exposure_cap b w = get_max_borrower_exposure b w"

definition get_credit_limit_bounds :: "'t env \<Rightarrow> i128 option \<times> i128 option" where
  [api_defs]: "get_credit_limit_bounds w = (storage_get_min_credit_limit w, storage_get_max_credit_limit w)"

definition credit_get_credit_limit_bounds :: "'t env \<Rightarrow> i128 option \<times> i128 option" where
  [api_defs]: "credit_get_credit_limit_bounds w = get_credit_limit_bounds w"

definition credit_get_credit_line_count :: "'t env \<Rightarrow> u32" where
  [api_defs]: "credit_get_credit_line_count w = get_credit_line_count w"

definition credit_get_auction_contract :: "'t env \<Rightarrow> address option" where
  [api_defs]: "credit_get_auction_contract w = storage_get_auction_contract w"

definition credit_get_pending_auction_count :: "'t env \<Rightarrow> u32" where
  [api_defs]: "credit_get_pending_auction_count w = get_pending_auction_count w"

definition credit_get_close_factor_bps :: "'t env \<Rightarrow> u32" where
  [api_defs]: "credit_get_close_factor_bps w = get_close_factor_bps w"

definition credit_get_oracle_config :: "'t env \<Rightarrow> oracle_config option" where
  [api_defs]: "credit_get_oracle_config w = storage_get_oracle_config w"

definition credit_get_oracle_quorum_config :: "'t env \<Rightarrow> oracle_quorum_config option" where
  [api_defs]: "credit_get_oracle_quorum_config w = storage_get_oracle_quorum_config w"

definition credit_is_borrower_blocked :: "address \<Rightarrow> 't env \<Rightarrow> bool" where
  [api_defs]: "credit_is_borrower_blocked b w = is_borrower_blocked b w"

definition credit_get_credit_line :: "address \<Rightarrow> 't env \<Rightarrow> credit_line_data option" where
  [api_defs]: "credit_get_credit_line b w = get_credit_line b w"

definition credit_get_credit_line_summary :: "address \<Rightarrow> 't env \<Rightarrow> credit_line_data option" where
  [api_defs]: "credit_get_credit_line_summary b w = credit_get_credit_line b w"

definition risk_get_rate_formula_config :: "'t env \<Rightarrow> rate_formula_config option" where
  [api_defs]: "risk_get_rate_formula_config w = st_rate_form w"

definition credit_get_rate_formula_config :: "'t env \<Rightarrow> rate_formula_config option" where
  [api_defs]: "credit_get_rate_formula_config w = risk_get_rate_formula_config w"

definition credit_is_protocol_paused :: "'t env \<Rightarrow> bool" where
  [api_defs]: "credit_is_protocol_paused w = is_paused w"

definition credit_get_protocol_pause_reason :: "'t env \<Rightarrow> pause_reason option" where
  [api_defs]: "credit_get_protocol_pause_reason w = storage_get_pause_reason w"

definition credit_is_draws_frozen :: "'t env \<Rightarrow> bool" where
  [api_defs]: "credit_is_draws_frozen w = is_draws_frozen w"

definition credit_get_draws_freeze_reason :: "'t env \<Rightarrow> freeze_reason option" where
  [api_defs]: "credit_get_draws_freeze_reason w = get_draws_freeze_reason w"

definition credit_is_credit_line_frozen :: "address \<Rightarrow> 't env \<Rightarrow> bool" where
  [api_defs]: "credit_is_credit_line_frozen b w = is_credit_line_frozen b w"

definition freeze_get_credit_line_freeze_reason :: "address \<Rightarrow> 't env \<Rightarrow> freeze_reason option" where
  [api_defs]: "freeze_get_credit_line_freeze_reason b w = st_credit_line_freeze w b"

definition credit_get_credit_line_freeze_reason :: "address \<Rightarrow> 't env \<Rightarrow> freeze_reason option" where
  [api_defs]: "credit_get_credit_line_freeze_reason b w = freeze_get_credit_line_freeze_reason b w"

definition credit_is_borrower_frozen :: "address \<Rightarrow> 't env \<Rightarrow> bool" where
  [api_defs]: "credit_is_borrower_frozen b w = is_borrower_frozen b w"

definition credit_get_borrower_frozen_until :: "address \<Rightarrow> 't env \<Rightarrow> u64 option" where
  [api_defs]: "credit_get_borrower_frozen_until b w = storage_get_borrower_frozen_until b w"

definition get_registry_quorum_threshold :: "'t env \<Rightarrow> u32 option" where
  [api_defs]: "get_registry_quorum_threshold w = st_quorum_threshold w"

section \<open>Entrypoints that delegate\<close>

text \<open>The entrypoints of \<^verbatim>\<open>lib.rs\<close> that hand over to their module; those with a body of their own are defined beside the
  module they belong to.\<close>

definition credit_init :: "address \<Rightarrow> 't env \<Rightarrow> 't env res" where
  [api_defs]: "credit_init admin w = init admin w"

definition credit_commit_attestation_batch :: "address \<Rightarrow> bytes \<Rightarrow> u32 \<Rightarrow> 't env \<Rightarrow> 't env res" where
  [api_defs]: "credit_commit_attestation_batch b merkle_root n w = commit_attestation_batch b merkle_root n w"

definition credit_verify_attestation_proof :: "(bytes \<Rightarrow> bytes) \<Rightarrow> address \<Rightarrow> bytes \<Rightarrow> bytes list \<Rightarrow> 't env \<Rightarrow> bool res" where
  [api_defs]: "credit_verify_attestation_proof sha b leaf proof w = verify_attestation_proof sha b leaf proof w"

definition credit_clear_attestation_batch :: "address \<Rightarrow> 't env \<Rightarrow> 't env res" where
  [api_defs]: "credit_clear_attestation_batch b w = clear_attestation_batch b w"

definition credit_set_liquidity_token :: "address \<Rightarrow> 't env \<Rightarrow> 't env res" where
  [api_defs]: "credit_set_liquidity_token t w = set_liquidity_token t w"

definition credit_set_liquidity_source :: "address \<Rightarrow> 't env \<Rightarrow> 't env res" where
  [api_defs]: "credit_set_liquidity_source r w = set_liquidity_source r w"

definition credit_set_rate_change_limits :: "u32 \<Rightarrow> u64 \<Rightarrow> 't env \<Rightarrow> 't env res" where
  [api_defs]: "credit_set_rate_change_limits max_change min_interval w = set_rate_change_limits max_change min_interval w"

definition credit_set_penalty_surcharge_bps :: "u32 \<Rightarrow> 't env \<Rightarrow> 't env res" where
  [api_defs]: "credit_set_penalty_surcharge_bps bps w = set_penalty_surcharge_bps bps w"

definition credit_set_risk_admin_cooldown :: "u64 \<Rightarrow> 't env \<Rightarrow> 't env res" where
  [api_defs]: "credit_set_risk_admin_cooldown seconds w = set_risk_admin_cooldown seconds w"

definition credit_set_borrower_rate_floor :: "address \<Rightarrow> u32 option \<Rightarrow> 't env \<Rightarrow> 't env res" where
  [api_defs]: "credit_set_borrower_rate_floor b floor_bps w = set_borrower_rate_floor b floor_bps w"

definition credit_set_borrower_rate_ceiling :: "address \<Rightarrow> u32 option \<Rightarrow> 't env \<Rightarrow> 't env res" where
  [api_defs]: "credit_set_borrower_rate_ceiling b ceiling_bps w = set_borrower_rate_ceiling b ceiling_bps w"

definition credit_add_oracle :: "address \<Rightarrow> u32 \<Rightarrow> 't env \<Rightarrow> 't env res" where
  [api_defs]: "credit_add_oracle oracle weight w = add_oracle oracle weight w"

definition credit_remove_oracle :: "address \<Rightarrow> 't env \<Rightarrow> 't env res" where
  [api_defs]: "credit_remove_oracle oracle w = remove_oracle oracle w"

definition credit_set_quorum_threshold :: "u32 \<Rightarrow> 't env \<Rightarrow> 't env res" where
  [api_defs]: "credit_set_quorum_threshold threshold w = set_quorum_threshold threshold w"

definition credit_set_reporting_window :: "u64 \<Rightarrow> 't env \<Rightarrow> 't env res" where
  [api_defs]: "credit_set_reporting_window window_seconds w = set_reporting_window window_seconds w"

definition credit_report_value :: "address \<Rightarrow> u128 \<Rightarrow> 't env \<Rightarrow> 't env res" where
  [api_defs]: "credit_report_value oracle v w = report_value oracle v w"

definition credit_commit_vrf_output :: "address \<Rightarrow> bytes \<Rightarrow> 't env \<Rightarrow> 't env res" where
  [api_defs]: "credit_commit_vrf_output b h w = commit_vrf_output b h w"

definition credit_clear_vrf_commitment :: "address \<Rightarrow> 't env \<Rightarrow> 't env res" where
  [api_defs]: "credit_clear_vrf_commitment b w = clear_vrf_commitment b w"

definition credit_set_borrower_liq_grace :: "address \<Rightarrow> u64 \<Rightarrow> 't env \<Rightarrow> 't env res" where
  [api_defs]: "credit_set_borrower_liq_grace b secs w = set_per_borrower_liquidation_grace b secs w"

definition credit_set_repayment_schedule :: "address \<Rightarrow> i128 \<Rightarrow> u64 \<Rightarrow> u64 \<Rightarrow> 't env \<Rightarrow> 't env res" where
  [api_defs]: "credit_set_repayment_schedule b per_period period first_due_ts w = set_repayment_schedule b per_period period first_due_ts w"

definition credit_set_late_fee_flat :: "i128 \<Rightarrow> 't env \<Rightarrow> 't env res" where
  [api_defs]: "credit_set_late_fee_flat fee w = set_late_fee_flat fee w"

definition credit_get_credit_lines_paginated :: "u32 option \<Rightarrow> u32 \<Rightarrow> 't env \<Rightarrow> credit_lines_page res option" where
  [api_defs]: "credit_get_credit_lines_paginated cursor limit w = get_credit_lines_paginated cursor limit w"

definition credit_deposit_collateral :: "'t token_client \<Rightarrow> address \<Rightarrow> i128 \<Rightarrow> 't env \<Rightarrow> 't env res" where
  [api_defs]: "credit_deposit_collateral tok b amount w = deposit_collateral tok b amount w"

definition credit_withdraw_collateral :: "'t token_client \<Rightarrow> address \<Rightarrow> i128 \<Rightarrow> 't env \<Rightarrow> 't env res" where
  [api_defs]: "credit_withdraw_collateral tok b amount w = withdraw_collateral tok b amount w"

definition credit_set_collateral_risk_weight :: "address \<Rightarrow> u32 \<Rightarrow> 't env \<Rightarrow> 't env res" where
  [api_defs]: "credit_set_collateral_risk_weight asset weight_bps w = set_collateral_risk_weight asset weight_bps w"

definition credit_set_min_collateral_ratio_bps :: "u32 \<Rightarrow> 't env \<Rightarrow> 't env res" where
  [api_defs]: "credit_set_min_collateral_ratio_bps ratio_bps w = set_min_collateral_ratio_bps ratio_bps w"

definition credit_set_col_admin_cooldown_secs :: "u64 \<Rightarrow> 't env \<Rightarrow> 't env res" where
  [api_defs]: "credit_set_col_admin_cooldown_secs seconds w = set_admin_collateral_cooldown_seconds seconds w"

definition credit_partial_release_collateral :: "'t token_client \<Rightarrow> address \<Rightarrow> i128 \<Rightarrow> 't env \<Rightarrow> 't env res" where
  [api_defs]: "credit_partial_release_collateral tok b amount w = partial_release_collateral tok b amount w"

definition credit_set_collateral_token_allowlist :: "'t token_client \<Rightarrow> address list \<Rightarrow> 't env \<Rightarrow> 't env res" where
  [api_defs]: "credit_set_collateral_token_allowlist tok ts w = set_collateral_token_allowlist tok ts w"

definition credit_deposit_collateral_token :: "'t token_client \<Rightarrow> address \<Rightarrow> address \<Rightarrow> i128 \<Rightarrow> 't env \<Rightarrow> 't env res" where
  [api_defs]: "credit_deposit_collateral_token tok b token_addr amount w = deposit_collateral_token tok b token_addr amount w"

definition credit_withdraw_collateral_token :: "'t token_client \<Rightarrow> address \<Rightarrow> address \<Rightarrow> i128 \<Rightarrow> 't env \<Rightarrow> 't env res" where
  [api_defs]: "credit_withdraw_collateral_token tok b token_addr amount w = withdraw_collateral_token tok b token_addr amount w"

definition credit_set_credit_limit_bounds :: "i128 \<Rightarrow> i128 \<Rightarrow> 't env \<Rightarrow> 't env res" where
  [api_defs]: "credit_set_credit_limit_bounds lo hi w = set_credit_limit_bounds lo hi w"

definition credit_self_suspend_credit_line :: "address \<Rightarrow> 't env \<Rightarrow> 't env res" where
  [api_defs]: "credit_self_suspend_credit_line b w = self_suspend_credit_line b w"

definition credit_self_unsuspend_credit_line :: "address \<Rightarrow> 't env \<Rightarrow> 't env res" where
  [api_defs]: "credit_self_unsuspend_credit_line b w = self_unsuspend_credit_line b w"

definition credit_freeze_draws :: "freeze_reason \<Rightarrow> 't env \<Rightarrow> 't env res" where
  [api_defs]: "credit_freeze_draws reason w = freeze_draws reason w"

definition credit_unfreeze_draws :: "'t env \<Rightarrow> 't env res" where
  [api_defs]: "credit_unfreeze_draws w = unfreeze_draws w"

section \<open>Settings read back\<close>

lemmas setting_defs = set_grace_period_config_def set_late_fee_config_def set_max_draw_amount_def
  set_max_repay_amount_def set_draw_min_interval_def set_borrow_admin_cooldown_def set_accrual_admin_cooldown_def
  set_protocol_fee_bps_def set_treasury_fee_share_bps_def set_max_total_exposure_def set_borrower_exposure_cap_def
  set_auction_contract_def set_close_factor_bps_def set_treasury_def set_bounty_def set_rate_change_limits_def
  set_penalty_surcharge_bps_def set_rate_formula_config_def set_risk_admin_cooldown_def set_late_fee_flat_def
  set_credit_limit_bounds_def set_per_borrower_liquidation_grace_def

definition attempt :: "('v \<Rightarrow> 's \<Rightarrow> 'e + 's) \<Rightarrow> 'v \<Rightarrow> 's \<Rightarrow> 's" where
  "attempt put v w = (case put v w of Inl _ \<Rightarrow> w | Inr w' \<Rightarrow> w')"

primrec accepted :: "('v \<Rightarrow> 's \<Rightarrow> 'e + 's) \<Rightarrow> 'v list \<Rightarrow> 's \<Rightarrow> 'v list" where
  "accepted put [] w = []"
| "accepted put (v # vs) w = (case put v w of Inl _ \<Rightarrow> accepted put vs w | Inr w' \<Rightarrow> v # accepted put vs w')"

locale setting =
  fixes put :: "'v \<Rightarrow> 's \<Rightarrow> 'e + 's" and get :: "'s \<Rightarrow> 'r" and shown :: "'v \<Rightarrow> 'r"
  assumes read_back: "put v w = Inr w' \<Longrightarrow> get w' = shown v"
begin

text \<open>After a sequence of attempts the query answers the last accepted value, or what it answered before.\<close>

lemma last_accepted:
  "get (fold (attempt put) vs w) = (if accepted put vs w = [] then get w else shown (List.last (accepted put vs w)))"
proof (induction vs arbitrary: w)
  case Nil
  then show ?case by simp
next
  case (Cons v vs)
  then show ?case by (cases "put v w") (simp_all add: attempt_def read_back)
qed

end

interpretation max_draw: setting set_max_draw_amount credit_get_max_draw_amount Some
  by unfold_locales (auto simp: api_defs setting_defs)

interpretation max_repay: setting set_max_repay_amount credit_get_max_repay_amount Some
  by unfold_locales (auto simp: api_defs setting_defs)

interpretation draw_interval: setting set_draw_min_interval credit_get_draw_min_interval Some
  by unfold_locales (auto simp: api_defs setting_defs)

interpretation borrow_cooldown: setting set_borrow_admin_cooldown credit_get_borrow_admin_cooldown Some
  by unfold_locales (auto simp: api_defs setting_defs)

interpretation accrual_cooldown: setting set_accrual_admin_cooldown credit_get_accrual_admin_cooldown Some
  by unfold_locales (auto simp: api_defs setting_defs)

interpretation protocol_fee: setting set_protocol_fee_bps credit_get_protocol_fee_bps Some
  by unfold_locales (auto simp: api_defs setting_defs)

interpretation fee_share: setting set_treasury_fee_share_bps credit_get_treasury_fee_share_bps Some
  by unfold_locales (auto simp: api_defs setting_defs)

interpretation total_exposure: setting set_max_total_exposure credit_get_max_total_exposure "\<lambda>v. if v = 0 then None else Some v"
  by unfold_locales (auto simp: api_defs setting_defs store_defs)

interpretation borrower_exposure: setting "set_borrower_exposure_cap b" "credit_get_borrower_exposure_cap b"
  "\<lambda>v. if v = 0 then None else Some v" for b
  by unfold_locales (auto simp: api_defs setting_defs store_defs)

interpretation auction_address: setting set_auction_contract credit_get_auction_contract Some
  by unfold_locales (auto simp: api_defs setting_defs)

interpretation close_factor: setting set_close_factor_bps credit_get_close_factor_bps id
  by unfold_locales (auto simp: api_defs setting_defs store_defs)

interpretation treasury_address: setting "set_treasury a" credit_get_treasury Some for a
  by unfold_locales (auto simp: api_defs setting_defs)

interpretation bounty_address: setting "set_bounty a" credit_get_bounty Some for a
  by unfold_locales (auto simp: api_defs setting_defs)

interpretation surcharge: setting set_penalty_surcharge_bps credit_get_penalty_surcharge_bps id
  by unfold_locales (auto simp: api_defs setting_defs store_defs)

interpretation risk_cooldown: setting set_risk_admin_cooldown credit_get_risk_admin_cooldown id
  by unfold_locales (auto simp: api_defs setting_defs store_defs)

interpretation late_fee: setting set_late_fee_flat credit_get_late_fee_flat id
  by unfold_locales (auto simp: api_defs setting_defs store_defs)

interpretation late_fee_choice: setting set_late_fee_config credit_get_late_fee_config id
  by unfold_locales (auto simp: api_defs setting_defs)

interpretation limit_bounds: setting "\<lambda>(lo, hi). set_credit_limit_bounds lo hi" credit_get_credit_limit_bounds
  "\<lambda>(lo, hi). (Some lo, Some hi)"
  by unfold_locales (auto simp: api_defs setting_defs)

interpretation rate_limits: setting "\<lambda>(change, interval). set_rate_change_limits change interval" credit_get_rate_change_limits
  "\<lambda>(change, interval). Some \<lparr>max_rate_change_bps = change, rate_change_min_interval = interval\<rparr>"
  by unfold_locales (auto simp: api_defs setting_defs)

interpretation rate_formula: setting "\<lambda>(base, slope, lo, hi). set_rate_formula_config base slope lo hi" credit_get_rate_formula_config
  "\<lambda>(base, slope, lo, hi). Some \<lparr>base_rate_bps = base, slope_bps_per_score = slope, min_rate_bps = lo, max_rate_bps = hi\<rparr>"
  by unfold_locales (auto simp: api_defs setting_defs store_defs)

interpretation grace: setting "\<lambda>(secs, mode, rate). set_grace_period_config secs mode rate" credit_get_grace_period_config
  "\<lambda>(secs, mode, rate). Some \<lparr>grace_period_seconds = secs, waiver_mode = mode, reduced_rate_bps = rate\<rparr>"
  by unfold_locales (auto simp: api_defs setting_defs)

interpretation liquidation_grace: setting "set_per_borrower_liquidation_grace b" "credit_get_borrower_liq_grace b" id for b
  by unfold_locales (auto simp: api_defs setting_defs store_defs)

end
