(* ===== verification/Spec2Isabelle.thy ===== *)
theory Spec2Isabelle
  imports Book Liquidation DutchCurve AuctionStore CrowdPay CwViews CwEncoding Companions Api
begin

text \<open>
  Verification of Creditra, a credit-line protocol on Soroban: the credit contract
  (\<^verbatim>\<open>src/contracts/credit\<close>) and the auction contract its defaults are liquidated through
  (\<^verbatim>\<open>src/gateway-contract/contracts/auction_contract\<close>).

  \<^bold>\<open>The program.\<close>  One contract keeps a credit line per borrower.  An admin opens, prices, suspends,
  defaults, settles, forgives and reinstates lines; a borrower draws against a line, repays it and
  pledges collateral; interest accrues lazily, at the next call that touches a line.  Freezes,
  blocklists, caps, cool-offs, oracles and a pause flag guard these operations, fees are split between a
  treasury and a bounty pool, and defaulted lines are settled through an auction contract.  Every entrypoint is one host
  invocation: it either completes or is rolled back as a whole.

  \<^bold>\<open>The model.\<close>  The record \<open>env\<close> (theory \<open>Storage\<close>) has one field per storage key of
  \<^verbatim>\<open>storage.rs\<close> plus the host's ledger time, signers, the addresses this frame has authorised, and the event
  log.  An entrypoint is a function from \<open>env\<close> to \<open>host_error + env\<close>, written as the source is: the same checks in the same
  order, early returns and panics as \<open>Inl\<close>.  Integers are \<open>int\<close> with the width written out where the
  source checks, saturates, casts or can overflow (theory \<open>Prelude\<close>).  The token contracts and the auction client are
  code outside the contract and enter as records of operations on an opaque state; the laws used of a token are the
  locale \<open>sac_token\<close>, which the concrete token \<open>book_token\<close> satisfies.  SHA-256 is a parameter.

  \<^bold>\<open>Theories and sources.\<close>
  \<^item> \<open>Prelude\<close>: Rust integer arithmetic, results, loops, sums over maps.
  \<^item> \<open>Types\<close>: \<^verbatim>\<open>types.rs\<close>, \<^verbatim>\<open>errors.rs\<close>, the payloads of \<^verbatim>\<open>events.rs\<close>.
  \<^item> \<open>Storage\<close>: the state, indexes, counters and guards of \<^verbatim>\<open>storage.rs\<close>, \<^verbatim>\<open>auth.rs\<close>; \<open>Cells\<close>: its single-entry accessors, each pair an
    instance of the locale \<open>storage_cell\<close>; \<open>Events\<close>: the publishers of \<^verbatim>\<open>events.rs\<close> with their topics; \<open>Accounting\<close>: the
    ledger invariant and what the storage operations do to it.
  \<^item> \<open>MathUtils\<close>: \<^verbatim>\<open>math_utils.rs\<close>; \<open>Fees\<close>: \<^verbatim>\<open>fees.rs\<close>, \<^verbatim>\<open>penalties.rs\<close>; \<open>Cooldown\<close>: the locale of the cool-offs.
  \<^item> \<open>Accrual\<close>: \<^verbatim>\<open>accrual.rs\<close>, with the locale \<open>line_accruer\<close> that every client of accrual relies on.
  \<^item> \<open>Collateral\<close>: \<^verbatim>\<open>collateral.rs\<close>; \<open>Oracle\<close>: \<^verbatim>\<open>oracles.rs\<close>, \<^verbatim>\<open>oracle_validation.rs\<close>.
  \<^item> \<open>Lifecycle\<close>: \<^verbatim>\<open>lifecycle.rs\<close>, \<^verbatim>\<open>handshake.rs\<close>; \<open>Freeze\<close>: \<^verbatim>\<open>freeze.rs\<close>; \<open>Risk\<close>: \<^verbatim>\<open>risk.rs\<close>, \<^verbatim>\<open>scoring.rs\<close>.
  \<^item> \<open>Borrow\<close>: draws, repayments and reversals of \<^verbatim>\<open>lib.rs\<close>, \<^verbatim>\<open>borrow.rs\<close>, \<^verbatim>\<open>limits.rs\<close>.
  \<^item> \<open>Admin\<close>: \<^verbatim>\<open>config.rs\<close>, settings, rotation, treasury and upgrade of \<^verbatim>\<open>lib.rs\<close>; the locale \<open>timelocked\<close>.
  \<^item> \<open>Views\<close>: \<^verbatim>\<open>views.rs\<close>, \<^verbatim>\<open>query.rs\<close>, listings; \<open>Attestation\<close>: \<^verbatim>\<open>attestation.rs\<close>;
    \<open>Api\<close>: the entrypoints of \<^verbatim>\<open>lib.rs\<close> that delegate, and the locale \<open>setting\<close> of a setter and its query.
  \<^item> \<open>Protocol\<close>: every state-changing entrypoint as a call, steps and runs; \<open>Book\<close>: the abstract book and the refinement.
  \<^item> \<open>Auction\<close>: the auction contract's \<^verbatim>\<open>lib.rs\<close>, \<^verbatim>\<open>curves.rs\<close>, \<^verbatim>\<open>types.rs\<close>, with its own state record \<open>auction_env\<close>, its
    prices and the arithmetic of its curves; \<open>DutchCurve\<close>: these prices against the curves that the source documents, over the reals for
    the exponential one; \<open>AuctionStore\<close>: the cells of its \<^verbatim>\<open>storage.rs\<close>, each an instance of the locale \<open>keyed_cell\<close>;
    \<open>AuctionRun\<close>: its runs; \<open>Liquidation\<close>: the settlement of the credit contract with any auction contract as its client, and
    with this one.
  \<^item> \<open>Escrow\<close>: the campaign escrow and the milestones contract that releases from it
    (\<^verbatim>\<open>src/contracts/soroban/contracts/{escrow,milestones}\<close>); \<open>CrowdPay\<close>: the crowdpay contract beside them.
  \<^item> \<open>CwState\<close>, \<open>CwContract\<close>, \<open>CwViews\<close>: the CosmWasm crate \<^verbatim>\<open>src/contracts/creditra-credit\<close>, a second implementation of
    credit lines: its storage and modules, its messages and runs (\<open>cw_ledger\<close>), its queries; \<open>CwEncoding\<close>: the migration of
    its serialised errors (\<^verbatim>\<open>migrate.rs\<close>), with the serde-derived readers and writers on JSON trees and only the text of JSON as a
    parameter, and its borrower keys (\<^verbatim>\<open>key.rs\<close>).
  \<^item> \<open>Companions\<close>: the standalone risk contract (\<^verbatim>\<open>src/contracts/risk\<close>) and its runs, the collateral contract
    (\<^verbatim>\<open>src/contracts/collateral\<close>) with its abstract table of balances, the error catalogs, the cool-off of \<^verbatim>\<open>src/contracts/borrow\<close>
    and the events of \<^verbatim>\<open>src/contracts/query\<close>.

  \<^bold>\<open>What is shown.\<close>  Over every run from deployment, with any signers, any passage of time and any behaviour of
  the token and auction contracts: the aggregates and the index equal what they stand for; every step refines
  the status machine of the code, whose edges are the documented ones but for one named departure; principals grow only by draws their borrowers sign and collateral moves only
  with its owner's signature; debts stay in range as long as no draw is reversed; a settlement id is used
  once; the admin changes only by rotation, and a matured rotation can be completed.  Per component: the exact
  effect of draws, repayments, accrual, settlements, risk updates, withdrawals and fee
  splits on every branch; the exactness of the fixed-point routines and of the closed formulas; the majority
  and quorum guarantees of the oracles; the timelock of the treasury; completeness of the listings; completeness of the
  Merkle proofs and their soundness up to an exhibited hash collision.  For the auction contract: what an accepted bid guarantees, how far its
  prices are from the documented curves, and over every run that an auction is paid out once and that the contract as it can be
  deployed only records and signals; for the two contracts together, what a settlement has obtained from the auction
  contract.  For the campaign contracts: the exact split of a withdrawal, the books of the escrow, that
  milestone releases never exceed what was raised and that refunds stay covered.  For the CosmWasm crate, over every run: the
  draws of a line stay within its credit amount, every message stays with its tenant and all but draws, repayments and oracle reports with
  the owner, audit trails are complete, the reports give the exact sums, and a migrated error is the document that the migration guide
  gives for it.  For the companions: recorded risk actions are a
  cool-off apart over every run, and the collateral contract is a table of balances whatever it migrates.  Where the code departs from its documentation the
  theorem states what the code does and the text before it names the departure, and where it misbehaves the behaviour is a theorem
  (a reversal that drives a debt negative, a waiver that is charged again, entrypoints that always revert, a
  page that repeats a line, a risk contract that any signer can take over, a withdrawal that is not limited by the balance).

  \<^bold>\<open>Bounds.\<close>  Loops over lists are structural recursion; the two listings, whose counters saturate, are partial functions whose termination is
  proved; no definition uses fuel.  A step that opens a line for a new borrower presupposes that fewer than \<open>2^32 - 1\<close> ids are in use, because the index
  counter saturates there.

  \<^bold>\<open>Not modelled.\<close>  Entry expiry other than the abort of \<^verbatim>\<open>extend_ttl\<close> on a missing entry; resource limits; re-entrance
  through a token (the reentrancy flag is modelled, a nested call is not); the installed code of an upgrade; the
  JSON encoding of the CosmWasm messages and the text of JSON; the files that no crate compiles (\<^verbatim>\<open>events.rs\<close> of freeze and accrual, \<^verbatim>\<open>admin.rs\<close> of
  lifecycle, \<^verbatim>\<open>views.rs\<close> of risk), crates that only re-export the credit contract, and test-only instrumentation.
\<close>

section \<open>Invariants of every run\<close>

text \<open>C1 The books always balance: after any sequence of successful calls on a fresh deployment, whoever signed them, the
  borrower index is a bijection with the stored lines, the total debt is the sum of the lines' debts, the active-line and
  pending-auction counters count the active and the defaulted lines, the total collateral is the sum of the deposits, and the
  published summary reports exactly these sums.\<close>

theorem books_always_balance:
  assumes "run tok auc (genesis ts self tk) cs w"
  shows "index_ok (st_lines w) (st_credit_line_id w) (st_borrower_by_id w) (get_credit_line_count w)
    \<and> pv_total_utilized (get_protocol_summary_view w) = (\<Sum>b\<in>dom (st_lines w). utilized_amount (the (st_lines w b)))
    \<and> pv_active_line_count (get_protocol_summary_view w) = count_status Active (st_lines w)
    \<and> get_pending_auction_count w = count_status Defaulted (st_lines w)
    \<and> collateral_ok (st_lines w) (st_collateral_balance w) (pv_total_collateral (get_protocol_summary_view w))
    \<and> ps_count (get_protocol_summary w) = int (card (dom (st_lines w)))
    \<and> (\<forall>b l. st_lines w b = Some l \<longrightarrow> borrower l = b)"
proof -
  have "ledger_ok False w" using run_inv[OF assms genesis_inv[of False]] by (simp add: contract_inv_def)
  then show ?thesis
    using index_ok_card[of "st_lines w" "st_credit_line_id w" "st_borrower_by_id w" "get_credit_line_count w"]
    by (auto simp: ledger_gap_def books_gap_def lines_ok_def line_ok_def get_protocol_summary_view_def
        get_protocol_summary_def map_sum_def)
qed

text \<open>C5 Debts stay well formed: in every run without a draw reversal, each stored line belongs to its borrower and has
  \<open>0 \<le> accrued_interest \<le> utilized_amount \<le> i128::MAX\<close>.\<close>

theorem debts_stay_in_range:
  assumes "run tok auc (genesis ts self tk) cs w" and "\<forall>(sg, c)\<in>set cs. \<not> reverses c" and "st_lines w b = Some l"
  shows "borrower l = b \<and> 0 \<le> accrued_interest l \<and> accrued_interest l \<le> utilized_amount l \<and> utilized_amount l \<le> i128_max"
proof -
  have "ledger_ok True w" using run_inv[OF assms(1) genesis_inv[of True]] assms(2) by (simp add: contract_inv_def)
  then show ?thesis using ledger_line[of True 0 w b l] assms(3) by (simp add: line_ok_def)
qed


text \<open>C3 Nobody can borrow for somebody else, after any run without a draw reversal: when a step raises the principal of a line, the
  call is a draw of exactly the difference and the borrower signed it; a line that a step creates was opened by a call that the
  admin signed, is active and has zero debt and zero interest.  (\<^verbatim>\<open>docs/credit.md\<close> asks for no signature on a brand-new line; the
  code always asks for the admin's.)\<close>

theorem principal_needs_signature:
  assumes "run tok auc (genesis ts self tk) cs w" and "\<forall>(sg, c)\<in>set cs. \<not> reverses c" and "step tok auc w (sg, c) w'"
    and "st_lines w' b = Some l'"
  shows "case st_lines w b of
      None \<Rightarrow> (\<exists>a. st_admin w = Some a \<and> a \<in> set sg) \<and> (\<exists>x r s. c = LifecycleCall (OpenCreditLine b x r s))
        \<and> status l' = Active \<and> utilized_amount l' = 0 \<and> accrued_interest l' = 0
    | Some l \<Rightarrow> utilized_amount l - accrued_interest l < utilized_amount l' - accrued_interest l' \<longrightarrow>
        b \<in> set sg \<and> (\<exists>x. c = BorrowCall (DrawCredit b x)
          \<and> utilized_amount l' - accrued_interest l' = utilized_amount l - accrued_interest l + x)"
proof -
  have lo: "ledger_ok True w" using run_inv[OF assms(1) genesis_inv[of True]] assms(2) by (simp add: contract_inv_def)
  note bs = step_refines[OF assms(3) lo]
  have b': "book_of w' b = Some (line_view l')" using assms(4) by (rule book_of_Some)
  show ?thesis
  proof (cases "st_lines w b")
    case None
    then have "book_of w b = None" by (simp add: book_of_def)
    then obtain x r s where a: "by_admin (st_admin w) sg" "status l' = Active" and c: "c = LifecycleCall (OpenCreditLine b x r s)"
      using book_new[OF bs, of b "status l'" "utilized_amount l' - accrued_interest l'"] b' by (auto simp: line_view_def)
    from assms(3) obtain ts sq tk where "open_credit_line b x r s (frame_of ts sq sg tk w) = Inr w'"
      unfolding c by (rule step_cases) auto
    then have "utilized_amount l' = 0 \<and> accrued_interest l' = 0" by (rule open_new_line) (use None assms(4) in auto)
    then show ?thesis using a c None by (simp add: by_admin_def)
  next
    case (Some l)
    then have "book_of w b = Some (line_view l)" "0 \<le> utilized_amount l - accrued_interest l"
      using ledger_line[OF lo, of b l] by (auto simp: book_of_def line_ok_def)
    then show ?thesis using book_growth[OF bs, of b] b' Some by (auto simp: line_view_def)
  qed
qed

text \<open>C6 A settlement id is used at most once: no run settles the same borrower under the same id twice.\<close>

theorem settlement_once_per_run:
  assumes "run tok auc (genesis ts self tk) cs w"
  shows "length (filter (\<lambda>(sg, c). settles c (b, sid)) cs) \<le> 1"
  using markers_once[OF assms, of "(b, sid)"] by (simp add: genesis_def)

text \<open>C7 The admin changes only by initialisation or by the two-step rotation: a step that changes the admin is the first
  \<open>init\<close>, or the acceptance of the standing proposal, signed by the proposed admin, at a ledger time that has reached the time
  stored with the proposal (0 when none is stored).\<close>

theorem admin_changes_by_rotation:
  assumes "step tok auc w (sg, c) w'" and "st_admin w' \<noteq> st_admin w"
  shows "(\<exists>a. c = AdminCall (Init a) \<and> st_admin w = None \<and> st_admin w' = Some a)
    \<or> (\<exists>p. c = AdminCall AcceptAdmin \<and> st_proposed_admin w = Some p \<and> p \<in> set sg \<and> st_admin w' = Some p
         \<and> (case st_proposed_at w of None \<Rightarrow> 0 | Some t \<Rightarrow> t) \<le> ledger_ts w')"
  using assms(1)
proof (rule step_cases)
  fix ts sq tk assume e: "exec tok auc c (frame_of ts sq sg tk w) = Inr w'"
  show ?thesis using exec_admin_change[OF e] assms(2) by (auto simp: frame_of_def)
qed

text \<open>C4 Collateral moves only with its owner's signature: a step that changes a borrower's deposited balance was signed
  by that borrower.\<close>

theorem collateral_needs_signature:
  assumes "step tok auc w (sg, c) w'" and "st_collateral_balance w' b \<noteq> st_collateral_balance w b"
  shows "b \<in> set sg"
  using assms(1)
proof (rule step_cases)
  fix ts sq tk assume e: "exec tok auc c (frame_of ts sq sg tk w) = Inr w'"
  show ?thesis using exec_collateral_signed[OF e, of b] assms(2) by (auto simp: frame_of_def)
qed

text \<open>C8 A proposed admin can always take over: once the delay of a proposal has passed and the proposal still
  stands, the proposed address alone completes the rotation, whatever else has happened to the contract.\<close>

theorem rotation_completes:
  assumes "propose_admin p delay w = Inr w1"
    and "st_proposed_admin w2 = st_proposed_admin w1" and "st_proposed_at w2 = st_proposed_at w1"
    and "ledger_ts w + delay \<le> now"
  shows "\<exists>w3. exec tok auc (AdminCall AcceptAdmin) (frame_of now sq [p] tk w2) = Inr w3 \<and> st_admin w3 = Some p
    \<and> st_proposed_admin w3 = None"
proof -
  have "st_proposed_admin w2 = Some p" "st_proposed_at w2 = Some (saturating_add_u64 (ledger_ts w) delay)"
    using assms(1-3) by (auto simp: propose_admin_def Let_def emit_def dest!: require_admin_auth_Inr)
  then show ?thesis using assms(4)
    by (auto simp: accept_admin_def frame_of_def require_auth_def emit_def ensure_def saturating_add_u64_def)
qed

section \<open>A sample run\<close>

text \<open>Calls one after another, each with its ledger time and signers, on the tokens the last call left; each is a step.\<close>

primrec perform ::
  "'t token_client \<Rightarrow> 't auction_client \<Rightarrow> (u64 \<times> invocation) list \<Rightarrow> 't env \<Rightarrow> 't env option" where
  "perform tok auc [] w = Some w"
| "perform tok auc (x # xs) w =
     (case x of (ts, sg, c) \<Rightarrow>
        if ledger_ts w \<le> ts \<and> has_room c w
        then (case exec tok auc c (frame_of ts 1 sg (tokens w) w) of Inl _ \<Rightarrow> None | Inr w' \<Rightarrow> perform tok auc xs w')
        else None)"

lemma perform_step: "perform tok auc [(ts, sg, c)] w = Some w' \<Longrightarrow> step tok auc w (sg, c) w'"
  by (auto split: if_splits sum.splits intro: step.invoke)

lemma perform_append:
  "perform tok auc (xs @ ys) w = (case perform tok auc xs w of None \<Rightarrow> None | Some v \<Rightarrow> perform tok auc ys v)"
  by (induction xs arbitrary: w) (auto split: sum.splits)

lemma perform_extends:
  "perform tok auc xs w = Some w' \<Longrightarrow> run tok auc w0 cs w \<Longrightarrow> run tok auc w0 (cs @ map snd xs) w'"
proof (induction xs arbitrary: w cs)
  case Nil
  then show ?case by simp
next
  case (Cons x xs)
  obtain ts sg c where x: "x = (ts, sg, c)" by (cases x)
  obtain v where v: "perform tok auc [(ts, sg, c)] w = Some v" "perform tok auc xs v = Some w'"
    using Cons.prems(1) perform_append[of tok auc "[x]" xs w] x by (auto split: option.splits)
  have "run tok auc w0 (cs @ [(sg, c)]) v" by (rule run.extend[OF Cons.prems(2) perform_step[OF v(1)]])
  from Cons.IH[OF v(2) this] show ?case by (simp add: x)
qed

lemmas perform_runs = perform_extends[OF _ run.start, simplified]

text \<open>A deployment initialised by address 1, which opens a line for borrower 5; the borrower draws, the line defaults and
  half of it is settled.\<close>

definition sample_start :: "(address \<times> address \<Rightarrow> int) env" where
  "sample_start = genesis 1 9 (\<lambda>_. 1000)"

definition sample_setup :: "(u64 \<times> invocation) list" where
  "sample_setup =
     [(1, [1], AdminCall (Init 1)),
      (1, [1], AdminCall (SetLiquidityToken 3)),
      (1, [1], CollateralCall (SetMinCollateralRatioBps 0))]"

definition credit_calls :: "(u64 \<times> invocation) list" where
  "credit_calls = sample_setup @
     [(1, [1], LifecycleCall (OpenCreditLine 5 10 0 0)),
      (2, [5], BorrowCall (DrawCredit 5 8)),
      (2, [1], LifecycleCall (DefaultCreditLine 5)),
      (2, [1], LifecycleCall (SettleDefaultLiquidation 5 4 ''s1'' 5000 None))]"

lemmas sample_eval = sample_start_def sample_setup_def genesis_def frame_of_def init_def set_liquidity_token_def SCHEMA_VERSION_def
  set_min_collateral_ratio_bps_def collateral_admin_action_def enforce_admin_collateral_cooldown_def
  touch_admin_collateral_critical_action_ts_def open_credit_line_def require_admin_auth_def require_admin_def
  enforce_borrow_admin_cooldown_def enforce_accrual_admin_cooldown_def lifecycle_open_credit_line_def
  validate_credit_limit_bounds_def MAX_INTEREST_RATE_BPS_def MAX_RISK_SCORE_def publish_line_def default_credit_line_def
  lifecycle_default_credit_line_def require_valid_transition_def liquidation_base_ts_def room_for_def u32_max_def
  saturating_add_u32_def saturating_sub_u32_def saturating_add_u64_def u64_max_def settle_default_liquidation_def auction_settlement_hook_def
  lifecycle_settle_default_liquidation_def validate_settlement_oracle_price_def is_registry_configured_def allocate_recovery_def
  settlement_status_def record_settlement_def propose_admin_def accept_admin_def borrow_eval

lemma sample_opened:
  obtains w0 w1 l where "perform book_token no_auction sample_setup sample_start = Some w0" "st_lines w0 5 = None"
    "perform book_token no_auction [(1, [1], LifecycleCall (OpenCreditLine 5 10 0 0))] w0 = Some w1" "st_lines w1 5 = Some l"
proof -
  have "\<exists>w0. perform book_token no_auction sample_setup sample_start = Some w0 \<and> st_lines w0 5 = None \<and>
      (\<exists>w1. perform book_token no_auction [(1, [1], LifecycleCall (OpenCreditLine 5 10 0 0))] w0 = Some w1 \<and> st_lines w1 5 \<noteq> None)"
    by (simp add: sample_eval)
  then show ?thesis using that by blast
qed

lemma sample_drawn:
  obtains w1 w2 l l' where "perform book_token no_auction (take 4 credit_calls) sample_start = Some w1" "st_lines w1 5 = Some l"
    "perform book_token no_auction [(2, [5], BorrowCall (DrawCredit 5 8))] w1 = Some w2" "st_lines w2 5 = Some l'"
    "utilized_amount l - accrued_interest l < utilized_amount l' - accrued_interest l'" "st_admin w1 = Some 1"
proof -
  have "\<exists>w1. perform book_token no_auction (take 4 credit_calls) sample_start = Some w1 \<and> st_admin w1 = Some 1 \<and>
      (\<exists>l. st_lines w1 5 = Some l \<and> utilized_amount l = 0 \<and> accrued_interest l = 0) \<and>
      (\<exists>w2. perform book_token no_auction [(2, [5], BorrowCall (DrawCredit 5 8))] w1 = Some w2 \<and>
        (\<exists>l. st_lines w2 5 = Some l \<and> utilized_amount l = 8 \<and> accrued_interest l = 0))"
    by (simp add: credit_calls_def sample_eval)
  then show ?thesis using that by fastforce
qed

lemma sample_settled:
  obtains w l where "perform book_token no_auction credit_calls sample_start = Some w" "st_lines w 5 = Some l"
proof -
  have "\<exists>w. perform book_token no_auction credit_calls sample_start = Some w \<and> st_lines w 5 \<noteq> None"
    by (simp add: credit_calls_def sample_eval)
  then show ?thesis using that by blast
qed

lemma sample_run: "perform book_token no_auction xs sample_start = Some w \<Longrightarrow> run book_token no_auction (genesis 1 9 (\<lambda>_. 1000)) (map snd xs) w"
  using perform_runs[of book_token no_auction xs sample_start w] by (simp add: sample_start_def)

lemma sample_no_reversal: "\<forall>(sg, c)\<in>set (map snd credit_calls). \<not> reverses c" "\<forall>(sg, c)\<in>set (map snd sample_setup). \<not> reverses c"
  by (simp_all add: credit_calls_def sample_setup_def reverses_def)

lemma sample_no_reversal_take: "\<forall>(sg, c)\<in>set (map snd (take n credit_calls)). \<not> reverses c"
  using sample_no_reversal(1) by (auto dest!: in_set_takeD)

theorem books_always_balance_witness:
  "\<exists>w l. run book_token no_auction (genesis 1 9 (\<lambda>_. 1000)) (map snd credit_calls) w \<and> st_lines w 5 = Some l \<and> borrower l = 5
     \<and> ps_count (get_protocol_summary w) = int (card (dom (st_lines w)))"
proof -
  obtain w l where w: "perform book_token no_auction credit_calls sample_start = Some w" and l: "st_lines w 5 = Some l"
    by (rule sample_settled)
  show ?thesis using books_always_balance[OF sample_run[OF w]] sample_run[OF w] l by blast
qed

theorem debts_stay_in_range_witness:
  "\<exists>w l. run book_token no_auction (genesis 1 9 (\<lambda>_. 1000)) (map snd credit_calls) w \<and> st_lines w 5 = Some l \<and> 0 \<le> accrued_interest l
     \<and> accrued_interest l \<le> utilized_amount l"
proof -
  obtain w l where w: "perform book_token no_auction credit_calls sample_start = Some w" and l: "st_lines w 5 = Some l"
    by (rule sample_settled)
  show ?thesis using debts_stay_in_range[OF sample_run[OF w] sample_no_reversal(1) l] sample_run[OF w] l by blast
qed


theorem principal_needs_signature_witness:
  "(\<exists>w w' l. run book_token no_auction (genesis 1 9 (\<lambda>_. 1000)) (map snd sample_setup) w \<and>
      step book_token no_auction w ([1], LifecycleCall (OpenCreditLine 5 10 0 0)) w' \<and> st_lines w 5 = None \<and> st_lines w' 5 = Some l \<and>
      utilized_amount l = 0) \<and>
   (\<exists>w w' l l'. run book_token no_auction (genesis 1 9 (\<lambda>_. 1000)) (map snd (take 4 credit_calls)) w \<and>
      step book_token no_auction w ([5], BorrowCall (DrawCredit 5 8)) w' \<and> st_lines w 5 = Some l \<and> st_lines w' 5 = Some l' \<and>
      utilized_amount l' - accrued_interest l' = utilized_amount l - accrued_interest l + 8)"
proof
  obtain w w' l where w: "perform book_token no_auction sample_setup sample_start = Some w" and n: "st_lines w 5 = None"
    and w': "perform book_token no_auction [(1, [1], LifecycleCall (OpenCreditLine 5 10 0 0))] w = Some w'" and l: "st_lines w' 5 = Some l"
    by (rule sample_opened)
  show "\<exists>w w' l. run book_token no_auction (genesis 1 9 (\<lambda>_. 1000)) (map snd sample_setup) w \<and>
      step book_token no_auction w ([1], LifecycleCall (OpenCreditLine 5 10 0 0)) w' \<and> st_lines w 5 = None \<and> st_lines w' 5 = Some l \<and>
      utilized_amount l = 0"
    using principal_needs_signature[OF sample_run[OF w] sample_no_reversal(2) perform_step[OF w'] l] sample_run[OF w] perform_step[OF w'] n l
    by auto
next
  obtain w w' l l' where w: "perform book_token no_auction (take 4 credit_calls) sample_start = Some w" and l: "st_lines w 5 = Some l"
    and w': "perform book_token no_auction [(2, [5], BorrowCall (DrawCredit 5 8))] w = Some w'" and l': "st_lines w' 5 = Some l'"
    and p: "utilized_amount l - accrued_interest l < utilized_amount l' - accrued_interest l'"
    by (rule sample_drawn)
  have "utilized_amount l' - accrued_interest l' = utilized_amount l - accrued_interest l + 8"
    using principal_needs_signature[OF sample_run[OF w] sample_no_reversal_take perform_step[OF w'] l'] p by (auto simp: l)
  then show "\<exists>w w' l l'. run book_token no_auction (genesis 1 9 (\<lambda>_. 1000)) (map snd (take 4 credit_calls)) w \<and>
      step book_token no_auction w ([5], BorrowCall (DrawCredit 5 8)) w' \<and> st_lines w 5 = Some l \<and> st_lines w' 5 = Some l' \<and>
      utilized_amount l' - accrued_interest l' = utilized_amount l - accrued_interest l + 8"
    using sample_run[OF w] perform_step[OF w'] l l' by blast
qed

theorem settlement_once_per_run_witness:
  "\<exists>w. run book_token no_auction (genesis 1 9 (\<lambda>_. 1000)) (map snd credit_calls) w \<and>
     length (filter (\<lambda>(sg, c). settles c (5, ''s1'')) (map snd credit_calls)) = 1 \<and>
     (\<forall>sg x cf op w'. \<not> run book_token no_auction (genesis 1 9 (\<lambda>_. 1000))
        (map snd credit_calls @ [(sg, LifecycleCall (SettleDefaultLiquidation 5 x ''s1'' cf op))]) w')"
proof -
  have n: "length (filter (\<lambda>(sg, c). settles c (5, ''s1'')) (map snd credit_calls)) = 1"
    by (simp add: credit_calls_def sample_setup_def settles_def)
  moreover have "\<not> run book_token no_auction (genesis 1 9 (\<lambda>_. 1000))
        (map snd credit_calls @ [(sg, LifecycleCall (SettleDefaultLiquidation 5 x ''s1'' cf op))]) w'" for sg x cf op w'
    using settlement_once_per_run[of book_token no_auction 1 9 "\<lambda>_. 1000"
        "map snd credit_calls @ [(sg, LifecycleCall (SettleDefaultLiquidation 5 x ''s1'' cf op))]" w' 5 "''s1''"] n
    by (auto simp: settles_def)
  ultimately show ?thesis using sample_settled sample_run by metis
qed

theorem admin_changes_by_rotation_witness:
  "\<exists>w w'. run book_token no_auction (genesis 1 9 (\<lambda>_. 1000)) [([1], AdminCall (Init 1)), ([1], AdminCall (ProposeAdmin 4 50))] w \<and>
     step book_token no_auction w ([4], AdminCall AcceptAdmin) w' \<and> st_admin w' = Some 4 \<and> st_proposed_at w = Some 51 \<and> 51 \<le> ledger_ts w'"
proof -
  let ?cs = "[(1, [1], AdminCall (Init 1)), (1, [1], AdminCall (ProposeAdmin 4 50))]"
  have "\<exists>w. perform book_token no_auction ?cs sample_start = Some w \<and> st_admin w = Some 1 \<and> st_proposed_at w = Some 51 \<and>
      (\<exists>w'. perform book_token no_auction [(60, [4], AdminCall AcceptAdmin)] w = Some w' \<and> st_admin w' = Some 4)"
    by (simp add: sample_eval)
  then obtain w w' where w: "perform book_token no_auction ?cs sample_start = Some w" "st_admin w = Some 1" "st_proposed_at w = Some 51"
    and w': "perform book_token no_auction [(60, [4], AdminCall AcceptAdmin)] w = Some w'" "st_admin w' = Some 4" by blast
  have "51 \<le> ledger_ts w'"
    using admin_changes_by_rotation[OF perform_step[OF w'(1)]] w w'(2) by auto
  then show ?thesis using sample_run[OF w(1)] perform_step[OF w'(1)] w w'(2) by auto
qed

theorem collateral_needs_signature_witness:
  "\<exists>w'. step book_token no_auction borrow_env ([5], CollateralCall (DepositCollateral 5 1)) w'
     \<and> st_collateral_balance w' 5 \<noteq> st_collateral_balance borrow_env 5 \<and> (5 :: address) \<in> set [5]"
proof -
  let ?f = "frame_of 100 1 [5] (\<lambda>_. 1000) borrow_env"
  have "returns (deposit_collateral book_token 5 1 ?f) (\<lambda>w. st_collateral_balance w 5 = Some 3)"
    by (simp add: returns_def frame_of_def deposit_collateral_def collateral_token_or_err_def set_collateral_balance_def
        adjust_total_collateral_def assert_total_collateral_conserved_def publish_collateral_lifecycle_event_def
        borrow_eval borrow_env_def pledge_env_def genesis_def store_defs)
  then obtain w' where e: "exec book_token no_auction (CollateralCall (DepositCollateral 5 1)) ?f = Inr w'"
    and v: "st_collateral_balance w' 5 = Some 3" by (auto elim: returnsE)
  have s: "step book_token no_auction borrow_env ([5], CollateralCall (DepositCollateral 5 1)) w'"
    by (rule step.invoke[OF e]) (simp_all add: borrow_reads)
  have n: "st_collateral_balance w' 5 \<noteq> st_collateral_balance borrow_env 5" using v by (simp add: borrow_reads)
  show ?thesis using collateral_needs_signature[OF s n] s n by blast
qed

theorem rotation_completes_witness:
  "\<exists>w1 w3. propose_admin 4 50 (borrow_env\<lparr>signers := [1]\<rparr>) = Inr w1
     \<and> exec book_token no_auction (AdminCall AcceptAdmin) (frame_of 150 1 [4] (\<lambda>_. 0) w1) = Inr w3 \<and> st_admin w3 = Some 4"
proof -
  obtain w1 where w1: "propose_admin 4 50 (borrow_env\<lparr>signers := [1]\<rparr>) = Inr w1"
    by (simp add: propose_admin_def require_admin_auth_def require_admin_def require_auth_def borrow_reads Let_def)
  then show ?thesis using rotation_completes[OF w1 refl refl, of 150 book_token no_auction 1 "\<lambda>_. 0"]
    by (auto simp: borrow_reads)
qed

end
